(* ===== verification/Prelude.thy ===== *)
theory Prelude
  imports Main
begin

text \<open>
  Shared vocabulary of the development: Python exceptions as values, results as
  \<open>exn + 'a\<close>, the sequencing of fallible steps, the association lists that model
  Python dictionaries whose order matters, and the generic list lemmas that the
  component theories use.  The collection \<open>res_simps\<close> gathers the rules that take a
  successful chain of fallible steps apart.
\<close>

named_theorems res_simps \<open>decomposition of fallible steps\<close>

type_synonym bytes = string

section \<open>Exceptions as values\<close>

text \<open>
  One constructor per Python exception class the modelled code raises or catches.
  \<open>Diverge\<close> is no Python exception: it is the value of a recursion that was given too
  little fuel, and every fuelled function of the development is proved never to return
  it with the fuel its wrapper passes.
\<close>

datatype exn =
    ValueError | UnicodeError | OverflowError | LookupError | KeyError | IndexError
  | TypeError | ZlibError | RecursionError | TimeoutError | NotImplementedError
  | OperationalError | FileExistsError | OSError | RuntimeError | AttributeError
  | PermissionDenied | ImproperlyConfigured | ResponseError | DoesNotExist | BadSignature
  | ValidationError | AccessError string | SealedSetupError | CommandError string | AssertionError
  | SubprocessError | Cancelled | SystemExit | Diverge

type_synonym 'a res = "exn + 'a"

text \<open>The part of Python's exception hierarchy that the \<open>except\<close> clauses depend on.\<close>

definition isa_ValueError :: "exn \<Rightarrow> bool" where
  "isa_ValueError e \<longleftrightarrow> e \<in> {ValueError, UnicodeError, SealedSetupError}"

definition isa_LookupError :: "exn \<Rightarrow> bool" where
  "isa_LookupError e \<longleftrightarrow> e \<in> {LookupError, KeyError, IndexError}"

definition isa_OSError :: "exn \<Rightarrow> bool" where
  "isa_OSError e \<longleftrightarrow> e \<in> {OSError, FileExistsError, TimeoutError}"

lemma isa_simps [simp]:
  "isa_ValueError ValueError" "isa_ValueError UnicodeError" "\<not> isa_ValueError KeyError"
  "\<not> isa_ValueError IndexError" "\<not> isa_ValueError TypeError"
  "\<not> isa_ValueError OverflowError" "\<not> isa_ValueError RecursionError"
  "\<not> isa_ValueError OperationalError" "\<not> isa_ValueError LookupError"
  "\<not> isa_ValueError ZlibError" "\<not> isa_ValueError Diverge"
  "isa_ValueError SealedSetupError" "\<not> isa_ValueError AttributeError" "\<not> isa_ValueError DoesNotExist"
  "\<not> isa_ValueError BadSignature"
  "isa_LookupError KeyError" "isa_LookupError IndexError" "isa_LookupError LookupError"
  "\<not> isa_LookupError ValueError" "\<not> isa_LookupError UnicodeError"
  "\<not> isa_LookupError TypeError"
  by (simp_all add: isa_ValueError_def isa_LookupError_def)

section \<open>Sequencing fallible steps\<close>

fun res_bind :: "'e + 'a \<Rightarrow> ('a \<Rightarrow> 'e + 'b) \<Rightarrow> 'e + 'b" where
  "res_bind (Inl e) f = Inl e"
| "res_bind (Inr x) f = f x"

definition res_guard :: "bool \<Rightarrow> 'e \<Rightarrow> 'e + unit" where
  "res_guard b e = (if b then Inr () else Inl e)"

fun res_map :: "('a \<Rightarrow> 'e + 'b) \<Rightarrow> 'a list \<Rightarrow> 'e + 'b list" where
  "res_map f [] = Inr []"
| "res_map f (x # xs) =
     res_bind (f x) (\<lambda>y. res_bind (res_map f xs) (\<lambda>ys. Inr (y # ys)))"

lemma res_bind_Inr_iff [res_simps]:
  "res_bind m f = Inr y \<longleftrightarrow> (\<exists>x. m = Inr x \<and> f x = Inr y)"
  by (cases m) auto

lemma res_bind_Inl_iff:
  "res_bind m f = Inl e \<longleftrightarrow> m = Inl e \<or> (\<exists>x. m = Inr x \<and> f x = Inl e)"
  by (cases m) auto

lemma res_guard_Inr_iff [res_simps]: "res_guard b e = Inr u \<longleftrightarrow> b"
  by (simp add: res_guard_def)

lemma res_guard_Inl_iff [res_simps]: "res_guard b e = Inl e' \<longleftrightarrow> \<not> b \<and> e' = e"
  by (auto simp: res_guard_def)

lemma res_guard_simps [simp]: "res_guard True e = Inr ()" "res_guard False e = Inl e"
  by (simp_all add: res_guard_def)

lemma res_map_length: "res_map f xs = Inr ys \<Longrightarrow> length ys = length xs"
  by (induction xs arbitrary: ys) (auto simp: res_simps)

lemma res_map_nth:
  "res_map f xs = Inr ys \<Longrightarrow> i < length xs \<Longrightarrow> f (xs ! i) = Inr (ys ! i)"
proof (induction xs arbitrary: ys i)
  case (Cons x xs)
  then show ?case by (cases i) (auto simp: res_simps)
qed simp

lemma res_map_Inr: "(\<And>x. x \<in> set xs \<Longrightarrow> f x = Inr (g x)) \<Longrightarrow> res_map f xs = Inr (map g xs)"
  by (induction xs) auto

section \<open>Dictionaries that keep their insertion order\<close>

type_synonym ('k, 'v) dict = "('k \<times> 'v) list"

abbreviation dget :: "('k, 'v) dict \<Rightarrow> 'k \<Rightarrow> 'v option" where
  "dget d k \<equiv> map_of d k"

definition dkeys :: "('k, 'v) dict \<Rightarrow> 'k set" where
  "dkeys d = set (map fst d)"

fun dset :: "'k \<Rightarrow> 'v \<Rightarrow> ('k, 'v) dict \<Rightarrow> ('k, 'v) dict" where
  "dset k v [] = [(k, v)]"
| "dset k v (p # d) = (if fst p = k then (k, v) # d else p # dset k v d)"

lemma dget_dset [simp]: "dget (dset k v d) j = (if j = k then Some v else dget d j)"
  by (induction d) auto

lemma keys_dset: "map fst (dset k v d) = (if k \<in> set (map fst d) then map fst d else map fst d @ [k])"
  by (induction d) auto

lemma distinct_dset: "distinct (map fst d) \<Longrightarrow> distinct (map fst (dset k v d))"
  by (simp add: keys_dset del: set_map)

lemma dset_new: "k \<notin> set (map fst d) \<Longrightarrow> dset k v d = d @ [(k, v)]"
  by (induction d) auto

section \<open>Lists\<close>

definition keep_last :: "nat \<Rightarrow> 'a list \<Rightarrow> 'a list" where
  \<comment> \<open>\<open>del xs[:-n]\<close> for a positive \<open>n\<close>\<close>
  "keep_last n xs = drop (length xs - n) xs"

lemma length_keep_last [simp]: "length (keep_last n xs) = min n (length xs)"
  by (simp add: keep_last_def)

lemma keep_last_snoc: "0 < n \<Longrightarrow> last (keep_last n (xs @ [x])) = x"
  by (simp add: keep_last_def)

lemma takeWhile_all: "list_all P xs \<Longrightarrow> takeWhile P (xs @ ys) = xs @ takeWhile P ys"
  by (induction xs) auto

lemma dropWhile_all: "list_all P xs \<Longrightarrow> dropWhile P (xs @ ys) = dropWhile P ys"
  by (induction xs) auto

lemma card_le_of_list: "card (set xs) \<le> length xs"
  by (rule card_length)

section \<open>Stateful steps that may raise\<close>

text \<open>
  Code that threads a state and may raise keeps the state it had reached when it raised:
  a step maps a state to its result or exception and the state it leaves.
\<close>

type_synonym ('s, 'a) sx = "'s \<Rightarrow> 'a res \<times> 's"

definition sx_return :: "'a \<Rightarrow> ('s, 'a) sx" where
  "sx_return v s = (Inr v, s)"

definition sx_raise :: "exn \<Rightarrow> ('s, 'a) sx" where
  "sx_raise x s = (Inl x, s)"

definition sx_lift :: "'a res \<Rightarrow> ('s, 'a) sx" where
  "sx_lift r s = (r, s)"

definition sx_bind :: "('s, 'a) sx \<Rightarrow> ('a \<Rightarrow> ('s, 'b) sx) \<Rightarrow> ('s, 'b) sx" where
  "sx_bind m f s = (case m s of (Inl x, s1) \<Rightarrow> (Inl x, s1) | (Inr v, s1) \<Rightarrow> f v s1)"

definition sx_guard :: "bool \<Rightarrow> exn \<Rightarrow> ('s, unit) sx" where
  "sx_guard b x s = (if b then (Inr (), s) else (Inl x, s))"

definition sx_catch :: "('s, 'a) sx \<Rightarrow> (exn \<Rightarrow> ('s, 'a) sx option) \<Rightarrow> ('s, 'a) sx" where
  \<comment> \<open>\<open>try: m; except: h\<close>, where \<open>h\<close> is \<open>None\<close> on what the clauses do not name\<close>
  "sx_catch m h s = (case m s of
       (Inr v, s1) \<Rightarrow> (Inr v, s1)
     | (Inl x, s1) \<Rightarrow> (case h x of None \<Rightarrow> (Inl x, s1) | Some k \<Rightarrow> k s1))"

named_theorems sx_simps \<open>decomposition of stateful steps\<close>

lemma sx_return_iff [sx_simps]: "sx_return v s = (r, s') \<longleftrightarrow> r = Inr v \<and> s' = s"
  by (auto simp: sx_return_def)

lemma sx_raise_iff [sx_simps]: "sx_raise x s = (r, s') \<longleftrightarrow> r = Inl x \<and> s' = s"
  by (auto simp: sx_raise_def)

lemma sx_lift_iff [sx_simps]: "sx_lift r s = (r', s') \<longleftrightarrow> r = r' \<and> s' = s"
  by (auto simp: sx_lift_def)

lemma sx_bind_Inr_iff [sx_simps]:
  "sx_bind m f s = (Inr y, s') \<longleftrightarrow> (\<exists>v s1. m s = (Inr v, s1) \<and> f v s1 = (Inr y, s'))"
  by (auto simp: sx_bind_def split: prod.splits sum.splits)

lemma sx_bind_Inl_iff:
  "sx_bind m f s = (Inl x, s') \<longleftrightarrow>
     m s = (Inl x, s') \<or> (\<exists>v s1. m s = (Inr v, s1) \<and> f v s1 = (Inl x, s'))"
  by (auto simp: sx_bind_def split: prod.splits sum.splits)

lemma sx_guard_iff [sx_simps]:
  "sx_guard b x s = (Inr u, s') \<longleftrightarrow> b \<and> s' = s"
  "sx_guard b x s = (Inl y, s') \<longleftrightarrow> \<not> b \<and> y = x \<and> s' = s"
  by (auto simp: sx_guard_def)

text \<open>
  Steps that only move the state along a preorder (an append-only history, a growing
  counter, equality on the part that must not change): sequencing and exception handling
  keep the property, so an operation has it when its statements do.
\<close>

locale frame =
  fixes R :: "'s \<Rightarrow> 's \<Rightarrow> bool"
  assumes R_refl: "R s s" and R_trans: "R s t \<Longrightarrow> R t u \<Longrightarrow> R s u"
begin

definition keeps :: "('s, 'a) sx \<Rightarrow> bool" where
  "keeps m \<longleftrightarrow> (\<forall>s. R s (snd (m s)))"

lemma keepsD: "keeps m \<Longrightarrow> m s = (r, s') \<Longrightarrow> R s s'"
  by (metis keeps_def snd_conv)

lemma keepsI: "(\<And>s r s'. m s = (r, s') \<Longrightarrow> R s s') \<Longrightarrow> keeps m"
  by (metis keeps_def prod.collapse)

lemma keeps_return: "keeps (sx_return v)"
  by (simp add: keeps_def sx_return_def R_refl)

lemma keeps_raise: "keeps (sx_raise x)"
  by (simp add: keeps_def sx_raise_def R_refl)

lemma keeps_lift: "keeps (sx_lift r)"
  by (simp add: keeps_def sx_lift_def R_refl)

lemma keeps_guard: "keeps (sx_guard b x)"
  by (simp add: keeps_def sx_guard_def R_refl)

lemma keeps_bind:
  assumes "keeps m" and "\<And>v. keeps (f v)"
  shows "keeps (sx_bind m f)"
proof (rule keepsI)
  fix s r s' assume step: "sx_bind m f s = (r, s')"
  show "R s s'"
  proof (cases r)
    case (Inl x)
    with step show ?thesis using assms by (auto simp: sx_bind_Inl_iff dest: keepsD intro: R_trans)
  next
    case (Inr y)
    with step show ?thesis using assms by (auto simp: sx_bind_Inr_iff dest: keepsD intro: R_trans)
  qed
qed

lemma keeps_catch:
  assumes "keeps m" and "\<And>x k. h x = Some k \<Longrightarrow> keeps k"
  shows "keeps (sx_catch m h)"
  unfolding sx_catch_def
proof (rule keepsI)
  fix s r s'
  assume "(case m s of (Inr v, s1) \<Rightarrow> (Inr v, s1)
     | (Inl x, s1) \<Rightarrow> (case h x of None \<Rightarrow> (Inl x, s1) | Some k \<Rightarrow> k s1)) = (r, s')"
  then show "R s s'"
    by (auto split: prod.splits sum.splits option.splits dest: keepsD [OF assms(1)])
       (blast dest: keepsD [OF assms(1)] keepsD [OF assms(2)] intro: R_trans)
qed

lemmas keeps_intros = keeps_return keeps_raise keeps_lift keeps_guard keeps_bind keeps_catch

end

section \<open>Steps that keep an invariant\<close>

text \<open>
  The contract of every stateful component: a step relation and a predicate its steps
  keep.  What a component proves of one step then holds of every run.  The locale has no
  initial state; a component states separately that it starts inside the invariant.
\<close>

locale invariant_steps =
  fixes step :: "'s \<Rightarrow> 's \<Rightarrow> bool"
    and inv :: "'s \<Rightarrow> bool"
  assumes step_inv: "inv s \<Longrightarrow> step s t \<Longrightarrow> inv t"
begin

lemma steps_inv: "step\<^sup>*\<^sup>* s t \<Longrightarrow> inv s \<Longrightarrow> inv t"
  by (induction rule: rtranclp_induct) (auto intro: step_inv)

lemma steps_mono:
  fixes f :: "'s \<Rightarrow> 'b::preorder"
  assumes "step\<^sup>*\<^sup>* s t" and "inv s"
    and "\<And>s t. inv s \<Longrightarrow> step s t \<Longrightarrow> f s \<le> f t"
  shows "f s \<le> f t"
  using assms(1)
proof (induction rule: rtranclp_induct)
  case (step y z)
  then have "inv y" using steps_inv assms(2) by blast
  with step assms(3) show ?case by (blast intro: order_trans)
qed simp

lemma steps_keep:
  assumes "step\<^sup>*\<^sup>* s t" and "inv s" and "P s"
    and "\<And>s t. inv s \<Longrightarrow> step s t \<Longrightarrow> P s \<Longrightarrow> P t"
  shows "P t"
  using assms(1)
proof (induction rule: rtranclp_induct)
  case (step y z)
  then have "inv y" using steps_inv assms(2) by blast
  with step assms(4) show ?case by blast
qed (rule assms(3))

end

end
