(* ===== verification/Py_Text.thy ===== *)
theory Py_Text
  imports Prelude "HOL-Library.Char_ord" "HOL-Library.List_Lexorder"
begin

text \<open>
  Python text.  A \<open>str\<close> is modelled by the bytes of its UTF-8 encoding (lone surrogates,
  which Python allows, by the three bytes the same scheme gives them), a \<open>bytes\<close> object by
  its bytes.  Decoding UTF-8 is then a validity check.  \<open>code_points\<close> recovers the
  characters, so that \<open>len\<close>, \<open>ord\<close> and \<open>strip\<close> count what Python counts; everywhere
  else the code compares with ASCII literals and classes only, on which bytes and
  characters agree.  The theory also holds the decimal numerals (\<open>int\<close>, \<open>str\<close>), the
  character classes of the regular expressions in use, \<open>startswith\<close>, \<open>split\<close>,
  \<open>replace\<close> and the hexadecimal forms.
\<close>

section \<open>Characters\<close>

abbreviation ord :: "char \<Rightarrow> nat" where
  "ord c \<equiv> of_char c"

definition in_range :: "char \<Rightarrow> char \<Rightarrow> char \<Rightarrow> bool" where
  "in_range lo hi c \<longleftrightarrow> ord lo \<le> ord c \<and> ord c \<le> ord hi"

definition is_digit :: "char \<Rightarrow> bool" where
  "is_digit c \<longleftrightarrow> in_range (CHR ''0'') (CHR ''9'') c"

definition is_lower_hex :: "char \<Rightarrow> bool" where
  \<comment> \<open>\<open>[a-f0-9]\<close>\<close>
  "is_lower_hex c \<longleftrightarrow> is_digit c \<or> in_range (CHR ''a'') (CHR ''f'') c"

definition is_upper :: "char \<Rightarrow> bool" where
  "is_upper c \<longleftrightarrow> in_range (CHR ''A'') (CHR ''Z'') c"

definition is_lower :: "char \<Rightarrow> bool" where
  "is_lower c \<longleftrightarrow> in_range (CHR ''a'') (CHR ''z'') c"

definition is_alnum :: "char \<Rightarrow> bool" where
  "is_alnum c \<longleftrightarrow> is_digit c \<or> is_upper c \<or> is_lower c"

definition is_urlsafe :: "char \<Rightarrow> bool" where
  \<comment> \<open>\<open>[A-Za-z0-9_-]\<close>\<close>
  "is_urlsafe c \<longleftrightarrow> is_alnum c \<or> c = CHR ''_'' \<or> c = CHR ''-''"

definition is_ascii :: "char \<Rightarrow> bool" where
  "is_ascii c \<longleftrightarrow> ord c < 128"

definition isascii :: "string \<Rightarrow> bool" where
  "isascii s \<longleftrightarrow> list_all is_ascii s"

text \<open>\<open>re.fullmatch('[class]{n}', s)\<close> and \<open>re.fullmatch('[class]{lo,hi}', s)\<close>\<close>

definition fullmatch_n :: "(char \<Rightarrow> bool) \<Rightarrow> nat \<Rightarrow> string \<Rightarrow> bool" where
  "fullmatch_n p n s \<longleftrightarrow> length s = n \<and> list_all p s"

definition fullmatch_range :: "(char \<Rightarrow> bool) \<Rightarrow> nat \<Rightarrow> nat \<Rightarrow> string \<Rightarrow> bool" where
  "fullmatch_range p lo hi s \<longleftrightarrow> lo \<le> length s \<and> length s \<le> hi \<and> list_all p s"

definition is_sha256_hex :: "string \<Rightarrow> bool" where
  \<comment> \<open>\<open>[a-f0-9]{64}\<close>\<close>
  "is_sha256_hex = fullmatch_n is_lower_hex 64"

lemmas char_class_defs = in_range_def is_digit_def is_lower_hex_def is_upper_def is_lower_def
  is_alnum_def is_urlsafe_def is_ascii_def

lemma is_digit_ascii [simp]: "is_digit c \<Longrightarrow> is_ascii c"
  by (simp add: char_class_defs)

lemma is_lower_hex_urlsafe: "is_lower_hex c \<Longrightarrow> is_urlsafe c"
  by (auto simp: char_class_defs)

lemma is_urlsafe_ascii: "is_urlsafe c \<Longrightarrow> is_ascii c"
  by (auto simp: char_class_defs)

section \<open>UTF-8\<close>

definition is_cont :: "char \<Rightarrow> bool" where
  "is_cont c \<longleftrightarrow> 128 \<le> ord c \<and> ord c < 192"

text \<open>
  What \<open>bytes.decode('utf-8')\<close> accepts: no overlong form, nothing above U+10FFFF, and a
  surrogate only with the error handler \<open>surrogatepass\<close> (the flag).
\<close>

fun valid_utf8 :: "bool \<Rightarrow> bytes \<Rightarrow> bool" where
  "valid_utf8 sp [] = True"
| "valid_utf8 sp (c # cs) =
     (let b = ord c in
      if b < 128 then valid_utf8 sp cs
      else if 194 \<le> b \<and> b < 224 then
        (case cs of c1 # r \<Rightarrow> is_cont c1 \<and> valid_utf8 sp r | _ \<Rightarrow> False)
      else if 224 \<le> b \<and> b < 240 then
        (case cs of c1 # c2 # r \<Rightarrow>
           is_cont c1 \<and> is_cont c2 \<and> (b = 224 \<longrightarrow> 160 \<le> ord c1)
           \<and> (b = 237 \<and> \<not> sp \<longrightarrow> ord c1 < 160) \<and> valid_utf8 sp r
         | _ \<Rightarrow> False)
      else if 240 \<le> b \<and> b < 245 then
        (case cs of c1 # c2 # c3 # r \<Rightarrow>
           is_cont c1 \<and> is_cont c2 \<and> is_cont c3 \<and> (b = 240 \<longrightarrow> 144 \<le> ord c1)
           \<and> (b = 244 \<longrightarrow> ord c1 < 144) \<and> valid_utf8 sp r
         | _ \<Rightarrow> False)
      else False)"

definition utf8_decode :: "bool \<Rightarrow> bytes \<Rightarrow> string res" where
  "utf8_decode sp raw = (if valid_utf8 sp raw then Inr raw else Inl UnicodeError)"

definition utf8_encode :: "nat \<Rightarrow> string" where
  "utf8_encode n =
     (if n < 128 then [char_of n]
      else if n < 2048 then [char_of (192 + n div 64), char_of (128 + n mod 64)]
      else if n < 65536 then
        [char_of (224 + n div 4096), char_of (128 + n div 64 mod 64), char_of (128 + n mod 64)]
      else
        [char_of (240 + n div 262144), char_of (128 + n div 4096 mod 64),
         char_of (128 + n div 64 mod 64), char_of (128 + n mod 64)])"

fun code_points :: "string \<Rightarrow> nat list" where
  "code_points [] = []"
| "code_points (c # cs) =
     (let b = ord c in
      if b < 192 then b # code_points cs
      else if b < 224 then
        (case cs of c1 # r \<Rightarrow> ((b - 192) * 64 + (ord c1 - 128)) # code_points r | _ \<Rightarrow> [b])
      else if b < 240 then
        (case cs of c1 # c2 # r \<Rightarrow>
           ((b - 224) * 4096 + (ord c1 - 128) * 64 + (ord c2 - 128)) # code_points r
         | _ \<Rightarrow> [b])
      else
        (case cs of c1 # c2 # c3 # r \<Rightarrow>
           ((b - 240) * 262144 + (ord c1 - 128) * 4096 + (ord c2 - 128) * 64 + (ord c3 - 128))
           # code_points r
         | _ \<Rightarrow> [b]))"

definition py_len :: "string \<Rightarrow> nat" where
  "py_len s = length (code_points s)"

lemma code_points_ascii: "list_all is_ascii s \<Longrightarrow> code_points s = map ord s"
  by (induction s) (auto simp: is_ascii_def)

lemma py_len_ascii [simp]: "isascii s \<Longrightarrow> py_len s = length s"
  by (simp add: py_len_def code_points_ascii isascii_def)

lemma valid_utf8_ascii: "list_all is_ascii s \<Longrightarrow> valid_utf8 sp s"
  by (induction s) (auto simp: is_ascii_def)

lemma utf8_decode_ascii: "list_all is_ascii s \<Longrightarrow> utf8_decode sp s = Inr s"
  by (simp add: utf8_decode_def valid_utf8_ascii)

lemma utf8_decode_Inr: "utf8_decode sp raw = Inr t \<Longrightarrow> t = raw"
  by (simp add: utf8_decode_def split: if_splits)

section \<open>White space\<close>

text \<open>The code points \<open>str.strip\<close> and \<open>str.split\<close> remove.\<close>

definition is_py_space :: "nat \<Rightarrow> bool" where
  "is_py_space n \<longleftrightarrow> (9 \<le> n \<and> n \<le> 13) \<or> (28 \<le> n \<and> n \<le> 32) \<or> n = 133 \<or> n = 160 \<or> n = 5760
     \<or> (8192 \<le> n \<and> n \<le> 8202) \<or> n = 8232 \<or> n = 8233 \<or> n = 8239 \<or> n = 8287 \<or> n = 12288"

definition strip_points :: "nat list \<Rightarrow> nat list" where
  "strip_points xs = rev (dropWhile is_py_space (rev (dropWhile is_py_space xs)))"

definition py_strip :: "string \<Rightarrow> string" where
  "py_strip s = concat (map utf8_encode (strip_points (code_points s)))"

text \<open>\<open>s == s.strip()\<close>, decided on the characters.\<close>

definition is_stripped :: "string \<Rightarrow> bool" where
  "is_stripped s \<longleftrightarrow> strip_points (code_points s) = code_points s"

text \<open>\<open>str.split()\<close> with no separator, on characters: the maximal runs without white space.\<close>

fun split_ws_acc :: "nat list \<Rightarrow> nat list \<Rightarrow> nat list list" where
  "split_ws_acc acc [] = (if acc = [] then [] else [rev acc])"
| "split_ws_acc acc (x # xs) =
     (if is_py_space x then (if acc = [] then split_ws_acc [] xs else rev acc # split_ws_acc [] xs)
      else split_ws_acc (x # acc) xs)"

definition py_split_ws :: "string \<Rightarrow> string list" where
  "py_split_ws s = map (\<lambda>w. concat (map utf8_encode w)) (split_ws_acc [] (code_points s))"

section \<open>Prefixes, separators, replacement\<close>

fun startswith :: "string \<Rightarrow> string \<Rightarrow> bool" where
  "startswith s [] = True"
| "startswith [] (p # ps) = False"
| "startswith (c # cs) (p # ps) = (c = p \<and> startswith cs ps)"

lemma startswith_iff: "startswith s p \<longleftrightarrow> (\<exists>r. s = p @ r)"
  by (induction s p rule: startswith.induct) auto

lemma startswith_append [simp]: "startswith (p @ r) p"
  by (simp add: startswith_iff)

text \<open>\<open>s.split(c)\<close> for a one-character separator: always at least one part.\<close>

fun split_on :: "char \<Rightarrow> string \<Rightarrow> string list" where
  "split_on d [] = [[]]"
| "split_on d (c # cs) =
     (if c = d then [] # split_on d cs
      else case split_on d cs of [] \<Rightarrow> [[c]] | p # ps \<Rightarrow> (c # p) # ps)"

fun join_on :: "char \<Rightarrow> string list \<Rightarrow> string" where
  "join_on d [] = []"
| "join_on d [p] = p"
| "join_on d (p # ps) = p @ d # join_on d ps"

lemma split_on_nonempty [simp]: "split_on d s \<noteq> []"
  by (induction s) (auto split: list.splits)

lemma join_split [simp]: "join_on d (split_on d s) = s"
proof (induction s)
  case (Cons c cs)
  obtain p ps where ps: "split_on d cs = p # ps"
    by (metis list.exhaust split_on_nonempty)
  with Cons show ?case by (cases ps) auto
qed simp

text \<open>\<open>s.split(c, 1)\<close>: \<open>None\<close> stands for the one-element result.\<close>

fun split_first :: "char \<Rightarrow> string \<Rightarrow> (string \<times> string) option" where
  "split_first d [] = None"
| "split_first d (c # cs) =
     (if c = d then Some ([], cs)
      else case split_first d cs of None \<Rightarrow> None | Some (a, b) \<Rightarrow> Some (c # a, b))"

lemma split_first_Some: "split_first d s = Some (a, b) \<Longrightarrow> s = a @ d # b \<and> d \<notin> set a"
  by (induction s arbitrary: a b) (auto split: if_splits option.splits)

definition lower_char :: "char \<Rightarrow> char" where
  "lower_char c = (if is_upper c then char_of (ord c + 32) else c)"

definition py_lower_ascii :: "string \<Rightarrow> string" where
  "py_lower_ascii = map lower_char"

end
