(* ===== verification/Py_Numerals.thy ===== *)
theory Py_Numerals
  imports Py_Text
begin

text \<open>
  Decimal and hexadecimal numerals: \<open>str(n)\<close>, \<open>int(s)\<close> (optional sign, white space
  around, single underscores between digits), \<open>str.isdecimal\<close> on ASCII text, and
  \<open>bytes.hex\<close>/\<open>hexdigest\<close>.  The lemmas give the round trip \<open>int(str(n)) = n\<close>, on which
  the JSON round trip rests, and the shape of hexadecimal digests.
\<close>

section \<open>Decimal\<close>

definition digit_char :: "nat \<Rightarrow> char" where
  "digit_char n = char_of (48 + n)"

definition digit_val :: "char \<Rightarrow> nat" where
  "digit_val c = ord c - 48"

fun show_nat :: "nat \<Rightarrow> string" where
  "show_nat n = (if n < 10 then [digit_char n] else show_nat (n div 10) @ [digit_char (n mod 10)])"

declare show_nat.simps [simp del]

definition show_int :: "int \<Rightarrow> string" where
  "show_int i = (if i < 0 then CHR ''-'' # show_nat (nat (- i)) else show_nat (nat i))"

definition read_digits :: "string \<Rightarrow> nat" where
  "read_digits s = foldl (\<lambda>n c. 10 * n + digit_val c) 0 s"

lemma ord_digit_char: "n < 10 \<Longrightarrow> ord (digit_char n) = 48 + n"
  by (simp add: digit_char_def)

lemma is_digit_digit_char [simp]: "n < 10 \<Longrightarrow> is_digit (digit_char n)"
  by (simp add: is_digit_def in_range_def ord_digit_char)

lemma digit_val_digit_char [simp]: "n < 10 \<Longrightarrow> digit_val (digit_char n) = n"
  by (simp add: digit_val_def ord_digit_char)

lemma show_nat_digits: "list_all is_digit (show_nat n)"
proof (induction n rule: show_nat.induct)
  case (1 n)
  then show ?case by (subst show_nat.simps) (simp del: One_nat_def)
qed

lemma show_nat_nonempty [simp]: "show_nat n \<noteq> []"
  by (subst show_nat.simps) simp

lemma show_nat_hd_digit: "is_digit (hd (show_nat n))"
  using show_nat_digits [of n] by (cases "show_nat n") auto

lemma read_digits_show_nat [simp]: "read_digits (show_nat n) = n"
proof (induction n rule: show_nat.induct)
  case (1 n)
  show ?case
  proof (cases "n < 10")
    case True
    then show ?thesis by (subst show_nat.simps) (simp add: read_digits_def)
  next
    case False
    with 1 have "read_digits (show_nat (n div 10)) = n div 10" by simp
    with False show ?thesis
      by (subst show_nat.simps) (simp add: read_digits_def)
  qed
qed

lemma show_nat_inject: "show_nat m = show_nat n \<longleftrightarrow> m = n"
  by (metis read_digits_show_nat)

text \<open>A numeral printed by \<open>str\<close> has no leading zero.\<close>

lemma show_nat_leading: "0 < n \<Longrightarrow> hd (show_nat n) \<noteq> CHR ''0''"
proof (induction n rule: show_nat.induct)
  case (1 n)
  show ?case
  proof (cases "n < 10")
    case True
    then have "ord (digit_char n) \<noteq> ord (CHR ''0'')"
      using "1.prems" by (simp add: ord_digit_char)
    with True show ?thesis by (subst show_nat.simps) auto
  next
    case False
    with 1 show ?thesis by (subst show_nat.simps) simp
  qed
qed

lemma show_nat_0: "show_nat 0 = ''0''"
  by code_simp

lemma length_show_nat: "n < 10 ^ k \<Longrightarrow> 0 < k \<Longrightarrow> length (show_nat n) \<le> k"
proof (induction n arbitrary: k rule: show_nat.induct)
  case (1 n)
  show ?case
  proof (cases "n < 10")
    case True
    with "1.prems" show ?thesis by (subst show_nat.simps) simp
  next
    case False
    with "1.prems" obtain j where k: "k = Suc j" "0 < j"
      by (cases k; cases "k - 1") auto
    with "1.prems" have "n div 10 < 10 ^ j" by (simp add: less_mult_imp_div_less mult.commute)
    with "1.IH" False k have "length (show_nat (n div 10)) \<le> j" by simp
    with False k show ?thesis by (subst show_nat.simps) simp
  qed
qed

text \<open>\<open>str.isdecimal\<close> for ASCII text.\<close>

definition isdecimal :: "string \<Rightarrow> bool" where
  "isdecimal s \<longleftrightarrow> s \<noteq> [] \<and> list_all is_digit s"

text \<open>
  \<open>int(s)\<close>: digits with single underscores between them, an optional sign and
  surrounding white space; anything else raises \<open>ValueError\<close>, as do more than 4300 digits.
\<close>

fun underscored :: "bool \<Rightarrow> string \<Rightarrow> bool" where
  \<comment> \<open>the flag says whether the last character was a digit\<close>
  "underscored d [] = d"
| "underscored d (c # cs) =
     (if is_digit c then underscored True cs
      else if c = CHR ''_'' \<and> d then underscored False cs else False)"

definition max_int_digits :: nat where
  "max_int_digits = 4300"

definition py_int_digits :: "string \<Rightarrow> nat res" where
  "py_int_digits s =
     (let ds = filter is_digit s in
      if underscored False s \<and> length ds \<le> max_int_digits
      then Inr (read_digits ds) else Inl ValueError)"

definition py_int :: "string \<Rightarrow> int res" where
  "py_int s = (case py_strip s of
       [] \<Rightarrow> Inl ValueError
     | c # cs \<Rightarrow>
         if c = CHR ''-'' then res_bind (py_int_digits cs) (\<lambda>n. Inr (- int n))
         else if c = CHR ''+'' then res_bind (py_int_digits cs) (\<lambda>n. Inr (int n))
         else res_bind (py_int_digits (c # cs)) (\<lambda>n. Inr (int n)))"

lemma underscored_digits: "list_all is_digit s \<Longrightarrow> underscored d s \<longleftrightarrow> d \<or> s \<noteq> []"
  by (induction s arbitrary: d) auto

lemma filter_digits: "list_all is_digit s \<Longrightarrow> filter is_digit s = s"
  by (induction s) auto

lemma is_digit_not_space: "is_digit c \<Longrightarrow> \<not> is_py_space (ord c)"
  by (auto simp: is_digit_def in_range_def is_py_space_def)

lemma utf8_encode_ascii: "n < 128 \<Longrightarrow> utf8_encode n = [char_of n]"
  by (simp add: utf8_encode_def)

lemma concat_encode_ascii: "list_all is_ascii s \<Longrightarrow> concat (map utf8_encode (map ord s)) = s"
  by (induction s) (auto simp: utf8_encode_ascii is_ascii_def)

lemma strip_points_id: "\<not> list_ex is_py_space xs \<Longrightarrow> strip_points xs = xs"
proof -
  have *: "\<not> list_ex is_py_space ys \<Longrightarrow> dropWhile is_py_space ys = ys" for ys
    by (cases ys) auto
  assume "\<not> list_ex is_py_space xs"
  then show ?thesis by (simp add: strip_points_def *)
qed

lemma list_all_digit_ascii: "list_all is_digit s \<Longrightarrow> list_all is_ascii s"
  by (induction s) auto

lemma py_strip_digits: "list_all is_digit s \<Longrightarrow> py_strip s = s"
proof -
  assume s: "list_all is_digit s"
  then have a: "list_all is_ascii s" by (rule list_all_digit_ascii)
  from s have "\<not> list_ex is_py_space (map ord s)"
    by (induction s) (auto simp: is_digit_not_space)
  then show ?thesis
    using a by (simp add: py_strip_def code_points_ascii strip_points_id concat_encode_ascii del: map_map)
qed

lemma py_int_isdecimal:
  assumes "isdecimal s" and "length s \<le> max_int_digits"
  shows "py_int s = Inr (int (read_digits s))"
proof -
  obtain c cs where s: "s = c # cs" and d: "list_all is_digit s"
    using assms(1) by (cases s) (auto simp: isdecimal_def)
  then have "c \<noteq> CHR ''-''" and "c \<noteq> CHR ''+''"
    by (auto simp: is_digit_def in_range_def)
  moreover have "py_int_digits (c # cs) = Inr (read_digits s)"
    using assms(2) s d by (simp add: py_int_digits_def underscored_digits filter_digits del: underscored.simps filter.simps)
  ultimately show ?thesis
    using py_strip_digits [OF d] s by (simp add: py_int_def)
qed

theorem py_int_show_nat:
  "length (show_nat n) \<le> max_int_digits \<Longrightarrow> py_int (show_nat n) = Inr (int n)"
  by (simp add: py_int_isdecimal isdecimal_def show_nat_digits)

section \<open>Hexadecimal\<close>

definition hex_char :: "nat \<Rightarrow> char" where
  "hex_char n = (if n < 10 then char_of (48 + n) else char_of (87 + n))"

definition hex_byte :: "char \<Rightarrow> string" where
  "hex_byte c = [hex_char (ord c div 16), hex_char (ord c mod 16)]"

definition to_hex :: "bytes \<Rightarrow> string" where
  "to_hex bs = concat (map hex_byte bs)"

definition hex_digit_val :: "char \<Rightarrow> nat option" where
  "hex_digit_val c =
     (if is_digit c then Some (ord c - 48)
      else if in_range (CHR ''a'') (CHR ''f'') c then Some (ord c - 87)
      else if in_range (CHR ''A'') (CHR ''F'') c then Some (ord c - 55)
      else None)"

lemma is_lower_hex_hex_char: "n < 16 \<Longrightarrow> is_lower_hex (hex_char n)"
  by (auto simp: hex_char_def is_lower_hex_def is_digit_def in_range_def)

lemma ord_lt_256 [simp]: "ord c < 256"
  using of_char_mod_256 [of c, where 'a = nat] by (metis mod_less_divisor zero_less_numeral)

lemma hex_digit_val_hex_char: "n < 16 \<Longrightarrow> hex_digit_val (hex_char n) = Some n"
  by (auto simp: hex_char_def hex_digit_val_def is_digit_def in_range_def)

lemma length_to_hex [simp]: "length (to_hex bs) = 2 * length bs"
  by (induction bs) (auto simp: to_hex_def hex_byte_def)

lemma div16_lt: "ord c div 16 < 16"
  using ord_lt_256 [of c] by linarith

lemma to_hex_lower: "list_all is_lower_hex (to_hex bs)"
  by (induction bs) (auto simp: to_hex_def hex_byte_def is_lower_hex_hex_char div16_lt)

lemma hex_byte_inj: "hex_byte a = hex_byte b \<Longrightarrow> a = b"
proof -
  assume "hex_byte a = hex_byte b"
  then have "hex_char (ord a div 16) = hex_char (ord b div 16)"
    and "hex_char (ord a mod 16) = hex_char (ord b mod 16)"
    by (auto simp: hex_byte_def)
  then have "ord a div 16 = ord b div 16" and "ord a mod 16 = ord b mod 16"
    by (metis hex_digit_val_hex_char div16_lt mod_less_divisor option.inject zero_less_numeral)+
  then have "ord a = ord b" by (metis div_mult_mod_eq)
  then show "a = b" by simp
qed

lemma to_hex_inj: "to_hex a = to_hex b \<Longrightarrow> a = b"
proof (induction a arbitrary: b)
  case Nil
  then have "length (to_hex b) = 0" by (simp add: to_hex_def)
  then show ?case by simp
next
  case (Cons x a)
  then have "length (to_hex b) = length (to_hex (x # a))" by simp
  then obtain y b' where b: "b = y # b'" by (cases b) auto
  with Cons.prems have "hex_byte x @ to_hex a = hex_byte y @ to_hex b'"
    by (simp add: to_hex_def)
  moreover have "length (hex_byte x) = length (hex_byte y)" by (simp add: hex_byte_def)
  ultimately have "hex_byte x = hex_byte y" and "to_hex a = to_hex b'" by auto
  with Cons.IH b show ?case by (simp add: hex_byte_inj)
qed

end
