(* ===== verification/Digests.thy ===== *)
theory Digests
  imports Py_Numerals "HOL-Library.Word"
begin

unbundle bit_operations_syntax

text \<open>
  The digests and transfer encodings the code takes from Python's standard library:
  SHA-256 (FIPS 180-4) and HMAC-SHA-256 (RFC 2104) on byte strings, with the hexadecimal
  digest, and base64 (RFC 4648) with the standard and the URL-safe alphabet.  The lemmas
  the components use are the sizes of digests and the base64 round trip.
\<close>

section \<open>SHA-256\<close>

type_synonym u32 = "32 word"

text \<open>The first 32 bits of the fractional parts of the cube roots (round constants) and
  square roots (initial value) of the first primes.\<close>

definition sha_K :: "u32 list" where
  "sha_K = [
    1116352408, 1899447441, 3049323471, 3921009573, 961987163, 1508970993, 2453635748, 2870763221,
    3624381080, 310598401, 607225278, 1426881987, 1925078388, 2162078206, 2614888103, 3248222580,
    3835390401, 4022224774, 264347078, 604807628, 770255983, 1249150122, 1555081692, 1996064986,
    2554220882, 2821834349, 2952996808, 3210313671, 3336571891, 3584528711, 113926993, 338241895,
    666307205, 773529912, 1294757372, 1396182291, 1695183700, 1986661051, 2177026350, 2456956037,
    2730485921, 2820302411, 3259730800, 3345764771, 3516065817, 3600352804, 4094571909, 275423344,
    430227734, 506948616, 659060556, 883997877, 958139571, 1322822218, 1537002063, 1747873779,
    1955562222, 2024104815, 2227730452, 2361852424, 2428436474, 2756734187, 3204031479, 3329325298]"

definition sha_H0 :: "u32 list" where
  "sha_H0 = [1779033703, 3144134277, 1013904242, 2773480762, 1359893119, 2600822924, 528734635, 1541459225]"

definition rotr :: "nat \<Rightarrow> u32 \<Rightarrow> u32" where
  "rotr n x = (drop_bit n x) OR (push_bit (32 - n) x)"

definition big_sigma0 :: "u32 \<Rightarrow> u32" where
  "big_sigma0 x = rotr 2 x XOR rotr 13 x XOR rotr 22 x"
definition big_sigma1 :: "u32 \<Rightarrow> u32" where
  "big_sigma1 x = rotr 6 x XOR rotr 11 x XOR rotr 25 x"
definition small_sigma0 :: "u32 \<Rightarrow> u32" where
  "small_sigma0 x = rotr 7 x XOR rotr 18 x XOR drop_bit 3 x"
definition small_sigma1 :: "u32 \<Rightarrow> u32" where
  "small_sigma1 x = rotr 17 x XOR rotr 19 x XOR drop_bit 10 x"

text \<open>The message schedule, newest word first: sixteen words extended to sixty-four.\<close>

fun sha_extend :: "nat \<Rightarrow> u32 list \<Rightarrow> u32 list" where
  "sha_extend 0 ws = ws"
| "sha_extend (Suc n) ws =
     sha_extend n ((small_sigma1 (ws ! 1) + ws ! 6 + small_sigma0 (ws ! 14) + ws ! 15) # ws)"

type_synonym sha_state = "u32 \<times> u32 \<times> u32 \<times> u32 \<times> u32 \<times> u32 \<times> u32 \<times> u32"

fun sha_round :: "sha_state \<Rightarrow> u32 \<times> u32 \<Rightarrow> sha_state" where
  "sha_round (a, b, c, d, e, f, g, h) (k, w) =
     (let t1 = h + big_sigma1 e + ((e AND f) XOR (NOT e AND g)) + k + w;
          t2 = big_sigma0 a + ((a AND b) XOR (a AND c) XOR (b AND c))
      in (t1 + t2, a, b, c, d + t1, e, f, g))"

definition u32_of_bytes :: "bytes \<Rightarrow> u32" where
  "u32_of_bytes bs = foldl (\<lambda>w c. push_bit 8 w OR word_of_nat (ord c)) 0 bs"

definition u32_to_bytes :: "u32 \<Rightarrow> bytes" where
  "u32_to_bytes w = map (\<lambda>i. char_of (unat (drop_bit i w) mod 256)) [24, 16, 8, 0]"

fun chunks :: "nat \<Rightarrow> nat \<Rightarrow> 'a list \<Rightarrow> 'a list list" where
  \<comment> \<open>the first \<open>k\<close> chunks of \<open>n\<close> elements\<close>
  "chunks n 0 xs = []"
| "chunks n (Suc k) xs = take n xs # chunks n k (drop n xs)"

definition sha_block :: "u32 list \<Rightarrow> bytes \<Rightarrow> u32 list" where
  "sha_block hs blk =
     (let ws = rev (sha_extend 48 (rev (map u32_of_bytes (chunks 4 16 blk))));
          st = (hs!0, hs!1, hs!2, hs!3, hs!4, hs!5, hs!6, hs!7)
      in case foldl sha_round st (zip sha_K ws) of
           (a, b, c, d, e, f, g, h) \<Rightarrow>
             [hs!0 + a, hs!1 + b, hs!2 + c, hs!3 + d, hs!4 + e, hs!5 + f, hs!6 + g, hs!7 + h])"

definition be64 :: "nat \<Rightarrow> bytes" where
  "be64 n = map (\<lambda>i. char_of (n div 2 ^ (8 * i) mod 256)) [7, 6, 5, 4, 3, 2, 1, 0]"

definition sha_pad :: "bytes \<Rightarrow> bytes" where
  "sha_pad bs = bs @ char_of (128::nat) # replicate ((119 - length bs mod 64) mod 64) (char_of (0::nat))
                @ be64 (8 * length bs)"

definition sha256 :: "bytes \<Rightarrow> bytes" where
  "sha256 bs = (let p = sha_pad bs in
     concat (map u32_to_bytes (foldl sha_block sha_H0 (chunks 64 (length p div 64) p))))"

definition sha256_hex :: "bytes \<Rightarrow> string" where
  "sha256_hex bs = to_hex (sha256 bs)"

definition hmac_sha256 :: "bytes \<Rightarrow> bytes \<Rightarrow> bytes" where
  "hmac_sha256 key msg =
     (let k0 = (if length key > 64 then sha256 key else key);
          k = k0 @ replicate (64 - length k0) (char_of (0::nat));
          xb = (\<lambda>m. map (\<lambda>c. char_of (ord c XOR m)) k)
      in sha256 (xb 0x5c @ sha256 (xb 0x36 @ msg)))"

lemma length_sha_block [simp]: "length (sha_block hs blk) = 8"
  by (simp add: sha_block_def split: prod.splits)

lemma length_sha_fold: "length hs = 8 \<Longrightarrow> length (foldl sha_block hs bs) = 8"
  by (induction bs arbitrary: hs) auto

lemma length_concat_u32: "length (concat (map u32_to_bytes ws)) = 4 * length ws"
  by (induction ws) (auto simp: u32_to_bytes_def)

lemma length_sha256 [simp]: "length (sha256 bs) = 32"
proof -
  have "length sha_H0 = 8" by (simp add: sha_H0_def)
  then show ?thesis
    by (simp only: sha256_def Let_def length_concat_u32 length_sha_fold)
qed

lemma length_hmac [simp]: "length (hmac_sha256 k m) = 32"
  by (simp add: hmac_sha256_def Let_def)

lemma sha256_hex_shape: "is_sha256_hex (sha256_hex bs)"
  by (simp add: is_sha256_hex_def fullmatch_n_def sha256_hex_def to_hex_lower)

lemma length_sha256_hex [simp]: "length (sha256_hex bs) = 64"
  by (simp add: sha256_hex_def)

text \<open>Padding fills whole blocks and keeps the message, so every input byte is hashed.\<close>

lemma sha_pad_blocks: "length (sha_pad bs) mod 64 = 0"
proof -
  have *: "(m + 9 + (119 - m mod 64) mod 64) mod 64 = 0" for m :: nat
  proof -
    define q r where "q = m div 64" and "r = m mod 64"
    then have m: "m = 64 * q + r" "r < 64" by simp_all
    then have "m mod 64 = r" by simp
    moreover have "(r + 9 + (119 - r) mod 64) mod 64 = 0"
    proof (cases "r \<le> 55")
      case True
      then have "119 - r = (55 - r) + 64" by simp
      moreover have "(55 - r + 64) mod 64 = 55 - r" by simp
      ultimately have "(119 - r) mod 64 = 55 - r" by (simp only:)
      with True show ?thesis by simp
    next
      case False
      then have "(119 - r) mod 64 = 119 - r" by simp
      with False m(2) show ?thesis by simp
    qed
    ultimately show ?thesis using m(1) by (simp add: add.assoc)
  qed
  have "length (sha_pad bs) = length bs + 9 + (119 - length bs mod 64) mod 64"
    by (simp add: sha_pad_def be64_def)
  then show ?thesis using * by simp
qed

section \<open>Base64\<close>

definition b64_char :: "bool \<Rightarrow> nat \<Rightarrow> char" where
  \<comment> \<open>the flag selects the URL-safe alphabet\<close>
  "b64_char u n =
     (if n < 26 then char_of (65 + n) else if n < 52 then char_of (71 + n)
      else if n < 62 then char_of (n - 4)
      else if n = 62 then (if u then CHR ''-'' else CHR ''+'')
      else (if u then CHR ''_'' else CHR ''/''))"

text \<open>
  \<open>altchars\<close> adds \<open>-\<close> and \<open>_\<close> to the alphabet of the decoder; \<open>+\<close> and \<open>/\<close> stay
  accepted, because the translation maps onto them.
\<close>

definition b64_val :: "bool \<Rightarrow> char \<Rightarrow> nat option" where
  "b64_val u c =
     (if is_upper c then Some (ord c - 65) else if is_lower c then Some (ord c - 71)
      else if is_digit c then Some (ord c + 4)
      else if c = CHR ''+'' \<or> (u \<and> c = CHR ''-'') then Some 62
      else if c = CHR ''/'' \<or> (u \<and> c = CHR ''_'') then Some 63 else None)"

definition pad_char :: char where
  "pad_char = CHR ''=''"

fun b64_encode :: "bool \<Rightarrow> bytes \<Rightarrow> string" where
  "b64_encode u [] = []"
| "b64_encode u [x] =
     [b64_char u (ord x div 4), b64_char u (ord x mod 4 * 16), pad_char, pad_char]"
| "b64_encode u [x, y] =
     [b64_char u (ord x div 4), b64_char u (ord x mod 4 * 16 + ord y div 16),
      b64_char u (ord y mod 16 * 4), pad_char]"
| "b64_encode u (x # y # z # r) =
     b64_char u (ord x div 4) # b64_char u (ord x mod 4 * 16 + ord y div 16)
     # b64_char u (ord y mod 16 * 4 + ord z div 64) # b64_char u (ord z mod 64)
     # b64_encode u r"

definition b64_quad :: "nat \<Rightarrow> nat \<Rightarrow> nat \<Rightarrow> nat \<Rightarrow> bytes" where
  "b64_quad a b c d =
     [char_of (a * 4 + b div 16), char_of (b mod 16 * 16 + c div 4), char_of (c mod 4 * 64 + d)]"

text \<open>\<open>base64.b64decode(s, altchars, validate=True)\<close>: whole quads, padding only at the end.\<close>

fun b64_decode :: "bool \<Rightarrow> string \<Rightarrow> bytes res" where
  "b64_decode u [] = Inr []"
| "b64_decode u (a # b # c # d # r) =
     (case (b64_val u a, b64_val u b, b64_val u c, b64_val u d) of
        (Some va, Some vb, Some vc, Some vd) \<Rightarrow>
          res_bind (b64_decode u r) (\<lambda>out. Inr (b64_quad va vb vc vd @ out))
      | (Some va, Some vb, Some vc, None) \<Rightarrow>
          if d = pad_char \<and> r = [] then Inr (take 2 (b64_quad va vb vc 0)) else Inl ValueError
      | (Some va, Some vb, None, None) \<Rightarrow>
          if c = pad_char \<and> d = pad_char \<and> r = [] then Inr (take 1 (b64_quad va vb 0 0))
          else Inl ValueError
      | _ \<Rightarrow> Inl ValueError)"
| "b64_decode u s = Inl ValueError"

lemma b64_val_char [simp]: "n < 64 \<Longrightarrow> b64_val u (b64_char u n) = Some n"
proof -
  assume n: "n < 64"
  consider "n < 26" | "26 \<le> n" "n < 52" | "52 \<le> n" "n < 62" | "n = 62" | "n = 63"
    using n by linarith
  then show ?thesis
    by cases (auto simp: b64_char_def b64_val_def char_class_defs)
qed

lemma b64_val_pad [simp]: "b64_val u pad_char = None"
  by (cases u) (simp_all add: pad_char_def b64_val_def char_class_defs)

lemma ord_div: "ord x div 4 < 64" "ord x div 16 < 16" "ord x div 64 < 4"
  using ord_lt_256 [of x] by linarith+

lemma b64_bounds:
  "ord x div 4 < 64" "ord x mod 4 * 16 < 64" "ord x mod 4 * 16 + ord y div 16 < 64"
  "ord y mod 16 * 4 < 64" "ord y mod 16 * 4 + ord z div 64 < 64"
proof -
  have 1: "a < 4 \<Longrightarrow> b < 16 \<Longrightarrow> a * 16 + b < 64" for a b :: nat by simp
  have 2: "a < 16 \<Longrightarrow> b < 4 \<Longrightarrow> a * 4 + b < 64" for a b :: nat by simp
  show "ord x div 4 < 64" "ord x mod 4 * 16 + ord y div 16 < 64"
    "ord y mod 16 * 4 + ord z div 64 < 64"
    by (simp_all only: ord_div 1 2 mod_less_divisor zero_less_numeral)
  show "ord x mod 4 * 16 < 64" using 1 [of "ord x mod 4" 0] by simp
  show "ord y mod 16 * 4 < 64" using 2 [of "ord y mod 16" 0] by simp
qed

lemma quad3:
  "b64_quad (ord x div 4) (ord x mod 4 * 16 + ord y div 16) (ord y mod 16 * 4 + ord z div 64)
     (ord z mod 64) = [x, y, z]"
proof -
  have y: "ord y div 16 < 16" and z: "ord z div 64 < 4"
    using ord_lt_256 [of y] ord_lt_256 [of z] by linarith+
  have 1: "ord x div 4 * 4 + (ord x mod 4 * 16 + ord y div 16) div 16 = ord x"
    using y by simp
  have 2: "(ord x mod 4 * 16 + ord y div 16) mod 16 * 16 + (ord y mod 16 * 4 + ord z div 64) div 4 = ord y"
    using y z by simp
  have 3: "(ord y mod 16 * 4 + ord z div 64) mod 4 * 64 + ord z mod 64 = ord z"
    using z by simp
  show ?thesis by (simp only: b64_quad_def 1 2 3 char_of_char)
qed

lemma quad2:
  "take 2 (b64_quad (ord x div 4) (ord x mod 4 * 16 + ord y div 16) (ord y mod 16 * 4) 0) = [x, y]"
proof -
  have y: "ord y div 16 < 16" using ord_lt_256 [of y] by linarith
  have 1: "ord x div 4 * 4 + (ord x mod 4 * 16 + ord y div 16) div 16 = ord x"
    using y by simp
  have 2: "(ord x mod 4 * 16 + ord y div 16) mod 16 * 16 + ord y mod 16 * 4 div 4 = ord y"
    using y by simp
  show ?thesis
    by (simp only: b64_quad_def 1 2 char_of_char) simp
qed

lemma quad1: "take 1 (b64_quad (ord x div 4) (ord x mod 4 * 16) 0 0) = [x]"
proof -
  have "ord x div 4 * 4 + ord x mod 4 * 16 div 16 = ord x" by simp
  then show ?thesis by (simp only: b64_quad_def char_of_char) simp
qed

theorem b64_decode_encode [simp]: "b64_decode u (b64_encode u bs) = Inr bs"
  by (induction u bs rule: b64_encode.induct)
     (simp_all add: b64_bounds quad3 quad2 quad1 del: mod_mult_self1 One_nat_def)

lemma length_b64_encode: "length (b64_encode u bs) = 4 * ((length bs + 2) div 3)"
  by (induction u bs rule: b64_encode.induct) (simp_all, presburger)

lemma b64_encode_nonempty: "bs \<noteq> [] \<Longrightarrow> b64_encode u bs \<noteq> []"
  by (induction u bs rule: b64_encode.induct) auto

end
