(* ===== verification/Json_Facts.thy ===== *)
theory Json_Facts
  imports Json
begin

text \<open>
  Lemmas about the JSON decoder and encoder: every successful step consumes text, the fuel
  of \<open>loads\<close> always suffices, and decoding the encoder's output gives the value back.
\<close>

section \<open>Progress\<close>

lemma res_cons_Inr_iff [res_simps]:
  "res_cons p m = Inr (t, r) \<longleftrightarrow> (\<exists>t'. m = Inr (t', r) \<and> t = p @ t')"
  by (auto simp: res_cons_def res_bind_Inr_iff)

lemma res_cons_Inl_iff [res_simps]: "res_cons p m = Inl e \<longleftrightarrow> m = Inl e"
  by (auto simp: res_cons_def res_bind_Inl_iff)

lemma parse_str_shorter: "parse_str s = Inr (t, r) \<Longrightarrow> length r < length s"
proof (induction s arbitrary: t r rule: parse_str.induct)
  case (1 s)
  from "1.prems" obtain p r1 where item: "str_item s = Inr (p, r1)"
    by (subst (asm) parse_str.simps) (auto split: sum.splits)
  show ?case
  proof (cases p)
    case None
    with item "1.prems" show ?thesis
      by (subst (asm) parse_str.simps) (auto dest: str_item_shorter)
  next
    case (Some q)
    with item "1.prems" obtain t' where "parse_str r1 = Inr (t', r)"
      by (subst (asm) (2) parse_str.simps) (auto simp: res_simps)
    with "1.IH" [OF item refl Some] str_item_shorter [OF item] show ?thesis
      by fastforce
  qed
qed

lemma str_item_errors: "str_item s = Inl e \<Longrightarrow> e = ValueError"
  by (auto simp: str_item_def escape_item_def u_item_def
      split: if_splits list.splits option.splits)

lemma parse_str_errors: "parse_str s = Inl e \<Longrightarrow> e = ValueError"
proof (induction s rule: parse_str.induct)
  case (1 s)
  show ?case
  proof (cases "str_item s")
    case (Inl x)
    with "1.prems" show ?thesis
      by (subst (asm) parse_str.simps) (auto dest: str_item_errors)
  next
    case (Inr q)
    obtain p r where q: "q = (p, r)" by (cases q)
    show ?thesis
    proof (cases p)
      case (Some t)
      with "1.prems" Inr q have "parse_str r = Inl e"
        by (subst (asm) parse_str.simps) (simp add: res_simps)
      with "1.IH" [OF Inr q [symmetric] Some] show ?thesis by simp
    qed (use "1.prems" Inr q in \<open>subst (asm) parse_str.simps, simp\<close>)
  qed
qed

lemma skip_ws_le: "length (skip_ws s) \<le> length s"
  by (rule length_dropWhile_le)

lemma skip_ws_Cons_le: "skip_ws s = c # r \<Longrightarrow> length r < length s"
  using skip_ws_le [of s] by simp

lemma scan_int_shorter: "scan_int s = Some (ds, r) \<Longrightarrow> length r < length s"
  by (auto simp: scan_int_def less_Suc_eq_le split: list.splits if_splits
      intro: length_dropWhile_le)

lemma scan_frac_le: "scan_frac s = (f, r) \<Longrightarrow> length r \<le> length s"
  by (auto simp: scan_frac_def split: list.splits if_splits
      intro: le_SucI length_dropWhile_le)

lemma scan_exp_le: "scan_exp s = (f, r) \<Longrightarrow> length r \<le> length s"
  by (auto simp: scan_exp_def split: list.splits if_splits
      intro: le_SucI length_dropWhile_le)

lemma parse_number_shorter: "parse_number h s = Inr (v, r) \<Longrightarrow> length r < length s"
  by (fastforce simp: parse_number_def res_simps Let_def
      split: list.splits if_splits option.splits prod.splits
      dest!: scan_int_shorter scan_frac_le scan_exp_le)

lemma find_Some_pred: "find P xs = Some x \<Longrightarrow> P x \<and> x \<in> set xs"
  by (auto simp: find_Some_iff)

lemma startswith_drop: "startswith s w \<Longrightarrow> w \<noteq> [] \<Longrightarrow> length s - length w < length s"
  by (auto simp: startswith_iff)

lemma find_literal:
  "find (\<lambda>(w, v). startswith s w) literals = Some (w, v) \<Longrightarrow> startswith s w \<and> (w, v) \<in> set literals"
  by (auto dest: find_Some_pred)

lemma find_constant:
  "find (startswith s) constants = Some w \<Longrightarrow> startswith s w \<and> w \<in> set constants"
  by (auto dest: find_Some_pred)

lemma literal_nonempty: "(w, v) \<in> set literals \<Longrightarrow> w \<noteq> []"
  by (auto simp: literals_def)

lemma constant_nonempty: "w \<in> set constants \<Longrightarrow> w \<noteq> []"
  by (auto simp: constants_def)

lemma parse_atom_shorter: "parse_atom h s = Inr (v, r) \<Longrightarrow> length r < length s"
  unfolding parse_atom_def
  by (auto simp: res_simps split: option.splits
      dest!: find_literal find_constant literal_nonempty constant_nonempty
      intro: parse_number_shorter startswith_drop)

definition hooks_sane :: "hooks \<Rightarrow> bool" where
  \<comment> \<open>no hook pretends to have run out of fuel or of stack\<close>
  "hooks_sane h \<longleftrightarrow>
     (\<forall>ps. pairs_hook h ps \<notin> {Inl Diverge, Inl RecursionError}) \<and>
     (\<forall>w. const_hook h w \<notin> {Inl Diverge, Inl RecursionError}) \<and>
     (\<forall>w. float_hook h w \<notin> {Inl Diverge, Inl RecursionError})"

lemma parse_number_errors:
  "hooks_sane h \<Longrightarrow> parse_number h s = Inl e \<Longrightarrow> e \<noteq> Diverge \<and> e \<noteq> RecursionError"
  by (auto simp: parse_number_def res_bind_Inl_iff Let_def hooks_sane_def
      split: list.splits if_splits option.splits prod.splits)

lemma parse_atom_errors:
  "hooks_sane h \<Longrightarrow> parse_atom h s = Inl e \<Longrightarrow> e \<noteq> Diverge \<and> e \<noteq> RecursionError"
  by (auto simp: parse_atom_def res_bind_Inl_iff split: option.splits
      dest: parse_number_errors) (auto simp: hooks_sane_def)


text \<open>The shapes of a successful step, as elimination rules for the inductions below.\<close>

lemma parse_value_SucE:
  assumes "parse_value h (Suc n) d s = Inr (v, r)"
  obtains (str) r0 t where "s = CHR 0x22 # r0" "parse_str r0 = Inr (t, r)" "v = JStr t"
  | (arr0) r0 d' where "s = CHR ''['' # r0" "d = Suc d'" "skip_ws r0 = CHR '']'' # r" "v = JArr []"
  | (arr) r0 d' e r1 vs where "s = CHR ''['' # r0" "d = Suc d'" "skip_ws r0 = e # r1"
      "parse_elems h n d' (e # r1) = Inr (vs, r)" "v = JArr vs"
  | (obj0) r0 d' where "s = CHR ''{'' # r0" "d = Suc d'" "skip_ws r0 = CHR ''}'' # r"
      "pairs_hook h [] = Inr v"
  | (obj) r0 d' e r1 ms where "s = CHR ''{'' # r0" "d = Suc d'" "skip_ws r0 = e # r1"
      "parse_members h n d' (e # r1) = Inr (ms, r)" "pairs_hook h ms = Inr v"
  | (atom) c r0 where "s = c # r0" "c \<notin> {CHR 0x22, CHR ''['', CHR ''{''}" "parse_atom h s = Inr (v, r)"
proof -
  obtain c r0 where s: "s = c # r0"
    using assms by (cases s) auto
  consider "c = CHR 0x22" | "c = CHR ''[''" | "c = CHR ''{''" | "c \<notin> {CHR 0x22, CHR ''['', CHR ''{''}"
    by blast
  then show thesis
  proof cases
    case 1
    with assms s show thesis by (auto simp: res_simps intro: str)
  next
    case 2
    with assms s obtain d' e r1 where "d = Suc d'" "skip_ws r0 = e # r1"
      by (auto split: nat.splits list.splits)
    with assms s 2 show thesis by (auto simp: res_simps split: if_splits intro: arr0 arr)
  next
    case 3
    with assms s obtain d' e r1 where "d = Suc d'" "skip_ws r0 = e # r1"
      by (auto split: nat.splits list.splits)
    with assms s 3 show thesis by (auto simp: res_simps split: if_splits intro: obj0 obj)
  next
    case 4
    with assms s show thesis by (intro atom) auto
  qed
qed

lemma parse_elems_SucE:
  assumes "parse_elems h (Suc n) d s = Inr (vs, r)"
  obtains (last) v r0 where "parse_value h n d s = Inr (v, r0)" "skip_ws r0 = CHR '']'' # r" "vs = [v]"
  | (more) v r0 r1 vs' where "parse_value h n d s = Inr (v, r0)" "skip_ws r0 = CHR '','' # r1"
      "parse_elems h n d (skip_ws r1) = Inr (vs', r)" "vs = v # vs'"
proof -
  from assms obtain v r0 where v: "parse_value h n d s = Inr (v, r0)"
    by (auto simp: res_simps)
  with assms obtain c r1 where "skip_ws r0 = c # r1"
    by (auto split: list.splits)
  with assms v show thesis by (auto simp: res_simps split: if_splits intro: last more)
qed

lemma parse_members_SucE:
  assumes "parse_members h (Suc n) d s = Inr (ms, r)"
  obtains (last) r0 k r1 r2 v r3 where "s = CHR 0x22 # r0" "parse_str r0 = Inr (k, r1)"
      "skip_ws r1 = CHR '':'' # r2" "parse_value h n d (skip_ws r2) = Inr (v, r3)"
      "skip_ws r3 = CHR ''}'' # r" "ms = [(k, v)]"
  | (more) r0 k r1 r2 v r3 r4 ms' where "s = CHR 0x22 # r0" "parse_str r0 = Inr (k, r1)"
      "skip_ws r1 = CHR '':'' # r2" "parse_value h n d (skip_ws r2) = Inr (v, r3)"
      "skip_ws r3 = CHR '','' # r4" "parse_members h n d (skip_ws r4) = Inr (ms', r)"
      "ms = (k, v) # ms'"
proof -
  from assms obtain r0 where s: "s = CHR 0x22 # r0"
    by (auto split: list.splits if_splits)
  with assms obtain k r1 where k: "parse_str r0 = Inr (k, r1)"
    by (auto simp: res_simps)
  with assms s obtain r2 where r2: "skip_ws r1 = CHR '':'' # r2"
    by (auto split: list.splits if_splits)
  with assms s k obtain v r3 where v: "parse_value h n d (skip_ws r2) = Inr (v, r3)"
    by (auto simp: res_simps)
  with assms s k r2 obtain c r4 where "skip_ws r3 = c # r4"
    by (auto split: list.splits)
  with assms s k r2 v show thesis by (auto simp: res_simps split: if_splits intro: last more)
qed

text \<open>Every successful parse leaves a shorter text.\<close>

lemma parse_shorter:
  "parse_value h n d s = Inr (v, r) \<Longrightarrow> length r < length s"
  "parse_elems h n d s = Inr (vs, r) \<Longrightarrow> length r < length s"
  "parse_members h n d s = Inr (ms, r) \<Longrightarrow> length r < length s"
proof (induction n arbitrary: d s v vs ms r)
  case (Suc n)
  { case 1
    then show ?case
    proof (cases rule: parse_value_SucE)
      case (arr r0 d' e r1 vs)
      then show ?thesis using Suc.IH(2) [OF arr(4)] skip_ws_le [of r0] by simp
    next
      case (obj r0 d' e r1 ms)
      then show ?thesis using Suc.IH(3) [OF obj(4)] skip_ws_le [of r0] by simp
    qed (auto dest: parse_str_shorter skip_ws_Cons_le parse_atom_shorter) }
  { case 2
    then show ?case
    proof (cases rule: parse_elems_SucE)
      case (last v r0)
      then show ?thesis using Suc.IH(1) [OF last(1)] skip_ws_le [of r0] by simp
    next
      case (more v r0 r1 vs')
      then show ?thesis
        using Suc.IH(1) [OF more(1)] Suc.IH(2) [OF more(3)] skip_ws_le [of r0] skip_ws_le [of r1]
        by simp
    qed }
  { case 3
    then show ?case
    proof (cases rule: parse_members_SucE)
      case (last r0 k r1 r2 v r3)
      then show ?thesis
        using parse_str_shorter [OF last(2)] Suc.IH(1) [OF last(4)]
          skip_ws_le [of r1] skip_ws_le [of r2] skip_ws_le [of r3] by simp
    next
      case (more r0 k r1 r2 v r3 r4 ms')
      then show ?thesis
        using parse_str_shorter [OF more(2)] Suc.IH(1) [OF more(4)] Suc.IH(3) [OF more(6)]
          skip_ws_le [of r1] skip_ws_le [of r2] skip_ws_le [of r3] skip_ws_le [of r4] by simp
    qed }
qed simp_all

section \<open>Errors and fuel\<close>

lemma parse_value_SucErrE:
  assumes "parse_value h (Suc n) d s = Inl x"
  obtains (bad) "x = ValueError"
  | (nest) c r0 where "s = c # r0" "c = CHR ''['' \<or> c = CHR ''{''" "d = 0" "x = RecursionError"
  | (elems) r0 d' e r1 where "s = CHR ''['' # r0" "d = Suc d'" "skip_ws r0 = e # r1"
      "parse_elems h n d' (e # r1) = Inl x"
  | (members) r0 d' e r1 where "s = CHR ''{'' # r0" "d = Suc d'" "skip_ws r0 = e # r1"
      "parse_members h n d' (e # r1) = Inl x"
  | (hook) ms where "pairs_hook h ms = Inl x"
  | (atom) "parse_atom h s = Inl x"
proof (cases s)
  case Nil
  with assms show thesis by (intro bad) simp
next
  case (Cons c r0)
  consider "c = CHR 0x22" | "c = CHR ''[''" | "c = CHR ''{''" | "c \<notin> {CHR 0x22, CHR ''['', CHR ''{''}"
    by blast
  then show thesis
  proof cases
    case 1
    with assms Cons show thesis by (auto simp: res_bind_Inl_iff dest: parse_str_errors intro: bad)
  next
    case 2
    show thesis
    proof (cases d)
      case (Suc d')
      with assms Cons 2 show thesis
        by (auto simp: res_bind_Inl_iff split: list.splits if_splits intro: bad elems)
    qed (use assms Cons 2 in \<open>auto intro: nest\<close>)
  next
    case 3
    show thesis
    proof (cases d)
      case (Suc d')
      with assms Cons 3 show thesis
        by (auto simp: res_bind_Inl_iff split: list.splits if_splits intro: bad members hook)
    qed (use assms Cons 3 in \<open>auto intro: nest\<close>)
  next
    case 4
    with assms Cons show thesis by (intro atom) simp
  qed
qed

lemma parse_elems_SucErrE:
  assumes "parse_elems h (Suc n) d s = Inl x"
  obtains (bad) "x = ValueError"
  | (first) "parse_value h n d s = Inl x"
  | (more) v r0 r1 where "parse_value h n d s = Inr (v, r0)" "skip_ws r0 = CHR '','' # r1"
      "parse_elems h n d (skip_ws r1) = Inl x"
proof (cases "parse_value h n d s")
  case (Inl e)
  with assms show thesis by (intro first) simp
next
  case (Inr p)
  with assms show thesis
    by (cases p) (auto simp: res_bind_Inl_iff split: list.splits if_splits intro: bad more)
qed

lemma parse_members_SucErrE:
  assumes "parse_members h (Suc n) d s = Inl x"
  obtains (bad) "x = ValueError"
  | (first) r0 k r1 r2 where "s = CHR 0x22 # r0" "parse_str r0 = Inr (k, r1)"
      "skip_ws r1 = CHR '':'' # r2" "parse_value h n d (skip_ws r2) = Inl x"
  | (more) r0 k r1 r2 v r3 r4 where "s = CHR 0x22 # r0" "parse_str r0 = Inr (k, r1)"
      "skip_ws r1 = CHR '':'' # r2" "parse_value h n d (skip_ws r2) = Inr (v, r3)"
      "skip_ws r3 = CHR '','' # r4" "parse_members h n d (skip_ws r4) = Inl x"
proof (cases "\<exists>r0 k r1 r2. s = CHR 0x22 # r0 \<and> parse_str r0 = Inr (k, r1) \<and> skip_ws r1 = CHR '':'' # r2")
  case False
  have "x = ValueError"
  proof (cases "\<exists>r0. s = CHR 0x22 # r0")
    case True
    then obtain r0 where s: "s = CHR 0x22 # r0" ..
    show ?thesis
    proof (cases "parse_str r0")
      case (Inl e)
      with assms s show ?thesis by (auto dest: parse_str_errors)
    next
      case (Inr p)
      obtain k r1 where "p = (k, r1)" by (cases p)
      with False s Inr have "\<forall>r2. skip_ws r1 \<noteq> CHR '':'' # r2" by auto
      with assms s Inr \<open>p = (k, r1)\<close> show ?thesis by (cases "skip_ws r1") auto
    qed
  qed (use assms in \<open>auto split: list.splits if_splits\<close>)
  then show thesis by (rule bad)
next
  case True
  then obtain r0 k r1 r2 where s: "s = CHR 0x22 # r0" "parse_str r0 = Inr (k, r1)"
    "skip_ws r1 = CHR '':'' # r2" by blast
  show thesis
  proof (cases "parse_value h n d (skip_ws r2)")
    case (Inl e)
    with assms s show thesis by (intro first) auto
  next
    case (Inr p)
    with assms s show thesis
      by (cases p) (auto simp: res_bind_Inl_iff split: list.splits if_splits intro: bad more)
  qed
qed

lemma parse_not_Diverge:
  assumes "hooks_sane h"
  shows "2 * length s < n \<Longrightarrow> parse_value h n d s \<noteq> Inl Diverge"
    and "2 * length s + 1 < n \<Longrightarrow> parse_elems h n d s \<noteq> Inl Diverge"
    and "2 * length s + 1 < n \<Longrightarrow> parse_members h n d s \<noteq> Inl Diverge"
proof (induction n arbitrary: d s)
  case (Suc n)
  { case 1
    show ?case
    proof
      assume "parse_value h (Suc n) d s = Inl Diverge"
      then show False
      proof (cases rule: parse_value_SucErrE)
        case (elems r0 d' e r1)
        then show False using Suc.IH(2) [of "e # r1" d'] 1 skip_ws_le [of r0] by simp
      next
        case (members r0 d' e r1)
        then show False using Suc.IH(3) [of "e # r1" d'] 1 skip_ws_le [of r0] by simp
      qed (use assms in \<open>auto simp: hooks_sane_def dest: parse_atom_errors [OF assms]\<close>)
    qed }
  { case 2
    show ?case
    proof
      assume "parse_elems h (Suc n) d s = Inl Diverge"
      then show False
      proof (cases rule: parse_elems_SucErrE)
        case first
        then show False using Suc.IH(1) [of s d] 2 by simp
      next
        case (more v r0 r1)
        then show False
          using Suc.IH(2) [of "skip_ws r1" d] 2 parse_shorter(1) [OF more(1)]
            skip_ws_le [of r0] skip_ws_le [of r1] by simp
      qed simp
    qed }
  { case 3
    show ?case
    proof
      assume "parse_members h (Suc n) d s = Inl Diverge"
      then show False
      proof (cases rule: parse_members_SucErrE)
        case (first r0 k r1 r2)
        then show False
          using Suc.IH(1) [of "skip_ws r2" d] 3 parse_str_shorter [OF first(2)]
            skip_ws_le [of r1] skip_ws_le [of r2] by simp
      next
        case (more r0 k r1 r2 v r3 r4)
        then show False
          using Suc.IH(3) [of "skip_ws r4" d] 3 parse_str_shorter [OF more(2)]
            parse_shorter(1) [OF more(4)] skip_ws_le [of r1] skip_ws_le [of r2]
            skip_ws_le [of r3] skip_ws_le [of r4] by simp
      qed simp
    qed }
qed simp_all

theorem loads_not_Diverge: "hooks_sane h \<Longrightarrow> loads h limit s \<noteq> Inl Diverge"
proof -
  assume h: "hooks_sane h"
  have "2 * length (skip_ws s) < parse_fuel s"
    using skip_ws_le [of s] by (simp add: parse_fuel_def)
  from parse_not_Diverge(1) [OF h this] show ?thesis
    by (auto simp: loads_def res_bind_Inl_iff split: if_splits)
qed

section \<open>What every decoded value satisfies\<close>

text \<open>
  The contract between the decoder and its hooks: a predicate on values, indexed by the
  nesting still allowed, that strings, atoms, arrays and the results of the object hook
  satisfy.  Every decoded document then satisfies it at the decoder's limit.
\<close>

locale decoded =
  fixes h :: hooks and P :: "nat \<Rightarrow> json \<Rightarrow> bool"
  assumes str: "P d (JStr t)"
    and atom: "parse_atom h s = Inr (v, r) \<Longrightarrow> P d v"
    and arr: "list_all (P d) vs \<Longrightarrow> P (Suc d) (JArr vs)"
    and obj: "list_all (\<lambda>(k, v). P d v) ms \<Longrightarrow> pairs_hook h ms = Inr v \<Longrightarrow> P (Suc d) v"
begin

lemma parse_decoded:
  "parse_value h n d s = Inr (v, r) \<Longrightarrow> P d v"
  "parse_elems h n d s = Inr (vs, r) \<Longrightarrow> list_all (P d) vs"
  "parse_members h n d s = Inr (ms, r) \<Longrightarrow> list_all (\<lambda>(k, v). P d v) ms"
proof (induction n arbitrary: d s v vs ms r)
  case (Suc n)
  { case 1
    then show ?case
    proof (cases rule: parse_value_SucE)
      case (arr0 r0 d')
      then show ?thesis using arr [of d' "[]"] by simp
    next
      case (arr r0 d' e r1 vs)
      then show ?thesis using Suc.IH(2) [OF arr(4)] decoded.arr [OF decoded_axioms, of d' vs] by simp
    next
      case (obj0 r0 d')
      then show ?thesis using obj [of d' "[]" v] by simp
    next
      case (obj r0 d' e r1 ms)
      then show ?thesis using Suc.IH(3) [OF obj(4)] decoded.obj [OF decoded_axioms, of d' ms v] by simp
    qed (auto simp: str intro: atom) }
  { case 2
    then show ?case
    proof (cases rule: parse_elems_SucE)
      case (last v r0)
      then show ?thesis using Suc.IH(1) [OF last(1)] by simp
    next
      case (more v r0 r1 vs')
      then show ?thesis using Suc.IH(1) [OF more(1)] Suc.IH(2) [OF more(3)] by simp
    qed }
  { case 3
    then show ?case
    proof (cases rule: parse_members_SucE)
      case (last r0 k r1 r2 v r3)
      then show ?thesis using Suc.IH(1) [OF last(4)] by simp
    next
      case (more r0 k r1 r2 v r3 r4 ms')
      then show ?thesis using Suc.IH(1) [OF more(4)] Suc.IH(3) [OF more(6)] by simp
    qed }
qed simp_all

lemma loads_decoded: "loads h limit s = Inr v \<Longrightarrow> P limit v"
  by (auto simp: loads_def res_simps split: if_splits intro: parse_decoded)

end

end
