(* ===== verification/Json_Roundtrip.thy ===== *)
theory Json_Roundtrip
  imports Json_Facts
begin

text \<open>
  Decoding what the encoder printed gives the value back: for values without floats, with
  ASCII strings, distinct keys and integers of printable size, nested no deeper than the
  decoder allows.  The encoder's key sorting (\<open>jsort\<close>) keeps these conditions, so the
  round trip holds for the canonical form too.
\<close>

fun jplain :: "json \<Rightarrow> bool" where
  "jplain (JFloat f) = False"
| "jplain (JInt i) = int_ok i"
| "jplain (JStr s) = isascii s"
| "jplain (JArr vs) = list_all jplain vs"
| "jplain (JObj ms) = (distinct (map fst ms) \<and> list_all (\<lambda>(k, v). isascii k \<and> jplain v) ms)"
| "jplain _ = True"

definition dict_hooks :: "hooks \<Rightarrow> bool" where
  \<comment> \<open>the pairs hook builds the dictionary when no key repeats\<close>
  "dict_hooks h \<longleftrightarrow> (\<forall>ms. distinct (map fst ms) \<longrightarrow> pairs_hook h ms = Inr (JObj ms))"

section \<open>Strings\<close>

lemma char_eq_iff_ord: "c = d \<longleftrightarrow> ord c = ord d"
  by simp

lemma read_hex4_hex: "n < 65536 \<Longrightarrow> read_hex4 (hex_char (n div 4096 mod 16)) (hex_char (n div 256 mod 16))
    (hex_char (n div 16 mod 16)) (hex_char (n mod 16)) = Some n"
proof -
  assume n: "n < 65536"
  have 1: "n div 4096 * 16 + n div 256 mod 16 = n div 256"
    using div_mult_mod_eq [of "n div 256" 16] by (simp add: div_mult2_eq [symmetric])
  have 2: "n div 256 * 16 + n div 16 mod 16 = n div 16"
    using div_mult_mod_eq [of "n div 16" 16] by (simp add: div_mult2_eq [symmetric])
  have 3: "n div 16 * 16 + n mod 16 = n"
    by (rule div_mult_mod_eq)
  have 4: "n div 4096 mod 16 = n div 4096" using n by simp
  have eq: "((n div 4096 mod 16 * 16 + n div 256 mod 16) * 16 + n div 16 mod 16) * 16 + n mod 16 = n"
    by (simp only: 1 2 3 4)
  have h: "hex_digit_val (hex_char (k mod 16)) = Some (k mod 16)" for k
    by (simp add: hex_digit_val_hex_char)
  show ?thesis by (simp only: read_hex4_def h prod.case option.case eq)
qed

lemma str_item_u_escape:
  assumes "n < 55296"
  shows "str_item (u_escape n @ r) = Inr (Some (utf8_encode n), r)"
proof -
  have "read_hex4 (hex_char (n div 4096 mod 16)) (hex_char (n div 256 mod 16))
    (hex_char (n div 16 mod 16)) (hex_char (n mod 16)) = Some n"
    using assms by (intro read_hex4_hex) simp
  with assms show ?thesis
    by (simp add: u_escape_def hex4_def str_item_def escape_item_def u_item_def)
qed

lemma str_item_escape:
  assumes "is_ascii c"
  shows "str_item (escape_point a (ord c) @ r) = Inr (Some [c], r)"
proof (cases "simple_escape (ord c)")
  case (Some e)
  then show ?thesis
    by (auto simp: simple_escape_def escape_point_def str_item_def escape_item_def unescape_def
        char_eq_iff_ord simp del: of_char_eq_iff split: if_splits)
next
  case None
  then have ne: "ord c \<noteq> 34" "ord c \<noteq> 92" by (auto simp: simple_escape_def)
  show ?thesis
  proof (cases "ord c < 32")
    case True
    with None show ?thesis
      by (simp add: escape_point_def str_item_u_escape utf8_encode_ascii)
  next
    case False
    with None assms have "escape_point a (ord c) = [c]"
      by (simp add: escape_point_def is_ascii_def utf8_encode_ascii)
    moreover have "c \<noteq> CHR 0x22" "c \<noteq> CHR 0x5C" using ne by auto
    ultimately show ?thesis using False by (simp add: str_item_def)
  qed
qed

lemma parse_str_quoted:
  "list_all is_ascii s \<Longrightarrow>
     parse_str (concat (map (escape_point a) (map ord s)) @ CHR 0x22 # r) = Inr (s, r)"
proof (induction s)
  case Nil
  then show ?case by (subst parse_str.simps) (simp add: str_item_def)
next
  case (Cons c s)
  then have "str_item (escape_point a (ord c) @ concat (map (escape_point a) (map ord s)) @ CHR 0x22 # r)
     = Inr (Some [c], concat (map (escape_point a) (map ord s)) @ CHR 0x22 # r)"
    by (intro str_item_escape) simp
  with Cons show ?case
    by (subst parse_str.simps) (simp add: res_cons_def)
qed

lemma quote_ascii: "isascii s \<Longrightarrow> quote a s @ r =
   CHR 0x22 # concat (map (escape_point a) (map ord s)) @ CHR 0x22 # r"
  by (simp add: quote_def isascii_def code_points_ascii)

lemma parse_quote: "isascii s \<Longrightarrow> quote a s @ r = CHR 0x22 # t \<Longrightarrow> parse_str t = Inr (s, r)"
  by (auto simp: quote_ascii isascii_def simp del: map_map intro: parse_str_quoted)

section \<open>Numbers\<close>

definition num_stop :: "string \<Rightarrow> bool" where
  "num_stop r \<longleftrightarrow> (case r of [] \<Rightarrow> True | c # _ \<Rightarrow> \<not> is_digit c \<and> c \<notin> {CHR ''.'', CHR ''e'', CHR ''E''})"

lemma takeWhile_digits: "list_all is_digit ds \<Longrightarrow> num_stop r \<Longrightarrow> takeWhile is_digit (ds @ r) = ds"
  by (simp add: takeWhile_all num_stop_def split: list.splits)

lemma dropWhile_digits: "list_all is_digit ds \<Longrightarrow> num_stop r \<Longrightarrow> dropWhile is_digit (ds @ r) = r"
  by (simp add: dropWhile_all num_stop_def split: list.splits)

lemma scan_int_show: "num_stop r \<Longrightarrow> scan_int (show_nat n @ r) = Some (show_nat n, r)"
proof (cases "n = 0")
  case True
  then show ?thesis by (simp add: show_nat_0 scan_int_def)
next
  case False
  assume r: "num_stop r"
  obtain c cs where s: "show_nat n = c # cs" by (cases "show_nat n") auto
  moreover have "c \<noteq> CHR ''0''" "is_digit c"
    using show_nat_leading [of n] show_nat_hd_digit [of n] s False by auto
  moreover have "takeWhile is_digit (c # cs @ r) = c # cs" "dropWhile is_digit (c # cs @ r) = r"
    using takeWhile_digits [OF show_nat_digits r, of n] dropWhile_digits [OF show_nat_digits r, of n] s
    by simp_all
  ultimately show ?thesis by (simp add: scan_int_def)
qed

lemma scan_rest_stop: "num_stop r \<Longrightarrow> scan_frac r = ([], r) \<and> scan_exp r = ([], r)"
  by (auto simp: num_stop_def scan_frac_def scan_exp_def split: list.splits)

lemma parse_number_show:
  assumes "int_ok i" "num_stop r"
  shows "parse_number h (show_int i @ r) = Inr (JInt i, r)"
proof (cases "i < 0")
  case True
  with assms show ?thesis
    by (simp add: parse_number_def show_int_def scan_int_show scan_rest_stop int_ok_def)
next
  case False
  obtain c cs where s: "show_nat (nat i) = c # cs" by (cases "show_nat (nat i)") auto
  then have "c \<noteq> CHR ''-''"
    using show_nat_hd_digit [of "nat i"] by (auto simp: is_digit_def in_range_def)
  moreover have "scan_int (c # cs @ r) = Some (c # cs, r)"
    using scan_int_show [OF assms(2), of "nat i"] s by simp
  moreover have "read_digits (c # cs) = nat i"
    using read_digits_show_nat [of "nat i"] s by simp
  ultimately show ?thesis
    using False assms s
    by (simp add: parse_number_def show_int_def scan_rest_stop int_ok_def)
qed

lemma show_int_hd: "\<exists>c cs. show_int i = c # cs \<and>
   (is_digit c \<or> c = CHR ''-'' \<and> (\<exists>c' cs'. cs = c' # cs' \<and> is_digit c'))"
proof -
  have "\<exists>c cs. show_nat n = c # cs \<and> is_digit c" for n
    using show_nat_hd_digit [of n] by (cases "show_nat n") auto
  then show ?thesis
    by (cases "i < 0") (auto simp: show_int_def, metis+)
qed

lemma not_digit:
  "\<not> is_digit CHR ''n''" "\<not> is_digit CHR ''t''" "\<not> is_digit CHR ''f''" "\<not> is_digit CHR ''N''"
  "\<not> is_digit CHR ''I''" "\<not> is_digit CHR ''-''" "\<not> is_digit CHR 0x22" "\<not> is_digit CHR ''[''"
  "\<not> is_digit CHR ''{''" "\<not> is_digit CHR '']''" "\<not> is_digit CHR ''}''"
  by (simp_all add: is_digit_def in_range_def)

lemma digit_neq: "is_digit c \<Longrightarrow> c \<notin> {CHR ''n'', CHR ''t'', CHR ''f'', CHR ''N'', CHR ''I'', CHR ''-'',
    CHR 0x22, CHR ''['', CHR ''{'', CHR '']'', CHR ''}''}"
  using not_digit by blast

lemma digit_not_ws: "is_digit c \<Longrightarrow> \<not> is_json_ws c"
  by (auto simp: is_digit_def in_range_def is_json_ws_def)

lemma parse_atom_show:
  assumes "int_ok i" "num_stop r"
  shows "parse_atom h (show_int i @ r) = Inr (JInt i, r)"
proof -
  obtain c cs where s: "show_int i = c # cs"
    and c: "is_digit c \<or> c = CHR ''-'' \<and> (\<exists>c' cs'. cs = c' # cs' \<and> is_digit c')"
    using show_int_hd [of i] by (elim exE conjE)
  have nc: "c \<notin> {CHR ''n'', CHR ''t'', CHR ''f'', CHR ''N'', CHR ''I''}"
    using c
  proof
    assume "is_digit c"
    then show ?thesis using digit_neq [of c] by blast
  qed simp
  then have "find (\<lambda>(w, v). startswith (show_int i @ r) w) literals = None"
    using s by (simp add: literals_def)
  moreover have "find (startswith (show_int i @ r)) constants = None"
    using c
  proof
    assume "is_digit c"
    then have "c \<noteq> CHR ''-''" using not_digit by blast
    with nc s show ?thesis by (simp add: constants_def)
  next
    assume *: "c = CHR ''-'' \<and> (\<exists>c' cs'. cs = c' # cs' \<and> is_digit c')"
    then obtain c' cs' where "cs = c' # cs'" "c' \<noteq> CHR ''I''" using not_digit by blast
    with * s show ?thesis by (simp add: constants_def)
  qed
  ultimately show ?thesis by (simp add: parse_atom_def parse_number_show [OF assms])
qed

section \<open>Whole values\<close>

lemma print_ascii: "jplain v \<Longrightarrow> list_all is_ascii (take 1 (print_json e a v))"
proof (cases v)
  case (JInt i)
  obtain c cs where s: "show_int i = c # cs"
    and c: "is_digit c \<or> c = CHR ''-'' \<and> (\<exists>c' cs'. cs = c' # cs' \<and> is_digit c')"
    using show_int_hd [of i] by (elim exE conjE)
  from c have "is_ascii c" by (auto simp: is_ascii_def char_class_defs)
  with JInt s show ?thesis by simp
qed (auto simp: quote_def is_ascii_def)

lemma print_first:
  assumes "jplain v"
  shows "\<exists>c cs. print_json e a v = c # cs \<and> \<not> is_json_ws c \<and> c \<noteq> CHR '']'' \<and> c \<noteq> CHR ''}''"
proof (cases v)
  case (JInt i)
  obtain c cs where s: "show_int i = c # cs"
    and c: "is_digit c \<or> c = CHR ''-'' \<and> (\<exists>c' cs'. cs = c' # cs' \<and> is_digit c')"
    using show_int_hd [of i] by (elim exE conjE)
  from c have "\<not> is_json_ws c \<and> c \<noteq> CHR '']'' \<and> c \<noteq> CHR ''}''"
  proof
    assume "is_digit c"
    then show ?thesis using digit_not_ws [of c] not_digit by blast
  qed (simp add: is_json_ws_def)
  with JInt s show ?thesis by simp
next
  case (JFloat f)
  with assms show ?thesis by simp
qed (auto simp: is_json_ws_def quote_def)

lemma skip_print: "jplain v \<Longrightarrow> skip_ws (print_json e a v @ r) = print_json e a v @ r"
  using print_first [of v e a] by auto

lemma num_stop_sep [simp]: "num_stop (CHR '','' # r)" "num_stop (CHR '']'' # r)" "num_stop (CHR ''}'' # r)"
  "num_stop []"
  by (simp_all add: num_stop_def is_digit_def in_range_def)

lemma not_ws_sep [simp]: "\<not> is_json_ws CHR '',''" "\<not> is_json_ws CHR '']''" "\<not> is_json_ws CHR ''}''"
  "\<not> is_json_ws CHR '':''" "\<not> is_json_ws CHR 0x22"
  by (simp_all add: is_json_ws_def)

text \<open>What the induction provides for the parts of a compound value.\<close>

definition reads_back :: "hooks \<Rightarrow> nat \<Rightarrow> (json \<Rightarrow> string) \<Rightarrow> json \<Rightarrow> bool" where
  "reads_back h d p v \<longleftrightarrow>
     (\<forall>n r. num_stop r \<longrightarrow> 2 * length (p v @ r) < n \<longrightarrow> parse_value h n d (p v @ r) = Inr (v, r))"

lemma reads_backD:
  "reads_back h d p v \<Longrightarrow> num_stop r \<Longrightarrow> 2 * length (p v @ r) < n \<Longrightarrow>
     parse_value h n d (p v @ r) = Inr (v, r)"
  by (simp add: reads_back_def)

lemma parse_elems_print:
  assumes "\<And>v. v \<in> set vs \<Longrightarrow> jplain v \<and> reads_back h d (print_json e a) v"
    and "vs \<noteq> []"
    and "2 * length (join_on (CHR '','') (map (print_json e a) vs) @ CHR '']'' # r) + 1 < n"
  shows "parse_elems h n d (join_on (CHR '','') (map (print_json e a) vs) @ CHR '']'' # r) = Inr (vs, r)"
  using assms
proof (induction vs arbitrary: n)
  case (Cons v vs)
  then obtain m where n: "n = Suc m" by (cases n) auto
  show ?case
  proof (cases vs)
    case Nil
    with Cons.prems n show ?thesis by (simp add: reads_backD)
  next
    case (Cons w ws)
    let ?tl = "join_on (CHR '','') (map (print_json e a) vs) @ CHR '']'' # r"
    have "parse_elems h m d ?tl = Inr (vs, r)"
      using Cons.IH Cons.prems n Cons by simp
    moreover have "skip_ws ?tl = ?tl"
      using Cons.prems(1) [of w] Cons skip_print [of w e a] by (cases ws) auto
    moreover have "parse_value h m d (print_json e a v @ CHR '','' # ?tl) = Inr (v, CHR '','' # ?tl)"
      using Cons.prems n Cons by (intro reads_backD) auto
    ultimately show ?thesis using n Cons by simp
  qed
qed simp

abbreviation print_member :: "py_env \<Rightarrow> bool \<Rightarrow> string \<times> json \<Rightarrow> string" where
  "print_member e a \<equiv> (\<lambda>(k, v). quote a k @ CHR '':'' # print_json e a v)"

lemma parse_members_print:
  assumes "\<And>k v. (k, v) \<in> set ms \<Longrightarrow> isascii k \<and> jplain v \<and> reads_back h d (print_json e a) v"
    and "ms \<noteq> []"
    and "2 * length (join_on (CHR '','') (map (print_member e a) ms) @ CHR ''}'' # r) + 1 < n"
  shows "parse_members h n d (join_on (CHR '','') (map (print_member e a) ms) @ CHR ''}'' # r) = Inr (ms, r)"
  using assms
proof (induction ms arbitrary: n)
  case (Cons m ms)
  obtain k v where m: "m = (k, v)" by (cases m)
  then have kv: "isascii k" "jplain v" "reads_back h d (print_json e a) v"
    using Cons.prems(1) by auto
  obtain j where n: "n = Suc j" using Cons.prems by (cases n) auto
  have head: "\<exists>t. quote a k @ X = CHR 0x22 # t \<and> parse_str t = Inr (k, X)" for X
    using parse_quote [OF kv(1)] quote_ascii [OF kv(1)] by blast
  show ?case
  proof (cases ms)
    case Nil
    obtain t where t: "quote a k @ CHR '':'' # print_json e a v @ CHR ''}'' # r = CHR 0x22 # t"
      "parse_str t = Inr (k, CHR '':'' # print_json e a v @ CHR ''}'' # r)"
      using head by blast
    have "parse_value h j d (print_json e a v @ CHR ''}'' # r) = Inr (v, CHR ''}'' # r)"
      using kv(3) Cons.prems n m Nil by (intro reads_backD) auto
    with t n m Nil show ?thesis using skip_print [OF kv(2)] by simp
  next
    case (Cons w ws)
    let ?tl = "join_on (CHR '','') (map (print_member e a) ms) @ CHR ''}'' # r"
    obtain t where t: "quote a k @ CHR '':'' # print_json e a v @ CHR '','' # ?tl = CHR 0x22 # t"
      "parse_str t = Inr (k, CHR '':'' # print_json e a v @ CHR '','' # ?tl)"
      using head by blast
    have "parse_members h j d ?tl = Inr (ms, r)"
      by (rule Cons.IH) (use Cons.prems n Cons in \<open>auto split: prod.splits\<close>)
    moreover have "skip_ws ?tl = ?tl"
      using Cons by (cases ws; cases w) (auto simp: quote_def)
    moreover have "parse_value h j d (print_json e a v @ CHR '','' # ?tl) = Inr (v, CHR '','' # ?tl)"
      using kv(3) Cons.prems n m Cons by (intro reads_backD) auto
    ultimately show ?thesis using t n m Cons skip_print [OF kv(2)] by simp
  qed
qed simp

lemma foldr_max_ge: "x \<in> set xs \<Longrightarrow> x \<le> foldr max xs (0::nat)"
  by (induction xs) (auto simp: max.coboundedI2)

lemma jdepth_elem: "v \<in> set vs \<Longrightarrow> jdepth v < jdepth (JArr vs)"
  using foldr_max_ge [of "jdepth v" "map jdepth vs"] by (simp add: less_Suc_eq_le)

lemma jdepth_member: "(k, v) \<in> set ms \<Longrightarrow> jdepth v < jdepth (JObj ms)"
  using foldr_max_ge [of "jdepth v" "map (\<lambda>(k, v). jdepth v) ms"]
  by (force simp: less_Suc_eq_le)

lemma parse_literal:
  "0 < n \<Longrightarrow> parse_value h n d (''null'' @ r) = Inr (JNull, r)"
  "0 < n \<Longrightarrow> parse_value h n d (''true'' @ r) = Inr (JBool True, r)"
  "0 < n \<Longrightarrow> parse_value h n d (''false'' @ r) = Inr (JBool False, r)"
  by (cases n; simp add: parse_atom_def literals_def)+

lemma parse_value_print:
  assumes "dict_hooks h"
  shows "jplain v \<Longrightarrow> jdepth v \<le> d \<Longrightarrow> reads_back h d (print_json e a) v"
proof (induction v arbitrary: d)
  case (JStr s)
  show ?case unfolding reads_back_def
  proof (intro allI impI)
    fix n r assume "num_stop r" "2 * length (print_json e a (JStr s) @ r) < n"
    then obtain j where n: "n = Suc j" by (cases n) auto
    obtain t where "quote a s @ r = CHR 0x22 # t" "parse_str t = Inr (s, r)"
      using JStr.prems parse_quote quote_ascii by (metis jplain.simps(3))
    then show "parse_value h n d (print_json e a (JStr s) @ r) = Inr (JStr s, r)"
      using n by simp
  qed
next
  case (JInt i)
  show ?case unfolding reads_back_def
  proof (intro allI impI)
    fix n r assume r: "num_stop r" "2 * length (print_json e a (JInt i) @ r) < n"
    then obtain j where n: "n = Suc j" by (cases n) auto
    have atom: "parse_atom h (show_int i @ r) = Inr (JInt i, r)"
      using JInt.prems r by (simp add: parse_atom_show)
    obtain c cs where s: "show_int i = c # cs"
      and c: "is_digit c \<or> c = CHR ''-'' \<and> (\<exists>c' cs'. cs = c' # cs' \<and> is_digit c')"
      using show_int_hd [of i] by (elim exE conjE)
    from c have "c \<notin> {CHR 0x22, CHR ''['', CHR ''{''}"
    proof
      assume "is_digit c"
      then show ?thesis using not_digit by blast
    qed simp
    with s n atom show "parse_value h n d (print_json e a (JInt i) @ r) = Inr (JInt i, r)" by simp
  qed
next
  case (JArr vs)
  show ?case unfolding reads_back_def
  proof (intro allI impI)
    fix n r assume r: "num_stop r" "2 * length (print_json e a (JArr vs) @ r) < n"
    then obtain j where n: "n = Suc j" by (cases n) auto
    obtain d' where d: "d = Suc d'" using JArr.prems by (cases d) auto
    show "parse_value h n d (print_json e a (JArr vs) @ r) = Inr (JArr vs, r)"
    proof (cases vs)
      case Nil
      with n d show ?thesis by simp
    next
      case (Cons w ws)
      let ?tx = "join_on (CHR '','') (map (print_json e a) vs) @ CHR '']'' # r"
      have "jplain v \<and> reads_back h d' (print_json e a) v" if "v \<in> set vs" for v
        using JArr.IH [OF that] JArr.prems jdepth_elem [OF that] that d
        by (auto simp: list_all_iff)
      then have el: "parse_elems h j d' ?tx = Inr (vs, r)"
        using r n Cons by (intro parse_elems_print) auto
      have "jplain w" using JArr.prems Cons by simp
      then obtain c cs where c: "print_json e a w = c # cs" "\<not> is_json_ws c" "c \<noteq> CHR '']''"
        using print_first by blast
      then obtain cs' where "?tx = c # cs'" using Cons by (cases ws) auto
      with c el n d show ?thesis by simp
    qed
  qed
next
  case (JObj ms)
  show ?case unfolding reads_back_def
  proof (intro allI impI)
    fix n r assume r: "num_stop r" "2 * length (print_json e a (JObj ms) @ r) < n"
    then obtain j where n: "n = Suc j" by (cases n) auto
    obtain d' where d: "d = Suc d'" using JObj.prems by (cases d) auto
    have hook: "pairs_hook h ms = Inr (JObj ms)"
      using assms JObj.prems by (simp add: dict_hooks_def)
    show "parse_value h n d (print_json e a (JObj ms) @ r) = Inr (JObj ms, r)"
    proof (cases ms)
      case Nil
      with n d hook show ?thesis by simp
    next
      case (Cons w ws)
      let ?tx = "join_on (CHR '','') (map (print_member e a) ms) @ CHR ''}'' # r"
      have "isascii k \<and> jplain v \<and> reads_back h d' (print_json e a) v" if "(k, v) \<in> set ms" for k v
        using JObj.IH [OF that] JObj.prems jdepth_member [OF that] that d
        by (fastforce simp: list_all_iff)
      then have el: "parse_members h j d' ?tx = Inr (ms, r)"
        using r n Cons by (intro parse_members_print) auto
      have "\<exists>cs. ?tx = CHR 0x22 # cs" using Cons by (cases ws; cases w) (auto simp: quote_def)
      with el n d hook show ?thesis by auto
    qed
  qed
next
  case JNull
  show ?case unfolding reads_back_def using parse_literal(1) by simp
next
  case (JBool b)
  show ?case unfolding reads_back_def using parse_literal(2,3) by (cases b) simp_all
qed simp

theorem loads_print:
  assumes "dict_hooks h" and "jplain v" and "jdepth v \<le> limit"
  shows "loads h limit (print_json e a v) = Inr v"
proof -
  have rb: "reads_back h limit (print_json e a) v"
    using assms by (intro parse_value_print) auto
  have "parse_value h (parse_fuel (print_json e a v)) limit (print_json e a v @ []) = Inr (v, [])"
    by (rule reads_backD [OF rb]) (simp_all add: parse_fuel_def)
  moreover have "skip_ws (print_json e a v) = print_json e a v"
    using skip_print [OF assms(2), of e a "[]"] by simp
  moreover have "\<not> startswith (print_json e a v) bom"
    using print_ascii [OF assms(2), of e a] by (cases "print_json e a v") (auto simp: bom_def is_ascii_def)
  ultimately show ?thesis by (simp add: loads_def)
qed

section \<open>Sorted keys and byte strings\<close>

lemma foldr_max_le_iff: "foldr max xs (0::nat) \<le> m \<longleftrightarrow> (\<forall>x \<in> set xs. x \<le> m)"
  by (induction xs) auto

lemma jdepth_jsort: "jdepth (jsort v) \<le> jdepth v"
proof (induction v)
  case (JArr vs)
  have "jdepth (jsort v) \<le> foldr max (map jdepth vs) 0" if "v \<in> set vs" for v
    using JArr [OF that] foldr_max_ge [of "jdepth v" "map jdepth vs"] that by force
  then show ?case by (simp add: foldr_max_le_iff)
next
  case (JObj ms)
  have "jdepth (jsort v) \<le> foldr max (map (\<lambda>(k, v). jdepth v) ms) 0" if "(k, v) \<in> set ms" for k v
    using JObj [OF that] foldr_max_ge [of "jdepth v" "map (\<lambda>(k, v). jdepth v) ms"] that by force
  then show ?case by (fastforce simp: foldr_max_le_iff)
qed auto

lemma map_fst_jsort: "map fst (map (\<lambda>(k, v). (k, f v)) ms) = map fst ms"
  by (induction ms) auto

lemma jplain_jsort: "jplain v \<Longrightarrow> jplain (jsort v)"
proof (induction v)
  case (JArr vs)
  then show ?case by (auto simp: list_all_iff)
next
  case (JObj ms)
  let ?ms = "map (\<lambda>(k, v). (k, jsort v)) ms"
  have "distinct (map fst (sort_key fst ?ms))"
    using JObj.prems map_fst_jsort [of jsort ms] distinct_map [of fst ?ms]
    by (simp add: distinct_map del: map_map)
  with JObj show ?case by (force simp: list_all_iff)
qed auto

end
