(* ===== verification/Sync_Model.thy ===== *)
theory Sync_Model
  imports Digests Json_Roundtrip
begin

text \<open>
  The loopback sync server of \<open>tools/sync_spike/model.py\<close>: the body decoder, the immutable
  rule snapshot, the in-memory state (\<open>model\<close>) with its four protocol stages and signed
  paging cursors, and the HTTP handler in front of it.  Random values (\<open>secrets\<close>) and clock
  readings are arguments: \<open>fresh\<close> is the value drawn, \<open>clock i\<close> the \<open>i\<close>-th reading of
  \<open>self.now()\<close> inside one call.  \<open>zlib\<close>'s decompressor is a parameter.
\<close>

section \<open>Encoding and decoding\<close>

definition MAX_BYTES :: nat where "MAX_BYTES = 65536"
definition MAX_EVENTS :: nat where "MAX_EVENTS = 50"
definition MAX_EVENT_DIGESTS :: nat where "MAX_EVENT_DIGESTS = 256"

definition canonical :: "py_env \<Rightarrow> json \<Rightarrow> bytes res" where
  "canonical e v =
     (if nest_limit e < jdepth v then Inl RecursionError
      else if \<not> jfinite v \<or> \<not> jints_ok v then Inl ValueError
      else Inr (print_json e True (jsort v)))"

fun unique_from :: "(string \<times> json) list \<Rightarrow> (string \<times> json) list \<Rightarrow> (string \<times> json) list res" where
  "unique_from d [] = Inr d"
| "unique_from d ((k, v) # ps) =
     (if k \<in> set (map fst d) then Inl ValueError else unique_from (dset k v d) ps)"

definition unique_object :: "(string \<times> json) list \<Rightarrow> json res" where
  "unique_object ps = res_bind (unique_from [] ps) (\<lambda>d. Inr (JObj d))"

definition strict_hooks :: "py_env \<Rightarrow> hooks" where
  "strict_hooks e = \<lparr>pairs_hook = unique_object, const_hook = (\<lambda>_. Inl ValueError),
     float_hook = (\<lambda>w. Inr (JFloat (float_of e w)))\<rparr>"

text \<open>
  \<open>zlib.decompressobj(wbits).decompress(raw, max_length)\<close>: the output with the attributes
  \<open>unconsumed_tail\<close>, \<open>eof\<close> and \<open>unused_data\<close>, or \<open>zlib.error\<close>.
\<close>

record zresult =
  z_out :: bytes
  unconsumed_tail :: bytes
  z_eof :: bool
  unused_data :: bytes

type_synonym zlib = "nat \<Rightarrow> bytes \<Rightarrow> nat \<Rightarrow> zresult res"

definition decode :: "zlib \<Rightarrow> py_env \<Rightarrow> bytes \<Rightarrow> string \<Rightarrow> (string \<times> json) list res" where
  "decode z e raw encoding =
     res_bind
       (if encoding = ''deflate'' \<or> encoding = ''gzip'' then
          res_bind (z (if encoding = ''deflate'' then 15 else 31) raw (MAX_BYTES + 1)) (\<lambda>obj.
            if length (z_out obj) > MAX_BYTES \<or> unconsumed_tail obj \<noteq> [] then Inl OverflowError
            else if \<not> z_eof obj \<or> unused_data obj \<noteq> [] then Inl ValueError
            else Inr (z_out obj))
        else if encoding \<noteq> [] then Inl LookupError
        else Inr raw)
       (\<lambda>raw'. if length raw' > MAX_BYTES then Inl OverflowError
         else res_bind (utf8_decode False raw') (\<lambda>text.
              res_bind (loads (strict_hooks e) (nest_limit e) text) (\<lambda>v.
                case v of JObj m \<Rightarrow> Inr m | _ \<Rightarrow> Inl ValueError)))"

section \<open>Snapshots\<close>

record snapshot =
  revision :: int
  rules :: "bytes list"
  approval :: json

text \<open>\<open>len(x)\<close> and iteration, for the dynamically typed argument of \<open>fixture\<close>.\<close>

fun seq_len :: "json \<Rightarrow> nat res" where
  "seq_len (JArr vs) = Inr (length vs)"
| "seq_len (JObj ms) = Inr (length ms)"
| "seq_len (JStr s) = Inr (py_len s)"
| "seq_len _ = Inl TypeError"

fun seq_items :: "json \<Rightarrow> json list" where
  "seq_items (JArr vs) = vs"
| "seq_items (JObj ms) = map (\<lambda>(k, v). JStr k) ms"
| "seq_items (JStr s) = map (\<lambda>n. JStr (utf8_encode n)) (code_points s)"
| "seq_items _ = []"

definition rule_keys :: "string set" where
  "rule_keys = {''identifier'', ''policy'', ''rule_type''}"

fun unhashable :: "json \<Rightarrow> bool" where
  "unhashable (JArr _) = True"
| "unhashable (JObj _) = True"
| "unhashable _ = False"

text \<open>\<open>set(rule) == {'identifier', 'policy', 'rule_type'}\<close>\<close>

fun has_rule_keys :: "json \<Rightarrow> bool res" where
  "has_rule_keys (JObj ms) = Inr (dkeys ms = rule_keys)"
| "has_rule_keys (JArr vs) =
     (if list_ex unhashable vs then Inl TypeError else Inr (set vs = JStr ` rule_keys))"
| "has_rule_keys (JStr s) = Inr False"
| "has_rule_keys _ = Inl TypeError"

definition check_rule :: "json \<Rightarrow> unit res" where
  "check_rule rule =
     res_bind (has_rule_keys rule) (\<lambda>ok.
       if \<not> ok then Inl ValueError
       else case rule of
         JObj ms \<Rightarrow>
           (case (dget ms ''rule_type'', dget ms ''policy'') of
              (Some t, Some p) \<Rightarrow>
                if t \<notin> {JStr ''BINARY'', JStr ''SIGNINGID''}
                   \<or> p \<notin> {JStr ''BLOCKLIST'', JStr ''ALLOWLIST''}
                then Inl ValueError else Inr ()
            | _ \<Rightarrow> Inl KeyError)
       | _ \<Rightarrow> Inl TypeError)"

definition fixture :: "py_env \<Rightarrow> json \<Rightarrow> json \<Rightarrow> json \<Rightarrow> snapshot res" where
  "fixture e rv rs appr =
     (case rv of
        JInt n \<Rightarrow>
          if n < 1 then Inl ValueError
          else res_bind (seq_len rs) (\<lambda>len.
            if len > 100 \<or> \<not> truthy appr then Inl ValueError
            else res_bind (res_map check_rule (seq_items rs)) (\<lambda>_.
                 res_bind (res_map (canonical e) (seq_items rs)) (\<lambda>raws.
                   Inr \<lparr>revision = n, rules = raws, approval = appr\<rparr>)))
      | _ \<Rightarrow> Inl ValueError)"

section \<open>The model's state\<close>

record session =
  sess_id :: string
  sess_snapshot :: snapshot
  expires :: real
  served :: "nat set"
  acked :: bool

record model =
  cur_snapshot :: snapshot
  tokens :: "string \<rightharpoonup> string"
  mkey :: bytes
  sessions :: "string \<rightharpoonup> session"
  acknowledged :: "string \<rightharpoonup> int"
  event_digests :: "string \<rightharpoonup> string set"
  audit :: "(string \<times> nat) list"

definition init_model :: "snapshot \<Rightarrow> string \<Rightarrow> string \<Rightarrow> bytes \<Rightarrow> model" where
  "init_model snap token_a token_b key =
     \<lparr>cur_snapshot = snap,
      tokens = [token_a \<mapsto> ''device-a'', token_b \<mapsto> ''device-b''],
      mkey = key, sessions = Map.empty, acknowledged = Map.empty,
      event_digests = (\<lambda>d. if d \<in> ran [token_a \<mapsto> ''device-a'', token_b \<mapsto> ''device-b'']
                           then Some {} else None),
      audit = []\<rparr>"

definition revoke_fixture_device :: "string \<Rightarrow> model \<Rightarrow> model" where
  "revoke_fixture_device device m =
     m\<lparr>tokens := (\<lambda>t. if tokens m t = Some device then None else tokens m t),
       sessions := (sessions m)(device := None)\<rparr>"

definition rotate_fixture_device :: "string \<Rightarrow> string \<Rightarrow> model \<Rightarrow> string \<times> model" where
  "rotate_fixture_device fresh device m =
     (let m1 = revoke_fixture_device device m
      in (fresh, m1\<lparr>tokens := (tokens m1)(fresh \<mapsto> device)\<rparr>))"

section \<open>Paging cursors\<close>

definition cursor_payload :: "string \<Rightarrow> session \<Rightarrow> nat \<Rightarrow> json" where
  "cursor_payload device s off =
     JArr [JStr device, JStr (sess_id s), JInt (revision (sess_snapshot s)), JInt (int off)]"

definition model_cursor :: "py_env \<Rightarrow> bytes \<Rightarrow> string \<Rightarrow> session \<Rightarrow> nat \<Rightarrow> string res" where
  "model_cursor e key device s off =
     res_bind (canonical e (cursor_payload device s off)) (\<lambda>payload.
       Inr (b64_encode True (payload @ hmac_sha256 key payload)))"

text \<open>\<open>values[3]\<close> on a decoded document.\<close>

fun item3 :: "json \<Rightarrow> json res" where
  "item3 (JArr vs) = (if 3 < length vs then Inr (vs ! 3) else Inl IndexError)"
| "item3 (JStr s) = (if 3 < py_len s then Inr (JStr (utf8_encode (code_points s ! 3))) else Inl IndexError)"
| "item3 (JObj ms) = Inl KeyError"
| "item3 _ = Inl TypeError"

text \<open>\<open>values[:3] == [device, session['id'], session['snapshot'].revision]\<close>\<close>

fun head3_is :: "json \<Rightarrow> string \<Rightarrow> string \<Rightarrow> int \<Rightarrow> bool" where
  "head3_is (JArr (a # b # c # _)) device sid rv = (a = JStr device \<and> b = JStr sid \<and> eq_int c rv)"
| "head3_is _ device sid rv = False"

definition offset_raw :: "py_env \<Rightarrow> bytes \<Rightarrow> string \<Rightarrow> string \<Rightarrow> session \<Rightarrow> nat res" where
  \<comment> \<open>the body of the \<open>try\<close>\<close>
  "offset_raw e key cursor device s =
     res_bind (b64_decode True cursor) (\<lambda>raw.
       (let payload = take (length raw - 32) raw; mac = drop (length raw - 32) raw in
        if mac \<noteq> hmac_sha256 key payload then Inl ValueError
        else res_bind (loads_bytes (default_hooks e) e payload) (\<lambda>values.
             res_bind (item3 values) (\<lambda>off.
               if \<not> head3_is values device (sess_id s) (revision (sess_snapshot s)) then Inl ValueError
               else case off of
                 JInt i \<Rightarrow>
                   if i < 1 \<or> i \<ge> int (length (rules (sess_snapshot s))) then Inl ValueError
                   else Inr (nat i)
               | _ \<Rightarrow> Inl ValueError))))"

definition model_offset :: "py_env \<Rightarrow> bytes \<Rightarrow> string \<Rightarrow> string \<Rightarrow> session \<Rightarrow> nat res" where
  "model_offset e key cursor device s =
     (if py_len cursor > 512 then Inl ValueError
      else case offset_raw e key cursor device s of
        Inr off \<Rightarrow> Inr off
      | Inl x \<Rightarrow> if isa_ValueError x \<or> x = IndexError \<or> x = TypeError then Inl ValueError else Inl x)"

section \<open>Protocol stages\<close>

type_synonym response = "nat \<times> (string \<times> json) list"

text \<open>Every stage returns its response, or the exception it let escape, with the state it leaves.\<close>

type_synonym outcome = "response res \<times> model"

definition new_session :: "string \<Rightarrow> snapshot \<Rightarrow> real \<Rightarrow> session" where
  "new_session fresh snap now =
     \<lparr>sess_id = fresh, sess_snapshot = snap, expires = now + 300, served = {}, acked = False\<rparr>"

definition preflight_reply :: "(string \<times> json) list" where
  "preflight_reply = [(''clientMode'', JStr ''MONITOR''), (''syncType'', JStr ''CLEAN''),
                      (''batchSize'', JInt (int MAX_EVENTS))]"

definition stage_preflight :: "(nat \<Rightarrow> real) \<Rightarrow> string \<Rightarrow> string \<Rightarrow> model \<Rightarrow> outcome" where
  "stage_preflight clock fresh device m =
     (let snap = cur_snapshot m in
      if rules snap = [] \<or> \<not> truthy (approval snap) then (Inr (503, []), m)
      else if revision snap < (case acknowledged m device of None \<Rightarrow> 0 | Some r \<Rightarrow> r)
      then (Inr (409, []), m)
      else
        (case sessions m device of
           None \<Rightarrow> (Inr (200, preflight_reply),
                    m\<lparr>sessions := (sessions m)(device \<mapsto> new_session fresh snap (clock 0))\<rparr>)
         | Some s \<Rightarrow>
             if clock 0 \<ge> expires s \<or> acked s
             then (Inr (200, preflight_reply),
                   m\<lparr>sessions := (sessions m)(device \<mapsto> new_session fresh snap (clock 1))\<rparr>)
             else (Inr (200, preflight_reply), m)))"

definition valid_decisions :: "json set" where
  "valid_decisions = {JStr ''BLOCK_BINARY'', JStr ''BLOCK_UNKNOWN'', JStr ''ALLOW_UNKNOWN''}"

fun valid_event :: "json \<Rightarrow> bool" where
  "valid_event (JObj ms) =
     ((case dget ms ''file_sha256'' of Some (JStr h) \<Rightarrow> is_sha256_hex h | _ \<Rightarrow> False)
      \<and> (case dget ms ''decision'' of Some d \<Rightarrow> d \<in> valid_decisions | None \<Rightarrow> False))"
| "valid_event _ = False"

definition event_digest :: "py_env \<Rightarrow> json \<Rightarrow> string res" where
  "event_digest e v = res_bind (canonical e v) (\<lambda>raw. Inr (sha256_hex raw))"

definition stage_eventupload :: "py_env \<Rightarrow> string \<Rightarrow> (string \<times> json) list \<Rightarrow> model \<Rightarrow> outcome" where
  "stage_eventupload e device body m =
     (case dget body ''events'' of
        Some (JArr events) \<Rightarrow>
          if \<not> (1 \<le> length events \<and> length events \<le> MAX_EVENTS) then (Inr (400, []), m)
          else if list_ex (\<lambda>v. \<not> valid_event v) events then (Inr (400, []), m)
          else (case res_map (event_digest e) events of
             Inl x \<Rightarrow> (Inl x, m)
           | Inr digests \<Rightarrow>
               (case event_digests m device of
                  None \<Rightarrow> (Inl KeyError, m)
                | Some seen \<Rightarrow>
                    (let combined = seen \<union> set digests in
                     if card combined > MAX_EVENT_DIGESTS then (Inr (429, []), m)
                     else (Inr (200, []),
                           m\<lparr>event_digests := (event_digests m)(device \<mapsto> combined)\<rparr>))))
      | _ \<Rightarrow> (Inr (400, []), m))"

definition requested_offset :: "py_env \<Rightarrow> bytes \<Rightarrow> string \<Rightarrow> session \<Rightarrow> (string \<times> json) list \<Rightarrow> nat res" where
  "requested_offset e key device s body =
     (case dget body ''cursor'' of
        None \<Rightarrow> Inr 0
      | Some (JStr c) \<Rightarrow> if c = [] then Inr 0 else model_offset e key c device s
      | Some _ \<Rightarrow> Inl ValueError)"

definition stage_ruledownload ::
  "py_env \<Rightarrow> string \<Rightarrow> session \<Rightarrow> (string \<times> json) list \<Rightarrow> model \<Rightarrow> outcome" where
  "stage_ruledownload e device s body m =
     (case requested_offset e (mkey m) device s body of
        Inl x \<Rightarrow> if isa_ValueError x then (Inr (400, []), m) else (Inl x, m)
      | Inr off \<Rightarrow>
          (let rs = rules (sess_snapshot s) in
           if off \<ge> length rs then (Inl IndexError, m)
           else case loads_bytes (default_hooks e) e (rs ! off) of
             Inl x \<Rightarrow> (Inl x, m)
           | Inr rule \<Rightarrow>
               (let s1 = s\<lparr>served := insert off (served s)\<rparr>;
                    m1 = m\<lparr>sessions := (sessions m)(device \<mapsto> s1)\<rparr>
                in if off + 1 < length rs then
                     (case model_cursor e (mkey m) device s1 (off + 1) of
                        Inl x \<Rightarrow> (Inl x, m1)
                      | Inr c \<Rightarrow> (Inr (200, [(''rules'', JArr [rule]), (''cursor'', JStr c)]), m1))
                   else (Inr (200, [(''rules'', JArr [rule]), (''cursor'', JStr [])]), m1))))"

definition stage_postflight :: "string \<Rightarrow> session \<Rightarrow> (string \<times> json) list \<Rightarrow> model \<Rightarrow> outcome" where
  "stage_postflight device s body m =
     (let snap = sess_snapshot s; count = length (rules snap) in
      if dget body ''rules_received'' \<noteq> Some (JInt (int count))
         \<or> dget body ''rules_processed'' \<noteq> Some (JInt (int count))
         \<or> served s \<noteq> {0..<count} \<or> dget body ''syncType'' \<noteq> Some (JStr ''CLEAN'')
      then (Inr (409, []), m)
      else (Inr (200, []),
            m\<lparr>acknowledged := (acknowledged m)(device \<mapsto> revision snap),
              sessions := (sessions m)(device \<mapsto> s\<lparr>acked := True\<rparr>)\<rparr>))"

definition handle :: "py_env \<Rightarrow> (nat \<Rightarrow> real) \<Rightarrow> string \<Rightarrow> string \<Rightarrow> string \<Rightarrow> (string \<times> json) list
    \<Rightarrow> model \<Rightarrow> outcome" where
  "handle e clock fresh stage device body m =
     (if dget body ''machine_id'' \<noteq> Some (JStr device) then (Inr (403, []), m)
      else if stage = ''preflight'' then stage_preflight clock fresh device m
      else case sessions m device of
        None \<Rightarrow> (Inr (409, []), m)
      | Some s \<Rightarrow>
          if clock 0 \<ge> expires s then (Inr (409, []), m)
          else if stage = ''eventupload'' then stage_eventupload e device body m
          else if stage = ''ruledownload'' then stage_ruledownload e device s body m
          else if stage = ''postflight'' then stage_postflight device s body m
          else (Inr (404, []), m))"

section \<open>The HTTP handler\<close>

record request =
  path :: string
  headers :: "(string \<times> string) list"
  rfile_read :: "nat \<Rightarrow> bytes res"

text \<open>\<open>get_all(name, [])\<close>; \<open>get(name)\<close> is the first value.  Header names ignore case.\<close>

definition get_all :: "request \<Rightarrow> string \<Rightarrow> string list" where
  "get_all rq name = map snd (filter (\<lambda>(k, v). py_lower_ascii k = py_lower_ascii name) (headers rq))"

definition get_header :: "request \<Rightarrow> string \<Rightarrow> string option" where
  "get_header rq name = (case get_all rq name of [] \<Rightarrow> None | v # _ \<Rightarrow> Some v)"

definition stage_names :: "string list" where
  "stage_names = [''preflight'', ''eventupload'', ''ruledownload'', ''postflight'']"

definition device_names :: "string list" where
  "device_names = [''device-a'', ''device-b'']"

definition match_path :: "string \<Rightarrow> (string \<times> string) option" where
  "match_path p = find (\<lambda>(s, d). p = ''/'' @ s @ ''/'' @ d) (List.product stage_names device_names)"

definition bearer_token :: "request \<Rightarrow> string" where
  "bearer_token rq = (case get_all rq ''Authorization'' of
       [h] \<Rightarrow> if startswith h ''Bearer '' then drop 7 h else []
     | _ \<Rightarrow> [])"

text \<open>What reaches the socket: the status and the canonical body.\<close>

type_synonym wire = "nat \<times> bytes"

definition reply :: "py_env \<Rightarrow> string \<Rightarrow> nat \<Rightarrow> (string \<times> json) list \<Rightarrow> model \<Rightarrow> wire res \<times> model" where
  "reply e request_id status body m =
     (res_bind (canonical e (JObj body)) (\<lambda>raw. Inr (status, raw)),
      m\<lparr>audit := keep_last 128 (audit m @ [(request_id, status)])\<rparr>)"

definition do_GET :: "py_env \<Rightarrow> string \<Rightarrow> model \<Rightarrow> wire res \<times> model" where
  "do_GET e request_id m = reply e request_id 405 [] m"

definition send_error :: "py_env \<Rightarrow> string \<Rightarrow> nat \<Rightarrow> model \<Rightarrow> wire res \<times> model" where
  "send_error e request_id code m = reply e request_id code [] m"

text \<open>The status of an exception caught around decoding and handling; \<open>None\<close>: not caught.\<close>

definition exn_status :: "exn \<Rightarrow> nat option" where
  "exn_status x =
     (if x = OverflowError then Some 413
      else if isa_LookupError x then Some 415
      else if isa_ValueError x \<or> x \<in> {ZlibError, RecursionError, TimeoutError} then Some 400
      else None)"

definition decode_and_handle :: "zlib \<Rightarrow> py_env \<Rightarrow> (nat \<Rightarrow> real) \<Rightarrow> string \<Rightarrow> string \<Rightarrow> string \<Rightarrow> nat
    \<Rightarrow> request \<Rightarrow> model \<Rightarrow> outcome" where
  "decode_and_handle z e clock fresh stage device len rq m =
     (case rfile_read rq len of
        Inl x \<Rightarrow> (Inl x, m)
      | Inr raw \<Rightarrow>
          if length raw \<noteq> len then (Inl ValueError, m)
          else case decode z e raw (case get_header rq ''Content-Encoding'' of None \<Rightarrow> [] | Some v \<Rightarrow> v) of
            Inl x \<Rightarrow> (Inl x, m)
          | Inr body \<Rightarrow> handle e clock fresh stage device body m)"

text \<open>
  The checks of \<open>do_POST\<close> before the body is read: the refusing status, or the stage, the
  device and the announced length.
\<close>

definition accept_post :: "request \<Rightarrow> model \<Rightarrow> nat + (string \<times> string \<times> nat)" where
  "accept_post rq m =
     (case match_path (path rq) of
        None \<Rightarrow> Inl 404
      | Some (stage, device) \<Rightarrow>
          if tokens m (bearer_token rq) \<noteq> Some device then Inl 401
          else if (case get_header rq ''Transfer-Encoding'' of None \<Rightarrow> False | Some v \<Rightarrow> v \<noteq> [])
                  \<or> length (get_all rq ''Content-Length'') \<noteq> 1 then Inl 400
          else case py_int (hd (get_all rq ''Content-Length'')) of
            Inl x \<Rightarrow> Inl 400
          | Inr len \<Rightarrow>
              if \<not> (0 \<le> len \<and> len \<le> int MAX_BYTES) then Inl 413
              else if get_header rq ''Content-Type'' \<noteq> Some ''application/json'' then Inl 415
              else Inr (stage, device, nat len))"

definition do_POST :: "zlib \<Rightarrow> py_env \<Rightarrow> (nat \<Rightarrow> real) \<Rightarrow> string \<Rightarrow> string \<Rightarrow> request \<Rightarrow> model
    \<Rightarrow> wire res \<times> model" where
  "do_POST z e clock fresh request_id rq m =
     (case accept_post rq m of
        Inl status \<Rightarrow> reply e request_id status [] m
      | Inr (stage, device, len) \<Rightarrow>
          (case decode_and_handle z e clock fresh stage device len rq m of
             (Inr (status, body), m1) \<Rightarrow> reply e request_id status body m1
           | (Inl x, m1) \<Rightarrow>
               (case exn_status x of
                  Some status \<Rightarrow> reply e request_id status [] m1
                | None \<Rightarrow> (Inl x, m1))))"

end
