(* ===== verification/Sync_Safety.thy ===== *)
theory Sync_Safety
  imports Sync_Model
begin

text \<open>
  Safety of the sync server: which part of the state a request may touch, the invariant of
  sessions, digests and audit trail over every sequence of requests, and the two
  consequences the protocol rests on: acknowledged revisions never regress, and a
  revoked device is refused.
\<close>

section \<open>What one request may change\<close>

definition only_device :: "string \<Rightarrow> model \<Rightarrow> model \<Rightarrow> bool" where
  "only_device d m m' \<longleftrightarrow>
     tokens m' = tokens m \<and> mkey m' = mkey m \<and> cur_snapshot m' = cur_snapshot m \<and> audit m' = audit m
     \<and> (\<forall>d'. d' \<noteq> d \<longrightarrow> sessions m' d' = sessions m d' \<and> acknowledged m' d' = acknowledged m d'
              \<and> event_digests m' d' = event_digests m d')"

lemma only_device_refl [simp]: "only_device d m m"
  by (simp add: only_device_def)

lemma preflight_only: "stage_preflight clock fresh d m = (r, m') \<Longrightarrow> only_device d m m'"
  by (auto simp: stage_preflight_def only_device_def Let_def split: if_splits option.splits)

lemma eventupload_only: "stage_eventupload e d body m = (r, m') \<Longrightarrow> only_device d m m'"
  by (auto simp: stage_eventupload_def only_device_def Let_def
      split: if_splits option.splits json.splits sum.splits)

lemma ruledownload_only: "stage_ruledownload e d s body m = (r, m') \<Longrightarrow> only_device d m m'"
  by (auto simp: stage_ruledownload_def only_device_def Let_def
      split: if_splits sum.splits)

lemma postflight_only: "stage_postflight d s body m = (r, m') \<Longrightarrow> only_device d m m'"
  by (auto simp: stage_postflight_def only_device_def Let_def split: if_splits)

lemmas stage_only = preflight_only eventupload_only ruledownload_only postflight_only

lemma handle_only: "handle e clock fresh stage d body m = (r, m') \<Longrightarrow> only_device d m m'"
  by (auto simp: handle_def split: if_splits option.splits intro: stage_only)

lemma decode_and_handle_only:
  "decode_and_handle z e clock fresh stage d len rq m = (r, m') \<Longrightarrow> only_device d m m'"
  by (auto simp: decode_and_handle_def split: if_splits sum.splits intro: handle_only)

text \<open>A request of \<open>do_POST\<close> in normal form: refused without touching the devices, or handled
  for the device that the bearer token is bound to.\<close>

lemma accept_post_Inr:
  "accept_post rq m = Inr (stage, device, len) \<Longrightarrow>
     match_path (path rq) = Some (stage, device) \<and> tokens m (bearer_token rq) = Some device
     \<and> len \<le> MAX_BYTES"
  by (auto simp: accept_post_def split: option.splits if_splits sum.splits)

lemma accept_post_Inl: "accept_post rq m = Inl status \<Longrightarrow> status \<in> {400, 401, 404, 413, 415}"
  by (auto simp: accept_post_def split: option.splits if_splits sum.splits)

lemma do_POST_cases:
  assumes "do_POST z e clock fresh rid rq m = (r, m')"
  obtains (refused) status where "accept_post rq m = Inl status" "reply e rid status [] m = (r, m')"
  | (handled) stage device len out m1 where "accept_post rq m = Inr (stage, device, len)"
      "decode_and_handle z e clock fresh stage device len rq m = (out, m1)"
      "(\<exists>status body. (out = Inr (status, body) \<or> (\<exists>x. out = Inl x \<and> exn_status x = Some status \<and> body = []))
          \<and> reply e rid status body m1 = (r, m'))
       \<or> (\<exists>x. out = Inl x \<and> exn_status x = None \<and> r = Inl x \<and> m' = m1)"
proof (cases "accept_post rq m")
  case (Inl status)
  with assms show thesis by (intro refused) (simp_all add: do_POST_def)
next
  case (Inr p)
  obtain stage device len where p: "p = (stage, device, len)" by (cases p)
  obtain out m1 where out: "decode_and_handle z e clock fresh stage device len rq m = (out, m1)"
    by (cases "decode_and_handle z e clock fresh stage device len rq m")
  show thesis
    by (rule handled [OF Inr [unfolded p] out])
       (use assms Inr p out in \<open>auto simp: do_POST_def split: sum.splits option.splits prod.splits\<close>)
qed

lemma do_POST_handled_state:
  assumes "do_POST z e clock fresh rid rq m = (r, m')" "accept_post rq m = Inr (stage, device, len)"
    "decode_and_handle z e clock fresh stage device len rq m = (out, m1)"
  obtains a where "m' = m1\<lparr>audit := a\<rparr>" "length a \<le> 128 \<or> a = audit m1"
proof -
  have "\<exists>a. m' = m1\<lparr>audit := a\<rparr> \<and> (length a \<le> 128 \<or> a = audit m1)"
    using assms(1)
  proof (cases rule: do_POST_cases)
    case (handled stage' device' len' out' m1')
    then show ?thesis using assms(2,3)
      by (auto simp: reply_def intro: exI [where x = "audit m1"])
  qed (use assms in simp)
  then show thesis using that by blast
qed

section \<open>The invariant\<close>

definition ack_of :: "model \<Rightarrow> string \<Rightarrow> int" where
  "ack_of m d = (case acknowledged m d of None \<Rightarrow> 0 | Some r \<Rightarrow> r)"

lemma ack_of_simps [simp]:
  "ack_of (m\<lparr>sessions := x1\<rparr>) d = ack_of m d"
  "ack_of (m\<lparr>event_digests := x2\<rparr>) d = ack_of m d"
  "ack_of (m\<lparr>audit := x3\<rparr>) d = ack_of m d"
  "ack_of (m\<lparr>tokens := x4\<rparr>) d = ack_of m d"
  "ack_of (m\<lparr>cur_snapshot := x5\<rparr>) d = ack_of m d"
  "ack_of (m\<lparr>acknowledged := (acknowledged m)(d' \<mapsto> n)\<rparr>) d = (if d = d' then n else ack_of m d)"
  by (simp_all add: ack_of_def)

lemma eventupload_effect:
  assumes "stage_eventupload e d body m = (r, m')"
  obtains (unchanged) "m' = m"
  | (stored) seen digests where "event_digests m d = Some seen" "r = Inr (200, [])"
      "card (seen \<union> set digests) \<le> MAX_EVENT_DIGESTS"
      "m' = m\<lparr>event_digests := (event_digests m)(d \<mapsto> seen \<union> set digests)\<rparr>"
proof (cases "m' = m")
  case False
  with assms obtain events where ev: "dget body ''events'' = Some (JArr events)"
    by (auto simp: stage_eventupload_def split: option.splits json.splits)
  with False assms obtain digests where ds: "res_map (event_digest e) events = Inr digests"
    by (auto simp: stage_eventupload_def split: if_splits sum.splits)
  with False assms ev obtain seen where seen: "event_digests m d = Some seen"
    by (auto simp: stage_eventupload_def split: if_splits option.splits)
  have "r = Inr (200, []) \<and> card (seen \<union> set digests) \<le> MAX_EVENT_DIGESTS \<and>
      m' = m\<lparr>event_digests := (event_digests m)(d \<mapsto> seen \<union> set digests)\<rparr>"
    using False assms ev ds seen by (auto simp: stage_eventupload_def Let_def split: if_splits)
  with seen show thesis by (intro stored) auto
qed (rule unchanged)

definition session_ok :: "int \<Rightarrow> session \<Rightarrow> bool" where
  "session_ok ack s \<longleftrightarrow>
     (let n = length (rules (sess_snapshot s)) in
      0 < n \<and> served s \<subseteq> {0..<n} \<and> ack \<le> revision (sess_snapshot s) \<and> (acked s \<longrightarrow> served s = {0..<n}))"

definition sync_inv :: "model \<Rightarrow> bool" where
  "sync_inv m \<longleftrightarrow>
     (\<forall>d s. sessions m d = Some s \<longrightarrow> session_ok (ack_of m d) s)
     \<and> (\<forall>d ds. event_digests m d = Some ds \<longrightarrow> finite ds \<and> card ds \<le> MAX_EVENT_DIGESTS)
     \<and> length (audit m) \<le> 128"

lemma sync_inv_audit: "sync_inv m \<Longrightarrow> length a \<le> 128 \<Longrightarrow> sync_inv (m\<lparr>audit := a\<rparr>)"
  by (simp add: sync_inv_def)

lemma preflight_inv:
  assumes "sync_inv m" "stage_preflight clock fresh d m = (r, m')"
  shows "sync_inv m'"
proof -
  have "session_ok (ack_of m d) (new_session fresh (cur_snapshot m) now)"
    if "rules (cur_snapshot m) \<noteq> []" "\<not> revision (cur_snapshot m) < ack_of m d" for now
    using that by (simp add: session_ok_def new_session_def)
  with assms show ?thesis
    by (auto simp: stage_preflight_def sync_inv_def Let_def ack_of_def [symmetric]
        split: if_splits option.splits)
qed

lemma eventupload_inv:
  assumes "sync_inv m" "stage_eventupload e d body m = (r, m')"
  shows "sync_inv m'"
  using assms(2)
proof (cases rule: eventupload_effect)
  case (stored seen digests)
  with assms(1) show ?thesis by (auto simp: sync_inv_def)
qed (use assms(1) in simp)

lemma ruledownload_inv:
  assumes "sync_inv m" "sessions m d = Some s" "stage_ruledownload e d s body m = (r, m')"
  shows "sync_inv m'"
proof -
  have ok: "session_ok (ack_of m d) s" using assms by (simp add: sync_inv_def)
  have "session_ok (ack_of m d) (s\<lparr>served := insert off (served s)\<rparr>)"
    if "off < length (rules (sess_snapshot s))" for off
    using ok that by (auto simp: session_ok_def Let_def)
  with assms show ?thesis
    by (auto simp: stage_ruledownload_def sync_inv_def Let_def not_le
        split: if_splits sum.splits)
qed

lemma postflight_inv:
  assumes "sync_inv m" "sessions m d = Some s" "stage_postflight d s body m = (r, m')"
  shows "sync_inv m'"
proof -
  have ok: "session_ok (ack_of m d) s" using assms by (simp add: sync_inv_def)
  have "session_ok (revision (sess_snapshot s)) (s\<lparr>acked := True\<rparr>)"
    if "served s = {0..<length (rules (sess_snapshot s))}"
    using ok that by (auto simp: session_ok_def Let_def)
  with assms show ?thesis
    by (auto simp: stage_postflight_def sync_inv_def Let_def split: if_splits)
qed

lemma handle_inv:
  "sync_inv m \<Longrightarrow> handle e clock fresh stage d body m = (r, m') \<Longrightarrow> sync_inv m'"
  by (auto simp: handle_def split: if_splits option.splits
      intro: preflight_inv eventupload_inv ruledownload_inv postflight_inv)

lemma decode_and_handle_inv:
  "sync_inv m \<Longrightarrow> decode_and_handle z e clock fresh stage d len rq m = (r, m') \<Longrightarrow> sync_inv m'"
  by (auto simp: decode_and_handle_def split: if_splits sum.splits intro: handle_inv)

section \<open>Runs\<close>

text \<open>
  A step is one HTTP request, one of the fixture's credential operations, or the owner
  of the process installing a new snapshot.
\<close>

inductive sync_step :: "zlib \<Rightarrow> py_env \<Rightarrow> model \<Rightarrow> model \<Rightarrow> bool" for z e where
  post: "do_POST z e clock fresh rid rq m = (r, m') \<Longrightarrow> sync_step z e m m'"
| get: "do_GET e rid m = (r, m') \<Longrightarrow> sync_step z e m m'"
| error: "send_error e rid code m = (r, m') \<Longrightarrow> sync_step z e m m'"
| revoke: "sync_step z e m (revoke_fixture_device d m)"
| rotate: "rotate_fixture_device fresh d m = (t, m') \<Longrightarrow> sync_step z e m m'"
| publish: "sync_step z e m (m\<lparr>cur_snapshot := snap\<rparr>)"

lemma revoke_inv: "sync_inv m \<Longrightarrow> sync_inv (revoke_fixture_device d m)"
  by (auto simp: sync_inv_def revoke_fixture_device_def split: if_splits)

lemma sync_step_inv:
  assumes "sync_inv m" "sync_step z e m m'"
  shows "sync_inv m'"
  using assms(2,1)
proof (induction rule: sync_step.induct)
  case (post clock fresh rid rq m r m')
  from post(1) show ?case
  proof (cases rule: do_POST_cases)
    case (refused status)
    with post show ?thesis by (auto simp: reply_def intro: sync_inv_audit)
  next
    case (handled stage device len out m1)
    then have "sync_inv m1" using post decode_and_handle_inv by blast
    moreover obtain a where "m' = m1\<lparr>audit := a\<rparr>" "length a \<le> 128 \<or> a = audit m1"
      using post(1) handled(1,2) by (rule do_POST_handled_state)
    ultimately show ?thesis by (auto intro: sync_inv_audit)
  qed
next
  case (rotate fresh d m t m')
  have "sync_inv (revoke_fixture_device d m)" using rotate by (intro revoke_inv)
  with rotate show ?case
    by (auto simp: rotate_fixture_device_def Let_def sync_inv_def)
next
  case (publish m snap)
  then show ?case by (simp add: sync_inv_def)
qed (auto simp: do_GET_def send_error_def reply_def intro: sync_inv_audit revoke_inv)

interpretation sync: invariant_steps "sync_step z e" sync_inv for z e
  by unfold_locales (rule sync_step_inv)

lemma init_inv: "sync_inv (init_model snap ta tb key)"
  by (auto simp: sync_inv_def init_model_def split: if_splits)

text \<open>One step never lowers the revision a device has acknowledged.\<close>

lemma postflight_ack:
  assumes "sync_inv m" "sessions m d = Some s" "stage_postflight d s body m = (r, m')"
  shows "ack_of m d \<le> ack_of m' d"
proof -
  have "ack_of m d \<le> revision (sess_snapshot s)"
    using assms by (auto simp: sync_inv_def session_ok_def Let_def)
  with assms(3) show ?thesis
    by (auto simp: stage_postflight_def Let_def split: if_splits)
qed

lemma handle_ack:
  assumes "sync_inv m" "handle e clock fresh stage d body m = (r, m')"
  shows "ack_of m d' \<le> ack_of m' d'"
proof (cases "d' = d")
  case False
  then show ?thesis using handle_only [OF assms(2)] by (simp add: only_device_def ack_of_def)
next
  case True
  have "ack_of m' d = ack_of m d" if "stage_preflight clock fresh d m = (r, m')"
    using that by (auto simp: stage_preflight_def Let_def split: if_splits option.splits)
  moreover have "ack_of m' d = ack_of m d" if "stage_eventupload e d body m = (r, m')"
    using that by (cases rule: eventupload_effect) simp_all
  moreover have "ack_of m' d = ack_of m d" if "stage_ruledownload e d s body m = (r, m')" for s
    using that by (auto simp: stage_ruledownload_def Let_def split: if_splits sum.splits)
  ultimately show ?thesis
    using assms True
    by (auto simp: handle_def split: if_splits option.splits dest: postflight_ack)
qed

lemma sync_step_ack:
  assumes "sync_inv m" "sync_step z e m m'"
  shows "ack_of m d \<le> ack_of m' d"
  using assms(2,1)
proof (induction rule: sync_step.induct)
  case (post clock fresh rid rq m r m')
  from post(1) show ?case
  proof (cases rule: do_POST_cases)
    case (handled stage device len out m1)
    have "ack_of m d \<le> ack_of m1 d"
      using handled(2) post(2) by (auto simp: decode_and_handle_def split: if_splits sum.splits dest: handle_ack)
    moreover obtain a where "m' = m1\<lparr>audit := a\<rparr>"
      using post(1) handled(1,2) by (rule do_POST_handled_state)
    ultimately show ?thesis by simp
  qed (auto simp: reply_def)
qed (auto simp: do_GET_def send_error_def reply_def revoke_fixture_device_def
    rotate_fixture_device_def Let_def)

section \<open>Properties\<close>

text \<open>An environment, a snapshot and a server to evaluate the properties on.\<close>

definition fx_env :: py_env where
  "fx_env = \<lparr>float_of = (\<lambda>_. Fin 0), float_repr = (\<lambda>_. ''0.0''), nest_limit = 900,
             decode_wide = (\<lambda>_. Inl UnicodeError)\<rparr>"

definition fx_zlib :: zlib where
  "fx_zlib wbits raw max_length = Inl ZlibError"

definition fx_rule :: "string \<Rightarrow> json" where
  "fx_rule ident = JObj [(''identifier'', JStr ident), (''policy'', JStr ''BLOCKLIST''),
                         (''rule_type'', JStr ''BINARY'')]"

definition fx_snapshot :: snapshot where
  "fx_snapshot = \<lparr>revision = 7, rules = [print_json fx_env True (fx_rule ''a''), print_json fx_env True (fx_rule ''b'')],
                  approval = JStr ''synthetic-only''\<rparr>"

definition fx_model :: model where
  "fx_model = init_model fx_snapshot ''ta'' ''tb'' ''key''"

definition fx_request :: "string \<Rightarrow> string \<Rightarrow> request" where
  "fx_request p token = \<lparr>path = p, headers = [(''Authorization'', ''Bearer '' @ token)],
                         rfile_read = (\<lambda>_. Inl TimeoutError)\<rparr>"

lemmas fx_defs = fx_env_def fx_zlib_def fx_rule_def fx_snapshot_def fx_model_def fx_request_def

lemma post_keeps_others:
  assumes "do_POST z e clock fresh rid rq m = (r, m')" "tokens m (bearer_token rq) \<noteq> Some d"
  shows "sessions m' d = sessions m d" "acknowledged m' d = acknowledged m d"
    "event_digests m' d = event_digests m d"
proof -
  have "sessions m' d = sessions m d \<and> acknowledged m' d = acknowledged m d
      \<and> event_digests m' d = event_digests m d"
    using assms(1)
  proof (cases rule: do_POST_cases)
    case (handled stage device len out m1)
    then have "device \<noteq> d" using assms(2) accept_post_Inr by force
    moreover have "only_device device m m1" using handled decode_and_handle_only by blast
    moreover obtain a where "m' = m1\<lparr>audit := a\<rparr>"
      using assms(1) handled(1,2) by (rule do_POST_handled_state)
    ultimately show ?thesis by (auto simp: only_device_def)
  qed (auto simp: reply_def)
  then show "sessions m' d = sessions m d" "acknowledged m' d = acknowledged m d"
    "event_digests m' d = event_digests m d" by simp_all
qed

text \<open>C1: device isolation.  Whatever a POST request contains, the session, the acknowledged
  revision and the event digests of a device change only when the request carries a bearer
  token bound to that device; and no request changes the credential table, the signing key
  or the published snapshot.\<close>

theorem device_isolation:
  assumes "tokens m (bearer_token rq) \<noteq> Some d"
  shows "let m' = snd (do_POST z e clock fresh rid rq m) in
         sessions m' d = sessions m d \<and> acknowledged m' d = acknowledged m d
         \<and> event_digests m' d = event_digests m d
         \<and> tokens m' = tokens m \<and> mkey m' = mkey m \<and> cur_snapshot m' = cur_snapshot m"
proof -
  obtain r m' where post: "do_POST z e clock fresh rid rq m = (r, m')" by fastforce
  have "tokens m' = tokens m \<and> mkey m' = mkey m \<and> cur_snapshot m' = cur_snapshot m"
    using post
  proof (cases rule: do_POST_cases)
    case (handled stage device len out m1)
    then have "only_device device m m1" using decode_and_handle_only by blast
    moreover obtain a where "m' = m1\<lparr>audit := a\<rparr>"
      using post handled(1,2) by (rule do_POST_handled_state)
    ultimately show ?thesis by (auto simp: only_device_def)
  qed (auto simp: reply_def)
  with post_keeps_others [OF post assms] post show ?thesis by simp
qed

theorem device_isolation_witness:
  "let m' = snd (do_POST fx_zlib fx_env (\<lambda>_. 0) ''s'' ''r'' (fx_request ''/preflight/device-a'' ''tb'') fx_model) in
     sessions m' ''device-a'' = sessions fx_model ''device-a''"
  using device_isolation [of fx_model "fx_request ''/preflight/device-a'' ''tb''" "''device-a''"
      fx_zlib fx_env "\<lambda>_. 0" "''s''" "''r''"]
  by (simp add: fx_defs init_model_def bearer_token_def get_all_def py_lower_ascii_def lower_char_def
      is_upper_def in_range_def Let_def)

abbreviation sync_run :: "zlib \<Rightarrow> py_env \<Rightarrow> model \<Rightarrow> model \<Rightarrow> bool" where
  "sync_run z e \<equiv> (sync_step z e)\<^sup>*\<^sup>*"

lemma publish_run: "sync_run z e m (m\<lparr>cur_snapshot := snap\<rparr>)"
  by (rule r_into_rtranclp) (rule sync_step.publish)

text \<open>C2: acknowledged revisions never regress.  In every run of the server from its initial
  state, through any requests, credential rotations, revocations and newly installed
  snapshots (older ones included), the revision a device has acknowledged never becomes
  smaller.\<close>

theorem acknowledged_never_regresses:
  assumes "sync_run z e (init_model snap ta tb key) m" and "sync_run z e m m'"
  shows "ack_of m d \<le> ack_of m' d"
proof (rule sync.steps_mono [OF assms(2)])
  show "sync_inv m" using sync.steps_inv [OF assms(1) init_inv] .
qed (rule sync_step_ack)

theorem acknowledged_never_regresses_witness:
  "ack_of fx_model ''device-a'' \<le> ack_of (fx_model\<lparr>cur_snapshot := fx_snapshot\<lparr>revision := 1\<rparr>\<rparr>) ''device-a''"
  using acknowledged_never_regresses [of fx_zlib fx_env fx_snapshot "''ta''" "''tb''" "''key''" fx_model
      "fx_model\<lparr>cur_snapshot := fx_snapshot\<lparr>revision := 1\<rparr>\<rparr>" "''device-a''"] publish_run
  by (auto simp: fx_model_def)

text \<open>C3: the state stays bounded and consistent.  In every reachable state a session pins a
  non-empty snapshot at least as new as the device's acknowledged revision, the served
  offsets are offsets of that snapshot, an acknowledged session has served every rule, at
  most 256 event digests are held per device, and at most 128 audit entries.\<close>

theorem reachable_state_bounded:
  assumes "sync_run z e (init_model snap ta tb key) m"
  shows "(\<forall>d s. sessions m d = Some s \<longrightarrow>
           rules (sess_snapshot s) \<noteq> [] \<and> ack_of m d \<le> revision (sess_snapshot s)
           \<and> served s \<subseteq> {0..<length (rules (sess_snapshot s))}
           \<and> (acked s \<longrightarrow> served s = {0..<length (rules (sess_snapshot s))}))
         \<and> (\<forall>d ds. event_digests m d = Some ds \<longrightarrow> card ds \<le> 256)
         \<and> length (audit m) \<le> 128"
proof -
  have inv: "sync_inv m" using sync.steps_inv [OF assms init_inv] .
  then have "session_ok (ack_of m d) s" if "sessions m d = Some s" for d s
    using that by (simp add: sync_inv_def)
  then have "\<forall>d s. sessions m d = Some s \<longrightarrow>
      rules (sess_snapshot s) \<noteq> [] \<and> ack_of m d \<le> revision (sess_snapshot s)
      \<and> served s \<subseteq> {0..<length (rules (sess_snapshot s))}
      \<and> (acked s \<longrightarrow> served s = {0..<length (rules (sess_snapshot s))})"
    by (simp add: session_ok_def Let_def)
  with inv show ?thesis by (simp add: sync_inv_def MAX_EVENT_DIGESTS_def)
qed

theorem reachable_state_bounded_witness:
  "sync_run fx_zlib fx_env fx_model (fx_model\<lparr>cur_snapshot := fx_snapshot\<lparr>revision := 9\<rparr>\<rparr>)
   \<and> length (audit (fx_model\<lparr>cur_snapshot := fx_snapshot\<lparr>revision := 9\<rparr>\<rparr>)) \<le> 128"
  using reachable_state_bounded [of fx_zlib fx_env fx_snapshot "''ta''" "''tb''" "''key''"
      "fx_model\<lparr>cur_snapshot := fx_snapshot\<lparr>revision := 9\<rparr>\<rparr>"] publish_run [of fx_zlib fx_env fx_model]
  by (auto simp: fx_model_def)

lemma match_path_Some:
  "match_path p = Some (st, d) \<Longrightarrow> p = ''/'' @ st @ ''/'' @ d \<and> st \<in> set stage_names \<and> d \<in> set device_names"
  by (auto simp: match_path_def stage_names_def device_names_def split: if_splits)

lemma canonical_empty: "0 < nest_limit e \<Longrightarrow> canonical e (JObj []) = Inr ''{}''"
  by (simp add: canonical_def)

text \<open>Revocation is immediate.  After \<open>revoke_fixture_device\<close>, every POST request for that
  device is answered 401 with an empty object, whatever token it carries, and nothing but
  the audit trail changes.\<close>

theorem revoked_device_refused:
  assumes "match_path (path rq) = Some (stage, d)" and "0 < nest_limit e"
  shows "\<exists>a. do_POST z e clock fresh rid rq (revoke_fixture_device d m)
           = (Inr (401, ''{}''), (revoke_fixture_device d m)\<lparr>audit := a\<rparr>)"
  using assms by (auto simp: do_POST_def accept_post_def revoke_fixture_device_def reply_def canonical_empty)

theorem revoked_device_refused_witness:
  "fst (do_POST fx_zlib fx_env (\<lambda>_. 0) ''s'' ''r'' (fx_request ''/postflight/device-b'' ''tb'')
     (revoke_fixture_device ''device-b'' fx_model)) = Inr (401, ''{}'')"
  using revoked_device_refused [of "fx_request ''/postflight/device-b'' ''tb''" "''postflight''" "''device-b''"
      fx_env fx_zlib "\<lambda>_. 0" "''s''" "''r''" fx_model]
  by (auto simp: fx_env_def fx_request_def match_path_def stage_names_def device_names_def)

text \<open>A rotated credential starts over.  Rotation returns the only token that is then bound
  to the device, and it drops the device's session: with the new token every stage but
  preflight is answered 409 until a preflight opens a new session.\<close>

theorem rotation_drops_session:
  assumes "rotate_fixture_device fresh d m = (token, m')" and "fresh \<notin> dom (tokens m)"
    and "dget body ''machine_id'' = Some (JStr d)" and "stage \<noteq> ''preflight''"
  shows "{t. tokens m' t = Some d} = {token} \<and> handle e clock sid stage d body m' = (Inr (409, []), m')"
  using assms by (auto simp: rotate_fixture_device_def revoke_fixture_device_def handle_def Let_def split: if_splits)

theorem rotation_drops_session_witness:
  "handle fx_env (\<lambda>_. 0) ''s'' ''postflight'' ''device-a'' [(''machine_id'', JStr ''device-a'')]
     (snd (rotate_fixture_device ''tc'' ''device-a'' fx_model))
   = (Inr (409, []), snd (rotate_fixture_device ''tc'' ''device-a'' fx_model))"
  by (rule rotation_drops_session [THEN conjunct2, of "''tc''" "''device-a''" fx_model
        "fst (rotate_fixture_device ''tc'' ''device-a'' fx_model)"])
     (simp_all add: fx_model_def init_model_def)

end
