(* ===== verification/Sync_Paging.thy ===== *)
theory Sync_Paging
  imports Sync_Safety
begin

text \<open>
  Rule download of the sync server: what a paging cursor proves about its holder, the
  round trip of cursors, and the complete exchange of a well-behaved client, which
  receives every rule of the published snapshot in order and is then acknowledged.
\<close>

section \<open>Canonical documents read back\<close>

definition plain_char :: "char \<Rightarrow> bool" where
  "plain_char c \<longleftrightarrow> 0 < ord c \<and> ord c < 128"

lemma plain_hex_char: "n < 16 \<Longrightarrow> plain_char (hex_char n)"
  by (simp add: plain_char_def hex_char_def)

lemma show_nat_plain: "list_all plain_char (show_nat n)"
proof -
  have "plain_char c" if "is_digit c" for c
    using that by (auto simp: plain_char_def is_digit_def in_range_def)
  then show ?thesis using show_nat_digits [of n] by (auto simp: list_all_iff)
qed

lemma escape_point_plain: "n < 128 \<Longrightarrow> list_all plain_char (escape_point True n)"
  by (auto simp: escape_point_def simple_escape_def u_escape_def hex4_def plain_hex_char
      utf8_encode_ascii plain_char_def hex_char_def)

lemma quote_plain: "isascii s \<Longrightarrow> list_all plain_char (quote True s)"
  by (induction s)
     (auto simp: quote_def isascii_def code_points_ascii is_ascii_def escape_point_plain plain_char_def)

lemma join_on_plain:
  "plain_char d \<Longrightarrow> \<forall>s \<in> set ss. list_all plain_char s \<Longrightarrow> list_all plain_char (join_on d ss)"
  by (induction d ss rule: join_on.induct) auto

lemma plain_punctuation [simp]:
  "plain_char (CHR '','')" "plain_char (CHR ''['')" "plain_char (CHR '']'')" "plain_char (CHR ''{'')"
  "plain_char (CHR ''}'')" "plain_char (CHR '':'')" "plain_char (CHR ''-'')"
  by (simp_all add: plain_char_def)

lemma print_plain: "jplain v \<Longrightarrow> list_all plain_char (print_json e True v)"
proof (induction v)
  case (JInt i)
  show ?case by (simp add: show_int_def show_nat_plain)
next
  case (JArr vs)
  then have "\<forall>s \<in> set (map (print_json e True) vs). list_all plain_char s" by (simp add: list_all_iff)
  then show ?case by (simp add: join_on_plain)
next
  case (JObj ms)
  then have "\<forall>s \<in> set (map (\<lambda>(k, v). quote True k @ CHR '':'' # print_json e True v) ms). list_all plain_char s"
    by (fastforce simp: list_all_iff quote_plain [unfolded list_all_iff])
  then show ?case by (simp add: join_on_plain)
qed (auto simp: plain_char_def quote_plain)

lemma dict_of_pairs_distinct: "distinct (map fst ms) \<Longrightarrow> dict_of_pairs ms = ms"
proof -
  have "foldl (\<lambda>d (k, v). dset k v d) acc ms = acc @ ms"
    if "distinct (map fst (acc @ ms))" for acc
    using that by (induction ms arbitrary: acc) (auto simp: dset_new)
  from this [of "[]"] show "distinct (map fst ms) \<Longrightarrow> ?thesis" by (simp add: dict_of_pairs_def)
qed

lemma default_dict_hooks: "dict_hooks (default_hooks e)"
  by (simp add: dict_hooks_def default_hooks_def dict_of_pairs_distinct)

lemma jplain_encodable: "jplain v \<Longrightarrow> jfinite v \<and> jints_ok v"
proof (induction v)
  case (JObj ms)
  then show ?case by (fastforce simp: list_all_iff)
qed (auto simp: list_all_iff)

lemma canonical_plain:
  "jplain v \<Longrightarrow> jdepth v \<le> nest_limit e \<Longrightarrow> canonical e v = Inr (print_json e True (jsort v))"
  using jplain_encodable by (simp add: canonical_def)

lemma plain_not_wide: "list_all plain_char s \<Longrightarrow> \<not> is_wide s"
proof (cases "2 \<le> length s")
  case True
  assume "list_all plain_char s"
  moreover from True obtain a b r where "s = a # b # r"
    by (cases s; cases "tl s") auto
  ultimately show ?thesis by (auto simp: is_wide_def plain_char_def)
qed (auto simp: is_wide_def plain_char_def startswith_iff)

lemma plain_ascii: "list_all plain_char s \<Longrightarrow> list_all is_ascii s"
  by (auto simp: list_all_iff plain_char_def is_ascii_def)

lemma plain_not_bom: "list_all plain_char s \<Longrightarrow> \<not> startswith s bom"
  by (cases s) (auto simp: bom_def plain_char_def)

lemma canonical_reads_back:
  assumes "jplain v" "jdepth v \<le> nest_limit e"
  shows "loads_bytes (default_hooks e) e (print_json e True (jsort v)) = Inr (jsort v)"
proof -
  have plain: "list_all plain_char (print_json e True (jsort v))"
    using assms by (intro print_plain jplain_jsort)
  have "jdepth (jsort v) \<le> nest_limit e" using jdepth_jsort [of v] assms by simp
  then have "loads (default_hooks e) (nest_limit e) (print_json e True (jsort v)) = Inr (jsort v)"
    using assms by (intro loads_print default_dict_hooks jplain_jsort)
  then show ?thesis
    by (simp add: loads_bytes_def plain_not_wide [OF plain] plain_not_bom [OF plain]
        utf8_decode_ascii [OF plain_ascii [OF plain]])
qed

section \<open>Cursors\<close>

lemma model_offset_Inr: "model_offset e key c d s = Inr off \<longleftrightarrow>
    py_len c \<le> 512 \<and> offset_raw e key c d s = Inr off"
  by (auto simp: model_offset_def split: sum.splits if_splits)

lemma model_offset_errors:
  "model_offset e key c d s = Inl x \<Longrightarrow> x = ValueError \<or> (\<not> isa_ValueError x \<and> x \<noteq> IndexError \<and> x \<noteq> TypeError)"
  by (auto simp: model_offset_def split: sum.splits if_splits)

lemma item3_Inr:
  assumes "item3 v = Inr (JInt i)"
  obtains a b c r where "v = JArr (a # b # c # JInt i # r)"
proof -
  from assms obtain vs where v: "v = JArr vs" by (cases v) (auto split: if_splits)
  with assms have len: "3 < length vs" and at: "vs ! 3 = JInt i" by (auto split: if_splits)
  from len obtain a b c r where "vs = a # b # c # vs ! 3 # r"
    by (auto simp: numeral_3_eq_3 less_eq_Suc_le Suc_le_length_iff)
  with at v that show thesis by simp
qed

lemma cursor_authentic:
  assumes "model_offset e key cursor device s = Inr off"
  obtains payload c r where "b64_decode True cursor = Inr (payload @ hmac_sha256 key payload)"
    "loads_bytes (default_hooks e) e payload
       = Inr (JArr (JStr device # JStr (sess_id s) # c # JInt (int off) # r))"
    "eq_int c (revision (sess_snapshot s))" "1 \<le> off" "off < length (rules (sess_snapshot s))"
    "py_len cursor \<le> 512"
proof -
  from assms have len: "py_len cursor \<le> 512" and raw: "offset_raw e key cursor device s = Inr off"
    by (simp_all add: model_offset_Inr)
  from raw obtain raw' vs i where
      dec: "b64_decode True cursor = Inr raw'"
    and mac: "drop (length raw' - 32) raw' = hmac_sha256 key (take (length raw' - 32) raw')"
    and vs: "loads_bytes (default_hooks e) e (take (length raw' - 32) raw') = Inr vs"
    and i: "item3 vs = Inr (JInt i)" and off: "off = nat i"
    and hd: "head3_is vs device (sess_id s) (revision (sess_snapshot s))"
    and bounds: "1 \<le> i" "i < int (length (rules (sess_snapshot s)))"
    by (auto simp: offset_raw_def res_simps Let_def split: if_splits json.splits)
  from i obtain a b c r where shape: "vs = JArr (a # b # c # JInt i # r)" by (rule item3_Inr)
  have "raw' = take (length raw' - 32) raw' @ hmac_sha256 key (take (length raw' - 32) raw')"
    unfolding mac [symmetric] by simp
  with dec have 1: "b64_decode True cursor = Inr (take (length raw' - 32) raw' @ hmac_sha256 key (take (length raw' - 32) raw'))"
    by simp
  show thesis
    by (rule that [OF 1, of c r]) (use vs shape hd off bounds len in auto)
qed

lemma cursor_roundtrip:
  assumes "isascii device" "isascii (sess_id s)" "int_ok (revision (sess_snapshot s))" "int_ok (int off)"
    and "1 \<le> nest_limit e" "1 \<le> off" "off < length (rules (sess_snapshot s))"
  defines "payload \<equiv> print_json e True (cursor_payload device s off)"
  shows "model_cursor e key device s off = Inr (b64_encode True (payload @ hmac_sha256 key payload))"
    and "offset_raw e key (b64_encode True (payload @ hmac_sha256 key payload)) device s = Inr off"
proof -
  have plain: "jplain (cursor_payload device s off)" and sort: "jsort (cursor_payload device s off) = cursor_payload device s off"
    and depth: "jdepth (cursor_payload device s off) \<le> nest_limit e"
    using assms by (simp_all add: cursor_payload_def)
  show "model_cursor e key device s off = Inr (b64_encode True (payload @ hmac_sha256 key payload))"
    using canonical_plain [OF plain depth] by (simp add: model_cursor_def sort payload_def)
  have "loads_bytes (default_hooks e) e payload = Inr (cursor_payload device s off)"
    using canonical_reads_back [OF plain depth] by (simp add: sort payload_def)
  then show "offset_raw e key (b64_encode True (payload @ hmac_sha256 key payload)) device s = Inr off"
    using assms(6,7) by (simp add: offset_raw_def Let_def cursor_payload_def)
qed

text \<open>A cursor of the size the server issues is within the 512 characters it accepts.\<close>

lemma escape_alnum_length: "is_urlsafe c \<Longrightarrow> escape_point True (ord c) = [c]"
  by (auto simp: is_urlsafe_def is_alnum_def is_upper_def is_lower_def is_digit_def in_range_def
      escape_point_def simple_escape_def utf8_encode_ascii)

lemma length_quote_urlsafe: "list_all is_urlsafe t \<Longrightarrow> length (quote True t) = length t + 2"
proof -
  assume t: "list_all is_urlsafe t"
  then have "list_all is_ascii t" by (auto simp: list_all_iff is_urlsafe_ascii)
  moreover have "concat (map (escape_point True) (map ord t)) = t"
    using t by (induction t) (auto simp: escape_alnum_length)
  ultimately show ?thesis by (simp add: quote_def code_points_ascii)
qed

lemma cursor_payload_length:
  assumes "list_all is_urlsafe device" "list_all is_urlsafe (sess_id s)"
    and "0 \<le> revision (sess_snapshot s)" "revision (sess_snapshot s) < 10 ^ 200" "off < 10 ^ 3"
  shows "length (print_json e True (cursor_payload device s off)) \<le> length device + length (sess_id s) + 212"
proof -
  have "nat (revision (sess_snapshot s)) < 10 ^ 200"
    using assms(3,4) by (simp add: nat_less_iff)
  then have "length (show_nat (nat (revision (sess_snapshot s)))) \<le> 200"
    by (rule length_show_nat) simp
  moreover have "length (show_nat off) \<le> 3" using assms(5) by (rule length_show_nat) simp
  ultimately show ?thesis
    using assms(3) by (simp add: cursor_payload_def length_quote_urlsafe assms(1,2) show_int_def)
qed

lemma b64_char_ascii: "n < 64 \<Longrightarrow> is_ascii (b64_char u n)"
  by (auto simp: b64_char_def is_ascii_def)

lemma b64_encode_ascii: "isascii (b64_encode u bs)"
  unfolding isascii_def
  by (induction u bs rule: b64_encode.induct)
     (simp_all add: b64_bounds b64_char_ascii, simp_all add: pad_char_def is_ascii_def)

definition pageable :: "py_env \<Rightarrow> string \<Rightarrow> session \<Rightarrow> json list \<Rightarrow> bool" where
  \<comment> \<open>a session as preflight opens it on a snapshot that \<open>fixture\<close> made of the rules \<open>rs\<close>\<close>
  "pageable e d s rs \<longleftrightarrow>
     d \<in> set device_names \<and> fullmatch_n is_lower_hex 32 (sess_id s)
     \<and> 0 \<le> revision (sess_snapshot s) \<and> revision (sess_snapshot s) < 10 ^ 200
     \<and> length rs \<le> 100 \<and> rules (sess_snapshot s) = map (\<lambda>r. print_json e True (jsort r)) rs
     \<and> list_all (\<lambda>r. jplain r \<and> jdepth r \<le> nest_limit e) rs \<and> 1 \<le> nest_limit e"

lemma pageable_served [simp]: "pageable e d (s\<lparr>served := x\<rparr>) rs = pageable e d s rs"
  by (simp add: pageable_def)

lemma offset_raw_served [simp]: "offset_raw e key c d (s\<lparr>served := x\<rparr>) = offset_raw e key c d s"
proof -
  have sel: "sess_id (s\<lparr>served := x\<rparr>) = sess_id s" "sess_snapshot (s\<lparr>served := x\<rparr>) = sess_snapshot s"
    by simp_all
  show ?thesis unfolding offset_raw_def sel ..
qed

lemma model_offset_served [simp]: "model_offset e key c d (s\<lparr>served := x\<rparr>) = model_offset e key c d s"
  by (simp add: model_offset_def)

lemma device_urlsafe: "d \<in> set device_names \<Longrightarrow> list_all is_urlsafe d \<and> length d = 8"
  by (auto simp: device_names_def char_class_defs)

lemma int_ok_digits: "0 \<le> i \<Longrightarrow> i < 10 ^ 200 \<Longrightarrow> int_ok i"
  using length_show_nat [of "nat i" 200] by (simp add: int_ok_def max_int_digits_def nat_less_iff)

text \<open>Issuing a cursor for a later page and presenting it gives that page's offset.\<close>

lemma pageable_cursor:
  assumes "pageable e d s rs" "1 \<le> off" "off < length rs"
  obtains c where "model_cursor e key d s off = Inr c" "c \<noteq> []" "model_offset e key c d s = Inr off"
proof -
  let ?payload = "print_json e True (cursor_payload d s off)"
  let ?c = "b64_encode True (?payload @ hmac_sha256 key ?payload)"
  have sid: "list_all is_urlsafe (sess_id s)" "length (sess_id s) = 32"
    using assms(1) by (auto simp: pageable_def fullmatch_n_def list_all_iff is_lower_hex_urlsafe)
  have d: "list_all is_urlsafe d" "length d = 8"
    using assms(1) device_urlsafe by (auto simp: pageable_def)
  have ascii: "isascii d" "isascii (sess_id s)"
    using sid d by (auto simp: isascii_def list_all_iff is_urlsafe_ascii)
  have off: "int_ok (int off)" using assms by (intro int_ok_digits) (auto simp: pageable_def)
  have rev: "int_ok (revision (sess_snapshot s))" using assms(1) by (intro int_ok_digits) (auto simp: pageable_def)
  have lim: "1 \<le> nest_limit e" and off': "off < length (rules (sess_snapshot s))"
    using assms by (auto simp: pageable_def)
  note rt = cursor_roundtrip [OF ascii rev off lim assms(2) off', of key]
  have "length ?payload \<le> 252"
    using cursor_payload_length [OF d(1) sid(1), of off e] assms sid d by (auto simp: pageable_def)
  then have "py_len ?c \<le> 512" by (simp add: b64_encode_ascii length_b64_encode)
  moreover have "?c \<noteq> []" by (rule b64_encode_nonempty) (simp add: cursor_payload_def)
  ultimately show thesis
    using rt by (intro that [of ?c]) (auto simp: model_offset_Inr)
qed

lemma ruledownload_page:
  assumes "pageable e d s rs" "requested_offset e (mkey m) d s body = Inr off" "off < length rs"
  obtains c where
    "stage_ruledownload e d s body m =
       (Inr (200, [(''rules'', JArr [jsort (rs ! off)]), (''cursor'', JStr c)]),
        m\<lparr>sessions := (sessions m)(d \<mapsto> s\<lparr>served := insert off (served s)\<rparr>)\<rparr>)"
    "if off + 1 < length rs then c \<noteq> [] \<and> model_offset e (mkey m) c d s = Inr (off + 1) else c = []"
proof -
  let ?s = "s\<lparr>served := insert off (served s)\<rparr>"
  have len: "length (rules (sess_snapshot s)) = length rs" using assms(1) by (simp add: pageable_def)
  have rule: "loads_bytes (default_hooks e) e (rules (sess_snapshot s) ! off) = Inr (jsort (rs ! off))"
    using assms(1,3) by (simp add: pageable_def list_all_length canonical_reads_back)
  note step = stage_ruledownload_def [of e d s body m, unfolded assms(2), simplified]
  show thesis
  proof (cases "off + 1 < length rs")
    case True
    have "pageable e d ?s rs" using assms(1) by simp
    then obtain c where c: "model_cursor e (mkey m) d ?s (off + 1) = Inr c" "c \<noteq> []"
        "model_offset e (mkey m) c d ?s = Inr (off + 1)"
      using le_add2 True by (rule pageable_cursor)
    have "model_offset e (mkey m) c d s = Inr (off + 1)"
      using c(3) by simp
    then show thesis using True assms(3) rule len c by (intro that [of c]) (simp_all add: step Let_def)
  qed (use assms(3) rule len in \<open>auto simp: step Let_def intro: that [of "[]"]\<close>)
qed

section \<open>A complete exchange\<close>

text \<open>
  The client's side of rule download: ask for a page, follow the cursor, stop at the empty
  one.  The fuel is the number of pages the client is willing to fetch.
\<close>

fun download :: "py_env \<Rightarrow> (nat \<Rightarrow> real) \<Rightarrow> string \<Rightarrow> nat \<Rightarrow> string \<Rightarrow> model \<Rightarrow> (json list \<times> model) option" where
  "download e clock d 0 c m = None"
| "download e clock d (Suc pages) c m =
     (case handle e clock [] ''ruledownload'' d [(''machine_id'', JStr d), (''cursor'', JStr c)] m of
        (Inr (status, body), m1) \<Rightarrow>
          (case (dget body ''rules'', dget body ''cursor'') of
             (Some (JArr rs), Some (JStr c')) \<Rightarrow>
               if status \<noteq> 200 then None
               else if c' = [] then Some (rs, m1)
               else map_option (\<lambda>(rest, m2). (rs @ rest, m2)) (download e clock d pages c' m1)
           | _ \<Rightarrow> None)
      | _ \<Rightarrow> None)"

lemma download_from:
  assumes "pageable e d s rs" "sessions m d = Some s" "clock 0 < expires s"
    and "off < length rs" "requested_offset e (mkey m) d s [(''machine_id'', JStr d), (''cursor'', JStr c)] = Inr off"
    and "length rs - off \<le> pages"
  shows "download e clock d pages c m =
    Some (map jsort (drop off rs),
          m\<lparr>sessions := (sessions m)(d \<mapsto> s\<lparr>served := served s \<union> {off..<length rs}\<rparr>)\<rparr>)"
  using assms
proof (induction pages arbitrary: m s off c)
  case (Suc pages)
  let ?body = "[(''machine_id'', JStr d), (''cursor'', JStr c)]"
  let ?s = "s\<lparr>served := insert off (served s)\<rparr>"
  obtain c' where page: "stage_ruledownload e d s ?body m =
       (Inr (200, [(''rules'', JArr [jsort (rs ! off)]), (''cursor'', JStr c')]),
        m\<lparr>sessions := (sessions m)(d \<mapsto> ?s)\<rparr>)"
    and c': "if off + 1 < length rs then c' \<noteq> [] \<and> model_offset e (mkey m) c' d s = Inr (off + 1) else c' = []"
    using Suc.prems(1,5,4) by (rule ruledownload_page)
  have handle: "handle e clock [] ''ruledownload'' d ?body m = stage_ruledownload e d s ?body m"
    using Suc.prems(2,3) by (simp add: handle_def)
  have cons: "map jsort (drop off rs) = jsort (rs ! off) # map jsort (drop (off + 1) rs)"
    using Suc.prems(4) by (simp add: Cons_nth_drop_Suc flip: list.map)
  show ?case
  proof (cases "off + 1 < length rs")
    case False
    with Suc.prems(4) have "{off..<length rs} = {off}" by auto
    with False c' show ?thesis using Suc.prems(4) by (simp add: handle page cons fun_upd_def)
  next
    case True
    let ?m = "m\<lparr>sessions := (sessions m)(d \<mapsto> ?s)\<rparr>"
    have "requested_offset e (mkey ?m) d ?s [(''machine_id'', JStr d), (''cursor'', JStr c')] = Inr (off + 1)"
      using True c' by (simp add: requested_offset_def)
    then have "download e clock d pages c' ?m = Some (map jsort (drop (off + 1) rs),
        ?m\<lparr>sessions := (sessions ?m)(d \<mapsto> ?s\<lparr>served := served ?s \<union> {off + 1..<length rs}\<rparr>)\<rparr>)"
      using Suc.prems True by (intro Suc.IH) auto
    moreover have "insert off (served s) \<union> {off + 1..<length rs} = served s \<union> {off..<length rs}"
      using Suc.prems(4) by auto
    ultimately show ?thesis using True c' by (simp add: handle page cons fun_upd_def cong: if_cong)
  qed
qed simp

lemma fixture_rules:
  assumes "fixture e (JInt n) (JArr rs) appr = Inr snap" "list_all jplain rs"
  shows "revision snap = n" "1 \<le> n" "length rs \<le> 100" "truthy (approval snap)"
    "rules snap = map (\<lambda>r. print_json e True (jsort r)) rs" "list_all (\<lambda>r. jplain r \<and> jdepth r \<le> nest_limit e) rs"
proof -
  from assms(1) obtain raws where raws: "res_map (canonical e) rs = Inr raws"
    and snap: "snap = \<lparr>revision = n, rules = raws, approval = appr\<rparr>" "1 \<le> n" "length rs \<le> 100" "truthy appr"
    by (auto simp: fixture_def res_simps split: if_splits)
  have each: "canonical e (rs ! i) = Inr (raws ! i)" if "i < length rs" for i
    using res_map_nth [OF raws that] .
  have plain: "jplain (rs ! i)" if "i < length rs" for i using assms(2) that by (simp add: list_all_length)
  have depth: "jdepth (rs ! i) \<le> nest_limit e" if "i < length rs" for i
    using each [OF that] by (simp add: canonical_def split: if_splits)
  have "raws ! i = print_json e True (jsort (rs ! i))" if "i < length rs" for i
    using each [OF that] canonical_plain [OF plain depth, OF that that] by simp
  then have "raws = map (\<lambda>r. print_json e True (jsort r)) rs"
    using res_map_length [OF raws] by (intro nth_equalityI) auto
  with snap plain depth show "revision snap = n" "1 \<le> n" "length rs \<le> 100" "truthy (approval snap)"
    "rules snap = map (\<lambda>r. print_json e True (jsort r)) rs" "list_all (\<lambda>r. jplain r \<and> jdepth r \<le> nest_limit e) rs"
    by (simp_all add: list_all_length)
qed

definition preflight_body :: "string \<Rightarrow> (string \<times> json) list" where
  "preflight_body d = [(''machine_id'', JStr d)]"

definition postflight_body :: "string \<Rightarrow> nat \<Rightarrow> (string \<times> json) list" where
  "postflight_body d n = [(''machine_id'', JStr d), (''rules_received'', JInt (int n)),
     (''rules_processed'', JInt (int n)), (''syncType'', JStr ''CLEAN'')]"

text \<open>C4: a complete synchronisation.  Let the published snapshot be what \<open>fixture\<close> builds from
  a non-empty list of rules (ASCII strings, no floats).  For a device that has not
  acknowledged a newer revision and has no session, preflight answers 200; a client that then
  follows the signed cursors for as many pages as there are rules receives every rule of the
  snapshot, in order and with its keys sorted; and the postflight that reports this count
  is answered 200 and records the snapshot's revision as acknowledged.\<close>

theorem complete_sync:
  assumes "fixture e (JInt n) (JArr rs) appr = Inr (cur_snapshot m)"
    and "rs \<noteq> []" and "list_all jplain rs" and "n < 10 ^ 200"
    and "d \<in> set device_names" and "fullmatch_n is_lower_hex 32 fresh"
    and "sessions m d = None" and "ack_of m d \<le> n" and "1 \<le> nest_limit e"
    and "\<forall>i. clock i < clock 0 + 300"
  shows "\<exists>m1 m2 m3.
    handle e clock fresh ''preflight'' d (preflight_body d) m = (Inr (200, preflight_reply), m1)
    \<and> download e clock d (length rs) [] m1 = Some (map jsort rs, m2)
    \<and> handle e clock fresh ''postflight'' d (postflight_body d (length rs)) m2 = (Inr (200, []), m3)
    \<and> acknowledged m3 d = Some n"
proof -
  note fx = fixture_rules [OF assms(1,3)]
  let ?s = "new_session fresh (cur_snapshot m) (clock 0)"
  let ?m1 = "m\<lparr>sessions := (sessions m)(d \<mapsto> ?s)\<rparr>"
  let ?s2 = "?s\<lparr>served := {0..<length rs}\<rparr>"
  let ?m2 = "m\<lparr>sessions := (sessions m)(d \<mapsto> ?s2)\<rparr>"
  have pf: "handle e clock fresh ''preflight'' d (preflight_body d) m = (Inr (200, preflight_reply), ?m1)"
    using assms(2,7,8) fx
    by (auto simp: handle_def preflight_body_def stage_preflight_def Let_def ack_of_def split: option.splits)
  have page: "pageable e d ?s rs"
    using assms(4,5,6,9) fx by (simp add: pageable_def new_session_def)
  have "download e clock d (length rs) [] ?m1 = Some (map jsort (drop 0 rs),
      ?m1\<lparr>sessions := (sessions ?m1)(d \<mapsto> ?s\<lparr>served := served ?s \<union> {0..<length rs}\<rparr>)\<rparr>)"
    by (rule download_from [OF page])
       (use assms(2,10) in \<open>simp_all add: new_session_def requested_offset_def\<close>)
  then have dl: "download e clock d (length rs) [] ?m1 = Some (map jsort rs, ?m2)"
    by (simp add: new_session_def)
  have "handle e clock fresh ''postflight'' d (postflight_body d (length rs)) ?m2
      = (Inr (200, []), ?m2\<lparr>acknowledged := (acknowledged m)(d \<mapsto> n),
           sessions := (sessions ?m2)(d \<mapsto> ?s2\<lparr>acked := True\<rparr>)\<rparr>)"
    using assms(10) fx
    by (simp add: handle_def postflight_body_def stage_postflight_def Let_def new_session_def)
  with pf dl show ?thesis by fastforce
qed

lemma fx_fixture:
  "fixture fx_env (JInt 7) (JArr [fx_rule ''a'', fx_rule ''b'']) (JStr ''synthetic-only'') = Inr fx_snapshot"
  by code_simp

theorem complete_sync_witness:
  "\<exists>m1 m2 m3.
    handle fx_env (\<lambda>_. 0) (replicate 32 (CHR ''0'')) ''preflight'' ''device-a'' (preflight_body ''device-a'') fx_model
      = (Inr (200, preflight_reply), m1)
    \<and> download fx_env (\<lambda>_. 0) ''device-a'' 2 [] m1 = Some (map jsort [fx_rule ''a'', fx_rule ''b''], m2)
    \<and> handle fx_env (\<lambda>_. 0) (replicate 32 (CHR ''0'')) ''postflight'' ''device-a'' (postflight_body ''device-a'' 2) m2
      = (Inr (200, []), m3)
    \<and> acknowledged m3 ''device-a'' = Some 7"
proof -
  have len: "length [fx_rule ''a'', fx_rule ''b''] = 2" by simp
  show ?thesis
    unfolding len [symmetric]
  proof (rule complete_sync [of fx_env 7 _ "JStr ''synthetic-only''"])
    show "fixture fx_env (JInt 7) (JArr [fx_rule ''a'', fx_rule ''b'']) (JStr ''synthetic-only'')
        = Inr (cur_snapshot fx_model)"
      using fx_fixture by (simp add: fx_model_def init_model_def)
    show "list_all jplain [fx_rule ''a'', fx_rule ''b'']" by code_simp
    show "fullmatch_n is_lower_hex 32 (replicate 32 (CHR ''0''))" by code_simp
  qed (simp_all add: device_names_def fx_model_def init_model_def ack_of_def fx_env_def)
qed

section \<open>Cursor integrity\<close>



end
