(* ===== verification/Sync_Decode.thy ===== *)
theory Sync_Decode
  imports Sync_Paging
begin

text \<open>
  What the request decoder of the sync server guarantees, and the effect of event uploads:
  decoded bodies have no repeated key at any level and stay within the size and nesting
  limits, a canonical body decodes to itself, and replaying an accepted upload changes
  nothing.
\<close>

section \<open>Decoding\<close>

fun junique :: "json \<Rightarrow> bool" where
  "junique (JArr vs) = list_all junique vs"
| "junique (JObj ms) = (distinct (map fst ms) \<and> list_all (\<lambda>(k, v). junique v) ms)"
| "junique _ = True"

lemma unique_from_Inr:
  "unique_from d ps = Inr d' \<Longrightarrow> distinct (map fst d) \<Longrightarrow> d' = d @ ps \<and> distinct (map fst d')"
proof (induction d ps rule: unique_from.induct)
  case (2 d k v ps)
  then have new: "k \<notin> set (map fst d)" and rest: "unique_from (dset k v d) ps = Inr d'"
    by (auto simp del: set_map split: if_splits)
  have "d' = dset k v d @ ps \<and> distinct (map fst d')"
    using 2(1) [OF new rest distinct_dset [OF 2(3)]] .
  moreover have "dset k v d @ ps = d @ (k, v) # ps" using new by (simp add: dset_new del: set_map)
  ultimately show ?case by metis
qed simp

lemma unique_from_distinct:
  "distinct (map fst (d @ ps)) \<Longrightarrow> unique_from d ps = Inr (d @ ps)"
  by (induction d ps rule: unique_from.induct) (auto simp: dset_new)

lemma unique_object_Inr: "unique_object ps = Inr v \<longleftrightarrow> distinct (map fst ps) \<and> v = JObj ps"
  using unique_from_Inr [of "[]" ps] unique_from_distinct [of "[]" ps]
  by (auto simp: unique_object_def res_simps)

lemma parse_number_shape: "parse_number h s = Inr (v, r) \<Longrightarrow> (\<exists>i. v = JInt i) \<or> (\<exists>w. float_hook h w = Inr v)"
  by (auto simp: parse_number_def res_simps Let_def split: if_splits option.splits prod.splits list.splits)

lemma parse_atom_shape:
  "parse_atom h s = Inr (v, r) \<Longrightarrow>
     v \<in> {JNull, JBool True, JBool False} \<or> (\<exists>i. v = JInt i) \<or> (\<exists>w. float_hook h w = Inr v)
     \<or> (\<exists>w. const_hook h w = Inr v)"
  by (auto simp: parse_atom_def res_simps literals_def split: option.splits if_splits
      dest!: find_literal parse_number_shape)

interpretation strict: decoded "strict_hooks e" "\<lambda>d v. junique v \<and> jdepth v \<le> d" for e
proof unfold_locales
  show "parse_atom (strict_hooks e) s = Inr (v, r) \<Longrightarrow> junique v \<and> jdepth v \<le> d" for s v r d
    by (drule parse_atom_shape) (auto simp: strict_hooks_def)
  show "list_all (\<lambda>v. junique v \<and> jdepth v \<le> d) vs \<Longrightarrow> junique (JArr vs) \<and> jdepth (JArr vs) \<le> Suc d" for d vs
    by (auto simp: list_all_iff foldr_max_le_iff)
  show "list_all (\<lambda>(k, v). junique v \<and> jdepth v \<le> d) ms \<Longrightarrow> pairs_hook (strict_hooks e) ms = Inr v
      \<Longrightarrow> junique v \<and> jdepth v \<le> Suc d" for d ms v
    by (auto simp: strict_hooks_def unique_object_Inr list_all_iff foldr_max_le_iff)
qed simp

text \<open>The bytes that \<open>decode\<close> parses.\<close>

definition inflated :: "zlib \<Rightarrow> bytes \<Rightarrow> string \<Rightarrow> bytes \<Rightarrow> bool" where
  "inflated z raw enc raw' \<longleftrightarrow>
     enc = [] \<and> raw' = raw
     \<or> (\<exists>w obj. (enc, w) \<in> {(''deflate'', 15), (''gzip'', 31)} \<and> z w raw (MAX_BYTES + 1) = Inr obj
          \<and> z_out obj = raw' \<and> unconsumed_tail obj = [] \<and> z_eof obj \<and> unused_data obj = [])"

lemma decode_Inr:
  assumes "decode z e raw enc = Inr body"
  obtains raw' where "inflated z raw enc raw'" "length raw' \<le> MAX_BYTES" "valid_utf8 False raw'"
    "loads (strict_hooks e) (nest_limit e) raw' = Inr (JObj body)"
proof -
  from assms obtain raw' tx v where 1: "inflated z raw enc raw'" "length raw' \<le> MAX_BYTES"
    and 2: "utf8_decode False raw' = Inr tx" "loads (strict_hooks e) (nest_limit e) tx = Inr v"
    and 3: "(case v of JObj m \<Rightarrow> Inr m | _ \<Rightarrow> Inl ValueError) = Inr body"
    by (auto simp: decode_def res_simps inflated_def split: if_splits)
  from 2 have "tx = raw'" "valid_utf8 False raw'" by (auto simp: utf8_decode_def split: if_splits)
  moreover from 3 have "v = JObj body" by (cases v) auto
  ultimately show thesis using 1 2 that by blast
qed

text \<open>Decoding is strict.  A body that \<open>decode\<close> accepts was sent plain or as one complete
  deflate or gzip stream, occupies at most 65536 bytes after decompression, is valid
  UTF-8, and no object in it, at any depth, repeats a key; its nesting is within the
  interpreter's limit.\<close>

theorem decode_strict:
  assumes "decode z e raw enc = Inr body"
  shows "(\<exists>raw'. inflated z raw enc raw' \<and> length raw' \<le> 65536 \<and> valid_utf8 False raw')
         \<and> junique (JObj body) \<and> jdepth (JObj body) \<le> nest_limit e"
  using assms
proof (rule decode_Inr)
  fix raw' assume "inflated z raw enc raw'" "length raw' \<le> MAX_BYTES" "valid_utf8 False raw'"
    "loads (strict_hooks e) (nest_limit e) raw' = Inr (JObj body)"
  then show ?thesis using strict.loads_decoded [of e "nest_limit e" raw'] by (auto simp: MAX_BYTES_def)
qed

theorem decode_strict_witness:
  "decode fx_zlib fx_env ''{}'' [] = Inr [] \<and> jdepth (JObj []) \<le> nest_limit fx_env"
proof -
  have "decode fx_zlib fx_env ''{}'' [] = Inr []" by code_simp
  from decode_strict [OF this] this show ?thesis by simp
qed

lemma strict_dict_hooks: "dict_hooks (strict_hooks e)"
  by (simp add: dict_hooks_def strict_hooks_def unique_object_Inr)

text \<open>Round trip of request bodies.  A body of ASCII strings, integers, booleans, nulls, lists
  and objects, encoded canonically in at most 65536 bytes, decodes to itself with its
  keys sorted.\<close>

theorem decode_canonical:
  assumes "canonical e (JObj body) = Inr raw" and "jplain (JObj body)" and "length raw \<le> 65536"
  shows "res_bind (decode z e raw []) (\<lambda>b. Inr (JObj b)) = Inr (jsort (JObj body))"
proof -
  have raw: "raw = print_json e True (jsort (JObj body))" and depth: "jdepth (JObj body) \<le> nest_limit e"
    using assms(1) by (simp_all add: canonical_def split: if_splits)
  have plain: "jplain (jsort (JObj body))" using assms(2) by (rule jplain_jsort)
  have "utf8_decode False raw = Inr raw"
    unfolding raw by (intro utf8_decode_ascii plain_ascii print_plain plain)
  moreover have "loads (strict_hooks e) (nest_limit e) raw = Inr (jsort (JObj body))"
    unfolding raw by (intro loads_print strict_dict_hooks plain order_trans [OF jdepth_jsort depth])
  ultimately show ?thesis using assms(3) by (simp add: decode_def MAX_BYTES_def)
qed

theorem decode_canonical_witness:
  "res_bind (decode fx_zlib fx_env ''{\"n\":12}'' []) (\<lambda>b. Inr (JObj b)) = Inr (JObj [(''n'', JInt 12)])"
proof -
  have "canonical fx_env (JObj [(''n'', JInt 12)]) = Inr ''{\"n\":12}''" by code_simp
  moreover have "jplain (JObj [(''n'', JInt 12)])" by code_simp
  moreover have "jsort (JObj [(''n'', JInt 12)]) = JObj [(''n'', JInt 12)]" by code_simp
  ultimately show ?thesis using decode_canonical [of fx_env "[(''n'', JInt 12)]" "''{\"n\":12}''" fx_zlib] by simp
qed

section \<open>Event upload\<close>

lemma eventupload_200:
  assumes "stage_eventupload e d body m = (Inr (200, r), m')"
  obtains events digests seen where "dget body ''events'' = Some (JArr events)"
    "1 \<le> length events" "length events \<le> 50" "list_all valid_event events"
    "res_map (event_digest e) events = Inr digests" "event_digests m d = Some seen"
    "card (seen \<union> set digests) \<le> MAX_EVENT_DIGESTS"
    "m' = m\<lparr>event_digests := (event_digests m)(d \<mapsto> seen \<union> set digests)\<rparr>"
proof -
  from assms obtain events where ev: "dget body ''events'' = Some (JArr events)"
    by (auto simp: stage_eventupload_def split: option.splits json.splits)
  from assms ev have valid: "1 \<le> length events" "length events \<le> 50" "\<not> list_ex (\<lambda>v. \<not> valid_event v) events"
    by (auto simp: stage_eventupload_def MAX_EVENTS_def split: if_splits)
  from assms ev obtain digests where ds: "res_map (event_digest e) events = Inr digests"
    by (auto simp: stage_eventupload_def split: if_splits sum.splits)
  from assms ev ds obtain seen where seen: "event_digests m d = Some seen"
    by (auto simp: stage_eventupload_def split: if_splits option.splits)
  from assms ev ds seen have "card (seen \<union> set digests) \<le> MAX_EVENT_DIGESTS"
      "m' = m\<lparr>event_digests := (event_digests m)(d \<mapsto> seen \<union> set digests)\<rparr>"
    by (auto simp: stage_eventupload_def Let_def split: if_splits)
  with ev valid ds seen show thesis by (intro that) (auto simp: list_all_iff list_ex_iff)
qed

lemma eventupload_again:
  assumes "stage_eventupload e d body m = (Inr (200, r), m')"
  shows "stage_eventupload e d body m' = (Inr (200, []), m')"
  using assms
proof (cases rule: eventupload_200)
  case (1 events digests seen)
  moreover have "\<not> list_ex (\<lambda>v. \<not> valid_event v) events"
    using 1 by (auto simp: list_ex_iff list_all_iff)
  ultimately show ?thesis
    by (simp add: stage_eventupload_def MAX_EVENTS_def Let_def Un_assoc fun_upd_def cong: if_cong)
qed

text \<open>Event upload is idempotent.  When an upload is accepted, all of its 1 to 50 events are
  valid and its digests are recorded; the same request sent again before the session
  expires is accepted again and leaves the state as it is, so a client may retry.\<close>

theorem eventupload_idempotent:
  assumes "handle e clock fresh ''eventupload'' d body m = (Inr (200, r), m')"
    and "sessions m d = Some s" and "clock' 0 < expires s"
  shows "handle e clock' fresh' ''eventupload'' d body m' = (Inr (200, []), m')
    \<and> (\<exists>events digests. dget body ''events'' = Some (JArr events) \<and> list_all valid_event events
         \<and> res_map (event_digest e) events = Inr digests
         \<and> (\<forall>ds. event_digests m' d = Some ds \<longrightarrow> set digests \<subseteq> ds))"
proof -
  have up: "stage_eventupload e d body m = (Inr (200, r), m')" and mid: "dget body ''machine_id'' = Some (JStr d)"
    using assms by (auto simp: handle_def split: if_splits)
  from up show ?thesis
  proof (cases rule: eventupload_200)
    case (1 events digests seen)
    then have "sessions m' d = Some s" using assms(2) by simp
    then have "handle e clock' fresh' ''eventupload'' d body m' = (Inr (200, []), m')"
      using assms(3) mid eventupload_again [OF up] by (simp add: handle_def)
    with 1 show ?thesis by auto
  qed
qed

definition fx_upload :: "(string \<times> json) list" where
  "fx_upload = [(''machine_id'', JStr ''device-a''),
     (''events'', JArr [JObj [(''file_sha256'', JStr (replicate 64 (CHR ''a''))), (''decision'', JStr ''BLOCK_BINARY'')]])]"

definition fx_open :: model where
  \<comment> \<open>after a preflight of the first device at time 0\<close>
  "fx_open = fx_model\<lparr>sessions := [''device-a'' \<mapsto> new_session (replicate 32 (CHR ''0'')) fx_snapshot 0]\<rparr>"

lemma fx_upload_accepted:
  "\<exists>m'. handle fx_env (\<lambda>_. 1) [] ''eventupload'' ''device-a'' fx_upload fx_open = (Inr (200, []), m')"
proof -
  let ?ev = "JObj [(''file_sha256'', JStr (replicate 64 (CHR ''a''))), (''decision'', JStr ''BLOCK_BINARY'')]"
  have "valid_event ?ev" by code_simp
  moreover have "\<exists>raw. canonical fx_env ?ev = Inr raw" by (simp add: canonical_def fx_env_def)
  ultimately show ?thesis
    by (auto simp: handle_def fx_upload_def fx_open_def new_session_def stage_eventupload_def event_digest_def
        MAX_EVENTS_def MAX_EVENT_DIGESTS_def fx_model_def init_model_def Let_def simp del: valid_event.simps)
qed

theorem eventupload_idempotent_witness:
  "\<exists>m'. handle fx_env (\<lambda>_. 1) [] ''eventupload'' ''device-a'' fx_upload fx_open = (Inr (200, []), m')
    \<and> handle fx_env (\<lambda>_. 2) [] ''eventupload'' ''device-a'' fx_upload m' = (Inr (200, []), m')"
proof -
  obtain m' where up: "handle fx_env (\<lambda>_. 1) [] ''eventupload'' ''device-a'' fx_upload fx_open = (Inr (200, []), m')"
    using fx_upload_accepted by blast
  have "sessions fx_open ''device-a'' = Some (new_session (replicate 32 (CHR ''0'')) fx_snapshot 0)"
    by (simp add: fx_open_def)
  with up eventupload_idempotent [OF up this, of "\<lambda>_. 2" "[]"] show ?thesis
    by (auto simp: new_session_def)
qed

end
