(* ===== verification/Py_Objects.thy ===== *)
theory Py_Objects
  imports Json
begin

text \<open>
  Access to decoded JSON values the way Python code does it: \<open>value[key]\<close>, \<open>value.get(key)\<close>,
  comparison of text with \<open>constant_time_compare\<close>, and \<open>json.dumps\<close> with the default
  separators.
\<close>

fun item_of :: "json \<Rightarrow> string \<Rightarrow> json res" where
  \<comment> \<open>\<open>value[key]\<close>\<close>
  "item_of (JObj ms) k = (case dget ms k of None \<Rightarrow> Inl KeyError | Some v \<Rightarrow> Inr v)"
| "item_of _ k = Inl TypeError"

fun get_of :: "json \<Rightarrow> string \<Rightarrow> json option res" where
  \<comment> \<open>\<open>value.get(key)\<close>\<close>
  "get_of (JObj ms) k = Inr (dget ms k)"
| "get_of _ k = Inl AttributeError"

lemma item_of_Inr: "item_of v k = Inr x \<longleftrightarrow> (\<exists>ms. v = JObj ms \<and> dget ms k = Some x)"
  by (cases v) (auto split: option.splits)

lemma get_of_Inr: "get_of v k = Inr x \<longleftrightarrow> (\<exists>ms. v = JObj ms \<and> dget ms k = x)"
  by (cases v) auto

text \<open>\<open>json.dumps(value)\<close>: items are separated by a comma and a space, keys by a colon and a space.\<close>

fun join_with :: "string \<Rightarrow> string list \<Rightarrow> string" where
  "join_with d [] = []"
| "join_with d [s] = s"
| "join_with d (s # t # ss) = s @ d @ join_with d (t # ss)"

fun dumps :: "py_env \<Rightarrow> json \<Rightarrow> string" where
  "dumps e JNull = ''null''"
| "dumps e (JBool b) = (if b then ''true'' else ''false'')"
| "dumps e (JInt i) = show_int i"
| "dumps e (JFloat f) = float_repr e f"
| "dumps e (JStr s) = quote True s"
| "dumps e (JArr vs) = ''['' @ join_with '', '' (map (dumps e) vs) @ '']''"
| "dumps e (JObj ms) = ''{'' @ join_with '', '' (map (\<lambda>(k, v). quote True k @ '': '' @ dumps e v) ms) @ ''}''"

end
