(* ===== verification/Durable_State.thy ===== *)
theory Durable_State
  imports Sync_Decode Py_Objects
begin

text \<open>
  The durable state of \<open>tools/sync_spike/durable.py\<close> and the disk probe of \<open>vm_probe.py\<close>: an
  SQLite database with two tables, transactions that roll back, and the model that
  persists a postflight report before it answers.  A connection holds what is committed
  (\<open>disk\<close>) and the view of an open transaction (\<open>txn\<close>); every statement may fail, as the
  \<open>faults\<close> of a call say, and a failure may abort the transaction by itself.  Columns have
  the types the schema declares.
\<close>

section \<open>The database\<close>

record db =
  user_version :: int
  tables :: "string set"
  snapshots_t :: "(int \<times> bytes \<times> string) list"
  devices_t :: "(string, int \<times> int) dict"

definition empty_db :: db where
  "empty_db = \<lparr>user_version = 0, tables = {}, snapshots_t = [], devices_t = []\<rparr>"

record conn =
  disk :: db
  txn :: "db option"

definition view :: "conn \<Rightarrow> db" where
  "view c = (case txn c of None \<Rightarrow> disk c | Some w \<Rightarrow> w)"

text \<open>The statements of one call, to name the one that fails.\<close>

datatype stmt = Begin | Commit | Rollback | Pragma nat | Query nat

record fault =
  f_exn :: exn
  f_abort :: bool  \<comment> \<open>the engine rolled the transaction back itself\<close>

type_synonym faults = "stmt \<Rightarrow> fault option"

abbreviation no_faults :: faults where
  "no_faults \<equiv> \<lambda>_. None"

abbreviation isa_sqlite :: "exn \<Rightarrow> bool" where
  "isa_sqlite x \<equiv> x = OperationalError"

definition execute :: "faults \<Rightarrow> stmt \<Rightarrow> (db \<Rightarrow> 'a res \<times> db) \<Rightarrow> (conn, 'a) sx" where
  "execute f k sql c =
     (case f k of
        Some x \<Rightarrow> (Inl (f_exn x), if f_abort x then c\<lparr>txn := None\<rparr> else c)
      | None \<Rightarrow>
          (case txn c of
             Some w \<Rightarrow> (let (r, w') = sql w in (r, c\<lparr>txn := Some w'\<rparr>))
           | None \<Rightarrow> (let (r, w') = sql (disk c) in (r, c\<lparr>disk := w'\<rparr>))))"

definition control :: "faults \<Rightarrow> stmt \<Rightarrow> (conn \<Rightarrow> conn res) \<Rightarrow> (conn, unit) sx" where
  "control f k act c =
     (case f k of
        Some x \<Rightarrow> (Inl (f_exn x), if f_abort x then c\<lparr>txn := None\<rparr> else c)
      | None \<Rightarrow> (case act c of Inl y \<Rightarrow> (Inl y, c) | Inr c' \<Rightarrow> (Inr (), c')))"

definition begin_immediate :: "faults \<Rightarrow> (conn, unit) sx" where
  "begin_immediate f = control f Begin (\<lambda>c.
     case txn c of Some _ \<Rightarrow> Inl OperationalError | None \<Rightarrow> Inr (c\<lparr>txn := Some (disk c)\<rparr>))"

definition commit :: "faults \<Rightarrow> (conn, unit) sx" where
  "commit f = control f Commit (\<lambda>c.
     case txn c of None \<Rightarrow> Inl OperationalError | Some w \<Rightarrow> Inr (c\<lparr>disk := w, txn := None\<rparr>))"

definition rollback :: "faults \<Rightarrow> (conn, unit) sx" where
  "rollback f = control f Rollback (\<lambda>c.
     case txn c of None \<Rightarrow> Inl OperationalError | Some w \<Rightarrow> Inr (c\<lparr>txn := None\<rparr>))"

definition transaction :: "faults \<Rightarrow> (conn, 'a) sx \<Rightarrow> (conn, 'a) sx" where
  "transaction f body =
     sx_bind (begin_immediate f) (\<lambda>_.
       sx_catch (sx_bind body (\<lambda>v. sx_bind (commit f) (\<lambda>_. sx_return v)))
         (\<lambda>x. Some (\<lambda>c. if txn c \<noteq> None
                        then sx_bind (rollback f) (\<lambda>_. sx_raise x) c
                        else (Inl x, c))))"

text \<open>A query on a table that does not exist is an error.\<close>

definition on_table :: "string \<Rightarrow> (db \<Rightarrow> 'a res \<times> db) \<Rightarrow> db \<Rightarrow> 'a res \<times> db" where
  "on_table t q d = (if t \<in> tables d then q d else (Inl OperationalError, d))"

definition bind_int64 :: "int \<Rightarrow> unit res" where
  "bind_int64 i = res_guard (- (2 ^ 63) \<le> i \<and> i < 2 ^ 63) OverflowError"

section \<open>State\<close>

definition sql_schema :: "bool \<Rightarrow> faults \<Rightarrow> (conn, unit) sx" where
  \<comment> \<open>the body of the transaction of \<open>State.__init__\<close>\<close>
  "sql_schema create f =
     sx_bind (execute f (Query 0) (\<lambda>d. (Inr (user_version d), d))) (\<lambda>version.
     sx_bind (execute f (Query 1) (\<lambda>d. (Inr (tables d), d))) (\<lambda>tabs.
       if version = 0 \<and> create \<and> tabs = {} then
         sx_bind (execute f (Query 2) (\<lambda>d. (Inr (), d\<lparr>tables := insert ''snapshots'' (tables d)\<rparr>))) (\<lambda>_.
         sx_bind (execute f (Query 3) (\<lambda>d. (Inr (), d\<lparr>tables := insert ''devices'' (tables d)\<rparr>))) (\<lambda>_.
           execute f (Query 4) (\<lambda>d. (Inr (), d\<lparr>user_version := 1\<rparr>))))
       else sx_guard (version = 1) ValueError))"

text \<open>
  \<open>State(path, create=...)\<close> on the file at \<open>path\<close> (\<open>None\<close>: there is none), the file it leaves
  and the connection, or the exception after closing.
\<close>

definition open_state :: "bool \<Rightarrow> faults \<Rightarrow> db option \<Rightarrow> conn res \<times> db option" where
  "open_state create f file =
     (if file = None \<and> \<not> create then (Inl OperationalError, None)
      else
        (let c0 = \<lparr>disk = (case file of None \<Rightarrow> empty_db | Some d \<Rightarrow> d), txn = None\<rparr> in
         case sx_bind (execute f (Pragma 0) (\<lambda>d. (Inr (), d))) (\<lambda>_.
              sx_bind (execute f (Pragma 1) (\<lambda>d. (Inr (), d))) (\<lambda>_.
                transaction f (sql_schema create f))) c0 of
           (Inl x, c) \<Rightarrow> (Inl x, Some (disk c))
         | (Inr _, c) \<Rightarrow> (Inr c, Some (disk c))))"

definition close_state :: "conn \<Rightarrow> db option" where
  \<comment> \<open>closing discards an open transaction\<close>
  "close_state c = Some (disk c)"

definition device_id :: "string \<Rightarrow> string res" where
  "device_id device = (if device \<in> {''device-a'', ''device-b''} then Inr device else Inl ValueError)"

definition revisions :: "db \<Rightarrow> int list" where
  "revisions d = map fst (snapshots_t d)"

definition max_revision :: "db \<Rightarrow> int" where
  \<comment> \<open>\<open>COALESCE(MAX(revision),0)\<close>\<close>
  "max_revision d = (case revisions d of [] \<Rightarrow> 0 | r # rs \<Rightarrow> foldr max rs r)"

definition fixture_doc :: "int \<Rightarrow> json list \<Rightarrow> json \<Rightarrow> json" where
  "fixture_doc rv rs appr = JObj [(''revision'', JInt rv), (''rules'', JArr rs), (''approval'', appr)]"

definition publish_payload :: "py_env \<Rightarrow> snapshot \<Rightarrow> bytes res" where
  "publish_payload e snap =
     res_bind (res_map (loads_bytes (default_hooks e) e) (rules snap)) (\<lambda>rs.
     res_bind (fixture e (JInt (revision snap)) (JArr rs) (approval snap)) (\<lambda>_.
     res_bind (res_guard (rs \<noteq> [] \<and> (case approval snap of JStr a \<Rightarrow> py_len a \<le> 128 | _ \<Rightarrow> False)) ValueError) (\<lambda>_.
     res_bind (canonical e (fixture_doc (revision snap) rs (approval snap))) (\<lambda>payload.
     res_bind (res_guard (length payload \<le> 65536) ValueError) (\<lambda>_. Inr payload)))))"

definition add_snapshot :: "int \<Rightarrow> bytes \<Rightarrow> db \<Rightarrow> db" where
  \<comment> \<open>\<open>INSERT INTO snapshots\<close>\<close>
  "add_snapshot rv payload d = d\<lparr>snapshots_t := snapshots_t d @ [(rv, payload, sha256_hex payload)]\<rparr>"

definition publish_rows :: "faults \<Rightarrow> int \<Rightarrow> bytes \<Rightarrow> (conn, unit) sx" where
  "publish_rows f rv payload =
     sx_bind (execute f (Query 0) (on_table ''snapshots'' (\<lambda>d. (Inr (max_revision d), d)))) (\<lambda>maximum.
     sx_bind (sx_guard (maximum < rv) ValueError) (\<lambda>_.
     sx_bind (execute f (Query 1) (on_table ''snapshots'' (\<lambda>d. (Inr (length (snapshots_t d)), d)))) (\<lambda>count.
     sx_bind (sx_guard (count < 100) ValueError) (\<lambda>_.
     sx_bind (sx_lift (bind_int64 rv)) (\<lambda>_.
       execute f (Query 2) (on_table ''snapshots'' (\<lambda>d.
         if rv \<in> set (revisions d) then (Inl OperationalError, d)
         else (Inr (), add_snapshot rv payload d))))))))"

definition publish_fixture :: "py_env \<Rightarrow> faults \<Rightarrow> snapshot \<Rightarrow> (conn, unit) sx" where
  "publish_fixture e f snap =
     sx_bind (sx_lift (publish_payload e snap)) (\<lambda>payload.
       transaction f (publish_rows f (revision snap) payload))"

definition snapshot_of_row :: "py_env \<Rightarrow> int \<times> bytes \<times> string \<Rightarrow> snapshot res" where
  "snapshot_of_row e row =
     (case row of (rv, payload, digest) \<Rightarrow>
        if sha256_hex payload \<noteq> digest then Inl ValueError
        else
          (case res_bind (loads_bytes (default_hooks e) e payload) (\<lambda>v.
                res_bind (item_of v ''revision'') (\<lambda>r.
                res_bind (res_guard (eq_int r rv) ValueError) (\<lambda>_.
                res_bind (item_of v ''rules'') (\<lambda>rs.
                res_bind (res_guard (truthy rs) ValueError) (\<lambda>_.
                res_bind (canonical e v) (\<lambda>raw.
                res_bind (res_guard (raw = payload) ValueError) (\<lambda>_.
                res_bind (item_of v ''approval'') (\<lambda>a. fixture e r rs a)))))))) of
             Inl x \<Rightarrow> if x \<in> {KeyError, TypeError} \<or> isa_ValueError x then Inl ValueError else Inl x
           | Inr s \<Rightarrow> Inr s))"

definition latest_row :: "db \<Rightarrow> (int \<times> bytes \<times> string) option" where
  \<comment> \<open>\<open>ORDER BY revision DESC LIMIT 1\<close>\<close>
  "latest_row d = (if snapshots_t d = [] then None
     else find (\<lambda>r. list_all (\<lambda>q. fst q \<le> fst r) (snapshots_t d)) (snapshots_t d))"

definition state_snapshot :: "py_env \<Rightarrow> faults \<Rightarrow> (conn, snapshot) sx" where
  "state_snapshot e f =
     sx_bind (execute f (Query 0) (on_table ''snapshots'' (\<lambda>d. (Inr (latest_row d), d)))) (\<lambda>row.
       case row of None \<Rightarrow> sx_raise ValueError | Some r \<Rightarrow> sx_lift (snapshot_of_row e r))"

definition device_row :: "string \<Rightarrow> db \<Rightarrow> bool \<times> int" where
  "device_row device d = (case dget (devices_t d) device of None \<Rightarrow> (False, 0) | Some (rk, rp) \<Rightarrow> (rk \<noteq> 0, rp))"

definition state_device :: "faults \<Rightarrow> string \<Rightarrow> (conn, bool \<times> int) sx" where
  "state_device f device =
     sx_bind (sx_lift (device_id device)) (\<lambda>dv.
       execute f (Query 0) (on_table ''devices'' (\<lambda>d. (Inr (device_row dv d), d))))"

definition set_reported :: "string \<Rightarrow> int \<Rightarrow> db \<Rightarrow> db" where
  \<comment> \<open>\<open>INSERT INTO devices(device,reported) ... ON CONFLICT(device) DO UPDATE\<close>\<close>
  "set_reported device rv d =
     d\<lparr>devices_t := dset device (case dget (devices_t d) device of None \<Rightarrow> 0 | Some (rk, _) \<Rightarrow> rk, rv) (devices_t d)\<rparr>"

definition set_revoked :: "string \<Rightarrow> db \<Rightarrow> db" where
  \<comment> \<open>\<open>INSERT INTO devices(device,revoked) ... ON CONFLICT(device) DO UPDATE\<close>\<close>
  "set_revoked device d = d\<lparr>devices_t := dset device (1, snd (device_row device d)) (devices_t d)\<rparr>"

definition revoke_fixture :: "faults \<Rightarrow> string \<Rightarrow> (conn, unit) sx" where
  "revoke_fixture f device =
     transaction f (sx_bind (sx_lift (device_id device)) (\<lambda>dv.
       execute f (Query 1) (on_table ''devices'' (\<lambda>d. (Inr (), set_revoked dv d)))))"

definition report_rows :: "faults \<Rightarrow> string \<Rightarrow> int \<Rightarrow> (conn, unit) sx" where
  "report_rows f device rv =
     sx_bind (state_device f device) (\<lambda>(revoked, previous).
     sx_bind (sx_guard (\<not> (revoked \<or> rv < previous)) ValueError) (\<lambda>_.
     sx_bind (sx_lift (bind_int64 rv)) (\<lambda>_.
     sx_bind (execute f (Query 1) (on_table ''snapshots'' (\<lambda>d. (Inr (rv \<in> set (revisions d)), d)))) (\<lambda>known.
     sx_bind (sx_guard known ValueError) (\<lambda>_.
       execute f (Query 2) (on_table ''devices'' (\<lambda>d.
         (Inr (), set_reported device rv d))))))))"

definition report_fixture :: "faults \<Rightarrow> string \<Rightarrow> int \<Rightarrow> (conn, unit) sx" where
  "report_fixture f device rv =
     (if rv < 1 then sx_raise ValueError else transaction f (report_rows f device rv))"

section \<open>DurableModel\<close>

record durable =
  dmodel :: model
  dconn :: conn

definition on_conn :: "(conn, 'a) sx \<Rightarrow> (durable, 'a) sx" where
  "on_conn m st = (let (r, c) = m (dconn st) in (r, st\<lparr>dconn := c\<rparr>))"

definition on_model :: "(model \<Rightarrow> 'a res \<times> model) \<Rightarrow> (durable, 'a) sx" where
  "on_model g st = (let (r, m) = g (dmodel st) in (r, st\<lparr>dmodel := m\<rparr>))"

definition upd_model :: "(model \<Rightarrow> model) \<Rightarrow> (durable, unit) sx" where
  "upd_model g = on_model (\<lambda>m. (Inr (), g m))"

definition drop_session :: "string \<Rightarrow> model \<Rightarrow> model" where
  "drop_session device m = m\<lparr>sessions := (sessions m)(device := None)\<rparr>"

definition state_error :: "exn \<Rightarrow> bool" where
  \<comment> \<open>\<open>except (sqlite3.Error, ValueError)\<close>\<close>
  "state_error x \<longleftrightarrow> isa_sqlite x \<or> isa_ValueError x"

text \<open>Each use of the database in one call has its own faults.\<close>

record call_faults =
  on_device :: faults
  on_snapshot :: faults
  on_report :: faults

definition persist_report :: "faults \<Rightarrow> string \<Rightarrow> (string \<rightharpoonup> int) \<Rightarrow> response \<Rightarrow> (durable, response) sx" where
  "persist_report f device previous resp =
     sx_catch
       (sx_bind (on_model (\<lambda>m. (case acknowledged m device of None \<Rightarrow> Inl KeyError | Some r \<Rightarrow> Inr r, m))) (\<lambda>rv.
          sx_bind (on_conn (report_fixture f device rv)) (\<lambda>_. sx_return resp)))
       (\<lambda>x. if state_error x
            then Some (sx_bind (upd_model (\<lambda>m. drop_session device (m\<lparr>acknowledged := previous\<rparr>)))
                         (\<lambda>_. sx_return (503, [])))
            else None)"

definition durable_try :: "py_env \<Rightarrow> (nat \<Rightarrow> real) \<Rightarrow> string \<Rightarrow> call_faults \<Rightarrow> string \<Rightarrow> string \<Rightarrow> (string \<times> json) list
    \<Rightarrow> (durable, response) sx" where
  "durable_try e clock fresh f stage device body =
     sx_bind (on_conn (state_device (on_device f) device)) (\<lambda>(revoked, reported).
       if revoked then sx_return (403, [])
       else
         sx_bind (upd_model (\<lambda>m. m\<lparr>acknowledged := (acknowledged m)(device \<mapsto> reported)\<rparr>)) (\<lambda>_.
         sx_bind (if stage = ''preflight''
                  then sx_bind (on_conn (state_snapshot e (on_snapshot f)))
                         (\<lambda>snap. upd_model (\<lambda>m. m\<lparr>cur_snapshot := snap\<rparr>))
                  else sx_return ()) (\<lambda>_.
         sx_bind (on_model (\<lambda>m. (Inr (acknowledged m), m))) (\<lambda>previous.
         sx_bind (on_model (handle e clock fresh stage device body)) (\<lambda>(status, response).
           if stage = ''postflight'' \<and> status = 200
           then persist_report (on_report f) device previous (status, response)
           else sx_return (status, response))))))"

definition durable_handle :: "py_env \<Rightarrow> (nat \<Rightarrow> real) \<Rightarrow> string \<Rightarrow> call_faults \<Rightarrow> string \<Rightarrow> string \<Rightarrow> (string \<times> json) list
    \<Rightarrow> (durable, response) sx" where
  "durable_handle e clock fresh f stage device body =
     sx_catch (durable_try e clock fresh f stage device body)
       (\<lambda>x. if state_error x
            then Some (sx_bind (upd_model (drop_session device)) (\<lambda>_. sx_return (503, [])))
            else None)"

definition init_durable :: "py_env \<Rightarrow> faults \<Rightarrow> string \<Rightarrow> string \<Rightarrow> bytes \<Rightarrow> conn \<Rightarrow> durable res \<times> conn" where
  "init_durable e f token_a token_b key c =
     (case state_snapshot e f c of
        (Inl x, c') \<Rightarrow> (Inl x, c')
      | (Inr snap, c') \<Rightarrow> (Inr \<lparr>dmodel = init_model snap token_a token_b key, dconn = c'\<rparr>, c'))"

definition durable_revoke :: "faults \<Rightarrow> string \<Rightarrow> (durable, unit) sx" where
  "durable_revoke f device =
     sx_bind (on_conn (revoke_fixture f device)) (\<lambda>_. upd_model (revoke_fixture_device device))"

definition durable_rotate :: "string \<Rightarrow> (durable, string) sx" where
  "durable_rotate device = sx_raise NotImplementedError"

section \<open>The disk probe\<close>

definition EXPECTED :: "py_env \<Rightarrow> snapshot res" where
  "EXPECTED e = fixture e (JInt 1) (JArr [JObj [(''identifier'', JStr (replicate 64 (CHR ''a''))),
     (''policy'', JStr ''BLOCKLIST''), (''rule_type'', JStr ''BINARY'')]]) (JStr ''synthetic-only'')"

text \<open>\<open>f i\<close> are the faults of the \<open>i\<close>-th use of the database.\<close>

definition probe_body :: "py_env \<Rightarrow> (nat \<Rightarrow> faults) \<Rightarrow> bool \<Rightarrow> snapshot \<Rightarrow> (conn, (string \<times> json) list) sx" where
  "probe_body e f initialize expected =
     sx_bind (if initialize
              then sx_bind (publish_fixture e (f 1) expected) (\<lambda>_.
                   sx_bind (report_fixture (f 2) ''device-a'' 1) (\<lambda>_.
                     revoke_fixture (f 3) ''device-b''))
              else sx_return ()) (\<lambda>_.
     sx_bind (state_snapshot e (f 4)) (\<lambda>snap.
     sx_bind (if snap \<noteq> expected then sx_return False
              else sx_bind (state_device (f 5) ''device-a'') (\<lambda>a.
                     if a \<noteq> (False, 1) then sx_return False
                     else sx_bind (state_device (f 6) ''device-b'') (\<lambda>b. sx_return (b = (True, 0))))) (\<lambda>ok.
     sx_bind (sx_guard ok ValueError) (\<lambda>_.
       sx_return [(''scope'', JStr ''synthetic-only''), (''revision'', JInt 1), (''reported'', JInt 1),
                  (''revoked'', JBool True)]))))"

definition probe :: "py_env \<Rightarrow> (nat \<Rightarrow> faults) \<Rightarrow> bool \<Rightarrow> db option \<Rightarrow> (string \<times> json) list res \<times> db option" where
  "probe e f initialize file =
     (case EXPECTED e of
        Inl x \<Rightarrow> (Inl x, file)
      | Inr expected \<Rightarrow>
          if initialize \<and> file \<noteq> None then (Inl FileExistsError, file)
          else
            (case open_state initialize (f 0) (if initialize then Some empty_db else file) of
               (Inl x, file') \<Rightarrow> (Inl x, file')
             | (Inr c, _) \<Rightarrow> (let (r, c') = probe_body e f initialize expected c in (r, close_state c'))))"

end
