(* ===== verification/Durable_Facts.thy ===== *)
theory Durable_Facts
  imports Durable_State
begin

text \<open>
  Durability of the synthetic state: the database keeps its invariant and only moves
  forward, whatever statements fail and however often the process restarts; a postflight
  that answers 200 has been committed; a failed one leaves neither the acknowledgement nor
  the session behind; and a published snapshot reads back unchanged.
\<close>

section \<open>Well-formed databases and their order\<close>

definition reported :: "db \<Rightarrow> string \<Rightarrow> int" where
  "reported d device = snd (device_row device d)"

definition revoked :: "db \<Rightarrow> string \<Rightarrow> bool" where
  "revoked d device = fst (device_row device d)"

definition db_ok :: "db \<Rightarrow> bool" where
  "db_ok d \<longleftrightarrow>
     sorted_wrt (<) (revisions d) \<and> (\<forall>rv \<in> set (revisions d). 1 \<le> rv \<and> rv < 2 ^ 63)
     \<and> length (revisions d) \<le> 100
     \<and> (\<forall>(rv, payload, digest) \<in> set (snapshots_t d). digest = sha256_hex payload \<and> length payload \<le> 65536)
     \<and> (\<forall>device. reported d device = 0 \<or> reported d device \<in> set (revisions d))"

definition db_le :: "db \<Rightarrow> db \<Rightarrow> bool" where
  "db_le d d' \<longleftrightarrow>
     (\<exists>new. snapshots_t d' = snapshots_t d @ new) \<and> tables d \<subseteq> tables d'
     \<and> (\<forall>device. reported d device \<le> reported d' device \<and> (revoked d device \<longrightarrow> revoked d' device))"

lemma db_le_refl [simp]: "db_le d d"
  by (simp add: db_le_def)

lemma db_le_trans: "db_le a b \<Longrightarrow> db_le b c \<Longrightarrow> db_le a c"
  unfolding db_le_def
  by (elim conjE exE) (simp, blast intro: order_trans)

definition conn_ok :: "conn \<Rightarrow> bool" where
  "conn_ok c \<longleftrightarrow> db_ok (disk c) \<and> (\<forall>w. txn c = Some w \<longrightarrow> db_ok w \<and> db_le (disk c) w)"

definition forward :: "conn \<Rightarrow> conn \<Rightarrow> bool" where
  "forward c c' \<longleftrightarrow> (conn_ok c \<longrightarrow> conn_ok c' \<and> db_le (disk c) (disk c'))"

interpretation cf: frame forward
proof
  show "forward c c" for c by (simp add: forward_def)
  show "forward a b \<Longrightarrow> forward b c \<Longrightarrow> forward a c" for a b c
    unfolding forward_def by (blast intro: db_le_trans)
qed

lemma forward_abort: "forward c (c\<lparr>txn := None\<rparr>)"
  by (simp add: forward_def conn_ok_def)

text \<open>A statement moves forward when its effect on the database does.\<close>

definition db_forward :: "(db \<Rightarrow> 'a res \<times> db) \<Rightarrow> bool" where
  "db_forward sql \<longleftrightarrow> (\<forall>d. db_ok d \<longrightarrow> db_ok (snd (sql d)) \<and> db_le d (snd (sql d)))"

definition put :: "db \<Rightarrow> conn \<Rightarrow> conn" where
  "put w c = (case txn c of None \<Rightarrow> c\<lparr>disk := w\<rparr> | Some _ \<Rightarrow> c\<lparr>txn := Some w\<rparr>)"

lemma put_simps [simp]: "put (view c) c = c" "view (put w c) = w" "put w (put v c) = put w c"
  "txn (put w c) = None \<longleftrightarrow> txn c = None"
  by (cases c; auto simp: put_def view_def split: option.splits)+

lemma execute_cases:
  assumes "execute f k sql c = (r, c')"
  obtains (failed) x where "f k = Some x" "r = Inl (f_exn x)" "c' = c \<or> c' = c\<lparr>txn := None\<rparr>"
  | (ran) "f k = None" "r = fst (sql (view c))" "c' = put (snd (sql (view c))) c"
proof (cases "f k")
  case None
  then show thesis
    by (rule ran) (use assms None in \<open>auto simp: execute_def put_def view_def split: option.splits prod.splits\<close>)
qed (use assms in \<open>auto simp: execute_def intro: failed\<close>)

lemma view_ok: "conn_ok c \<Longrightarrow> db_ok (view c)"
  by (auto simp: conn_ok_def view_def split: option.splits)

lemma put_forward:
  assumes "conn_ok c \<Longrightarrow> db_ok w \<and> db_le (view c) w"
  shows "forward c (put w c)"
  using assms
  by (auto simp: forward_def conn_ok_def view_def put_def split: option.splits intro: db_le_trans)

lemma execute_forward: "db_forward sql \<Longrightarrow> cf.keeps (execute f k sql)"
  by (rule cf.keepsI, erule execute_cases)
     (auto simp: cf.R_refl forward_abort db_forward_def intro!: put_forward dest: view_ok)

lemma query_forward [simp]: "db_forward (\<lambda>d. (Inr (q d), d))" "db_forward (on_table t (\<lambda>d. (Inr (q d), d)))"
  by (simp_all add: db_forward_def on_table_def)

lemma control_forward: "(\<And>c c'. act c = Inr c' \<Longrightarrow> forward c c') \<Longrightarrow> cf.keeps (control f k act)"
  by (rule cf.keepsI) (auto simp: control_def cf.R_refl forward_abort split: option.splits sum.splits if_splits)

lemma begin_forward: "cf.keeps (begin_immediate f)"
  unfolding begin_immediate_def
  by (rule control_forward) (auto simp: forward_def conn_ok_def split: option.splits)

lemma commit_forward: "cf.keeps (commit f)"
  unfolding commit_def
  by (rule control_forward) (auto simp: forward_def conn_ok_def split: option.splits)

lemma rollback_forward: "cf.keeps (rollback f)"
  unfolding rollback_def
  by (rule control_forward) (auto simp: forward_abort split: option.splits)

lemma transaction_forward: "cf.keeps body \<Longrightarrow> cf.keeps (transaction f body)"
proof -
  assume body: "cf.keeps body"
  have "cf.keeps (\<lambda>c. if txn c \<noteq> None then sx_bind (rollback f) (\<lambda>_. sx_raise x) c else (Inl x, c))" for x :: exn
  proof (rule cf.keepsI)
    fix c r c' assume "(if txn c \<noteq> None then sx_bind (rollback f) (\<lambda>_. sx_raise x) c else (Inl x, c)) = (r, c')"
    then show "forward c c'"
      using cf.keepsD [OF cf.keeps_bind [OF rollback_forward cf.keeps_raise], of f "\<lambda>_. x" c r c']
      by (auto simp: cf.R_refl split: if_splits)
  qed
  with body show ?thesis
    unfolding transaction_def
    by (intro cf.keeps_bind cf.keeps_catch cf.keeps_return begin_forward commit_forward) auto
qed

section \<open>The operations move forward\<close>

lemma query_cases:
  assumes "execute f k (on_table t (\<lambda>d. (Inr (q d), d))) c = (r, c')"
  obtains (failed) x where "r = Inl x" "c' = c \<or> c' = c\<lparr>txn := None\<rparr>"
  | (ran) "r = Inr (q (view c))" "c' = c" "t \<in> tables (view c)"
  using assms by (rule execute_cases) (auto simp: on_table_def split: if_splits intro: failed ran)

lemma revisions_last: "rv \<in> set (revisions d) \<Longrightarrow> rv \<le> max_revision d"
proof -
  have "x \<le> foldr max rs (r::int)" if "x \<in> set (r # rs)" for x r rs
    using that by (induction rs) auto
  then show "rv \<in> set (revisions d) \<Longrightarrow> ?thesis"
    unfolding max_revision_def by (cases "revisions d") auto
qed

lemma device_row_snapshots [simp]: "device_row device (d\<lparr>snapshots_t := x\<rparr>) = device_row device d"
  by (simp add: device_row_def)

lemma add_snapshot_ok:
  assumes "db_ok d" "max_revision d < rv" "1 \<le> rv" "rv < 2 ^ 63" "length (snapshots_t d) < 100" "length payload \<le> 65536"
  shows "db_ok (add_snapshot rv payload d)" "db_le d (add_snapshot rv payload d)"
proof -
  have "\<forall>q \<in> set (revisions d). q < rv"
    using assms(2) revisions_last [of _ d] by fastforce
  then show "db_ok (add_snapshot rv payload d)"
    using assms by (auto simp: db_ok_def revisions_def add_snapshot_def sorted_wrt_append reported_def)
  show "db_le d (add_snapshot rv payload d)"
    by (simp add: db_le_def add_snapshot_def reported_def revoked_def)
qed

lemma publish_rows_cases:
  assumes "publish_rows f rv payload c = (r, c')"
  obtains (failed) x where "r = Inl x" "c' = c \<or> c' = c\<lparr>txn := None\<rparr>"
  | (stored) "r = Inr ()" "max_revision (view c) < rv" "length (snapshots_t (view c)) < 100" "rv < 2 ^ 63"
      "''snapshots'' \<in> tables (view c)" "c' = put (add_snapshot rv payload (view c)) c"
proof -
  obtain r1 c1 where q1: "execute f (Query 0) (on_table ''snapshots'' (\<lambda>d. (Inr (max_revision d), d))) c = (r1, c1)"
    by fastforce
  obtain r2 c2 where q2: "execute f (Query 1) (on_table ''snapshots'' (\<lambda>d. (Inr (length (snapshots_t d)), d))) c = (r2, c2)"
    by fastforce
  let ?ins = "on_table ''snapshots'' (\<lambda>d. if rv \<in> set (revisions d) then (Inl OperationalError, d)
       else (Inr (), add_snapshot rv payload d))"
  obtain r3 c3 where q3: "execute f (Query 2) ?ins c = (r3, c3)"
    by fastforce
  note eq = assms [unfolded publish_rows_def sx_bind_def sx_guard_def sx_lift_def bind_int64_def]
  from q1 show thesis
  proof (cases rule: query_cases)
    case f1: (failed x)
    then show thesis using eq q1 by (auto intro: failed)
  next
    case r1: ran
    from q2 show thesis
    proof (cases rule: query_cases)
      case f2: (failed x)
      then show thesis using eq q1 q2 r1 by (auto split: if_splits intro: failed)
    next
      case r2: ran
      from q3 show thesis
      proof (cases rule: execute_cases)
        case f3: (failed x)
        then show thesis using eq q1 q2 q3 r1 r2 by (auto simp: res_guard_def split: if_splits intro: failed)
      next
        case r3: ran
        then show thesis using eq q1 q2 q3 r1 r2
          by (auto simp: res_guard_def on_table_def split: if_splits intro: failed stored)
      qed
    qed
  qed
qed

lemma publish_payload_Inr:
  assumes "publish_payload e snap = Inr payload"
  shows "1 \<le> revision snap" "length payload \<le> 65536"
  using assms by (auto simp: publish_payload_def res_simps fixture_def split: if_splits)

lemma publish_rows_forward:
  assumes "1 \<le> rv" "length payload \<le> 65536"
  shows "cf.keeps (publish_rows f rv payload)"
proof (rule cf.keepsI)
  fix c r c' assume "publish_rows f rv payload c = (r, c')"
  then show "forward c c'"
    by (cases rule: publish_rows_cases)
       (auto simp: cf.R_refl forward_abort assms intro!: put_forward add_snapshot_ok dest: view_ok)
qed

lemma publish_forward: "cf.keeps (publish_fixture e f snap)"
proof (rule cf.keepsI)
  fix c r c' assume st: "publish_fixture e f snap c = (r, c')"
  show "forward c c'"
  proof (cases "publish_payload e snap")
    case (Inl x)
    with st show ?thesis by (simp add: publish_fixture_def sx_bind_def sx_lift_def cf.R_refl)
  next
    case (Inr payload)
    with st have "transaction f (publish_rows f (revision snap) payload) c = (r, c')"
      by (simp add: publish_fixture_def sx_bind_def sx_lift_def)
    then show ?thesis
      using publish_payload_Inr [OF Inr]
      by (intro cf.keepsD [OF transaction_forward]) (auto intro: publish_rows_forward)
  qed
qed

lemma snapshot_forward: "cf.keeps (state_snapshot e f)"
  unfolding state_snapshot_def
  by (intro cf.keeps_bind execute_forward query_forward) (auto split: option.splits intro: cf.keeps_intros)

lemma device_forward: "cf.keeps (state_device f device)"
  unfolding state_device_def by (intro cf.keeps_intros execute_forward query_forward)

lemma device_row_dset: "device_row device (d\<lparr>devices_t := dset dv (rk, rp) (devices_t d)\<rparr>)
    = (if device = dv then (rk \<noteq> 0, rp) else device_row device d)"
  by (simp add: device_row_def)

lemma set_revoked_row:
  "device_row dv (set_revoked device d) = (if dv = device then (True, snd (device_row device d)) else device_row dv d)"
  by (simp add: set_revoked_def device_row_dset)

lemma revoke_write_forward: "db_forward (on_table ''devices'' (\<lambda>d. (Inr (), set_revoked dv d)))"
proof -
  have [simp]: "revisions (set_revoked dv d) = revisions d" "snapshots_t (set_revoked dv d) = snapshots_t d"
      "tables (set_revoked dv d) = tables d" for d
    by (simp_all add: set_revoked_def revisions_def)
  show ?thesis
    by (auto simp: db_forward_def on_table_def db_ok_def db_le_def reported_def revoked_def set_revoked_row)
qed

lemma revoke_forward: "cf.keeps (revoke_fixture f device)"
  unfolding revoke_fixture_def
  by (intro transaction_forward cf.keeps_intros execute_forward revoke_write_forward)

lemma set_reported_row:
  "device_row dv (set_reported device rv d) = (if dv = device then (fst (device_row device d), rv) else device_row dv d)"
  by (auto simp: set_reported_def device_row_dset device_row_def split: option.splits)

lemma set_reported_ok:
  assumes "db_ok d" "reported d device \<le> rv" "rv \<in> set (revisions d)"
  shows "db_ok (set_reported device rv d)" "db_le d (set_reported device rv d)"
proof -
  have [simp]: "revisions (set_reported device rv d) = revisions d" "snapshots_t (set_reported device rv d) = snapshots_t d"
      "tables (set_reported device rv d) = tables d"
    by (simp_all add: set_reported_def revisions_def)
  show "db_ok (set_reported device rv d)" "db_le d (set_reported device rv d)"
    using assms by (auto simp: db_ok_def db_le_def reported_def revoked_def set_reported_row)
qed

lemma device_query_cases:
  assumes "state_device f device c = (r, c')"
  obtains (failed) x where "r = Inl x" "c' = c \<or> c' = c\<lparr>txn := None\<rparr>"
  | (ran) "r = Inr (device_row device (view c))" "c' = c" "''devices'' \<in> tables (view c)"
      "device_id device = Inr device"
proof (cases "device_id device = Inr device")
  case True
  with assms have "execute f (Query 0) (on_table ''devices'' (\<lambda>d. (Inr (device_row device d), d))) c = (r, c')"
    by (simp add: state_device_def sx_bind_def sx_lift_def)
  then show thesis by (rule query_cases) (use True in \<open>auto intro: failed ran\<close>)
qed (use assms in \<open>auto simp: state_device_def device_id_def sx_bind_def sx_lift_def split: if_splits intro: failed\<close>)

lemma report_rows_cases:
  assumes "report_rows f device rv c = (r, c')"
  obtains (failed) x where "r = Inl x" "c' = c \<or> c' = c\<lparr>txn := None\<rparr>"
  | (stored) "r = Inr ()" "\<not> revoked (view c) device" "reported (view c) device \<le> rv" "rv \<in> set (revisions (view c))"
      "c' = put (set_reported device rv (view c)) c"
proof -
  obtain r1 c1 where q1: "state_device f device c = (r1, c1)" by fastforce
  obtain r2 c2 where q2: "execute f (Query 1) (on_table ''snapshots'' (\<lambda>d. (Inr (rv \<in> set (revisions d)), d))) c = (r2, c2)"
    by fastforce
  let ?ins = "on_table ''devices'' (\<lambda>d. (Inr (), set_reported device rv d))"
  obtain r3 c3 where q3: "execute f (Query 2) ?ins c = (r3, c3)" by fastforce
  note eq = assms [unfolded report_rows_def sx_bind_def sx_guard_def sx_lift_def bind_int64_def]
  from q1 show thesis
  proof (cases rule: device_query_cases)
    case f1: (failed x)
    then show thesis using eq q1 by (auto intro: failed)
  next
    case r1: ran
    from q2 show thesis
    proof (cases rule: query_cases)
      case f2: (failed x)
      then show thesis using eq q1 q2 r1 by (auto simp: res_guard_def split: if_splits prod.splits intro: failed)
    next
      case r2: ran
      from q3 show thesis
      proof (cases rule: execute_cases)
        case f3: (failed x)
        then show thesis using eq q1 q2 q3 r1 r2
          by (auto simp: res_guard_def split: if_splits prod.splits intro: failed)
      next
        case r3: ran
        then show thesis using eq q1 q2 q3 r1 r2
          by (auto simp: res_guard_def on_table_def reported_def revoked_def
              split: if_splits prod.splits intro: failed stored)
      qed
    qed
  qed
qed

lemma report_forward: "cf.keeps (report_fixture f device rv)"
proof -
  have "cf.keeps (report_rows f device rv)"
  proof (rule cf.keepsI)
    fix c r c' assume "report_rows f device rv c = (r, c')"
    then show "forward c c'"
      by (cases rule: report_rows_cases)
         (auto simp: cf.R_refl forward_abort intro!: put_forward set_reported_ok dest: view_ok)
  qed
  then show ?thesis
    unfolding report_fixture_def by (auto intro: transaction_forward cf.keeps_raise)
qed

lemma schema_forward: "cf.keeps (sql_schema create f)"
proof -
  have [simp]: "device_row dv (d\<lparr>tables := x\<rparr>) = device_row dv d" "revisions (d\<lparr>tables := x\<rparr>) = revisions d"
      "device_row dv (d\<lparr>user_version := n\<rparr>) = device_row dv d" "revisions (d\<lparr>user_version := n\<rparr>) = revisions d"
    for dv d x n
    by (simp_all add: device_row_def revisions_def)
  have "db_forward (\<lambda>d. (Inr (), d\<lparr>tables := insert t (tables d)\<rparr>))"
      "db_forward (\<lambda>d. (Inr (), d\<lparr>user_version := 1\<rparr>))" for t
    by (auto simp: db_forward_def db_ok_def db_le_def reported_def revoked_def)
  then show ?thesis
    unfolding sql_schema_def
    by (auto intro!: cf.keeps_bind execute_forward cf.keeps_guard)
qed

lemma open_forward:
  assumes "open_state create f (Some d) = (Inr c, file)" "db_ok d"
  shows "conn_ok c \<and> db_le d (disk c) \<and> file = Some (disk c)"
proof -
  have keeps: "cf.keeps (sx_bind (execute f (Pragma 0) (\<lambda>d. (Inr (), d))) (\<lambda>_.
      sx_bind (execute f (Pragma 1) (\<lambda>d. (Inr (), d))) (\<lambda>_. transaction f (sql_schema create f))))"
    by (intro cf.keeps_bind execute_forward query_forward transaction_forward schema_forward)
  have "conn_ok \<lparr>disk = d, txn = None\<rparr>" using assms(2) by (simp add: conn_ok_def)
  with assms(1) show ?thesis
    using cf.keepsD [OF keeps, of "\<lparr>disk = d, txn = None\<rparr>"]
    by (auto simp: open_state_def Let_def forward_def split: prod.splits sum.splits)
qed

section \<open>The durable model moves forward\<close>

interpretation df: frame "\<lambda>st st'. forward (dconn st) (dconn st')"
  by unfold_locales (auto intro: cf.R_refl cf.R_trans)

lemma on_conn_forward: "cf.keeps m \<Longrightarrow> df.keeps (on_conn m)"
  by (rule df.keepsI) (auto simp: on_conn_def split: prod.splits dest: cf.keepsD)

lemma on_model_forward: "df.keeps (on_model g)" "df.keeps (upd_model h)"
  unfolding upd_model_def by (rule df.keepsI; auto simp: on_model_def cf.R_refl split: prod.splits)+

lemma persist_forward: "df.keeps (persist_report f device previous resp)"
  unfolding persist_report_def
  by (auto intro!: df.keeps_catch df.keeps_bind on_conn_forward on_model_forward report_forward df.keeps_return
      split: if_splits)

lemma durable_try_forward: "df.keeps (durable_try e clock fresh f stage device body)"
  unfolding durable_try_def
  by (auto intro!: df.keeps_bind on_conn_forward on_model_forward device_forward snapshot_forward df.keeps_return
      persist_forward)

lemma durable_handle_forward: "df.keeps (durable_handle e clock fresh f stage device body)"
  unfolding durable_handle_def
  by (auto intro!: df.keeps_catch df.keeps_bind durable_try_forward on_model_forward df.keeps_return
      split: if_splits)

lemma durable_revoke_forward: "df.keeps (durable_revoke f device)"
  unfolding durable_revoke_def by (intro df.keeps_bind on_conn_forward on_model_forward revoke_forward)

text \<open>
  A run: requests, revocations, publications and reports in any order, each with its own
  faults, and restarts of the process, which keep nothing but the file.
\<close>

inductive durable_step :: "py_env \<Rightarrow> durable \<Rightarrow> durable \<Rightarrow> bool" for e where
  request: "durable_handle e clock fresh f stage device body st = (r, st') \<Longrightarrow> durable_step e st st'"
| revoke: "durable_revoke ff device st = (r, st') \<Longrightarrow> durable_step e st st'"
| publish: "on_conn (publish_fixture e ff snap) st = (r, st') \<Longrightarrow> durable_step e st st'"
| report: "on_conn (report_fixture ff device rv) st = (r, st') \<Longrightarrow> durable_step e st st'"
| restart: "open_state False ff (close_state (dconn st)) = (Inr c, left) \<Longrightarrow>
    init_durable e ff' token_a token_b key c = (Inr st', c') \<Longrightarrow> durable_step e st st'"

lemma durable_step_forward: "durable_step e st st' \<Longrightarrow> conn_ok (dconn st) \<Longrightarrow>
    conn_ok (dconn st') \<and> db_le (disk (dconn st)) (disk (dconn st'))"
proof (induction rule: durable_step.induct)
  case (restart ff st c left ff' token_a token_b key st' c')
  then have "db_ok (disk (dconn st))" by (simp add: conn_ok_def)
  with restart have c: "conn_ok c" "db_le (disk (dconn st)) (disk c)"
    using open_forward by (auto simp: close_state_def)
  from restart obtain snap where "state_snapshot e ff' c = (Inr snap, dconn st')"
    by (auto simp: init_durable_def split: prod.splits sum.splits)
  then have "forward c (dconn st')" using cf.keepsD [OF snapshot_forward] by blast
  with c show ?case by (auto simp: forward_def intro: db_le_trans)
qed (auto simp: forward_def dest!: df.keepsD [OF durable_handle_forward] df.keepsD [OF durable_revoke_forward]
       df.keepsD [OF on_conn_forward [OF publish_forward]] df.keepsD [OF on_conn_forward [OF report_forward]])

interpretation durable_runs: invariant_steps "durable_step e" "\<lambda>st. conn_ok (dconn st)" for e
  by unfold_locales (simp add: durable_step_forward)

text \<open>C6: the disk only moves forward.  Over every run of the durable server, through requests,
  revocations, publications, reports and restarts, with any statement of any call
  failing, the committed database stays well-formed (revisions positive and increasing,
  every digest that of its payload, every report naming a published revision), published
  snapshots are never changed or removed, reported revisions never decrease and a
  revocation is never undone.\<close>

theorem disk_moves_forward:
  assumes "(durable_step e)\<^sup>*\<^sup>* st st'" and "conn_ok (dconn st)"
  shows "db_ok (disk (dconn st')) \<and> db_le (disk (dconn st)) (disk (dconn st'))"
proof -
  have "db_le (disk (dconn st)) (disk (dconn st'))"
    by (rule durable_runs.steps_keep [OF assms(1,2), where P = "\<lambda>t. db_le (disk (dconn st)) (disk (dconn t))"])
       (auto dest: durable_step_forward intro: db_le_trans)
  moreover have "conn_ok (dconn st')" using durable_runs.steps_inv [OF assms(1)] assms(2) by blast
  ultimately show ?thesis by (simp add: conn_ok_def)
qed

theorem disk_moves_forward_witness:
  "db_le (disk (dconn \<lparr>dmodel = fx_model, dconn = \<lparr>disk = empty_db, txn = None\<rparr>\<rparr>))
     (disk (dconn (snd (durable_revoke no_faults ''device-a'' \<lparr>dmodel = fx_model, dconn = \<lparr>disk = empty_db, txn = None\<rparr>\<rparr>))))"
proof -
  let ?st = "\<lparr>dmodel = fx_model, dconn = \<lparr>disk = empty_db, txn = None\<rparr>\<rparr>"
  have "durable_step fx_env ?st (snd (durable_revoke no_faults ''device-a'' ?st))"
    by (rule durable_step.revoke [of no_faults "''device-a''" _ "fst (durable_revoke no_faults ''device-a'' ?st)"]) simp
  then have "(durable_step fx_env)\<^sup>*\<^sup>* ?st (snd (durable_revoke no_faults ''device-a'' ?st))" by blast
  from disk_moves_forward [OF this] show ?thesis
    by (simp add: conn_ok_def db_ok_def empty_db_def revisions_def reported_def device_row_def)
qed

section \<open>Reports are committed before they are acknowledged\<close>

lemma transaction_Inr:
  assumes "transaction f body c = (Inr v, c')"
  obtains c1 w where "txn c = None" "body (c\<lparr>txn := Some (disk c)\<rparr>) = (Inr v, c1)" "txn c1 = Some w"
    "c' = c1\<lparr>disk := w, txn := None\<rparr>"
  using assms
  by (auto simp: transaction_def begin_immediate_def commit_def rollback_def control_def sx_bind_def sx_catch_def
      sx_return_def sx_raise_def split: prod.splits sum.splits option.splits if_splits)

lemma transaction_Inl_disk:
  assumes "transaction f body c = (Inl x, c')"
    and "\<And>c r c'. body c = (r, c') \<Longrightarrow> txn c \<noteq> None \<Longrightarrow> disk c' = disk c"
  shows "disk c' = disk c"
proof (cases "txn c = None \<and> f Begin = None")
  case True
  let ?c = "c\<lparr>txn := Some (disk c)\<rparr>"
  obtain r1 c1 where body: "body ?c = (r1, c1)" by fastforce
  with assms(2) [of ?c] have "disk c1 = disk c" by simp
  with True body assms(1) show ?thesis
    by (auto simp: transaction_def begin_immediate_def commit_def rollback_def control_def sx_bind_def sx_catch_def
        sx_return_def sx_raise_def split: prod.splits sum.splits option.splits if_splits)
next
  case False
  with assms(1) show ?thesis
    by (auto simp: transaction_def begin_immediate_def control_def sx_bind_def
        split: option.splits if_splits)
qed

lemma report_committed:
  assumes "report_fixture f device rv c = (Inr u, c')"
  shows "disk c' = set_reported device rv (disk c)" "txn c' = None" "\<not> revoked (disk c) device"
    "reported (disk c) device \<le> rv" "rv \<in> set (revisions (disk c))"
proof -
  from assms have "transaction f (report_rows f device rv) c = (Inr u, c')"
    by (auto simp: report_fixture_def sx_raise_def split: if_splits)
  then show "disk c' = set_reported device rv (disk c)" "txn c' = None" "\<not> revoked (disk c) device"
    "reported (disk c) device \<le> rv" "rv \<in> set (revisions (disk c))"
    by (rule transaction_Inr; auto elim!: report_rows_cases simp: put_def view_def)+
qed

lemma report_failed_disk:
  assumes "report_fixture f device rv c = (Inl x, c')"
  shows "disk c' = disk c"
proof (cases "rv < 1")
  case False
  with assms have "transaction f (report_rows f device rv) c = (Inl x, c')" by (simp add: report_fixture_def)
  then show ?thesis
    by (rule transaction_Inl_disk) (auto elim!: report_rows_cases simp: put_def)
qed (use assms in \<open>simp add: report_fixture_def sx_raise_def\<close>)

lemma persist_cases:
  assumes "persist_report f device previous resp st = (r, st')" "acknowledged (dmodel st) device = Some rv"
  obtains (stored) c where "r = Inr resp" "report_fixture f device rv (dconn st) = (Inr (), c)" "st' = st\<lparr>dconn := c\<rparr>"
  | (failed) x c where "state_error x" "report_fixture f device rv (dconn st) = (Inl x, c)" "r = Inr (503, [])"
      "st' = st\<lparr>dconn := c, dmodel := drop_session device ((dmodel st)\<lparr>acknowledged := previous\<rparr>)\<rparr>"
  | (escaped) x c where "\<not> state_error x" "r = Inl x"
      "report_fixture f device rv (dconn st) = (Inl x, c)" "st' = st\<lparr>dconn := c\<rparr>"
proof -
  obtain r1 c where rep: "report_fixture f device rv (dconn st) = (r1, c)" by fastforce
  show thesis
  proof (cases r1)
    case (Inl x)
    with rep assms show thesis
      by (cases "state_error x")
         (auto simp: persist_report_def sx_catch_def sx_bind_def sx_return_def on_model_def on_conn_def upd_model_def
           intro: failed escaped)
  next
    case (Inr u)
    with rep assms show thesis
      by (auto simp: persist_report_def sx_catch_def sx_bind_def sx_return_def on_model_def on_conn_def intro: stored)
  qed
qed

lemma postflight_200:
  assumes "handle e clock fresh ''postflight'' device body m = (Inr (200, resp), m')"
  obtains s where "sessions m device = Some s" "served s = {0..<length (rules (sess_snapshot s))}" "resp = []"
    "m' = m\<lparr>acknowledged := (acknowledged m)(device \<mapsto> revision (sess_snapshot s)),
            sessions := (sessions m)(device \<mapsto> s\<lparr>acked := True\<rparr>)\<rparr>"
  using assms by (auto simp: handle_def stage_postflight_def Let_def split: if_splits option.splits)

lemma handle_postflight_status:
  "handle e clock fresh ''postflight'' device body m = (r, m') \<Longrightarrow>
     \<exists>status. r = Inr (status, []) \<and> status \<in> {200, 403, 409} \<and> (status \<noteq> 200 \<longrightarrow> m' = m)"
  by (auto simp: handle_def stage_postflight_def Let_def split: if_splits option.splits)

abbreviation with_ack :: "string \<Rightarrow> int \<Rightarrow> model \<Rightarrow> model" where
  "with_ack device rv m \<equiv> m\<lparr>acknowledged := (acknowledged m)(device \<mapsto> rv)\<rparr>"

text \<open>A postflight request in normal form.\<close>

lemma durable_postflight_cases:
  assumes "durable_handle e clock fresh f ''postflight'' device body st = (r, st')"
  obtains (unread) x c where "state_device (on_device f) device (dconn st) = (Inl x, c)"
      "if state_error x then r = Inr (503, []) \<and> st' = st\<lparr>dconn := c, dmodel := drop_session device (dmodel st)\<rparr>
       else r = Inl x \<and> st' = st\<lparr>dconn := c\<rparr>"
  | (revoked) rp where "device_row device (view (dconn st)) = (True, rp)" "r = Inr (403, [])" "st' = st"
  | (refused) rp status where "device_row device (view (dconn st)) = (False, rp)" "status \<in> {403, 409}"
      "r = Inr (status, [])" "st' = st\<lparr>dmodel := with_ack device rp (dmodel st)\<rparr>"
  | (persisted) rp m2 out where "device_row device (view (dconn st)) = (False, rp)"
      "handle e clock fresh ''postflight'' device body (with_ack device rp (dmodel st)) = (Inr (200, []), m2)"
      "persist_report (on_report f) device (acknowledged (with_ack device rp (dmodel st))) (200, []) (st\<lparr>dmodel := m2\<rparr>) = (out, st')
       \<and> r = out
       \<or> (\<exists>x st1. persist_report (on_report f) device (acknowledged (with_ack device rp (dmodel st))) (200, []) (st\<lparr>dmodel := m2\<rparr>) = (Inl x, st1)
            \<and> state_error x)"
proof -
  note eq = assms [unfolded durable_handle_def durable_try_def sx_catch_def sx_bind_def on_conn_def on_model_def
      upd_model_def sx_return_def]
  obtain r1 c where dev: "state_device (on_device f) device (dconn st) = (r1, c)" by fastforce
  from dev show thesis
  proof (cases rule: device_query_cases)
    case (failed x)
    with dev eq show thesis by (intro unread [of x c]) (auto split: if_splits)
  next
    case ran
    obtain rk rp where row: "device_row device (view (dconn st)) = (rk, rp)" by fastforce
    show thesis
    proof (cases rk)
      case True
      with ran dev eq row show thesis by (intro revoked [of rp]) auto
    next
      case False
      obtain h m2 where hd: "handle e clock fresh ''postflight'' device body (with_ack device rp (dmodel st)) = (h, m2)"
        by fastforce
      with handle_postflight_status obtain status where h: "h = Inr (status, [])" "status \<in> {200, 403, 409}"
          "status \<noteq> 200 \<longrightarrow> m2 = with_ack device rp (dmodel st)" by blast
      show thesis
      proof (cases "status = 200")
        case True
        obtain out st1 where per: "persist_report (on_report f) device (acknowledged (with_ack device rp (dmodel st)))
            (200, []) (st\<lparr>dmodel := m2\<rparr>) = (out, st1)" by fastforce
        show thesis
          by (rule persisted [of rp m2 out])
             (use True False ran dev eq row hd h per in \<open>auto split: sum.splits if_splits\<close>)
      next
        case other: False
        with False ran dev eq row hd h show thesis by (intro refused [of rp status]) auto
      qed
    qed
  qed
qed

text \<open>What the last case leaves is the answer of \<open>persist_report\<close>, which lets no state error out.\<close>

lemma persisted_result:
  assumes "handle e clock fresh ''postflight'' device body m = (Inr (200, []), m2)"
    and "persist_report f device previous resp (st\<lparr>dmodel := m2\<rparr>) = (out, st') \<and> r = out
         \<or> (\<exists>x st1. persist_report f device previous resp (st\<lparr>dmodel := m2\<rparr>) = (Inl x, st1) \<and> state_error x)"
  obtains rv where "acknowledged (dmodel (st\<lparr>dmodel := m2\<rparr>)) device = Some rv"
    "persist_report f device previous resp (st\<lparr>dmodel := m2\<rparr>) = (r, st')"
proof -
  obtain rv where ack: "acknowledged (dmodel (st\<lparr>dmodel := m2\<rparr>)) device = Some rv"
    using assms(1) by (rule postflight_200) simp
  have "\<not> state_error x" if "persist_report f device previous resp (st\<lparr>dmodel := m2\<rparr>) = (Inl x, st1)" for x st1
    using that ack by (cases rule: persist_cases) auto
  with assms(2) ack show thesis by (intro that [of rv]) blast+
qed

lemma postflight_committed:
  assumes "durable_handle e clock fresh f ''postflight'' device body st = (Inr (200, resp), st')"
  obtains rv c where "acknowledged (dmodel st') device = Some rv" "st' = st'\<lparr>dconn := c\<rparr>"
    "report_fixture (on_report f) device rv (dconn st) = (Inr (), c)" "dconn st' = c"
  using assms
proof (cases rule: durable_postflight_cases)
  case (persisted rp m2 out)
  obtain rv where ack: "acknowledged (dmodel (st\<lparr>dmodel := m2\<rparr>)) device = Some rv"
    and per: "persist_report (on_report f) device (acknowledged (with_ack device rp (dmodel st))) (200, []) (st\<lparr>dmodel := m2\<rparr>)
      = (Inr (200, resp), st')"
    using persisted(2,3) by (rule persisted_result)
  from per show thesis using ack
  proof (cases rule: persist_cases)
    case (stored c)
    with ack show thesis by (intro that [of rv c]) auto
  qed auto
qed (auto split: if_splits)

text \<open>C7: commit before acknowledgement.  When the durable server answers a postflight with 200,
  the revision it acknowledged is committed to the disk as the device's reported revision,
  it is a published revision, the device is not revoked and no transaction is left open.
  Nothing that happens afterwards, restarts included, lowers that report.\<close>

theorem postflight_survives:
  assumes "durable_handle e clock fresh f ''postflight'' device body st = (Inr (200, resp), st')"
    and "(durable_step e)\<^sup>*\<^sup>* st' later" and "conn_ok (dconn st)"
  shows "\<exists>rv. acknowledged (dmodel st') device = Some rv \<and> reported (disk (dconn st')) device = rv
    \<and> rv \<in> set (revisions (disk (dconn st'))) \<and> \<not> revoked (disk (dconn st')) device \<and> txn (dconn st') = None
    \<and> rv \<le> reported (disk (dconn later)) device"
  using assms(1)
proof (rule postflight_committed)
  fix rv c
  assume ack: "acknowledged (dmodel st') device = Some rv"
    and rep: "report_fixture (on_report f) device rv (dconn st) = (Inr (), c)" and c: "dconn st' = c"
  note rpt = report_committed [OF rep]
  have "conn_ok (dconn st')"
    using cf.keepsD [OF report_forward rep] assms(3) c by (simp add: forward_def)
  then have "db_le (disk (dconn st')) (disk (dconn later))"
    using durable_runs.steps_keep [OF assms(2), where P = "\<lambda>t. db_le (disk (dconn st')) (disk (dconn t))"]
    by (auto dest: durable_step_forward intro: db_le_trans)
  then have "reported (disk (dconn st')) device \<le> reported (disk (dconn later)) device" by (simp add: db_le_def)
  moreover have "reported (disk c) device = rv" "revoked (disk c) device = revoked (disk (dconn st)) device"
    using rpt(1) by (simp_all add: reported_def revoked_def set_reported_row)
  moreover have "revisions (disk c) = revisions (disk (dconn st))"
    using rpt(1) by (simp add: set_reported_def revisions_def)
  ultimately show ?thesis using ack c rpt by auto
qed

text \<open>A failed postflight leaves nothing behind.  When the durable server answers a
  postflight with 503, the committed database is what it was, the device's session is gone
  and its acknowledgement is the one it had or the one on record, never the new revision
  of the failed report.\<close>

theorem postflight_failure_clean:
  assumes "durable_handle e clock fresh f ''postflight'' device body st = (Inr (503, resp), st')"
  shows "disk (dconn st') = disk (dconn st) \<and> sessions (dmodel st') device = None
    \<and> (acknowledged (dmodel st') device = acknowledged (dmodel st) device
       \<or> acknowledged (dmodel st') device = Some (reported (view (dconn st)) device))"
  using assms
proof (cases rule: durable_postflight_cases)
  case (unread x c)
  from unread(1) have "disk c = disk (dconn st)" by (rule device_query_cases) auto
  with unread(2) show ?thesis by (auto simp: drop_session_def split: if_splits)
next
  case (persisted rp m2 out)
  obtain rv where ack: "acknowledged (dmodel (st\<lparr>dmodel := m2\<rparr>)) device = Some rv"
    and per: "persist_report (on_report f) device (acknowledged (with_ack device rp (dmodel st))) (200, []) (st\<lparr>dmodel := m2\<rparr>)
      = (Inr (503, resp), st')"
    using persisted(2,3) by (rule persisted_result)
  from per show ?thesis using ack
  proof (cases rule: persist_cases)
    case (failed x c)
    then have "disk c = disk (dconn st)" using report_failed_disk by fastforce
    with failed persisted(1) show ?thesis by (simp add: drop_session_def reported_def)
  qed auto
qed auto

end
