(* ===== verification/Durable_Roundtrip.thy ===== *)
theory Durable_Roundtrip
  imports Durable_Facts
begin

text \<open>
  Reading back what was published: the canonical form is stable under decoding and
  encoding, so the latest snapshot of the state is the one that was published last, and
  the disk probe finds after a reopen what it initialised.
\<close>

lemma sort_key_sorted: "sorted (map f xs) \<Longrightarrow> sort_key f xs = xs"
  by (induction xs) (auto simp: insort_is_Cons)

lemma jsort_idem: "jsort (jsort v) = jsort v"
proof (induction v)
  case (JObj ms)
  let ?ms = "map (\<lambda>(k, v). (k, jsort v)) ms"
  have "map (\<lambda>(k, v). (k, jsort v)) (sort_key fst ?ms) = sort_key fst ?ms"
    using JObj by (intro map_idI) auto
  then show ?case by (simp add: sort_key_sorted)
qed auto

lemma dget_sorted:
  assumes "distinct (map fst ms)"
  shows "dget (sort_key fst (map (\<lambda>(k, v). (k, jsort v)) ms)) k = map_option jsort (dget ms k)"
proof -
  let ?ms = "map (\<lambda>(k, v). (k, jsort v)) ms"
  have d: "distinct (map fst ?ms)" unfolding map_fst_jsort by (rule assms)
  have "distinct (map fst (sort_key fst ?ms))"
    using d distinct_map [of fst ?ms] by (simp add: distinct_map del: map_map)
  then have "dget (sort_key fst ?ms) k = dget ?ms k"
    using d map_of_inject_set [of "sort_key fst ?ms" ?ms] by simp
  also have "dget ?ms k = map_option jsort (dget ms k)" by (simp add: map_of_map)
  finally show ?thesis .
qed

lemma check_rule_jsort:
  assumes "check_rule r = Inr ()" "jplain r"
  shows "check_rule (jsort r) = Inr ()"
proof -
  from assms(1) obtain ms t p where r: "r = JObj ms" and keys: "dkeys ms = rule_keys"
    and t: "dget ms ''rule_type'' = Some t" "t \<in> {JStr ''BINARY'', JStr ''SIGNINGID''}"
    and p: "dget ms ''policy'' = Some p" "p \<in> {JStr ''BLOCKLIST'', JStr ''ALLOWLIST''}"
    by (cases r) (auto simp: check_rule_def res_simps split: if_splits option.splits)
  have d: "distinct (map fst ms)" using assms(2) r by simp
  have "dkeys (sort_key fst (map (\<lambda>(k, v). (k, jsort v)) ms)) = dkeys ms"
    by (force simp: dkeys_def)
  moreover have "jsort t = t" "jsort p = p" using t p by auto
  ultimately show ?thesis using r keys t p d by (auto simp: check_rule_def dget_sorted)
qed

lemma res_map_unit: "res_map f xs = Inr us \<longleftrightarrow> (\<forall>x \<in> set xs. f x = Inr ()) \<and> us = map (\<lambda>_. ()) xs"
  by (induction xs arbitrary: us) (auto simp: res_simps)

lemma fixture_jsort:
  assumes "fixture e (JInt n) (JArr rs) appr = Inr snap" "list_all jplain rs"
  shows "fixture e (JInt n) (JArr (map jsort rs)) appr = Inr snap"
proof -
  note fx = fixture_rules [OF assms]
  from assms(1) have "res_map check_rule rs = Inr (map (\<lambda>_. ()) rs)" and appr: "truthy appr" and
    snap: "snap = \<lparr>revision = n, rules = rules snap, approval = appr\<rparr>"
    by (auto simp: fixture_def res_simps res_map_unit split: if_splits)
  then have "res_map check_rule (map jsort rs) = Inr (map (\<lambda>_. ()) rs)"
    using assms(2) by (auto simp: res_map_unit list_all_iff intro: check_rule_jsort)
  moreover have "res_map (canonical e) (map jsort rs) = Inr (rules snap)"
  proof -
    have "canonical e (jsort r) = Inr (print_json e True (jsort r))" if "r \<in> set rs" for r
      using that fx(6) canonical_plain [OF jplain_jsort, of r e] order_trans [OF jdepth_jsort]
      by (auto simp: list_all_iff jsort_idem)
    then have "res_map (canonical e) (map jsort rs) = Inr (map (print_json e True) (map jsort rs))"
      by (intro res_map_Inr) auto
    then show ?thesis using fx(5) by (simp add: comp_def)
  qed
  ultimately show ?thesis
    using fx(2,3) appr snap by (simp add: fixture_def)
qed

lemma latest_row_last:
  assumes "sorted_wrt (<) (revisions d)" "snapshots_t d = rows @ [row]"
  shows "latest_row d = Some row"
proof -
  have lt: "\<forall>q \<in> set rows. fst q < fst row"
    using assms by (auto simp: revisions_def sorted_wrt_append)
  have none: "find (\<lambda>r. list_all (\<lambda>q. fst q \<le> fst r) (rows @ [row])) rows = None"
    using lt by (force simp: find_None_iff list_all_iff)
  have find_append: "find P (xs @ ys) = (case find P xs of None \<Rightarrow> find P ys | Some x \<Rightarrow> Some x)"
    for P and xs ys :: "(int \<times> bytes \<times> string) list"
    by (induction xs) auto
  have "list_all (\<lambda>q. fst q \<le> fst row) (rows @ [row])" using lt by (auto simp: list_all_iff)
  then show ?thesis using assms(2) none by (simp add: latest_row_def find_append del: list_all_append)
qed

definition doc_sorted :: "int \<Rightarrow> json list \<Rightarrow> string \<Rightarrow> json" where
  "doc_sorted n rs a = JObj [(''approval'', JStr a), (''revision'', JInt n), (''rules'', JArr (map jsort rs))]"

lemma jsort_doc: "jsort (fixture_doc n (map jsort rs) (JStr a)) = doc_sorted n rs a"
  by (simp add: fixture_doc_def doc_sorted_def jsort_idem comp_def)

text \<open>The payload of a fixture snapshot and the snapshot it decodes to.\<close>

lemma publish_payload_fixture:
  assumes fx: "fixture e (JInt n) (JArr rs) (JStr a) = Inr snap" and plain: "list_all jplain rs" "isascii a"
    and ok: "publish_payload e snap = Inr payload"
  shows "payload = print_json e True (doc_sorted n rs a)" "rs \<noteq> []" "jplain (doc_sorted n rs a)"
    "jdepth (doc_sorted n rs a) \<le> nest_limit e"
proof -
  note fr = fixture_rules [OF fx plain(1)]
  have appr: "approval snap = JStr a" using fx by (auto simp: fixture_def res_simps split: if_splits)
  have "loads_bytes (default_hooks e) e (print_json e True (jsort r)) = Inr (jsort r)" if "r \<in> set rs" for r
    using that fr(6) by (intro canonical_reads_back) (auto simp: list_all_iff)
  then have load: "res_map (loads_bytes (default_hooks e) e) (rules snap) = Inr (map jsort rs)"
    unfolding fr(5) by (induction rs) auto
  with ok have can: "canonical e (fixture_doc n (map jsort rs) (JStr a)) = Inr payload" and "rs \<noteq> []"
    by (auto simp: publish_payload_def res_simps fr(1) appr)
  then show "payload = print_json e True (doc_sorted n rs a)" "rs \<noteq> []"
    by (auto simp: canonical_def jsort_doc split: if_splits)
  have "int_ok n" using can by (auto simp: canonical_def fixture_doc_def split: if_splits)
  with plain show "jplain (doc_sorted n rs a)"
    by (auto simp: doc_sorted_def list_all_iff isascii_def is_ascii_def intro: jplain_jsort)
  have "jdepth (fixture_doc n (map jsort rs) (JStr a)) \<le> nest_limit e"
    using can by (auto simp: canonical_def split: if_splits)
  then show "jdepth (doc_sorted n rs a) \<le> nest_limit e" by (simp add: doc_sorted_def fixture_doc_def)
qed

lemma snapshot_of_payload:
  assumes fx: "fixture e (JInt n) (JArr rs) (JStr a) = Inr snap" and plain: "list_all jplain rs" "isascii a"
    and ok: "publish_payload e snap = Inr payload"
  shows "snapshot_of_row e (n, payload, sha256_hex payload) = Inr snap"
proof -
  note pp = publish_payload_fixture [OF assms]
  have sorted: "jsort (doc_sorted n rs a) = doc_sorted n rs a"
    unfolding jsort_doc [symmetric] by (rule jsort_idem)
  have "loads_bytes (default_hooks e) e payload = Inr (doc_sorted n rs a)"
    using canonical_reads_back [OF pp(3,4)] by (simp add: sorted pp(1))
  moreover have "canonical e (doc_sorted n rs a) = Inr payload"
    using canonical_plain [OF pp(3,4)] by (simp add: sorted pp(1))
  moreover have "fixture e (JInt n) (JArr (map jsort rs)) (JStr a) = Inr snap"
    using fx plain(1) by (rule fixture_jsort)
  moreover have "item_of (doc_sorted n rs a) ''revision'' = Inr (JInt n)"
      "item_of (doc_sorted n rs a) ''rules'' = Inr (JArr (map jsort rs))"
      "item_of (doc_sorted n rs a) ''approval'' = Inr (JStr a)"
    by (simp_all add: doc_sorted_def)
  ultimately show ?thesis using pp(2) by (simp add: snapshot_of_row_def)
qed

lemma publish_committed:
  assumes "publish_fixture e f snap c = (Inr u, c')"
  obtains payload where "publish_payload e snap = Inr payload" "txn c = None" "txn c' = None"
    "disk c' = add_snapshot (revision snap) payload (disk c)" "max_revision (disk c) < revision snap"
    "''snapshots'' \<in> tables (disk c)"
proof -
  from assms obtain payload where p: "publish_payload e snap = Inr payload"
    and tr: "transaction f (publish_rows f (revision snap) payload) c = (Inr u, c')"
    by (cases "publish_payload e snap") (auto simp: publish_fixture_def sx_bind_def sx_lift_def)
  from tr show thesis
    by (rule transaction_Inr) (auto elim!: publish_rows_cases simp: put_def view_def intro: that [OF p])
qed

text \<open>C8: what is published reads back.  Publishing a snapshot that \<open>fixture\<close> built from rules over
  ASCII text commits exactly one new row, with a revision above all earlier ones, and
  \<open>State.snapshot\<close> then returns that snapshot, digest check and canonical form check passed.\<close>

theorem published_reads_back:
  assumes "fixture e (JInt n) (JArr rs) (JStr a) = Inr snap" and "list_all jplain rs" and "isascii a"
    and "conn_ok c" and "publish_fixture e f snap c = (Inr (), c')"
  shows "state_snapshot e no_faults c' = (Inr snap, c')
    \<and> (\<exists>row. snapshots_t (disk c') = snapshots_t (disk c) @ [row] \<and> fst row = n)
    \<and> (\<forall>rv \<in> set (revisions (disk c)). rv < n)"
  using assms(5)
proof (rule publish_committed)
  fix payload
  assume p: "publish_payload e snap = Inr payload" and c: "txn c' = None"
    "disk c' = add_snapshot (revision snap) payload (disk c)" "max_revision (disk c) < revision snap"
    "''snapshots'' \<in> tables (disk c)"
  have rev: "revision snap = n" using fixture_rules(1) [OF assms(1,2)] .
  have "forward c c'" using cf.keepsD [OF publish_forward assms(5)] .
  then have "conn_ok c'" using assms(4) by (simp add: forward_def)
  then have "db_ok (disk c')" by (simp add: conn_ok_def)
  then have "sorted_wrt (<) (revisions (disk c'))" unfolding db_ok_def by (rule conjunct1)
  moreover have rows: "snapshots_t (disk c') = snapshots_t (disk c) @ [(n, payload, sha256_hex payload)]"
    using c(2) rev by (simp add: add_snapshot_def)
  ultimately have "latest_row (disk c') = Some (n, payload, sha256_hex payload)" by (rule latest_row_last)
  moreover have "''snapshots'' \<in> tables (disk c')" using c by (simp add: add_snapshot_def)
  ultimately have "state_snapshot e no_faults c' = (Inr snap, c')"
    using c(1) snapshot_of_payload [OF assms(1-3) p]
    by (simp add: state_snapshot_def sx_bind_def execute_def on_table_def sx_lift_def)
  moreover have "\<forall>rv \<in> set (revisions (disk c)). rv < n"
    using c(3) revisions_last [of _ "disk c"] unfolding rev by (auto intro: le_less_trans)
  ultimately show ?thesis using rows by simp
qed

section \<open>The disk probe\<close>

abbreviation idle :: "db \<Rightarrow> conn" where
  "idle d \<equiv> \<lparr>disk = d, txn = None\<rparr>"

lemma transaction_runs:
  assumes "body \<lparr>disk = d, txn = Some d\<rparr> = (Inr v, \<lparr>disk = d, txn = Some w\<rparr>)"
  shows "transaction no_faults body (idle d) = (Inr v, idle w)"
  using assms
  by (simp add: transaction_def begin_immediate_def commit_def control_def sx_bind_def sx_catch_def sx_return_def)

lemmas sql_run = sx_bind_def sx_lift_def sx_guard_def sx_return_def execute_def on_table_def

lemma publish_runs:
  assumes "publish_payload e snap = Inr payload" "snapshots_t d = []" "''snapshots'' \<in> tables d"
    "1 \<le> revision snap" "revision snap < 2 ^ 63"
  shows "publish_fixture e no_faults snap (idle d) = (Inr (), idle (add_snapshot (revision snap) payload d))"
proof -
  have "publish_rows no_faults (revision snap) payload \<lparr>disk = d, txn = Some d\<rparr>
      = (Inr (), \<lparr>disk = d, txn = Some (add_snapshot (revision snap) payload d)\<rparr>)"
    using assms by (simp add: publish_rows_def sql_run max_revision_def revisions_def bind_int64_def)
  with assms show ?thesis
    by (simp add: publish_fixture_def sx_bind_def sx_lift_def transaction_runs)
qed

lemma report_runs:
  assumes "device_id device = Inr device" "''devices'' \<in> tables d" "''snapshots'' \<in> tables d"
    "device_row device d = (False, rp)" "rp \<le> rv" "1 \<le> rv" "rv < 2 ^ 63" "rv \<in> set (revisions d)"
  shows "report_fixture no_faults device rv (idle d) = (Inr (), idle (set_reported device rv d))"
proof -
  have "report_rows no_faults device rv \<lparr>disk = d, txn = Some d\<rparr>
      = (Inr (), \<lparr>disk = d, txn = Some (set_reported device rv d)\<rparr>)"
    using assms by (simp add: report_rows_def state_device_def sql_run bind_int64_def)
  with assms show ?thesis by (simp add: report_fixture_def transaction_runs)
qed

lemma revoke_runs:
  assumes "device_id device = Inr device" "''devices'' \<in> tables d"
  shows "revoke_fixture no_faults device (idle d) = (Inr (), idle (set_revoked device d))"
  unfolding revoke_fixture_def
  by (rule transaction_runs) (use assms in \<open>simp add: sql_run\<close>)

definition schema_db :: db where
  "schema_db = \<lparr>user_version = 1, tables = {''devices'', ''snapshots''}, snapshots_t = [], devices_t = []\<rparr>"

lemma open_runs:
  "open_state True no_faults (Some empty_db) = (Inr (idle schema_db), Some schema_db)"
  "user_version d = 1 \<Longrightarrow> open_state False no_faults (Some d) = (Inr (idle d), Some d)"
proof -
  have "transaction no_faults (sql_schema True no_faults) (idle empty_db) = (Inr (), idle schema_db)"
    by (rule transaction_runs) (simp add: sql_schema_def sql_run empty_db_def schema_db_def)
  then show "open_state True no_faults (Some empty_db) = (Inr (idle schema_db), Some schema_db)"
    by (simp add: open_state_def sx_bind_def execute_def)
  have "transaction no_faults (sql_schema False no_faults) (idle d) = (Inr (), idle d)" if "user_version d = 1"
    by (rule transaction_runs) (use that in \<open>simp add: sql_schema_def sql_run\<close>)
  then show "user_version d = 1 \<Longrightarrow> open_state False no_faults (Some d) = (Inr (idle d), Some d)"
    by (simp add: open_state_def sx_bind_def execute_def)
qed

definition expected_rule :: json where
  "expected_rule = JObj [(''identifier'', JStr (replicate 64 (CHR ''a''))), (''policy'', JStr ''BLOCKLIST''),
     (''rule_type'', JStr ''BINARY'')]"

lemma expected_rule_props:
  "jplain expected_rule" "jdepth expected_rule = 1" "check_rule expected_rule = Inr ()" "jsort expected_rule = expected_rule"
  by (auto simp: expected_rule_def isascii_def is_ascii_def list_all_iff check_rule_def rule_keys_def dkeys_def)

lemma expected_fixture:
  assumes "3 \<le> nest_limit e"
  obtains snap payload where "EXPECTED e = Inr snap" "publish_payload e snap = Inr payload" "revision snap = 1"
    "snapshot_of_row e (1, payload, sha256_hex payload) = Inr snap"
proof -
  let ?a = "''synthetic-only''"
  let ?snap = "\<lparr>revision = 1, rules = [print_json e True expected_rule], approval = JStr ?a\<rparr>"
  have can: "canonical e expected_rule = Inr (print_json e True expected_rule)"
    using canonical_plain [of expected_rule e] assms by (simp add: expected_rule_props)
  have fx: "fixture e (JInt 1) (JArr [expected_rule]) (JStr ?a) = Inr ?snap"
    by (simp add: fixture_def expected_rule_props can)
  have plain: "list_all jplain [expected_rule]" "isascii ?a"
    by (simp_all add: expected_rule_props isascii_def is_ascii_def)
  have load: "loads_bytes (default_hooks e) e (print_json e True expected_rule) = Inr expected_rule"
    using canonical_reads_back [of expected_rule e] assms by (simp add: expected_rule_props)
  have doc: "canonical e (fixture_doc 1 [expected_rule] (JStr ?a)) = Inr (print_json e True (doc_sorted 1 [expected_rule] ?a))"
    using assms jsort_doc [of 1 "[expected_rule]" ?a] expected_rule_props plain
    by (subst canonical_plain)
       (simp_all add: fixture_doc_def isascii_def is_ascii_def int_ok_def show_nat.simps max_int_digits_def)
  have len: "length (print_json e True (doc_sorted 1 [expected_rule] ?a)) \<le> 65536"
    by (simp add: doc_sorted_def expected_rule_props(4))
       (simp add: expected_rule_def length_quote_urlsafe char_class_defs show_int_def show_nat.simps list_all_iff)
  have pub: "publish_payload e ?snap = Inr (print_json e True (doc_sorted 1 [expected_rule] ?a))"
    using load fx doc len py_len_ascii [OF plain(2)] by (simp add: publish_payload_def)
  show thesis
    by (rule that [OF _ pub _ snapshot_of_payload [OF fx plain pub]])
       (use fx in \<open>simp_all add: EXPECTED_def expected_rule_def\<close>)
qed

definition receipt :: "(string \<times> json) list" where
  "receipt = [(''scope'', JStr ''synthetic-only''), (''revision'', JInt 1), (''reported'', JInt 1),
              (''revoked'', JBool True)]"

text \<open>the disk probe is repeatable.  On a fresh path and a working disk, initialising the
  probe succeeds; every later probe of the file it left, after closing and reopening,
  returns the same receipt and leaves the file as it is; and initialising again is refused
  without touching the file.\<close>

theorem probe_repeatable:
  assumes "3 \<le> nest_limit e"
  shows "\<exists>d. probe e (\<lambda>_. no_faults) True None = (Inr receipt, Some d)
    \<and> probe e (\<lambda>_. no_faults) False (Some d) = (Inr receipt, Some d)
    \<and> probe e f True (Some d) = (Inl FileExistsError, Some d)"
  using assms
proof (rule expected_fixture)
  fix snap payload
  assume ex: "EXPECTED e = Inr snap" "publish_payload e snap = Inr payload" "revision snap = 1"
    "snapshot_of_row e (1, payload, sha256_hex payload) = Inr snap"
  let ?d1 = "add_snapshot 1 payload schema_db"
  let ?d2 = "set_reported ''device-a'' 1 ?d1"
  let ?d = "set_revoked ''device-b'' ?d2"
  have d: "user_version ?d = 1" "tables ?d2 = {''devices'', ''snapshots''}" "tables ?d = {''devices'', ''snapshots''}"
    "latest_row ?d = Some (1, payload, sha256_hex payload)"
    by (simp_all add: add_snapshot_def set_reported_def set_revoked_def schema_db_def latest_row_def)
  have rows: "device_row ''device-a'' ?d1 = (False, 0)" "device_row ''device-a'' ?d = (False, 1)" "device_row ''device-b'' ?d = (True, 0)"
    by (simp_all add: set_revoked_row set_reported_row) (simp_all add: device_row_def add_snapshot_def schema_db_def)
  have ids: "device_id ''device-a'' = Inr ''device-a''" "device_id ''device-b'' = Inr ''device-b''"
    by (simp_all add: device_id_def)
  have read: "probe_body e (\<lambda>_. no_faults) False snap (idle ?d) = (Inr receipt, idle ?d)"
    using d rows ids ex by (simp add: probe_body_def state_snapshot_def state_device_def sql_run receipt_def)
  have "publish_fixture e no_faults snap (idle schema_db) = (Inr (), idle ?d1)"
    using publish_runs [OF ex(2), of schema_db] ex(3) by (simp add: schema_db_def)
  moreover have "report_fixture no_faults ''device-a'' 1 (idle ?d1) = (Inr (), idle ?d2)"
    using ids rows(1) by (intro report_runs [where rp = 0]) (simp_all add: add_snapshot_def schema_db_def revisions_def)
  moreover have "revoke_fixture no_faults ''device-b'' (idle ?d2) = (Inr (), idle ?d)"
    using ids d by (intro revoke_runs) simp_all
  ultimately have "probe_body e (\<lambda>_. no_faults) True snap (idle schema_db) = (Inr receipt, idle ?d)"
    using read by (simp add: probe_body_def sx_bind_def sx_return_def)
  with read ex(1) d(1) have "probe e (\<lambda>_. no_faults) True None = (Inr receipt, Some ?d)"
      "probe e (\<lambda>_. no_faults) False (Some ?d) = (Inr receipt, Some ?d)"
    by (simp_all add: probe_def open_runs close_state_def)
  moreover have "probe e f True (Some ?d) = (Inl FileExistsError, Some ?d)" using ex(1) by (simp add: probe_def)
  ultimately show ?thesis by blast
qed

theorem probe_repeatable_witness:
  "\<exists>d. probe fx_env (\<lambda>_. no_faults) True None = (Inr receipt, Some d)
    \<and> probe fx_env (\<lambda>_. no_faults) False (Some d) = (Inr receipt, Some d)"
proof -
  have "3 \<le> nest_limit fx_env" by (simp add: fx_env_def)
  from probe_repeatable [OF this, of "\<lambda>_. no_faults"] show ?thesis by blast
qed

theorem published_reads_back_witness:
  "\<exists>snap c'. EXPECTED fx_env = Inr snap
     \<and> publish_fixture fx_env no_faults snap (idle schema_db) = (Inr (), c')
     \<and> state_snapshot fx_env no_faults c' = (Inr snap, c')"
proof -
  have "3 \<le> nest_limit fx_env" by (simp add: fx_env_def)
  then obtain snap payload where ex: "EXPECTED fx_env = Inr snap" "publish_payload fx_env snap = Inr payload" "revision snap = 1"
    by (rule expected_fixture)
  have pub: "publish_fixture fx_env no_faults snap (idle schema_db) = (Inr (), idle (add_snapshot 1 payload schema_db))"
    using publish_runs [OF ex(2), of schema_db] ex(3) by (simp add: schema_db_def)
  have "fixture fx_env (JInt 1) (JArr [expected_rule]) (JStr ''synthetic-only'') = Inr snap"
    using ex(1) by (simp add: EXPECTED_def expected_rule_def)
  moreover have "list_all jplain [expected_rule]" by (simp add: expected_rule_props)
  moreover have "isascii ''synthetic-only''" by code_simp
  moreover have "conn_ok (idle schema_db)"
    by (simp add: conn_ok_def db_ok_def schema_db_def revisions_def reported_def device_row_def)
  ultimately show ?thesis using published_reads_back [OF _ _ _ _ pub] ex(1) pub by blast
qed

section \<open>A postflight that commits and one that fails\<close>

definition fx_db :: db where
  "fx_db = schema_db\<lparr>snapshots_t := [(7, [], sha256_hex [])]\<rparr>"

definition fx_served :: durable where
  "fx_served = \<lparr>dmodel = fx_model\<lparr>sessions := [''device-a'' \<mapsto>
       (new_session (replicate 32 (CHR ''0'')) fx_snapshot 0)\<lparr>served := {0..<2}\<rparr>]\<rparr>,
     dconn = idle fx_db\<rparr>"

definition no_call_faults :: call_faults where
  "no_call_faults = \<lparr>on_device = no_faults, on_snapshot = no_faults, on_report = no_faults\<rparr>"

definition commit_fault :: call_faults where
  "commit_fault = \<lparr>on_device = no_faults, on_snapshot = no_faults,
     on_report = (\<lambda>k. if k = Commit then Some \<lparr>f_exn = OperationalError, f_abort = False\<rparr> else None)\<rparr>"

lemma fx_served_props:
  "conn_ok (dconn fx_served)" "dconn fx_served = idle fx_db" "device_row ''device-a'' fx_db = (False, 0)"
  "''devices'' \<in> tables fx_db" "''snapshots'' \<in> tables fx_db" "revisions fx_db = [7]" "device_id ''device-a'' = Inr ''device-a''"
  by (auto simp: fx_served_def conn_ok_def db_ok_def fx_db_def schema_db_def revisions_def reported_def device_row_def
      device_id_def)

lemma fx_handle:
  "\<exists>m2. handle fx_env (\<lambda>_. 1) [] ''postflight'' ''device-a'' (postflight_body ''device-a'' 2)
      (with_ack ''device-a'' 0 (dmodel fx_served)) = (Inr (200, []), m2) \<and> acknowledged m2 ''device-a'' = Some 7"
  by (simp add: handle_def postflight_body_def stage_postflight_def fx_served_def new_session_def fx_snapshot_def Let_def)

lemma fx_commits:
  "\<exists>st'. durable_handle fx_env (\<lambda>_. 1) [] no_call_faults ''postflight'' ''device-a'' (postflight_body ''device-a'' 2) fx_served
     = (Inr (200, []), st')"
proof -
  obtain m2 where m2: "handle fx_env (\<lambda>_. 1) [] ''postflight'' ''device-a'' (postflight_body ''device-a'' 2)
      (with_ack ''device-a'' 0 (dmodel fx_served)) = (Inr (200, []), m2)" "acknowledged m2 ''device-a'' = Some 7"
    using fx_handle by blast
  have "report_fixture no_faults ''device-a'' 7 (idle fx_db) = (Inr (), idle (set_reported ''device-a'' 7 fx_db))"
    by (rule report_runs [where rp = 0]) (simp_all add: fx_served_props)
  then show ?thesis
    using m2 fx_served_props
    by (simp add: durable_handle_def durable_try_def persist_report_def state_device_def on_conn_def on_model_def
        upd_model_def sx_catch_def sql_run no_call_faults_def)
qed

theorem postflight_survives_witness:
  "\<exists>st' rv. durable_handle fx_env (\<lambda>_. 1) [] no_call_faults ''postflight'' ''device-a'' (postflight_body ''device-a'' 2) fx_served
     = (Inr (200, []), st') \<and> reported (disk (dconn st')) ''device-a'' = rv \<and> acknowledged (dmodel st') ''device-a'' = Some rv"
proof -
  obtain st' where st: "durable_handle fx_env (\<lambda>_. 1) [] no_call_faults ''postflight'' ''device-a''
      (postflight_body ''device-a'' 2) fx_served = (Inr (200, []), st')" using fx_commits by blast
  from postflight_survives [OF st rtranclp.rtrancl_refl fx_served_props(1)] st show ?thesis by blast
qed

lemma fx_fails:
  "\<exists>st'. durable_handle fx_env (\<lambda>_. 1) [] commit_fault ''postflight'' ''device-a'' (postflight_body ''device-a'' 2) fx_served
     = (Inr (503, []), st')"
proof -
  let ?f = "on_report commit_fault"
  obtain m2 where m2: "handle fx_env (\<lambda>_. 1) [] ''postflight'' ''device-a'' (postflight_body ''device-a'' 2)
      (with_ack ''device-a'' 0 (dmodel fx_served)) = (Inr (200, []), m2)" "acknowledged m2 ''device-a'' = Some 7"
    using fx_handle by blast
  have "report_rows ?f ''device-a'' 7 \<lparr>disk = fx_db, txn = Some fx_db\<rparr>
      = (Inr (), \<lparr>disk = fx_db, txn = Some (set_reported ''device-a'' 7 fx_db)\<rparr>)"
    using fx_served_props
    by (simp add: report_rows_def state_device_def sql_run bind_int64_def commit_fault_def)
  then have "report_fixture ?f ''device-a'' 7 (idle fx_db) = (Inl OperationalError, idle fx_db)"
    by (simp add: report_fixture_def transaction_def begin_immediate_def commit_def rollback_def control_def
        sx_bind_def sx_catch_def sx_raise_def commit_fault_def)
  moreover have "on_device commit_fault = no_faults" by (simp add: commit_fault_def)
  ultimately show ?thesis
    using m2 fx_served_props
    by (simp add: durable_handle_def durable_try_def persist_report_def state_device_def on_conn_def on_model_def
        upd_model_def sx_catch_def sql_run state_error_def)
qed

theorem postflight_failure_clean_witness:
  "\<exists>st'. durable_handle fx_env (\<lambda>_. 1) [] commit_fault ''postflight'' ''device-a'' (postflight_body ''device-a'' 2) fx_served
     = (Inr (503, []), st') \<and> disk (dconn st') = fx_db \<and> sessions (dmodel st') ''device-a'' = None"
proof -
  obtain st' where st: "durable_handle fx_env (\<lambda>_. 1) [] commit_fault ''postflight'' ''device-a''
      (postflight_body ''device-a'' 2) fx_served = (Inr (503, []), st')" using fx_fails by blast
  from postflight_failure_clean [OF st] st show ?thesis by (auto simp: fx_served_props(2))
qed

end
