(* ===== verification/Request_Limits.thy ===== *)
theory Request_Limits
  imports Sync_Decode
begin

text \<open>
  The bounded JSON input boundary of \<open>experiments/server/santa_request_limits.py\<close>: the
  configured limits, the nesting scanner that runs before the decoder, and the decoding of
  a request under those limits.  A rejection carries its HTTP status; any other exception
  that would escape is \<open>Raised\<close>.  Values whose type the code tests (\<open>META\<close> entries) are
  \<open>json\<close> values, with \<open>JNull\<close> for \<open>None\<close>.
\<close>

section \<open>Limits\<close>

record limits =
  lim_compressed :: nat
  lim_expanded :: nat
  lim_depth :: nat
  lim_events :: nat

definition configured_limit :: "(string \<Rightarrow> string option) \<Rightarrow> string \<Rightarrow> nat \<Rightarrow> nat \<Rightarrow> nat res" where
  \<comment> \<open>one round of the loop of \<open>configured_limits\<close>\<close>
  "configured_limit environ name dflt ceil =
     (let raw = (case environ (''AZD_SANTA_MAX_'' @ name) of None \<Rightarrow> show_nat dflt | Some r \<Rightarrow> r) in
      if \<not> isascii raw \<or> \<not> isdecimal raw then Inl ValueError
      else res_bind (py_int raw) (\<lambda>value.
        if \<not> (1 \<le> value \<and> value \<le> int ceil) then Inl ValueError else Inr (nat value)))"

definition configured_limits :: "(string \<Rightarrow> string option) \<Rightarrow> limits res" where
  "configured_limits environ =
     res_bind (configured_limit environ ''COMPRESSED'' (1024 * 1024) (4 * 1024 * 1024)) (\<lambda>compressed.
     res_bind (configured_limit environ ''EXPANDED'' (4 * 1024 * 1024) (16 * 1024 * 1024)) (\<lambda>expanded.
     res_bind (configured_limit environ ''DEPTH'' 32 64) (\<lambda>depth.
     res_bind (configured_limit environ ''EVENTS'' 100 1000) (\<lambda>events.
       Inr \<lparr>lim_compressed = compressed, lim_expanded = expanded, lim_depth = depth, lim_events = events\<rparr>))))"

definition EVENT_COLLECTIONS :: "string list" where
  "EVENT_COLLECTIONS = [''events'', ''file_access_events'', ''audit_events'',
     ''network_mount_events'', ''network_flow_events'', ''usb_mount_events'']"

datatype reject = Rejected nat string | Raised exn

section \<open>Decoder hooks\<close>

definition limits_float :: "py_env \<Rightarrow> string \<Rightarrow> json res" where
  "limits_float e w = (if float_of e w \<in> {PosInf, NegInf, NaN} then Inl ValueError else Inr (JFloat (float_of e w)))"

definition limits_hooks :: "py_env \<Rightarrow> hooks" where
  "limits_hooks e = \<lparr>pairs_hook = unique_object, const_hook = (\<lambda>_. Inl ValueError), float_hook = limits_float e\<rparr>"

section \<open>The nesting scanner\<close>

text \<open>\<open>_check_depth\<close>: whether the scan from the given depth and string state finds no violation.\<close>

fun depth_ok :: "nat \<Rightarrow> int \<Rightarrow> bool \<Rightarrow> bool \<Rightarrow> string \<Rightarrow> bool" where
  "depth_ok maximum depth quoted escaped [] = True"
| "depth_ok maximum depth quoted escaped (c # cs) =
     (if quoted then
        (if escaped then depth_ok maximum depth True False cs
         else if c = CHR 0x5C then depth_ok maximum depth True True cs
         else if c = CHR 0x22 then depth_ok maximum depth False False cs
         else depth_ok maximum depth True False cs)
      else if c = CHR 0x22 then depth_ok maximum depth True escaped cs
      else if c = CHR ''['' \<or> c = CHR ''{'' then
        (if depth + 1 > int maximum then False else depth_ok maximum (depth + 1) False escaped cs)
      else if c = CHR '']'' \<or> c = CHR ''}'' then depth_ok maximum (depth - 1) False escaped cs
      else depth_ok maximum depth False escaped cs)"

definition check_depth :: "string \<Rightarrow> nat \<Rightarrow> bool" where
  "check_depth txt1 maximum = depth_ok maximum 0 False False txt1"

section \<open>Decoding a body\<close>

definition expand :: "zlib \<Rightarrow> limits \<Rightarrow> bytes \<Rightarrow> string \<Rightarrow> reject + bytes" where
  "expand z l raw encoding =
     (if encoding = ''deflate'' \<or> encoding = ''zlib'' \<or> encoding = ''gzip'' then
        (case z (if encoding = ''gzip'' then 31 else 15) raw (lim_expanded l + 1) of
           Inl x \<Rightarrow> if x = ZlibError then Inl (Rejected 400 ''Invalid compressed request'') else Inl (Raised x)
         | Inr obj \<Rightarrow>
             if length (z_out obj) > lim_expanded l \<or> unconsumed_tail obj \<noteq> []
             then Inl (Rejected 413 ''Expanded body limit exceeded'')
             else if \<not> z_eof obj \<or> unused_data obj \<noteq> []
             then Inl (Rejected 400 ''Incomplete or trailing compressed data'')
             else Inr (z_out obj))
      else if encoding \<noteq> [] \<and> encoding \<noteq> ''identity'' then Inl (Rejected 415 ''Unsupported Content-Encoding'')
      else Inr raw)"

definition parse_body :: "py_env \<Rightarrow> limits \<Rightarrow> bytes \<Rightarrow> reject + json" where
  "parse_body e l raw =
     (case utf8_decode False raw of
        Inl x \<Rightarrow> Inl (Rejected 400 ''Invalid JSON request'')
      | Inr tx \<Rightarrow>
          if \<not> check_depth tx (lim_depth l) then Inl (Rejected 400 ''JSON nesting limit exceeded'')
          else (case loads (limits_hooks e) (nest_limit e) tx of
              Inr v \<Rightarrow> Inr v
            | Inl x \<Rightarrow> if isa_ValueError x \<or> x = RecursionError
                       then Inl (Rejected 400 ''Invalid JSON request'') else Inl (Raised x)))"

fun is_obj :: "json \<Rightarrow> bool" where
  "is_obj (JObj _) = True"
| "is_obj _ = False"

fun count_events :: "(string \<times> json) list \<Rightarrow> string list \<Rightarrow> nat \<Rightarrow> reject + nat" where
  "count_events data [] count = Inr count"
| "count_events data (name # names) count =
     (case dget data name of
        None \<Rightarrow> count_events data names count
      | Some (JArr events) \<Rightarrow>
          if list_all is_obj events then count_events data names (count + length events)
          else Inl (Rejected 400 ''Invalid event collection'')
      | Some _ \<Rightarrow> Inl (Rejected 400 ''Invalid event collection''))"

definition check_events :: "limits \<Rightarrow> json \<Rightarrow> reject + (string \<times> json) list" where
  "check_events l v =
     (case v of
        JObj data \<Rightarrow>
          res_bind (count_events data EVENT_COLLECTIONS 0) (\<lambda>count.
            if count > lim_events l then Inl (Rejected 413 ''Event batch limit exceeded'')
            else Inr data)
      | _ \<Rightarrow> Inl (Rejected 400 ''JSON object required''))"

definition encoding_name :: "json \<Rightarrow> reject + string" where
  "encoding_name encoding =
     (case encoding of
        JNull \<Rightarrow> Inr []
      | JStr s \<Rightarrow> Inr (py_lower_ascii (py_strip s))
      | _ \<Rightarrow> Inl (Rejected 415 ''Unsupported Content-Encoding''))"

definition decode_bytes :: "zlib \<Rightarrow> py_env \<Rightarrow> limits \<Rightarrow> bytes \<Rightarrow> json \<Rightarrow> reject + (string \<times> json) list" where
  "decode_bytes z e l raw encoding =
     (if length raw > lim_compressed l then Inl (Rejected 413 ''Request body limit exceeded'')
      else res_bind (encoding_name encoding) (\<lambda>enc.
           res_bind (expand z l raw enc) (\<lambda>raw'.
             if length raw' > lim_expanded l then Inl (Rejected 413 ''Expanded body limit exceeded'')
             else res_bind (parse_body e l raw') (check_events l))))"

text \<open>A request: its \<open>META\<close> entries and \<open>read\<close>.\<close>

record web_request =
  META :: "string \<Rightarrow> json"
  request_read :: "nat \<Rightarrow> bytes res"

definition check_length :: "limits \<Rightarrow> json \<Rightarrow> reject + unit" where
  "check_length l len =
     (case len of
        JNull \<Rightarrow> Inr ()
      | JStr s \<Rightarrow>
          if s = [] then Inr ()
          else if \<not> isascii s \<or> \<not> isdecimal s then Inl (Rejected 400 ''Invalid Content-Length'')
          else if py_len s > 12 then Inl (Rejected 413 ''Request body limit exceeded'')
          else (case py_int s of
              Inl x \<Rightarrow> Inl (Raised x)
            | Inr n \<Rightarrow> if n > int (lim_compressed l) then Inl (Rejected 413 ''Request body limit exceeded'') else Inr ())
      | _ \<Rightarrow> Inl (Rejected 400 ''Invalid Content-Length''))"

definition decode_request :: "zlib \<Rightarrow> py_env \<Rightarrow> limits \<Rightarrow> web_request \<Rightarrow> reject + (string \<times> json) list" where
  "decode_request z e l rq =
     res_bind (check_length l (META rq ''CONTENT_LENGTH'')) (\<lambda>_.
       case request_read rq (lim_compressed l + 1) of
         Inl x \<Rightarrow> Inl (Raised x)
       | Inr raw \<Rightarrow> decode_bytes z e l raw (META rq ''HTTP_CONTENT_ENCODING''))"

end
