(* ===== verification/Request_Limits_Facts.thy ===== *)
theory Request_Limits_Facts
  imports Request_Limits
begin

text \<open>
  The guarantees of the input boundary.  The scanner and the decoder agree on where
  strings begin and end, so on every prefix that the decoder accepts the scanner's depth
  is the decoder's; a text that passes the scan therefore never exhausts the decoder's
  recursion, and what is decoded obeys every limit.
\<close>

section \<open>The scanner follows the decoder\<close>

abbreviation scan :: "nat \<Rightarrow> int \<Rightarrow> string \<Rightarrow> bool" where
  "scan M k s \<equiv> depth_ok M k False False s"

abbreviation scan_str :: "nat \<Rightarrow> int \<Rightarrow> string \<Rightarrow> bool" where
  "scan_str M k s \<equiv> depth_ok M k True False s"

definition inert :: "char \<Rightarrow> bool" where
  \<comment> \<open>characters the scanner passes over outside strings\<close>
  "inert c \<longleftrightarrow> c \<notin> {CHR 0x22, CHR ''['', CHR ''{'', CHR '']'', CHR ''}''}"

lemma scan_inert: "list_all inert w \<Longrightarrow> scan M k (w @ s) = scan M k s"
  by (induction w) (auto simp: inert_def)

lemma scan_skip_ws: "scan M k (skip_ws s) = scan M k s"
proof -
  have "list_all inert (takeWhile is_json_ws s)"
    by (auto simp: list_all_iff inert_def is_json_ws_def dest!: set_takeWhileD)
  then show ?thesis using scan_inert [of "takeWhile is_json_ws s" M k "skip_ws s"] by simp
qed

lemma hex_digit_calm: "hex_digit_val c = Some v \<Longrightarrow> c \<noteq> CHR 0x22 \<and> c \<noteq> CHR 0x5C"
  by (auto simp: hex_digit_val_def in_range_def is_digit_def split: if_splits)

lemma scan_str_calm: "c \<noteq> CHR 0x22 \<Longrightarrow> c \<noteq> CHR 0x5C \<Longrightarrow> scan_str M k (c # s) = scan_str M k s"
  by simp

lemma scan_steps:
  "scan M k (CHR 0x22 # s) = scan_str M k s"
  "scan_str M k (CHR 0x22 # s) = scan M k s"
  "scan_str M k (CHR 0x5C # s) = depth_ok M k True True s"
  "depth_ok M k True True (c # s) = scan_str M k s"
  "scan M k (CHR ''['' # s) \<longleftrightarrow> k + 1 \<le> int M \<and> scan M (k + 1) s"
  "scan M k (CHR ''{'' # s) \<longleftrightarrow> k + 1 \<le> int M \<and> scan M (k + 1) s"
  "scan M k (CHR '']'' # s) = scan M (k - 1) s"
  "scan M k (CHR ''}'' # s) = scan M (k - 1) s"
  "scan M k (CHR '','' # s) = scan M k s"
  "scan M k (CHR '':'' # s) = scan M k s"
  by auto

declare depth_ok.simps(2) [simp del]

lemma read_hex4_calm:
  assumes "read_hex4 a b c d = Some n"
  shows "scan_str M k (a # b # c # d # s) = scan_str M k s"
proof -
  from assms have "hex_digit_val a \<noteq> None" "hex_digit_val b \<noteq> None" "hex_digit_val c \<noteq> None" "hex_digit_val d \<noteq> None"
    by (auto simp: read_hex4_def split: option.splits)
  then show ?thesis using hex_digit_calm by (fastforce simp: scan_str_calm)
qed

lemma u_item_scan: "u_item n r = Inr (p, r') \<Longrightarrow> scan_str M k r = scan_str M k r' \<and> p \<noteq> None"
proof (cases "r' = r")
  case False
  assume u: "u_item n r = Inr (p, r')"
  with False obtain g1 g2 g3 g4 m where "r = CHR 0x5C # CHR ''u'' # g1 # g2 # g3 # g4 # r'" "read_hex4 g1 g2 g3 g4 = Some m" "p \<noteq> None"
    by (auto simp: u_item_def split: if_splits list.splits option.splits)
  then show ?thesis using read_hex4_calm [of g1 g2 g3 g4 m] by (simp add: scan_steps)
qed (auto simp: u_item_def split: if_splits list.splits option.splits)

lemma escape_item_scan:
  assumes "escape_item r = Inr (p, r')"
  shows "depth_ok M k True True r = scan_str M k r' \<and> p \<noteq> None"
proof -
  from assms obtain c r1 where r: "r = c # r1" by (cases r) (auto simp: escape_item_def)
  show ?thesis
  proof (cases "c = CHR ''u''")
    case True
    with assms r obtain a b g d r2 n where "r1 = a # b # g # d # r2" "read_hex4 a b g d = Some n" "u_item n r2 = Inr (p, r')"
      by (auto simp: escape_item_def split: list.splits option.splits)
    then show ?thesis using r read_hex4_calm [of a b g d n M k r2] u_item_scan [of n r2 p r' M k] by (simp add: scan_steps)
  next
    case False
    with assms r show ?thesis by (auto simp: escape_item_def scan_steps split: option.splits)
  qed
qed

lemma str_item_scan:
  assumes "str_item s = Inr (p, r)"
  shows "if p = None then scan_str M k s = scan M k r else scan_str M k s = scan_str M k r"
proof -
  from assms obtain c r1 where s: "s = c # r1" by (cases s) (auto simp: str_item_def)
  consider "c = CHR 0x22" | "c = CHR 0x5C" | "c \<noteq> CHR 0x22" "c \<noteq> CHR 0x5C" by blast
  then show ?thesis
  proof cases
    case 2
    with assms s have "escape_item r1 = Inr (p, r)" by (simp add: str_item_def)
    from escape_item_scan [OF this, of M k] s 2 show ?thesis by (auto simp: scan_steps)
  qed (use assms s in \<open>auto simp: str_item_def scan_steps scan_str_calm split: if_splits\<close>)
qed

lemma parse_str_scan: "parse_str s = Inr (t, r) \<Longrightarrow> scan_str M k s = scan M k r"
proof (induction s arbitrary: t rule: parse_str.induct)
  case (1 s)
  from "1.prems" obtain p r1 where item: "str_item s = Inr (p, r1)"
    by (subst (asm) parse_str.simps) (auto split: sum.splits prod.splits)
  show ?case
  proof (cases p)
    case None
    with "1.prems" item have "r1 = r" by (subst (asm) parse_str.simps) simp
    with str_item_scan [OF item, of M k] None show ?thesis by simp
  next
    case (Some q)
    with "1.prems" item obtain t' where "parse_str r1 = Inr (t', r)"
      by (subst (asm) parse_str.simps) (auto simp: res_simps)
    with "1.IH" item Some str_item_scan [OF item, of M k] show ?thesis by simp
  qed
qed

text \<open>Atoms contain nothing the scanner reacts to.\<close>

definition consumes :: "string \<Rightarrow> string \<Rightarrow> bool" where
  "consumes s r \<longleftrightarrow> (\<exists>w. s = w @ r \<and> list_all inert w)"

lemma consumes_scan: "consumes s r \<Longrightarrow> scan M k s = scan M k r"
  by (auto simp: consumes_def scan_inert)

lemma consumes_refl [simp]: "consumes s s"
  by (auto simp: consumes_def intro: exI [where x = "[]"])

lemma consumes_trans: "consumes s r \<Longrightarrow> consumes r q \<Longrightarrow> consumes s q"
  unfolding consumes_def by (elim exE conjE) (auto intro: exI [where x = "_ @ _"])

lemma consumes_Cons: "inert c \<Longrightarrow> consumes r q \<Longrightarrow> consumes (c # r) q"
  unfolding consumes_def by (elim exE conjE) (auto intro: exI [where x = "c # _"])

lemma digit_inert: "is_digit c \<Longrightarrow> inert c"
  by (auto simp: inert_def is_digit_def in_range_def)

lemma consumes_digits [simp]: "consumes s (dropWhile is_digit s)"
proof -
  have "list_all inert (takeWhile is_digit s)"
    by (auto simp: list_all_iff digit_inert dest!: set_takeWhileD)
  then show ?thesis
    unfolding consumes_def by (intro exI [where x = "takeWhile is_digit s"]) simp
qed

lemma consumes_drop: "startswith s w \<Longrightarrow> list_all inert w \<Longrightarrow> consumes s (drop (length w) s)"
  by (auto simp: startswith_iff consumes_def)

lemma inert_simps [simp]:
  "inert (CHR ''0'')" "inert (CHR ''-'')" "inert (CHR ''+'')" "inert (CHR ''.'')" "inert (CHR ''e'')" "inert (CHR ''E'')"
  by (simp_all add: inert_def)

lemma scan_int_consumes: "scan_int s = Some (ds, r) \<Longrightarrow> consumes s r"
  by (auto simp: scan_int_def digit_inert split: list.splits if_splits intro!: consumes_Cons)

lemma scan_frac_consumes: "scan_frac s = (f, r) \<Longrightarrow> consumes s r"
  by (auto simp: scan_frac_def split: list.splits if_splits intro!: consumes_Cons)

lemma scan_exp_consumes: "scan_exp s = (f, r) \<Longrightarrow> consumes s r"
  by (auto simp: scan_exp_def digit_inert split: list.splits if_splits intro!: consumes_Cons)

lemma parse_number_consumes:
  assumes "parse_number h s = Inr (v, r)"
  shows "consumes s r"
proof -
  define s1 where "s1 = (case s of c # r \<Rightarrow> if c = CHR ''-'' then r else s | [] \<Rightarrow> s)"
  have c1: "consumes s s1" by (auto simp: s1_def split: list.splits intro: consumes_Cons)
  from assms obtain ds s2 fr s3 ex s4 where "scan_int s1 = Some (ds, s2)" "scan_frac s2 = (fr, s3)" "scan_exp s3 = (ex, s4)" "r = s4"
    by (auto simp: parse_number_def s1_def Let_def res_simps split: list.splits if_splits option.splits prod.splits)
  then have "consumes s1 s2" "consumes s2 s3" "consumes s3 r"
    using scan_int_consumes scan_frac_consumes scan_exp_consumes by blast+
  with c1 show ?thesis by (blast intro: consumes_trans)
qed

lemma parse_atom_scan: "parse_atom h s = Inr (v, r) \<Longrightarrow> scan M k s = scan M k r"
proof -
  assume atom: "parse_atom h s = Inr (v, r)"
  have lit: "list_all inert w" if "(w, u) \<in> set literals" for w u
    using that by (auto simp: literals_def inert_def)
  have con: "list_all inert w" if "w \<in> set constants" for w
    using that by (auto simp: constants_def inert_def)
  have "consumes s r"
    using atom unfolding parse_atom_def
    by (auto simp: res_simps split: option.splits dest!: find_literal find_constant
        intro: consumes_drop lit con parse_number_consumes)
  then show ?thesis by (rule consumes_scan)
qed

section \<open>Decoding within the scanned depth\<close>

text \<open>
  At scanner depth \<open>k\<close> with at least \<open>M - k\<close> levels left, the decoder does not run out of
  them, and where it succeeds the scanner is back at depth \<open>k\<close> (or one less behind the
  closing bracket of a list of elements).
\<close>

lemma parse_follows_scan:
  assumes "hooks_sane h"
  shows "scan M k s \<Longrightarrow> int M \<le> k + int d \<Longrightarrow>
      parse_value h n d s \<noteq> Inl RecursionError \<and> (\<forall>v r. parse_value h n d s = Inr (v, r) \<longrightarrow> scan M k r)"
    and "scan M k s \<Longrightarrow> int M \<le> k + int d \<Longrightarrow>
      parse_elems h n d s \<noteq> Inl RecursionError \<and> (\<forall>vs r. parse_elems h n d s = Inr (vs, r) \<longrightarrow> scan M (k - 1) r)"
    and "scan M k s \<Longrightarrow> int M \<le> k + int d \<Longrightarrow>
      parse_members h n d s \<noteq> Inl RecursionError \<and> (\<forall>ms r. parse_members h n d s = Inr (ms, r) \<longrightarrow> scan M (k - 1) r)"
proof (induction n arbitrary: d s k)
  case (Suc n)
  note ws = scan_skip_ws [of M, symmetric]
  { case 1
    have "parse_value h (Suc n) d s \<noteq> Inl RecursionError"
    proof
      assume "parse_value h (Suc n) d s = Inl RecursionError"
      then show False
      proof (cases rule: parse_value_SucErrE)
        case (nest c r0)
        with 1 show False by (auto simp: scan_steps)
      next
        case (elems r0 d' e r1)
        with 1 have "scan M (k + 1) (e # r1)" "int M \<le> k + 1 + int d'"
          using ws [of "k + 1" r0] by (simp_all add: scan_steps)
        with elems Suc.IH(2) show False by blast
      next
        case (members r0 d' e r1)
        with 1 have "scan M (k + 1) (e # r1)" "int M \<le> k + 1 + int d'"
          using ws [of "k + 1" r0] by (simp_all add: scan_steps)
        with members Suc.IH(3) show False by blast
      qed (use assms in \<open>auto simp: hooks_sane_def dest: parse_atom_errors [OF assms]\<close>)
    qed
    moreover have "scan M k r" if "parse_value h (Suc n) d s = Inr (v, r)" for v r
      using that
    proof (cases rule: parse_value_SucE)
      case (str r0 t)
      with 1 show ?thesis using parse_str_scan [of r0 t r M k] by (simp add: scan_steps)
    next
      case (arr0 r0 d')
      with 1 show ?thesis using ws [of "k + 1" r0] by (simp add: scan_steps)
    next
      case (arr r0 d' e r1 vs)
      with 1 have "scan M (k + 1) (e # r1)" "int M \<le> k + 1 + int d'"
        using ws [of "k + 1" r0] by (simp_all add: scan_steps)
      with arr Suc.IH(2) [of "k + 1" "e # r1" d'] show ?thesis by simp
    next
      case (obj0 r0 d')
      with 1 show ?thesis using ws [of "k + 1" r0] by (simp add: scan_steps)
    next
      case (obj r0 d' e r1 ms)
      with 1 have "scan M (k + 1) (e # r1)" "int M \<le> k + 1 + int d'"
        using ws [of "k + 1" r0] by (simp_all add: scan_steps)
      with obj Suc.IH(3) [of "k + 1" "e # r1" d'] show ?thesis by simp
    next
      case (atom c r0)
      with 1 show ?thesis using parse_atom_scan [of h s v r M k] by simp
    qed
    ultimately show ?case by blast }
  { case 2
    have "parse_elems h (Suc n) d s \<noteq> Inl RecursionError"
    proof
      assume "parse_elems h (Suc n) d s = Inl RecursionError"
      then show False
      proof (cases rule: parse_elems_SucErrE)
        case first
        with 2 Suc.IH(1) show False by blast
      next
        case (more v r0 r1)
        with 2 Suc.IH(1) [of k s d] have "scan M k (skip_ws r1)"
          using ws [of k r0] by (simp add: scan_steps scan_skip_ws)
        with more 2 Suc.IH(2) show False by blast
      qed simp
    qed
    moreover have "scan M (k - 1) r" if "parse_elems h (Suc n) d s = Inr (vs, r)" for vs r
      using that
    proof (cases rule: parse_elems_SucE)
      case (last v r0)
      with 2 Suc.IH(1) [of k s d] show ?thesis using ws [of k r0] by (simp add: scan_steps)
    next
      case (more v r0 r1 vs')
      with 2 Suc.IH(1) [of k s d] have "scan M k (skip_ws r1)"
        using ws [of k r0] by (simp add: scan_steps scan_skip_ws)
      with more 2 Suc.IH(2) [of k "skip_ws r1" d] show ?thesis by simp
    qed
    ultimately show ?case by blast }
  { case 3
    have key: "scan M k (skip_ws r2)"
      if "s = CHR 0x22 # r0" "parse_str r0 = Inr (kk, r1)" "skip_ws r1 = CHR '':'' # r2" for r0 kk r1 r2
      using that 3(1) parse_str_scan [OF that(2), of M k] ws [of k r1] by (simp add: scan_steps scan_skip_ws)
    have "parse_members h (Suc n) d s \<noteq> Inl RecursionError"
    proof
      assume "parse_members h (Suc n) d s = Inl RecursionError"
      then show False
      proof (cases rule: parse_members_SucErrE)
        case (first r0 kk r1 r2)
        with key [OF first(1-3)] 3 Suc.IH(1) show False by blast
      next
        case (more r0 kk r1 r2 v r3 r4)
        with key [OF more(1-3)] 3 Suc.IH(1) [of k "skip_ws r2" d] have "scan M k (skip_ws r4)"
          using ws [of k r3] by (simp add: scan_steps scan_skip_ws)
        with more 3 Suc.IH(3) show False by blast
      qed simp
    qed
    moreover have "scan M (k - 1) r" if "parse_members h (Suc n) d s = Inr (ms, r)" for ms r
      using that
    proof (cases rule: parse_members_SucE)
      case (last r0 kk r1 r2 v r3)
      with key [OF last(1-3)] 3 Suc.IH(1) [of k "skip_ws r2" d] show ?thesis
        using ws [of k r3] by (simp add: scan_steps)
    next
      case (more r0 kk r1 r2 v r3 r4 ms')
      with key [OF more(1-3)] 3 Suc.IH(1) [of k "skip_ws r2" d] have "scan M k (skip_ws r4)"
        using ws [of k r3] by (simp add: scan_steps scan_skip_ws)
      with more 3 Suc.IH(3) [of k "skip_ws r4" d] show ?thesis by simp
    qed
    ultimately show ?case by blast }
qed simp_all

text \<open>More nesting than needed changes nothing.\<close>

lemma parse_limit_mono:
  "parse_value h n d s \<noteq> Inl RecursionError \<Longrightarrow> d \<le> d' \<Longrightarrow> parse_value h n d' s = parse_value h n d s"
  "parse_elems h n d s \<noteq> Inl RecursionError \<Longrightarrow> d \<le> d' \<Longrightarrow> parse_elems h n d' s = parse_elems h n d s"
  "parse_members h n d s \<noteq> Inl RecursionError \<Longrightarrow> d \<le> d' \<Longrightarrow> parse_members h n d' s = parse_members h n d s"
proof (induction n arbitrary: d d' s)
  case (Suc n)
  { case 1
    show ?case
    proof (cases s)
      case (Cons c r)
      show ?thesis
      proof (cases "c = CHR ''['' \<or> c = CHR ''{''")
        case True
        with 1 Cons obtain d0 d0' where d: "d = Suc d0" "d' = Suc d0'" "d0 \<le> d0'"
          by (cases d; cases d') auto
        show ?thesis
        proof (cases "skip_ws r")
          case ws: (Cons e r1)
          have "parse_elems h n d0 (e # r1) \<noteq> Inl RecursionError" if "c = CHR ''[''" "e \<noteq> CHR '']''"
            using 1(1) Cons ws d that by auto
          moreover have "parse_members h n d0 (e # r1) \<noteq> Inl RecursionError" if "c = CHR ''{''" "e \<noteq> CHR ''}''"
            using 1(1) Cons ws d that by auto
          ultimately show ?thesis
            using True Cons ws d Suc.IH(2) [of d0 "e # r1" d0'] Suc.IH(3) [of d0 "e # r1" d0'] by auto
        qed (use True Cons d in \<open>auto simp del: dropWhile_eq_Nil_conv\<close>)
      qed (use Cons in auto)
    qed simp }
  { case 2
    have first: "parse_value h n d' s = parse_value h n d s"
      using 2 by (intro Suc.IH(1)) auto
    show ?case
    proof (cases "parse_value h n d s")
      case (Inr p)
      obtain v r where p: "p = (v, r)" by (cases p)
      show ?thesis
      proof (cases "skip_ws r")
        case ws: (Cons c r1)
        then have "parse_elems h n d (skip_ws r1) \<noteq> Inl RecursionError" if "c = CHR '',''"
          using 2(1) Inr p that by auto
        then show ?thesis using first Inr p ws 2(2) Suc.IH(2) [of d "skip_ws r1" d'] by auto
      qed (use first Inr p in \<open>simp del: dropWhile_eq_Nil_conv\<close>)
    qed (use first in simp) }
  { case 3
    show ?case
    proof (cases "\<exists>r0 k r1 r2. s = CHR 0x22 # r0 \<and> parse_str r0 = Inr (k, r1) \<and> skip_ws r1 = CHR '':'' # r2")
      case True
      then obtain r0 k r1 r2 where s: "s = CHR 0x22 # r0" "parse_str r0 = Inr (k, r1)" "skip_ws r1 = CHR '':'' # r2" by blast
      have first: "parse_value h n d' (skip_ws r2) = parse_value h n d (skip_ws r2)"
        using 3 s by (intro Suc.IH(1)) auto
      show ?thesis
      proof (cases "parse_value h n d (skip_ws r2)")
        case (Inr p)
        obtain v r where p: "p = (v, r)" by (cases p)
        show ?thesis
        proof (cases "skip_ws r")
          case ws: (Cons c r3)
          then have "parse_members h n d (skip_ws r3) \<noteq> Inl RecursionError" if "c = CHR '',''"
            using 3(1) Inr p s that by auto
          then show ?thesis using first Inr p ws s 3(2) Suc.IH(3) [of d "skip_ws r3" d'] by auto
        qed (use first Inr p s in \<open>simp del: dropWhile_eq_Nil_conv\<close>)
      qed (use first s in simp)
    next
      case False
      show ?thesis
      proof (cases "\<exists>r0. s = CHR 0x22 # r0")
        case True
        then obtain r0 where s: "s = CHR 0x22 # r0" ..
        show ?thesis
        proof (cases "parse_str r0")
          case (Inr p)
          obtain k r1 where p: "p = (k, r1)" by (cases p)
          with False s Inr show ?thesis by (cases "skip_ws r1") (auto simp del: dropWhile_eq_Nil_conv)
        qed (use s in simp)
      next
        case False
        then show ?thesis by (cases s) auto
      qed
    qed }
qed simp_all

interpretation bounded: decoded "limits_hooks e" "\<lambda>d v. junique v \<and> jfinite v \<and> jdepth v \<le> d" for e
proof unfold_locales
  show "parse_atom (limits_hooks e) s = Inr (v, r) \<Longrightarrow> junique v \<and> jfinite v \<and> jdepth v \<le> d" for s v r d
    by (drule parse_atom_shape) (auto simp: limits_hooks_def limits_float_def split: if_splits)
  show "list_all (\<lambda>v. junique v \<and> jfinite v \<and> jdepth v \<le> d) vs \<Longrightarrow>
      junique (JArr vs) \<and> jfinite (JArr vs) \<and> jdepth (JArr vs) \<le> Suc d" for d vs
    by (auto simp: list_all_iff foldr_max_le_iff)
  show "list_all (\<lambda>(k, v). junique v \<and> jfinite v \<and> jdepth v \<le> d) ms \<Longrightarrow> pairs_hook (limits_hooks e) ms = Inr v
      \<Longrightarrow> junique v \<and> jfinite v \<and> jdepth v \<le> Suc d" for d ms v
    by (auto simp: limits_hooks_def unique_object_Inr list_all_iff foldr_max_le_iff)
qed simp

lemma unique_object_errors: "unique_object ps = Inl x \<Longrightarrow> x = ValueError"
proof -
  have "unique_from d ps = Inl x \<Longrightarrow> x = ValueError" for d
    by (induction d ps rule: unique_from.induct) (auto split: if_splits)
  then show "unique_object ps = Inl x \<Longrightarrow> ?thesis" by (auto simp: unique_object_def res_bind_Inl_iff)
qed

lemma limits_hooks_sane: "hooks_sane (limits_hooks e)"
  by (auto simp: hooks_sane_def limits_hooks_def limits_float_def dest: unique_object_errors)

lemma scanned_loads:
  assumes "check_depth s M"
  shows "M \<le> limit \<Longrightarrow> loads (limits_hooks e) limit s \<noteq> Inl RecursionError"
    and "loads (limits_hooks e) limit s = Inr v \<Longrightarrow> jdepth v \<le> M"
proof -
  let ?h = "limits_hooks e"
  have scan: "scan M 0 (skip_ws s)" using assms by (simp add: check_depth_def scan_skip_ws)
  note at = parse_follows_scan(1) [OF limits_hooks_sane scan, of _ e "parse_fuel s"]
  show "M \<le> limit \<Longrightarrow> loads ?h limit s \<noteq> Inl RecursionError"
    using at [of limit] by (auto simp: loads_def res_bind_Inl_iff split: if_splits)
  assume ld: "loads ?h limit s = Inr v"
  show "jdepth v \<le> M"
  proof (cases "M \<le> limit")
    case True
    have "parse_value ?h (parse_fuel s) limit (skip_ws s) = parse_value ?h (parse_fuel s) M (skip_ws s)"
      using True at [of M] by (intro parse_limit_mono) auto
    then have "loads ?h limit s = loads ?h M s" unfolding loads_def by (simp only:)
    with ld bounded.loads_decoded [of e M s v] show ?thesis by simp
  next
    case False
    with bounded.loads_decoded [OF ld] show ?thesis by simp
  qed
qed

section \<open>Properties\<close>

lemma configured_limit_bounds:
  "configured_limit environ name dflt ceil = Inr n \<Longrightarrow> 1 \<le> n \<and> n \<le> ceil"
  by (auto simp: configured_limit_def res_simps Let_def split: if_splits)

text \<open>Limits have hard bounds.  Whatever the environment contains, limits that are accepted at
  start-up lie between 1 and the hard ceilings: 4 MiB compressed, 16 MiB expanded, nesting
  64 and 1000 events.\<close>

theorem configured_limits_bounded:
  assumes "configured_limits environ = Inr l"
  shows "1 \<le> lim_compressed l \<and> lim_compressed l \<le> 4194304 \<and> 1 \<le> lim_expanded l \<and> lim_expanded l \<le> 16777216
    \<and> 1 \<le> lim_depth l \<and> lim_depth l \<le> 64 \<and> 1 \<le> lim_events l \<and> lim_events l \<le> 1000"
  using assms by (auto simp: configured_limits_def res_simps dest!: configured_limit_bounds)

theorem configured_limits_bounded_witness:
  "configured_limits (\<lambda>k. if k = ''AZD_SANTA_MAX_DEPTH'' then Some ''64'' else Some ''7'')
     = Inr \<lparr>lim_compressed = 7, lim_expanded = 7, lim_depth = 64, lim_events = 7\<rparr> \<and> (64::nat) \<le> 64"
proof -
  have eval: "py_int ''7'' = Inr 7" "py_int ''64'' = Inr 64" "isascii ''7''" "isascii ''64''" "isdecimal ''7''" "isdecimal ''64''"
    by code_simp+
  have "configured_limits (\<lambda>k. if k = ''AZD_SANTA_MAX_DEPTH'' then Some ''64'' else Some ''7'')
     = Inr \<lparr>lim_compressed = 7, lim_expanded = 7, lim_depth = 64, lim_events = 7\<rparr>"
    using eval by (simp add: configured_limits_def configured_limit_def)
  from configured_limits_bounded [OF this] this show ?thesis by simp
qed

text \<open>C9: the scan protects the decoder.  When the scan accepts a text and the configured depth is
  within what the interpreter can recurse, decoding never exhausts the recursion limit,
  and a decoded value nests no deeper than the configured depth.\<close>

theorem scan_protects_decoder:
  assumes "check_depth s M" and "M \<le> limit"
  shows "loads (limits_hooks e) limit s \<noteq> Inl RecursionError
    \<and> (\<forall>v. loads (limits_hooks e) limit s = Inr v \<longrightarrow> jdepth v \<le> M)"
  using scanned_loads [OF assms(1)] assms(2) by blast

theorem scan_protects_decoder_witness:
  "check_depth ''[[]]'' 2 \<and> loads (limits_hooks fx_env) 2 ''[[]]'' \<noteq> Inl RecursionError"
proof -
  have "check_depth ''[[]]'' 2" by code_simp
  from scan_protects_decoder [OF this order_refl, of fx_env] this show ?thesis by blast
qed

fun events_of :: "json option \<Rightarrow> nat" where
  "events_of (Some (JArr events)) = length events"
| "events_of _ = 0"

lemma count_events_Inr:
  "count_events data names n = Inr c \<Longrightarrow>
     c = n + sum_list (map (\<lambda>name. events_of (dget data name)) names)
     \<and> (\<forall>name v. name \<in> set names \<longrightarrow> dget data name = Some v \<longrightarrow> (\<exists>es. v = JArr es \<and> list_all is_obj es))"
  by (induction data names n rule: count_events.induct)
     (auto split: option.splits json.splits if_splits)

lemma parse_body_Inr:
  assumes "parse_body e l raw = Inr v"
  shows "valid_utf8 False raw" "junique v" "jfinite v" "jdepth v \<le> lim_depth l"
proof -
  from assms obtain tx where "utf8_decode False raw = Inr tx" "check_depth tx (lim_depth l)"
      "loads (limits_hooks e) (nest_limit e) tx = Inr v"
    by (auto simp: parse_body_def split: sum.splits if_splits)
  then show "valid_utf8 False raw" "junique v" "jfinite v" "jdepth v \<le> lim_depth l"
    using bounded.loads_decoded [of e "nest_limit e" tx v] scanned_loads(2) [of tx "lim_depth l" e "nest_limit e" v]
    by (auto simp: utf8_decode_def split: if_splits)
qed

lemma check_events_Inr:
  assumes "check_events l v = Inr data"
  obtains count where "v = JObj data" "count_events data EVENT_COLLECTIONS 0 = Inr count" "count \<le> lim_events l"
  using assms by (cases v) (auto simp: check_events_def res_simps split: if_splits)

lemma decode_bytes_Inr:
  assumes "decode_bytes z e l raw enc = Inr data"
  obtains raw' count where "length raw \<le> lim_compressed l" "length raw' \<le> lim_expanded l"
    "parse_body e l raw' = Inr (JObj data)" "count_events data EVENT_COLLECTIONS 0 = Inr count" "count \<le> lim_events l"
  using assms
  by (auto simp: decode_bytes_def res_simps not_less split: if_splits elim!: check_events_Inr)


definition fx_limits :: limits where
  "fx_limits = \<lparr>lim_compressed = 1024, lim_expanded = 4096, lim_depth = 3, lim_events = 2\<rparr>"


text \<open>Rejections.\<close>

definition hooks_value_errors :: "hooks \<Rightarrow> bool" where
  "hooks_value_errors h \<longleftrightarrow>
     (\<forall>ps x. pairs_hook h ps = Inl x \<longrightarrow> x = ValueError) \<and> (\<forall>w x. const_hook h w = Inl x \<longrightarrow> x = ValueError)
     \<and> (\<forall>w x. float_hook h w = Inl x \<longrightarrow> x = ValueError)"

lemma parse_atom_value_error: "hooks_value_errors h \<Longrightarrow> parse_atom h s = Inl x \<Longrightarrow> x = ValueError"
  by (auto simp: parse_atom_def parse_number_def hooks_value_errors_def res_bind_Inl_iff Let_def
      split: option.splits list.splits if_splits prod.splits)

lemma parse_error_kinds:
  assumes "hooks_value_errors h"
  shows "parse_value h n d s = Inl x \<Longrightarrow> x \<in> {ValueError, RecursionError, Diverge}"
    and "parse_elems h n d s = Inl x \<Longrightarrow> x \<in> {ValueError, RecursionError, Diverge}"
    and "parse_members h n d s = Inl x \<Longrightarrow> x \<in> {ValueError, RecursionError, Diverge}"
proof (induction n arbitrary: d s)
  case (Suc n)
  { case 1
    then show ?case
      by (cases rule: parse_value_SucErrE)
         (use assms Suc.IH parse_atom_value_error [OF assms] in \<open>auto simp: hooks_value_errors_def\<close>) }
  { case 2
    then show ?case by (cases rule: parse_elems_SucErrE) (use Suc.IH in auto) }
  { case 3
    then show ?case by (cases rule: parse_members_SucErrE) (use Suc.IH in auto) }
qed simp_all

lemma limits_hooks_value_errors: "hooks_value_errors (limits_hooks e)"
  by (auto simp: hooks_value_errors_def limits_hooks_def limits_float_def split: if_splits dest: unique_object_errors)

lemma loads_error_kinds:
  assumes "loads (limits_hooks e) limit s = Inl x"
  shows "x \<in> {ValueError, RecursionError}"
proof -
  have "x \<noteq> Diverge" using assms loads_not_Diverge [OF limits_hooks_sane] by blast
  moreover from assms have "x \<in> {ValueError, RecursionError, Diverge}"
    unfolding loads_def res_bind_Inl_iff
    by (auto split: if_splits simp: res_bind_Inl_iff dest: parse_error_kinds(1) [OF limits_hooks_value_errors])
  ultimately show ?thesis by blast
qed

definition rejected_in :: "nat set \<Rightarrow> reject \<Rightarrow> bool" where
  "rejected_in S r \<longleftrightarrow> (\<exists>status detail. r = Rejected status detail \<and> status \<in> S)"

lemma rejected_in_simps [simp]: "rejected_in S (Rejected status detail) \<longleftrightarrow> status \<in> S" "\<not> rejected_in S (Raised x)"
  by (auto simp: rejected_in_def)

lemma expand_rejects:
  "(\<forall>w raw n x. z w raw n = Inl x \<longrightarrow> x = ZlibError) \<Longrightarrow> expand z l raw enc = Inl r \<Longrightarrow> rejected_in {400, 413, 415} r"
  by (auto simp: expand_def split: if_splits sum.splits)

lemma parse_body_rejects: "parse_body e l raw = Inl r \<Longrightarrow> rejected_in {400, 413, 415} r"
  using loads_error_kinds [of e "nest_limit e"]
  by (fastforce simp: parse_body_def split: sum.splits if_splits)

lemma count_events_rejects:
  "count_events data names n = Inl r \<Longrightarrow> r = Rejected 400 ''Invalid event collection''"
  by (induction data names n rule: count_events.induct) (auto split: option.splits json.splits if_splits)

lemma check_events_rejects: "check_events l v = Inl r \<Longrightarrow> rejected_in {400, 413, 415} r"
  by (cases v) (auto simp: check_events_def res_bind_Inl_iff rejected_in_def split: if_splits dest!: count_events_rejects)

text \<open>C11: rejection is total and typed.  If decompression fails only with \<open>zlib.error\<close>, every body
  is either accepted or rejected with status 400, 413 or 415; no other exception
  leaves \<open>decode_bytes\<close>.\<close>

theorem decode_bytes_total:
  assumes "\<forall>w raw n x. z w raw n = Inl x \<longrightarrow> x = ZlibError"
  shows "(\<exists>data. decode_bytes z e l raw enc = Inr data)
    \<or> (\<exists>status detail. decode_bytes z e l raw enc = Inl (Rejected status detail) \<and> status \<in> {400, 413, 415})"
proof (cases "decode_bytes z e l raw enc")
  case (Inl r)
  have "rejected_in {400, 413, 415} r"
    using Inl expand_rejects [OF assms]
    by (auto simp: decode_bytes_def res_bind_Inl_iff encoding_name_def split: if_splits json.splits
        dest!: check_events_rejects parse_body_rejects)
  with Inl show ?thesis by (auto simp: rejected_in_def)
qed simp

theorem decode_bytes_total_witness:
  "\<exists>status detail. decode_bytes fx_zlib fx_env fx_limits ''[]'' (JStr ''gzip'') = Inl (Rejected status detail) \<and> status \<in> {400, 413, 415}"
proof -
  have "\<forall>w raw n x. fx_zlib w raw n = Inl x \<longrightarrow> x = ZlibError" by (simp add: fx_zlib_def)
  moreover have "decode_bytes fx_zlib fx_env fx_limits ''[]'' (JStr ''gzip'') = Inl (Rejected 400 ''Invalid compressed request'')"
    by code_simp
  ultimately show ?thesis using decode_bytes_total [of fx_zlib fx_env fx_limits "''[]''" "JStr ''gzip''"] by simp
qed

section \<open>Well-formed requests are accepted\<close>

lemma hex_char_calm: "n < 16 \<Longrightarrow> hex_char n \<noteq> CHR 0x22 \<and> hex_char n \<noteq> CHR 0x5C"
  using hex_digit_calm [OF hex_digit_val_hex_char] .

lemma escape_scan: "n < 128 \<Longrightarrow> scan_str M k (escape_point True n @ r) = scan_str M k r"
proof -
  assume n: "n < 128"
  have u: "scan_str M k (u_escape n @ r) = scan_str M k r"
    using hex_char_calm by (simp add: u_escape_def hex4_def scan_steps scan_str_calm)
  have c: "scan_str M k (char_of n # r) = scan_str M k r" if "n \<noteq> 34" "n \<noteq> 92"
    using n that by (intro scan_str_calm) (auto dest!: arg_cong [where f = ord])
  show ?thesis using u c n
    by (auto simp: escape_point_def simple_escape_def scan_steps utf8_encode_ascii)
qed

lemma quote_scan: "isascii s \<Longrightarrow> scan M k (quote True s @ r) = scan M k r"
proof -
  assume s: "isascii s"
  have "scan_str M k (concat (map (escape_point True) (map ord s)) @ r') = scan_str M k r'" for r'
    using s by (induction s) (auto simp: isascii_def is_ascii_def escape_scan)
  with s show ?thesis by (simp add: quote_def isascii_def code_points_ascii scan_steps)
qed

lemma join_scan:
  assumes "\<And>w r. w \<in> set ws \<Longrightarrow> scan M k (w @ r) = scan M k r"
  shows "scan M k (join_on (CHR '','') ws @ r) = scan M k r"
  using assms by (induction "CHR '',''" ws rule: join_on.induct) (auto simp: scan_steps)

lemma print_scan:
  "jplain v \<Longrightarrow> k + int (jdepth v) \<le> int M \<Longrightarrow> scan M k (print_json e True v @ r) = scan M k r"
proof (induction v arbitrary: k r)
  case (JInt i)
  have "list_all inert (show_nat n)" for n
    using show_nat_digits [of n] digit_inert by (auto simp: list_all_iff)
  then have "list_all inert (show_int i)" by (simp add: show_int_def)
  then show ?case by (simp add: scan_inert)
next
  case (JArr vs)
  have depth: "k + 1 + int (jdepth v) \<le> int M" if "v \<in> set vs" for v
    using jdepth_elem [OF that] JArr.prems(2) by simp
  have "scan M (k + 1) (w @ r) = scan M (k + 1) r" if w: "w \<in> set (map (print_json e True) vs)" for w r
  proof -
    from w obtain v where v: "v \<in> set vs" "w = print_json e True v" by auto
    with JArr.prems have "jplain v" by (simp add: list_all_iff)
    then show ?thesis using v JArr.IH [OF v(1)] depth by simp
  qed
  then have "scan M (k + 1) (join_on (CHR '','') (map (print_json e True) vs) @ CHR '']'' # r) = scan M (k + 1) (CHR '']'' # r)"
    by (rule join_scan)
  moreover have "k + 1 \<le> int M" using JArr.prems(2) by simp
  ultimately show ?case by (simp add: scan_steps)
next
  case (JObj ms)
  let ?m = "\<lambda>(kk, v). quote True kk @ CHR '':'' # print_json e True v"
  have depth: "k + 1 + int (jdepth v) \<le> int M" if "(kk, v) \<in> set ms" for kk v
    using jdepth_member [OF that] JObj.prems(2) by simp
  have "scan M (k + 1) (w @ r) = scan M (k + 1) r" if w: "w \<in> set (map ?m ms)" for w r
  proof -
    from w obtain kk v where v: "(kk, v) \<in> set ms" "w = quote True kk @ CHR '':'' # print_json e True v" by auto
    with JObj.prems have "jplain v" "isascii kk" by (auto simp: list_all_iff)
    then show ?thesis using v JObj.IH [OF v(1)] depth by (simp add: quote_scan scan_steps)
  qed
  then have "scan M (k + 1) (join_on (CHR '','') (map ?m ms) @ CHR ''}'' # r) = scan M (k + 1) (CHR ''}'' # r)"
    by (rule join_scan)
  moreover have "k + 1 \<le> int M" using JObj.prems(2) by simp
  ultimately show ?case by (simp add: scan_steps)
qed (auto simp: quote_scan scan_inert [of "''null''", simplified] scan_inert [of "''true''", simplified]
       scan_inert [of "''false''", simplified] inert_def)

lemma limits_dict_hooks: "dict_hooks (limits_hooks e)"
  by (simp add: dict_hooks_def limits_hooks_def unique_object_Inr)

text \<open>well-formed requests are accepted.  A body of ASCII strings, integers, booleans, nulls,
  lists and objects in canonical form, within the size, nesting and event limits, whose
  event collections are lists of objects, is accepted and decodes to itself with its keys
  sorted.\<close>

theorem canonical_body_accepted:
  assumes "canonical e (JObj body) = Inr raw" and "jplain (JObj body)"
    and "length raw \<le> lim_compressed l" and "length raw \<le> lim_expanded l"
    and "jdepth (JObj body) \<le> lim_depth l" and "jsort (JObj body) = JObj data"
    and "count_events data EVENT_COLLECTIONS 0 = Inr count" and "count \<le> lim_events l"
  shows "decode_bytes z e l raw JNull = Inr data"
proof -
  have raw: "raw = print_json e True (JObj data)" and depth: "jdepth (JObj body) \<le> nest_limit e"
    using assms(1,6) by (simp_all add: canonical_def split: if_splits)
  have plain: "jplain (JObj data)" using jplain_jsort [OF assms(2)] assms(6) by simp
  have d: "jdepth (JObj data) \<le> jdepth (JObj body)" using jdepth_jsort [of "JObj body"] assms(6) by simp
  have "utf8_decode False raw = Inr raw"
    unfolding raw by (intro utf8_decode_ascii plain_ascii print_plain plain)
  moreover have "check_depth raw (lim_depth l)"
    using print_scan [OF plain, of 0 "lim_depth l" e "[]"] d assms(5) by (simp add: raw check_depth_def)
  moreover have "loads (limits_hooks e) (nest_limit e) raw = Inr (JObj data)"
    unfolding raw using d depth by (intro loads_print limits_dict_hooks plain) simp
  ultimately have "parse_body e l raw = Inr (JObj data)" by (simp add: parse_body_def)
  then show ?thesis
    using assms by (simp add: decode_bytes_def encoding_name_def expand_def check_events_def)
qed

theorem canonical_body_accepted_witness:
  "decode_bytes fx_zlib fx_env fx_limits ''{\"events\":[{}]}'' JNull = Inr [(''events'', JArr [JObj []])]"
proof (rule canonical_body_accepted [where body = "[(''events'', JArr [JObj []])]" and count = 1])
  show "canonical fx_env (JObj [(''events'', JArr [JObj []])]) = Inr ''{\"events\":[{}]}''" by code_simp
  show "jplain (JObj [(''events'', JArr [JObj []])])" by code_simp
qed (simp_all add: fx_limits_def EVENT_COLLECTIONS_def)

end
