(* ===== verification/Redis_Store.thy ===== *)
theory Redis_Store
  imports Py_Numerals
begin

text \<open>
  The Redis commands that the Lua scripts of \<open>santa_admission.py\<close> and \<open>operator_mfa.py\<close>
  call.  Redis is not part of the repository: its commands are a record of functions over an
  unspecified store state, an argument of every script, and the locale \<open>redis_laws\<close>
  states their documented effect through a view of the keyspace (string or hash values
  with an optional time to live).  \<open>mem_redis\<close> is an in-memory store that satisfies the
  laws; the scripts are evaluated on it.
\<close>

section \<open>Commands\<close>

record 's redis =
  rd_type :: "string \<Rightarrow> 's \<Rightarrow> string"
  rd_ttl :: "string \<Rightarrow> 's \<Rightarrow> int"
  rd_exists :: "string \<Rightarrow> 's \<Rightarrow> bool"
  rd_get :: "string \<Rightarrow> 's \<Rightarrow> string option res"
  rd_set :: "string \<Rightarrow> string \<Rightarrow> nat option \<Rightarrow> 's \<Rightarrow> 's"  \<comment> \<open>\<open>SET key value [EX seconds]\<close>\<close>
  rd_incr :: "string \<Rightarrow> 's \<Rightarrow> int res \<times> 's"
  rd_hget :: "string \<Rightarrow> string \<Rightarrow> 's \<Rightarrow> string option res"
  rd_hkeys :: "string \<Rightarrow> 's \<Rightarrow> string list res"
  rd_hlen :: "string \<Rightarrow> 's \<Rightarrow> nat res"
  rd_hset :: "string \<Rightarrow> string \<Rightarrow> string \<Rightarrow> 's \<Rightarrow> unit res \<times> 's"
  rd_hdel :: "string \<Rightarrow> string \<Rightarrow> 's \<Rightarrow> unit res \<times> 's"
  rd_time :: "'s \<Rightarrow> nat"
  rd_config :: "'s \<Rightarrow> (string \<rightharpoonup> string)"
  rd_persistence :: "'s \<Rightarrow> (string \<rightharpoonup> string)"

section \<open>Laws\<close>

datatype rval = RStr string | RHash "string \<rightharpoonup> string"

type_synonym keyspace = "string \<rightharpoonup> rval \<times> nat option"

text \<open>Commands on a key of the wrong type fail and change nothing.\<close>

fun hash_of :: "(rval \<times> nat option) option \<Rightarrow> (string \<rightharpoonup> string) res" where
  "hash_of None = Inr Map.empty"
| "hash_of (Some (RHash h, _)) = Inr h"
| "hash_of (Some (RStr _, _)) = Inl ResponseError"

fun ttl_of :: "(rval \<times> nat option) option \<Rightarrow> nat option" where
  "ttl_of None = None"
| "ttl_of (Some (_, t)) = t"

fun string_of :: "(rval \<times> nat option) option \<Rightarrow> string option res" where
  "string_of None = Inr None"
| "string_of (Some (RStr v, _)) = Inr (Some v)"
| "string_of (Some (RHash _, _)) = Inl ResponseError"

locale redis_laws =
  fixes R :: "'s redis" and vw :: "'s \<Rightarrow> keyspace"
  assumes type_law: "rd_type R k s = (case vw s k of None \<Rightarrow> ''none'' | Some (RStr _, _) \<Rightarrow> ''string'' | Some (RHash _, _) \<Rightarrow> ''hash'')"
    and ttl_law: "rd_ttl R k s = (case vw s k of None \<Rightarrow> -2 | Some (_, None) \<Rightarrow> -1 | Some (_, Some n) \<Rightarrow> int n)"
    and exists_law: "rd_exists R k s \<longleftrightarrow> vw s k \<noteq> None"
    and get_law: "rd_get R k s = string_of (vw s k)"
    and set_law: "vw (rd_set R k v ex s) = (vw s)(k \<mapsto> (RStr v, ex))"
    and incr_law: "vw s k = Some (RStr (show_nat n), t) \<Longrightarrow> length (show_nat n) \<le> 18 \<Longrightarrow>
        fst (rd_incr R k s) = Inr (int n + 1)
        \<and> vw (snd (rd_incr R k s)) = (vw s)(k \<mapsto> (RStr (show_nat (n + 1)), t))"
    and incr_err: "vw s k = Some (RStr v, t) \<Longrightarrow> isdecimal v \<Longrightarrow> show_nat (read_digits v) \<noteq> v \<Longrightarrow>
        rd_incr R k s = (Inl ResponseError, s)"
    and hash_finite: "vw s k = Some (RHash h, t) \<Longrightarrow> finite (dom h)"
    and hget_law: "rd_hget R k f s = res_bind (hash_of (vw s k)) (\<lambda>h. Inr (h f))"
    and hkeys_law: "hash_of (vw s k) = Inr h \<Longrightarrow> \<exists>fs. rd_hkeys R k s = Inr fs \<and> set fs = dom h"
    and hkeys_err: "hash_of (vw s k) = Inl x \<Longrightarrow> rd_hkeys R k s = Inl x"
    and hlen_law: "rd_hlen R k s = res_bind (hash_of (vw s k)) (\<lambda>h. Inr (card (dom h)))"
    and hset_law: "hash_of (vw s k) = Inr h \<Longrightarrow> fst (rd_hset R k f v s) = Inr ()
        \<and> vw (snd (rd_hset R k f v s)) = (vw s)(k \<mapsto> (RHash (h(f \<mapsto> v)), ttl_of (vw s k)))"
    and hset_err: "hash_of (vw s k) = Inl x \<Longrightarrow> rd_hset R k f v s = (Inl x, s)"
    and hdel_law: "vw s k = Some (RHash h, t) \<Longrightarrow> fst (rd_hdel R k f s) = Inr ()
        \<and> vw (snd (rd_hdel R k f s)) = (vw s)(k := (if h(f := None) = Map.empty then None else Some (RHash (h(f := None)), t)))"

section \<open>An in-memory store\<close>

datatype cell = CStr string | CHash "(string \<times> string) list"

record mem =
  cells :: "string \<rightharpoonup> cell \<times> nat option"
  mem_time :: nat
  mem_config :: "string \<rightharpoonup> string"
  mem_persistence :: "string \<rightharpoonup> string"

fun cell_view :: "cell \<times> nat option \<Rightarrow> rval \<times> nat option" where
  "cell_view (CStr v, t) = (RStr v, t)"
| "cell_view (CHash d, t) = (RHash (map_of d), t)"

definition mem_view :: "mem \<Rightarrow> keyspace" where
  "mem_view s k = map_option cell_view (cells s k)"

definition ddel :: "string \<Rightarrow> (string \<times> string) list \<Rightarrow> (string \<times> string) list" where
  "ddel f d = filter (\<lambda>p. fst p \<noteq> f) d"

definition mem_hash :: "string \<Rightarrow> mem \<Rightarrow> (string \<times> string) list res" where
  "mem_hash k s = (case cells s k of None \<Rightarrow> Inr [] | Some (CHash d, _) \<Rightarrow> Inr d | Some (CStr _, _) \<Rightarrow> Inl ResponseError)"

definition mem_ttl :: "string \<Rightarrow> mem \<Rightarrow> nat option" where
  "mem_ttl k s = (case cells s k of None \<Rightarrow> None | Some (_, t) \<Rightarrow> t)"

definition mem_redis :: "mem redis" where
  "mem_redis = \<lparr>
     rd_type = (\<lambda>k s. case cells s k of None \<Rightarrow> ''none'' | Some (CStr _, _) \<Rightarrow> ''string'' | Some (CHash _, _) \<Rightarrow> ''hash''),
     rd_ttl = (\<lambda>k s. case cells s k of None \<Rightarrow> -2 | Some (_, None) \<Rightarrow> -1 | Some (_, Some n) \<Rightarrow> int n),
     rd_exists = (\<lambda>k s. cells s k \<noteq> None),
     rd_get = (\<lambda>k s. case cells s k of None \<Rightarrow> Inr None | Some (CStr v, _) \<Rightarrow> Inr (Some v) | Some (CHash _, _) \<Rightarrow> Inl ResponseError),
     rd_set = (\<lambda>k v ex s. s\<lparr>cells := (cells s)(k \<mapsto> (CStr v, ex))\<rparr>),
     rd_incr = (\<lambda>k s. case cells s k of
          None \<Rightarrow> (Inr 1, s\<lparr>cells := (cells s)(k \<mapsto> (CStr ''1'', None))\<rparr>)
        | Some (CStr v, t) \<Rightarrow>
            if isdecimal v \<and> length v \<le> 18 \<and> show_nat (read_digits v) = v
            then (Inr (int (read_digits v) + 1), s\<lparr>cells := (cells s)(k \<mapsto> (CStr (show_nat (read_digits v + 1)), t))\<rparr>)
            else (Inl ResponseError, s)
        | Some (CHash _, _) \<Rightarrow> (Inl ResponseError, s)),
     rd_hget = (\<lambda>k f s. res_bind (mem_hash k s) (\<lambda>d. Inr (map_of d f))),
     rd_hkeys = (\<lambda>k s. res_bind (mem_hash k s) (\<lambda>d. Inr (remdups (map fst d)))),
     rd_hlen = (\<lambda>k s. res_bind (mem_hash k s) (\<lambda>d. Inr (length (remdups (map fst d))))),
     rd_hset = (\<lambda>k f v s. case mem_hash k s of
          Inl x \<Rightarrow> (Inl x, s)
        | Inr d \<Rightarrow> (Inr (), s\<lparr>cells := (cells s)(k \<mapsto> (CHash (dset f v d), mem_ttl k s))\<rparr>)),
     rd_hdel = (\<lambda>k f s. case mem_hash k s of
          Inl x \<Rightarrow> (Inl x, s)
        | Inr d \<Rightarrow> (Inr (), s\<lparr>cells := (cells s)(k := (if ddel f d = [] then None else Some (CHash (ddel f d), mem_ttl k s)))\<rparr>)),
     rd_time = mem_time, rd_config = mem_config, rd_persistence = mem_persistence\<rparr>"

lemma map_of_ddel: "map_of (ddel f d) = (map_of d)(f := None)"
  by (induction d) (auto simp: ddel_def fun_eq_iff)

lemma map_of_dset: "map_of (dset f v d) = (map_of d)(f \<mapsto> v)"
  by (auto simp: fun_eq_iff)

lemma hash_of_mem: "hash_of (mem_view s k) = res_bind (mem_hash k s) (\<lambda>d. Inr (map_of d))"
  by (auto simp: mem_view_def mem_hash_def split: option.splits cell.splits)

lemma card_dom_map_of: "card (dom (map_of d)) = length (remdups (map fst d))"
  by (metis dom_map_of_conv_image_fst length_remdups_card_conv set_map)

lemma ttl_of_mem: "ttl_of (mem_view s k) = mem_ttl k s"
  by (cases "cells s k"; cases "fst (the (cells s k))") (auto simp: mem_view_def mem_ttl_def)

lemma mem_view_upd [simp]: "mem_view (s\<lparr>cells := (cells s)(k := c)\<rparr>) = (mem_view s)(k := map_option cell_view c)"
  by (auto simp: mem_view_def fun_eq_iff)

interpretation mem: redis_laws mem_redis mem_view
proof unfold_locales
  fix s :: mem and k f v :: string and h t x
  show "rd_type mem_redis k s = (case mem_view s k of None \<Rightarrow> ''none'' | Some (RStr _, _) \<Rightarrow> ''string'' | Some (RHash _, _) \<Rightarrow> ''hash'')"
    by (auto simp: mem_redis_def mem_view_def split: option.splits cell.splits)
  show "rd_ttl mem_redis k s = (case mem_view s k of None \<Rightarrow> -2 | Some (_, None) \<Rightarrow> -1 | Some (_, Some n) \<Rightarrow> int n)"
    by (cases "cells s k"; cases "snd (the (cells s k))"; cases "fst (the (cells s k))")
       (auto simp: mem_redis_def mem_view_def)
  show "rd_exists mem_redis k s \<longleftrightarrow> mem_view s k \<noteq> None" by (simp add: mem_redis_def mem_view_def)
  show "rd_get mem_redis k s = string_of (mem_view s k)"
    by (auto simp: mem_redis_def mem_view_def split: option.splits cell.splits)
  show "mem_view (rd_set mem_redis k v ex s) = (mem_view s)(k \<mapsto> (RStr v, ex))" for ex
    by (simp add: mem_redis_def)
  show "mem_view s k = Some (RStr (show_nat n), t) \<Longrightarrow> length (show_nat n) \<le> 18 \<Longrightarrow>
        fst (rd_incr mem_redis k s) = Inr (int n + 1)
        \<and> mem_view (snd (rd_incr mem_redis k s)) = (mem_view s)(k \<mapsto> (RStr (show_nat (n + 1)), t))" for n
    using show_nat_digits [of n]
    by (cases "cells s k"; cases "fst (the (cells s k))") (auto simp: mem_redis_def mem_view_def [of s k] isdecimal_def)
  show "mem_view s k = Some (RStr v, t) \<Longrightarrow> isdecimal v \<Longrightarrow> show_nat (read_digits v) \<noteq> v \<Longrightarrow>
        rd_incr mem_redis k s = (Inl ResponseError, s)"
    by (cases "cells s k"; cases "fst (the (cells s k))") (auto simp: mem_redis_def mem_view_def)
  show "mem_view s k = Some (RHash h, t) \<Longrightarrow> finite (dom h)"
    by (cases "cells s k"; cases "fst (the (cells s k))") (auto simp: mem_view_def finite_dom_map_of)
  show "rd_hget mem_redis k f s = res_bind (hash_of (mem_view s k)) (\<lambda>h. Inr (h f))"
    by (cases "mem_hash k s") (simp_all add: mem_redis_def hash_of_mem)
  show "hash_of (mem_view s k) = Inr h \<Longrightarrow> \<exists>fs. rd_hkeys mem_redis k s = Inr fs \<and> set fs = dom h"
    by (cases "mem_hash k s") (simp_all add: mem_redis_def hash_of_mem, metis dom_map_of_conv_image_fst)
  show "hash_of (mem_view s k) = Inl x \<Longrightarrow> rd_hkeys mem_redis k s = Inl x"
    by (cases "mem_hash k s") (auto simp: mem_redis_def hash_of_mem)
  show "rd_hlen mem_redis k s = res_bind (hash_of (mem_view s k)) (\<lambda>h. Inr (card (dom h)))"
    by (cases "mem_hash k s") (auto simp: mem_redis_def hash_of_mem card_dom_map_of)
  show "hash_of (mem_view s k) = Inr h \<Longrightarrow> fst (rd_hset mem_redis k f v s) = Inr ()
        \<and> mem_view (snd (rd_hset mem_redis k f v s)) = (mem_view s)(k \<mapsto> (RHash (h(f \<mapsto> v)), ttl_of (mem_view s k)))"
    by (cases "mem_hash k s") (auto simp: mem_redis_def hash_of_mem map_of_dset ttl_of_mem)
  show "hash_of (mem_view s k) = Inl x \<Longrightarrow> rd_hset mem_redis k f v s = (Inl x, s)"
    by (cases "mem_hash k s") (auto simp: mem_redis_def hash_of_mem)
  assume h: "mem_view s k = Some (RHash h, t)"
  then obtain d where d: "cells s k = Some (CHash d, t)" "h = map_of d"
    by (cases "cells s k"; cases "fst (the (cells s k))") (auto simp: mem_view_def)
  have "(ddel f d = []) = (h(f := None) = Map.empty)" using d(2) map_of_ddel [of f d] by (metis map_of_eq_empty_iff)
  then show "fst (rd_hdel mem_redis k f s) = Inr ()
        \<and> mem_view (snd (rd_hdel mem_redis k f s))
          = (mem_view s)(k := (if h(f := None) = Map.empty then None else Some (RHash (h(f := None)), t)))"
    using d by (simp add: mem_redis_def mem_hash_def mem_ttl_def map_of_ddel)
qed

end
