(* ===== verification/Security_Store.thy ===== *)
theory Security_Store
  imports Redis_Store
begin

text \<open>
  The shared security store of \<open>operator_mfa.py\<close>: the persistence check before every use, the
  marker guard that every script runs first, one-time claims, attempt budgets and the
  explicit initialisation.  A script is a stateful step over the Redis state.  The network
  may lose a call before it reaches the server or the answer on its way back (\<open>net\<close>).
  \<open>mk\<close> is the cache's \<open>make_key\<close>, \<open>sid\<close> the configured identity of the store.
\<close>

definition STORE_MARKER :: string where
  "STORE_MARKER = ''security-store-instance-v1''"

definition CHALLENGE_SECONDS :: nat where
  "CHALLENGE_SECONDS = 300"

definition STORE_SETTINGS :: "(string \<times> string) list" where
  "STORE_SETTINGS = [(''appendonly'', ''yes''), (''appendfsync'', ''always''), (''aof-load-truncated'', ''no''),
     (''maxmemory-policy'', ''noeviction''), (''no-appendfsync-on-rewrite'', ''no'')]"

datatype net = Delivered | Down exn | Lost exn

section \<open>Guarded scripts\<close>

definition store_guard :: "'s redis \<Rightarrow> string \<Rightarrow> string \<Rightarrow> 's \<Rightarrow> unit res" where
  "store_guard R marker expected s =
     (case rd_get R marker s of
        Inl x \<Rightarrow> Inl x
      | Inr None \<Rightarrow> Inl ResponseError
      | Inr (Some m) \<Rightarrow>
          (case split_first (CHR '':'') m of
             None \<Rightarrow> Inl ResponseError
           | Some (sid, ready) \<Rightarrow>
               if sid \<noteq> [] \<and> list_all is_lower_hex sid \<and> isdecimal ready
                  \<and> sid = expected \<and> read_digits ready \<le> rd_time R s
               then Inr () else Inl ResponseError))"

definition security_client :: "'s redis \<Rightarrow> 's \<Rightarrow> unit res" where
  "security_client R s =
     (if list_ex (\<lambda>(k, v). rd_config R s k \<noteq> Some v) STORE_SETTINGS
         \<or> rd_persistence R s ''aof_last_write_status'' \<noteq> Some ''ok''
      then Inl ImproperlyConfigured else Inr ())"

text \<open>One \<open>client.eval\<close> behind \<open>_security_client\<close>.\<close>

definition client_eval :: "'s redis \<Rightarrow> net \<Rightarrow> ('s, 'a) sx \<Rightarrow> ('s, 'a) sx" where
  "client_eval R n script s =
     (case n of
        Down x \<Rightarrow> (Inl x, s)
      | Delivered \<Rightarrow> (case security_client R s of Inl x \<Rightarrow> (Inl x, s) | Inr _ \<Rightarrow> script s)
      | Lost x \<Rightarrow> (case security_client R s of Inl y \<Rightarrow> (Inl y, s) | Inr _ \<Rightarrow> (Inl x, snd (script s))))"

definition guarded :: "'s redis \<Rightarrow> (string \<Rightarrow> string) \<Rightarrow> string \<Rightarrow> ('s, 'a) sx \<Rightarrow> ('s, 'a) sx" where
  "guarded R mk sid script s =
     (case store_guard R (mk STORE_MARKER) sid s of Inl x \<Rightarrow> (Inl x, s) | Inr _ \<Rightarrow> script s)"

definition store_operation :: "'s redis \<Rightarrow> (string \<Rightarrow> string) \<Rightarrow> string \<Rightarrow> net \<Rightarrow> ('s, 'a) sx \<Rightarrow> ('s, 'a) sx" where
  "store_operation R mk sid n script = client_eval R n (guarded R mk sid script)"

definition check_security_store :: "'s redis \<Rightarrow> (string \<Rightarrow> string) \<Rightarrow> string \<Rightarrow> net \<Rightarrow> ('s, nat) sx" where
  "check_security_store R mk sid n = store_operation R mk sid n (sx_return 1)"

section \<open>Claims and budgets\<close>

definition claim_script :: "'s redis \<Rightarrow> string \<Rightarrow> nat \<Rightarrow> ('s, nat) sx" where
  "claim_script R key seconds s =
     (if rd_exists R key s then (Inr 0, s) else (Inr 1, rd_set R key ''1'' (Some seconds) s))"

definition cache_add :: "'s redis \<Rightarrow> (string \<Rightarrow> string) \<Rightarrow> string \<Rightarrow> net \<Rightarrow> string \<Rightarrow> bool \<Rightarrow> nat \<Rightarrow> ('s, bool) sx" where
  "cache_add R mk sid n key val seconds =
     (if \<not> val then sx_raise ValueError
      else sx_bind (store_operation R mk sid n (claim_script R (mk key) seconds)) (\<lambda>r. sx_return (r \<noteq> 0)))"

definition budget_script :: "'s redis \<Rightarrow> string \<Rightarrow> nat \<Rightarrow> nat \<Rightarrow> ('s, int) sx" where
  "budget_script R key seconds maximum s =
     (case rd_get R key s of
        Inl x \<Rightarrow> (Inl x, s)
      | Inr None \<Rightarrow> (Inr 1, rd_set R key ''1'' (Some seconds) s)
      | Inr (Some count) \<Rightarrow>
          if \<not> isdecimal count \<or> read_digits count < 1 then (Inl ResponseError, s)
          else if read_digits count \<ge> maximum then (Inr (int maximum + 1), s)
          else rd_incr R key s)"

definition budget :: "'s redis \<Rightarrow> (string \<Rightarrow> string) \<Rightarrow> string \<Rightarrow> net \<Rightarrow> string \<Rightarrow> nat \<Rightarrow> nat \<Rightarrow> ('s, bool) sx" where
  "budget R mk sid n key maximum seconds =
     sx_bind (store_operation R mk sid n (budget_script R (mk key) seconds maximum))
       (\<lambda>count. sx_return (count \<le> int maximum))"

section \<open>Initialisation\<close>

text \<open>
  \<open>initialize_fresh\<close> of \<open>santa_admission.py\<close> sets the marker and the admission state in one
  script; the migration sets the marker with a delay.  \<open>TIME\<close> is in seconds, far below
  the \<open>10\<^sup>1\<^sup>4\<close> up to which Lua prints integers in full.
\<close>

definition marker_value :: "'s redis \<Rightarrow> string \<Rightarrow> nat \<Rightarrow> 's \<Rightarrow> string" where
  "marker_value R sid delay s = sid @ '':'' @ show_nat (rd_time R s + delay)"

definition fresh_script :: "'s redis \<Rightarrow> string \<Rightarrow> string \<Rightarrow> string \<Rightarrow> nat \<Rightarrow> string \<Rightarrow> string \<Rightarrow> ('s, nat) sx" where
  "fresh_script R marker state sid delay fingerprint generation s =
     (if rd_exists R marker s \<or> rd_exists R state s then (Inr 0, s)
      else sx_bind (rd_hset R state ''config'' fingerprint) (\<lambda>_.
           sx_bind (rd_hset R state ''generation'' generation) (\<lambda>_. sx_return 1))
             (rd_set R marker (marker_value R sid delay s) None s))"

definition migrate_script :: "'s redis \<Rightarrow> string \<Rightarrow> string \<Rightarrow> nat \<Rightarrow> ('s, nat) sx" where
  "migrate_script R marker sid delay s =
     (if rd_exists R marker s then (Inr 0, s)
      else (Inr 1, rd_set R marker (marker_value R sid delay s) None s))"

definition initialize_security_store ::
  "'s redis \<Rightarrow> (string \<Rightarrow> string) \<Rightarrow> string \<Rightarrow> net \<Rightarrow> bool \<Rightarrow> string \<Rightarrow> string \<Rightarrow> string \<Rightarrow> string \<Rightarrow> bool \<Rightarrow> ('s, unit) sx" where
  \<comment> \<open>\<open>vacant\<close>: no account and no enrollment secret exists; \<open>state\<close>, \<open>fingerprint\<close>: of the admission service\<close>
  "initialize_security_store R mk sid n vacant state fingerprint generation mode confirm_quiesced =
     (if mode = ''fresh'' \<and> \<not> vacant then sx_raise ImproperlyConfigured
      else if mode \<noteq> ''fresh'' \<and> (mode \<noteq> ''migrate'' \<or> \<not> confirm_quiesced) then sx_raise ImproperlyConfigured
      else
        sx_bind (client_eval R n
                   (if mode = ''fresh''
                    then fresh_script R (mk STORE_MARKER) (mk state) sid 0 fingerprint generation
                    else migrate_script R (mk STORE_MARKER) sid (CHALLENGE_SECONDS + 60)))
          (\<lambda>r. sx_guard (r = 1) ImproperlyConfigured))"

definition security_store_command ::
  "'s redis \<Rightarrow> (string \<Rightarrow> string) \<Rightarrow> string \<Rightarrow> net \<Rightarrow> bool \<Rightarrow> string \<Rightarrow> string \<Rightarrow> string \<Rightarrow> string \<Rightarrow> bool \<Rightarrow> ('s, unit) sx" where
  \<comment> \<open>\<open>Command.handle\<close>: every failure becomes a \<open>CommandError\<close>\<close>
  "security_store_command R mk sid n vacant state fingerprint generation mode confirm_quiesced =
     sx_catch
       (if mode = ''check'' then sx_bind (check_security_store R mk sid n) (\<lambda>_. sx_return ())
        else initialize_security_store R mk sid n vacant state fingerprint generation mode confirm_quiesced)
       (\<lambda>_. Some (sx_raise RuntimeError))"

end
