(* ===== verification/Ip_Address.thy ===== *)
theory Ip_Address
  imports Py_Numerals "HOL-Library.Word"
begin

text \<open>
  The part of Python's \<open>ipaddress\<close> module that \<open>santa_admission.py\<close> uses: parsing and printing
  of addresses (with the scope suffix of IPv6, without a special text form for IPv4-mapped
  addresses), parsing of networks with strict host bits, and membership.
\<close>

unbundle bit_operations_syntax

datatype ip = V4 "32 word" | V6 "128 word" "string option"

section \<open>Parsing addresses\<close>

definition parse_octet :: "string \<Rightarrow> nat option" where
  "parse_octet s =
     (if isdecimal s \<and> length s \<le> 3 \<and> (s = ''0'' \<or> hd s \<noteq> CHR ''0'') \<and> read_digits s \<le> 255
      then Some (read_digits s) else None)"

definition parse_v4 :: "string \<Rightarrow> 32 word option" where
  "parse_v4 s =
     (case map parse_octet (split_on (CHR ''.'') s) of
        [Some a, Some b, Some c, Some d] \<Rightarrow> Some (of_nat (((a * 256 + b) * 256 + c) * 256 + d))
      | _ \<Rightarrow> None)"

definition hex_val :: "string \<Rightarrow> nat" where
  "hex_val s = foldl (\<lambda>n c. 16 * n + (case hex_digit_val c of Some v \<Rightarrow> v | None \<Rightarrow> 0)) 0 s"

definition parse_hextet :: "string \<Rightarrow> nat option" where
  "parse_hextet s =
     (if s \<noteq> [] \<and> length s \<le> 4 \<and> list_all (\<lambda>c. hex_digit_val c \<noteq> None) s then Some (hex_val s) else None)"

fun show_hex :: "nat \<Rightarrow> string" where
  "show_hex n = (if n < 16 then [hex_char n] else show_hex (n div 16) @ [hex_char (n mod 16)])"

declare show_hex.simps [simp del]

text \<open>A dotted quad in the last part stands for its two hextets.\<close>

definition v6_parts :: "string \<Rightarrow> string list option" where
  "v6_parts s =
     (let parts = split_on (CHR '':'') s in
      if s = [] \<or> length parts < 3 then None
      else if CHR ''.'' \<in> set (last parts) then
        (case parse_v4 (last parts) of
           None \<Rightarrow> None
         | Some w \<Rightarrow> Some (butlast parts @ [show_hex (unat w div 65536), show_hex (unat w mod 65536)]))
      else Some parts)"

definition skip_indices :: "string list \<Rightarrow> nat list" where
  "skip_indices parts = filter (\<lambda>i. parts ! i = []) [1..<length parts - 1]"

text \<open>How many leading and trailing parts are hextets, and how many zero groups are left out.\<close>

definition v6_layout :: "string list \<Rightarrow> (nat \<times> nat \<times> nat) option" where
  "v6_layout parts =
     (if length parts > 9 then None
      else case skip_indices parts of
        [] \<Rightarrow> if length parts = 8 \<and> hd parts \<noteq> [] \<and> last parts \<noteq> [] then Some (8, 0, 0) else None
      | [i] \<Rightarrow>
          (let hi = (if hd parts = [] then i - 1 else i);
               lo0 = length parts - i - 1;
               lo = (if last parts = [] then lo0 - 1 else lo0)
           in if (hd parts = [] \<and> hi \<noteq> 0) \<or> (last parts = [] \<and> lo \<noteq> 0) \<or> 8 < hi + lo + 1 then None
              else Some (hi, lo, 8 - (hi + lo)))
      | _ \<Rightarrow> None)"

fun those :: "'a option list \<Rightarrow> 'a list option" where
  "those [] = Some []"
| "those (x # xs) = (case x of None \<Rightarrow> None | Some v \<Rightarrow> map_option ((#) v) (those xs))"

definition v6_int :: "nat list \<Rightarrow> nat" where
  "v6_int hs = foldl (\<lambda>n h. n * 65536 + h) 0 hs"

definition parse_v6_int :: "string \<Rightarrow> nat option" where
  "parse_v6_int s =
     (case v6_parts s of None \<Rightarrow> None
      | Some parts \<Rightarrow>
         (case v6_layout parts of None \<Rightarrow> None
          | Some (hi, lo, skipped) \<Rightarrow>
             (case (those (map parse_hextet (take hi parts)),
                    those (map parse_hextet (drop (length parts - lo) parts))) of
                (Some hs, Some ls) \<Rightarrow> Some (v6_int (hs @ replicate skipped 0 @ ls))
              | _ \<Rightarrow> None)))"

definition parse_v6 :: "string \<Rightarrow> (128 word \<times> string option) option" where
  "parse_v6 s =
     (let (addr, scope) = (case split_first (CHR ''%'') s of None \<Rightarrow> (s, None) | Some (a, z) \<Rightarrow> (a, Some z)) in
      if CHR ''/'' \<in> set s \<or> (case scope of None \<Rightarrow> False | Some z \<Rightarrow> z = [] \<or> CHR ''%'' \<in> set z) then None
      else map_option (\<lambda>n. (of_nat n, scope)) (parse_v6_int addr))"

definition ip_address :: "string \<Rightarrow> ip res" where
  "ip_address s =
     (case parse_v4 s of
        Some w \<Rightarrow> Inr (V4 w)
      | None \<Rightarrow> (case parse_v6 s of Some (w, z) \<Rightarrow> Inr (V6 w z) | None \<Rightarrow> Inl ValueError))"

section \<open>Printing\<close>

definition show_v4 :: "32 word \<Rightarrow> string" where
  "show_v4 w =
     (let n = unat w in
      join_on (CHR ''.'') [show_nat (n div 16777216), show_nat (n div 65536 mod 256), show_nat (n div 256 mod 256), show_nat (n mod 256)])"

definition hextets :: "128 word \<Rightarrow> nat list" where
  "hextets w = map (\<lambda>i. unat w div 65536 ^ (7 - i) mod 65536) [0..<8]"

text \<open>The first longest run of zero groups: \<open>scan_zeros\<close> keeps its start and length.\<close>

fun scan_zeros :: "nat \<Rightarrow> nat \<Rightarrow> nat \<times> nat \<Rightarrow> nat list \<Rightarrow> nat \<times> nat" where
  \<comment> \<open>position, length of the current run, best so far\<close>
  "scan_zeros i run best [] = best"
| "scan_zeros i run best (h # hs) =
     (if h = 0
      then scan_zeros (i + 1) (run + 1) (if run + 1 > snd best then (i - run, run + 1) else best) hs
      else scan_zeros (i + 1) 0 best hs)"

definition compress :: "nat list \<Rightarrow> string list" where
  "compress hs =
     (let (start, len) = scan_zeros 0 0 (0, 0) hs; ws = map show_hex hs in
      if len > 1 then
        (if start = 0 then [[]] else []) @ take start ws @ [[]] @ drop (start + len) ws
        @ (if start + len = length hs then [[]] else [])
      else ws)"

definition show_v6 :: "128 word \<Rightarrow> string option \<Rightarrow> string" where
  "show_v6 w scope =
     join_on (CHR '':'') (compress (hextets w)) @ (case scope of None \<Rightarrow> [] | Some z \<Rightarrow> CHR ''%'' # z)"

fun show_ip :: "ip \<Rightarrow> string" where
  "show_ip (V4 w) = show_v4 w"
| "show_ip (V6 w z) = show_v6 w z"

section \<open>Networks\<close>

datatype ipnet = Net4 "32 word" nat | Net6 "128 word" "string option" nat

definition netmask4 :: "nat \<Rightarrow> 32 word" where
  "netmask4 p = push_bit (32 - p) (mask p)"

definition netmask6 :: "nat \<Rightarrow> 128 word" where
  "netmask6 p = push_bit (128 - p) (mask p)"

definition parse_prefix :: "nat \<Rightarrow> string \<Rightarrow> nat option" where
  "parse_prefix mx s = (if isdecimal s \<and> length s \<le> max_int_digits \<and> read_digits s \<le> mx then Some (read_digits s) else None)"

definition prefix_of_mask :: "32 word \<Rightarrow> nat option" where
  \<comment> \<open>a netmask, or else a host mask\<close>
  "prefix_of_mask w =
     (case find (\<lambda>p. netmask4 p = w) [0..<33] of
        Some p \<Rightarrow> Some p
      | None \<Rightarrow> find (\<lambda>p. netmask4 p = NOT w) [0..<33])"

definition parse_prefix4 :: "string \<Rightarrow> nat option" where
  "parse_prefix4 s = (case parse_prefix 32 s of Some p \<Rightarrow> Some p
     | None \<Rightarrow> (case parse_v4 s of None \<Rightarrow> None | Some w \<Rightarrow> prefix_of_mask w))"

definition split_net :: "nat \<Rightarrow> string \<Rightarrow> (string \<times> string) option" where
  "split_net mx s = (case split_on (CHR ''/'') s of
       [a] \<Rightarrow> Some (a, show_nat mx) | [a, p] \<Rightarrow> Some (a, p) | _ \<Rightarrow> None)"

definition network4 :: "string \<Rightarrow> (32 word \<times> nat) option" where
  "network4 s = (case split_net 32 s of None \<Rightarrow> None
     | Some (a, p) \<Rightarrow> (case (parse_v4 a, parse_prefix4 p) of (Some w, Some n) \<Rightarrow> Some (w, n) | _ \<Rightarrow> None))"

definition network6 :: "string \<Rightarrow> (128 word \<times> string option \<times> nat) option" where
  "network6 s = (case split_net 128 s of None \<Rightarrow> None
     | Some (a, p) \<Rightarrow> (case (parse_v6 a, parse_prefix 128 p) of (Some (w, z), Some n) \<Rightarrow> Some (w, z, n) | _ \<Rightarrow> None))"

text \<open>Host bits are an error when \<open>strict\<close>; otherwise they are cleared, and a scope is lost with them.\<close>

definition ip_network :: "bool \<Rightarrow> string \<Rightarrow> ipnet res" where
  "ip_network strict s =
     (case network4 s of
        Some (w, p) \<Rightarrow>
          if w AND netmask4 p = w then Inr (Net4 w p)
          else if strict then Inl ValueError else Inr (Net4 (w AND netmask4 p) p)
      | None \<Rightarrow>
          (case network6 s of
             Some (w, z, p) \<Rightarrow>
               if w AND netmask6 p = w then Inr (Net6 w z p)
               else if strict then Inl ValueError else Inr (Net6 (w AND netmask6 p) None p)
           | None \<Rightarrow> Inl ValueError))"

fun prefixlen :: "ipnet \<Rightarrow> nat" where
  "prefixlen (Net4 _ p) = p"
| "prefixlen (Net6 _ _ p) = p"

fun show_net :: "ipnet \<Rightarrow> string" where
  "show_net (Net4 w p) = show_v4 w @ CHR ''/'' # show_nat p"
| "show_net (Net6 w z p) = show_v6 w z @ CHR ''/'' # show_nat p"

fun in_network :: "ip \<Rightarrow> ipnet \<Rightarrow> bool" where
  "in_network (V4 a) (Net4 w p) = (a AND netmask4 p = w)"
| "in_network (V6 a _) (Net6 w _ p) = (a AND netmask6 p = w)"
| "in_network _ _ = False"

end
