(* ===== verification/Admission.thy ===== *)
theory Admission
  imports Security_Store Ip_Address Digests Py_Objects
begin

text \<open>
  The shared sync admission of \<open>experiments/server/santa_admission.py\<close>: its configuration, the
  Lua scripts that validate, acquire, release and reconcile, the client identity, and the
  middleware around the application.  The wrapped application, the random tokens and the
  server's secret key are arguments.
\<close>

section \<open>Configuration\<close>

record config =
  cf_window :: nat
  global_max :: nat
  source_max :: nat
  credential_max :: nat
  cf_capacity :: nat
  cf_mode :: string
  cf_peers :: "string list"

definition STATE :: string where
  "STATE = ''santa-admission-v1''"

definition PREFIXES :: "string list" where
  "PREFIXES = [''/public/santa/sync/'', ''/santa/sync/'']"

definition FORWARD :: "string list" where
  "FORWARD = [''HTTP_FORWARDED'', ''HTTP_X_FORWARDED_FOR'', ''HTTP_X_REAL_IP'', ''HTTP_X_SSL_CLIENT_S_DN'',
     ''HTTP_X_SSL_CLIENT_VERIFY'', ''HTTP_X_FORWARDED_PROTO'', ''HTTP_X_FORWARDED_CLIENT_CERT'',
     ''HTTP_X_SSL_CLIENT_CERT'', ''HTTP_X_CLIENT_CERT'']"

text \<open>\<open>json.dumps(self.__dict__, sort_keys=True)\<close>, with the default separators.\<close>

definition config_json :: "config \<Rightarrow> string" where
  "config_json c =
     ''{'' @ join_with '', ''
       (map (\<lambda>(k, v). quote True k @ '': '' @ v)
          [(''capacity'', show_nat (cf_capacity c)), (''credential_max'', show_nat (credential_max c)),
           (''global_max'', show_nat (global_max c)), (''mode'', quote True (cf_mode c)),
           (''peers'', ''['' @ join_with '', '' (map (quote True) (cf_peers c)) @ '']''),
           (''source_max'', show_nat (source_max c)), (''window'', show_nat (cf_window c))]) @ ''}''"

definition fingerprint :: "config \<Rightarrow> string" where
  "fingerprint c = sha256_hex (config_json c)"

definition configured_max :: "(string \<Rightarrow> string option) \<Rightarrow> string \<Rightarrow> nat \<Rightarrow> nat \<Rightarrow> nat res" where
  "configured_max environ key dflt ceil =
     (let raw = (case environ (''AZD_SANTA_ADMISSION_'' @ key) of None \<Rightarrow> show_nat dflt | Some r \<Rightarrow> r) in
      if \<not> fullmatch_range is_digit 1 4 raw \<or> \<not> (1 \<le> read_digits raw \<and> read_digits raw \<le> ceil)
      then Inl ValueError else Inr (read_digits raw))"

fun check_peers :: "string list \<Rightarrow> unit res" where
  "check_peers [] = Inr ()"
| "check_peers (peer # peers) =
     res_bind (ip_network True peer) (\<lambda>network.
       if prefixlen network = 0 then Inl ValueError else check_peers peers)"

definition configured :: "(string \<Rightarrow> string option) \<Rightarrow> config res" where
  "configured environ =
     res_bind (configured_max environ ''WINDOW'' 60 300) (\<lambda>w.
     res_bind (configured_max environ ''GLOBAL_MAX'' 120 1200) (\<lambda>g.
     res_bind (configured_max environ ''SOURCE_MAX'' 60 1200) (\<lambda>s.
     res_bind (configured_max environ ''CREDENTIAL_MAX'' 30 1200) (\<lambda>cr.
       (let md = (case environ ''AZD_SANTA_ADMISSION_MODE'' of None \<Rightarrow> ''direct'' | Some v \<Rightarrow> v);
            peers = (case environ ''AZD_SANTA_ADMISSION_PEERS'' of
                       None \<Rightarrow> [] | Some v \<Rightarrow> if v = [] then [] else split_on (CHR '','') v)
        in if md \<notin> {''direct'', ''proxy''} \<or> (md = ''direct'' \<and> peers \<noteq> []) \<or> (md = ''proxy'' \<and> peers = [])
           then Inl ValueError
           else if length peers > 8 then Inl ValueError
           else res_bind (check_peers peers) (\<lambda>_.
             Inr \<lparr>cf_window = w, global_max = g, source_max = s, credential_max = cr, cf_capacity = 1,
                  cf_mode = md, cf_peers = peers\<rparr>))))))"

section \<open>Scripts\<close>

text \<open>\<open>VALIDATE\<close>: the state hash has no expiry, this configuration, a generation and only valid slots.\<close>

definition slot_ok :: "nat \<Rightarrow> string \<Rightarrow> string option \<Rightarrow> bool" where
  "slot_ok capacity field token \<longleftrightarrow>
     fullmatch_n is_digit 1 field \<and> read_digits field < capacity
     \<and> (case token of None \<Rightarrow> False | Some t \<Rightarrow> fullmatch_n is_urlsafe 43 t)"

fun check_slots :: "'s redis \<Rightarrow> string \<Rightarrow> nat \<Rightarrow> string list \<Rightarrow> 's \<Rightarrow> unit res" where
  "check_slots R state capacity [] s = Inr ()"
| "check_slots R state capacity (field # fds) s =
     (if field = ''config'' \<or> field = ''generation'' then check_slots R state capacity fds s
      else res_bind (rd_hget R state field s) (\<lambda>token.
        if slot_ok capacity field token then check_slots R state capacity fds s else Inl ResponseError))"

definition validate :: "'s redis \<Rightarrow> string \<Rightarrow> config \<Rightarrow> 's \<Rightarrow> unit res" where
  "validate R state c s =
     (if rd_type R state s \<noteq> ''hash'' \<or> rd_ttl R state s \<noteq> -1 then Inl ResponseError
      else res_bind (rd_hget R state ''config'' s) (\<lambda>cfg.
        if cfg \<noteq> Some (fingerprint c) then Inl ResponseError
        else res_bind (rd_hget R state ''generation'' s) (\<lambda>gen.
          if \<not> (case gen of None \<Rightarrow> False | Some g \<Rightarrow> fullmatch_n is_lower_hex 32 g) then Inl ResponseError
          else res_bind (rd_hlen R state s) (\<lambda>len.
            if len > 2 + cf_capacity c then Inl ResponseError
            else res_bind (rd_hkeys R state s) (\<lambda>fds. check_slots R state (cf_capacity c) fds s)))))"

text \<open>A counter as the scripts accept it: its value, 0 when it is absent.\<close>

definition counter :: "'s redis \<Rightarrow> string \<Rightarrow> nat \<Rightarrow> nat \<Rightarrow> 's \<Rightarrow> nat res" where
  "counter R key limit window s =
     res_bind (rd_get R key s) (\<lambda>v.
       case v of
         None \<Rightarrow> Inr 0
       | Some n \<Rightarrow>
           if \<not> isdecimal n \<or> length n > 5 \<or> read_digits n < 1 \<or> show_nat (read_digits n) \<noteq> n
              \<or> read_digits n > limit \<or> rd_ttl R key s < 0 \<or> rd_ttl R key s > int window
           then Inl ResponseError else Inr (read_digits n))"

definition bump :: "'s redis \<Rightarrow> string \<Rightarrow> nat \<Rightarrow> nat \<Rightarrow> ('s, unit) sx" where
  "bump R key count window s =
     (if count = 0 then (Inr (), rd_set R key ''1'' (Some window) s)
      else (let (r, s1) = rd_incr R key s in (res_bind r (\<lambda>_. Inr ()), s1)))"

datatype permit_result = Denied int | Granted string

definition retry_after :: "'s redis \<Rightarrow> string \<Rightarrow> 's \<Rightarrow> permit_result" where
  "retry_after R key s = Denied (max 1 (rd_ttl R key s))"

definition free_slot :: "'s redis \<Rightarrow> string \<Rightarrow> nat \<Rightarrow> 's \<Rightarrow> string option res" where
  "free_slot R state capacity s =
     res_bind (res_map (\<lambda>i. rd_hget R state (show_nat i) s) [0..<capacity]) (\<lambda>tokens.
       Inr (map_option show_nat (find (\<lambda>i. tokens ! i = None) [0..<capacity])))"

text \<open>\<open>ACQUIRE\<close> on the keys of the state, the global counter, the source and the credential.\<close>

definition acquire :: "'s redis \<Rightarrow> string \<Rightarrow> string \<Rightarrow> string \<Rightarrow> string \<Rightarrow> config \<Rightarrow> string \<Rightarrow> ('s, permit_result) sx" where
  "acquire R state kg ks kc c token s =
     (case res_bind (validate R state c s) (\<lambda>_.
           res_bind (counter R kg (global_max c) (cf_window c) s) (\<lambda>g.
           res_bind (counter R ks (source_max c) (cf_window c) s) (\<lambda>sr.
           res_bind (counter R kc (credential_max c) (cf_window c) s) (\<lambda>cr. Inr (g, sr, cr))))) of
        Inl x \<Rightarrow> (Inl x, s)
      | Inr (g, sr, cr) \<Rightarrow>
          if g \<ge> global_max c then (Inr (retry_after R kg s), s)
          else
            sx_bind (bump R kg g (cf_window c)) (\<lambda>_ s1.
              if sr \<ge> source_max c then (Inr (retry_after R ks s1), s1)
              else if cr \<ge> credential_max c then (Inr (retry_after R kc s1), s1)
              else
                (case free_slot R state (cf_capacity c) s1 of
                   Inl x \<Rightarrow> (Inl x, s1)
                 | Inr None \<Rightarrow> (Inr (Denied 1), s1)
                 | Inr (Some slot) \<Rightarrow>
                     sx_bind (bump R ks sr (cf_window c)) (\<lambda>_.
                     sx_bind (bump R kc cr (cf_window c)) (\<lambda>_.
                     sx_bind (rd_hset R state slot token) (\<lambda>_. sx_return (Granted slot)))) s1)) s)"

definition release :: "'s redis \<Rightarrow> string \<Rightarrow> config \<Rightarrow> string \<Rightarrow> string \<Rightarrow> ('s, nat) sx" where
  "release R state c slot token s =
     (case res_bind (validate R state c s) (\<lambda>_. rd_hget R state slot s) of
        Inl x \<Rightarrow> (Inl x, s)
      | Inr held \<Rightarrow>
          if held \<noteq> Some token then (Inr 0, s)
          else sx_bind (rd_hdel R state slot) (\<lambda>_. sx_return 1) s)"

text \<open>\<open>GLOBAL_COUNTER\<close>, then \<open>CHECK\<close> and \<open>EMPTY\<close>.\<close>

definition global_counter :: "'s redis \<Rightarrow> string \<Rightarrow> config \<Rightarrow> 's \<Rightarrow> unit res" where
  "global_counter R kg c s =
     (if rd_type R kg s \<notin> {''none'', ''string''} then Inl ResponseError
      else res_bind (counter R kg (global_max c) (cf_window c) s) (\<lambda>_. Inr ()))"

definition check_script :: "'s redis \<Rightarrow> string \<Rightarrow> string \<Rightarrow> config \<Rightarrow> bool \<Rightarrow> ('s, nat) sx" where
  "check_script R state kg c require_empty s =
     (res_bind (validate R state c s) (\<lambda>_.
      res_bind (global_counter R kg c s) (\<lambda>_.
        if require_empty
        then res_bind (rd_hlen R state s) (\<lambda>len. if len \<noteq> 2 then Inl ResponseError else Inr 1)
        else Inr 1)), s)"

fun hdel_all :: "'s redis \<Rightarrow> string \<Rightarrow> string list \<Rightarrow> ('s, unit) sx" where
  "hdel_all R state [] = sx_return ()"
| "hdel_all R state (f # fs) = sx_bind (rd_hdel R state f) (\<lambda>_. hdel_all R state fs)"

definition reconcile_script :: "'s redis \<Rightarrow> string \<Rightarrow> config \<Rightarrow> string \<Rightarrow> ('s, nat) sx" where
  "reconcile_script R state c generation s =
     (case validate R state c s of
        Inl x \<Rightarrow> (Inl x, s)
      | Inr _ \<Rightarrow>
          sx_bind (hdel_all R state (map show_nat [0..<cf_capacity c])) (\<lambda>_.
          sx_bind (rd_hset R state ''generation'' generation) (\<lambda>_. sx_return 1)) s)"

definition missing_script :: "'s redis \<Rightarrow> string \<Rightarrow> config \<Rightarrow> string \<Rightarrow> ('s, nat) sx" where
  "missing_script R state c generation s =
     (if rd_exists R state s then (Inl ResponseError, s)
      else sx_bind (rd_hset R state ''config'' (fingerprint c)) (\<lambda>_.
           sx_bind (rd_hset R state ''generation'' generation) (\<lambda>_. sx_return 1)) s)"

definition reconcile :: "'s redis \<Rightarrow> (string \<Rightarrow> string) \<Rightarrow> string \<Rightarrow> net \<Rightarrow> config \<Rightarrow> string \<Rightarrow> bool \<Rightarrow> ('s, unit) sx" where
  "reconcile R mk sid n c generation initialize_missing =
     sx_bind (store_operation R mk sid n
                (if initialize_missing then missing_script R (mk STATE) c generation
                 else reconcile_script R (mk STATE) c generation))
       (\<lambda>r. sx_guard (r = 1) ValueError)"

definition check_admission :: "'s redis \<Rightarrow> (string \<Rightarrow> string) \<Rightarrow> string \<Rightarrow> net \<Rightarrow> config \<Rightarrow> bool \<Rightarrow> ('s, unit) sx" where
  "check_admission R mk sid n c require_empty =
     sx_bind (store_operation R mk sid n (check_script R (mk STATE) (mk ''sync-global'') c require_empty))
       (\<lambda>r. sx_guard (r = 1) ValueError)"

section \<open>Identity\<close>

record permit =
  slot :: string
  token :: string

record sync_request =
  path_info :: string
  sr_meta :: "string \<rightharpoonup> string"
  azd_santa_admission :: "permit option"

definition meta_get :: "(string \<rightharpoonup> string) \<Rightarrow> string \<Rightarrow> string" where
  "meta_get meta k = (case meta k of None \<Rightarrow> [] | Some v \<Rightarrow> v)"

fun trusted_peer :: "ip \<Rightarrow> string list \<Rightarrow> bool res" where
  "trusted_peer address [] = Inr False"
| "trusted_peer address (peer # peers) =
     res_bind (ip_network True peer) (\<lambda>network.
       if in_network address network then Inr True else trusted_peer address peers)"

definition client_address :: "config \<Rightarrow> (string \<rightharpoonup> string) \<Rightarrow> ip res" where
  "client_address c meta =
     res_bind (ip_address (meta_get meta ''REMOTE_ADDR'')) (\<lambda>address.
       if cf_mode c = ''proxy'' then
         res_bind (trusted_peer address (cf_peers c)) (\<lambda>trusted.
           if \<not> trusted then Inl ValueError
           else ip_address (meta_get meta ''HTTP_X_AZD_SANTA_CLIENT_IP''))
       else Inr address)"

definition source_of :: "ip \<Rightarrow> string res" where
  "source_of address =
     (case address of
        V6 _ _ \<Rightarrow> res_bind (ip_network False (show_ip address @ ''/64'')) (\<lambda>n. Inr (show_net n))
      | V4 _ \<Rightarrow> Inr (show_ip address))"

definition clean_meta :: "ip \<Rightarrow> (string \<rightharpoonup> string) \<Rightarrow> (string \<rightharpoonup> string)" where
  "clean_meta address meta =
     (\<lambda>k. if k \<in> set FORWARD \<or> k = ''HTTP_X_AZD_SANTA_CLIENT_IP'' then None else meta k)
       (''HTTP_X_REAL_IP'' \<mapsto> show_ip address)"

definition identity_mac :: "string \<Rightarrow> string \<Rightarrow> string \<Rightarrow> string res" where
  "identity_mac key domain val =
     (if valid_utf8 False key \<and> valid_utf8 False val
      then Inr (to_hex (hmac_sha256 key (domain @ CHR 0x00 # val))) else Inl UnicodeError)"

definition identity :: "config \<Rightarrow> (string \<rightharpoonup> string) \<Rightarrow> string \<Rightarrow> string
    \<Rightarrow> (string \<times> string \<times> (string \<rightharpoonup> string)) res" where
  "identity c meta credential key =
     res_bind (client_address c meta) (\<lambda>address.
     res_bind (source_of address) (\<lambda>source.
     res_bind (identity_mac key ''source'' source) (\<lambda>ms.
     res_bind (identity_mac key ''credential'' credential) (\<lambda>mc.
       Inr (''sync-source:'' @ ms, ''sync-credential:'' @ mc, clean_meta address meta)))))"

fun path_credential :: "string \<Rightarrow> string list \<Rightarrow> string" where
  "path_credential path [] = ''!missing''"
| "path_credential path (prefix # prefixes) =
     (if startswith path prefix
      then (case split_on (CHR ''/'') (drop (length prefix) path) of
              [a, b, d] \<Rightarrow> if py_len a \<le> 1024 then a else path_credential path prefixes
            | _ \<Rightarrow> path_credential path prefixes)
      else path_credential path prefixes)"

definition credential_from :: "sync_request \<Rightarrow> string" where
  "credential_from rq =
     (case sr_meta rq ''HTTP_ZENTRAL_AUTHORIZATION'' of
        Some header \<Rightarrow>
          if py_len header > 1024 then ''!invalid''
          else (case py_split_ws header of
                  [a, b] \<Rightarrow> if a = ''Bearer'' then b else ''!invalid''
                | _ \<Rightarrow> ''!invalid'')
      | None \<Rightarrow> path_credential (path_info rq) PREFIXES)"

definition require_admission :: "sync_request \<Rightarrow> unit res" where
  "require_admission rq = res_guard (azd_santa_admission rq \<noteq> None) PermissionDenied"

definition is_sync_path :: "string \<Rightarrow> bool" where
  "is_sync_path path = list_ex (startswith path) PREFIXES"

fun contains :: "string \<Rightarrow> string \<Rightarrow> bool" where
  "contains needle [] = (needle = [])"
| "contains needle (c # cs) = (startswith (c # cs) needle \<or> contains needle cs)"

definition secret_path_filter :: "string option \<Rightarrow> string \<Rightarrow> bool" where
  \<comment> \<open>the path of the record's request, if it has one, and the message\<close>
  "secret_path_filter request_path message =
     (if (case request_path of None \<Rightarrow> False | Some p \<Rightarrow> is_sync_path p) then False
      else \<not> list_ex (\<lambda>v. contains v (py_lower_ascii message)) (PREFIXES @ [''zentral-authorization'']))"

section \<open>The middleware\<close>

datatype 'f log_filter = SecretPathFilter | OtherFilter 'f

definition LOGGERS :: "string list" where
  "LOGGERS = [''django.request'', ''gunicorn.error'', ''gunicorn.access'']"

definition add_filter :: "string \<Rightarrow> (string \<Rightarrow> 'f log_filter list) \<Rightarrow> string \<Rightarrow> 'f log_filter list" where
  "add_filter name fs = (if SecretPathFilter \<in> set (fs name) then fs else fs(name := fs name @ [SecretPathFilter]))"

definition admission_init :: "(string \<Rightarrow> 'f log_filter list) \<Rightarrow> string \<Rightarrow> 'f log_filter list" where
  \<comment> \<open>the filters of every logger, after the middleware has been constructed\<close>
  "admission_init fs = fold add_filter LOGGERS fs"

definition logger_passes :: "('f \<Rightarrow> string option \<Rightarrow> string \<Rightarrow> bool) \<Rightarrow> 'f log_filter list \<Rightarrow> string option \<Rightarrow> string \<Rightarrow> bool" where
  \<comment> \<open>a record is handled when every filter of its logger lets it through\<close>
  "logger_passes run fl path message =
     list_all (\<lambda>f. case f of SecretPathFilter \<Rightarrow> secret_path_filter path message | OtherFilter g \<Rightarrow> run g path message) fl"

datatype 'r answer = App 'r | Rejection nat nat

definition rejected :: "config \<Rightarrow> nat \<Rightarrow> int \<Rightarrow> 'r answer" where
  "rejected c status retry = Rejection status (nat (max 1 (min (int (cf_window c)) retry)))"

definition acquire_permit :: "'s redis \<Rightarrow> (string \<Rightarrow> string) \<Rightarrow> string \<Rightarrow> config \<Rightarrow> string \<Rightarrow> string \<Rightarrow> net
    \<Rightarrow> sync_request \<Rightarrow> ('s, permit_result \<times> (string \<rightharpoonup> string)) sx" where
  "acquire_permit R mk sid c key tok n rq =
     sx_bind (sx_lift (identity c (sr_meta rq) (credential_from rq) key)) (\<lambda>(source, credential, meta).
     sx_bind (store_operation R mk sid n
                (acquire R (mk STATE) (mk ''sync-global'') (mk source) (mk credential) c tok)) (\<lambda>r.
       case r of
         Denied _ \<Rightarrow> sx_return (r, meta)
       | Granted sl \<Rightarrow> sx_bind (sx_guard (sl = ''0'') ValueError) (\<lambda>_. sx_return (r, meta))))"

definition admission_call :: "'s redis \<Rightarrow> (string \<Rightarrow> string) \<Rightarrow> string \<Rightarrow> config \<Rightarrow> string \<Rightarrow> string \<Rightarrow> net \<Rightarrow> net
    \<Rightarrow> ('r \<Rightarrow> bool) \<Rightarrow> (sync_request \<Rightarrow> ('s, 'r) sx) \<Rightarrow> sync_request \<Rightarrow> ('s, 'r answer) sx" where
  "admission_call R mk sid c key tok n1 n2 streaming get_response rq s =
     (if \<not> is_sync_path (path_info rq)
      then sx_bind (get_response rq) (\<lambda>r. sx_return (App r)) s
      else
        (case acquire_permit R mk sid c key tok n1 rq s of
           (Inl _, s1) \<Rightarrow> (Inr (rejected c 503 1), s1)
         | (Inr (Denied retry, _), s1) \<Rightarrow> (Inr (rejected c 429 retry), s1)
         | (Inr (Granted sl, meta), s1) \<Rightarrow>
             (let rq1 = rq\<lparr>sr_meta := meta, azd_santa_admission := Some \<lparr>slot = sl, token = tok\<rparr>\<rparr>;
                  unlock = store_operation R mk sid n2 (release R (mk STATE) c sl tok)
              in case get_response rq1 s1 of
                   (Inl x, s2) \<Rightarrow> (Inl x, snd (unlock s2))
                 | (Inr r, s2) \<Rightarrow>
                     if streaming r then (Inr (rejected c 503 1), s2)
                     else (case unlock s2 of
                             (Inr k, s3) \<Rightarrow> (Inr (if k \<noteq> 1 then rejected c 503 1 else App r), s3)
                           | (Inl _, s3) \<Rightarrow> (Inr (rejected c 503 1), s3)))))"

end
