(* ===== verification/Security_Facts.thy ===== *)
theory Security_Facts
  imports Security_Store
begin

text \<open>
  What the guarded scripts of the security store guarantee on every Redis that obeys
  \<open>redis_laws\<close>: a call that fails before its script changes nothing, a one-time claim is
  granted once, an attempt budget is never exceeded, and the initialisation never replaces
  an existing store.  \<open>metered\<close> is the contract that claims, budgets and the admission
  counters share: whatever is granted was paid for by a value that only grows up to a limit.
\<close>

section \<open>Metered operations\<close>

fun run_ops :: "('op \<Rightarrow> 's \<Rightarrow> bool \<times> 's) \<Rightarrow> 'op list \<Rightarrow> 's \<Rightarrow> nat \<times> 's" where
  \<comment> \<open>the operations in order: how many were granted, and the state they leave\<close>
  "run_ops f [] s = (0, s)"
| "run_ops f (x # xs) s =
     (let (g, s1) = f x s; (n, s2) = run_ops f xs s1 in ((if g then n + 1 else n), s2))"

locale metered =
  fixes ok :: "'op \<Rightarrow> bool" and f :: "'op \<Rightarrow> 's \<Rightarrow> bool \<times> 's" and spent :: "'s \<Rightarrow> nat" and limit :: nat
  assumes granted: "ok x \<Longrightarrow> f x s = (True, s') \<Longrightarrow> spent s < spent s' \<and> spent s' \<le> limit"
    and refused: "ok x \<Longrightarrow> f x s = (False, s') \<Longrightarrow> spent s \<le> spent s'"
begin

lemma run_spent: "list_all ok xs \<Longrightarrow> run_ops f xs s = (n, s') \<Longrightarrow> n + spent s \<le> spent s' \<and> (n = 0 \<or> n + spent s \<le> limit)"
proof (induction xs arbitrary: s n s')
  case (Cons x xs)
  obtain g s1 where step: "f x s = (g, s1)" by fastforce
  obtain m s2 where rest: "run_ops f xs s1 = (m, s2)" by fastforce
  with Cons(1,2) have ih: "m + spent s1 \<le> spent s2" "m = 0 \<or> m + spent s1 \<le> limit" by simp_all
  from Cons(2) have ok: "ok x" by simp
  from Cons(3) step rest have n: "n = (if g then m + 1 else m)" "s' = s2" by (auto simp: Let_def)
  show ?case
  proof (cases g)
    case True
    with step granted [OF ok, of s s1] have "spent s < spent s1" "spent s1 \<le> limit" by simp_all
    with True n ih show ?thesis by auto
  next
    case False
    with step refused [OF ok, of s s1] have "spent s \<le> spent s1" by simp
    with False n ih show ?thesis by auto
  qed
qed simp

lemma granted_within_limit: "list_all ok xs \<Longrightarrow> fst (run_ops f xs s) \<le> limit - spent s"
proof -
  assume ok: "list_all ok xs"
  obtain n s' where run: "run_ops f xs s = (n, s')" by fastforce
  from run_spent [OF ok run] run show ?thesis by auto
qed

end

section \<open>Guarded calls\<close>

lemma client_eval_cases:
  assumes "client_eval R n script s = (r, s')"
  obtains (untouched) x where "r = Inl x" "s' = s"
  | (answered) "security_client R s = Inr ()" "n = Delivered" "script s = (r, s')"
  | (unanswered) r0 x where "security_client R s = Inr ()" "script s = (r0, s')" "r = Inl x"
  using assms
  by (cases n; cases "security_client R s"; cases "script s") (auto simp: client_eval_def intro: that)

lemma store_operation_cases:
  assumes "store_operation R mk sid n script s = (r, s')"
  obtains (untouched) x where "r = Inl x" "s' = s"
  | (answered) "store_guard R (mk STORE_MARKER) sid s = Inr ()" "security_client R s = Inr ()" "n = Delivered" "script s = (r, s')"
  | (unanswered) r0 x where "store_guard R (mk STORE_MARKER) sid s = Inr ()" "security_client R s = Inr ()" "script s = (r0, s')" "r = Inl x"
proof -
  have guarded_cases: "(\<exists>x. q = Inl x \<and> t = s) \<or> (store_guard R (mk STORE_MARKER) sid s = Inr () \<and> script s = (q, t))"
    if "guarded R mk sid script s = (q, t)" for q t
    using that by (cases "store_guard R (mk STORE_MARKER) sid s") (auto simp: guarded_def)
  from assms [unfolded store_operation_def] show thesis
    by (cases rule: client_eval_cases) (auto dest!: guarded_cases intro: that)
qed

text \<open>A refused or unavailable store is never written: no marker, another identity, weak persistence.\<close>

lemma store_operation_refused:
  assumes "store_guard R (mk STORE_MARKER) sid s \<noteq> Inr () \<or> security_client R s \<noteq> Inr ()"
  shows "\<exists>x. store_operation R mk sid n script s = (Inl x, s)"
proof -
  obtain r s' where run: "store_operation R mk sid n script s = (r, s')" by fastforce
  from run show ?thesis using assms by (cases rule: store_operation_cases) (auto simp: run)
qed

definition spent_of :: "(rval \<times> nat option) option \<Rightarrow> nat" where
  "spent_of e = (case e of Some (RStr v, _) \<Rightarrow> if isdecimal v then read_digits v else 0 | _ \<Rightarrow> 0)"

lemma isdecimal_show_nat [simp]: "isdecimal (show_nat n)"
  using show_nat_digits [of n] by (simp add: isdecimal_def)

lemma spent_of_simps [simp]: "spent_of None = 0" "spent_of (Some (RStr (show_nat n), t)) = n"
  by (simp_all add: spent_of_def)

lemma split_first_app: "d \<notin> set a \<Longrightarrow> split_first d (a @ d # b) = Some (a, b)"
  by (induction a) auto

lemma hex_no_colon: "list_all is_lower_hex sid \<Longrightarrow> CHR '':'' \<notin> set sid"
  by (auto simp: list_all_iff is_lower_hex_def is_digit_def in_range_def)

lemma show_nat_1: "''1'' = show_nat (Suc 0)"
  by code_simp

text \<open>The calls that share the store: claims and budgets on any key, over any network.\<close>

datatype store_call = Claim string nat | Budget string nat nat

fun call_run :: "'s redis \<Rightarrow> (string \<Rightarrow> string) \<Rightarrow> string \<Rightarrow> net \<times> store_call \<Rightarrow> ('s, bool) sx" where
  "call_run R mk sid (n, Claim key seconds) = cache_add R mk sid n key True seconds"
| "call_run R mk sid (n, Budget key maximum seconds) = budget R mk sid n key maximum seconds"

definition small_budget :: "net \<times> store_call \<Rightarrow> bool" where
  \<comment> \<open>a maximum that Redis can count up to\<close>
  "small_budget x = (case snd x of Claim _ _ \<Rightarrow> True | Budget _ m _ \<Rightarrow> m \<le> 10 ^ 18)"

definition counted :: "('op \<Rightarrow> bool) \<Rightarrow> ('op \<Rightarrow> ('s, bool) sx) \<Rightarrow> 'op \<Rightarrow> 's \<Rightarrow> bool \<times> 's" where
  \<comment> \<open>count the calls of interest that answered \<open>True\<close>\<close>
  "counted P f x s = (P x \<and> fst (f x s) = Inr True, snd (f x s))"

lemma counted_True: "counted P f x s = (True, s') \<longleftrightarrow> P x \<and> f x s = (Inr True, s')"
  by (cases "f x s") (auto simp: counted_def)

lemma counted_run: "counted P f x s = (g, s') \<Longrightarrow> \<exists>r. f x s = (r, s')"
  by (cases "f x s") (auto simp: counted_def)

context redis_laws
begin

lemma store_guard_ok:
  assumes "vw s marker = Some (RStr (sid @ '':'' @ show_nat ready), t)" "sid \<noteq> []" "list_all is_lower_hex sid"
  shows "store_guard R marker sid s = (if ready \<le> rd_time R s then Inr () else Inl ResponseError)"
  using assms split_first_app [OF hex_no_colon [OF assms(3)]] by (simp add: store_guard_def get_law)

lemma claim_cases:
  assumes "claim_script R key seconds s = (r, s')"
  obtains (taken) e where "vw s key = Some e" "r = Inr 0" "s' = s"
  | (free) "vw s key = None" "r = Inr 1" "vw s' = (vw s)(key \<mapsto> (RStr ''1'', Some seconds))"
  using assms by (cases "vw s key") (auto simp: claim_script_def exists_law set_law intro: that)

lemma budget_cases:
  assumes run: "budget_script R key seconds maximum s = (r, s')" and small: "maximum \<le> 10 ^ 18"
  obtains (failed) x where "r = Inl x" "s' = s"
  | (started) "vw s key = None" "r = Inr 1" "vw s' = (vw s)(key \<mapsto> (RStr ''1'', Some seconds))"
  | (exhausted) "r = Inr (int maximum + 1)" "s' = s"
  | (charged) n t where "vw s key = Some (RStr (show_nat n), t)" "0 < n" "n < maximum" "r = Inr (int n + 1)"
      "vw s' = (vw s)(key \<mapsto> (RStr (show_nat (n + 1)), t))"
proof (cases "rd_get R key s")
  case (Inl x)
  with run show thesis by (intro failed [of x]) (simp_all add: budget_script_def)
next
  case (Inr v)
  show thesis
  proof (cases v)
    case None
    with Inr have "vw s key = None" by (cases "vw s key"; cases "fst (the (vw s key))") (auto simp: get_law)
    with run Inr None show thesis by (intro started) (auto simp: budget_script_def set_law)
  next
    case (Some count)
    with Inr obtain t where e: "vw s key = Some (RStr count, t)"
      by (cases "vw s key"; cases "fst (the (vw s key))") (auto simp: get_law)
    have step: "(if \<not> isdecimal count \<or> read_digits count < 1 then (Inl ResponseError, s)
        else if read_digits count \<ge> maximum then (Inr (int maximum + 1), s) else rd_incr R key s) = (r, s')"
      using run Inr Some by (simp add: budget_script_def)
    consider "\<not> isdecimal count \<or> read_digits count < 1"
      | "isdecimal count" "read_digits count \<ge> 1" "read_digits count \<ge> maximum"
      | "isdecimal count" "read_digits count \<ge> 1" "read_digits count < maximum" by linarith
    then show thesis
    proof cases
      case 1
      with step show thesis by (intro failed [of ResponseError]) auto
    next
      case 2
      with step show thesis by (intro exhausted) auto
    next
      case 3
      show thesis
      proof (cases "show_nat (read_digits count) = count")
        case False
        with step 3 incr_err [OF e] show thesis by (intro failed [of ResponseError]) auto
      next
        case True
        then obtain n where n: "count = show_nat n" by metis
        have "length (show_nat n) \<le> 18" using 3 small n by (intro length_show_nat) auto
        with e n have "fst (rd_incr R key s) = Inr (int n + 1)"
            "vw (snd (rd_incr R key s)) = (vw s)(key \<mapsto> (RStr (show_nat (n + 1)), t))"
          using incr_law by blast+
        with step 3 n e show thesis by (intro charged [of n t]) auto
      qed
    qed
  qed
qed

lemma cache_add_cases:
  assumes "cache_add R mk sid n key True seconds s = (r, s')"
  obtains (untouched) "vw s' = vw s" "r \<noteq> Inr True"
  | (claimed) "vw s (mk key) = None" "vw s' = (vw s)(mk key \<mapsto> (RStr ''1'', Some seconds))"
proof -
  obtain q where op: "store_operation R mk sid n (claim_script R (mk key) seconds) s = (q, s')"
      "r = res_bind q (\<lambda>k. Inr (k \<noteq> 0))"
    using assms by (auto simp: cache_add_def sx_bind_def sx_return_def split: prod.splits sum.splits)
  from op(1) show thesis
  proof (cases rule: store_operation_cases)
    case (untouched x)
    with op(2) that(1) show thesis by simp
  next
    case answered
    from answered(4) show thesis by (cases rule: claim_cases) (use op(2) that in auto)
  next
    case (unanswered r0 x)
    from unanswered(3) show thesis by (cases rule: claim_cases) (use op(2) unanswered(4) that in auto)
  qed
qed

lemma budget_op_cases:
  assumes run: "budget R mk sid n key maximum seconds s = (r, s')" and small: "maximum \<le> 10 ^ 18"
  obtains (untouched) "vw s' = vw s" "r \<noteq> Inr True"
  | (charged) k t where "spent_of (vw s (mk key)) = k" "r = Inr True \<longrightarrow> k < maximum"
      "vw s' = (vw s)(mk key \<mapsto> (RStr (show_nat (k + 1)), t))"
proof -
  note paid = that(2)
  obtain q where op: "store_operation R mk sid n (budget_script R (mk key) seconds maximum) s = (q, s')"
      "r = res_bind q (\<lambda>c. Inr (c \<le> int maximum))"
    using run by (auto simp: budget_def sx_bind_def sx_return_def split: prod.splits sum.splits)
  have script: thesis if "budget_script R (mk key) seconds maximum s = (q0, s')"
      "r = Inr True \<longrightarrow> (\<exists>k. q0 = Inr k \<and> k \<le> int maximum)" for q0
    using that(1) small
  proof (cases rule: budget_cases)
    case started
    with that(2) show thesis by (intro charged [of 0 "Some seconds"]) (auto simp: show_nat_1)
  next
    case (charged k t)
    with that(2) show thesis by (intro paid [of k t]) auto
  qed (use that(2) untouched in auto)
  from op(1) show thesis
  proof (cases rule: store_operation_cases)
    case (untouched x)
    with op(2) that(1) show thesis by simp
  next
    case answered
    with op(2) show thesis by (intro script [of q]) (auto simp: res_simps)
  next
    case (unanswered r0 x)
    with op(2) show thesis by (intro script [of r0]) auto
  qed
qed

lemma call_cases:
  assumes run: "call_run R mk sid (n, call) s = (r, s')" and "small_budget (n, call)"
  obtains (untouched) "vw s' = vw s" "r \<noteq> Inr True"
  | (claimed) key seconds where "call = Claim key seconds" "vw s (mk key) = None"
      "vw s' = (vw s)(mk key \<mapsto> (RStr ''1'', Some seconds))"
  | (charged) key m seconds k t where "call = Budget key m seconds" "spent_of (vw s (mk key)) = k"
      "r = Inr True \<longrightarrow> k < m" "vw s' = (vw s)(mk key \<mapsto> (RStr (show_nat (k + 1)), t))"
proof (cases call)
  case (Claim key seconds)
  with run have "cache_add R mk sid n key True seconds s = (r, s')" by simp
  then show thesis by (cases rule: cache_add_cases) (use Claim that in auto)
next
  case (Budget key m seconds)
  with run assms(2) have "budget R mk sid n key m seconds s = (r, s')" "m \<le> 10 ^ 18" by (simp_all add: small_budget_def)
  then show thesis by (cases rule: budget_op_cases) (use Budget that in auto)
qed

lemma claim_metered:
  assumes "inj mk"
  shows "metered small_budget (counted (\<lambda>x. \<exists>seconds. snd x = Claim key seconds) (call_run R mk sid))
    (\<lambda>s. if vw s (mk key) = None then 0 else 1) 1"
proof
  fix x s s' assume small: "small_budget x"
  obtain n call where x: "x = (n, call)" by (cases x)
  {
    assume "counted (\<lambda>x. \<exists>seconds. snd x = Claim key seconds) (call_run R mk sid) x s = (True, s')"
    then have "call_run R mk sid (n, call) s = (Inr True, s')" "\<exists>seconds. call = Claim key seconds"
      unfolding counted_True x by simp_all
    from this(1) small [unfolded x] this(2)
    show "(if vw s (mk key) = None then 0 else 1) < (if vw s' (mk key) = None then 0 else (1::nat))
        \<and> (if vw s' (mk key) = None then 0 else 1) \<le> (1::nat)"
      by (cases rule: call_cases) auto
  next
    assume "counted (\<lambda>x. \<exists>seconds. snd x = Claim key seconds) (call_run R mk sid) x s = (False, s')"
    then obtain r where "call_run R mk sid (n, call) s = (r, s')" unfolding x by (blast dest: counted_run)
    from this small [unfolded x]
    show "(if vw s (mk key) = None then 0 else 1) \<le> (if vw s' (mk key) = None then 0 else (1::nat))"
      by (cases rule: call_cases) auto
  }
qed

lemma budget_metered:
  assumes "inj mk"
  shows "metered small_budget (counted (\<lambda>x. \<exists>seconds. snd x = Budget key m seconds) (call_run R mk sid))
    (\<lambda>s. spent_of (vw s (mk key))) m"
proof
  fix x s s' assume small: "small_budget x"
  obtain n call where x: "x = (n, call)" by (cases x)
  {
    assume "counted (\<lambda>x. \<exists>seconds. snd x = Budget key m seconds) (call_run R mk sid) x s = (True, s')"
    then have "call_run R mk sid (n, call) s = (Inr True, s')" "\<exists>seconds. call = Budget key m seconds"
      unfolding counted_True x by simp_all
    from this(1) small [unfolded x] this(2)
    show "spent_of (vw s (mk key)) < spent_of (vw s' (mk key)) \<and> spent_of (vw s' (mk key)) \<le> m"
      by (cases rule: call_cases) auto
  next
    assume "counted (\<lambda>x. \<exists>seconds. snd x = Budget key m seconds) (call_run R mk sid) x s = (False, s')"
    then obtain r where "call_run R mk sid (n, call) s = (r, s')" unfolding x by (blast dest: counted_run)
    from this small [unfolded x]
    show "spent_of (vw s (mk key)) \<le> spent_of (vw s' (mk key))"
      by (cases rule: call_cases) (use assms in \<open>auto simp: inj_eq\<close>)
  }
qed

end

interpretation mem_claims: metered small_budget
    "counted (\<lambda>x. \<exists>seconds. snd x = Claim ''k'' seconds) (call_run mem_redis (\<lambda>k. k) sid)"
    "\<lambda>s. if mem_view s ''k'' = None then 0 else 1" 1 for sid
  using mem.claim_metered [of "\<lambda>k. k" "''k''" sid] by simp

section \<open>Properties\<close>

text \<open>A small store for the witnesses: the marker of identity \<open>ab\<close>, ready since second 5.\<close>

definition fx_mem :: mem where
  "fx_mem = \<lparr>cells = Map.empty(STORE_MARKER \<mapsto> (CStr ''ab:5'', None)), mem_time = 10,
     mem_config = map_of STORE_SETTINGS, mem_persistence = [''aof_last_write_status'' \<mapsto> ''ok'']\<rparr>"

text \<open>
  C12: among any sequence of claims and budget calls that workers make on the shared store,
  over any network, a one-time key is claimed successfully at most once before it expires;
  when it is present already, it is never claimed.
\<close>

theorem claim_granted_once:
  assumes "redis_laws R vw" "inj mk" "list_all small_budget calls"
  shows "fst (run_ops (counted (\<lambda>x. \<exists>seconds. snd x = Claim key seconds) (call_run R mk sid)) calls s)
    \<le> (if vw s (mk key) = None then 1 else 0)"
  using metered.granted_within_limit [OF redis_laws.claim_metered [OF assms(1,2)] assms(3), of key sid s]
  by (cases "vw s (mk key)") simp_all

theorem claim_granted_once_witness:
  "fst (run_ops (counted (\<lambda>x. \<exists>seconds. snd x = Claim ''t'' seconds) (call_run mem_redis (\<lambda>k. k) ''ab''))
     [(Delivered, Claim ''t'' 120), (Delivered, Claim ''t'' 120)] fx_mem) \<le> 1
   \<and> fst (call_run mem_redis (\<lambda>k. k) ''ab'' (Delivered, Claim ''t'' 120) fx_mem) = Inr True"
proof -
  have "fst (call_run mem_redis (\<lambda>k. k) ''ab'' (Delivered, Claim ''t'' 120) fx_mem) = Inr True" by code_simp
  moreover have "mem_view fx_mem ''t'' = None" by code_simp
  ultimately show ?thesis
    using claim_granted_once [OF mem.redis_laws_axioms, of "\<lambda>k. k" "[(Delivered, Claim ''t'' 120), (Delivered, Claim ''t'' 120)]" "''t''" "''ab''" fx_mem]
    by (simp add: small_budget_def)
qed

text \<open>
  C13: among any sequence of claims and budget calls on the shared store, over any network,
  the attempts that a budget allows on one key before it expires, together with those it
  had already counted, never exceed its maximum.
\<close>

theorem budget_never_exceeded:
  assumes "redis_laws R vw" "inj mk" "list_all small_budget calls"
  shows "fst (run_ops (counted (\<lambda>x. \<exists>seconds. snd x = Budget key maximum seconds) (call_run R mk sid)) calls s)
    \<le> maximum - spent_of (vw s (mk key))"
  by (rule metered.granted_within_limit [OF redis_laws.budget_metered [OF assms(1,2)] assms(3)])

theorem budget_never_exceeded_witness:
  "fst (run_ops (counted (\<lambda>x. \<exists>seconds. snd x = Budget ''u'' 2 seconds) (call_run mem_redis (\<lambda>k. k) ''ab''))
     [(Delivered, Budget ''u'' 2 300), (Delivered, Budget ''u'' 2 300), (Delivered, Budget ''u'' 2 300)] fx_mem) \<le> 2
   \<and> fst (call_run mem_redis (\<lambda>k. k) ''ab'' (Delivered, Budget ''u'' 2 300) fx_mem) = Inr True"
proof -
  have "fst (call_run mem_redis (\<lambda>k. k) ''ab'' (Delivered, Budget ''u'' 2 300) fx_mem) = Inr True" by code_simp
  moreover have "mem_view fx_mem ''u'' = None" by code_simp
  ultimately show ?thesis
    using budget_never_exceeded [OF mem.redis_laws_axioms, of "\<lambda>k. k"
        "[(Delivered, Budget ''u'' 2 300), (Delivered, Budget ''u'' 2 300), (Delivered, Budget ''u'' 2 300)]" "''u''" 2 "''ab''" fx_mem]
    by (simp add: small_budget_def)
qed

lemma initialize_cases:
  assumes "initialize_security_store R mk sid n vacant state fpr generation mode quiesced s = (r, s')"
  obtains (refused) x where "r = Inl x" "s' = s"
  | (fresh) q where "mode = ''fresh''" "vacant" "fresh_script R (mk STORE_MARKER) (mk state) sid 0 fpr generation s = (q, s')"
      "r = Inr () \<Longrightarrow> q = Inr 1"
  | (migrate) q where "mode = ''migrate''" "quiesced" "migrate_script R (mk STORE_MARKER) sid (CHALLENGE_SECONDS + 60) s = (q, s')"
      "r = Inr () \<Longrightarrow> q = Inr 1"
proof -
  let ?script = "if mode = ''fresh'' then fresh_script R (mk STORE_MARKER) (mk state) sid 0 fpr generation
    else migrate_script R (mk STORE_MARKER) sid (CHALLENGE_SECONDS + 60)"
  show thesis
  proof (cases "mode = ''fresh'' \<and> vacant \<or> mode = ''migrate'' \<and> quiesced")
    case False
    with assms show thesis
      by (intro refused [of ImproperlyConfigured]) (auto simp: initialize_security_store_def sx_raise_def split: if_splits)
  next
    case ok: True
    then have "sx_bind (client_eval R n ?script) (\<lambda>r. sx_guard (r = 1) ImproperlyConfigured) s = (r, s')"
      using assms by (auto simp: initialize_security_store_def)
    then obtain q where op: "client_eval R n ?script s = (q, s')" "r = res_bind q (\<lambda>k. res_guard (k = 1) ImproperlyConfigured)"
      by (auto simp: sx_bind_def sx_guard_def res_guard_def split: prod.splits sum.splits if_splits)
    from op(1) show thesis
    proof (cases rule: client_eval_cases)
      case (untouched x)
      with op(2) show thesis by (intro refused [of x]) simp_all
    next
      case answered
      have "r = Inr () \<Longrightarrow> q = Inr 1" using op(2) by (auto simp: res_simps)
      with ok answered(3) show thesis by (auto intro: fresh [of q] migrate [of q])
    next
      case (unanswered r0 x)
      have "r \<noteq> Inr ()" using op(2) unanswered by simp
      with ok unanswered(2) show thesis by (auto intro: fresh [of r0] migrate [of r0])
    qed
  qed
qed

text \<open>
  A migrated store is closed during the hold.  When the migration succeeds at time
  \<open>rd_time R s\<close>, the old processes were confirmed stopped and no marker existed; on every
  later store that still has the new marker, every operation fails and changes nothing
  until 360 seconds have passed, and the guard lets every script through from then on.
\<close>

theorem migration_holds:
  assumes laws: "redis_laws R vw" and sid: "sid \<noteq> []" "list_all is_lower_hex sid"
    and run: "initialize_security_store R mk sid n vacant state fpr generation ''migrate'' quiesced s = (Inr (), s')"
    and later: "vw later (mk STORE_MARKER) = vw s' (mk STORE_MARKER)"
  shows "quiesced \<and> vw s (mk STORE_MARKER) = None \<and>
    (if rd_time R later < rd_time R s + 360 then \<exists>x. store_operation R mk sid n' script later = (Inl x, later)
     else guarded R mk sid script later = script later)"
proof -
  from run have mig: "quiesced" "migrate_script R (mk STORE_MARKER) sid 360 s = (Inr 1, s')"
    by (cases rule: initialize_cases; simp add: CHALLENGE_SECONDS_def)+
  from mig(2) have none: "vw s (mk STORE_MARKER) = None"
      and s': "s' = rd_set R (mk STORE_MARKER) (marker_value R sid 360 s) None s"
    using redis_laws.exists_law [OF laws, of "mk STORE_MARKER" s] by (simp_all add: migrate_script_def del: not_None_eq split: if_splits)
  have "vw later (mk STORE_MARKER) = Some (RStr (sid @ '':'' @ show_nat (rd_time R s + 360)), None)"
    using later by (simp add: s' redis_laws.set_law [OF laws] marker_value_def)
  then have guard: "store_guard R (mk STORE_MARKER) sid later =
      (if rd_time R s + 360 \<le> rd_time R later then Inr () else Inl ResponseError)"
    using redis_laws.store_guard_ok [OF laws] sid by blast
  have "\<exists>x. store_operation R mk sid n' script later = (Inl x, later)" if "rd_time R later < rd_time R s + 360"
    using that guard by (intro store_operation_refused) auto
  with mig none guard show ?thesis by (auto simp: guarded_def)
qed

theorem migration_holds_witness:
  "let s = fx_mem\<lparr>cells := Map.empty\<rparr>;
       (r, s') = initialize_security_store mem_redis (\<lambda>k. k) ''ab'' Delivered False [] [] [] ''migrate'' True s
   in r = Inr () \<and> (\<exists>x. store_operation mem_redis (\<lambda>k. k) ''ab'' Delivered (sx_return (1::nat)) s' = (Inl x, s'))"
proof -
  let ?s = "fx_mem\<lparr>cells := Map.empty\<rparr>"
  obtain r s' where run: "initialize_security_store mem_redis (\<lambda>k. k) ''ab'' Delivered False [] [] [] ''migrate'' True ?s = (r, s')"
    by fastforce
  have "fst (initialize_security_store mem_redis (\<lambda>k. k) ''ab'' Delivered False [] [] [] ''migrate'' True ?s) = Inr ()"
    and t: "rd_time mem_redis (snd (initialize_security_store mem_redis (\<lambda>k. k) ''ab'' Delivered False [] [] [] ''migrate'' True ?s)) = 10"
       "rd_time mem_redis ?s = 10"
    by code_simp+
  with run have r: "r = Inr ()" by simp
  have "list_all is_lower_hex ''ab''" by code_simp
  with migration_holds [OF mem.redis_laws_axioms _ _ run [unfolded r] refl, of Delivered "sx_return (1::nat)"] t run r
  show ?thesis by simp
qed

text \<open>
  the explicit initialisation, in either mode and over any network, never replaces a
  store that has a marker: it fails and leaves every key as it was.
\<close>

theorem initialize_never_replaces:
  assumes laws: "redis_laws R vw" and mark: "vw s (mk STORE_MARKER) \<noteq> None"
    and run: "initialize_security_store R mk sid n vacant state fpr generation mode quiesced s = (r, s')"
  shows "r \<noteq> Inr () \<and> s' = s"
proof -
  have ex: "rd_exists R (mk STORE_MARKER) s" using mark redis_laws.exists_law [OF laws] by simp
  from run show ?thesis
    by (cases rule: initialize_cases) (auto simp: ex fresh_script_def migrate_script_def)
qed

theorem initialize_never_replaces_witness:
  "snd (initialize_security_store mem_redis (\<lambda>k. k) ''ab'' Delivered True ''st'' ''fp'' ''gen'' ''fresh'' False fx_mem) = fx_mem"
proof -
  have "mem_view fx_mem STORE_MARKER \<noteq> None" by (simp add: fx_mem_def mem_view_def)
  then show ?thesis
    using initialize_never_replaces [OF mem.redis_laws_axioms, of fx_mem "\<lambda>k. k" "''ab''" Delivered True "''st''" "''fp''" "''gen''" "''fresh''" False]
    by (metis prod.collapse)
qed

end
