(* ===== verification/Admission_Facts.thy ===== *)
theory Admission_Facts
  imports Admission Security_Facts
begin

text \<open>
  What the admission scripts guarantee on every Redis that obeys \<open>redis_laws\<close>: the state
  they accept, the effect of each script on the keyspace, that a script that fails changes
  nothing, and that the handlers running at the same time never exceed the capacity.
\<close>

section \<open>The accepted state\<close>

definition state_ok :: "config \<Rightarrow> (string \<rightharpoonup> string) \<Rightarrow> bool" where
  "state_ok c h \<longleftrightarrow>
     h ''config'' = Some (fingerprint c) \<and> (\<exists>g. h ''generation'' = Some g \<and> fullmatch_n is_lower_hex 32 g)
     \<and> card (dom h) \<le> 2 + cf_capacity c
     \<and> (\<forall>f. f \<in> dom h \<longrightarrow> f = ''config'' \<or> f = ''generation'' \<or> slot_ok (cf_capacity c) f (h f))"

definition counter_ok :: "(rval \<times> nat option) option \<Rightarrow> nat \<Rightarrow> nat \<Rightarrow> nat \<Rightarrow> bool" where
  \<comment> \<open>the entry holds the count \<open>n\<close>\<close>
  "counter_ok entry limit window n \<longleftrightarrow>
     (if n = 0 then entry = None
      else \<exists>t. entry = Some (RStr (show_nat n), Some t) \<and> t \<le> window \<and> n \<le> limit \<and> length (show_nat n) \<le> 5)"

lemma find_slot:
  assumes "find (\<lambda>i. h (show_nat i) = None) [0..<capacity] = Some i"
  shows "i < capacity \<and> h (show_nat i) = None"
  using assms by (auto simp: find_Some_iff)

context redis_laws
begin

lemma check_slots_Inr:
  assumes "hash_of (vw s state) = Inr h"
  shows "check_slots R state capacity fs s = Inr () \<longleftrightarrow>
    (\<forall>f \<in> set fs. f = ''config'' \<or> f = ''generation'' \<or> slot_ok capacity f (h f))"
  using assms by (induction fs) (auto simp: hget_law)

lemma check_slots_unit: "check_slots R state capacity fs s = Inr u \<Longrightarrow> u = ()"
  by simp

lemma validate_iff:
  "validate R state c s = Inr () \<longleftrightarrow> (\<exists>h. vw s state = Some (RHash h, None) \<and> state_ok c h)"
proof (cases "\<exists>h. vw s state = Some (RHash h, None)")
  case True
  then obtain h where h: "vw s state = Some (RHash h, None)" by blast
  then have hash: "hash_of (vw s state) = Inr h" by simp
  obtain fs where fs: "rd_hkeys R state s = Inr fs" "set fs = dom h" using hkeys_law [OF hash] by blast
  have "check_slots R state (cf_capacity c) fs s = Inr () \<longleftrightarrow>
      (\<forall>f. f \<in> dom h \<longrightarrow> f = ''config'' \<or> f = ''generation'' \<or> slot_ok (cf_capacity c) f (h f))"
    using check_slots_Inr [OF hash] fs(2) by blast
  then show ?thesis
    using h hash fs by (auto simp: validate_def type_law ttl_law hget_law hlen_law state_ok_def split: if_splits option.splits)
next
  case False
  then show ?thesis by (auto simp: validate_def type_law ttl_law split: option.splits rval.splits)
qed

lemma counter_iff: "counter R k limit window s = Inr n \<longleftrightarrow> counter_ok (vw s k) limit window n"
proof (cases "vw s k")
  case None
  then show ?thesis by (auto simp: counter_def counter_ok_def get_law)
next
  case (Some e)
  obtain v t where e: "e = (v, t)" by (cases e)
  show ?thesis
  proof (cases v)
    case (RHash h)
    with Some e show ?thesis by (auto simp: counter_def counter_ok_def get_law)
  next
    case (RStr w)
    show ?thesis
    proof (cases t)
      case None
      with RStr Some e show ?thesis by (auto simp: counter_def counter_ok_def get_law ttl_law)
    next
      case tt: (Some ttl)
      have "counter R k limit window s =
          (if \<not> isdecimal w \<or> length w > 5 \<or> read_digits w < 1 \<or> show_nat (read_digits w) \<noteq> w
              \<or> read_digits w > limit \<or> ttl > window
           then Inl ResponseError else Inr (read_digits w))"
        using RStr Some e tt by (auto simp: counter_def get_law ttl_law)
      then show ?thesis
        using RStr Some e tt by (auto simp: counter_ok_def split: if_splits)
    qed
  qed
qed

lemma bump_effect:
  assumes "counter R k limit window s = Inr n" "n < limit" "limit \<le> 99998"
  obtains s' t where "bump R k n window s = (Inr (), s')" "t \<le> window"
    "vw s' = (vw s)(k \<mapsto> (RStr (show_nat (n + 1)), Some t))"
proof (cases "n = 0")
  case True
  have "bump R k n window s = (Inr (), rd_set R k ''1'' (Some window) s)" using True by (simp add: bump_def)
  then show thesis
    by (rule that [of _ window]) (simp_all add: set_law True show_nat_1)
next
  case False
  with assms(1) obtain t where e: "vw s k = Some (RStr (show_nat n), Some t)" "t \<le> window" "length (show_nat n) \<le> 5"
    by (auto simp: counter_iff counter_ok_def)
  have "fst (rd_incr R k s) = Inr (int n + 1)" "vw (snd (rd_incr R k s)) = (vw s)(k \<mapsto> (RStr (show_nat (n + 1)), Some t))"
    using incr_law [OF e(1)] e(3) by simp_all
  with False e(2) show thesis
    by (intro that [of "snd (rd_incr R k s)" t]) (auto simp: bump_def split: prod.splits)
qed

lemma res_map_hget:
  "hash_of (vw s state) = Inr h \<Longrightarrow> res_map (\<lambda>i. rd_hget R state (show_nat i) s) is = Inr (map (\<lambda>i. h (show_nat i)) is)"
  by (induction "is") (simp_all add: hget_law)

lemma free_slot_eq:
  assumes "hash_of (vw s state) = Inr h"
  shows "free_slot R state capacity s = Inr (map_option show_nat (find (\<lambda>i. h (show_nat i) = None) [0..<capacity]))"
proof -
  have "find (\<lambda>i. map (\<lambda>i. h (show_nat i)) [0..<capacity] ! i = None) [0..<capacity]
      = find (\<lambda>i. h (show_nat i) = None) [0..<capacity]"
    by (rule find_cong) auto
  then show ?thesis by (simp add: free_slot_def res_map_hget [OF assms])
qed

text \<open>
  The effect of \<open>ACQUIRE\<close> on the keyspace.  \<open>admitted\<close> collects what validation has
  established before the first write.
\<close>

definition admitted :: "string \<Rightarrow> string \<Rightarrow> string \<Rightarrow> string \<Rightarrow> config \<Rightarrow> 's \<Rightarrow> nat \<times> nat \<times> nat \<Rightarrow> (string \<rightharpoonup> string) \<Rightarrow> bool" where
  "admitted state kg ks kc c s n h \<longleftrightarrow>
     (case n of (g, sr, cr) \<Rightarrow> vw s state = Some (RHash h, None) \<and> state_ok c h
        \<and> counter_ok (vw s kg) (global_max c) (cf_window c) g \<and> counter_ok (vw s ks) (source_max c) (cf_window c) sr
        \<and> counter_ok (vw s kc) (credential_max c) (cf_window c) cr)"

lemma acquire_checks:
  "res_bind (validate R state c s) (\<lambda>_.
   res_bind (counter R kg (global_max c) (cf_window c) s) (\<lambda>g.
   res_bind (counter R ks (source_max c) (cf_window c) s) (\<lambda>sr.
   res_bind (counter R kc (credential_max c) (cf_window c) s) (\<lambda>cr. Inr (g, sr, cr))))) = Inr n
   \<longleftrightarrow> (\<exists>h. admitted state kg ks kc c s n h)"
  using validate_iff [of state c s]
  by (cases n) (auto simp: res_simps admitted_def counter_iff)

lemma acquire_cases:
  assumes run: "acquire R state kg ks kc c tok s = (r, s')" and keys: "distinct [state, kg, ks, kc]"
    and lim: "global_max c \<le> 99998" "source_max c \<le> 99998" "credential_max c \<le> 99998"
  obtains (failed) x where "r = Inl x" "s' = s" "\<nexists>n h. admitted state kg ks kc c s n h"
  | (saturated) g sr cr h retry where "admitted state kg ks kc c s (g, sr, cr) h" "g = global_max c \<or> global_max c < g"
      "r = Inr (Denied retry)" "s' = s"
  | (denied) g sr cr h t retry where "admitted state kg ks kc c s (g, sr, cr) h" "g < global_max c"
      "r = Inr (Denied retry)" "t \<le> cf_window c" "vw s' = (vw s)(kg \<mapsto> (RStr (show_nat (g + 1)), Some t))"
      "sr < source_max c \<longrightarrow> cr < credential_max c \<longrightarrow> (\<forall>i < cf_capacity c. h (show_nat i) \<noteq> None)"
  | (granted) g sr cr h t1 t2 t3 i where "admitted state kg ks kc c s (g, sr, cr) h" "g < global_max c"
      "sr < source_max c" "cr < credential_max c" "i < cf_capacity c" "h (show_nat i) = None"
      "r = Inr (Granted (show_nat i))" "t1 \<le> cf_window c" "t2 \<le> cf_window c" "t3 \<le> cf_window c"
      "vw s' = (vw s)(kg \<mapsto> (RStr (show_nat (g + 1)), Some t1), ks \<mapsto> (RStr (show_nat (sr + 1)), Some t2),
                     kc \<mapsto> (RStr (show_nat (cr + 1)), Some t3), state \<mapsto> (RHash (h(show_nat i \<mapsto> tok)), None))"
proof (cases "res_bind (validate R state c s) (\<lambda>_.
   res_bind (counter R kg (global_max c) (cf_window c) s) (\<lambda>g.
   res_bind (counter R ks (source_max c) (cf_window c) s) (\<lambda>sr.
   res_bind (counter R kc (credential_max c) (cf_window c) s) (\<lambda>cr. Inr (g, sr, cr)))))")
  case (Inl x)
  then have "\<nexists>n h. admitted state kg ks kc c s n h" using acquire_checks [of state c s kg ks kc] by auto
  with run Inl show thesis by (intro failed [of x]) (simp_all add: acquire_def)
next
  case (Inr n)
  obtain g sr cr where n: "n = (g, sr, cr)" by (cases n)
  from Inr n obtain h where adm: "admitted state kg ks kc c s (g, sr, cr) h" using acquire_checks by blast
  note step = run [unfolded acquire_def Inr n, simplified]
  show thesis
  proof (cases "g < global_max c")
    case False
    with step adm show thesis by (intro saturated [of g sr cr h]) (auto simp: retry_after_def)
  next
    case g: True
    have "counter R kg (global_max c) (cf_window c) s = Inr g" using adm by (simp add: admitted_def counter_iff)
    then obtain s1 t1 where b1: "bump R kg g (cf_window c) s = (Inr (), s1)" "t1 \<le> cf_window c"
        "vw s1 = (vw s)(kg \<mapsto> (RStr (show_nat (g + 1)), Some t1))"
      using g lim(1) by (rule bump_effect)
    have hash1: "hash_of (vw s1 state) = Inr h" using adm b1(3) keys by (simp add: admitted_def)
    show thesis
    proof (cases "sr < source_max c \<and> cr < credential_max c \<and> (\<exists>i. find (\<lambda>i. h (show_nat i) = None) [0..<cf_capacity c] = Some i)")
      case False
      then have "find (\<lambda>i. h (show_nat i) = None) [0..<cf_capacity c] = None \<or> \<not> (sr < source_max c \<and> cr < credential_max c)"
        by auto
      moreover from this have full: "sr < source_max c \<longrightarrow> cr < credential_max c \<longrightarrow> (\<forall>i < cf_capacity c. h (show_nat i) \<noteq> None)"
        by (auto simp: find_None_iff)
      ultimately have "\<exists>retry. r = Inr (Denied retry) \<and> s' = s1"
        using step g b1(1) free_slot_eq [OF hash1] by (auto simp: sx_bind_def retry_after_def split: if_splits)
      with adm g b1 full show thesis by (auto intro: denied)
    next
      case True
      then obtain i where i: "find (\<lambda>i. h (show_nat i) = None) [0..<cf_capacity c] = Some i" by blast
      have "counter R ks (source_max c) (cf_window c) s1 = Inr sr"
        using adm b1(3) keys by (auto simp: admitted_def counter_iff)
      then obtain s2 t2 where b2: "bump R ks sr (cf_window c) s1 = (Inr (), s2)" "t2 \<le> cf_window c"
          "vw s2 = (vw s1)(ks \<mapsto> (RStr (show_nat (sr + 1)), Some t2))"
        using True lim(2) by (elim bump_effect) auto
      have "counter R kc (credential_max c) (cf_window c) s2 = Inr cr"
        using adm b1(3) b2(3) keys by (auto simp: admitted_def counter_iff)
      then obtain s3 t3 where b3: "bump R kc cr (cf_window c) s2 = (Inr (), s3)" "t3 \<le> cf_window c"
          "vw s3 = (vw s2)(kc \<mapsto> (RStr (show_nat (cr + 1)), Some t3))"
        using True lim(3) by (elim bump_effect) auto
      have "vw s3 state = Some (RHash h, None)" using adm b1(3) b2(3) b3(3) keys by (simp add: admitted_def)
      then have hs: "fst (rd_hset R state (show_nat i) tok s3) = Inr ()"
          "vw (snd (rd_hset R state (show_nat i) tok s3)) = (vw s3)(state \<mapsto> (RHash (h(show_nat i \<mapsto> tok)), None))"
        using hset_law [of s3 state h "show_nat i" tok] by simp_all
      have "r = Inr (Granted (show_nat i)) \<and> s' = snd (rd_hset R state (show_nat i) tok s3)"
        using step g b1(1) b2(1) b3(1) True free_slot_eq [OF hash1] i hs(1)
        by (auto simp: sx_bind_def sx_return_def split: prod.splits)
      with adm g True find_slot [OF i] b1 b2 b3 hs(2) show thesis
        by (intro granted [of g sr cr h i t1 t2 t3]) auto
    qed
  qed
qed

lemma acquire_granted:
  assumes adm: "admitted state kg ks kc c s (g, sr, cr) h" and keys: "distinct [state, kg, ks, kc]"
    and lim: "global_max c \<le> 99998" "source_max c \<le> 99998" "credential_max c \<le> 99998"
    and low: "g < global_max c" "sr < source_max c" "cr < credential_max c" "i < cf_capacity c" "h (show_nat i) = None"
  obtains j where "j < cf_capacity c" "h (show_nat j) = None" "fst (acquire R state kg ks kc c tok s) = Inr (Granted (show_nat j))"
    "vw (snd (acquire R state kg ks kc c tok s)) state = Some (RHash (h(show_nat j \<mapsto> tok)), None)"
proof -
  obtain r s' where run: "acquire R state kg ks kc c tok s = (r, s')" by fastforce
  have unique: "n = (g, sr, cr) \<and> h' = h" if "admitted state kg ks kc c s n h'" for n h'
    using that adm counter_iff by (cases n) (simp add: admitted_def, metis Inr_inject)
  from run keys lim show thesis
  proof (cases rule: acquire_cases)
    case (failed x)
    with adm show thesis by blast
  next
    case (saturated g' sr' cr' h' retry)
    with unique low show thesis by auto
  next
    case (denied g' sr' cr' h' t retry)
    with unique low show thesis by auto
  next
    case (granted g' sr' cr' h' t1 t2 t3 j)
    with unique run show thesis by (intro that [of j]) auto
  qed
qed

lemma state_ok_nonempty: "state_ok c h \<Longrightarrow> f \<noteq> ''config'' \<Longrightarrow> h(f := None) \<noteq> Map.empty"
  by (metis fun_upd_other option.distinct(1) state_ok_def)

lemma release_cases:
  assumes run: "release R state c sl tok s = (r, s')" and sl: "sl \<noteq> ''config''"
  obtains (failed) x where "r = Inl x" "s' = s" "\<nexists>h. vw s state = Some (RHash h, None) \<and> state_ok c h"
  | (foreign) h where "vw s state = Some (RHash h, None)" "state_ok c h" "h sl \<noteq> Some tok" "r = Inr 0" "s' = s"
  | (freed) h where "vw s state = Some (RHash h, None)" "state_ok c h" "h sl = Some tok" "r = Inr 1"
      "vw s' = (vw s)(state \<mapsto> (RHash (h(sl := None)), None))"
proof (cases "validate R state c s")
  case (Inl x)
  then have "\<nexists>h. vw s state = Some (RHash h, None) \<and> state_ok c h" using validate_iff [of state c s] by simp
  with run Inl show thesis by (intro failed [of x]) (simp_all add: release_def)
next
  case (Inr u)
  then obtain h where h: "vw s state = Some (RHash h, None)" "state_ok c h" using validate_iff by auto
  then have get: "rd_hget R state sl s = Inr (h sl)" by (simp add: hget_law)
  show thesis
  proof (cases "h sl = Some tok")
    case True
    have "fst (rd_hdel R state sl s) = Inr ()"
        "vw (snd (rd_hdel R state sl s)) = (vw s)(state \<mapsto> (RHash (h(sl := None)), None))"
      using hdel_law [OF h(1)] state_ok_nonempty [OF h(2) sl] by simp_all
    with run Inr get True h show thesis
      by (intro freed [of h]) (auto simp: release_def sx_bind_def sx_return_def split: prod.splits)
  next
    case False
    with run Inr get h show thesis by (intro foreign [of h]) (simp_all add: release_def)
  qed
qed

end

section \<open>Capacity\<close>

text \<open>
  Several workers share the store.  A step is one call by one of them over a network that
  may lose it or its answer, a change of the other keys (other scripts, counters that
  expire; the admission state has no expiry), or the privileged reconciliation, which the
  host runs only when no handler is running.  \<open>holders\<close> are the handlers between the grant of
  their permit and the end of their work, with their slot and token.  A call whose permit
  is denied, or whose answer is lost, starts no handler; the end of a handler removes it
  whatever its release returned.
\<close>

record 's system =
  store :: 's
  holders :: "(string \<times> string) set"

inductive admission_step :: "'s redis \<Rightarrow> ('s \<Rightarrow> keyspace) \<Rightarrow> (string \<Rightarrow> string) \<Rightarrow> string \<Rightarrow> config \<Rightarrow> string
    \<Rightarrow> 's system \<Rightarrow> 's system \<Rightarrow> bool"
  for R vw mk sid c key where
  admit: "acquire_permit R mk sid c key tok n rq (store w) = (Inr (Granted sl, meta), s') \<Longrightarrow>
    admission_step R vw mk sid c key w \<lparr>store = s', holders = insert (sl, tok) (holders w)\<rparr>"
| denied: "acquire_permit R mk sid c key tok n rq (store w) = (r, s') \<Longrightarrow>
    admission_step R vw mk sid c key w \<lparr>store = s', holders = holders w\<rparr>"
| finish: "(sl, tok) \<in> holders w \<Longrightarrow>
    store_operation R mk sid n (release R (mk STATE) c sl tok) (store w) = (r, s') \<Longrightarrow>
    admission_step R vw mk sid c key w \<lparr>store = s', holders = holders w - {(sl, tok)}\<rparr>"
| other: "vw s' (mk STATE) = vw (store w) (mk STATE) \<Longrightarrow>
    admission_step R vw mk sid c key w \<lparr>store = s', holders = holders w\<rparr>"
| quiesced: "holders w = {} \<Longrightarrow> reconcile R mk sid n c generation fresh (store w) = (r, s') \<Longrightarrow>
    admission_step R vw mk sid c key w \<lparr>store = s', holders = {}\<rparr>"

definition slots_held :: "('s \<Rightarrow> keyspace) \<Rightarrow> string \<Rightarrow> config \<Rightarrow> 's system \<Rightarrow> bool" where
  \<comment> \<open>every running handler's token is in its slot\<close>
  "slots_held vw state c w \<longleftrightarrow>
     (\<forall>(sl, tok) \<in> holders w. (\<exists>i < cf_capacity c. sl = show_nat i)
        \<and> (\<exists>h. vw (store w) state = Some (RHash h, None) \<and> h sl = Some tok))"

lemma admission_keys:
  assumes "inj mk"
  shows "distinct [mk STATE, mk ''sync-global'', mk (''sync-source:'' @ source), mk (''sync-credential:'' @ credential)]"
  using assms by (simp add: inj_eq STATE_def)

lemma show_nat_not_config: "show_nat i \<noteq> ''config''" "show_nat i \<noteq> ''generation''"
  using show_nat_hd_digit [of i] by (auto simp: is_digit_def in_range_def)

lemma slots_heldD:
  assumes "slots_held vw state c w" "(sl, tok) \<in> holders w"
  obtains i h where "i < cf_capacity c" "sl = show_nat i" "vw (store w) state = Some (RHash h, None)" "h sl = Some tok"
  using assms by (auto simp: slots_held_def)

lemma slots_heldI:
  assumes "\<And>sl tok. (sl, tok) \<in> holders w \<Longrightarrow> (\<exists>i < cf_capacity c. sl = show_nat i)
      \<and> (\<exists>h. vw (store w) state = Some (RHash h, None) \<and> h sl = Some tok)"
  shows "slots_held vw state c w"
  using assms by (auto simp: slots_held_def)

lemma slots_held_unique:
  assumes "slots_held vw state c w" "(sl, tok) \<in> holders w" "(sl, tok') \<in> holders w"
  shows "tok' = tok"
  using assms(1,2) by (rule slots_heldD) (use assms(1,3) in \<open>auto elim!: slots_heldD\<close>)

lemma slots_held_card:
  assumes "slots_held vw state c w"
  shows "finite (holders w) \<and> card (holders w) \<le> cf_capacity c"
proof -
  have sub: "fst ` holders w \<subseteq> show_nat ` {0..<cf_capacity c}"
    using assms by (auto simp: slots_held_def)
  have inj: "inj_on fst (holders w)"
    using slots_held_unique [OF assms] by (auto intro!: inj_onI)
  have fin: "finite (fst ` holders w)" using sub finite_subset by blast
  with inj have "finite (holders w)" by (rule finite_imageD [rotated])
  moreover have "card (holders w) = card (fst ` holders w)" using inj by (simp add: card_image)
  moreover have "card (fst ` holders w) \<le> card (show_nat ` {0..<cf_capacity c})"
    using sub by (intro card_mono) auto
  moreover have "card (show_nat ` {0..<cf_capacity c}) \<le> cf_capacity c"
    using card_image_le [of "{0..<cf_capacity c}" show_nat] by simp
  ultimately show ?thesis by simp
qed

context redis_laws
begin

lemma slots_held_frame:
  assumes inv: "slots_held vw state c w"
    and "holders w' \<noteq> {} \<Longrightarrow> vw (store w) state = Some (RHash h, None) \<and> vw (store w') state = Some (RHash h', None)"
    and "\<And>sl tok. (sl, tok) \<in> holders w' \<Longrightarrow> (sl, tok) \<in> holders w \<Longrightarrow> h' sl = h sl"
    and "\<And>sl tok. (sl, tok) \<in> holders w' \<Longrightarrow> (sl, tok) \<notin> holders w \<Longrightarrow>
      (\<exists>i < cf_capacity c. sl = show_nat i) \<and> h' sl = Some tok"
  shows "slots_held vw state c w'"
proof (rule slots_heldI)
  fix sl tok assume new: "(sl, tok) \<in> holders w'"
  then have vws: "vw (store w) state = Some (RHash h, None)" "vw (store w') state = Some (RHash h', None)"
    using assms(2) by blast+
  show "(\<exists>i < cf_capacity c. sl = show_nat i) \<and> (\<exists>h. vw (store w') state = Some (RHash h, None) \<and> h sl = Some tok)"
  proof (cases "(sl, tok) \<in> holders w")
    case True
    with inv obtain i h0 where "i < cf_capacity c" "sl = show_nat i"
        "vw (store w) state = Some (RHash h0, None)" "h0 sl = Some tok" by (rule slots_heldD)
    with vws assms(3) [OF new True] show ?thesis by auto
  next
    case False
    with assms(4) [OF new] vws show ?thesis by auto
  qed
qed

lemma slots_held_same:
  assumes "slots_held vw state c w" "vw s' state = vw (store w) state" "H \<subseteq> holders w"
  shows "slots_held vw state c \<lparr>store = s', holders = H\<rparr>"
  using assms by (auto simp: slots_held_def)

lemma slots_held_acquire:
  assumes lim: "global_max c \<le> 99998" "source_max c \<le> 99998" "credential_max c \<le> 99998"
    and inv: "slots_held vw state c w" and run: "acquire R state kg ks kc c tok (store w) = (r, s')"
    and keys: "distinct [state, kg, ks, kc]"
    and H: "H = holders w \<or> (\<exists>sl. r = Inr (Granted sl) \<and> H = insert (sl, tok) (holders w))"
  shows "slots_held vw state c \<lparr>store = s', holders = H\<rparr>"
  using run keys lim
proof (cases rule: acquire_cases)
  case (failed x)
  then have "H = holders w" "vw s' state = vw (store w) state" using H by auto
  with inv show ?thesis by (intro slots_held_same) auto
next
  case (saturated g sr cr h retry)
  then have "H = holders w" "vw s' state = vw (store w) state" using H by auto
  with inv show ?thesis by (intro slots_held_same) auto
next
  case (denied g sr cr h t retry)
  then have "H = holders w" "vw s' state = vw (store w) state" using H keys by auto
  with inv show ?thesis by (intro slots_held_same) auto
next
  case (granted g sr cr h t1 t2 t3 i)
  have h: "vw (store w) state = Some (RHash h, None)" using granted(1) by (simp add: admitted_def)
  have free: "sl' \<noteq> show_nat i" if "(sl', tok') \<in> holders w" for sl' tok'
    using inv that
  proof (rule slots_heldD)
    fix j h0 assume "vw (store w) state = Some (RHash h0, None)" "h0 sl' = Some tok'"
    with h granted(6) show ?thesis by auto
  qed
  show ?thesis
  proof (rule slots_held_frame [OF inv, of _ h "h(show_nat i \<mapsto> tok)"])
    fix sl' tok' assume "(sl', tok') \<in> holders \<lparr>store = s', holders = H\<rparr>" "(sl', tok') \<notin> holders w"
    then show "(\<exists>i < cf_capacity c. sl' = show_nat i) \<and> (h(show_nat i \<mapsto> tok)) sl' = Some tok'"
      using H granted(5,7) by auto
  next
    fix sl' tok' assume "(sl', tok') \<in> holders w"
    then show "(h(show_nat i \<mapsto> tok)) sl' = h sl'" using free by simp
  qed (simp add: h granted(11))
qed

lemma slots_held_release:
  assumes inv: "slots_held vw state c w" and run: "release R state c sl tok (store w) = (r, s')"
    and sl: "sl \<noteq> ''config''" and H: "H = holders w - {(sl, tok)}"
  shows "slots_held vw state c \<lparr>store = s', holders = H\<rparr>"
  using run sl
proof (cases rule: release_cases)
  case (failed x)
  with inv H show ?thesis by (intro slots_held_same) auto
next
  case (foreign h)
  with inv H show ?thesis by (intro slots_held_same) auto
next
  case (freed h)
  have other: "sl' \<noteq> sl" if "(sl', tok') \<in> H" for sl' tok'
  proof
    assume "sl' = sl"
    from that H have "(sl', tok') \<in> holders w" by simp
    with inv obtain j h0 where "vw (store w) state = Some (RHash h0, None)" "h0 sl' = Some tok'" by (rule slots_heldD)
    with freed(1,3) \<open>sl' = sl\<close> that H show False by auto
  qed
  show ?thesis
  proof (rule slots_held_frame [OF inv, of _ h "h(sl := None)"])
    fix sl' tok' assume "(sl', tok') \<in> holders \<lparr>store = s', holders = H\<rparr>"
    then show "(h(sl := None)) sl' = h sl'" using other by simp
  qed (use H freed(1,5) in auto)
qed

lemma slots_held_operation:
  assumes op: "store_operation R mk sid n script (store w) = (r, s')" and inv: "slots_held vw state c w"
    and H: "H \<subseteq> holders w \<or> (\<exists>v. r = Inr v)"
    and script: "\<And>r0. script (store w) = (r0, s') \<Longrightarrow> (\<exists>v. r = Inr v) \<longrightarrow> r0 = r \<Longrightarrow> slots_held vw state c \<lparr>store = s', holders = H\<rparr>"
  shows "slots_held vw state c \<lparr>store = s', holders = H\<rparr>"
  using op
proof (cases rule: store_operation_cases)
  case (untouched x)
  with H inv show ?thesis by (intro slots_held_same) auto
next
  case answered
  then show ?thesis by (intro script) auto
next
  case (unanswered r0 x)
  then show ?thesis by (intro script) auto
qed

lemma acquire_permit_script:
  assumes "acquire_permit R mk sid c key tok n rq s = (r, s')"
  obtains (identity) x where "r = Inl x" "s' = s"
  | (script) source credential q where
      "store_operation R mk sid n (acquire R (mk STATE) (mk ''sync-global'') (mk (''sync-source:'' @ source))
         (mk (''sync-credential:'' @ credential)) c tok) s = (q, s')"
      "\<exists>m. identity c (sr_meta rq) (credential_from rq) key = Inr (''sync-source:'' @ source, ''sync-credential:'' @ credential, m)"
      "\<And>sl meta. r = Inr (Granted sl, meta) \<Longrightarrow> q = Inr (Granted sl)"
proof (cases "identity c (sr_meta rq) (credential_from rq) key")
  case (Inl x)
  with assms show thesis by (intro identity [of x]) (simp_all add: acquire_permit_def sx_bind_def sx_lift_def)
next
  case (Inr t)
  obtain so cr m where t: "t = (so, cr, m)" by (cases t)
  obtain source where so: "so = ''sync-source:'' @ source" using Inr t by (auto simp: identity_def res_simps)
  obtain credential where cr: "cr = ''sync-credential:'' @ credential" using Inr t by (auto simp: identity_def res_simps)
  obtain q where "store_operation R mk sid n (acquire R (mk STATE) (mk ''sync-global'') (mk so) (mk cr) c tok) s = (q, s')"
      "\<And>sl meta. r = Inr (Granted sl, meta) \<Longrightarrow> q = Inr (Granted sl)"
    using assms Inr t
    by (auto simp: acquire_permit_def sx_bind_def sx_lift_def sx_return_def sx_guard_def
          split: prod.splits sum.splits permit_result.splits if_splits)
  with Inr t so cr show thesis by (intro script) auto
qed

lemma slots_held_permit:
  assumes lim: "global_max c \<le> 99998" "source_max c \<le> 99998" "credential_max c \<le> 99998" and "inj mk"
    and inv: "slots_held vw (mk STATE) c w"
    and run: "acquire_permit R mk sid c key tok n rq (store w) = (r, s')"
    and H: "H = holders w \<or> (\<exists>sl meta. r = Inr (Granted sl, meta) \<and> H = insert (sl, tok) (holders w))"
  shows "slots_held vw (mk STATE) c \<lparr>store = s', holders = H\<rparr>"
  using run
proof (cases rule: acquire_permit_script)
  case (identity x)
  with H inv show ?thesis by (intro slots_held_same) auto
next
  case (script source credential q)
  have grant: "H = holders w \<or> (\<exists>sl. q = Inr (Granted sl) \<and> H = insert (sl, tok) (holders w))"
    using H script(3) by blast
  show ?thesis
  proof (rule slots_held_operation [OF script(1) inv])
    show "H \<subseteq> holders w \<or> (\<exists>v. q = Inr v)" using grant by auto
    fix r0 assume run0: "acquire R (mk STATE) (mk ''sync-global'') (mk (''sync-source:'' @ source))
        (mk (''sync-credential:'' @ credential)) c tok (store w) = (r0, s')" and same: "(\<exists>v. q = Inr v) \<longrightarrow> r0 = q"
    have "H = holders w \<or> (\<exists>sl. r0 = Inr (Granted sl) \<and> H = insert (sl, tok) (holders w))"
      using grant same by blast
    then show "slots_held vw (mk STATE) c \<lparr>store = s', holders = H\<rparr>"
      by (rule slots_held_acquire [OF lim inv run0 admission_keys [OF \<open>inj mk\<close>]])
  qed
qed

lemma slots_held_step:
  assumes lim: "global_max c \<le> 99998" "source_max c \<le> 99998" "credential_max c \<le> 99998" and "inj mk"
    and inv: "slots_held vw (mk STATE) c w" and step: "admission_step R vw mk sid c key w w'"
  shows "slots_held vw (mk STATE) c w'"
  using step
proof (cases rule: admission_step.cases)
  case (admit tok n rq sl meta s')
  then show ?thesis using slots_held_permit [OF lim \<open>inj mk\<close> inv admit(2)] by simp
next
  case (denied tok n rq r s')
  then show ?thesis using slots_held_permit [OF lim \<open>inj mk\<close> inv denied(2)] by simp
next
  case (finish sl tok n r s')
  from inv finish(2) obtain i h0 where "sl = show_nat i" by (rule slots_heldD)
  then have "sl \<noteq> ''config''" using show_nat_not_config by simp
  show ?thesis unfolding finish(1)
  proof (rule slots_held_operation [OF finish(3) inv])
    fix r0 assume "release R (mk STATE) c sl tok (store w) = (r0, s')"
    then show "slots_held vw (mk STATE) c \<lparr>store = s', holders = holders w - {(sl, tok)}\<rparr>"
      using \<open>sl \<noteq> ''config''\<close> by (rule slots_held_release [OF inv]) simp
  qed blast
next
  case (other s')
  with inv show ?thesis by (simp add: slots_held_same)
next
  case (quiesced n gen fresh r s')
  then show ?thesis by (simp add: slots_held_def)
qed

end

end
