(* ===== verification/Admission_Props.thy ===== *)
theory Admission_Props
  imports Admission_Facts
begin

text \<open>
  The guarantees of the sync admission over any network and any interleaving of workers:
  mutual exclusion, rate limits, permits as the only way to the application, slots that
  are returned, readiness after initialisation, and what the client identity depends on.
\<close>

section \<open>Configuration\<close>

lemma configured_max_bounds:
  "configured_max environ k d ceil = Inr v \<Longrightarrow> 1 \<le> v \<and> v \<le> ceil"
  by (auto simp: configured_max_def Let_def split: if_splits)

lemma configuredE:
  assumes "configured environ = Inr c"
  obtains "cf_capacity c = 1" "1 \<le> cf_window c" "cf_window c \<le> 300" "1 \<le> global_max c" "global_max c \<le> 1200"
    "1 \<le> source_max c" "source_max c \<le> 1200" "1 \<le> credential_max c" "credential_max c \<le> 1200"
    "cf_mode c = ''direct'' \<and> cf_peers c = [] \<or> cf_mode c = ''proxy'' \<and> cf_peers c \<noteq> []"
  using assms that
  by (auto simp: configured_def res_simps Let_def split: if_splits dest!: configured_max_bounds)

lemma configured_limits:
  assumes "configured environ = Inr c"
  shows "global_max c \<le> 99998" "source_max c \<le> 99998" "credential_max c \<le> 99998"
  by (rule configuredE [OF assms], linarith)+

section \<open>Logs\<close>

lemma add_filter_mem: "SecretPathFilter \<in> set (fs n) \<or> n = name \<Longrightarrow> SecretPathFilter \<in> set (add_filter name fs n)"
  by (auto simp: add_filter_def)

lemma admission_init_filters: "n \<in> set LOGGERS \<Longrightarrow> SecretPathFilter \<in> set (admission_init fs n)"
  by (auto simp: admission_init_def LOGGERS_def intro!: add_filter_mem)

lemma admission_init_idem: "admission_init (admission_init fs) = admission_init fs"
proof -
  have same: "add_filter n gs = gs" if "SecretPathFilter \<in> set (gs n)" for n and gs :: "string \<Rightarrow> 'a log_filter list"
    using that by (simp add: add_filter_def)
  have "fold add_filter ns gs = gs" if "\<And>n. n \<in> set ns \<Longrightarrow> SecretPathFilter \<in> set (gs n)" for ns and gs :: "string \<Rightarrow> 'a log_filter list"
    using that by (induction ns) (auto simp: same)
  then show ?thesis using admission_init_filters [of _ fs] by (simp add: admission_init_def [of "admission_init fs"])
qed

lemma contains_append: "contains needle (xs @ needle @ ys)"
proof (induction xs)
  case Nil
  show ?case using startswith_append [of needle ys] by (cases "needle @ ys") auto
qed simp

lemma sync_paths_not_logged:
  \<comment> \<open>once the middleware is constructed, its loggers drop every record whose message shows a sync path\<close>
  assumes n: "n \<in> set LOGGERS" and p: "p \<in> set PREFIXES" and m: "py_lower_ascii message = xs @ p @ ys"
  shows "\<not> logger_passes run (admission_init fs n) path message"
proof -
  have "contains p (py_lower_ascii message)" unfolding m by (rule contains_append)
  with p have "\<not> secret_path_filter path message" by (auto simp: secret_path_filter_def list_ex_iff)
  with admission_init_filters [OF n, of fs] show ?thesis by (force simp: logger_passes_def list_all_iff)
qed

section \<open>Rates\<close>

datatype permit_op = Attempt string net sync_request | Finish string string net

fun permit_op_run :: "'s redis \<Rightarrow> (string \<Rightarrow> string) \<Rightarrow> string \<Rightarrow> config \<Rightarrow> string \<Rightarrow> permit_op \<Rightarrow> 's \<Rightarrow> bool \<times> 's" where
  "permit_op_run R mk sid c key (Attempt tok n rq) s =
     (case acquire_permit R mk sid c key tok n rq s of (r, s') \<Rightarrow> (\<exists>sl meta. r = Inr (Granted sl, meta), s'))"
| "permit_op_run R mk sid c key (Finish sl tok n) s =
     (False, snd (store_operation R mk sid n (release R (mk STATE) c sl tok) s))"

fun charges :: "config \<Rightarrow> string \<Rightarrow> string \<Rightarrow> permit_op \<Rightarrow> bool" where
  \<comment> \<open>the counter \<open>k\<close> is the global one, or the operation's source or credential\<close>
  "charges c key k (Finish sl tok n) = False"
| "charges c key k (Attempt tok n rq) =
     (k = ''sync-global'' \<or> (\<exists>so cr m. identity c (sr_meta rq) (credential_from rq) key = Inr (so, cr, m) \<and> (k = so \<or> k = cr)))"

definition limit_of :: "config \<Rightarrow> string \<Rightarrow> nat" where
  "limit_of c k =
     (if k = ''sync-global'' then global_max c
      else if startswith k ''sync-source:'' then source_max c else credential_max c)"

definition charged_run :: "'s redis \<Rightarrow> (string \<Rightarrow> string) \<Rightarrow> string \<Rightarrow> config \<Rightarrow> string \<Rightarrow> string \<Rightarrow> permit_op \<Rightarrow> 's \<Rightarrow> bool \<times> 's" where
  "charged_run R mk sid c key k x s =
     (charges c key k x \<and> fst (permit_op_run R mk sid c key x s), snd (permit_op_run R mk sid c key x s))"

lemma counter_ok_spent: "counter_ok e limit window n \<Longrightarrow> spent_of e = n"
  by (auto simp: counter_ok_def split: if_splits)

lemma spent_of_hash [simp]: "spent_of (Some (RHash h, t)) = 0"
  by (simp add: spent_of_def)

lemma limit_of_simps [simp]:
  "limit_of c ''sync-global'' = global_max c"
  "limit_of c (''sync-source:'' @ x) = source_max c"
  "limit_of c (''sync-credential:'' @ x) = credential_max c"
  by (simp_all add: limit_of_def)

context redis_laws
begin

lemma admitted_spent:
  assumes "admitted state kg ks kc c s (g, sr, cr) h"
  shows "spent_of (vw s kg) = g" "spent_of (vw s ks) = sr" "spent_of (vw s kc) = cr" "spent_of (vw s state) = 0"
  using assms by (auto simp: admitted_def intro: counter_ok_spent)

lemma acquire_spent:
  assumes run: "acquire R state kg ks kc c tok s = (r, s')" and keys: "distinct [state, kg, ks, kc]"
    and lim: "global_max c \<le> 99998" "source_max c \<le> 99998" "credential_max c \<le> 99998"
  shows "spent_of (vw s k) \<le> spent_of (vw s' k)"
    and "r = Inr (Granted sl) \<Longrightarrow> (k, limit) \<in> {(kg, global_max c), (ks, source_max c), (kc, credential_max c)} \<Longrightarrow>
      spent_of (vw s k) < spent_of (vw s' k) \<and> spent_of (vw s' k) \<le> limit"
proof -
  from run keys lim have "spent_of (vw s k) \<le> spent_of (vw s' k) \<and> (r = Inr (Granted sl) \<longrightarrow>
      (k, limit) \<in> {(kg, global_max c), (ks, source_max c), (kc, credential_max c)} \<longrightarrow>
      spent_of (vw s k) < spent_of (vw s' k) \<and> spent_of (vw s' k) \<le> limit)"
  proof (cases rule: acquire_cases)
    case (denied g sr cr h t retry)
    then show ?thesis using admitted_spent [OF denied(1)] by (cases "k = kg") simp_all
  next
    case (granted g sr cr h t1 t2 t3 i)
    note old = admitted_spent [OF granted(1)]
    consider "k = state" | "k = kg" | "k = ks" | "k = kc" | "k \<notin> {state, kg, ks, kc}" by blast
    then show ?thesis
      by cases (use keys old granted(2-4) in \<open>auto simp: granted(11)\<close>)
  qed simp_all
  then show "spent_of (vw s k) \<le> spent_of (vw s' k)"
    and "r = Inr (Granted sl) \<Longrightarrow> (k, limit) \<in> {(kg, global_max c), (ks, source_max c), (kc, credential_max c)} \<Longrightarrow>
      spent_of (vw s k) < spent_of (vw s' k) \<and> spent_of (vw s' k) \<le> limit" by blast+
qed

lemma release_spent:
  assumes "store_operation R mk sid n (release R state c sl tok) s = (r, s')" "sl \<noteq> ''config''"
  shows "spent_of (vw s k) \<le> spent_of (vw s' k)"
proof -
  have script: ?thesis if "release R state c sl tok s = (r0, s')" for r0
    using that assms(2) by (cases rule: release_cases) auto
  from assms(1) show ?thesis by (cases rule: store_operation_cases) (auto intro: script)
qed

lemma permit_spent:
  assumes run: "acquire_permit R mk sid c key tok n rq s = (r, s')" and "inj mk"
    and lim: "global_max c \<le> 99998" "source_max c \<le> 99998" "credential_max c \<le> 99998"
  shows "spent_of (vw s (mk k)) \<le> spent_of (vw s' (mk k))"
    and "r = Inr (Granted sl, meta) \<Longrightarrow> charges c key k (Attempt tok n rq) \<Longrightarrow>
      spent_of (vw s (mk k)) < spent_of (vw s' (mk k)) \<and> spent_of (vw s' (mk k)) \<le> limit_of c k"
proof -
  let ?claim = "spent_of (vw s (mk k)) \<le> spent_of (vw s' (mk k)) \<and> (r = Inr (Granted sl, meta) \<longrightarrow>
      charges c key k (Attempt tok n rq) \<longrightarrow>
      spent_of (vw s (mk k)) < spent_of (vw s' (mk k)) \<and> spent_of (vw s' (mk k)) \<le> limit_of c k)"
  from run have ?claim
  proof (cases rule: acquire_permit_script)
    case (script so cr q)
    let ?so = "''sync-source:'' @ so" and ?cr = "''sync-credential:'' @ cr"
    have key: "(mk k, limit_of c k) \<in> {(mk ''sync-global'', global_max c), (mk ?so, source_max c), (mk ?cr, credential_max c)}"
      if "charges c key k (Attempt tok n rq)"
      using that script(2) limit_of_simps [of c] by (auto simp del: append.simps)
    note spent = acquire_spent [OF _ admission_keys [OF \<open>inj mk\<close>] lim]
    from script(1) show ?thesis
    proof (cases rule: store_operation_cases)
      case answered
      from spent [OF answered(4)] key script(3) show ?thesis by blast
    next
      case (unanswered r0 x)
      from spent(1) [OF unanswered(3)] script(3) unanswered(4) show ?thesis by blast
    qed (use script(3) in auto)
  qed auto
  then show "spent_of (vw s (mk k)) \<le> spent_of (vw s' (mk k))"
    and "r = Inr (Granted sl, meta) \<Longrightarrow> charges c key k (Attempt tok n rq) \<Longrightarrow>
      spent_of (vw s (mk k)) < spent_of (vw s' (mk k)) \<and> spent_of (vw s' (mk k)) \<le> limit_of c k" by blast+
qed

lemma permit_metered:
  assumes "inj mk" and lim: "global_max c \<le> 99998" "source_max c \<le> 99998" "credential_max c \<le> 99998"
  shows "metered (\<lambda>x. \<forall>sl tok n. x = Finish sl tok n \<longrightarrow> sl \<noteq> ''config'') (charged_run R mk sid c key k)
    (\<lambda>s. spent_of (vw s (mk k))) (limit_of c k)"
proof
  fix x s s' assume ok: "\<forall>sl tok n. x = Finish sl tok n \<longrightarrow> sl \<noteq> ''config''"
  {
    assume "charged_run R mk sid c key k x s = (True, s')"
    then obtain tok n rq sl meta where "charges c key k (Attempt tok n rq)"
        "acquire_permit R mk sid c key tok n rq s = (Inr (Granted sl, meta), s')"
      by (cases x) (auto simp: charged_run_def simp del: charges.simps(2) split: prod.splits)
    then show "spent_of (vw s (mk k)) < spent_of (vw s' (mk k)) \<and> spent_of (vw s' (mk k)) \<le> limit_of c k"
      using permit_spent(2) [OF _ assms] by blast
  next
    assume run: "charged_run R mk sid c key k x s = (False, s')"
    show "spent_of (vw s (mk k)) \<le> spent_of (vw s' (mk k))"
    proof (cases x)
      case (Attempt tok n rq)
      then show ?thesis using run permit_spent(1) [OF _ assms] by (auto simp: charged_run_def split: prod.splits)
    next
      case (Finish sl tok n)
      then have "sl \<noteq> ''config''" using ok by blast
      with run Finish show ?thesis
        by (auto simp: charged_run_def intro: release_spent [where r = "fst r" for r, OF prod.collapse [symmetric]])
    qed
  }
qed

text \<open>What one answered attempt and one answered release do to the admission state.\<close>

lemma permit_granted:
  assumes conf: "configured environ = Inr c" and "inj mk" and ident: "identity c (sr_meta rq) (credential_from rq) key = Inr (so, cr, m)"
    and guard: "store_guard R (mk STORE_MARKER) sid s = Inr ()" and ready: "security_client R s = Inr ()"
    and st: "vw s (mk STATE) = Some (RHash h, None)" "state_ok c h" "h ''0'' = None"
    and none: "vw s (mk ''sync-global'') = None" "vw s (mk so) = None" "vw s (mk cr) = None"
  obtains s' where "acquire_permit R mk sid c key tok Delivered rq s = (Inr (Granted ''0'', m), s')"
    "vw s' (mk STATE) = Some (RHash (h(''0'' \<mapsto> tok)), None)"
    "acquire R (mk STATE) (mk ''sync-global'') (mk so) (mk cr) c tok s = (Inr (Granted ''0''), s')"
proof -
  from conf have cap: "cf_capacity c = 1" "0 < global_max c" "0 < source_max c" "0 < credential_max c"
    by (rule configuredE; simp)+
  obtain so' cr' where keys: "so = ''sync-source:'' @ so'" "cr = ''sync-credential:'' @ cr'"
    using ident by (auto simp: identity_def res_simps)
  have adm: "admitted (mk STATE) (mk ''sync-global'') (mk so) (mk cr) c s (0, 0, 0) h"
    using st none by (simp add: admitted_def counter_ok_def)
  have zero: "h (show_nat 0) = None" using st(3) by (simp add: show_nat_0)
  obtain j where j: "j < cf_capacity c"
      "fst (acquire R (mk STATE) (mk ''sync-global'') (mk so) (mk cr) c tok s) = Inr (Granted (show_nat j))"
      "vw (snd (acquire R (mk STATE) (mk ''sync-global'') (mk so) (mk cr) c tok s)) (mk STATE) = Some (RHash (h(show_nat j \<mapsto> tok)), None)"
    using acquire_granted [OF adm admission_keys [OF \<open>inj mk\<close>, of so' cr', folded keys] configured_limits [OF conf] cap(2-4) _ zero]
      cap(1) by (metis zero_less_one)
  then have "j = 0" using cap(1) by simp
  obtain r s' where run: "acquire R (mk STATE) (mk ''sync-global'') (mk so) (mk cr) c tok s = (r, s')" by fastforce
  with j(2) \<open>j = 0\<close> have "r = Inr (Granted ''0'')" by (simp add: show_nat_0)
  with run have acq: "acquire R (mk STATE) (mk ''sync-global'') (mk so) (mk cr) c tok s = (Inr (Granted ''0''), s')" by simp
  then have "acquire_permit R mk sid c key tok Delivered rq s = (Inr (Granted ''0'', m), s')"
    using ident guard ready
    by (simp add: acquire_permit_def sx_bind_def sx_lift_def store_operation_def client_eval_def guarded_def sx_guard_def sx_return_def)
  then show thesis using j(3) \<open>j = 0\<close> acq by (intro that) (simp_all add: show_nat_0)
qed

lemma permit_answered:
  assumes conf: "configured environ = Inr c" and "inj mk" and run: "acquire_permit R mk sid c key tok n rq s = (r, s')"
  obtains (refused) "\<nexists>sl meta. r = Inr (Granted sl, meta)" "n = Delivered \<Longrightarrow> vw s' (mk STATE) = vw s (mk STATE)"
  | (granted) meta h where "r = Inr (Granted ''0'', meta)" "vw s (mk STATE) = Some (RHash h, None)" "state_ok c h"
      "h ''0'' = None" "vw s' (mk STATE) = Some (RHash (h(''0'' \<mapsto> tok)), None)"
  using run
proof (cases rule: acquire_permit_script)
  case (identity x)
  then show thesis by (intro refused) auto
next
  case (script so cr q)
  from conf have cap: "cf_capacity c = 1" by (rule configuredE)
  have eff: "if \<exists>sl. r0 = Inr (Granted sl) then \<exists>h. r0 = Inr (Granted ''0'') \<and> vw s (mk STATE) = Some (RHash h, None) \<and> state_ok c h
        \<and> h ''0'' = None \<and> vw s' (mk STATE) = Some (RHash (h(''0'' \<mapsto> tok)), None)
      else vw s' (mk STATE) = vw s (mk STATE)"
    if "acquire R (mk STATE) (mk ''sync-global'') (mk (''sync-source:'' @ so)) (mk (''sync-credential:'' @ cr)) c tok s = (r0, s')" for r0
    using that admission_keys [OF \<open>inj mk\<close>, of so cr] configured_limits [OF conf]
  proof (cases rule: acquire_cases)
    case (denied g sr cr h t retry)
    then show ?thesis using \<open>inj mk\<close> by (simp add: STATE_def inj_eq)
  next
    case (granted g sr cr' h t1 t2 t3 i)
    then have "i = 0" using cap by simp
    with granted show ?thesis by (auto simp: show_nat_0 admitted_def)
  qed simp_all
  from script(1) show thesis
  proof (cases rule: store_operation_cases)
    case (untouched x)
    with script(3) show thesis by (intro refused) auto
  next
    case (unanswered r0 x)
    show thesis
    proof (rule refused)
      assume "n = Delivered"
      with script(1) unanswered have "(r0, s') = (q, s')"
        by (simp add: store_operation_def client_eval_def guarded_def)
      with eff [OF unanswered(3)] unanswered(4) show "vw s' (mk STATE) = vw s (mk STATE)" by simp
    qed (use script(3) unanswered(4) in auto)
  next
    case answered
    show thesis
    proof (cases "\<exists>sl meta. r = Inr (Granted sl, meta)")
      case True
      with eff [OF answered(4)] script(3) show thesis by (auto intro: granted)
    next
      case False
      show thesis
      proof (cases "\<exists>sl. q = Inr (Granted sl)")
        case True
        with eff [OF answered(4)] have "q = Inr (Granted ''0'')" by auto
        with run script(1,2) have "\<exists>meta. r = Inr (Granted ''0'', meta)"
          by (auto simp: acquire_permit_def sx_bind_def sx_lift_def sx_guard_def sx_return_def)
        with False show thesis by blast
      next
        case no: False
        with eff [OF answered(4)] False show thesis by (intro refused) auto
      qed
    qed
  qed
qed

lemma release_answered:
  assumes guard: "store_guard R (mk STORE_MARKER) sid s = Inr ()" and ready: "security_client R s = Inr ()"
    and st: "vw s (mk STATE) = Some (RHash (h(''0'' \<mapsto> tok)), None)" "state_ok c (h(''0'' \<mapsto> tok))" "h ''0'' = None"
  obtains s' where "store_operation R mk sid Delivered (release R (mk STATE) c ''0'' tok) s = (Inr 1, s')"
    "vw s' (mk STATE) = Some (RHash h, None)"
proof -
  obtain r s' where run: "release R (mk STATE) c ''0'' tok s = (r, s')" by fastforce
  have op: "store_operation R mk sid Delivered (release R (mk STATE) c ''0'' tok) s = (r, s')"
    using guard ready run by (simp add: store_operation_def client_eval_def guarded_def)
  have undone: "(h(''0'' \<mapsto> tok))(''0'' := None) = h" using st(3) by (simp add: fun_upd_idem)
  from run have "''0'' \<noteq> ''config'' \<Longrightarrow> thesis"
    by (cases rule: release_cases) (use st undone op that in auto)
  then show thesis by simp
qed

end

interpretation mem_rates: metered "\<lambda>x. \<forall>sl tok n. x = Finish sl tok n \<longrightarrow> sl \<noteq> ''config''"
    "charged_run mem_redis (\<lambda>k. k) sid \<lparr>cf_window = 60, global_max = 120, source_max = 60, credential_max = 30,
       cf_capacity = 1, cf_mode = ''direct'', cf_peers = []\<rparr> key ''sync-global''"
    "\<lambda>s. spent_of (mem_view s ''sync-global'')" 120 for sid key
  using mem.permit_metered [of "\<lambda>k. k" "\<lparr>cf_window = 60, global_max = 120, source_max = 60, credential_max = 30,
       cf_capacity = 1, cf_mode = ''direct'', cf_peers = []\<rparr>" sid key "''sync-global''"] by simp

section \<open>The middleware\<close>

lemma single_slot:
  assumes "slot_ok 1 f t"
  shows "f = ''0''"
proof -
  from assms obtain d where d: "f = [d]" "is_digit d" "read_digits f = 0"
    by (auto simp: slot_ok_def fullmatch_n_def length_Suc_conv)
  then have "ord d = ord (CHR ''0'')" by (simp add: read_digits_def is_digit_def in_range_def digit_val_def)
  then have "d = CHR ''0''" by (simp only: of_char_eq_iff)
  with d(1) show ?thesis by simp
qed

lemma state_ok_slot:
  assumes ok: "state_ok c h" and cap: "cf_capacity c = 1" and free: "h ''0'' = None" and tok: "fullmatch_n is_urlsafe 43 tok"
  shows "state_ok c (h(''0'' \<mapsto> tok))"
proof -
  have "dom h \<subseteq> {''config'', ''generation''}"
  proof
    fix f assume "f \<in> dom h"
    then show "f \<in> {''config'', ''generation''}"
      using ok cap free single_slot by (fastforce simp: state_ok_def)
  qed
  then have "card (dom h) \<le> card {''config'', ''generation''}" by (rule card_mono [rotated]) simp
  then have "card (insert ''0'' (dom h)) \<le> 3"
    using card_insert_le_m1 [of 3 "dom h" "''0''"] by simp
  moreover have "slot_ok (cf_capacity c) ''0'' (Some tok)"
    using tok cap read_digits_show_nat [of 0] by (simp add: slot_ok_def show_nat_0 fullmatch_n_def is_digit_def in_range_def)
  ultimately show ?thesis using ok cap by (auto simp: state_ok_def)
qed

definition keeps_state :: "('s \<Rightarrow> keyspace) \<Rightarrow> string \<Rightarrow> ('q \<Rightarrow> ('s, 'r) sx) \<Rightarrow> bool" where
  "keeps_state vw state app \<longleftrightarrow> (\<forall>rq s. vw (snd (app rq s)) state = vw s state)"

definition store_ready :: "'s redis \<Rightarrow> (string \<Rightarrow> string) \<Rightarrow> string \<Rightarrow> 's \<Rightarrow> bool" where
  "store_ready R mk sid s \<longleftrightarrow> store_guard R (mk STORE_MARKER) sid s = Inr () \<and> security_client R s = Inr ()"

lemma admission_call_granted:
  assumes "is_sync_path (path_info rq)" and run: "acquire_permit R mk sid c key tok n1 rq s = (Inr (Granted sl, meta), s1)"
    and app: "get_response (rq\<lparr>sr_meta := meta, azd_santa_admission := Some \<lparr>slot = sl, token = tok\<rparr>\<rparr>) s1 = (r, s2)"
  shows "admission_call R mk sid c key tok n1 n2 streaming get_response rq s =
    (let unlock = store_operation R mk sid n2 (release R (mk STATE) c sl tok) s2
     in case r of
          Inl x \<Rightarrow> (Inl x, snd unlock)
        | Inr v \<Rightarrow> if streaming v then (Inr (rejected c 503 1), s2)
                 else (case unlock of
                         (Inr k, s3) \<Rightarrow> (Inr (if k \<noteq> 1 then rejected c 503 1 else App v), s3)
                       | (Inl _, s3) \<Rightarrow> (Inr (rejected c 503 1), s3)))"
  using assms by (simp add: admission_call_def Let_def split: sum.splits)

lemma admission_call_refused:
  assumes "is_sync_path (path_info rq)" and "acquire_permit R mk sid c key tok n1 rq s = (r, s1)"
    and "\<nexists>sl meta. r = Inr (Granted sl, meta)"
  shows "\<exists>status retry. admission_call R mk sid c key tok n1 n2 streaming get_response rq s = (Inr (rejected c status retry), s1)
    \<and> status \<in> {429, 503}"
  using assms by (auto simp: admission_call_def split: sum.splits permit_result.splits prod.splits)

section \<open>Properties\<close>

lemma admission_steps:
  assumes "redis_laws R vw" "configured environ = Inr c" "inj mk"
  shows "invariant_steps (admission_step R vw mk sid c key) (slots_held vw (mk STATE) c)"
  using redis_laws.slots_held_step [OF assms(1) configured_limits [OF assms(2)] assms(3)]
  by unfold_locales blast

text \<open>
  C14: mutual exclusion.  Starting with no handler at work, whatever calls the workers make,
  over a network that may lose calls and answers, and whatever happens to the other keys of
  the store, at most one admitted handler is at work at any time.
\<close>

theorem admission_exclusive:
  assumes "configured environ = Inr c" "redis_laws R vw" "inj mk"
    and "(admission_step R vw mk sid c key)\<^sup>*\<^sup>* \<lparr>store = s, holders = {}\<rparr> w"
  shows "finite (holders w) \<and> card (holders w) \<le> 1"
proof -
  have "slots_held vw (mk STATE) c \<lparr>store = s, holders = {}\<rparr>" by (simp add: slots_held_def)
  with assms(4) have "slots_held vw (mk STATE) c w"
    by (rule invariant_steps.steps_inv [OF admission_steps [OF assms(2,1,3)]])
  from slots_held_card [OF this] assms(1) show ?thesis by (auto elim: configuredE)
qed

text \<open>
  C15: rate limits.  In any sequence of attempts and releases, the attempts that are granted
  a permit and charge one counter, together with what it had already counted, never exceed
  its limit: the global one, the one of a source address, the one of a credential.
\<close>

theorem admission_rate_limited:
  assumes "configured environ = Inr c" "redis_laws R vw" "inj mk"
    and "\<forall>x \<in> set ops. \<forall>sl tok n. x = Finish sl tok n \<longrightarrow> sl \<noteq> ''config''"
  shows "fst (run_ops (charged_run R mk sid c key k) ops s) \<le> limit_of c k - spent_of (vw s (mk k))"
  using metered.granted_within_limit [OF redis_laws.permit_metered [OF assms(2,3) configured_limits [OF assms(1)]]] assms(4)
  by (simp add: list_all_iff)

text \<open>
  C16: on a sync path the application runs only behind a permit.  Two applications that
  agree on the requests whose permit holds its slot in the store cannot be told apart
  through the middleware, whatever the network and the store do.
\<close>

theorem application_needs_permit:
  assumes "configured environ = Inr c" "redis_laws R vw" "inj mk" "is_sync_path (path_info rq)"
    and agree: "\<And>rq' s' h. azd_santa_admission rq' = Some \<lparr>slot = ''0'', token = tok\<rparr> \<Longrightarrow>
      vw s' (mk STATE) = Some (RHash h, None) \<Longrightarrow> h ''0'' = Some tok \<Longrightarrow> f rq' s' = g rq' s'"
  shows "admission_call R mk sid c key tok n1 n2 streaming f rq s = admission_call R mk sid c key tok n1 n2 streaming g rq s"
proof -
  obtain r s1 where run: "acquire_permit R mk sid c key tok n1 rq s = (r, s1)" by fastforce
  from redis_laws.permit_answered [OF assms(2,1,3) run] show ?thesis
  proof (cases, goal_cases)
    case 1
    with run assms(4) show ?case by (auto simp: admission_call_def split: sum.splits permit_result.splits prod.splits)
  next
    case (2 meta h)
    have "f (rq\<lparr>sr_meta := meta, azd_santa_admission := Some \<lparr>slot = ''0'', token = tok\<rparr>\<rparr>) s1 =
        g (rq\<lparr>sr_meta := meta, azd_santa_admission := Some \<lparr>slot = ''0'', token = tok\<rparr>\<rparr>) s1"
      using 2(5) by (intro agree [of _ _ "h(''0'' \<mapsto> tok)"]) simp_all
    with 2(1) run assms(4) show ?case by (simp add: admission_call_def)
  qed
qed


lemma fresh_state:
  assumes laws: "redis_laws R vw" and "inj mk" and gen: "fullmatch_n is_lower_hex 32 generation"
    and run: "initialize_security_store R mk sid n vacant STATE (fingerprint c) generation ''fresh'' quiesced s = (Inr (), s')"
  shows "vacant" "vw s (mk STATE) = None" "vw s (mk STORE_MARKER) = None"
    "vw s' = (vw s)(mk STORE_MARKER \<mapsto> (RStr (marker_value R sid 0 s), None),
       mk STATE \<mapsto> (RHash [''config'' \<mapsto> fingerprint c, ''generation'' \<mapsto> generation], None))"
    "state_ok c [''config'' \<mapsto> fingerprint c, ''generation'' \<mapsto> generation]"
proof -
  from run have fr: "vacant" "fresh_script R (mk STORE_MARKER) (mk STATE) sid 0 (fingerprint c) generation s = (Inr 1, s')"
    by (cases rule: initialize_cases; simp)+
  have ne: "mk STORE_MARKER \<noteq> mk STATE" using \<open>inj mk\<close> by (simp add: inj_eq STORE_MARKER_def STATE_def)
  from fr(2) show none: "vw s (mk STATE) = None" "vw s (mk STORE_MARKER) = None"
    using redis_laws.exists_law [OF laws, of _ s] by (simp_all add: fresh_script_def del: not_None_eq split: if_splits)
  define s1 where "s1 = rd_set R (mk STORE_MARKER) (marker_value R sid 0 s) None s"
  obtain u1 s2 where set1: "rd_hset R (mk STATE) ''config'' (fingerprint c) s1 = (u1, s2)" by fastforce
  obtain u2 s3 where set2: "rd_hset R (mk STATE) ''generation'' generation s2 = (u2, s3)" by fastforce
  have v1: "vw s1 = (vw s)(mk STORE_MARKER \<mapsto> (RStr (marker_value R sid 0 s), None))"
    unfolding s1_def by (rule redis_laws.set_law [OF laws])
  then have h1: "hash_of (vw s1 (mk STATE)) = Inr Map.empty" "ttl_of (vw s1 (mk STATE)) = None" using none(1) ne by simp_all
  have w1: "u1 = Inr ()" "vw s2 = (vw s1)(mk STATE \<mapsto> (RHash [''config'' \<mapsto> fingerprint c], None))"
    using redis_laws.hset_law [OF laws h1(1), of "''config''" "fingerprint c"] set1 h1(2) by simp_all
  then have h2: "hash_of (vw s2 (mk STATE)) = Inr [''config'' \<mapsto> fingerprint c]" "ttl_of (vw s2 (mk STATE)) = None" by simp_all
  have w2: "u2 = Inr ()" "vw s3 = (vw s2)(mk STATE \<mapsto> (RHash [''config'' \<mapsto> fingerprint c, ''generation'' \<mapsto> generation], None))"
    using redis_laws.hset_law [OF laws h2(1), of "''generation''" generation] by (simp_all only: set2 h2(2) fst_conv snd_conv)
  have "\<not> rd_exists R (mk STORE_MARKER) s" "\<not> rd_exists R (mk STATE) s"
    using none redis_laws.exists_law [OF laws] by simp_all
  then have "s' = s3"
    using fr(2) by (simp add: fresh_script_def s1_def [symmetric] set1 set2 w1(1) w2(1) sx_bind_def sx_return_def)
  then show "vw s' = (vw s)(mk STORE_MARKER \<mapsto> (RStr (marker_value R sid 0 s), None),
       mk STATE \<mapsto> (RHash [''config'' \<mapsto> fingerprint c, ''generation'' \<mapsto> generation], None))"
    using w1(2) w2(2) v1 by simp
  show "vacant" by (rule fr(1))
  have "card (dom [''config'' \<mapsto> fingerprint c, ''generation'' \<mapsto> generation]) = 2" by simp
  with gen show "state_ok c [''config'' \<mapsto> fingerprint c, ''generation'' \<mapsto> generation]"
    by (auto simp: state_ok_def split: if_splits)
qed


text \<open>
  C19: the counters a request is charged to cannot be chosen through forwarding headers.  In
  direct mode the identity depends on the peer address and the credential alone; behind a
  proxy it is refused unless the peer is one of the configured networks, and then depends
  on the proxy's own header and the credential alone.  The application sees no forwarding
  header but the canonical address.
\<close>

theorem identity_not_spoofable:
  assumes conf: "configured environ = Inr c" and ident: "identity c meta cred key = Inr (so, cr, m)"
    and addr: "meta' ''REMOTE_ADDR'' = meta ''REMOTE_ADDR''"
    and proxy: "cf_mode c = ''proxy'' \<Longrightarrow> meta' ''HTTP_X_AZD_SANTA_CLIENT_IP'' = meta ''HTTP_X_AZD_SANTA_CLIENT_IP''"
  shows "(\<exists>m'. identity c meta' cred key = Inr (so, cr, m'))
    \<and> (cf_mode c = ''proxy'' \<longrightarrow> (\<exists>a. ip_address (meta_get meta ''REMOTE_ADDR'') = Inr a \<and> trusted_peer a (cf_peers c) = Inr True))
    \<and> (\<exists>a. client_address c meta = Inr a \<and> m ''HTTP_X_REAL_IP'' = Some (show_ip a))
    \<and> (\<forall>f \<in> set FORWARD - {''HTTP_X_REAL_IP''}. m f = None) \<and> m ''HTTP_X_AZD_SANTA_CLIENT_IP'' = None"
proof -
  from conf have mode: "cf_mode c = ''direct'' \<or> cf_mode c = ''proxy''" by (rule configuredE) auto
  have same: "client_address c meta' = client_address c meta"
  proof (cases "cf_mode c = ''proxy''")
    case True
    then have "meta_get meta' ''REMOTE_ADDR'' = meta_get meta ''REMOTE_ADDR''"
        "meta_get meta' ''HTTP_X_AZD_SANTA_CLIENT_IP'' = meta_get meta ''HTTP_X_AZD_SANTA_CLIENT_IP''"
      using addr proxy by (simp_all add: meta_get_def)
    then show ?thesis by (simp only: client_address_def)
  next
    case False
    then show ?thesis using addr by (simp add: client_address_def meta_get_def)
  qed
  from ident obtain a where a: "client_address c meta = Inr a" "m = clean_meta a meta"
    by (auto simp: identity_def res_simps)
  have "\<exists>m'. identity c meta' cred key = Inr (so, cr, m')"
    using ident by (auto simp: identity_def res_simps same)
  moreover have "\<exists>a. ip_address (meta_get meta ''REMOTE_ADDR'') = Inr a \<and> trusted_peer a (cf_peers c) = Inr True"
    if "cf_mode c = ''proxy''"
    using a(1) that by (auto simp: client_address_def res_simps split: if_splits)
  ultimately show ?thesis using a by (auto simp: clean_meta_def FORWARD_def)
qed

section \<open>Scoped addresses\<close>

text \<open>
  The aggregation to a /64 drops the host bits of an address but keeps its scope when there
  are none to drop, so the same /64 has one source counter per scope identifier.
\<close>

lemma show_v6_0: "show_v6 0 (Some z) = ''::%'' @ z"
proof -
  have "hextets 0 = replicate 8 0" by (simp add: hextets_def map_replicate_trivial [symmetric])
  moreover have "join_on (CHR '':'') (compress (replicate 8 0)) = ''::''" by code_simp
  ultimately show ?thesis by (simp add: show_v6_def)
qed

lemma source_scope:
  assumes "z = ''a'' \<or> z = ''b''"
  shows "source_of (V6 0 (Some z)) = Inr (''::%'' @ z @ ''/64'')"
proof -
  have "v6_parts ''::'' = Some [[], [], []]" by code_simp
  moreover have "v6_layout [[], [], []] = Some (0, 0, 8)" by code_simp
  moreover have "foldl (\<lambda>n h. n * 65536 + h) 0 (replicate n 0) = (0::nat)" for n by (induction n) simp_all
  ultimately have p: "parse_v6_int ''::'' = Some 0" by (simp add: parse_v6_int_def v6_int_def)
  have v6: "parse_v6 (''::%'' @ z) = Some (0, Some z)"
    using assms p by (auto simp: parse_v6_def)
  have pre: "parse_prefix 128 ''64'' = Some 64" by code_simp
  have sp: "split_on (CHR ''/'') (''::%'' @ z @ ''/64'') = [''::%'' @ z, ''64'']"
    using assms by (elim disjE) (simp only: append.simps, code_simp)+
  have "parse_v4 (''::%'' @ z) = None" using assms by (elim disjE) (simp only: append.simps, code_simp)+
  then have n4: "network4 (''::%'' @ z @ ''/64'') = None" by (simp only: network4_def split_net_def sp) simp
  have n6: "network6 (''::%'' @ z @ ''/64'') = Some (0, Some z, 64)"
    by (simp only: network6_def split_net_def sp list.case option.case prod.case v6 pre)
  have "ip_network False (''::%'' @ z @ ''/64'') = Inr (Net6 0 (Some z) 64)"
    by (simp only: ip_network_def n4 n6 option.case prod.case) simp
  moreover have "show_nat 64 = ''64''" by code_simp
  ultimately show ?thesis by (simp add: source_of_def show_v6_0)
qed
lemma source_scope_evades:
  "in_network (V6 0 (Some ''a'')) (Net6 0 None 64) \<and> in_network (V6 0 (Some ''b'')) (Net6 0 None 64)
   \<and> source_of (V6 0 (Some ''a'')) \<noteq> source_of (V6 0 (Some ''b''))"
  by (simp add: source_scope [of "''a''"] source_scope [of "''b''"])

section \<open>Witnesses\<close>

definition fx_config :: config where
  "fx_config = \<lparr>cf_window = 60, global_max = 120, source_max = 60, credential_max = 30,
     cf_capacity = 1, cf_mode = ''direct'', cf_peers = []\<rparr>"

definition fx_empty :: mem where
  "fx_empty = fx_mem\<lparr>cells := Map.empty\<rparr>"

definition fx_generation :: string where
  "fx_generation = replicate 32 (CHR ''a'')"

definition fx_token :: string where
  "fx_token = replicate 43 (CHR ''t'')"

definition fx_started :: mem where
  "fx_started = snd (initialize_security_store mem_redis (\<lambda>k. k) ''ab'' Delivered True STATE (fingerprint fx_config)
     fx_generation ''fresh'' False fx_empty)"

definition fx_sync :: sync_request where
  "fx_sync = \<lparr>path_info = ''/santa/sync/abc/preflight/m'', sr_meta = [''REMOTE_ADDR'' \<mapsto> ''0.0.0.7''], azd_santa_admission = None\<rparr>"

lemma fx_configured: "configured (\<lambda>_. None) = Inr fx_config"
  unfolding fx_config_def by code_simp

lemma fx_init: "initialize_security_store mem_redis (\<lambda>k. k) ''ab'' Delivered True STATE fp gen ''fresh'' False fx_empty =
   (Inr (), fx_empty\<lparr>cells := [STORE_MARKER \<mapsto> (CStr ''ab:10'', None), STATE \<mapsto> (CHash [(''config'', fp), (''generation'', gen)], None)]\<rparr>)"
proof -
  have ready: "security_client mem_redis fx_empty = Inr ()" by code_simp
  have ten: "show_nat 10 = ''10''" by code_simp
  have ne: "STORE_MARKER \<noteq> STATE" "STATE \<noteq> STORE_MARKER" by code_simp+
  have "fresh_script mem_redis STORE_MARKER STATE ''ab'' 0 fp gen fx_empty =
      (Inr 1, fx_empty\<lparr>cells := [STORE_MARKER \<mapsto> (CStr ''ab:10'', None), STATE \<mapsto> (CHash [(''config'', fp), (''generation'', gen)], None)]\<rparr>)"
    by (simp add: fresh_script_def sx_bind_def sx_return_def mem_redis_def mem_hash_def mem_ttl_def marker_value_def
          fx_empty_def fx_mem_def ten ne fun_upd_twist)
  then show ?thesis
    by (simp add: initialize_security_store_def client_eval_def ready sx_bind_def sx_guard_def)
qed

lemma fx_started_eq: "fx_started = fx_empty\<lparr>cells := [STORE_MARKER \<mapsto> (CStr ''ab:10'', None),
    STATE \<mapsto> (CHash [(''config'', fingerprint fx_config), (''generation'', fx_generation)], None)]\<rparr>"
  by (simp add: fx_started_def fx_init)

lemma fx_ready:
  assumes "mem_view s STORE_MARKER = Some (RStr ''ab:10'', None)" "mem_time s = 10" "mem_config s = mem_config fx_mem"
    "mem_persistence s = mem_persistence fx_mem"
  shows "store_ready mem_redis (\<lambda>k. k) ''ab'' s"
proof -
  have "split_first (CHR '':'') ''ab:10'' = Some (''ab'', ''10'')" "list_all is_lower_hex ''ab''" "isdecimal ''10''" "read_digits ''10'' = 10"
    by code_simp+
  moreover have "rd_time mem_redis s = 10" "rd_config mem_redis s = mem_config fx_mem" "rd_persistence mem_redis s = mem_persistence fx_mem"
    using assms by (simp_all add: mem_redis_def)
  moreover have "rd_get mem_redis STORE_MARKER s = Inr (Some ''ab:10'')" using assms(1) by (simp add: mem.get_law)
  ultimately show ?thesis
    by (simp add: store_ready_def store_guard_def security_client_def fx_mem_def STORE_SETTINGS_def)
qed

definition mem_frame :: "mem \<Rightarrow> mem \<Rightarrow> bool" where
  "mem_frame s s' \<longleftrightarrow> mem_time s' = mem_time s \<and> mem_config s' = mem_config s \<and> mem_persistence s' = mem_persistence s"

interpretation mem_frame: frame mem_frame
  by unfold_locales (auto simp: mem_frame_def)

lemma mem_frame_bump: "mem_frame.keeps (bump mem_redis k n w)"
  by (rule mem_frame.keepsI)
     (auto simp: bump_def mem_redis_def mem_frame_def Let_def split: if_splits option.splits cell.splits prod.splits)

lemma mem_frame_hset: "mem_frame.keeps (rd_hset mem_redis k f v)"
  by (rule mem_frame.keepsI) (auto simp: mem_redis_def mem_frame_def split: sum.splits)

lemma mem_frame_acquire: "mem_frame.keeps (acquire mem_redis st kg ks kc c tok)"
proof (rule mem_frame.keepsI)
  fix s r s' assume run: "acquire mem_redis st kg ks kc c tok s = (r, s')"
  have rest: "mem_frame.keeps (\<lambda>s1. if sr \<ge> source_max c then (Inr (retry_after mem_redis ks s1), s1)
      else if cr \<ge> credential_max c then (Inr (retry_after mem_redis kc s1), s1)
      else (case free_slot mem_redis st (cf_capacity c) s1 of
         Inl x \<Rightarrow> (Inl x, s1)
       | Inr None \<Rightarrow> (Inr (Denied 1), s1)
       | Inr (Some sl) \<Rightarrow>
           sx_bind (bump mem_redis ks sr (cf_window c)) (\<lambda>_.
           sx_bind (bump mem_redis kc cr (cf_window c)) (\<lambda>_.
           sx_bind (rd_hset mem_redis st sl tok) (\<lambda>_. sx_return (Granted sl)))) s1))" for sr cr
    by (rule mem_frame.keepsI)
       (auto split: if_splits sum.splits option.splits intro: mem_frame.R_refl
          dest!: mem_frame.keepsD [OF mem_frame.keeps_bind [OF mem_frame_bump mem_frame.keeps_bind [OF mem_frame_bump
            mem_frame.keeps_bind [OF mem_frame_hset mem_frame.keeps_return]]]])
  show "mem_frame s s'"
    using run unfolding acquire_def
    by (auto split: sum.splits prod.splits if_splits intro: mem_frame.R_refl
          dest!: mem_frame.keepsD [OF mem_frame.keeps_bind [OF mem_frame_bump rest]])
qed

lemma fx_identity:
  obtains so cr m where "identity fx_config (sr_meta fx_sync) (credential_from fx_sync) ''key'' = Inr (so, cr, m)"
proof -
  have ip: "ip_address ''0.0.0.7'' = Inr (V4 7)" by code_simp
  have "meta_get (sr_meta fx_sync) ''REMOTE_ADDR'' = ''0.0.0.7''" by (simp add: fx_sync_def meta_get_def)
  then have "client_address fx_config (sr_meta fx_sync) = Inr (V4 7)"
    by (simp add: client_address_def ip) (simp add: fx_config_def)
  moreover have "valid_utf8 False ''key''" "valid_utf8 False (credential_from fx_sync)" "valid_utf8 False (show_v4 7)"
    by (code_simp, code_simp, simp add: show_v4_def, code_simp)
  ultimately show thesis by (intro that) (simp add: identity_def source_of_def identity_mac_def)
qed

lemma fx_chars: "fullmatch_n is_lower_hex 32 fx_generation" "fullmatch_n is_urlsafe 43 fx_token" "is_sync_path (path_info fx_sync)"
  by (simp_all add: fx_generation_def fx_token_def fullmatch_n_def is_lower_hex_def is_urlsafe_def is_alnum_def is_lower_def is_digit_def
        in_range_def is_sync_path_def fx_sync_def PREFIXES_def list_all_iff)

lemma fx_started_ready: "store_ready mem_redis (\<lambda>k. k) ''ab'' fx_started"
proof (rule fx_ready)
  have "STORE_MARKER \<noteq> STATE" by code_simp
  then show "mem_view fx_started STORE_MARKER = Some (RStr ''ab:10'', None)" by (simp add: fx_started_eq mem_view_def)
qed (simp_all add: fx_started_eq fx_empty_def fx_mem_def)

lemma fx_permit:
  obtains m s2 where "acquire_permit mem_redis (\<lambda>k. k) ''ab'' fx_config ''key'' fx_token Delivered fx_sync fx_started = (Inr (Granted ''0'', m), s2)"
    "store_ready mem_redis (\<lambda>k. k) ''ab'' s2"
proof -
  obtain so cr m where ident: "identity fx_config (sr_meta fx_sync) (credential_from fx_sync) ''key'' = Inr (so, cr, m)" by (rule fx_identity)
  then obtain so' cr' where keys: "so = ''sync-source:'' @ so'" "cr = ''sync-credential:'' @ cr'"
    by (auto simp: identity_def res_simps)
  have inj: "inj (\<lambda>k::string. k)" by simp
  note fresh = fresh_state [OF mem.redis_laws_axioms inj fx_chars(1) fx_init [of "fingerprint fx_config" fx_generation], folded fx_started_eq]
  have mt: "mem_view fx_empty = Map.empty" by (simp add: mem_view_def fx_empty_def fun_eq_iff)
  have st: "mem_view fx_started STATE = Some (RHash [''config'' \<mapsto> fingerprint fx_config, ''generation'' \<mapsto> fx_generation], None)"
    by (simp add: fresh(4))
  have none: "mem_view fx_started ''sync-global'' = None" "mem_view fx_started so = None" "mem_view fx_started cr = None"
    by (simp_all add: fresh(4) mt keys STATE_def STORE_MARKER_def)
  obtain s2 where run: "acquire_permit mem_redis (\<lambda>k. k) ''ab'' fx_config ''key'' fx_token Delivered fx_sync fx_started = (Inr (Granted ''0'', m), s2)"
      and acq: "acquire mem_redis STATE ''sync-global'' so cr fx_config fx_token fx_started = (Inr (Granted ''0''), s2)"
    using mem.permit_granted [OF fx_configured inj ident fx_started_ready [unfolded store_ready_def, THEN conjunct1]
        fx_started_ready [unfolded store_ready_def, THEN conjunct2] st fresh(5) _ none] by auto
  have "mem_frame fx_started s2" by (rule mem_frame.keepsD [OF mem_frame_acquire acq])
  moreover have "mem_view s2 STORE_MARKER = mem_view fx_started STORE_MARKER"
    using acq admission_keys [OF inj, of so' cr', folded keys] configured_limits [OF fx_configured]
    by (cases rule: mem.acquire_cases) (auto simp: keys STATE_def STORE_MARKER_def)
  moreover have "mem_view fx_started STORE_MARKER = Some (RStr ''ab:10'', None)" by (simp add: fx_started_eq mem_view_def STATE_def STORE_MARKER_def)
  ultimately have "store_ready mem_redis (\<lambda>k. k) ''ab'' s2"
    by (intro fx_ready) (simp_all add: mem_frame_def fx_started_eq fx_empty_def fx_mem_def)
  with run show thesis by (rule that)
qed

text \<open>A run of the witness store: one sync request is admitted.\<close>

theorem admission_exclusive_witness:
  "\<exists>w. (admission_step mem_redis mem_view (\<lambda>k. k) ''ab'' fx_config ''key'')\<^sup>*\<^sup>* \<lparr>store = fx_started, holders = {}\<rparr> w
     \<and> (''0'', fx_token) \<in> holders w \<and> card (holders w) \<le> 1"
proof -
  obtain m s2 where run: "acquire_permit mem_redis (\<lambda>k. k) ''ab'' fx_config ''key'' fx_token Delivered fx_sync fx_started = (Inr (Granted ''0'', m), s2)"
    by (rule fx_permit)
  let ?w = "\<lparr>store = s2, holders = {(''0'', fx_token)}\<rparr>"
  have "(admission_step mem_redis mem_view (\<lambda>k. k) ''ab'' fx_config ''key'')\<^sup>*\<^sup>* \<lparr>store = fx_started, holders = {}\<rparr> ?w"
    using admission_step.admit [of mem_redis "\<lambda>k. k" "''ab''" fx_config "''key''" fx_token Delivered fx_sync
        "\<lparr>store = fx_started, holders = {}\<rparr>" "''0''" m s2 mem_view] run by auto
  with admission_exclusive [OF fx_configured mem.redis_laws_axioms _ this] show ?thesis by auto
qed

theorem admission_rate_limited_witness:
  "fst (run_ops (charged_run mem_redis (\<lambda>k. k) ''ab'' fx_config ''key'' ''sync-global'')
     [Attempt fx_token Delivered fx_sync, Finish ''0'' fx_token Delivered] fx_started) \<le> 120"
  using admission_rate_limited [OF fx_configured mem.redis_laws_axioms, of "\<lambda>k. k"
      "[Attempt fx_token Delivered fx_sync, Finish ''0'' fx_token Delivered]" "''ab''" "''key''" "''sync-global''" fx_started]
  by (simp add: fx_config_def)

theorem application_needs_permit_witness:
  "admission_call mem_redis (\<lambda>k. k) ''ab'' fx_config ''key'' fx_token Delivered Delivered (\<lambda>_. False)
     (\<lambda>rq s. (if azd_santa_admission rq = None then Inl RuntimeError else Inr ''ok'', s)) fx_sync fx_started
   = admission_call mem_redis (\<lambda>k. k) ''ab'' fx_config ''key'' fx_token Delivered Delivered (\<lambda>_. False)
     (\<lambda>rq s. (Inr ''ok'', s)) fx_sync fx_started"
  by (rule application_needs_permit [OF fx_configured mem.redis_laws_axioms _ fx_chars(3)]) auto



theorem identity_not_spoofable_witness:
  "\<exists>so cr m m'. identity fx_config [''REMOTE_ADDR'' \<mapsto> ''0.0.0.7''] (credential_from fx_sync) ''key'' = Inr (so, cr, m)
     \<and> identity fx_config [''REMOTE_ADDR'' \<mapsto> ''0.0.0.7'', ''HTTP_X_FORWARDED_FOR'' \<mapsto> ''0.0.0.8''] (credential_from fx_sync) ''key'' = Inr (so, cr, m')"
proof -
  obtain so cr m where ident: "identity fx_config (sr_meta fx_sync) (credential_from fx_sync) ''key'' = Inr (so, cr, m)" by (rule fx_identity)
  have meta: "sr_meta fx_sync = [''REMOTE_ADDR'' \<mapsto> ''0.0.0.7'']" by (simp add: fx_sync_def)
  show ?thesis
    using identity_not_spoofable [OF fx_configured ident [unfolded meta],
        of "[''REMOTE_ADDR'' \<mapsto> ''0.0.0.7'', ''HTTP_X_FORWARDED_FOR'' \<mapsto> ''0.0.0.8'']"] ident [unfolded meta]
    by (auto simp: fx_config_def)
qed

end
