(* ===== verification/Py_Url.thy ===== *)
theory Py_Url
  imports Py_Numerals
begin

text \<open>
  The part of Python's \<open>urllib.parse\<close> the code uses: \<open>urlsplit\<close> with its parts and the
  derived \<open>hostname\<close>, \<open>port\<close>, \<open>username\<close> and \<open>password\<close>.  Two checks of the network location
  depend on the release of Python or on Unicode tables and are arguments (\<open>url_env\<close>): the
  one of a bracketed host, and the normalisation of a non-ASCII one.
\<close>

record url_env =
  bracket_ok :: "string \<Rightarrow> bool"
  nfkc_ok :: "string \<Rightarrow> bool"

record url =
  ur_scheme :: string
  ur_netloc :: string
  ur_path :: string
  ur_query :: string
  ur_fragment :: string

definition is_scheme_char :: "char \<Rightarrow> bool" where
  "is_scheme_char c \<longleftrightarrow> is_alnum c \<or> c \<in> {CHR ''+'', CHR ''-'', CHR ''.''}"

definition is_alpha :: "char \<Rightarrow> bool" where
  "is_alpha c \<longleftrightarrow> is_upper c \<or> is_lower c"

definition clean_url :: "string \<Rightarrow> string" where
  \<comment> \<open>leading control characters and spaces, and every tab and line break, are dropped\<close>
  "clean_url s = filter (\<lambda>c. c \<notin> {CHR 0x09, CHR 0x0A, CHR 0x0D}) (dropWhile (\<lambda>c. of_char c \<le> (32::nat)) s)"

definition split_scheme :: "string \<Rightarrow> string \<times> string" where
  "split_scheme s =
     (case split_first (CHR '':'') s of
        None \<Rightarrow> ([], s)
      | Some (a, b) \<Rightarrow> if a \<noteq> [] \<and> is_alpha (hd a) \<and> list_all is_scheme_char a then (py_lower_ascii a, b) else ([], s))"

definition split_netloc :: "string \<Rightarrow> string \<times> string" where
  "split_netloc s =
     (if startswith s ''//''
      then (let t = drop 2 s; p = (\<lambda>c. c \<notin> {CHR ''/'', CHR ''?'', CHR ''#''}) in (takeWhile p t, dropWhile p t))
      else ([], s))"

definition netloc_ok :: "url_env \<Rightarrow> string \<Rightarrow> bool" where
  "netloc_ok e n \<longleftrightarrow>
     (CHR ''['' \<in> set n \<longleftrightarrow> CHR '']'' \<in> set n)
     \<and> (CHR ''['' \<in> set n \<longrightarrow> bracket_ok e n)
     \<and> (n \<noteq> [] \<and> \<not> isascii n \<longrightarrow> nfkc_ok e n)"

definition urlsplit :: "url_env \<Rightarrow> string \<Rightarrow> url res" where
  "urlsplit e s =
     (let (scheme, s1) = split_scheme (clean_url s);
          (netloc, s2) = split_netloc s1;
          (s3, fragment) = (case split_first (CHR ''#'') s2 of None \<Rightarrow> (s2, []) | Some (a, b) \<Rightarrow> (a, b));
          (s4, query) = (case split_first (CHR ''?'') s3 of None \<Rightarrow> (s3, []) | Some (a, b) \<Rightarrow> (a, b))
      in if netloc_ok e netloc
         then Inr \<lparr>ur_scheme = scheme, ur_netloc = netloc, ur_path = s4, ur_query = query, ur_fragment = fragment\<rparr>
         else Inl ValueError)"

text \<open>\<open>rpartition('@')\<close>: the user part, if there is one, and the host part.\<close>

definition netloc_parts :: "string \<Rightarrow> string option \<times> string" where
  "netloc_parts n =
     (if CHR ''@'' \<in> set n
      then (let h = rev (takeWhile (\<lambda>c. c \<noteq> CHR ''@'') (rev n)) in (Some (take (length n - length h - 1) n), h))
      else (None, n))"

definition host_port :: "url \<Rightarrow> string \<times> string" where
  \<comment> \<open>the port text is empty when there is none\<close>
  "host_port u =
     (let host = snd (netloc_parts (ur_netloc u));
          after = (\<lambda>s. case split_first (CHR '':'') s of None \<Rightarrow> [] | Some (_, p) \<Rightarrow> p)
      in case split_first (CHR ''['') host of
        Some (_, br) \<Rightarrow> (case split_first (CHR '']'') br of None \<Rightarrow> (br, []) | Some (h, rest) \<Rightarrow> (h, after rest))
      | None \<Rightarrow> (case split_first (CHR '':'') host of None \<Rightarrow> (host, []) | Some (h, p) \<Rightarrow> (h, p)))"

definition url_hostname :: "url \<Rightarrow> string option" where
  "url_hostname u =
     (let h = fst (host_port u) in
      if h = [] then None
      else Some (case split_first (CHR ''%'') h of None \<Rightarrow> py_lower_ascii h | Some (a, z) \<Rightarrow> py_lower_ascii a @ CHR ''%'' # z))"

definition url_port :: "url \<Rightarrow> nat option res" where
  "url_port u =
     (let p = snd (host_port u) in
      if p = [] then Inr None
      else if isdecimal p \<and> length p \<le> max_int_digits \<and> read_digits p \<le> 65535 then Inr (Some (read_digits p))
      else Inl ValueError)"

definition url_username :: "url \<Rightarrow> string option" where
  "url_username u =
     (case fst (netloc_parts (ur_netloc u)) of None \<Rightarrow> None
      | Some i \<Rightarrow> Some (case split_first (CHR '':'') i of None \<Rightarrow> i | Some (a, _) \<Rightarrow> a))"

definition url_password :: "url \<Rightarrow> string option" where
  "url_password u =
     (case fst (netloc_parts (ur_netloc u)) of None \<Rightarrow> None | Some i \<Rightarrow> map_option snd (split_first (CHR '':'') i))"

definition given :: "string option \<Rightarrow> bool" where
  \<comment> \<open>the truth value of an optional text\<close>
  "given v \<longleftrightarrow> v \<noteq> None \<and> v \<noteq> Some []"

end
