(* ===== verification/Operator_Mfa.thy ===== *)
theory Operator_Mfa
  imports Security_Store Py_Objects Py_Url
begin

text \<open>
  The operator policy of \<open>experiments/server/operator_mfa.py\<close>: enrollment of a second factor,
  acceptance of a challenge, and the middleware that lets an operator through only with a
  fresh proof bound to the factors.  The session is Django's mapping from names to JSON
  values.  The database of users and devices, the shared store and the session are the
  state \<open>web\<close>; Django's signing, its keyed digest, the one-time password algorithm, text
  conversions beyond ASCII, random values, the clock and the wrapped application are
  arguments.  A call reads the clock once, unless it takes two readings as arguments;
  differences of readings are taken exactly.
\<close>

section \<open>Settings\<close>

record namespace =
  ns_caches :: "json option"
  ns_middleware :: "string list option"
  ns_store_id :: "string option"

definition insert_after :: "string \<Rightarrow> string \<Rightarrow> string list \<Rightarrow> string list res" where
  \<comment> \<open>\<open>chain.insert(chain.index(x) + 1, y)\<close>\<close>
  "insert_after x y xs =
     (if x \<in> set xs
      then Inr (takeWhile (\<lambda>z. z \<noteq> x) xs @ x # y # tl (dropWhile (\<lambda>z. z \<noteq> x) xs)) else Inl ValueError)"

definition cache_location :: "json option \<Rightarrow> json option res" where
  "cache_location caches =
     res_bind (case caches of None \<Rightarrow> Inr None | Some c \<Rightarrow> get_of c ''default'') (\<lambda>d.
       case d of None \<Rightarrow> Inr None | Some cache \<Rightarrow> get_of cache ''LOCATION'')"

definition security_cache :: "url \<Rightarrow> json" where
  "security_cache u = JObj
     [(''BACKEND'', JStr ''django_redis.cache.RedisCache''),
      (''LOCATION'', JStr (ur_scheme u @ '':'' @ (if ur_netloc u \<noteq> [] then ''//'' @ ur_netloc u else []) @ ''/2''
         @ (if ur_query u \<noteq> [] then ''?'' @ ur_query u else []) @ (if ur_fragment u \<noteq> [] then ''#'' @ ur_fragment u else []))),
      (''KEY_PREFIX'', JStr ''azd-santa-security-v1''),
      (''OPTIONS'', JObj [(''CLIENT_CLASS'', JStr ''django_redis.client.DefaultClient''), (''IGNORE_EXCEPTIONS'', JBool False),
         (''SOCKET_CONNECT_TIMEOUT'', JInt 2), (''SOCKET_TIMEOUT'', JInt 2)])]"

fun set_item :: "json \<Rightarrow> string \<Rightarrow> json \<Rightarrow> json res" where
  "set_item (JObj d) k v = Inr (JObj (dset k v d))"
| "set_item _ k v = Inl TypeError"

definition install_policy :: "url_env \<Rightarrow> (string \<Rightarrow> string option) \<Rightarrow> namespace \<Rightarrow> namespace res" where
  "install_policy ue environ ns =
     (let store_id = (case environ ''AZD_SANTA_SECURITY_STORE_ID'' of None \<Rightarrow> [] | Some v \<Rightarrow> v) in
      if \<not> is_sha256_hex store_id then Inl ImproperlyConfigured
      else
        res_bind (cache_location (ns_caches ns)) (\<lambda>location.
          case location of
            Some (JStr loc) \<Rightarrow>
              res_bind (urlsplit ue loc) (\<lambda>u.
                if ur_scheme u \<notin> {''redis'', ''rediss''} then Inl ImproperlyConfigured
                else
                  res_bind (set_item (the (ns_caches ns)) ''azd_santa_security'' (security_cache u)) (\<lambda>caches.
                    case ns_middleware ns of
                      None \<Rightarrow> Inl KeyError
                    | Some chain \<Rightarrow>
                        res_bind (insert_after ''realms.middlewares.realm_session_middleware'' ''azd_santa_operator.RequireOperatorMFA'' chain) (\<lambda>c1.
                          Inr \<lparr>ns_caches = Some caches, ns_middleware = Some (''azd_santa_admission.Admission'' # c1),
                               ns_store_id = Some store_id\<rparr>)))
          | _ \<Rightarrow> Inl ImproperlyConfigured))"

section \<open>State\<close>

definition LOCAL_BACKEND :: string where
  "LOCAL_BACKEND = ''accounts.auth_backends.ZentralBackend''"

definition ENROLL :: string where
  "ENROLL = ''azd_santa_enrollment_v1''"

definition PROOF :: string where
  "PROOF = ''azd_santa_mfa_v1''"

definition SEED :: string where
  "SEED = ''azd_santa_factor_seed_v1''"

definition SETUP :: string where
  "SETUP = ''accounts:add_totp''"

definition VERIFY :: "string set" where
  "VERIFY = {''accounts:verify_totp'', ''accounts:verify_webauthn''}"

definition DELETE :: "string set" where
  "DELETE = {''accounts:delete_totp'', ''accounts:delete_webauthn_device''}"

definition ENROLL_SECONDS :: rat where
  "ENROLL_SECONDS = 600"

definition PROOF_SECONDS :: rat where
  "PROOF_SECONDS = 8 * 3600"

record user =
  u_pk :: int
  u_active :: bool
  u_remote :: bool
  u_service :: bool
  u_usable :: bool
  u_auth :: string

record device =
  d_type :: string
  d_pk :: int
  d_secret :: string
  d_handle :: string
  d_public :: bytes
  d_rp :: string

type_synonym session = "string \<rightharpoonup> json"

record 's web =
  wsess :: session
  wuser :: "user option"  \<comment> \<open>\<open>request.user\<close>, \<open>None\<close> when anonymous\<close>
  wusers :: "int \<rightharpoonup> user"
  wtotp :: "int \<Rightarrow> device list"
  wauthn :: "int \<Rightarrow> device list"
  wstore :: 's

record mfa_env =
  me_py :: py_env
  salted_hmac :: "string \<Rightarrow> string \<Rightarrow> string"
  py_str :: "json \<Rightarrow> string"
  sign_loads :: "json \<Rightarrow> json res"
  totp_at :: "string \<Rightarrow> int \<Rightarrow> string res"
  pk_of :: "json \<Rightarrow> int res"
  normalise :: "string \<Rightarrow> string"

definition on_store :: "('s, 'a) sx \<Rightarrow> ('s web, 'a) sx" where
  "on_store m w = (let (r, s') = m (wstore w) in (r, w\<lparr>wstore := s'\<rparr>))"

section \<open>Factors and proofs\<close>

definition mfa_digest :: "mfa_env \<Rightarrow> json \<Rightarrow> string" where
  "mfa_digest e v = salted_hmac e ''azd-santa.operator-mfa-v1'' (dumps (me_py e) (jsort v))"

definition material :: "mfa_env \<Rightarrow> device \<Rightarrow> string" where
  "material e d = mfa_digest e (JArr
     (if d_type d = ''TOTP'' then [JStr (d_type d), JInt (d_pk d), JStr (d_secret d)]
      else [JStr (d_type d), JInt (d_pk d), JStr (d_handle d), JStr (to_hex (d_public d)), JStr (d_rp d)]))"

definition factors :: "mfa_env \<Rightarrow> 's web \<Rightarrow> int \<Rightarrow> string list" where
  "factors e w pk = sort (map (material e) (wtotp w pk @ wauthn w pk))"

definition factors_digest :: "mfa_env \<Rightarrow> string list \<Rightarrow> string" where
  "factors_digest e fs = mfa_digest e (JArr (map JStr fs))"

definition local :: "user \<Rightarrow> bool" where
  "local u \<longleftrightarrow> u_active u \<and> \<not> u_remote u \<and> \<not> u_service u \<and> u_usable u"

definition local_session :: "user \<Rightarrow> session \<Rightarrow> bool" where
  "local_session u sess \<longleftrightarrow> local u \<and> sess ''_auth_user_backend'' = Some (JStr LOCAL_BACKEND)"

definition stamp :: "user \<Rightarrow> (string \<times> json) list" where
  "stamp u = [(''user'', JStr (show_int (u_pk u))), (''auth'', JStr (u_auth u))]"

fun elapsed :: "rat \<Rightarrow> json \<Rightarrow> rat option" where
  "elapsed now (JInt i) = Some (now - of_int i)"
| "elapsed now (JFloat (Fin q)) = Some (now - q)"
| "elapsed now (JFloat NegZero) = Some now"
| "elapsed now _ = None"

definition fresh :: "rat \<Rightarrow> json option \<Rightarrow> user \<Rightarrow> rat \<Rightarrow> bool" where
  "fresh now r u ttl =
     (case r of
        Some (JObj d) \<Rightarrow>
          list_all (\<lambda>(k, v). dget d k = Some v) (stamp u)
          \<and> (case dget d ''issued'' of None \<Rightarrow> False
             | Some i \<Rightarrow> (case elapsed now i of None \<Rightarrow> False | Some t \<Rightarrow> 0 \<le> t \<and> t \<le> ttl))
      | _ \<Rightarrow> False)"

fun text_of :: "mfa_env \<Rightarrow> json option \<Rightarrow> string" where
  \<comment> \<open>\<open>str(value)\<close>\<close>
  "text_of e None = ''None''"
| "text_of e (Some (JStr s)) = s"
| "text_of e (Some v) = py_str e v"

definition member :: "json option \<Rightarrow> string \<Rightarrow> json option" where
  "member v k = (case v of Some (JObj d) \<Rightarrow> dget d k | _ \<Rightarrow> None)"

definition bound_proof :: "mfa_env \<Rightarrow> rat \<Rightarrow> session \<Rightarrow> user \<Rightarrow> string list \<Rightarrow> bool" where
  "bound_proof e now sess u fs \<longleftrightarrow>
     fs \<noteq> [] \<and> fresh now (sess PROOF) u PROOF_SECONDS
     \<and> text_of e (member (sess PROOF) ''factors'') = factors_digest e fs"

definition proof_ok :: "mfa_env \<Rightarrow> rat \<Rightarrow> session \<Rightarrow> user \<Rightarrow> string list \<Rightarrow> bool" where
  "proof_ok e now sess u fs \<longleftrightarrow>
     bound_proof e now sess u fs \<and> sess ''mfa_authenticated'' = Some (JBool True)"

definition enrolling :: "rat \<Rightarrow> session \<Rightarrow> user \<Rightarrow> string list \<Rightarrow> bool" where
  "enrolling now sess u fs \<longleftrightarrow> fs = [] \<and> fresh now (sess ENROLL) u ENROLL_SECONDS"

definition stamped :: "rat \<Rightarrow> user \<Rightarrow> (string \<times> json) list \<Rightarrow> json" where
  \<comment> \<open>\<open>dict(_stamp(user), issued=time.time(), ...)\<close>\<close>
  "stamped now u extra = JObj (stamp u @ (''issued'', JFloat (Fin now)) # extra)"

definition pops :: "string list \<Rightarrow> session \<Rightarrow> session" where
  "pops ks sess = (\<lambda>k. if k \<in> set ks then None else sess k)"

section \<open>Enrollment\<close>

definition web_logout :: "('s web, unit) sx" where
  "web_logout w = (Inr (), w\<lparr>wsess := Map.empty, wuser := None\<rparr>)"

definition deny :: "('s web, 'a) sx" where
  "deny = sx_bind web_logout (\<lambda>_. sx_raise PermissionDenied)"

definition begin_enrollment :: "mfa_env \<Rightarrow> rat \<Rightarrow> user \<Rightarrow> ('s web, unit) sx" where
  "begin_enrollment e now u w =
     (if \<not> local_session u (wsess w) \<or> factors e w (u_pk u) \<noteq> [] then deny w
      else (Inr (), w\<lparr>wsess := (pops [PROOF, SEED, ''mfa_authenticated'', ''verification_token'', ''webauthn_challenge''] (wsess w))
                        (ENROLL \<mapsto> stamped now u [])\<rparr>))"

definition enrollment_seed :: "mfa_env \<Rightarrow> rat \<Rightarrow> string \<Rightarrow> user \<Rightarrow> ('s web, json) sx" where
  \<comment> \<open>\<open>secret\<close>: what \<open>pyotp.random_base32\<close> returns\<close>
  "enrollment_seed e now secret u w =
     (let fs = factors e w (u_pk u); sess = wsess w in
      if \<not> local u \<or> \<not> (bound_proof e now sess u fs \<or> enrolling now sess u fs) then (Inl PermissionDenied, w)
      else if fresh now (sess SEED) u ENROLL_SECONDS
      then (case member (sess SEED) ''value'' of None \<Rightarrow> (Inl KeyError, w) | Some v \<Rightarrow> (Inr v, w))
      else (Inr (JStr secret), w\<lparr>wsess := sess(SEED \<mapsto> stamped now u [(''value'', JStr secret)])\<rparr>))"

definition check_seed :: "mfa_env \<Rightarrow> rat \<Rightarrow> string \<Rightarrow> user \<Rightarrow> json option \<Rightarrow> ('s web, bool) sx" where
  "check_seed e now secret u submitted =
     (case submitted of
        Some (JStr s) \<Rightarrow> sx_bind (enrollment_seed e now secret u) (\<lambda>v. sx_return (text_of e (Some v) = s))
      | _ \<Rightarrow> sx_return False)"

section \<open>Accepting a factor\<close>

definition challenge_valid :: "user \<Rightarrow> json \<Rightarrow> bool res" where
  "challenge_valid u data =
     res_bind (get_of data ''azd_nonce'') (\<lambda>nonce.
     res_bind (get_of data ''user_id'') (\<lambda>uid.
     res_bind (get_of data ''auth_backend'') (\<lambda>backend.
     res_bind (get_of data ''azd_auth_hash'') (\<lambda>auth.
       Inr ((case uid of None \<Rightarrow> False | Some v \<Rightarrow> eq_int v (u_pk u)) \<and> backend = Some (JStr LOCAL_BACKEND)
          \<and> auth = Some (JStr (u_auth u))
          \<and> (case nonce of Some (JStr s) \<Rightarrow> fullmatch_n is_urlsafe 43 s | _ \<Rightarrow> False))))))"

definition challenge_key :: "mfa_env \<Rightarrow> json \<Rightarrow> string" where
  "challenge_key e token = ''challenge-used:'' @ mfa_digest e token"

definition claim_challenge :: "'s redis \<Rightarrow> (string \<Rightarrow> string) \<Rightarrow> string \<Rightarrow> mfa_env \<Rightarrow> net \<Rightarrow> user \<Rightarrow> json \<Rightarrow> ('s, bool) sx" where
  \<comment> \<open>the \<open>try\<close> block; every exception makes \<open>claimed\<close> false\<close>
  "claim_challenge R mk sid e n u token =
     sx_catch
       (sx_bind (sx_lift (res_bind (sign_loads e token) (challenge_valid u))) (\<lambda>valid.
          if valid then cache_add R mk sid n (challenge_key e token) True (CHALLENGE_SECONDS + 60) else sx_return False))
       (\<lambda>_. Some (sx_return False))"

fun first_match :: "mfa_env \<Rightarrow> string \<Rightarrow> json option \<Rightarrow> int list \<Rightarrow> int option res" where
  "first_match e secret code [] = Inr None"
| "first_match e secret code (c # cs) =
     (case code of
        Some (JStr s) \<Rightarrow> res_bind (totp_at e secret (c * 30)) (\<lambda>t. if t = s then Inr (Some c) else first_match e secret code cs)
      | _ \<Rightarrow> first_match e secret code cs)"

definition totp_key :: "string \<Rightarrow> int \<Rightarrow> string" where
  "totp_key mat c = ''totp-used:'' @ mat @ '':'' @ show_int c"

text \<open>
  An unavailable store and a used code end the same way, in \<open>logout\<close> and \<open>PermissionDenied\<close>, so
  both make the claim false.  The password algorithm runs outside the \<open>try\<close>.
\<close>

definition claim_totp :: "'s redis \<Rightarrow> (string \<Rightarrow> string) \<Rightarrow> string \<Rightarrow> mfa_env \<Rightarrow> net \<Rightarrow> rat \<Rightarrow> device \<Rightarrow> json option \<Rightarrow> ('s, bool) sx" where
  "claim_totp R mk sid e n now d code =
     (let c = \<lfloor>now\<rfloor> div 30 in
      sx_bind (sx_lift (first_match e (d_secret d) code [c, c - 1])) (\<lambda>matched.
        sx_catch
          (case matched of None \<Rightarrow> sx_return False
           | Some m \<Rightarrow> cache_add R mk sid n (totp_key (material e d) m) True 120)
          (\<lambda>_. Some (sx_return False))))"

definition prepare_mfa :: "'s redis \<Rightarrow> (string \<Rightarrow> string) \<Rightarrow> string \<Rightarrow> mfa_env \<Rightarrow> net \<Rightarrow> net \<Rightarrow> rat \<Rightarrow> rat
    \<Rightarrow> int \<Rightarrow> string option \<Rightarrow> device option \<Rightarrow> json option \<Rightarrow> json \<Rightarrow> ('s web, user \<times> json) sx" where
  \<comment> \<open>\<open>pk\<close>, \<open>backend\<close>: of the user object the view passes; \<open>now1\<close>, \<open>now2\<close>: the two clock readings\<close>
  "prepare_mfa R mk sid e n1 n2 now1 now2 pk backend dev code token w =
     (case wusers w pk of
        None \<Rightarrow> (Inl DoesNotExist, w)
      | Some u \<Rightarrow>
          (case dev of
             None \<Rightarrow> deny w
           | Some d \<Rightarrow>
               if \<not> local u \<or> backend \<noteq> Some LOCAL_BACKEND then deny w
               else if material e d \<notin> set (factors e w (u_pk u)) then deny w
               else
                 sx_bind (on_store (claim_challenge R mk sid e n1 u token)) (\<lambda>claimed.
                   if \<not> claimed then deny
                   else
                     sx_bind
                       (if d_type d = ''TOTP''
                        then sx_bind (on_store (claim_totp R mk sid e n2 now1 d code))
                               (\<lambda>accepted. if accepted then sx_return () else deny)
                        else sx_return ())
                       (\<lambda>_. sx_return (u, stamped now2 u [(''factors'', JStr (factors_digest e (factors e w (u_pk u))))]))) w))"

definition complete_mfa :: "json \<Rightarrow> ('s web, unit) sx" where
  "complete_mfa prf w =
     (Inr (), w\<lparr>wsess := pops [ENROLL, SEED, ''verification_token'', ''webauthn_challenge'']
                  ((wsess w)(PROOF \<mapsto> prf, ''mfa_authenticated'' \<mapsto> JBool True))\<rparr>)"

section \<open>The middleware\<close>

record mfa_request =
  view_name :: "string option"  \<comment> \<open>what \<open>resolve\<close> finds, \<open>None\<close> when it raises \<open>Resolver404\<close>\<close>
  rq_method :: string
  rq_username :: string  \<comment> \<open>\<open>str(request.POST.get('username', ''))\<close>\<close>
  rq_target :: "int option"  \<comment> \<open>\<open>match.kwargs.get('user_pk')\<close>\<close>

datatype 'r web_answer = Answer nat | Redirect string | Page 'r

definition login_redirect :: "('s web, 'r web_answer) sx" where
  "login_redirect = sx_bind web_logout (\<lambda>_. sx_return (Redirect ''login''))"

definition is_post :: "mfa_request \<Rightarrow> bool" where
  "is_post rq \<longleftrightarrow> rq_method rq = ''POST''"

definition named :: "mfa_request \<Rightarrow> string set \<Rightarrow> bool" where
  "named rq V \<longleftrightarrow> (case view_name rq of None \<Rightarrow> False | Some v \<Rightarrow> v \<in> V)"

definition challenge_user :: "mfa_env \<Rightarrow> 's web \<Rightarrow> user option res" where
  \<comment> \<open>the user of an acceptable challenge, \<open>None\<close> when it is not acceptable\<close>
  "challenge_user e w =
     res_bind (case wsess w ''verification_token'' of None \<Rightarrow> Inl KeyError | Some t \<Rightarrow> Inr t) (\<lambda>token.
     res_bind (sign_loads e token) (\<lambda>data.
     res_bind (item_of data ''user_id'') (\<lambda>uid.
     res_bind (pk_of e uid) (\<lambda>pk.
     res_bind (case wusers w pk of None \<Rightarrow> Inl DoesNotExist | Some u \<Rightarrow> Inr u) (\<lambda>u.
     res_bind (get_of data ''auth_backend'') (\<lambda>backend.
     res_bind (get_of data ''azd_nonce'') (\<lambda>nonce.
     res_bind (get_of data ''azd_auth_hash'') (\<lambda>auth.
       Inr (if local u \<and> backend = Some (JStr LOCAL_BACKEND)
               \<and> (case nonce of Some (JStr s) \<Rightarrow> fullmatch_n is_urlsafe 43 s | _ \<Rightarrow> False)
               \<and> (case auth of None \<Rightarrow> [] | Some v \<Rightarrow> text_of e (Some v)) = u_auth u
               \<and> factors e w (u_pk u) \<noteq> []
            then Some u else None)))))))))"

definition challenge_caught :: "exn \<Rightarrow> bool" where
  "challenge_caught x \<longleftrightarrow> x \<in> {KeyError, TypeError, BadSignature, DoesNotExist} \<or> isa_ValueError x"

definition challenge :: "'s redis \<Rightarrow> (string \<Rightarrow> string) \<Rightarrow> string \<Rightarrow> mfa_env \<Rightarrow> net \<Rightarrow> mfa_request \<Rightarrow> ('s web, 'r web_answer option) sx" where
  "challenge R mk sid e n rq w =
     (case challenge_user e w of
        Inl x \<Rightarrow> if challenge_caught x then sx_bind login_redirect (\<lambda>a. sx_return (Some a)) w else (Inl x, w)
      | Inr None \<Rightarrow> sx_bind login_redirect (\<lambda>a. sx_return (Some a)) w
      | Inr (Some u) \<Rightarrow>
          if is_post rq
          then sx_catch
                 (sx_bind (on_store (budget R mk sid n (''verify:'' @ show_int (u_pk u)) 5 CHALLENGE_SECONDS))
                    (\<lambda>allowed. sx_return (if allowed then None else Some (Answer 429))))
                 (\<lambda>_. Some (sx_return (Some (Answer 503)))) w
          else (Inr None, w))"

definition password_key :: "mfa_env \<Rightarrow> string \<Rightarrow> string" where
  "password_key e username = ''password:'' @ mfa_digest e (JStr (normalise e username))"

definition anonymous_call :: "'s redis \<Rightarrow> (string \<Rightarrow> string) \<Rightarrow> string \<Rightarrow> mfa_env \<Rightarrow> net \<Rightarrow> ('s web, 'r) sx \<Rightarrow> mfa_request
    \<Rightarrow> ('s web, 'r web_answer) sx" where
  "anonymous_call R mk sid e n app rq =
     (let page = sx_bind app (\<lambda>r. sx_return (Page r)) in
      if named rq VERIFY
      then sx_bind (challenge R mk sid e n rq) (\<lambda>a. case a of Some b \<Rightarrow> sx_return b | None \<Rightarrow> page)
      else if named rq {''login''} \<and> is_post rq
      then sx_bind
             (sx_catch
                (sx_bind (on_store (budget R mk sid n (password_key e (rq_username rq)) 10 CHALLENGE_SECONDS))
                   (\<lambda>allowed. sx_return (if allowed then None else Some (Answer 429))))
                (\<lambda>_. Some (sx_return (Some (Answer 503)))))
             (\<lambda>a. case a of Some b \<Rightarrow> sx_return b | None \<Rightarrow> page)
      else page)"

definition API_VIEWS :: "string set" where
  "API_VIEWS = {''accounts:create_user_api_token'', ''accounts:update_user_api_token'',
     ''accounts:create_oidc_api_token_issuer'', ''accounts:update_oidc_api_token_issuer''}"

definition is_locked :: "mfa_request \<Rightarrow> bool" where
  "is_locked rq \<longleftrightarrow> named rq (DELETE \<union> {SETUP, ''accounts:register_webauthn_device''}) \<and> is_post rq"

definition changes_factors :: "mfa_request \<Rightarrow> bool" where
  "changes_factors rq \<longleftrightarrow> named rq {SETUP} \<or> (named rq (DELETE \<union> {''accounts:register_webauthn_device''}) \<and> is_post rq)"

definition rebind_proof :: "mfa_env \<Rightarrow> string list \<Rightarrow> ('s web, unit) sx" where
  \<comment> \<open>\<open>session[PROOF] = dict(session[PROOF], factors=_digest(after))\<close>\<close>
  "rebind_proof e after w =
     (case wsess w PROOF of
        None \<Rightarrow> (Inl KeyError, w)
      | Some (JObj d) \<Rightarrow> (Inr (), w\<lparr>wsess := (wsess w)(PROOF \<mapsto> JObj (dset ''factors'' (JStr (factors_digest e after)) d))\<rparr>)
      | Some _ \<Rightarrow> (Inl TypeError, w))"

definition after_response :: "mfa_env \<Rightarrow> ('r \<Rightarrow> nat) \<Rightarrow> mfa_request \<Rightarrow> user \<Rightarrow> string list \<Rightarrow> bool \<Rightarrow> bool \<Rightarrow> 'r \<Rightarrow> ('s web, 'r web_answer) sx" where
  "after_response e status rq u before verified enrol r w =
     (if \<not> changes_factors rq then (Inr (Page r), w)
      else
        (let after = factors e w (u_pk u);
             w1 = (if status r \<in> {200, 201, 302} \<and> after \<noteq> before then w\<lparr>wsess := pops [SEED] (wsess w)\<rparr> else w)
         in if enrol \<and> after \<noteq> [] then login_redirect w1
            else if verified \<and> after \<noteq> before then sx_bind (rebind_proof e after) (\<lambda>_. sx_return (Page r)) w1
            else (Inr (Page r), w1)))"

definition operator_call :: "mfa_env \<Rightarrow> rat \<Rightarrow> ('r \<Rightarrow> nat) \<Rightarrow> ('s web, 'r) sx \<Rightarrow> mfa_request \<Rightarrow> user \<Rightarrow> ('s web, 'r web_answer) sx" where
  \<comment> \<open>the body of the \<open>with\<close> block\<close>
  "operator_call e now status app rq u w =
     (let fs = factors e w (u_pk u); verified = proof_ok e now (wsess w) u fs; enrol = enrolling now (wsess w) u fs in
      if \<not> verified \<and> \<not> enrol then login_redirect w
      else if \<not> verified \<and> \<not> named rq {SETUP} then (Inr (Redirect SETUP), w)
      else if named rq DELETE \<and> is_post rq \<and> length fs \<le> 1 then (Inr (Answer 403), w)
      else if named rq API_VIEWS
              \<and> (case rq_target rq of None \<Rightarrow> False
                  | Some pk \<Rightarrow> (case wusers w pk of None \<Rightarrow> False | Some t \<Rightarrow> \<not> u_service t))
      then (Inr (Answer 403), w)
      else sx_bind app (after_response e status rq u fs verified enrol) w)"

definition atomic :: "('s web, 'a) sx \<Rightarrow> ('s web, 'a) sx" where
  \<comment> \<open>\<open>transaction.atomic()\<close>: an exception undoes the changes of the database\<close>
  "atomic m w =
     (case m w of
        (Inl x, w1) \<Rightarrow> (Inl x, w1\<lparr>wusers := wusers w, wtotp := wtotp w, wauthn := wauthn w\<rparr>)
      | (Inr v, w1) \<Rightarrow> (Inr v, w1))"

definition locked_call :: "mfa_env \<Rightarrow> rat \<Rightarrow> ('r \<Rightarrow> nat) \<Rightarrow> ('s web, 'r) sx \<Rightarrow> mfa_request \<Rightarrow> user \<Rightarrow> ('s web, 'r web_answer) sx" where
  "locked_call e now status app rq u =
     (if is_locked rq
      then atomic (\<lambda>w. case wusers w (u_pk u) of
                        None \<Rightarrow> (Inl DoesNotExist, w)
                      | Some v \<Rightarrow> operator_call e now status app rq v (w\<lparr>wuser := Some v\<rparr>))
      else operator_call e now status app rq u)"

definition store_needed :: "mfa_request \<Rightarrow> 's web \<Rightarrow> bool" where
  "store_needed rq w \<longleftrightarrow>
     view_name rq \<noteq> Some ''logout''
     \<and> (wuser w \<noteq> None \<or> (view_name rq = Some ''login'' \<and> is_post rq) \<or> named rq VERIFY)"

definition store_open :: "'s redis \<Rightarrow> (string \<Rightarrow> string) \<Rightarrow> string \<Rightarrow> net \<Rightarrow> ('s web, bool) sx" where
  "store_open R mk sid n =
     sx_catch (sx_bind (on_store (check_security_store R mk sid n)) (\<lambda>_. sx_return True)) (\<lambda>_. Some (sx_return False))"

definition mfa_call :: "'s redis \<Rightarrow> (string \<Rightarrow> string) \<Rightarrow> string \<Rightarrow> mfa_env \<Rightarrow> net \<Rightarrow> net \<Rightarrow> rat \<Rightarrow> ('r \<Rightarrow> nat) \<Rightarrow> ('s web, 'r) sx
    \<Rightarrow> mfa_request \<Rightarrow> ('s web, 'r web_answer) sx" where
  "mfa_call R mk sid e n1 n2 now status app rq w =
     sx_bind (if store_needed rq w then store_open R mk sid n1 else sx_return True) (\<lambda>open.
       if \<not> open then sx_return (Answer 503)
       else if (case view_name rq of None \<Rightarrow> False | Some v \<Rightarrow> startswith v ''realms_public:'') then sx_return (Answer 403)
       else (\<lambda>w1. case wuser w1 of
                     None \<Rightarrow> anonymous_call R mk sid e n2 app rq w1
                   | Some u \<Rightarrow>
                       if \<not> local_session u (wsess w1) then sx_bind web_logout (\<lambda>_. sx_return (Answer 403)) w1
                       else if view_name rq = Some ''logout'' then sx_bind app (\<lambda>r. sx_return (Page r)) w1
                       else locked_call e now status app rq u w1)) w"

section \<open>Templates\<close>

datatype context_value = CVal json | CUser user

record template =
  t_name :: "string option"
  t_context :: "(string \<rightharpoonup> context_value) option"

definition process_template_response :: "user option \<Rightarrow> template \<Rightarrow> template res" where
  \<comment> \<open>\<open>context_data\<close> is a mapping or absent; an anonymous user is not an instance of the user model\<close>
  "process_template_response ru t =
     res_bind (if t_name t = Some ''registration/login.html''
               then (case t_context t of None \<Rightarrow> Inl TypeError
                     | Some c \<Rightarrow> Inr (t\<lparr>t_context := Some (c(''login_realms'' \<mapsto> CVal (JArr [])))\<rparr>))
               else Inr t) (\<lambda>t1.
       Inr (case t_context t1 of
              None \<Rightarrow> t1
            | Some c \<Rightarrow>
                if c ''tokens'' = None then t1
                else
                  (case (case c ''object'' of Some v \<Rightarrow> Some v | None \<Rightarrow> map_option CUser ru) of
                     Some (CUser target) \<Rightarrow>
                       if u_service target then t1
                       else t1\<lparr>t_context := Some (c(''can_add_token'' \<mapsto> CVal (JBool False),
                              ''can_manage_oidc_api_token_issuers'' \<mapsto> CVal (JBool False)))\<rparr>
                   | _ \<Rightarrow> t1)))"

end
