(* ===== verification/Operator_Facts.thy ===== *)
theory Operator_Facts
  imports Operator_Mfa Security_Facts
begin

text \<open>
  What the operator policy guarantees: the application behind the middleware sees an
  authenticated operator only with a fresh proof, or during enrollment on the setup view;
  a challenge and a one-time code are accepted once; a completed proof is good for exactly
  its user, factors and lifetime; the policy is installed around every other middleware.
\<close>

section \<open>Claims\<close>

lemma on_store_run: "on_store m w = (r, w') \<longleftrightarrow> (\<exists>s'. m (wstore w) = (r, s') \<and> w' = w\<lparr>wstore := s'\<rparr>)"
  by (cases "m (wstore w)") (auto simp: on_store_def)

context redis_laws
begin

lemma claim_challenge_cases:
  assumes "claim_challenge R mk sid e n u token s = (r, s')"
  obtains (refused) "r = Inr False" "vw s' = vw s"
  | (claimed) "r = Inr True \<or> r = Inr False" "vw s (mk (challenge_key e token)) = None"
      "vw s' = (vw s)(mk (challenge_key e token) \<mapsto> (RStr ''1'', Some 360))"
proof (cases "res_bind (sign_loads e token) (challenge_valid u)")
  case (Inl x)
  with assms show thesis
    by (intro refused) (auto simp: claim_challenge_def sx_catch_def sx_bind_def sx_lift_def sx_return_def)
next
  case (Inr valid)
  show thesis
  proof (cases valid)
    case False
    with assms Inr show thesis
      by (intro refused) (auto simp: claim_challenge_def sx_catch_def sx_bind_def sx_lift_def sx_return_def)
  next
    case True
    obtain q t where add: "cache_add R mk sid n (challenge_key e token) True (CHALLENGE_SECONDS + 60) s = (q, t)" by fastforce
    with assms Inr True have r: "s' = t" "r = (case q of Inl _ \<Rightarrow> Inr False | Inr b \<Rightarrow> Inr b)"
      by (auto simp: claim_challenge_def sx_catch_def sx_bind_def sx_lift_def sx_return_def split: sum.splits)
    from add show thesis
      by (cases rule: cache_add_cases) (use r in \<open>auto simp: CHALLENGE_SECONDS_def split: sum.splits intro: refused claimed\<close>)
  qed
qed

lemma claim_totp_cases:
  assumes "claim_totp R mk sid e n now d code s = (r, s')"
  obtains (refused) "r \<noteq> Inr True" "vw s' = vw s"
  | (claimed) m where "first_match e (d_secret d) code [\<lfloor>now\<rfloor> div 30, \<lfloor>now\<rfloor> div 30 - 1] = Inr (Some m)"
      "vw s (mk (totp_key (material e d) m)) = None"
      "vw s' = (vw s)(mk (totp_key (material e d) m) \<mapsto> (RStr ''1'', Some 120))"
proof (cases "first_match e (d_secret d) code [\<lfloor>now\<rfloor> div 30, \<lfloor>now\<rfloor> div 30 - 1]")
  case (Inl x)
  with assms show thesis by (intro refused) (auto simp: claim_totp_def Let_def sx_bind_def sx_lift_def)
next
  case (Inr matched)
  show thesis
  proof (cases matched)
    case None
    with assms Inr show thesis
      by (intro refused) (auto simp: claim_totp_def Let_def sx_bind_def sx_lift_def sx_catch_def sx_return_def)
  next
    case (Some m)
    obtain q t where add: "cache_add R mk sid n (totp_key (material e d) m) True 120 s = (q, t)" by fastforce
    with assms Inr Some have r: "s' = t" "r = (case q of Inl _ \<Rightarrow> Inr False | Inr b \<Rightarrow> Inr b)"
      by (auto simp: claim_totp_def Let_def sx_catch_def sx_bind_def sx_lift_def sx_return_def split: sum.splits)
    from add show thesis
      by (cases rule: cache_add_cases) (use r Inr Some in \<open>auto split: sum.splits intro: refused claimed\<close>)
  qed
qed

end

section \<open>Acceptance\<close>

lemma show_int_inject: "show_int i = show_int j \<longleftrightarrow> i = j"
proof
  have minus: "show_nat n \<noteq> CHR ''-'' # cs" for n cs
    using show_nat_hd_digit [of n] by (auto simp: is_digit_def in_range_def)
  assume "show_int i = show_int j"
  then show "i = j"
    by (auto simp: show_int_def show_nat_inject minus minus [symmetric] split: if_splits)
qed simp

lemma deny_run: "deny w = (Inl PermissionDenied, w\<lparr>wsess := Map.empty, wuser := None\<rparr>)"
  by (simp add: deny_def sx_bind_def web_logout_def sx_raise_def)

text \<open>How an acceptance of a factor ends, and which claims it has made on the store.\<close>

definition second_claim :: "'s redis \<Rightarrow> (string \<Rightarrow> string) \<Rightarrow> string \<Rightarrow> mfa_env \<Rightarrow> net \<Rightarrow> rat \<Rightarrow> device \<Rightarrow> json option \<Rightarrow> ('s, bool) sx" where
  "second_claim R mk sid e n now d code = (if d_type d = ''TOTP'' then claim_totp R mk sid e n now d code else sx_return True)"

lemma prepare_mfa_cases:
  assumes run: "prepare_mfa R mk sid e n1 n2 now1 now2 pk backend dev code token w = (r, w')"
  obtains (early) x where "r = Inl x" "wstore w' = wstore w"
  | (denied) u b s1 where "claim_challenge R mk sid e n1 u token (wstore w) = (b, s1)" "b \<noteq> Inr True"
      "\<nexists>v. r = Inr v" "wstore w' = s1"
  | (refused) u d s1 q s2 where "claim_challenge R mk sid e n1 u token (wstore w) = (Inr True, s1)"
      "second_claim R mk sid e n2 now1 d code s1 = (q, s2)" "q \<noteq> Inr True" "\<nexists>v. r = Inr v" "wstore w' = s2"
  | (accepted) u d s1 s2 where "dev = Some d" "wusers w pk = Some u" "local u" "backend = Some LOCAL_BACKEND"
      "material e d \<in> set (factors e w (u_pk u))"
      "claim_challenge R mk sid e n1 u token (wstore w) = (Inr True, s1)"
      "second_claim R mk sid e n2 now1 d code s1 = (Inr True, s2)"
      "r = Inr (u, stamped now2 u [(''factors'', JStr (factors_digest e (factors e w (u_pk u))))])"
      "w' = w\<lparr>wstore := s2\<rparr>"
proof (cases "wusers w pk")
  case None
  with run show thesis by (intro early [of DoesNotExist]) (simp_all add: prepare_mfa_def)
next
  case (Some u)
  show thesis
  proof (cases "\<exists>d. dev = Some d \<and> local u \<and> backend = Some LOCAL_BACKEND \<and> material e d \<in> set (factors e w (u_pk u))")
    case False
    with run Some show thesis
      by (intro early [of PermissionDenied]) (auto simp: prepare_mfa_def deny_run split: option.splits if_splits)
  next
    case True
    then obtain d where d: "dev = Some d" "local u" "backend = Some LOCAL_BACKEND" "material e d \<in> set (factors e w (u_pk u))"
      by blast
    let ?attest = "stamped now2 u [(''factors'', JStr (factors_digest e (factors e w (u_pk u))))]"
    obtain b s1 where c1: "claim_challenge R mk sid e n1 u token (wstore w) = (b, s1)" by fastforce
    have body: "sx_bind (on_store (claim_challenge R mk sid e n1 u token)) (\<lambda>claimed. if \<not> claimed then deny
        else sx_bind (if d_type d = ''TOTP'' then sx_bind (on_store (claim_totp R mk sid e n2 now1 d code))
            (\<lambda>accepted. if accepted then sx_return () else deny) else sx_return ()) (\<lambda>_. sx_return (u, ?attest))) w = (r, w')"
      using run Some d by (simp add: prepare_mfa_def)
    show thesis
    proof (cases "b = Inr True")
      case False
      with body c1 show thesis
        by (intro denied [OF c1]) (auto simp: sx_bind_def on_store_def deny_run split: sum.splits bool.splits)
    next
      case True
      obtain q s2 where c2: "second_claim R mk sid e n2 now1 d code s1 = (q, s2)" by fastforce
      have step: "sx_bind (on_store (second_claim R mk sid e n2 now1 d code)) (\<lambda>accepted. if accepted then sx_return (u, ?attest) else deny)
          (w\<lparr>wstore := s1\<rparr>) = (r, w')"
        using body c1 True
        by (auto simp: sx_bind_def on_store_def second_claim_def sx_return_def deny_run Let_def split: if_splits prod.splits sum.splits)
      show thesis
      proof (cases "q = Inr True")
        case False
        with step c2 show thesis
          by (intro refused [OF c1 [unfolded True] c2]) (auto simp: sx_bind_def on_store_def deny_run split: sum.splits bool.splits if_splits)
      next
        case acc: True
        with step c2 have "r = Inr (u, ?attest)" "w' = w\<lparr>wstore := s2\<rparr>" by (auto simp: sx_bind_def on_store_def sx_return_def)
        with d Some c1 True c2 acc show thesis by (intro accepted) auto
      qed
    qed
  qed
qed

text \<open>
  Attempts from different browsers and workers have their own session, their own view of the
  database and their own signature check; they share the store.
\<close>

record 's attempt =
  at_web :: "'s web"
  at_sign :: "json \<Rightarrow> json res"
  at_net1 :: net
  at_net2 :: net
  at_now1 :: rat
  at_now2 :: rat
  at_pk :: int
  at_backend :: "string option"
  at_device :: "device option"
  at_code :: "json option"
  at_token :: json

definition attempt_run :: "'s redis \<Rightarrow> (string \<Rightarrow> string) \<Rightarrow> string \<Rightarrow> mfa_env \<Rightarrow> 's attempt \<Rightarrow> ('s, bool) sx" where
  "attempt_run R mk sid e a s =
     (case prepare_mfa R mk sid (e\<lparr>sign_loads := at_sign a\<rparr>) (at_net1 a) (at_net2 a) (at_now1 a) (at_now2 a) (at_pk a)
             (at_backend a) (at_device a) (at_code a) (at_token a) ((at_web a)\<lparr>wstore := s\<rparr>) of
        (r, w') \<Rightarrow> (Inr (\<not> isl r), wstore w'))"

definition matches :: "mfa_env \<Rightarrow> string \<Rightarrow> int \<Rightarrow> 's attempt \<Rightarrow> bool" where
  \<comment> \<open>the attempt presents, for the factor \<open>mat\<close>, the code of timestep \<open>m\<close>\<close>
  "matches e mat m a \<longleftrightarrow>
     (\<exists>d. at_device a = Some d \<and> d_type d = ''TOTP'' \<and> material e d = mat
        \<and> first_match e (d_secret d) (at_code a) [\<lfloor>at_now1 a\<rfloor> div 30, \<lfloor>at_now1 a\<rfloor> div 30 - 1] = Inr (Some m))"

lemma resigned [simp]:
  "mfa_digest (e\<lparr>sign_loads := f\<rparr>) v = mfa_digest e v" "material (e\<lparr>sign_loads := f\<rparr>) d = material e d"
  "challenge_key (e\<lparr>sign_loads := f\<rparr>) t = challenge_key e t"
  by (simp_all add: mfa_digest_def material_def challenge_key_def)

lemma resigned_match [simp]: "first_match (e\<lparr>sign_loads := f\<rparr>) sec code cs = first_match e sec code cs"
  by (induction cs) (auto split: option.splits json.splits cong: if_cong)

declare first_match.simps [simp del]

definition present :: "('s \<Rightarrow> keyspace) \<Rightarrow> string \<Rightarrow> 's \<Rightarrow> nat" where
  "present vw k s = (if vw s k = None then 0 else 1)"

context redis_laws
begin

lemma claim_challenge_present:
  assumes "claim_challenge R mk sid e n u token s = (r, s')"
  shows "present vw k s \<le> present vw k s'"
    and "r = Inr True \<Longrightarrow> present vw (mk (challenge_key e token)) s = 0 \<and> present vw (mk (challenge_key e token)) s' = 1"
    and "k \<noteq> mk (challenge_key e token) \<Longrightarrow> vw s' k = vw s k"
  using assms by (cases rule: claim_challenge_cases; auto simp: present_def)+

lemma second_claim_present:
  assumes "second_claim R mk sid e n now d code s = (r, s')"
  shows "present vw k s \<le> present vw k s'"
    and "r = Inr True \<Longrightarrow> d_type d = ''TOTP'' \<Longrightarrow>
      first_match e (d_secret d) code [\<lfloor>now\<rfloor> div 30, \<lfloor>now\<rfloor> div 30 - 1] = Inr (Some m) \<Longrightarrow>
      present vw (mk (totp_key (material e d) m)) s = 0 \<and> present vw (mk (totp_key (material e d) m)) s' = 1"
proof -
  have totp: "present vw k s \<le> present vw k s' \<and> (r = Inr True \<longrightarrow>
      first_match e (d_secret d) code [\<lfloor>now\<rfloor> div 30, \<lfloor>now\<rfloor> div 30 - 1] = Inr (Some m) \<longrightarrow>
      present vw (mk (totp_key (material e d) m)) s = 0 \<and> present vw (mk (totp_key (material e d) m)) s' = 1)"
    if "claim_totp R mk sid e n now d code s = (r, s')"
    using that by (cases rule: claim_totp_cases) (auto simp: present_def)
  show "present vw k s \<le> present vw k s'" using assms totp by (auto simp: second_claim_def sx_return_def split: if_splits)
  show "r = Inr True \<Longrightarrow> d_type d = ''TOTP'' \<Longrightarrow>
      first_match e (d_secret d) code [\<lfloor>now\<rfloor> div 30, \<lfloor>now\<rfloor> div 30 - 1] = Inr (Some m) \<Longrightarrow>
      present vw (mk (totp_key (material e d) m)) s = 0 \<and> present vw (mk (totp_key (material e d) m)) s' = 1"
    using assms totp by (simp add: second_claim_def)
qed

lemma attempt_present:
  assumes "attempt_run R mk sid e a s = (r, s')" and "inj mk"
  shows "present vw k s \<le> present vw k s'"
    and "r = Inr True \<Longrightarrow> present vw (mk (challenge_key e (at_token a))) s = 0 \<and> present vw (mk (challenge_key e (at_token a))) s' = 1"
    and "r = Inr True \<Longrightarrow> matches e mat m a \<Longrightarrow> present vw (mk (totp_key mat m)) s = 0 \<and> present vw (mk (totp_key mat m)) s' = 1"
proof -
  let ?e = "e\<lparr>sign_loads := at_sign a\<rparr>"
  obtain q w' where run: "prepare_mfa R mk sid ?e (at_net1 a) (at_net2 a) (at_now1 a) (at_now2 a) (at_pk a)
      (at_backend a) (at_device a) (at_code a) (at_token a) ((at_web a)\<lparr>wstore := s\<rparr>) = (q, w')" by fastforce
  have "isl q \<longleftrightarrow> (\<nexists>v. q = Inr v)" by (cases q) auto
  with assms(1) run have r: "r = Inr (\<exists>v. q = Inr v)" "s' = wstore w'" by (simp_all add: attempt_run_def)
  have all: "present vw k s \<le> present vw k s' \<and> (r = Inr True \<longrightarrow>
      present vw (mk (challenge_key e (at_token a))) s = 0 \<and> present vw (mk (challenge_key e (at_token a))) s' = 1
      \<and> (matches e mat m a \<longrightarrow> present vw (mk (totp_key mat m)) s = 0 \<and> present vw (mk (totp_key mat m)) s' = 1))" for k
    using run
  proof (cases rule: prepare_mfa_cases)
    case (early x)
    with r show ?thesis by simp
  next
    case (denied u b s1)
    from claim_challenge_present(1) [OF denied(1)] denied r show ?thesis by simp
  next
    case (refused u d s1 q' s2)
    from claim_challenge_present(1) [OF refused(1), of k] second_claim_present(1) [OF refused(2), of k] refused r
    show ?thesis by simp
  next
    case (accepted u d s1 s2)
    have s': "s' = s2" using accepted(9) r by simp
    have c1: "claim_challenge R mk sid ?e (at_net1 a) u (at_token a) s = (Inr True, s1)" using accepted(6) by simp
    note first = claim_challenge_present [OF c1, simplified] and second = second_claim_present [OF accepted(7), simplified]
    have up: "present vw x s2 \<le> 1" for x by (simp add: present_def)
    have "present vw (mk (totp_key mat m)) s = 0 \<and> present vw (mk (totp_key mat m)) s2 = 1" if "matches e mat m a"
    proof -
      from that accepted(1) have d: "d_type d = ''TOTP''" "material e d = mat"
          "first_match e (d_secret d) (at_code a) [\<lfloor>at_now1 a\<rfloor> div 30, \<lfloor>at_now1 a\<rfloor> div 30 - 1] = Inr (Some m)"
        by (auto simp: matches_def)
      have "mk (totp_key mat m) \<noteq> mk (challenge_key e (at_token a))"
        using \<open>inj mk\<close> by (simp add: inj_eq totp_key_def challenge_key_def)
      with first(3) have "vw s1 (mk (totp_key mat m)) = vw s (mk (totp_key mat m))" by blast
      with second(2) [of m] d show ?thesis by (simp add: present_def)
    qed
    moreover have "present vw k s \<le> present vw k s2" using first(1) [of k] second(1) [of k] by linarith
    moreover have "present vw (mk (challenge_key e (at_token a))) s2 = 1"
      using first(2) second(1) [of "mk (challenge_key e (at_token a))"] up [of "mk (challenge_key e (at_token a))"] by linarith
    ultimately show ?thesis using first(2) s' by simp
  qed
  show "present vw k s \<le> present vw k s'" using all [of k] by blast
  show "r = Inr True \<Longrightarrow> present vw (mk (challenge_key e (at_token a))) s = 0 \<and> present vw (mk (challenge_key e (at_token a))) s' = 1"
    using all by blast
  show "r = Inr True \<Longrightarrow> matches e mat m a \<Longrightarrow> present vw (mk (totp_key mat m)) s = 0 \<and> present vw (mk (totp_key mat m)) s' = 1"
    using all by blast
qed

lemma claimed_metered:
  assumes "\<And>a r s s'. attempt_run R mk sid e a s = (r, s') \<Longrightarrow> P a \<Longrightarrow> r = Inr True \<Longrightarrow> present vw k s = 0 \<and> present vw k s' = 1"
    and "inj mk"
  shows "metered (\<lambda>_. True) (counted P (attempt_run R mk sid e)) (present vw k) 1"
proof
  fix a s s'
  assume "counted P (attempt_run R mk sid e) a s = (True, s')"
  then show "present vw k s < present vw k s' \<and> present vw k s' \<le> 1" using assms(1) by (auto simp: counted_True)
next
  fix a s s'
  assume "counted P (attempt_run R mk sid e) a s = (False, s')"
  then show "present vw k s \<le> present vw k s'" using attempt_present(1) [OF _ assms(2)] by (blast dest: counted_run)
qed

lemma challenge_metered:
  assumes "inj mk"
  shows "metered (\<lambda>_. True) (counted (\<lambda>a. at_token a = tok) (attempt_run R mk sid e)) (present vw (mk (challenge_key e tok))) 1"
proof (rule claimed_metered [OF _ assms])
  fix a r s s' assume "attempt_run R mk sid e a s = (r, s')" "at_token a = tok" "r = Inr True"
  then show "present vw (mk (challenge_key e tok)) s = 0 \<and> present vw (mk (challenge_key e tok)) s' = 1"
    using attempt_present(2) [OF _ assms] by metis
qed

lemma code_metered:
  assumes "inj mk"
  shows "metered (\<lambda>_. True) (counted (matches e mat m) (attempt_run R mk sid e)) (present vw (mk (totp_key mat m))) 1"
  by (rule claimed_metered [OF _ assms]) (rule attempt_present(3) [OF _ assms])

end

section \<open>The middleware\<close>

definition may_proceed :: "mfa_env \<Rightarrow> rat \<Rightarrow> mfa_request \<Rightarrow> 's web \<Rightarrow> bool" where
  \<comment> \<open>the operator of the request has a fresh proof of the present factors, or enrolls the first
    factor on the setup view; and the last factor is not about to be removed\<close>
  "may_proceed e now rq w \<longleftrightarrow>
     (\<exists>v. wuser w = Some v
        \<and> (proof_ok e now (wsess w) v (factors e w (u_pk v)) \<or> (enrolling now (wsess w) v (factors e w (u_pk v)) \<and> named rq {SETUP}))
        \<and> \<not> (named rq DELETE \<and> is_post rq \<and> length (factors e w (u_pk v)) \<le> 1))"

lemma sx_bind_cong: "f w = g w \<Longrightarrow> sx_bind f h w = sx_bind g h w"
  by (simp add: sx_bind_def)

lemma operator_call_cong:
  assumes "wuser w = Some v" and "may_proceed e now rq w \<Longrightarrow> f w = g w"
  shows "operator_call e now status f rq v w = operator_call e now status g rq v w"
proof (cases "may_proceed e now rq w")
  case True
  with assms(2) have "sx_bind f h w = sx_bind g h w" for h :: "'b \<Rightarrow> ('a web, 'b web_answer) sx" by (auto intro: sx_bind_cong)
  then show ?thesis by (simp add: operator_call_def Let_def)
next
  case False
  with assms(1) show ?thesis by (auto simp: operator_call_def Let_def may_proceed_def)
qed

lemma locked_call_cong:
  assumes "wuser w = Some u" and "\<And>w'. may_proceed e now rq w' \<Longrightarrow> f w' = g w'"
  shows "locked_call e now status f rq u w = locked_call e now status g rq u w"
proof (cases "is_locked rq")
  case True
  have "operator_call e now status f rq v (w\<lparr>wuser := Some v\<rparr>) = operator_call e now status g rq v (w\<lparr>wuser := Some v\<rparr>)" for v
    using assms(2) by (intro operator_call_cong) auto
  with True show ?thesis by (simp add: locked_call_def atomic_def split: option.splits)
next
  case False
  have "operator_call e now status f rq u w = operator_call e now status g rq u w"
    using assms by (intro operator_call_cong) auto
  with False show ?thesis by (simp add: locked_call_def)
qed

lemma store_open_web: "\<exists>b s'. store_open R mk sid n w = (Inr b, w\<lparr>wstore := s'\<rparr>)"
proof -
  obtain r s' where "check_security_store R mk sid n (wstore w) = (r, s')" by fastforce
  then show ?thesis
    by (cases r) (auto simp: store_open_def sx_catch_def sx_bind_def on_store_def sx_return_def)
qed

section \<open>Properties\<close>

text \<open>
  C20: an authenticated operator reaches the application, other than to log out, only with a
  fresh proof bound to the present factors and the present password, or on the setup view
  while enrolling the first factor, and never to remove the last factor.  Two applications
  that agree on such states cannot be told apart through the middleware.
\<close>

theorem operator_needs_proof:
  assumes user: "wuser w = Some u" and view: "view_name rq \<noteq> Some ''logout''"
    and agree: "\<And>w'. may_proceed e now rq w' \<Longrightarrow> f w' = g w'"
  shows "mfa_call R mk sid e n1 n2 now status f rq w = mfa_call R mk sid e n1 n2 now status g rq w"
proof -
  obtain b s' where op: "store_open R mk sid n1 w = (Inr b, w\<lparr>wstore := s'\<rparr>)" using store_open_web [of R mk sid n1 w] by blast
  have "locked_call e now status f rq u (w\<lparr>wstore := t\<rparr>) = locked_call e now status g rq u (w\<lparr>wstore := t\<rparr>)" for t
    using user agree by (intro locked_call_cong) auto
  from this [of s'] this [of "wstore w"] show ?thesis
    using op user view by (simp add: mfa_call_def sx_bind_def [of _ _ w] sx_return_def)
qed

text \<open>
  A verification challenge is accepted at most once.  Among any attempts to complete a
  sign-in that share the store, whatever their sessions, signature checks, devices, codes
  and networks, at most one with a given token succeeds, and none once its claim is present.
\<close>

theorem challenge_accepted_once:
  assumes "redis_laws R vw" "inj mk"
  shows "fst (run_ops (counted (\<lambda>a. at_token a = tok) (attempt_run R mk sid e)) attempts s)
    \<le> 1 - present vw (mk (challenge_key e tok)) s"
  using metered.granted_within_limit [OF redis_laws.challenge_metered [OF assms]] by (simp add: list_all_iff)

text \<open>
  A one-time code is accepted at most once.  Among any such attempts, at most one succeeds
  that presents the code of a given timestep for a given factor, even with different
  challenges and even when the code is typed in the following timestep.
\<close>

theorem code_accepted_once:
  assumes "redis_laws R vw" "inj mk"
  shows "fst (run_ops (counted (matches e mat m) (attempt_run R mk sid e)) attempts s) \<le> 1 - present vw (mk (totp_key mat m)) s"
  using metered.granted_within_limit [OF redis_laws.code_metered [OF assms]] by (simp add: list_all_iff)

text \<open>
  What a completed sign-in proves.  After an accepted factor and its completion, the
  proof is good exactly for eight hours, for the same account with an unchanged password
  hash, while the digest of the factors is the one of the factors at acceptance.
\<close>

theorem proof_scope:
  assumes "prepare_mfa R mk sid e n1 n2 now1 now2 pk backend dev code token w = (Inr (u, attest), w1)"
    and "complete_mfa attest w2 = (Inr (), w3)"
  shows "proof_ok e t (wsess w3) v fs \<longleftrightarrow>
    fs \<noteq> [] \<and> u_pk v = u_pk u \<and> u_auth v = u_auth u \<and> 0 \<le> t - now2 \<and> t - now2 \<le> 8 * 3600
    \<and> factors_digest e fs = factors_digest e (factors e w (u_pk u))"
proof -
  from assms(1) have attest: "attest = stamped now2 u [(''factors'', JStr (factors_digest e (factors e w (u_pk u))))]"
    by (cases rule: prepare_mfa_cases) auto
  have keys: "wsess w3 PROOF = Some attest" "wsess w3 ''mfa_authenticated'' = Some (JBool True)"
    using assms(2) by (auto simp: complete_mfa_def pops_def PROOF_def ENROLL_def SEED_def)
  show ?thesis
    by (auto simp: show_int_inject proof_ok_def bound_proof_def fresh_def keys attest stamped_def stamp_def member_def PROOF_SECONDS_def)
qed

lemma insert_after_split: "x \<notin> set bs \<Longrightarrow> insert_after x y (bs @ x # as) = Inr (bs @ x # y # as)"
proof -
  assume x: "x \<notin> set bs"
  then have "takeWhile (\<lambda>z. z \<noteq> x) (bs @ x # as) = bs" "dropWhile (\<lambda>z. z \<noteq> x) (bs @ x # as) = x # as"
    by (induction bs) auto
  then show ?thesis by (simp add: insert_after_def)
qed

text \<open>
  Installing the policy wraps the application.  The admission middleware comes before
  every other one, the operator middleware right after the first realm session middleware,
  nothing else of the chain changes, and the security store gets its own database of the
  same Redis server with the configured identity.
\<close>

theorem policy_installed:
  assumes "install_policy ue environ ns = Inr ns'"
  shows "\<exists>before after sid u. ns_middleware ns = Some (before @ ''realms.middlewares.realm_session_middleware'' # after)
    \<and> ''realms.middlewares.realm_session_middleware'' \<notin> set before
    \<and> ns_middleware ns' = Some (''azd_santa_admission.Admission'' # before @ ''realms.middlewares.realm_session_middleware''
         # ''azd_santa_operator.RequireOperatorMFA'' # after)
    \<and> environ ''AZD_SANTA_SECURITY_STORE_ID'' = Some sid \<and> is_sha256_hex sid \<and> ns_store_id ns' = Some sid
    \<and> ur_scheme u \<in> {''redis'', ''rediss''} \<and> member (ns_caches ns') ''azd_santa_security'' = Some (security_cache u)"
proof -
  let ?realm = "''realms.middlewares.realm_session_middleware''"
  from assms obtain u caches chain c1 where ok: "ur_scheme u \<in> {''redis'', ''rediss''}" "ns_middleware ns = Some chain"
      "insert_after ?realm ''azd_santa_operator.RequireOperatorMFA'' chain = Inr c1"
      "set_item (the (ns_caches ns)) ''azd_santa_security'' (security_cache u) = Inr caches"
      "ns_caches ns' = Some caches" "ns_middleware ns' = Some (''azd_santa_admission.Admission'' # c1)"
      "is_sha256_hex (case environ ''AZD_SANTA_SECURITY_STORE_ID'' of None \<Rightarrow> [] | Some v \<Rightarrow> v)"
      "ns_store_id ns' = Some (case environ ''AZD_SANTA_SECURITY_STORE_ID'' of None \<Rightarrow> [] | Some v \<Rightarrow> v)"
    by (auto simp: install_policy_def Let_def res_simps split: if_splits option.splits json.splits) blast+
  from ok(3) have "?realm \<in> set chain" by (auto simp: insert_after_def split: if_splits)
  then obtain before after where chain: "chain = before @ ?realm # after" "?realm \<notin> set before" by (meson split_list_first)
  have "c1 = before @ ?realm # ''azd_santa_operator.RequireOperatorMFA'' # after"
    using ok(3) insert_after_split [OF chain(2), of _ after] unfolding chain(1) by simp
  moreover obtain sid where "environ ''AZD_SANTA_SECURITY_STORE_ID'' = Some sid"
    using ok(7) by (cases "environ ''AZD_SANTA_SECURITY_STORE_ID''") (simp_all add: is_sha256_hex_def fullmatch_n_def)
  moreover have "member (ns_caches ns') ''azd_santa_security'' = Some (security_cache u)"
    using ok(4,5) by (cases "the (ns_caches ns)") (auto simp: member_def)
  ultimately show ?thesis using ok chain by auto
qed

section \<open>Witnesses\<close>

definition fx_py :: py_env where
  "fx_py = \<lparr>float_of = (\<lambda>_. Fin 0), float_repr = (\<lambda>_. ''0.0''), nest_limit = 100, decode_wide = (\<lambda>_. Inl ValueError)\<rparr>"

definition fx_nonce :: string where
  "fx_nonce = replicate 43 (CHR ''n'')"

definition fx_mfa :: mfa_env where
  "fx_mfa = \<lparr>me_py = fx_py, salted_hmac = (\<lambda>_ v. v), py_str = (\<lambda>_. []),
     sign_loads = (\<lambda>_. Inr (JObj [(''user_id'', JInt 1), (''auth_backend'', JStr LOCAL_BACKEND), (''azd_auth_hash'', JStr ''h''),
        (''azd_nonce'', JStr fx_nonce)])),
     totp_at = (\<lambda>_ _. Inr ''123456''), pk_of = (\<lambda>_. Inr 1), normalise = (\<lambda>s. s)\<rparr>"

definition fx_user :: user where
  "fx_user = \<lparr>u_pk = 1, u_active = True, u_remote = False, u_service = False, u_usable = True, u_auth = ''h''\<rparr>"

definition fx_device :: device where
  "fx_device = \<lparr>d_type = ''TOTP'', d_pk = 1, d_secret = ''s'', d_handle = [], d_public = [], d_rp = []\<rparr>"

definition fx_web :: "mem web" where
  "fx_web = \<lparr>wsess = Map.empty, wuser = None, wusers = [1 \<mapsto> fx_user], wtotp = (\<lambda>_. [fx_device]), wauthn = (\<lambda>_. []), wstore = fx_mem\<rparr>"

definition fx_attempt :: "mem attempt" where
  "fx_attempt = \<lparr>at_web = fx_web, at_sign = sign_loads fx_mfa, at_net1 = Delivered, at_net2 = Delivered, at_now1 = 0, at_now2 = 0, at_pk = 1,
     at_backend = Some LOCAL_BACKEND, at_device = Some fx_device, at_code = Some (JStr ''123456''), at_token = JStr ''t''\<rparr>"

lemma fx_attempt_ok: "fst (attempt_run mem_redis (\<lambda>k. k) ''ab'' fx_mfa fx_attempt fx_mem) = Inr True"
  by code_simp

theorem operator_needs_proof_witness:
  "mfa_call mem_redis (\<lambda>k. k) ''ab'' fx_mfa Delivered Delivered 0 (\<lambda>r. 200)
     (\<lambda>w. if may_proceed fx_mfa 0 \<lparr>view_name = None, rq_method = ''GET'', rq_username = [], rq_target = None\<rparr> w
           then (Inr ''page'', w) else (Inl RuntimeError, w))
     \<lparr>view_name = None, rq_method = ''GET'', rq_username = [], rq_target = None\<rparr> (fx_web\<lparr>wuser := Some fx_user\<rparr>)
   = mfa_call mem_redis (\<lambda>k. k) ''ab'' fx_mfa Delivered Delivered 0 (\<lambda>r. 200) (\<lambda>w. (Inr ''page'', w))
     \<lparr>view_name = None, rq_method = ''GET'', rq_username = [], rq_target = None\<rparr> (fx_web\<lparr>wuser := Some fx_user\<rparr>)"
  by (rule operator_needs_proof [where u = fx_user]) simp_all

theorem challenge_accepted_once_witness:
  "fst (run_ops (counted (\<lambda>a. at_token a = JStr ''t'') (attempt_run mem_redis (\<lambda>k. k) ''ab'' fx_mfa)) [fx_attempt, fx_attempt] fx_mem) \<le> 1
   \<and> fst (attempt_run mem_redis (\<lambda>k. k) ''ab'' fx_mfa fx_attempt fx_mem) = Inr True"
  using challenge_accepted_once [OF mem.redis_laws_axioms, of "\<lambda>k. k" "JStr ''t''" "''ab''" fx_mfa "[fx_attempt, fx_attempt]" fx_mem]
    fx_attempt_ok by (simp del: run_ops.simps)

theorem code_accepted_once_witness:
  "fst (run_ops (counted (matches fx_mfa (material fx_mfa fx_device) 0) (attempt_run mem_redis (\<lambda>k. k) ''ab'' fx_mfa)) [fx_attempt, fx_attempt] fx_mem) \<le> 1
   \<and> fst (attempt_run mem_redis (\<lambda>k. k) ''ab'' fx_mfa fx_attempt fx_mem) = Inr True"
  using code_accepted_once [OF mem.redis_laws_axioms, of "\<lambda>k. k" fx_mfa "material fx_mfa fx_device" 0 "''ab''" "[fx_attempt, fx_attempt]" fx_mem]
    fx_attempt_ok by (simp del: run_ops.simps)

theorem proof_scope_witness:
  "\<exists>attest. fst (prepare_mfa mem_redis (\<lambda>k. k) ''ab'' fx_mfa Delivered Delivered 0 0 1 (Some LOCAL_BACKEND) (Some fx_device)
       (Some (JStr ''123456'')) (JStr ''t'') fx_web) = Inr (fx_user, attest)
     \<and> proof_ok fx_mfa 28800 (wsess (snd (complete_mfa attest fx_web))) fx_user (factors fx_mfa fx_web 1)
     \<and> \<not> proof_ok fx_mfa 28801 (wsess (snd (complete_mfa attest fx_web))) fx_user (factors fx_mfa fx_web 1)"
proof -
  let ?attest = "stamped 0 fx_user [(''factors'', JStr (factors_digest fx_mfa (factors fx_mfa fx_web 1)))]"
  have run: "fst (prepare_mfa mem_redis (\<lambda>k. k) ''ab'' fx_mfa Delivered Delivered 0 0 1 (Some LOCAL_BACKEND) (Some fx_device)
      (Some (JStr ''123456'')) (JStr ''t'') fx_web) = Inr (fx_user, ?attest)" by code_simp
  have some: "factors fx_mfa fx_web 1 \<noteq> []" by code_simp
  obtain w1 where full: "prepare_mfa mem_redis (\<lambda>k. k) ''ab'' fx_mfa Delivered Delivered 0 0 1 (Some LOCAL_BACKEND) (Some fx_device)
      (Some (JStr ''123456'')) (JStr ''t'') fx_web = (Inr (fx_user, ?attest), w1)" using run by (metis prod.collapse)
  have compl: "complete_mfa ?attest fx_web = (Inr (), snd (complete_mfa ?attest fx_web))" by (simp add: complete_mfa_def)
  note scope = proof_scope [OF full compl, of _ fx_user "factors fx_mfa fx_web 1"]
  have "factors fx_mfa fx_web (u_pk fx_user) = factors fx_mfa fx_web 1" by (simp add: fx_user_def)
  then show ?thesis using scope [of 28800] scope [of 28801] run some by (intro exI [of _ ?attest]) simp
qed

theorem policy_installed_witness:
  "\<exists>ns'. install_policy \<lparr>bracket_ok = (\<lambda>_. True), nfkc_ok = (\<lambda>_. True)\<rparr>
       [''AZD_SANTA_SECURITY_STORE_ID'' \<mapsto> replicate 64 (CHR ''a'')]
       \<lparr>ns_caches = Some (JObj [(''default'', JObj [(''LOCATION'', JStr ''redis://r/0'')])]),
        ns_middleware = Some [''m'', ''realms.middlewares.realm_session_middleware''], ns_store_id = None\<rparr> = Inr ns'
     \<and> (\<exists>rest. ns_middleware ns' = Some (''azd_santa_admission.Admission'' # rest))"
proof -
  let ?run = "install_policy \<lparr>bracket_ok = (\<lambda>_. True), nfkc_ok = (\<lambda>_. True)\<rparr>
       [''AZD_SANTA_SECURITY_STORE_ID'' \<mapsto> replicate 64 (CHR ''a'')]
       \<lparr>ns_caches = Some (JObj [(''default'', JObj [(''LOCATION'', JStr ''redis://r/0'')])]),
        ns_middleware = Some [''m'', ''realms.middlewares.realm_session_middleware''], ns_store_id = None\<rparr>"
  have "\<not> isl ?run" by code_simp
  then obtain ns' where "?run = Inr ns'" by (cases ?run) auto
  with policy_installed [OF this] show ?thesis by auto
qed

end
