(* ===== verification/Sealed_Setup.thy ===== *)
theory Sealed_Setup
  imports Py_Url Py_Objects Digests
begin

text \<open>
  The recipient-only envelope of \<open>experiments/server/sealed_setup.py\<close>: the identity digest, the
  canonical origin, the associated data, the checks of a recipient and of a setup link, and
  the bounded envelope.  The cryptographic library is a record of functions over an
  unspecified type of keys; the fresh key and nonce of an encryption are arguments.
\<close>

record 'k crypto =
  load_der :: "bytes \<Rightarrow> 'k res"
  is_rsa :: "'k \<Rightarrow> bool"
  key_size :: "'k \<Rightarrow> nat"
  key_exponent :: "'k \<Rightarrow> nat"
  public_der :: "'k \<Rightarrow> bytes"
  oaep_encrypt :: "'k \<Rightarrow> bytes \<Rightarrow> bytes"
  aesgcm_encrypt :: "bytes \<Rightarrow> bytes \<Rightarrow> bytes \<Rightarrow> bytes \<Rightarrow> bytes"  \<comment> \<open>key, nonce, plaintext, associated data\<close>

definition ALGORITHM :: string where
  "ALGORITHM = ''RSA-OAEP-256+A256GCM''"

definition SCOPE :: string where
  "SCOPE = ''azd-santa-sealed-setup''"

definition MAX_ENVELOPE_BYTES :: nat where
  "MAX_ENVELOPE_BYTES = 2600"

definition require :: "bool \<Rightarrow> unit res" where
  "require b = res_guard b SealedSetupError"

section \<open>Identity and origin\<close>

definition pack_u32 :: "nat \<Rightarrow> bytes" where
  \<comment> \<open>\<open>struct.pack('>I', n)\<close>\<close>
  "pack_u32 n = map (\<lambda>i. char_of (n div 256 ^ i mod 256)) [3, 2, 1, 0]"

definition packed_identity :: "string \<Rightarrow> string \<Rightarrow> bytes" where
  "packed_identity username email = concat (map (\<lambda>v. pack_u32 (length v) @ v) [username, email])"

definition target_digest :: "json \<Rightarrow> json \<Rightarrow> string res" where
  "target_digest username email =
     (case (username, email) of
        (JStr u, JStr m) \<Rightarrow>
          if valid_utf8 False u \<and> valid_utf8 False m
          then res_bind (require (length u \<le> 2048 \<and> length m \<le> 2048)) (\<lambda>_. Inr (sha256_hex (packed_identity u m)))
          else Inl UnicodeError
      | _ \<Rightarrow> Inl SealedSetupError)"

definition is_host :: "string \<Rightarrow> bool" where
  \<comment> \<open>\<open>[A-Za-z0-9](?:[A-Za-z0-9.-]*[A-Za-z0-9])?\<close>\<close>
  "is_host h \<longleftrightarrow> h \<noteq> [] \<and> is_alnum (hd h) \<and> is_alnum (last h)
     \<and> list_all (\<lambda>c. is_alnum c \<or> c \<in> {CHR ''.'', CHR ''-''}) h"

definition origin :: "url_env \<Rightarrow> json \<Rightarrow> string res" where
  "origin ue v =
     (case v of
        JStr s \<Rightarrow>
          res_bind (require (isascii s \<and> length s \<le> 256)) (\<lambda>_.
            (case res_bind (urlsplit ue s) (\<lambda>u. res_bind (url_port u) (\<lambda>p. Inr (u, p))) of
               Inl x \<Rightarrow> if isa_ValueError x then Inl SealedSetupError else Inl x
             | Inr (u, port) \<Rightarrow>
                 (case url_hostname u of
                    None \<Rightarrow> Inl SealedSetupError
                  | Some h \<Rightarrow>
                      res_bind (require (ur_scheme u = ''https'' \<and> h \<noteq> [] \<and> \<not> given (url_username u) \<and> \<not> given (url_password u)
                         \<and> ur_query u = [] \<and> ur_fragment u = [] \<and> ur_path u \<in> {[], ''/''} \<and> is_host h
                         \<and> (case port of None \<Rightarrow> True | Some n \<Rightarrow> 1 \<le> n \<and> n \<le> 65535))) (\<lambda>_.
                        Inr (''https://'' @ py_lower_ascii h
                             @ (case port of None \<Rightarrow> [] | Some n \<Rightarrow> if n \<noteq> 0 \<and> n \<noteq> 443 then CHR '':'' # show_nat n else []))))))
      | _ \<Rightarrow> Inl SealedSetupError)"

definition aad_text :: "string \<Rightarrow> string \<Rightarrow> string \<Rightarrow> string \<Rightarrow> string" where
  "aad_text md kid ctx target =
     ''azd-santa-operator-setup/v1|'' @ ALGORITHM @ ''|'' @ md @ ''|'' @ kid @ ''|'' @ ctx @ ''|'' @ target"

definition aad :: "string \<Rightarrow> string \<Rightarrow> string \<Rightarrow> string \<Rightarrow> bytes res" where
  "aad md kid ctx target =
     (let t = aad_text md kid ctx target in if isascii t then Inr t else Inl UnicodeError)"

section \<open>Recipients\<close>

record 'k recipient =
  rc_key :: 'k
  rc_kid :: string
  rc_context :: string
  rc_target :: string
  rc_mode :: string
  rc_origin :: string

definition envelope :: "'k recipient \<Rightarrow> bytes \<Rightarrow> bytes \<Rightarrow> bytes \<Rightarrow> json" where
  "envelope r wrapped nonce ciphertext = JObj
     [(''scope'', JStr SCOPE), (''version'', JInt 1), (''algorithm'', JStr ALGORITHM), (''mode'', JStr (rc_mode r)),
      (''kid_sha256'', JStr (rc_kid r)), (''context_sha256'', JStr (rc_context r)), (''target_sha256'', JStr (rc_target r)),
      (''wrapped_key_base64'', JStr (b64_encode False wrapped)), (''nonce_base64'', JStr (b64_encode False nonce)),
      (''ciphertext_base64'', JStr (b64_encode False ciphertext))]"

definition rc_encrypt :: "'k crypto \<Rightarrow> py_env \<Rightarrow> bytes \<Rightarrow> bytes \<Rightarrow> 'k recipient \<Rightarrow> json \<Rightarrow> json res" where
  \<comment> \<open>the two byte strings are the fresh key and nonce\<close>
  "rc_encrypt C e key nonce r payload =
     res_bind (aad (rc_mode r) (rc_kid r) (rc_context r) (rc_target r)) (\<lambda>ad.
       let ct = aesgcm_encrypt C key nonce (print_json e False payload) ad;
           result = envelope r (oaep_encrypt C (rc_key r) key) nonce ct
       in res_bind (require (length (print_json e True result) \<le> MAX_ENVELOPE_BYTES)) (\<lambda>_. Inr result))"

definition setup_payload :: "string \<Rightarrow> json \<Rightarrow> int \<Rightarrow> json" where
  "setup_payload url expires pk = JObj [(''setup_url'', JStr url), (''expires_at_unix'', expires), (''target_pk'', JInt pk)]"

definition reset_uid :: "string \<Rightarrow> string option" where
  \<comment> \<open>\<open>/accounts/reset/(?P<uid>[A-Za-z0-9_-]{1,32})/[0-9a-z]{1,16}-[0-9a-f]{32}/\<close>\<close>
  "reset_uid p =
     (case split_on (CHR ''/'') p of
        [a, b, c, uid, tok, z] \<Rightarrow>
          (case split_first (CHR ''-'') tok of
             None \<Rightarrow> None
           | Some (ts, sig) \<Rightarrow>
               if a = [] \<and> b = ''accounts'' \<and> c = ''reset'' \<and> z = [] \<and> fullmatch_range is_urlsafe 1 32 uid
                  \<and> fullmatch_range (\<lambda>ch. is_digit ch \<or> is_lower ch) 1 16 ts \<and> fullmatch_n is_lower_hex 32 sig
               then Some uid else None)
      | _ \<Rightarrow> None)"

definition pad_b64 :: "string \<Rightarrow> string" where
  "pad_b64 s = s @ replicate ((4 - length s mod 4) mod 4) (CHR ''='')"

text \<open>
  \<open>type(v) in (int, float) and math.isfinite(v) and v > 0\<close>; an integer that rounds beyond the
  largest float makes \<open>isfinite\<close> raise.
\<close>

fun positive_time :: "json \<Rightarrow> bool res" where
  "positive_time (JInt i) = (if \<bar>i\<bar> \<ge> 2 ^ 1024 - 2 ^ 970 then Inl OverflowError else Inr (0 < i))"
| "positive_time (JFloat (Fin q)) = Inr (0 < q)"
| "positive_time _ = Inr False"

definition seal :: "'k crypto \<Rightarrow> url_env \<Rightarrow> py_env \<Rightarrow> bytes \<Rightarrow> bytes \<Rightarrow> 'k recipient \<Rightarrow> json \<Rightarrow> json res" where
  "seal C ue e key nonce r artifact =
     res_bind (item_of artifact ''mode'') (\<lambda>md.
     res_bind (require (md = JStr (rc_mode r))) (\<lambda>_.
     res_bind (item_of artifact ''target'') (\<lambda>target.
     res_bind (item_of target ''username'') (\<lambda>username.
     res_bind (item_of target ''email'') (\<lambda>email.
     res_bind (target_digest username email) (\<lambda>digest.
     res_bind (require (digest = rc_target r)) (\<lambda>_.
     res_bind (item_of artifact ''setup_url'') (\<lambda>v.
     res_bind (case v of JStr s \<Rightarrow> res_bind (require (isascii s \<and> length s \<le> 768)) (\<lambda>_. Inr s) | _ \<Rightarrow> Inl SealedSetupError) (\<lambda>url.
     res_bind (urlsplit ue url) (\<lambda>u.
     res_bind (origin ue (JStr (''https://'' @ ur_netloc u))) (\<lambda>org.
     res_bind (require (org = rc_origin r \<and> ur_scheme u = ''https'' \<and> ur_query u = [] \<and> ur_fragment u = []
                        \<and> reset_uid (ur_path u) \<noteq> None)) (\<lambda>_.
     res_bind (item_of target ''pk'') (\<lambda>pk.
     res_bind (item_of artifact ''expires_at_unix'') (\<lambda>expires.
     res_bind (case pk of
                 JInt i \<Rightarrow>
                   res_bind (require (1 \<le> i \<and> i \<le> 2 ^ 63 - 1)) (\<lambda>_.
                   res_bind (positive_time expires) (\<lambda>pos. res_bind (require pos) (\<lambda>_. Inr i)))
               | _ \<Rightarrow> Inl SealedSetupError) (\<lambda>i.
     res_bind (b64_decode True (pad_b64 (the (reset_uid (ur_path u))))) (\<lambda>uid.
     res_bind (if isascii uid then Inr () else Inl UnicodeError) (\<lambda>_.
     res_bind (require (uid = show_int i)) (\<lambda>_.
       rc_encrypt C e key nonce r (setup_payload url expires i)))))))))))))))))))"

definition load_recipient_key :: "'k crypto \<Rightarrow> json \<Rightarrow> ('k \<times> bytes) res" where
  "load_recipient_key C public_key_base64 =
     (case public_key_base64 of
        JStr s \<Rightarrow>
          res_bind (require (py_len s \<le> 1024)) (\<lambda>_.
            (case res_bind (if isascii s then b64_decode False s else Inl ValueError) (\<lambda>raw.
                  res_bind (require (b64_encode False raw = s)) (\<lambda>_.
                  res_bind (load_der C raw) (\<lambda>k. Inr (k, raw)))) of
               Inl x \<Rightarrow> if isa_ValueError x \<or> x = TypeError then Inl SealedSetupError else Inl x
             | Inr kr \<Rightarrow> Inr kr))
      | _ \<Rightarrow> Inl SealedSetupError)"

definition max_expiry :: pyfloat where
  \<comment> \<open>the double nearest to 9999999999.999999\<close>
  "max_expiry = Fin (5242879999999999 / 524288)"

definition prepare_recipient :: "'k crypto \<Rightarrow> url_env \<Rightarrow> py_env \<Rightarrow> bytes \<Rightarrow> bytes \<Rightarrow> json \<Rightarrow> json \<Rightarrow> json \<Rightarrow> json \<Rightarrow> json \<Rightarrow> json
    \<Rightarrow> 'k recipient res" where
  "prepare_recipient C ue e key nonce public_key_base64 context_sha256 md username email setup_origin =
     (case (md, context_sha256) of
        (JStr m, JStr ctx) \<Rightarrow>
          res_bind (require (m \<in> {''bootstrap'', ''recover''} \<and> is_sha256_hex ctx)) (\<lambda>_.
          res_bind (load_recipient_key C public_key_base64) (\<lambda>(k, raw).
          res_bind (require (is_rsa C k \<and> key_size C k = 3072 \<and> key_exponent C k = 65537 \<and> public_der C k = raw)) (\<lambda>_.
          res_bind (target_digest username email) (\<lambda>target.
          res_bind (origin ue setup_origin) (\<lambda>org.
            let r = \<lparr>rc_key = k, rc_kid = sha256_hex raw, rc_context = ctx, rc_target = target, rc_mode = m, rc_origin = org\<rparr>
            in res_bind (rc_encrypt C e key nonce r (setup_payload (replicate 768 (CHR ''x'')) (JFloat max_expiry) (2 ^ 63 - 1)))
                 (\<lambda>_. Inr r))))))
      | _ \<Rightarrow> Inl SealedSetupError)"

end
