(* ===== verification/Sealed_Facts.thy ===== *)
theory Sealed_Facts
  imports Sealed_Setup Json_Roundtrip
begin

text \<open>
  The associated data and the packed identity determine what they are made of, and the
  envelope of every setup link that the checks let through fits its bound once a recipient
  has been prepared.
\<close>

section \<open>Binding\<close>

lemma first_sep: "d \<notin> set a \<Longrightarrow> d \<notin> set b \<Longrightarrow> a @ d # x = b @ d # y \<longleftrightarrow> a = b \<and> x = y"
proof (induction a arbitrary: b)
  case Nil
  then show ?case by (cases b) auto
next
  case (Cons c a)
  then show ?case by (cases b) auto
qed

lemma hex_no_bar: "is_sha256_hex s \<Longrightarrow> CHR ''|'' \<notin> set s"
  by (auto simp: is_sha256_hex_def fullmatch_n_def list_all_iff is_lower_hex_def is_digit_def in_range_def)

lemma aad_text_inject:
  assumes "md \<in> {''bootstrap'', ''recover''}" "md' \<in> {''bootstrap'', ''recover''}"
    and "is_sha256_hex kid" "is_sha256_hex ctx" "is_sha256_hex kid'" "is_sha256_hex ctx'"
  shows "aad_text md kid ctx target = aad_text md' kid' ctx' target' \<longleftrightarrow> md = md' \<and> kid = kid' \<and> ctx = ctx' \<and> target = target'"
proof -
  have bars: "CHR ''|'' \<notin> set md" "CHR ''|'' \<notin> set md'" using assms(1,2) by auto
  note hex = hex_no_bar [OF assms(3)] hex_no_bar [OF assms(4)] hex_no_bar [OF assms(5)] hex_no_bar [OF assms(6)]
  show ?thesis by (simp add: aad_text_def first_sep [OF bars] first_sep [OF hex(1,3)] first_sep [OF hex(2,4)])
qed

lemma pack_u32_length [simp]: "length (pack_u32 n) = 4"
  by (simp add: pack_u32_def)

lemma pack_u32_inject:
  assumes "m < 65536" "n < 65536" "pack_u32 m = pack_u32 n"
  shows "m = n"
proof -
  have "m div 256 mod 256 = n div 256 mod 256" "m mod 256 = n mod 256"
    using assms(3) by (simp_all add: pack_u32_def char_of_eq_iff take_bit_eq_mod)
  moreover have "m div 256 < 256" "n div 256 < 256" using assms(1,2) by auto
  ultimately have "m div 256 = n div 256" "m mod 256 = n mod 256" by simp_all
  then show ?thesis by (metis div_mult_mod_eq)
qed

lemma packed_identity_inject:
  assumes "length u \<le> 2048" "length m \<le> 2048" "length u' \<le> 2048" "length m' \<le> 2048"
  shows "packed_identity u m = packed_identity u' m' \<longleftrightarrow> u = u' \<and> m = m'"
proof
  assume "packed_identity u m = packed_identity u' m'"
  then have eq: "pack_u32 (length u) @ u @ pack_u32 (length m) @ m = pack_u32 (length u') @ u' @ pack_u32 (length m') @ m'"
    by (simp add: packed_identity_def)
  then have "pack_u32 (length u) = pack_u32 (length u')" by (rule append_eq_append_conv [THEN iffD1, THEN conjunct1, rotated]) simp
  then have "length u = length u'" by (rule pack_u32_inject [rotated 2]) (use assms in auto)
  with eq show "u = u' \<and> m = m'" by simp
qed simp

section \<open>Size\<close>

definition is_unescaped :: "char \<Rightarrow> bool" where
  "is_unescaped c \<longleftrightarrow> 32 \<le> ord c \<and> ord c < 127 \<and> ord c \<noteq> 34 \<and> ord c \<noteq> 92"

lemma escape_unescaped: "is_unescaped c \<Longrightarrow> escape_point a (ord c) = [c]"
  by (simp add: is_unescaped_def escape_point_def simple_escape_def utf8_encode_ascii)

lemma length_quote:
  assumes "list_all is_unescaped s"
  shows "length (quote a s) = length s + 2"
proof -
  have "list_all is_ascii s" using assms by (auto simp: list_all_iff is_unescaped_def is_ascii_def)
  moreover have "concat (map (escape_point a) (map ord s)) = s"
    using assms by (induction s) (auto simp: escape_unescaped)
  ultimately show ?thesis by (simp add: quote_def code_points_ascii)
qed

lemma unescaped_alnum: "is_alnum c \<Longrightarrow> is_unescaped c"
  by (auto simp: is_unescaped_def is_alnum_def is_upper_def is_lower_def is_digit_def in_range_def)

lemma unescaped_hex: "is_sha256_hex s \<Longrightarrow> list_all is_unescaped s"
  by (auto simp: is_sha256_hex_def fullmatch_n_def list_all_iff is_unescaped_def is_lower_hex_def is_digit_def in_range_def)

lemma unescaped_b64_char: "n < 64 \<Longrightarrow> is_unescaped (b64_char u n)"
  by (cases u) (auto simp: b64_char_def is_unescaped_def)

lemma unescaped_pad: "is_unescaped pad_char"
  by (simp add: pad_char_def is_unescaped_def)

lemma unescaped_b64: "list_all is_unescaped (b64_encode u bs)"
proof (induction u bs rule: b64_encode.induct)
  case 1
  then show ?case by simp
qed (simp_all add: unescaped_b64_char b64_bounds unescaped_pad del: mod_mult_self1 One_nat_def)

lemma length_join_on: "xs \<noteq> [] \<Longrightarrow> length (join_on c xs) = sum_list (map length xs) + (length xs - 1)"
  by (induction c xs rule: join_on.induct) simp_all

lemma unescaped_const: "list_all is_unescaped SCOPE" "list_all is_unescaped ALGORITHM"
    "md \<in> {''bootstrap'', ''recover''} \<Longrightarrow> list_all is_unescaped md"
  by (auto simp: SCOPE_def ALGORITHM_def is_unescaped_def)

lemma length_key: "length (quote True ''scope'') = 7" "length (quote True ''version'') = 9" "length (quote True ''algorithm'') = 11"
    "length (quote True ''mode'') = 6" "length (quote True ''kid_sha256'') = 12" "length (quote True ''context_sha256'') = 16"
    "length (quote True ''target_sha256'') = 15" "length (quote True ''wrapped_key_base64'') = 20"
    "length (quote True ''nonce_base64'') = 14" "length (quote True ''ciphertext_base64'') = 19"
    "length (quote False ''setup_url'') = 11" "length (quote False ''expires_at_unix'') = 17" "length (quote False ''target_pk'') = 11"
  by (subst length_quote; simp add: is_unescaped_def)+

lemma envelope_length:
  assumes "rc_mode r \<in> {''bootstrap'', ''recover''}" "is_sha256_hex (rc_kid r)" "is_sha256_hex (rc_context r)" "is_sha256_hex (rc_target r)"
  shows "length (print_json e True (envelope r wrapped nonce ct)) \<le>
    446 + 4 * ((length wrapped + 2) div 3) + 4 * ((length nonce + 2) div 3) + 4 * ((length ct + 2) div 3)"
proof -
  have hex: "length (quote True s) = 66" if "is_sha256_hex s" for s
    using length_quote [OF unescaped_hex [OF that]] that by (simp add: is_sha256_hex_def fullmatch_n_def)
  have md: "length (quote True (rc_mode r)) \<le> 11" using length_quote [OF unescaped_const(3) [OF assms(1)], of True] assms(1) by auto
  have cst: "length (quote True SCOPE) = 24" "length (quote True ALGORITHM) = 22"
    using length_quote [OF unescaped_const(1), of True] length_quote [OF unescaped_const(2), of True] by (simp_all add: SCOPE_def ALGORITHM_def)
  have b64: "length (quote True (b64_encode False bs)) = 4 * ((length bs + 2) div 3) + 2" for bs
    using length_quote [OF unescaped_b64] by (simp add: length_b64_encode)
  have one: "length (show_int 1) = 1" by code_simp
  show ?thesis
    unfolding envelope_def
    by (simp add: length_join_on length_key hex [OF assms(2)] hex [OF assms(3)] hex [OF assms(4)] cst b64 one) (use md in linarith)
qed

lemma payload_length:
  assumes "list_all is_unescaped u" "length u \<le> 768" "1 \<le> pk" "pk \<le> 2 ^ 63 - 1" "length (float_repr e x) \<le> 24"
  shows "length (print_json e False (setup_payload u (JFloat x) pk)) \<le> 859"
proof -
  have "nat pk < 10 ^ 19" using assms(3,4) by (simp add: nat_less_iff)
  then have "length (show_nat (nat pk)) \<le> 19" by (rule length_show_nat) simp
  then have "length (show_int pk) \<le> 19" using assms(3) by (simp add: show_int_def)
  then show ?thesis
    using assms(2,5) by (simp add: setup_payload_def length_join_on length_key length_quote [OF assms(1)])
qed

definition crypto_sizes :: "'k crypto \<Rightarrow> bool" where
  \<comment> \<open>RSA-3072 gives 384 bytes, AES-GCM adds a tag of 16 bytes\<close>
  "crypto_sizes C \<longleftrightarrow> (\<forall>k m. key_size C k = 3072 \<longrightarrow> length (oaep_encrypt C k m) = 384)
     \<and> (\<forall>key n p a. length (aesgcm_encrypt C key n p a) = length p + 16)"

lemma aad_ascii:
  assumes "md \<in> {''bootstrap'', ''recover''}" "is_sha256_hex kid" "is_sha256_hex ctx" "is_sha256_hex target"
  shows "aad md kid ctx target = Inr (aad_text md kid ctx target)"
proof -
  have un: "isascii s" if "list_all is_unescaped s" for s
    using that by (auto simp: isascii_def list_all_iff is_unescaped_def is_ascii_def)
  have "isascii md" using un [OF unescaped_const(3) [OF assms(1)]] .
  moreover have "isascii (''azd-santa-operator-setup/v1|'' @ ALGORITHM @ ''|'')" "isascii ''|''"
    by (simp_all add: ALGORITHM_def isascii_def is_ascii_def)
  ultimately show ?thesis
    using un [OF unescaped_hex [OF assms(2)]] un [OF unescaped_hex [OF assms(3)]] un [OF unescaped_hex [OF assms(4)]]
    by (simp add: aad_def aad_text_def isascii_def)
qed

lemma encrypt_fits:
  assumes r: "rc_mode r \<in> {''bootstrap'', ''recover''}" "is_sha256_hex (rc_kid r)" "is_sha256_hex (rc_context r)" "is_sha256_hex (rc_target r)"
    and key: "key_size C (rc_key r) = 3072" and C: "crypto_sizes C" and nonce: "length nonce = 12"
    and payload: "list_all is_unescaped u" "length u \<le> 768" "1 \<le> pk" "pk \<le> 2 ^ 63 - 1" "length (float_repr e x) \<le> 24"
  shows "\<exists>env. rc_encrypt C e k nonce r (setup_payload u (JFloat x) pk) = Inr env"
proof -
  let ?ct = "aesgcm_encrypt C k nonce (print_json e False (setup_payload u (JFloat x) pk)) (aad_text (rc_mode r) (rc_kid r) (rc_context r) (rc_target r))"
  let ?w = "oaep_encrypt C (rc_key r) k"
  have "length ?w = 384" "length ?ct \<le> 875"
    using C key payload_length [OF payload] by (simp_all add: crypto_sizes_def)
  then have "(length ?ct + 2) div 3 \<le> 292" by linarith
  then have "length (print_json e True (envelope r ?w nonce ?ct)) \<le> MAX_ENVELOPE_BYTES"
    using envelope_length [OF r, of e ?w nonce ?ct] \<open>length ?w = 384\<close> nonce by (simp add: MAX_ENVELOPE_BYTES_def)
  then show ?thesis
    unfolding rc_encrypt_def aad_ascii [OF r] by (simp add: require_def del: print_json.simps)
qed

section \<open>Prepared recipients\<close>

lemma require_iff [res_simps]: "require b = Inr x \<longleftrightarrow> b"
  by (simp add: require_def res_simps)

lemma json_case_Inr:
  "(case v of JStr s \<Rightarrow> f s | _ \<Rightarrow> Inl x) = Inr y \<longleftrightarrow> (\<exists>s. v = JStr s \<and> f s = Inr y)"
  "(case v of JInt i \<Rightarrow> g i | _ \<Rightarrow> Inl x) = Inr y \<longleftrightarrow> (\<exists>i. v = JInt i \<and> g i = Inr y)"
  by (auto split: json.splits)

lemma target_digest_shape: "target_digest u m = Inr d \<Longrightarrow> is_sha256_hex d"
  by (auto simp: target_digest_def sha256_hex_shape res_simps split: json.splits if_splits)

lemma prepared:
  assumes "prepare_recipient C ue e key nonce pub ctx md username email org = Inr r"
  shows "md = JStr (rc_mode r)" "ctx = JStr (rc_context r)" "rc_mode r \<in> {''bootstrap'', ''recover''}"
    "is_sha256_hex (rc_kid r)" "is_sha256_hex (rc_context r)" "is_sha256_hex (rc_target r)"
    "target_digest username email = Inr (rc_target r)" "origin ue org = Inr (rc_origin r)" "key_size C (rc_key r) = 3072"
proof -
  from assms obtain m c where mc: "md = JStr m" "ctx = JStr c"
    by (auto simp: prepare_recipient_def split: json.splits)
  with assms obtain kr t o' where
      *: "m \<in> {''bootstrap'', ''recover''}" "is_sha256_hex c" "key_size C (fst kr) = 3072" "target_digest username email = Inr t"
      "origin ue org = Inr o'"
      "r = \<lparr>rc_key = fst kr, rc_kid = sha256_hex (snd kr), rc_context = c, rc_target = t, rc_mode = m, rc_origin = o'\<rparr>"
    by (auto simp: prepare_recipient_def Let_def res_simps split: prod.splits)
  show "md = JStr (rc_mode r)" "ctx = JStr (rc_context r)" "rc_mode r \<in> {''bootstrap'', ''recover''}"
    "is_sha256_hex (rc_kid r)" "is_sha256_hex (rc_context r)" "is_sha256_hex (rc_target r)"
    "target_digest username email = Inr (rc_target r)" "origin ue org = Inr (rc_origin r)" "key_size C (rc_key r) = 3072"
    using * mc target_digest_shape [OF *(4)] by (simp_all add: sha256_hex_shape)
qed

text \<open>
  Associated data is a binding.  When two recipients were prepared and an envelope of the
  one authenticates under the associated data of the other, they were prepared with the same
  mode, the same context and the same identity digest, and for the same public key digest.
\<close>

theorem recipient_binding:
  assumes "prepare_recipient C ue e key nonce pub ctx md username email org = Inr r"
    and "prepare_recipient C ue e key' nonce' pub' ctx' md' username' email' org' = Inr r'"
    and "aad (rc_mode r) (rc_kid r) (rc_context r) (rc_target r) = aad (rc_mode r') (rc_kid r') (rc_context r') (rc_target r')"
  shows "md = md' \<and> ctx = ctx' \<and> target_digest username email = target_digest username' email' \<and> rc_kid r = rc_kid r'"
proof -
  note p = prepared [OF assms(1)] and q = prepared [OF assms(2)]
  have "aad_text (rc_mode r) (rc_kid r) (rc_context r) (rc_target r) = aad_text (rc_mode r') (rc_kid r') (rc_context r') (rc_target r')"
    using assms(3) by (simp add: aad_ascii [OF p(3-6)] aad_ascii [OF q(3-6)])
  then show ?thesis
    using p q by (simp add: aad_text_inject [OF p(3) q(3) p(4,5) q(4,5)])
qed

text \<open>
  the check of the largest envelope is enough.  Once a recipient has been prepared, the
  encryption of every setup link of at most 768 plain characters for a positive 63-bit key
  succeeds, so the bound cannot fail after the account has been changed.
\<close>

theorem prepared_link_fits:
  assumes "prepare_recipient C ue e key nonce pub ctx md username email org = Inr r"
    and "crypto_sizes C" "length nonce' = 12"
    and "list_all is_unescaped url" "length url \<le> 768" "1 \<le> pk" "pk \<le> 2 ^ 63 - 1" "length (float_repr e x) \<le> 24"
  shows "\<exists>env. rc_encrypt C e key' nonce' r (setup_payload url (JFloat x) pk) = Inr env"
  using encrypt_fits prepared(3-6,9) [OF assms(1)] assms(2-) by blast

text \<open>
  A sealed link belongs to its recipient.  When \<open>seal\<close> returns an envelope, the artifact
  has the mode and the identity of the recipient, its link has the recipient's origin and
  names the account the artifact names, and the envelope carries the link only inside the
  ciphertext.
\<close>

theorem sealed_for_recipient:
  assumes "seal C ue e key nonce r artifact = Inr env"
  shows "\<exists>target username email url u i uid expires ct.
     item_of artifact ''mode'' = Inr (JStr (rc_mode r)) \<and> item_of artifact ''target'' = Inr target
     \<and> item_of target ''username'' = Inr username \<and> item_of target ''email'' = Inr email \<and> target_digest username email = Inr (rc_target r)
     \<and> item_of artifact ''setup_url'' = Inr (JStr url) \<and> urlsplit ue url = Inr u \<and> origin ue (JStr (''https://'' @ ur_netloc u)) = Inr (rc_origin r)
     \<and> reset_uid (ur_path u) = Some uid \<and> item_of target ''pk'' = Inr (JInt i) \<and> b64_decode True (pad_b64 uid) = Inr (show_int i)
     \<and> aad (rc_mode r) (rc_kid r) (rc_context r) (rc_target r) = Inr ct
     \<and> env = envelope r (oaep_encrypt C (rc_key r) key) nonce (aesgcm_encrypt C key nonce (print_json e False (setup_payload url expires i)) ct)"
  using assms unfolding seal_def rc_encrypt_def
  by (clarsimp simp: res_simps json_case_Inr Let_def split: if_splits) auto

section \<open>A concrete recipient\<close>

definition plain_crypto :: "bytes crypto" where
  "plain_crypto = \<lparr>load_der = Inr, is_rsa = (\<lambda>_. True), key_size = (\<lambda>_. 3072), key_exponent = (\<lambda>_. 65537), public_der = id,
     oaep_encrypt = (\<lambda>_ _. replicate 384 (CHR ''w'')), aesgcm_encrypt = (\<lambda>_ _ p _. p @ replicate 16 (CHR ''t''))\<rparr>"

definition plain_env :: py_env where
  "plain_env = \<lparr>float_of = (\<lambda>_. Fin 0), float_repr = (\<lambda>_. ''1.5''), nest_limit = 100, decode_wide = (\<lambda>_. Inl ValueError)\<rparr>"

definition plain_urls :: url_env where
  "plain_urls = \<lparr>bracket_ok = (\<lambda>_. False), nfkc_ok = (\<lambda>_. False)\<rparr>"

definition plain_recipient :: "bytes recipient" where
  "plain_recipient = \<lparr>rc_key = [], rc_kid = sha256_hex [], rc_context = replicate 64 (CHR ''a''),
     rc_target = sha256_hex (packed_identity ''a'' ''b''), rc_mode = ''bootstrap'', rc_origin = ''https://h''\<rparr>"

definition plain_nonce :: bytes where
  "plain_nonce = replicate 12 (CHR ''n'')"

definition plain_link :: string where
  "plain_link = ''https://h/accounts/reset/MQ/a-'' @ replicate 32 (CHR ''0'') @ ''/''"

definition plain_artifact :: json where
  "plain_artifact = JObj [(''mode'', JStr ''bootstrap''),
     (''target'', JObj [(''username'', JStr ''a''), (''email'', JStr ''b''), (''pk'', JInt 1)]),
     (''setup_url'', JStr plain_link), (''expires_at_unix'', JFloat (Fin 1))]"

lemma plain_sizes: "crypto_sizes plain_crypto"
  by (simp add: crypto_sizes_def plain_crypto_def)

lemma plain_shape_for:
  assumes "is_sha256_hex x"
  shows "rc_mode (plain_recipient\<lparr>rc_context := x\<rparr>) \<in> {''bootstrap'', ''recover''}" "is_sha256_hex (rc_kid (plain_recipient\<lparr>rc_context := x\<rparr>))"
    "is_sha256_hex (rc_context (plain_recipient\<lparr>rc_context := x\<rparr>))" "is_sha256_hex (rc_target (plain_recipient\<lparr>rc_context := x\<rparr>))"
    "key_size plain_crypto (rc_key (plain_recipient\<lparr>rc_context := x\<rparr>)) = 3072"
  using assms by (simp_all add: plain_recipient_def sha256_hex_shape plain_crypto_def)

lemma plain_small: "length plain_nonce = 12" "length (float_repr plain_env x) \<le> 24"
  by (simp_all add: plain_nonce_def plain_env_def)

lemmas plain_fits_for = encrypt_fits [OF plain_shape_for plain_sizes plain_small(1) _ _ _ _ plain_small(2)]

lemma plain_context: "is_sha256_hex (replicate 64 (CHR ''a''))" "plain_recipient\<lparr>rc_context := replicate 64 (CHR ''a'')\<rparr> = plain_recipient"
proof -
  show "is_sha256_hex (replicate 64 (CHR ''a''))" by code_simp
qed (simp add: plain_recipient_def)

lemmas plain_fits = plain_fits_for [OF plain_context(1) plain_context(1) plain_context(1) plain_context(1) plain_context(1), unfolded plain_context(2)]

lemma plain_prepared_for:
  assumes x: "is_sha256_hex x"
  shows "prepare_recipient plain_crypto plain_urls plain_env [] plain_nonce (JStr []) (JStr x) (JStr ''bootstrap'')
     (JStr ''a'') (JStr ''b'') (JStr ''https://h'') = Inr (plain_recipient\<lparr>rc_context := x\<rparr>)"
proof -
  have "list_all is_unescaped (replicate 768 (CHR ''x''))" by (simp add: list_all_iff is_unescaped_def)
  then obtain env where env: "rc_encrypt plain_crypto plain_env [] plain_nonce (plain_recipient\<lparr>rc_context := x\<rparr>)
      (setup_payload (replicate 768 (CHR ''x'')) (JFloat max_expiry) (2 ^ 63 - 1)) = Inr env"
    using plain_fits_for [OF x x x x x, of "replicate 768 (CHR ''x'')" "2 ^ 63 - 1"] by fastforce
  have t: "target_digest (JStr ''a'') (JStr ''b'') = Inr (sha256_hex (packed_identity ''a'' ''b''))"
    by (simp add: target_digest_def require_def)
  have o: "origin plain_urls (JStr ''https://h'') = Inr ''https://h''" by code_simp
  have k: "load_recipient_key plain_crypto (JStr []) = Inr ([], [])"
    by (simp add: load_recipient_key_def plain_crypto_def require_def py_len_def isascii_def)
  show ?thesis
    using env unfolding prepare_recipient_def
    by (simp add: t o k x require_def Let_def plain_crypto_def [THEN arg_cong, of is_rsa] plain_crypto_def [THEN arg_cong, of key_size]
        plain_crypto_def [THEN arg_cong, of key_exponent] plain_crypto_def [THEN arg_cong, of public_der] plain_recipient_def)
qed

lemmas plain_prepared = plain_prepared_for [OF plain_context(1), unfolded plain_context(2)]

theorem recipient_binding_witness:
  "JStr ''bootstrap'' = JStr ''bootstrap'' \<and> JStr (replicate 64 (CHR ''a'')) = JStr (replicate 64 (CHR ''a''))
   \<and> target_digest (JStr ''a'') (JStr ''b'') = target_digest (JStr ''a'') (JStr ''b'') \<and> rc_kid plain_recipient = rc_kid plain_recipient"
  by (rule recipient_binding [OF plain_prepared plain_prepared refl])

theorem prepared_link_fits_witness:
  "\<exists>env. rc_encrypt plain_crypto plain_env [] plain_nonce plain_recipient (setup_payload plain_link (JFloat (Fin 1)) 1) = Inr env"
proof (rule prepared_link_fits [OF plain_prepared plain_sizes plain_small(1) _ _ _ _ plain_small(2)])
  show "list_all is_unescaped plain_link" by code_simp
  show "length plain_link \<le> 768" by code_simp
qed simp_all

lemma plain_link_facts:
  "urlsplit plain_urls plain_link =
     Inr \<lparr>ur_scheme = ''https'', ur_netloc = ''h'', ur_path = drop 9 plain_link, ur_query = [], ur_fragment = []\<rparr>"
  "origin plain_urls (JStr ''https://h'') = Inr ''https://h''" "reset_uid (drop 9 plain_link) = Some ''MQ''"
  "b64_decode True (pad_b64 ''MQ'') = Inr ''1''" "show_int 1 = ''1''" "isascii plain_link" "length plain_link \<le> 768" "isascii ''1''"
  by code_simp+

lemma plain_sealed: "\<exists>env. seal plain_crypto plain_urls plain_env [] plain_nonce plain_recipient plain_artifact = Inr env"
proof -
  have "list_all is_unescaped plain_link" "length plain_link \<le> 768" by code_simp+
  then obtain env where env: "rc_encrypt plain_crypto plain_env [] plain_nonce plain_recipient (setup_payload plain_link (JFloat (Fin 1)) 1) = Inr env"
    using plain_fits by fastforce
  have t: "target_digest (JStr ''a'') (JStr ''b'') = Inr (rc_target plain_recipient)"
    by (simp add: target_digest_def require_def plain_recipient_def)
  show ?thesis
    using env by (simp add: seal_def plain_artifact_def t plain_link_facts require_def plain_recipient_def [THEN arg_cong, of rc_mode]
        plain_recipient_def [THEN arg_cong, of rc_origin])
qed

theorem sealed_for_recipient_witness:
  "\<exists>env target username email url u i uid expires ct.
     item_of plain_artifact ''mode'' = Inr (JStr (rc_mode plain_recipient)) \<and> item_of plain_artifact ''target'' = Inr target
     \<and> item_of target ''username'' = Inr username \<and> item_of target ''email'' = Inr email
     \<and> target_digest username email = Inr (rc_target plain_recipient)
     \<and> item_of plain_artifact ''setup_url'' = Inr (JStr url) \<and> urlsplit plain_urls url = Inr u
     \<and> origin plain_urls (JStr (''https://'' @ ur_netloc u)) = Inr (rc_origin plain_recipient)
     \<and> reset_uid (ur_path u) = Some uid \<and> item_of target ''pk'' = Inr (JInt i) \<and> b64_decode True (pad_b64 uid) = Inr (show_int i)
     \<and> aad (rc_mode plain_recipient) (rc_kid plain_recipient) (rc_context plain_recipient) (rc_target plain_recipient) = Inr ct
     \<and> env = envelope plain_recipient (oaep_encrypt plain_crypto (rc_key plain_recipient) []) plain_nonce
         (aesgcm_encrypt plain_crypto [] plain_nonce (print_json plain_env False (setup_payload url expires i)) ct)"
proof (rule exE [OF plain_sealed])
  fix env assume "seal plain_crypto plain_urls plain_env [] plain_nonce plain_recipient plain_artifact = Inr env"
  then show ?thesis by (intro exI [where x = env] sealed_for_recipient)
qed

end
