(* ===== verification/Host_Files.thy ===== *)
theory Host_Files
  imports Py_Objects
begin

text \<open>
  The host as the privileged tools see it: paths as Python's \<open>pathlib\<close> takes them apart, a
  file system of regular files, directories and symbolic links with their owner and
  permission bits, and the calls the tools make on it.  A data call (opening, writing,
  reading, making a directory) may fail: the state carries the outcomes of the calls to
  come, and a failing write leaves any prefix of its data.  What other programs do to the
  rest of the machine is the component \<open>h_world\<close>, of a type each tool chooses.
\<close>

unbundle bit_operations_syntax

section \<open>Paths\<close>

record path =
  p_root :: string  \<comment> \<open>empty, one slash, or two\<close>
  p_parts :: "string list"

definition slash :: char where
  "slash = CHR ''/''"

definition py_path :: "string \<Rightarrow> path" where
  "py_path s =
     \<lparr>p_root = (if startswith s ''/'' then (if startswith s ''//'' \<and> \<not> startswith s ''///'' then ''//'' else ''/'') else []),
      p_parts = filter (\<lambda>c. c \<notin> {[], ''.''}) (split_on slash s)\<rparr>"

definition path_str :: "path \<Rightarrow> string" where
  "path_str p = (if p_root p = [] \<and> p_parts p = [] then ''.'' else p_root p @ join_on slash (p_parts p))"

definition is_absolute :: "path \<Rightarrow> bool" where
  "is_absolute p \<longleftrightarrow> p_root p \<noteq> []"

definition path_parent :: "path \<Rightarrow> path" where
  "path_parent p = p\<lparr>p_parts := butlast (p_parts p)\<rparr>"

definition path_parents :: "path \<Rightarrow> path list" where
  \<comment> \<open>nearest first\<close>
  "path_parents p = map (\<lambda>n. p\<lparr>p_parts := take n (p_parts p)\<rparr>) (rev [0..<length (p_parts p)])"

definition path_name :: "path \<Rightarrow> string" where
  "path_name p = (if p_parts p = [] then [] else last (p_parts p))"

definition path_join :: "path \<Rightarrow> string \<Rightarrow> path" where
  \<comment> \<open>\<open>p / s\<close>\<close>
  "path_join p s = (let q = py_path s in if is_absolute q then q else p\<lparr>p_parts := p_parts p @ p_parts q\<rparr>)"

definition with_name :: "path \<Rightarrow> string \<Rightarrow> path" where
  "with_name p n = p\<lparr>p_parts := butlast (p_parts p) @ [n]\<rparr>"

definition is_relative_to :: "path \<Rightarrow> path \<Rightarrow> bool" where
  "is_relative_to p q \<longleftrightarrow> p_root p = p_root q \<and> take (length (p_parts q)) (p_parts p) = p_parts q"

section \<open>The file system\<close>

datatype kind = Reg bytes | Dir | Link string

record node =
  n_kind :: kind
  n_uid :: nat
  n_mode :: nat

type_synonym fs = "(string list, node) dict"

text \<open>
  Following a path from an existing directory.  Every link costs one of the forty links the
  kernel follows.  A component with a null character makes Python raise before any call.
\<close>

function walk :: "nat \<Rightarrow> fs \<Rightarrow> string list \<Rightarrow> string list \<Rightarrow> string list res" where
  "walk n f dir [] = Inr dir"
| "walk n f dir (c # cs) =
     (if CHR 0x00 \<in> set c then Inl ValueError
      else if c = ''..'' then walk n f (butlast dir) cs
      else
        (case dget f (dir @ [c]) of
           None \<Rightarrow> Inl OSError
         | Some nd \<Rightarrow>
             (case n_kind nd of
                Link t \<Rightarrow>
                  (case n of
                     0 \<Rightarrow> Inl OSError
                   | Suc m \<Rightarrow> (let q = py_path t in walk m f (if is_absolute q then [] else dir) (p_parts q @ cs)))
              | _ \<Rightarrow> walk n f (dir @ [c]) cs)))"
  by pat_completeness auto

termination
  by (relation "measures [\<lambda>(n, f, dir, cs). n, \<lambda>(n, f, dir, cs). length cs]") auto

definition max_links :: nat where
  "max_links = 40"

definition resolve_parts :: "fs \<Rightarrow> string list \<Rightarrow> path \<Rightarrow> string list res" where
  "resolve_parts f cwd p = walk max_links f (if is_absolute p then [] else cwd) (p_parts p)"

definition abs_path :: "string list \<Rightarrow> path" where
  "abs_path cs = \<lparr>p_root = ''/'', p_parts = cs\<rparr>"

section \<open>The host\<close>

datatype outcome = Works | Fails exn nat  \<comment> \<open>with the length of the prefix a failing write leaves\<close>

record 'w host =
  h_fs :: fs
  h_cwd :: "string list"
  h_umask :: nat
  h_outcomes :: "nat \<Rightarrow> outcome"
  h_calls :: nat
  h_world :: 'w

definition called :: "'w host \<Rightarrow> 'w host" where
  "called h = h\<lparr>h_calls := Suc (h_calls h)\<rparr>"

definition io :: "('w host, outcome) sx" where
  \<comment> \<open>the outcome of the next data call\<close>
  "io h = (Inr (h_outcomes h (h_calls h)), called h)"

lemma called_simps [simp]: "h_fs (called h) = h_fs h" "h_cwd (called h) = h_cwd h" "h_umask (called h) = h_umask h"
    "h_world (called h) = h_world h" "h_outcomes (called h) = h_outcomes h"
  by (simp_all add: called_def)

definition io_ok :: "('w host, unit) sx" where
  "io_ok = sx_bind io (\<lambda>r. case r of Works \<Rightarrow> sx_return () | Fails x _ \<Rightarrow> sx_raise x)"

definition resolve :: "'w host \<Rightarrow> path \<Rightarrow> path res" where
  \<comment> \<open>\<open>p.resolve(strict=True)\<close>\<close>
  "resolve h p = res_bind (resolve_parts (h_fs h) (h_cwd h) p) (\<lambda>cs. Inr (abs_path cs))"

definition stat_of :: "'w host \<Rightarrow> path \<Rightarrow> node res" where
  \<comment> \<open>\<open>p.stat()\<close>, which follows links\<close>
  "stat_of h p =
     res_bind (resolve_parts (h_fs h) (h_cwd h) p) (\<lambda>cs.
       case dget (h_fs h) cs of None \<Rightarrow> Inl OSError | Some nd \<Rightarrow> Inr nd)"

definition lstat_of :: "'w host \<Rightarrow> path \<Rightarrow> node res" where
  "lstat_of h p =
     (if p_parts p = [] then stat_of h p
      else res_bind (resolve_parts (h_fs h) (h_cwd h) (path_parent p)) (\<lambda>cs.
             if CHR 0x00 \<in> set (last (p_parts p)) then Inl ValueError
             else case dget (h_fs h) (if last (p_parts p) = ''..'' then butlast cs else cs @ [last (p_parts p)]) of
                    None \<Rightarrow> Inl OSError | Some nd \<Rightarrow> Inr nd))"

definition path_exists :: "'w host \<Rightarrow> path \<Rightarrow> bool" where
  "path_exists h p \<longleftrightarrow> (case stat_of h p of Inl _ \<Rightarrow> False | Inr _ \<Rightarrow> True)"

definition is_symlink :: "'w host \<Rightarrow> path \<Rightarrow> bool" where
  "is_symlink h p \<longleftrightarrow> (case lstat_of h p of Inr nd \<Rightarrow> (case n_kind nd of Link _ \<Rightarrow> True | _ \<Rightarrow> False) | Inl _ \<Rightarrow> False)"

definition is_dir :: "'w host \<Rightarrow> path \<Rightarrow> bool" where
  "is_dir h p \<longleftrightarrow> (case stat_of h p of Inr nd \<Rightarrow> n_kind nd = Dir | Inl _ \<Rightarrow> False)"

definition regular :: "node \<Rightarrow> bool" where
  "regular nd \<longleftrightarrow> (case n_kind nd of Reg _ \<Rightarrow> True | _ \<Rightarrow> False)"

definition is_file :: "'w host \<Rightarrow> path \<Rightarrow> bool" where
  "is_file h p \<longleftrightarrow> (case stat_of h p of Inr nd \<Rightarrow> regular nd | Inl _ \<Rightarrow> False)"

definition st_size :: "node \<Rightarrow> nat" where
  \<comment> \<open>of a regular file\<close>
  "st_size nd = (case n_kind nd of Reg b \<Rightarrow> length b | _ \<Rightarrow> 0)"

definition mode_has :: "node \<Rightarrow> nat \<Rightarrow> bool" where
  "mode_has nd bits \<longleftrightarrow> n_mode nd AND bits \<noteq> 0"

definition masked :: "nat \<Rightarrow> nat \<Rightarrow> nat" where
  \<comment> \<open>\<open>mode & ~umask\<close>\<close>
  "masked mode umask = mode - (mode AND umask)"

definition read_bytes :: "path \<Rightarrow> ('w host, bytes) sx" where
  "read_bytes p =
     sx_bind io_ok (\<lambda>_ h.
       (case stat_of h p of
          Inl x \<Rightarrow> (Inl x, h)
        | Inr nd \<Rightarrow> (case n_kind nd of Reg b \<Rightarrow> (Inr b, h) | _ \<Rightarrow> (Inl OSError, h))))"

definition new_place :: "'w host \<Rightarrow> path \<Rightarrow> string list res" where
  \<comment> \<open>where a call that must create \<open>p\<close> puts it; the last component is not followed\<close>
  "new_place h p =
     (if p_parts p = [] then Inl FileExistsError
      else if CHR 0x00 \<in> set (concat (p_parts p)) then Inl ValueError
      else
        res_bind (resolve_parts (h_fs h) (h_cwd h) (path_parent p)) (\<lambda>cs.
          case dget (h_fs h) cs of
            None \<Rightarrow> Inl OSError
          | Some nd \<Rightarrow>
              if n_kind nd \<noteq> Dir then Inl OSError
              else if last (p_parts p) = ''..'' \<or> dget (h_fs h) (cs @ [last (p_parts p)]) \<noteq> None then Inl FileExistsError
              else Inr (cs @ [last (p_parts p)])))"

definition put_node :: "string list \<Rightarrow> kind \<Rightarrow> nat \<Rightarrow> 'w host \<Rightarrow> 'w host" where
  "put_node cs k mode h = h\<lparr>h_fs := dset cs \<lparr>n_kind = k, n_uid = 0, n_mode = masked mode (h_umask h)\<rparr> (h_fs h)\<rparr>"

definition open_excl :: "path \<Rightarrow> nat \<Rightarrow> ('w host, string list) sx" where
  \<comment> \<open>\<open>os.open(p, O_WRONLY | O_CREAT | O_EXCL, mode)\<close>; the descriptor is the place of the file\<close>
  "open_excl p mode =
     sx_bind io_ok (\<lambda>_ h. case new_place h p of Inl x \<Rightarrow> (Inl x, h) | Inr cs \<Rightarrow> (Inr cs, put_node cs (Reg []) mode h))"

definition set_data :: "string list \<Rightarrow> bytes \<Rightarrow> 'w host \<Rightarrow> 'w host" where
  "set_data cs b h =
     (case dget (h_fs h) cs of None \<Rightarrow> h | Some nd \<Rightarrow> h\<lparr>h_fs := dset cs (nd\<lparr>n_kind := Reg b\<rparr>) (h_fs h)\<rparr>)"

definition write_sync :: "string list \<Rightarrow> bytes \<Rightarrow> ('w host, unit) sx" where
  \<comment> \<open>writing, \<open>flush\<close> and \<open>fsync\<close> on a descriptor that was just opened\<close>
  "write_sync cs b =
     sx_bind io (\<lambda>r h. case r of Works \<Rightarrow> (Inr (), set_data cs b h) | Fails x n \<Rightarrow> (Inl x, set_data cs (take n b) h))"

definition fchmod :: "string list \<Rightarrow> nat \<Rightarrow> ('w host, unit) sx" where
  "fchmod cs mode =
     sx_bind io_ok (\<lambda>_ h.
       (Inr (), case dget (h_fs h) cs of None \<Rightarrow> h | Some nd \<Rightarrow> h\<lparr>h_fs := dset cs (nd\<lparr>n_mode := mode\<rparr>) (h_fs h)\<rparr>))"

definition write_new :: "path \<Rightarrow> bytes \<Rightarrow> nat \<Rightarrow> ('w host, unit) sx" where
  "write_new p b mode = sx_bind (open_excl p mode) (\<lambda>cs. write_sync cs b)"

definition mkdir :: "path \<Rightarrow> nat \<Rightarrow> bool \<Rightarrow> ('w host, unit) sx" where
  \<comment> \<open>\<open>p.mkdir(mode=mode, exist_ok=ok)\<close>\<close>
  "mkdir p mode ok =
     sx_bind io_ok (\<lambda>_ h.
       (case new_place h p of
          Inr cs \<Rightarrow> (Inr (), put_node cs Dir mode h)
        | Inl x \<Rightarrow> if isa_OSError x \<and> ok \<and> is_dir h p then (Inr (), h) else (Inl x, h)))"

definition sync_directory :: "path \<Rightarrow> ('w host, unit) sx" where
  "sync_directory p = sx_bind io_ok (\<lambda>_ h. if is_dir h p then (Inr (), h) else (Inl OSError, h))"

text \<open>\<open>json.dumps(value, indent=2)\<close>\<close>

fun pretty :: "py_env \<Rightarrow> nat \<Rightarrow> json \<Rightarrow> string" where
  "pretty e n (JArr vs) =
     (if vs = [] then ''[]''
      else ''['' @ join_on (CHR '','') (map (\<lambda>v. CHR 0x0A # replicate (n + 2) (CHR '' '') @ pretty e (n + 2) v) vs)
           @ CHR 0x0A # replicate n (CHR '' '') @ '']'')"
| "pretty e n (JObj ms) =
     (if ms = [] then ''{}''
      else ''{'' @ join_on (CHR '','') (map (\<lambda>(k, v). CHR 0x0A # replicate (n + 2) (CHR '' '') @ quote True k @ '': '' @ pretty e (n + 2) v) ms)
           @ CHR 0x0A # replicate n (CHR '' '') @ ''}'')"
| "pretty e n v = dumps e v"

section \<open>Files appear once and stay\<close>

text \<open>
  The frame of every call: an existing file or directory stays what it is, except for the
  data of the one file a descriptor was opened on.
\<close>

definition fs_grows :: "'w host \<Rightarrow> 'w host \<Rightarrow> bool" where
  "fs_grows h h' \<longleftrightarrow> (\<forall>cs nd. dget (h_fs h) cs = Some nd \<longrightarrow> dget (h_fs h') cs = Some nd)"

lemma fs_grows_refl: "fs_grows h h"
  by (simp add: fs_grows_def)

lemma fs_grows_trans: "fs_grows h h' \<Longrightarrow> fs_grows h' h'' \<Longrightarrow> fs_grows h h''"
  by (simp add: fs_grows_def)

interpretation grows: frame fs_grows
  by unfold_locales (blast intro: fs_grows_refl fs_grows_trans)+

lemma io_iff [sx_simps]: "io h = (r, h') \<longleftrightarrow> r = Inr (h_outcomes h (h_calls h)) \<and> h' = called h"
  by (auto simp: io_def)

lemma io_ok_cases:
  "io_ok h = (r, h') \<Longrightarrow> h' = called h \<and> (r = Inr () \<or> (\<exists>x. r = Inl x))"
  by (auto simp: io_ok_def sx_bind_def io_def sx_return_def sx_raise_def split: outcome.splits)

lemma keeps_io: "grows.keeps io" "grows.keeps io_ok"
  unfolding grows.keeps_def by (auto simp: io_def fs_grows_def io_ok_def sx_bind_def sx_return_def sx_raise_def split: outcome.splits)

lemma dset_dset [simp]: "dset k v (dset k u d) = dset k v d"
  by (induction d) auto

lemma new_place_free: "new_place h p = Inr cs \<Longrightarrow> dget (h_fs h) cs = None"
  by (auto simp: new_place_def res_simps split: if_splits option.splits)

lemma put_node_grows: "dget (h_fs h) cs = None \<Longrightarrow> fs_grows h (put_node cs k mode h)"
  by (auto simp: fs_grows_def put_node_def)

lemma keeps_read: "grows.keeps (read_bytes p)"
  unfolding read_bytes_def
  by (intro grows.keeps_bind keeps_io) (auto simp: grows.keeps_def fs_grows_refl split: sum.splits kind.splits)

lemma keeps_open: "grows.keeps (open_excl p mode)"
  unfolding open_excl_def
  by (intro grows.keeps_bind keeps_io)
     (auto simp: grows.keeps_def fs_grows_refl put_node_grows dest: new_place_free split: sum.splits)

lemma keeps_mkdir: "grows.keeps (mkdir p mode ok)"
  unfolding mkdir_def
  by (intro grows.keeps_bind keeps_io)
     (auto simp: grows.keeps_def fs_grows_refl put_node_grows dest: new_place_free split: sum.splits)

lemma keeps_sync_directory: "grows.keeps (sync_directory p)"
  unfolding sync_directory_def
  by (intro grows.keeps_bind keeps_io) (auto simp: grows.keeps_def fs_grows_refl)

lemma set_data_other: "cs' \<noteq> cs \<Longrightarrow> dget (h_fs (set_data cs b h)) cs' = dget (h_fs h) cs'"
  by (simp add: set_data_def split: option.splits)

lemma write_sync_cases:
  assumes "write_sync cs b h = (r, h')"
  obtains n where "h' = set_data cs (take n b) (called h)" "r = Inr () \<Longrightarrow> length b \<le> n"
    "r = Inr () \<or> (\<exists>x. r = Inl x)"
proof (cases "h_outcomes h (h_calls h)")
  case Works
  with assms show ?thesis by (intro that [of "length b"]) (auto simp: write_sync_def sx_bind_def io_def)
next
  case (Fails x n)
  with assms show ?thesis by (intro that [of n]) (auto simp: write_sync_def sx_bind_def io_def)
qed

lemma open_excl_cases:
  assumes "open_excl p mode h = (r, h')"
  obtains x where "r = Inl x" "h' = called h"
  | cs where "r = Inr cs" "new_place (called h) p = Inr cs"
      "h' = put_node cs (Reg []) mode (called h)"
proof -
  obtain r1 h1 where 1: "io_ok h = (r1, h1)" by fastforce
  note c = io_ok_cases [OF 1]
  show ?thesis
  proof (cases r1)
    case (Inl x)
    with 1 c assms show ?thesis by (intro that(1)) (auto simp: open_excl_def sx_bind_def)
  next
    case (Inr u)
    with 1 c have ok: "io_ok h = (Inr (), called h)" by simp
    show ?thesis
    proof (cases "new_place (called h) p")
      case (Inl x)
      with ok assms have "r = Inl x" "h' = called h" by (auto simp: open_excl_def sx_bind_def)
      then show ?thesis by (rule that(1))
    next
      case (Inr cs)
      with ok assms have "r = Inr cs" "h' = put_node cs (Reg []) mode (called h)" by (auto simp: open_excl_def sx_bind_def)
      with Inr show ?thesis using that(2) by blast
    qed
  qed
qed

lemma write_new_cases:
  assumes "write_new p b mode h = (r, h')"
  obtains x where "r = Inl x" "h' = called h"
  | cs n where "new_place (called h) p = Inr cs" "r = Inr () \<Longrightarrow> length b \<le> n"
      "h' = put_node cs (Reg (take n b)) mode (called (called h))"
proof -
  obtain r1 h1 where 1: "open_excl p mode h = (r1, h1)" by fastforce
  from 1 show ?thesis
  proof (cases rule: open_excl_cases)
    case (1 x)
    with \<open>open_excl p mode h = (r1, h1)\<close> assms show ?thesis by (intro that(1)) (auto simp: write_new_def sx_bind_def)
  next
    case (2 cs)
    then have "write_sync cs b h1 = (r, h')"
      using \<open>open_excl p mode h = (r1, h1)\<close> assms by (auto simp: write_new_def sx_bind_def)
    then show ?thesis
      by (rule write_sync_cases) (rule that(2) [OF 2(2)], auto simp: 2(3) set_data_def put_node_def called_def)
  qed
qed

lemma keeps_write_new: "grows.keeps (write_new p b mode)"
proof (rule grows.keepsI)
  fix h r h' assume "write_new p b mode h = (r, h')"
  then show "fs_grows h h'"
    by (rule write_new_cases) (auto simp: fs_grows_def put_node_def dest: new_place_free)
qed

lemma world_simps [simp]: "h_world (set_data cs b h) = h_world h" "h_outcomes (set_data cs b h) = h_outcomes h"
    "h_world (put_node cs k m h) = h_world h" "h_outcomes (put_node cs k m h) = h_outcomes h"
  by (auto simp: set_data_def put_node_def split: option.splits)

definition fresh_file :: "string list \<Rightarrow> bytes \<Rightarrow> 'w host \<Rightarrow> 'w host \<Rightarrow> bool" where
  \<comment> \<open>only one place differs: it was free and holds a regular file with this data\<close>
  "fresh_file cs b h h' \<longleftrightarrow> dget (h_fs h) cs = None \<and> (\<exists>nd. dget (h_fs h') cs = Some nd \<and> n_kind nd = Reg b)
     \<and> (\<forall>cs'. cs' \<noteq> cs \<longrightarrow> dget (h_fs h') cs' = dget (h_fs h) cs')"

lemma open_excl_fresh:
  assumes "open_excl p mode h = (r, h')"
  shows "(\<exists>x. r = Inl x \<and> h_fs h' = h_fs h) \<or> (\<exists>cs. r = Inr cs \<and> fresh_file cs [] h h')"
    and "h_world h' = h_world h" "h_outcomes h' = h_outcomes h"
proof -
  have "((\<exists>x. r = Inl x \<and> h_fs h' = h_fs h) \<or> (\<exists>cs. r = Inr cs \<and> fresh_file cs [] h h')) \<and> h_world h' = h_world h \<and> h_outcomes h' = h_outcomes h"
    using assms
  proof (cases rule: open_excl_cases)
    case (2 cs)
    then show ?thesis using new_place_free [OF 2(2)] by (auto simp: fresh_file_def put_node_def)
  qed auto
  then show "(\<exists>x. r = Inl x \<and> h_fs h' = h_fs h) \<or> (\<exists>cs. r = Inr cs \<and> fresh_file cs [] h h')"
    and "h_world h' = h_world h" "h_outcomes h' = h_outcomes h" by auto
qed

lemma fchmod_fresh:
  assumes "fchmod cs mode h = (r, h')" "fresh_file cs b h0 h"
  shows "fresh_file cs b h0 h'" "h_world h' = h_world h" "h_outcomes h' = h_outcomes h"
proof -
  obtain r1 h1 where 1: "io_ok h = (r1, h1)" by fastforce
  then have "h1 = called h" using io_ok_cases by blast
  with 1 assms show "fresh_file cs b h0 h'" "h_world h' = h_world h" "h_outcomes h' = h_outcomes h"
    by (auto simp: fchmod_def sx_bind_def fresh_file_def split: sum.splits option.splits)
qed

lemma write_sync_fresh:
  assumes "write_sync cs b h = (r, h')" "fresh_file cs b0 h0 h"
  shows "\<exists>n. fresh_file cs (take n b) h0 h' \<and> (r = Inr () \<longrightarrow> length b \<le> n)" "h_world h' = h_world h"
proof -
  from assms(1) show "\<exists>n. fresh_file cs (take n b) h0 h' \<and> (r = Inr () \<longrightarrow> length b \<le> n)"
  proof (rule write_sync_cases)
    fix n assume "h' = set_data cs (take n b) (called h)" "r = Inr () \<Longrightarrow> length b \<le> n"
    with assms(2) show ?thesis by (intro exI [of _ n]) (auto simp: fresh_file_def set_data_def split: option.splits)
  qed
  from assms(1) show "h_world h' = h_world h" by (rule write_sync_cases) simp
qed

end
