(* ===== verification/Operator_Recovery.thy ===== *)
theory Operator_Recovery
  imports Host_Files Sealed_Setup
begin

text \<open>
  Bootstrap and recovery of an operator account, \<open>experiments/server/operator_recovery.py\<close>: the
  checks of a request, the reserved output file, the transaction that resets one account,
  the setup artifact (sealed for a recipient when one is named), the audit event, the
  management command and the reset view.  The database is the state of \<open>accounts_db\<close>; every
  statement may fail, a commit may fail with or without effect, and what Django and Zentral
  decide (validators, password hashing, the reset link, serialisation) is a field of
  \<open>access_env\<close>.  Commands of this tool run one at a time, which is what the lock on the
  content type row gives.
\<close>

section \<open>State\<close>

record account =
  a_pk :: int
  a_username :: string
  a_email :: string
  a_active :: bool
  a_remote :: bool
  a_service :: bool
  a_super :: bool
  a_staff :: bool
  a_password :: string

record accounts_db =
  t_accounts :: "account list"
  t_totp :: "(int \<times> string) list"
  t_webauthn :: "(int \<times> string) list"
  t_tokens :: "(int \<times> string) list"
  t_issuers :: "(int \<times> string) list"

record audit_event =
  ev_action :: string
  ev_pk :: int
  ev_previous :: json
  ev_access :: json

record access_world =
  aw_db :: accounts_db
  aw_posted :: "audit_event list"
  aw_steps :: nat

type_synonym 'a access = "(access_world host, 'a) sx"

datatype commit_outcome = CommitDone | CommitFailed | CommitUnknown  \<comment> \<open>the last one: done, but reported as failed\<close>

record access_env =
  ae_py :: py_env
  ae_urls :: url_env
  email_ok :: "string \<Rightarrow> bool"
  username_ok :: "string \<Rightarrow> bool"
  reset_timeout :: int
  base_url :: "json res"
  iexact :: "string \<Rightarrow> string \<Rightarrow> bool"
  new_user :: "accounts_db \<Rightarrow> string \<Rightarrow> string \<Rightarrow> account res"
  password_hash :: "string \<Rightarrow> string"
  serialize :: "account \<Rightarrow> json res"
  reset_url :: "account \<Rightarrow> string res"
  stmt_fault :: "nat \<Rightarrow> exn option"
  commit_as :: commit_outcome

record access_draws =
  new_password :: string
  dr_key1 :: bytes
  dr_nonce1 :: bytes
  dr_key2 :: bytes
  dr_nonce2 :: bytes

definition RESET_SECONDS :: int where
  "RESET_SECONDS = 600"

text \<open>The messages of \<open>AccessError\<close>, by what they report.\<close>

definition MODE_MSG :: string where
  "MODE_MSG = ''Choose bootstrap or recover.''"
definition IDENTITY_MSG :: string where
  "IDENTITY_MSG = ''Provide the exact username and email.''"
definition REASON_MSG :: string where
  "REASON_MSG = ''Provide a single-line reason of at most 256 characters; never include secrets.''"
definition PATH_MSG :: string where
  "PATH_MSG = ''Choose an absolute path in an existing non-symlink directory.''"
definition INVALID_MSG :: string where
  "INVALID_MSG = ''Provide a valid exact username and email identity.''"
definition POLICY_MSG :: string where
  "POLICY_MSG = ''The reviewed ten-minute reset policy is not installed.''"
definition RECIPIENT_MSG :: string where
  "RECIPIENT_MSG = ''Recipient key/context/origin validation failed before user security changes.''"
definition SEALED_MSG :: string where
  "SEALED_MSG = ''Sealed export requires an explicit recipient public key and context digest.''"
definition HUMANS_MSG :: string where
  "HUMANS_MSG = ''Bootstrap requires no human accounts, including inactive or remote humans; use targeted recovery.''"
definition CONFLICT_MSG :: string where
  "CONFLICT_MSG = ''Bootstrap identity conflicts with an existing account.''"
definition TARGET_MSG :: string where
  "TARGET_MSG = ''Exact target username and email did not match.''"
definition HUMAN_MSG :: string where
  "HUMAN_MSG = ''Recovery requires an active local human; it never activates or converts accounts.''"
definition ORIGIN_MSG :: string where
  "ORIGIN_MSG = ''A configured HTTPS setup origin is required.''"
definition WRITTEN_MSG :: string where
  "WRITTEN_MSG = ''Access reset committed and private setup artifact written; audit submission failed. Inspect locally.''"
definition COMMITTED_MSG :: string where
  "COMMITTED_MSG = ''Access reset committed but setup artifact write failed. Inspect target state; reissue targeted recovery to a new absent path.''"
definition UNCONFIRMED_MSG :: string where
  "UNCONFIRMED_MSG = ''No confirmed access commit; reserved artifact retained. Inspect target state before retrying.''"

section \<open>Checks\<close>

fun str_of :: "json \<Rightarrow> string" where
  "str_of (JStr s) = s"
| "str_of _ = []"

definition identity_ok :: "json \<Rightarrow> nat \<Rightarrow> bool" where
  "identity_ok v limit \<longleftrightarrow> (case v of JStr s \<Rightarrow> s \<noteq> [] \<and> s = py_strip s \<and> py_len s \<le> limit | _ \<Rightarrow> False)"

definition reason_ok :: "json \<Rightarrow> bool" where
  "reason_ok v \<longleftrightarrow> (case v of JStr s \<Rightarrow> py_strip s \<noteq> [] \<and> py_len s \<le> 256 \<and> list_all (\<lambda>c. 32 \<le> c) (code_points s) | _ \<Rightarrow> False)"

definition validate_request :: "json \<Rightarrow> json \<Rightarrow> json \<Rightarrow> json \<Rightarrow> unit res" where
  "validate_request md username email reason =
     (if md \<notin> {JStr ''bootstrap'', JStr ''recover''} then Inl (AccessError MODE_MSG)
      else if \<not> identity_ok username 150 \<or> \<not> identity_ok email 254 then Inl (AccessError IDENTITY_MSG)
      else if \<not> reason_ok reason then Inl (AccessError REASON_MSG)
      else Inr ())"

definition reserve_output :: "string \<Rightarrow> (string list) access" where
  "reserve_output v =
     (let p = py_path v in
      sx_bind (\<lambda>h. if \<not> is_absolute p then (Inl (AccessError PATH_MSG), h)
                   else case resolve h (path_parent p) of
                          Inl x \<Rightarrow> (Inl x, h)
                        | Inr q \<Rightarrow> if q \<noteq> path_parent p then (Inl (AccessError PATH_MSG), h) else (Inr (), h)) (\<lambda>_.
      sx_bind (open_excl p 384) (\<lambda>fd.  \<comment> \<open>384 is \<open>0o600\<close>\<close>
      sx_bind (fchmod fd 384) (\<lambda>_. sx_return fd))))"

section \<open>Statements\<close>

definition stmt :: "access_env \<Rightarrow> unit access" where
  "stmt e h =
     (let w = h_world h; h' = h\<lparr>h_world := w\<lparr>aw_steps := Suc (aw_steps w)\<rparr>\<rparr>
      in case stmt_fault e (aw_steps w) of None \<Rightarrow> (Inr (), h') | Some x \<Rightarrow> (Inl x, h'))"

definition db_of :: "access_world host \<Rightarrow> accounts_db" where
  "db_of h = aw_db (h_world h)"

definition set_db :: "accounts_db \<Rightarrow> access_world host \<Rightarrow> access_world host" where
  "set_db d h = h\<lparr>h_world := (h_world h)\<lparr>aw_db := d\<rparr>\<rparr>"

definition query :: "access_env \<Rightarrow> (accounts_db \<Rightarrow> 'a res) \<Rightarrow> 'a access" where
  "query e q = sx_bind (stmt e) (\<lambda>_ h. (q (db_of h), h))"

definition update :: "access_env \<Rightarrow> (accounts_db \<Rightarrow> accounts_db) \<Rightarrow> unit access" where
  "update e f = sx_bind (stmt e) (\<lambda>_ h. (Inr (), set_db (f (db_of h)) h))"

definition durable_atomic :: "access_env \<Rightarrow> 'a access \<Rightarrow> 'a access" where
  "durable_atomic e m h =
     (case m h of
        (Inl x, h1) \<Rightarrow> (Inl x, set_db (db_of h) h1)
      | (Inr v, h1) \<Rightarrow>
          (case commit_as e of
             CommitDone \<Rightarrow> (Inr v, h1)
           | CommitFailed \<Rightarrow> (Inl OperationalError, set_db (db_of h) h1)
           | CommitUnknown \<Rightarrow> (Inl OperationalError, h1)))"

definition is_human :: "account \<Rightarrow> bool" where
  "is_human a \<longleftrightarrow> \<not> a_service a"

definition save_account :: "account \<Rightarrow> accounts_db \<Rightarrow> accounts_db" where
  "save_account a d = d\<lparr>t_accounts := map (\<lambda>b. if a_pk b = a_pk a then a else b) (t_accounts d)\<rparr>"

definition owned :: "int \<Rightarrow> (int \<times> string) list \<Rightarrow> nat" where
  "owned pk rows = length (filter (\<lambda>r. fst r = pk) rows)"

definition disown :: "int \<Rightarrow> (int \<times> string) list \<Rightarrow> (int \<times> string) list" where
  "disown pk rows = filter (\<lambda>r. fst r \<noteq> pk) rows"

section \<open>The transaction\<close>

definition bootstrap_target :: "access_env \<Rightarrow> string \<Rightarrow> string \<Rightarrow> (account \<times> string \<times> json) access" where
  "bootstrap_target e username email =
     sx_bind (query e (\<lambda>d. res_guard (\<not> list_ex is_human (t_accounts d)) (AccessError HUMANS_MSG))) (\<lambda>_.
     sx_bind (query e (\<lambda>d. res_guard (\<not> list_ex (\<lambda>a. iexact e (a_username a) username) (t_accounts d)) (AccessError CONFLICT_MSG))) (\<lambda>_.
     sx_bind (query e (\<lambda>d. res_guard (\<not> list_ex (\<lambda>a. iexact e (a_email a) email) (t_accounts d)) (AccessError CONFLICT_MSG))) (\<lambda>_.
     sx_bind (query e (\<lambda>d. new_user e d username email)) (\<lambda>a.
       let b = a\<lparr>a_super := True, a_staff := False\<rparr>
       in sx_bind (update e (\<lambda>d. d\<lparr>t_accounts := t_accounts d @ [b]\<rparr>)) (\<lambda>_. sx_return (b, ''created'', JNull))))))"

definition recover_target :: "access_env \<Rightarrow> string \<Rightarrow> string \<Rightarrow> (account \<times> string \<times> json) access" where
  "recover_target e username email =
     sx_bind (query e (\<lambda>d.
       case find (\<lambda>a. a_username a = username) (t_accounts d) of
         None \<Rightarrow> Inl (AccessError TARGET_MSG)
       | Some a \<Rightarrow>
           if a_email a \<noteq> email then Inl (AccessError TARGET_MSG)
           else if \<not> a_active a \<or> a_remote a \<or> a_service a then Inl (AccessError HUMAN_MSG)
           else Inr a)) (\<lambda>a.
     sx_bind (sx_lift (serialize e a)) (\<lambda>prev. sx_return (a, ''updated'', prev)))"

definition count_removed :: "access_env \<Rightarrow> int \<Rightarrow> json access" where
  "count_removed e pk =
     sx_bind (query e (\<lambda>d. Inr (owned pk (t_totp d)))) (\<lambda>n1.
     sx_bind (query e (\<lambda>d. Inr (owned pk (t_webauthn d)))) (\<lambda>n2.
     sx_bind (query e (\<lambda>d. Inr (owned pk (t_tokens d)))) (\<lambda>n3.
     sx_bind (query e (\<lambda>d. Inr (owned pk (t_issuers d)))) (\<lambda>n4.
       sx_return (JObj [(''totp'', JInt (int n1)), (''webauthn'', JInt (int n2)),
         (''human_tokens'', JInt (int n3)), (''human_oidc_issuers'', JInt (int n4))])))))"

definition clear_access :: "access_env \<Rightarrow> account \<Rightarrow> unit access" where
  \<comment> \<open>\<open>save\<close> and the four deletions\<close>
  "clear_access e a =
     sx_bind (update e (save_account a)) (\<lambda>_.
     sx_bind (update e (\<lambda>d. d\<lparr>t_totp := disown (a_pk a) (t_totp d)\<rparr>)) (\<lambda>_.
     sx_bind (update e (\<lambda>d. d\<lparr>t_webauthn := disown (a_pk a) (t_webauthn d)\<rparr>)) (\<lambda>_.
     sx_bind (update e (\<lambda>d. d\<lparr>t_tokens := disown (a_pk a) (t_tokens d)\<rparr>)) (\<lambda>_.
       update e (\<lambda>d. d\<lparr>t_issuers := disown (a_pk a) (t_issuers d)\<rparr>)))))"

definition check_setup_url :: "access_env \<Rightarrow> string \<Rightarrow> unit res" where
  "check_setup_url e s =
     res_bind (urlsplit (ae_urls e) s) (\<lambda>u.
       res_guard (ur_scheme u = ''https'' \<and> url_hostname u \<noteq> None \<and> \<not> given (url_username u) \<and> \<not> given (url_password u)
          \<and> ur_query u = [] \<and> ur_fragment u = []) (AccessError ORIGIN_MSG))"

definition access_target :: "account \<Rightarrow> json" where
  "access_target a = JObj [(''pk'', JInt (a_pk a)), (''username'', JStr (a_username a)), (''email'', JStr (a_email a))]"

definition make_artifact :: "json \<Rightarrow> json \<Rightarrow> rat \<Rightarrow> account \<Rightarrow> json \<Rightarrow> string \<Rightarrow> json" where
  "make_artifact md reason now a removed url = JObj
     [(''scope'', JStr ''private-local-operator-setup''), (''mode'', md), (''target'', access_target a),
      (''reason'', reason), (''removed'', removed), (''setup_url'', JStr url),
      (''expires_at_unix'', JFloat (Fin (now + of_int RESET_SECONDS))), (''audit'', JStr ''submission not delivery proof''),
      (''session_invalidation'', JStr ''password/auth-hash invalidation; session rows are not purged'')]"

definition make_event :: "json \<Rightarrow> json \<Rightarrow> account \<Rightarrow> string \<Rightarrow> json \<Rightarrow> json \<Rightarrow> audit_event" where
  "make_event md reason a action prev removed =
     \<lparr>ev_action = action, ev_pk = a_pk a, ev_previous = prev,
      ev_access = JObj [(''mode'', md), (''reason'', reason), (''removed'', removed),
        (''authority'', JStr ''privileged host management; no browser actor asserted'')]\<rparr>"

definition output_of :: "'k crypto \<Rightarrow> access_env \<Rightarrow> access_draws \<Rightarrow> 'k recipient option \<Rightarrow> json \<Rightarrow> json res" where
  "output_of C e dr rcp artifact =
     (case rcp of None \<Rightarrow> Inr artifact
      | Some r \<Rightarrow> seal C (ae_urls e) (ae_py e) (dr_key2 dr) (dr_nonce2 dr) r artifact)"

definition reset_body :: "'k crypto \<Rightarrow> access_env \<Rightarrow> access_draws \<Rightarrow> rat \<Rightarrow> json \<Rightarrow> string \<Rightarrow> string \<Rightarrow> json \<Rightarrow> 'k recipient option
    \<Rightarrow> (account \<times> json \<times> audit_event \<times> json) access" where
  "reset_body C e dr now md username email reason rcp =
     sx_bind (stmt e) (\<lambda>_.  \<comment> \<open>the lock on the content type row\<close>
     sx_bind (if md = JStr ''bootstrap'' then bootstrap_target e username email else recover_target e username email) (\<lambda>(a, action, prev).
     sx_bind (count_removed e (a_pk a)) (\<lambda>removed.
       let b = a\<lparr>a_password := password_hash e (new_password dr)\<rparr> in
     sx_bind (clear_access e b) (\<lambda>_.
     sx_bind (sx_lift (reset_url e b)) (\<lambda>url.
     sx_bind (sx_lift (check_setup_url e url)) (\<lambda>_.
     sx_bind (stmt e) (\<lambda>_.  \<comment> \<open>\<open>AuditEvent.build\<close>\<close>
     sx_bind (sx_lift (output_of C e dr rcp (make_artifact md reason now b removed url))) (\<lambda>out.
       sx_return (b, removed, make_event md reason b action prev removed, out)))))))))"

section \<open>The operation\<close>

definition recipient_for :: "'k crypto \<Rightarrow> access_env \<Rightarrow> access_draws \<Rightarrow> json \<Rightarrow> json \<Rightarrow> json \<Rightarrow> json option \<Rightarrow> json option \<Rightarrow> bool
    \<Rightarrow> 'k recipient option res" where
  "recipient_for C e dr md username email pub ctx sealed_stdout =
     (case pub of
        Some k \<Rightarrow>
          (case res_bind (base_url e) (\<lambda>org.
                prepare_recipient C (ae_urls e) (ae_py e) (dr_key1 dr) (dr_nonce1 dr) k (case ctx of None \<Rightarrow> JNull | Some c \<Rightarrow> c) md username email org) of
             Inl _ \<Rightarrow> Inl (AccessError RECIPIENT_MSG)
           | Inr r \<Rightarrow> Inr (Some r))
      | None \<Rightarrow> if ctx \<noteq> None \<or> sealed_stdout then Inl (AccessError SEALED_MSG) else Inr None)"

definition output_text :: "access_env \<Rightarrow> bool \<Rightarrow> json \<Rightarrow> string" where
  "output_text e sealed v = (if sealed then print_json (ae_py e) True v else pretty (ae_py e) 0 v) @ [CHR 0x0A]"

definition post_event :: "access_env \<Rightarrow> audit_event \<Rightarrow> unit access" where
  "post_event e ev =
     sx_bind (stmt e) (\<lambda>_ h. (Inr (), h\<lparr>h_world := (h_world h)\<lparr>aw_posted := aw_posted (h_world h) @ [ev]\<rparr>\<rparr>))"

definition is_access :: "exn \<Rightarrow> bool" where
  "is_access x \<longleftrightarrow> (case x of AccessError _ \<Rightarrow> True | _ \<Rightarrow> False)"

definition or_access :: "string \<Rightarrow> 'a access \<Rightarrow> 'a access" where
  \<comment> \<open>an exception that is no \<open>AccessError\<close> becomes one with the message of the phase\<close>
  "or_access msg m = sx_catch m (\<lambda>x. if is_access x then None else Some (sx_raise (AccessError msg)))"

definition access_result :: "account \<Rightarrow> json \<Rightarrow> bool \<Rightarrow> json \<Rightarrow> (string \<times> json) list" where
  "access_result a removed sealed_stdout out =
     [(''target'', access_target a), (''removed'', removed)] @ (if sealed_stdout then [(''sealed'', out)] else [])"

definition check_access :: "access_env \<Rightarrow> json \<Rightarrow> json \<Rightarrow> json \<Rightarrow> json \<Rightarrow> unit res" where
  "check_access e md username email reason =
     res_bind (validate_request md username email reason) (\<lambda>_.
     res_bind (res_guard (email_ok e (str_of email) \<and> username_ok e (str_of username)) (AccessError INVALID_MSG)) (\<lambda>_.
       res_guard (reset_timeout e = RESET_SECONDS) (AccessError POLICY_MSG)))"

definition apply_access :: "'k crypto \<Rightarrow> access_env \<Rightarrow> access_draws \<Rightarrow> rat \<Rightarrow> json \<Rightarrow> json \<Rightarrow> json \<Rightarrow> json \<Rightarrow> string
    \<Rightarrow> json option \<Rightarrow> json option \<Rightarrow> bool \<Rightarrow> (string \<times> json) list access" where
  "apply_access C e dr now md username email reason output pub ctx sealed_stdout =
     sx_bind (sx_lift (check_access e md username email reason)) (\<lambda>_.
     sx_bind (sx_lift (recipient_for C e dr md username email pub ctx sealed_stdout)) (\<lambda>rcp.
     sx_bind (reserve_output output) (\<lambda>fd.
     sx_bind (or_access UNCONFIRMED_MSG
       (durable_atomic e (reset_body C e dr now md (str_of username) (str_of email) reason rcp))) (\<lambda>(a, removed, ev, out).
     sx_bind (or_access COMMITTED_MSG (write_sync fd (output_text e (rcp \<noteq> None) out))) (\<lambda>_.
     sx_bind (or_access WRITTEN_MSG (post_event e ev)) (\<lambda>_.
       sx_return (access_result a removed sealed_stdout out)))))))"

section \<open>The management command\<close>

definition FLUSH_DONE_MSG :: string where
  "FLUSH_DONE_MSG = ''Access committed and private setup artifact written; audit flush failed. Inspect locally.''"
definition FLUSH_UNKNOWN_MSG :: string where
  "FLUSH_UNKNOWN_MSG = ''Access state requires inspection; audit flush failed. Inspect locally.''"
definition RESERVE_MSG :: string where
  "RESERVE_MSG = ''Private output could not be reserved; no setup credential is printed.''"
definition DONE_LINE :: string where
  "DONE_LINE = ''Operator access committed; private setup artifact written; audit submitted (not delivery proof).''"
definition SEALED_MARK :: string where
  "SEALED_MARK = ''SANTA_SEALED_SETUP_JSON:''"

definition command_error :: "exn \<Rightarrow> exn" where
  "command_error x =
     (case x of AccessError m \<Rightarrow> CommandError m | _ \<Rightarrow> if isa_OSError x then CommandError RESERVE_MSG else x)"

definition access_lines :: "access_env \<Rightarrow> bool \<Rightarrow> (string \<times> json) list \<Rightarrow> string list res" where
  "access_lines e sealed_stdout result =
     (if sealed_stdout
      then (case dget result ''sealed'' of None \<Rightarrow> Inl KeyError
            | Some v \<Rightarrow> Inr [DONE_LINE, SEALED_MARK @ print_json (ae_py e) True v])
      else Inr [DONE_LINE])"

definition access_command :: "'k crypto \<Rightarrow> access_env \<Rightarrow> access_draws \<Rightarrow> rat \<Rightarrow> json \<Rightarrow> json \<Rightarrow> json \<Rightarrow> json \<Rightarrow> string
    \<Rightarrow> json option \<Rightarrow> json option \<Rightarrow> bool \<Rightarrow> (string list) access" where
  \<comment> \<open>\<open>Command.handle\<close>: the lines it writes; \<open>queues.stop()\<close> runs on every path\<close>
  "access_command C e dr now md username email reason output pub ctx sealed_stdout h =
     (let (r, h1) = apply_access C e dr now md username email reason output pub ctx sealed_stdout h;
          (stopped, h2) = stmt e h1
      in (case stopped of
            Inl _ \<Rightarrow> Inl (CommandError (case r of Inr _ \<Rightarrow> FLUSH_DONE_MSG | Inl _ \<Rightarrow> FLUSH_UNKNOWN_MSG))
          | Inr _ \<Rightarrow> (case r of Inl x \<Rightarrow> Inl (command_error x) | Inr res \<Rightarrow> access_lines e sealed_stdout res), h2))"

section \<open>The reset view\<close>

definition reset_view_user :: "access_env \<Rightarrow> account option \<Rightarrow> account option access" where
  \<comment> \<open>\<open>get_user\<close>: the row is read again after the lock; the argument is what Django's view returns\<close>
  "reset_view_user e u =
     (case u of
        None \<Rightarrow> sx_return None
      | Some v \<Rightarrow>
          query e (\<lambda>d. Inr (case find (\<lambda>a. a_pk a = a_pk v) (t_accounts d) of
              None \<Rightarrow> None
            | Some a \<Rightarrow> if \<not> a_active a \<or> a_remote a \<or> a_service a then None else Some a)))"

definition reset_dispatch :: "'r access \<Rightarrow> 'r access" where
  \<comment> \<open>\<open>dispatch\<close> of the reset view, inside \<open>transaction.atomic()\<close>\<close>
  "reset_dispatch view h =
     (case view h of (Inl x, h1) \<Rightarrow> (Inl x, set_db (db_of h) h1) | (Inr v, h1) \<Rightarrow> (Inr v, h1))"

end
