(* ===== verification/Recovery_Facts.thy ===== *)
theory Recovery_Facts
  imports Operator_Recovery Sealed_Facts
begin

text \<open>
  What a run of \<open>apply_access\<close> leaves behind, on every path: the database is untouched or holds
  exactly the reset that \<open>access_spec\<close> describes, the reported phase is the one reached, and a
  sealed run writes nothing but a prefix of the envelope.
\<close>

section \<open>The specification of a reset\<close>

definition target_spec :: "access_env \<Rightarrow> json \<Rightarrow> string \<Rightarrow> string \<Rightarrow> accounts_db \<Rightarrow> account \<Rightarrow> bool" where
  "target_spec e md username email d a =
     (if md = JStr ''bootstrap''
      then \<not> list_ex is_human (t_accounts d)
           \<and> \<not> list_ex (\<lambda>b. iexact e (a_username b) username \<or> iexact e (a_email b) email) (t_accounts d)
           \<and> (\<exists>b. new_user e d username email = Inr b \<and> a = b\<lparr>a_super := True, a_staff := False\<rparr>)
      else find (\<lambda>b. a_username b = username) (t_accounts d) = Some a \<and> a_email a = email
           \<and> a_active a \<and> \<not> a_remote a \<and> \<not> a_service a)"

definition reset_spec :: "string \<Rightarrow> json \<Rightarrow> account \<Rightarrow> accounts_db \<Rightarrow> accounts_db" where
  "reset_spec hash md a d =
     (let accounts = (if md = JStr ''bootstrap'' then t_accounts d @ [a] else t_accounts d) in
      \<lparr>t_accounts = map (\<lambda>b. if a_pk b = a_pk a then a\<lparr>a_password := hash\<rparr> else b) accounts,
       t_totp = disown (a_pk a) (t_totp d), t_webauthn = disown (a_pk a) (t_webauthn d),
       t_tokens = disown (a_pk a) (t_tokens d), t_issuers = disown (a_pk a) (t_issuers d)\<rparr>)"

section \<open>Statements\<close>

lemma stmt_cases: "stmt e h = (r, h') \<Longrightarrow> db_of h' = db_of h \<and> h_fs h' = h_fs h \<and> h_outcomes h' = h_outcomes h"
  by (auto simp: stmt_def Let_def db_of_def split: option.splits)

lemma db_set_db [simp]: "db_of (set_db d h) = d" "h_fs (set_db d h) = h_fs h" "h_outcomes (set_db d h) = h_outcomes h"
  by (simp_all add: db_of_def set_db_def)

lemma query_Inr: "query e q h = (Inr v, h') \<longleftrightarrow> (\<exists>u. stmt e h = (Inr u, h') \<and> q (db_of h') = Inr v)"
  by (auto simp: query_def sx_simps)

lemma queryD: "query e q h = (Inr v, h') \<Longrightarrow> q (db_of h) = Inr v \<and> db_of h' = db_of h"
  by (auto simp: query_Inr dest: stmt_cases)

lemma updateD: "update e f h = (Inr u, h') \<Longrightarrow> db_of h' = f (db_of h)"
  by (auto simp: update_def sx_simps dest: stmt_cases)

interpretation same_files: frame "\<lambda>h h' :: access_world host. h_fs h' = h_fs h \<and> h_outcomes h' = h_outcomes h"
  by unfold_locales auto

lemma files_stmt: "same_files.keeps (stmt e)"
  by (rule same_files.keepsI) (simp add: stmt_cases)

lemma files_query: "same_files.keeps (query e q)"
  unfolding query_def by (intro same_files.keeps_bind files_stmt) (simp add: same_files.keeps_def)

lemma files_update: "same_files.keeps (update e f)"
  unfolding update_def by (intro same_files.keeps_bind files_stmt) (simp add: same_files.keeps_def)

lemma files_targets: "same_files.keeps (bootstrap_target e username email)" "same_files.keeps (recover_target e username email)"
  unfolding bootstrap_target_def recover_target_def Let_def
  by (intro same_files.keeps_intros files_query files_update)+

lemma files_clear: "same_files.keeps (count_removed e pk)" "same_files.keeps (clear_access e a)"
  unfolding count_removed_def clear_access_def by (intro same_files.keeps_intros files_query files_update)+

lemma files_body: "same_files.keeps (reset_body C e dr now md username email reason rcp)"
  unfolding reset_body_def Let_def
  by (intro same_files.keeps_intros files_stmt files_clear)
     (auto intro!: same_files.keeps_intros files_stmt files_clear files_targets split: prod.splits)

section \<open>The transaction\<close>

lemma bootstrap_targetD:
  assumes "bootstrap_target e username email h = (Inr (a, action, prev), h')"
  shows "target_spec e (JStr ''bootstrap'') username email (db_of h) a"
    "db_of h' = (db_of h)\<lparr>t_accounts := t_accounts (db_of h) @ [a]\<rparr>"
  using assms
  by (auto simp: bootstrap_target_def target_spec_def sx_simps Let_def res_simps list_ex_iff dest!: queryD updateD)

lemma recover_targetD:
  assumes "recover_target e username email h = (Inr (a, action, prev), h')" "md \<noteq> JStr ''bootstrap''"
  shows "target_spec e md username email (db_of h) a" "db_of h' = db_of h"
  using assms
  by (auto simp: recover_target_def target_spec_def sx_simps dest!: queryD split: option.splits if_splits)

lemma clear_accessD:
  assumes "clear_access e a h = (Inr u, h')"
  shows "db_of h' = \<lparr>t_accounts = map (\<lambda>b. if a_pk b = a_pk a then a else b) (t_accounts (db_of h)),
       t_totp = disown (a_pk a) (t_totp (db_of h)), t_webauthn = disown (a_pk a) (t_webauthn (db_of h)),
       t_tokens = disown (a_pk a) (t_tokens (db_of h)), t_issuers = disown (a_pk a) (t_issuers (db_of h))\<rparr>"
  using assms by (auto simp: clear_access_def save_account_def sx_simps dest!: updateD)

lemma count_removedD: "count_removed e pk h = (Inr v, h') \<Longrightarrow> db_of h' = db_of h"
  by (auto simp: count_removed_def sx_simps dest!: queryD)

lemma target_step:
  assumes "(if md = JStr ''bootstrap'' then bootstrap_target e username email else recover_target e username email) h
    = (Inr (a, action, prev), h')"
  shows "target_spec e md username email (db_of h) a \<and>
    db_of h' = (if md = JStr ''bootstrap'' then (db_of h)\<lparr>t_accounts := t_accounts (db_of h) @ [a]\<rparr> else db_of h)"
  using assms by (auto split: if_splits dest: bootstrap_targetD recover_targetD)

lemma reset_bodyD:
  assumes "reset_body C e dr now md username email reason rcp h = (Inr (b, removed, ev, out), h')"
  obtains a url where "target_spec e md username email (db_of h) a" "b = a\<lparr>a_password := password_hash e (new_password dr)\<rparr>"
    "db_of h' = reset_spec (password_hash e (new_password dr)) md a (db_of h)"
    "output_of C e dr rcp (make_artifact md reason now b removed url) = Inr out"
proof -
  from assms obtain a action prev h1 h2 h3 h4 url h5 where
    st: "stmt e h = (Inr (), h1)"
    and t: "(if md = JStr ''bootstrap'' then bootstrap_target e username email else recover_target e username email) h1 = (Inr (a, action, prev), h2)"
    and c: "count_removed e (a_pk a) h2 = (Inr removed, h3)"
    and b: "b = a\<lparr>a_password := password_hash e (new_password dr)\<rparr>"
    and cl: "clear_access e b h3 = (Inr (), h4)" and st2: "stmt e h4 = (Inr (), h5)" and h': "h' = h5"
    and out: "output_of C e dr rcp (make_artifact md reason now b removed url) = Inr out"
    by (auto simp: reset_body_def sx_simps Let_def split: prod.splits)
  have "db_of h1 = db_of h" "db_of h3 = db_of h2" "db_of h5 = db_of h4"
    using stmt_cases [OF st] stmt_cases [OF st2] count_removedD [OF c] by auto
  with target_step [OF t] clear_accessD [OF cl] b h'
  have "db_of h' = reset_spec (password_hash e (new_password dr)) md a (db_of h)" "target_spec e md username email (db_of h) a"
    by (auto simp: reset_spec_def Let_def)
  then show ?thesis using that b out by blast
qed

section \<open>Who raises \<open>AccessError\<close>\<close>

text \<open>Foreign code does not raise the tool's own exception.\<close>

definition foreign :: "access_env \<Rightarrow> 'w host \<Rightarrow> bool" where
  "foreign e h \<longleftrightarrow> (\<forall>n x. stmt_fault e n = Some x \<longrightarrow> \<not> is_access x) \<and> (\<forall>n x k. h_outcomes h n = Fails x k \<longrightarrow> \<not> is_access x)
     \<and> (\<forall>d u m x. new_user e d u m = Inl x \<longrightarrow> \<not> is_access x) \<and> (\<forall>a x. serialize e a = Inl x \<longrightarrow> \<not> is_access x)
     \<and> (\<forall>a x. reset_url e a = Inl x \<longrightarrow> \<not> is_access x)"

definition early :: "exn \<Rightarrow> bool" where
  \<comment> \<open>an exception that no phase after the commit reports\<close>
  "early x \<longleftrightarrow> x \<noteq> AccessError COMMITTED_MSG \<and> x \<noteq> AccessError WRITTEN_MSG"

definition raises :: "(exn \<Rightarrow> bool) \<Rightarrow> 'a res \<Rightarrow> bool" where
  "raises P r \<longleftrightarrow> (\<forall>x. r = Inl x \<longrightarrow> P x)"

lemma raises_bind: "raises P m \<Longrightarrow> (\<And>v. raises P (f v)) \<Longrightarrow> raises P (res_bind m f)"
  by (cases m) (auto simp: raises_def)

lemma raises_intros: "raises P (Inr v)" "P x \<Longrightarrow> raises P (Inl x)" "P x \<Longrightarrow> raises P (res_guard b x)"
  by (auto simp: raises_def res_simps)

abbreviation plain :: "exn \<Rightarrow> bool" where
  "plain x \<equiv> \<not> is_access x"

lemma plain_exns [simp]: "plain SealedSetupError" "plain KeyError" "plain TypeError" "plain ValueError" "plain UnicodeError"
    "plain OverflowError" "plain OperationalError"
  by (simp_all add: is_access_def)

lemma plain_parts: "raises plain (item_of v k)" "raises plain (require b)" "raises plain (urlsplit ue u)" "raises plain (positive_time t)"
    "raises plain (target_digest username email)" "raises plain (url_port uu)" "raises plain (aad md kid cx target)"
  by (cases v; simp add: raises_intros split: option.splits)
     (auto simp: require_def urlsplit_def target_digest_def url_port_def aad_def Let_def res_simps res_bind_Inl_iff raises_def
       elim!: positive_time.elims split: prod.splits if_splits json.splits)

lemma plain_origin: "raises plain (origin ue v)"
  unfolding origin_def
  by (auto simp: raises_def require_def res_simps res_bind_Inl_iff split: json.splits sum.splits if_splits option.splits prod.splits
      dest: plain_parts(3,6) [unfolded raises_def, rule_format])

lemma plain_b64: "raises plain (b64_decode u s)"
  by (induction u s rule: b64_decode.induct)
     (auto simp: raises_def res_bind_Inl_iff split: option.splits if_splits)

lemma plain_encrypt: "raises plain (rc_encrypt C e k n r v)"
  unfolding rc_encrypt_def Let_def by (intro raises_bind plain_parts raises_intros)

lemma plain_seal: "raises plain (seal C ue e k n r v)"
  unfolding seal_def
  by (intro raises_bind plain_parts plain_origin plain_b64 plain_encrypt)
     (auto intro!: raises_bind raises_intros plain_parts plain_b64 plain_encrypt split: json.splits)

definition sraises :: "(exn \<Rightarrow> bool) \<Rightarrow> ('s, 'a) sx \<Rightarrow> bool" where
  "sraises P m \<longleftrightarrow> (\<forall>h x h'. m h = (Inl x, h') \<longrightarrow> P x)"

lemma sraises_bind: "sraises P m \<Longrightarrow> (\<And>v. sraises P (f v)) \<Longrightarrow> sraises P (sx_bind m f)"
  unfolding sraises_def sx_bind_Inl_iff by blast

lemma sraises_intros: "sraises P (sx_return v)" "raises P r \<Longrightarrow> sraises P (sx_lift r)"
  by (auto simp: sraises_def raises_def sx_simps)

lemma early_plain: "plain x \<Longrightarrow> early x"
  by (auto simp: early_def is_access_def)

lemma early_messages: "early (AccessError HUMANS_MSG)" "early (AccessError CONFLICT_MSG)" "early (AccessError TARGET_MSG)"
    "early (AccessError HUMAN_MSG)" "early (AccessError ORIGIN_MSG)" "early (AccessError UNCONFIRMED_MSG)" "early (AccessError MODE_MSG)"
    "early (AccessError IDENTITY_MSG)" "early (AccessError REASON_MSG)" "early (AccessError PATH_MSG)" "early (AccessError INVALID_MSG)"
    "early (AccessError POLICY_MSG)" "early (AccessError RECIPIENT_MSG)" "early (AccessError SEALED_MSG)"
  by (simp_all add: early_def HUMANS_MSG_def CONFLICT_MSG_def TARGET_MSG_def HUMAN_MSG_def ORIGIN_MSG_def UNCONFIRMED_MSG_def MODE_MSG_def
      IDENTITY_MSG_def REASON_MSG_def PATH_MSG_def INVALID_MSG_def POLICY_MSG_def RECIPIENT_MSG_def SEALED_MSG_def COMMITTED_MSG_def WRITTEN_MSG_def)

lemma stmt_early: "foreign e h0 \<Longrightarrow> sraises early (stmt e)"
  by (auto simp: sraises_def stmt_def foreign_def Let_def intro: early_plain split: option.splits)

lemma query_early: "foreign e h0 \<Longrightarrow> (\<And>d. raises early (q d)) \<Longrightarrow> sraises early (query e q)"
  unfolding query_def by (rule sraises_bind [OF stmt_early]) (auto simp: sraises_def raises_def)

lemma update_early: "foreign e h0 \<Longrightarrow> sraises early (update e f)"
  unfolding update_def by (rule sraises_bind [OF stmt_early]) (auto simp: sraises_def)

lemma foreign_early: "foreign e h0 \<Longrightarrow> raises early (new_user e d u m)" "foreign e h0 \<Longrightarrow> raises early (serialize e a)"
    "foreign e h0 \<Longrightarrow> raises early (reset_url e a)"
  by (auto simp: foreign_def raises_def intro!: early_plain)

lemma raises_mono: "raises P r \<Longrightarrow> (\<And>x. P x \<Longrightarrow> Q x) \<Longrightarrow> raises Q r"
  by (auto simp: raises_def)

lemma targets_early:
  assumes "foreign e h0"
  shows "sraises early (bootstrap_target e username email)" "sraises early (recover_target e username email)"
  unfolding bootstrap_target_def recover_target_def Let_def
  by (intro sraises_bind sraises_intros query_early [OF assms] update_early [OF assms] raises_intros early_messages foreign_early [OF assms];
      auto intro!: raises_intros early_messages split: option.splits)+

lemma body_early:
  assumes "foreign e h0"
  shows "sraises early (reset_body C e dr now md username email reason rcp)"
proof -
  have out: "raises early (output_of C e dr rcp v)" for v
    by (auto simp: output_of_def intro: raises_intros raises_mono [OF plain_seal early_plain] split: option.splits)
  have url: "raises early (check_setup_url e u)" for u
    unfolding check_setup_url_def
    by (intro raises_bind raises_intros early_messages raises_mono [OF plain_parts(3) early_plain])
  have mid: "sraises early (count_removed e pk)" "sraises early (clear_access e a)" for pk a
    unfolding count_removed_def clear_access_def
    by (intro sraises_bind sraises_intros query_early [OF assms] update_early [OF assms] raises_intros)+
  show ?thesis
    unfolding reset_body_def Let_def
    by (intro sraises_bind stmt_early [OF assms])
       (auto intro!: sraises_bind sraises_intros mid out url stmt_early [OF assms] foreign_early [OF assms] targets_early [OF assms])
qed

section \<open>Phases\<close>

lemma or_access_Inr: "or_access msg m h = (Inr v, h') \<longleftrightarrow> m h = (Inr v, h')"
  by (auto simp: or_access_def sx_catch_def sx_raise_def split: prod.splits sum.splits option.splits if_splits)

lemma or_access_Inl: "or_access msg m h = (Inl x, h') \<Longrightarrow> \<exists>y. m h = (Inl y, h') \<and> (x = AccessError msg \<or> x = y \<and> is_access y)"
  by (auto simp: or_access_def sx_catch_def sx_raise_def split: prod.splits sum.splits option.splits if_splits)

lemma db_of_world: "h_world h' = h_world h \<Longrightarrow> db_of h' = db_of h"
  by (simp add: db_of_def)

lemma walk_plain: "walk n f d cs = Inl x \<Longrightarrow> plain x"
  by (induction n f d cs rule: walk.induct)
     (auto simp: is_access_def Let_def split: if_splits option.splits kind.splits nat.splits)

lemma resolve_plain: "resolve h p = Inl x \<Longrightarrow> plain x"
  by (auto simp: resolve_def resolve_parts_def res_bind_Inl_iff dest: walk_plain)

lemma io_ok_plain: "io_ok h = (Inl x, h') \<Longrightarrow> \<exists>n k. h_outcomes h n = Fails x k"
  by (auto simp: io_ok_def sx_bind_def io_def sx_return_def sx_raise_def split: outcome.splits)

lemma new_place_plain: "new_place h p = Inl x \<Longrightarrow> plain x"
  by (auto simp: new_place_def resolve_parts_def res_bind_Inl_iff is_access_def dest: walk_plain split: if_splits option.splits)

lemma open_plain: "open_excl p mode h = (Inl x, h') \<Longrightarrow> plain x \<or> (\<exists>n k. h_outcomes h n = Fails x k)"
proof -
  assume "open_excl p mode h = (Inl x, h')"
  then consider "io_ok h = (Inl x, h')" | s1 where "(case new_place s1 p of Inl x \<Rightarrow> (Inl x, s1) | Inr cs \<Rightarrow> (Inr cs, put_node cs (Reg []) mode s1)) = (Inl x, h')"
    by (auto simp only: open_excl_def sx_bind_Inl_iff)
  then show ?thesis
  proof cases
    case (2 s1)
    then have "new_place s1 p = Inl x" by (cases "new_place s1 p") auto
    then show ?thesis by (simp add: new_place_plain)
  qed (blast dest: io_ok_plain)
qed

lemma fchmod_plain: "fchmod cs mode h = (Inl x, h') \<Longrightarrow> \<exists>n k. h_outcomes h n = Fails x k"
  by (auto simp: fchmod_def sx_bind_Inl_iff dest: io_ok_plain)

lemma outcome_early: "foreign e h \<Longrightarrow> h_outcomes h n = Fails x k \<Longrightarrow> early x"
  by (metis foreign_def early_plain)

lemma open_early: "open_excl p mode h = (Inl x, h') \<Longrightarrow> foreign e h \<Longrightarrow> early x"
  using open_plain outcome_early early_plain by metis

lemma reserve_outputD:
  assumes "reserve_output v h = (r, h')" "foreign e h"
  shows "db_of h' = db_of h \<and> h_outcomes h' = h_outcomes h
    \<and> ((\<exists>x. r = Inl x \<and> early x \<and> (h_fs h' = h_fs h \<or> (\<exists>fd. fresh_file fd [] h h'))) \<or> (\<exists>fd. r = Inr fd \<and> fresh_file fd [] h h'))"
proof -
  let ?p = "py_path v"
  let ?chk = "\<lambda>h. if \<not> is_absolute ?p then (Inl (AccessError PATH_MSG), h)
                   else case resolve h (path_parent ?p) of
                          Inl x \<Rightarrow> (Inl x, h)
                        | Inr q \<Rightarrow> if q \<noteq> path_parent ?p then (Inl (AccessError PATH_MSG), h) else (Inr (), h)"
  obtain r1 h1 where c: "?chk h = (r1, h1)" by fastforce
  then have h1: "h1 = h" and e1: "\<And>x. r1 = Inl x \<Longrightarrow> early x"
    by (auto simp: early_messages intro!: early_plain dest!: resolve_plain split: if_splits sum.splits)
  obtain r2 h2 where o: "open_excl ?p 384 h = (r2, h2)" by fastforce
  note of = open_excl_fresh [OF o]
  have e2: "early x" if "r2 = Inl x" for x
    using o that by (intro open_early [OF _ assms(2)]) simp
  show ?thesis
  proof (cases r1)
    case (Inl x)
    with c h1 e1 assms(1) show ?thesis by (auto simp: reserve_output_def Let_def sx_bind_def)
  next
    case (Inr u)
    show ?thesis
    proof (cases r2)
      case (Inl x)
      with of o c h1 Inr e2 assms(1) show ?thesis by (auto simp: reserve_output_def Let_def sx_bind_def db_of_def)
    next
      case fd: (Inr fd)
      obtain r3 h3 where f: "fchmod fd 384 h2 = (r3, h3)" by fastforce
      have "fresh_file fd [] h h2" using of(1) fd by auto
      note ff = fchmod_fresh [OF f this]
      have "early x" if "r3 = Inl x" for x
        using fchmod_plain f that of(3) outcome_early [OF assms(2)] by metis
      with ff of c h1 o fd f Inr assms(1) show ?thesis
        by (cases r3) (auto simp: reserve_output_def Let_def sx_bind_def db_of_def sx_return_def)
    qed
  qed
qed

lemma transactionD:
  assumes "or_access UNCONFIRMED_MSG (durable_atomic e (reset_body C e dr now md username email reason rcp)) h = (r, h')" "foreign e h0"
  shows "h_fs h' = h_fs h \<and> h_outcomes h' = h_outcomes h \<and>
    ((\<exists>x. r = Inl x \<and> early x \<and> db_of h' = db_of h)
     \<or> (\<exists>a. r = Inl (AccessError UNCONFIRMED_MSG) \<and> commit_as e = CommitUnknown \<and> target_spec e md username email (db_of h) a
          \<and> db_of h' = reset_spec (password_hash e (new_password dr)) md a (db_of h))
     \<or> (\<exists>b removed ev out a url. r = Inr (b, removed, ev, out) \<and> target_spec e md username email (db_of h) a
          \<and> db_of h' = reset_spec (password_hash e (new_password dr)) md a (db_of h)
          \<and> output_of C e dr rcp (make_artifact md reason now b removed url) = Inr out))"
proof -
  let ?m = "reset_body C e dr now md username email reason rcp"
  obtain r1 h1 where m: "?m h = (r1, h1)" by fastforce
  note files = same_files.keepsD [OF files_body m]
  show ?thesis
  proof (cases r1)
    case (Inl y)
    then have "early y" using body_early [OF assms(2)] m unfolding sraises_def by blast
    with Inl m files assms(1) show ?thesis
      by (auto simp: or_access_def durable_atomic_def sx_catch_def sx_raise_def early_messages split: if_splits)
  next
    case (Inr v)
    obtain b removed ev out where v: "v = (b, removed, ev, out)" by (cases v) auto
    from m Inr v have "?m h = (Inr (b, removed, ev, out), h1)" by simp
    then obtain a url where a: "target_spec e md username email (db_of h) a" "db_of h1 = reset_spec (password_hash e (new_password dr)) md a (db_of h)"
        "output_of C e dr rcp (make_artifact md reason now b removed url) = Inr out"
      by (rule reset_bodyD)
    show ?thesis
    proof (cases "commit_as e")
      case CommitDone
      with m Inr v files assms(1) a show ?thesis by (auto simp: or_access_def durable_atomic_def sx_catch_def)
    next
      case CommitFailed
      with m Inr v files assms(1) show ?thesis
        by (auto simp: or_access_def durable_atomic_def sx_catch_def sx_raise_def early_messages split: if_splits)
    next
      case CommitUnknown
      with m Inr v files assms(1) a show ?thesis
        by (auto simp: or_access_def durable_atomic_def sx_catch_def sx_raise_def split: if_splits)
    qed
  qed
qed

lemma checks_early: "raises early (check_access e md username email reason)"
    "raises early (recipient_for C e dr md username email pub cx sealed_stdout)"
  unfolding check_access_def validate_request_def recipient_for_def
  by (auto intro!: raises_bind raises_intros early_messages split: option.splits sum.splits)

lemma post_eventD: "post_event e ev h = (r, h') \<Longrightarrow> db_of h' = db_of h \<and> h_fs h' = h_fs h"
  by (cases "stmt e h"; cases "fst (stmt e h)") (auto simp: post_event_def sx_bind_def db_of_def dest!: stmt_cases)

lemma or_access_plain: "or_access msg m h = (Inl x, h') \<Longrightarrow> (\<And>y h1. m h = (Inl y, h1) \<Longrightarrow> plain y) \<Longrightarrow> x = AccessError msg"
  by (drule or_access_Inl) blast

lemma write_sync_plain:
  assumes "write_sync cs b h = (Inl y, h')" "foreign e h"
  shows "plain y"
proof -
  have "\<exists>n k. h_outcomes h n = Fails y k"
    using assms(1) by (auto simp: write_sync_def sx_bind_def io_def split: outcome.splits)
  then show ?thesis using assms(2) unfolding foreign_def by metis
qed

lemma post_plain: "post_event e ev h = (Inl y, h') \<Longrightarrow> \<exists>n. stmt_fault e n = Some y"
  by (auto simp: post_event_def sx_bind_Inl_iff stmt_def Let_def split: option.splits)

text \<open>What follows the transaction.\<close>

definition publish :: "access_env \<Rightarrow> string list \<Rightarrow> string \<Rightarrow> audit_event \<Rightarrow> 'r \<Rightarrow> 'r access" where
  "publish e fd content ev result =
     sx_bind (or_access COMMITTED_MSG (write_sync fd content)) (\<lambda>_.
     sx_bind (or_access WRITTEN_MSG (post_event e ev)) (\<lambda>_. sx_return result))"

lemma publishD:
  assumes "publish e fd content ev result h2 = (r, h')" and fresh: "fresh_file fd [] h h2" and f: "foreign e h2"
  obtains n where "fresh_file fd (take n content) h h'" "db_of h' = db_of h2"
    "r = Inl (AccessError COMMITTED_MSG) \<or> (r = Inl (AccessError WRITTEN_MSG) \<or> r = Inr result) \<and> length content \<le> n"
proof -
  obtain r3 h3 where 3: "write_sync fd content h2 = (r3, h3)" by fastforce
  from write_sync_fresh [OF 3 fresh] obtain n where n: "fresh_file fd (take n content) h h3" "r3 = Inr () \<longrightarrow> length content \<le> n"
    and w: "h_world h3 = h_world h2" by blast
  note db3 = db_of_world [OF w]
  show ?thesis
  proof (cases r3)
    case (Inl y)
    then have "or_access COMMITTED_MSG (write_sync fd content) h2 = (Inl (AccessError COMMITTED_MSG), h3)"
      using 3 write_sync_plain [OF _ f, of fd content y h3] by (auto simp: or_access_def sx_catch_def sx_raise_def)
    then have "r = Inl (AccessError COMMITTED_MSG)" "h' = h3" using assms(1) by (auto simp: publish_def sx_bind_def)
    then show ?thesis using that [of n] n db3 by simp
  next
    case (Inr _)
    obtain r4 h4 where 4: "or_access WRITTEN_MSG (post_event e ev) h3 = (r4, h4)" by fastforce
    have db4: "db_of h4 = db_of h3" "h_fs h4 = h_fs h3"
      using 4 post_eventD by (cases r4; fastforce simp: or_access_Inr dest: or_access_Inl)+
    then have n4: "fresh_file fd (take n content) h h4" using n(1) by (simp add: fresh_file_def)
    have "r4 = Inl (AccessError WRITTEN_MSG) \<or> r4 = Inr ()"
      using 4 f by (cases r4) (auto simp: foreign_def dest!: or_access_plain dest: post_plain)
    moreover have "or_access COMMITTED_MSG (write_sync fd content) h2 = (Inr (), h3)" using 3 Inr by (simp add: or_access_Inr)
    ultimately have "r = Inl (AccessError WRITTEN_MSG) \<or> r = Inr result" "h' = h4"
      using 4 assms(1) by (auto simp: publish_def sx_bind_def sx_return_def)
    then show ?thesis using that [of n] n4 db3 db4 n(2) Inr by auto
  qed
qed

text \<open>The three ends of a run: refused, commit unknown, committed.\<close>

lemma apply_accessE:
  assumes run: "apply_access C e dr now md username email reason output pub cx sealed_stdout h = (r, h')" and f: "foreign e h"
  obtains (refused) x where "r = Inl x" "early x" "db_of h' = db_of h" "h_fs h' = h_fs h \<or> (\<exists>fd. fresh_file fd [] h h')"
  | (unknown) a fd where "r = Inl (AccessError UNCONFIRMED_MSG)" "commit_as e = CommitUnknown"
      "target_spec e md (str_of username) (str_of email) (db_of h) a"
      "db_of h' = reset_spec (password_hash e (new_password dr)) md a (db_of h)" "fresh_file fd [] h h'"
  | (committed) rcp a b removed url out fd n where "recipient_for C e dr md username email pub cx sealed_stdout = Inr rcp"
      "target_spec e md (str_of username) (str_of email) (db_of h) a"
      "db_of h' = reset_spec (password_hash e (new_password dr)) md a (db_of h)"
      "output_of C e dr rcp (make_artifact md reason now b removed url) = Inr out"
      "fresh_file fd (take n (output_text e (rcp \<noteq> None) out)) h h'"
      "r = Inl (AccessError COMMITTED_MSG) \<or> (r = Inl (AccessError WRITTEN_MSG) \<or> r = Inr (access_result b removed sealed_stdout out))
         \<and> length (output_text e (rcp \<noteq> None) out) \<le> n"
proof (cases "check_access e md username email reason")
  case (Inl x)
  with run checks_early(1) show ?thesis by (intro refused [of x]) (auto simp: apply_access_def sx_bind_def sx_lift_def raises_def)
next
  case c: (Inr u)
  show ?thesis
  proof (cases "recipient_for C e dr md username email pub cx sealed_stdout")
    case (Inl x)
    with c run checks_early(2) [of C e dr md username email pub cx sealed_stdout] show ?thesis by (intro refused [of x]) (auto simp: apply_access_def sx_bind_def sx_lift_def raises_def)
  next
    case rcp: (Inr rcp)
    obtain r1 h1 where 1: "reserve_output output h = (r1, h1)" by fastforce
    note d1 = reserve_outputD [OF 1 f]
    show ?thesis
    proof (cases r1)
      case (Inl x)
      with c rcp 1 d1 run show ?thesis by (intro refused [of x]) (auto simp: apply_access_def sx_bind_def sx_lift_def)
    next
      case fd: (Inr fd)
      let ?t = "or_access UNCONFIRMED_MSG (durable_atomic e (reset_body C e dr now md (str_of username) (str_of email) reason rcp))"
      obtain r2 h2 where 2: "?t h1 = (r2, h2)" by fastforce
      note d2 = transactionD [OF 2 f]
      have fresh: "fresh_file fd [] h h2" using d1 d2 fd by (auto simp: fresh_file_def)
      show ?thesis
      proof (cases r2)
        case (Inl x)
        with c rcp 1 2 fd run have "r = Inl x" "h' = h2" by (auto simp: apply_access_def sx_bind_def sx_lift_def)
        with d1 d2 Inl fresh show ?thesis using refused [of x] unknown by auto
      next
        case (Inr v)
        obtain b removed ev out where v: "v = (b, removed, ev, out)" by (cases v) auto
        with d1 d2 Inr obtain a url where a: "target_spec e md (str_of username) (str_of email) (db_of h) a"
            "db_of h2 = reset_spec (password_hash e (new_password dr)) md a (db_of h)"
            "output_of C e dr rcp (make_artifact md reason now b removed url) = Inr out" by auto
        let ?content = "output_text e (rcp \<noteq> None) out"
        have f2: "foreign e h2" using f d1 d2 by (simp add: foreign_def)
        have pub: "publish e fd ?content ev (access_result b removed sealed_stdout out) h2 = (r, h')"
          using c rcp 1 2 fd Inr v run by (auto simp: apply_access_def publish_def sx_bind_def sx_lift_def)
        obtain n where "fresh_file fd (take n ?content) h h'" "db_of h' = db_of h2"
            "r = Inl (AccessError COMMITTED_MSG) \<or>
             (r = Inl (AccessError WRITTEN_MSG) \<or> r = Inr (access_result b removed sealed_stdout out)) \<and> length ?content \<le> n"
          by (rule publishD [OF pub fresh f2])
        then show ?thesis using committed [OF rcp a(1) _ a(3), of fd n] a(2) by simp
      qed
    qed
  qed
qed

section \<open>Properties\<close>


text \<open>
  C22: recovery touches one account.  After a successful recovery the accounts are the same
  rows in the same order, only the password of the account with the given username is
  replaced, that account has no factor, token or issuer left, and what other accounts own is
  kept.
\<close>

theorem recovery_touches_one_account:
  assumes "apply_access C e dr now (JStr ''recover'') username email reason output pub cx sealed_stdout h = (Inr v, h')" "foreign e h"
    and "distinct (map a_pk (t_accounts (db_of h)))"
  shows "\<exists>a \<in> set (t_accounts (db_of h)). a_username a = str_of username \<and> a_email a = str_of email \<and> a_active a \<and> \<not> a_remote a \<and> \<not> a_service a
     \<and> t_accounts (db_of h') = map (\<lambda>b. if b = a then a\<lparr>a_password := password_hash e (new_password dr)\<rparr> else b) (t_accounts (db_of h))
     \<and> t_totp (db_of h') = filter (\<lambda>r. fst r \<noteq> a_pk a) (t_totp (db_of h))
     \<and> t_webauthn (db_of h') = filter (\<lambda>r. fst r \<noteq> a_pk a) (t_webauthn (db_of h))
     \<and> t_tokens (db_of h') = filter (\<lambda>r. fst r \<noteq> a_pk a) (t_tokens (db_of h))
     \<and> t_issuers (db_of h') = filter (\<lambda>r. fst r \<noteq> a_pk a) (t_issuers (db_of h))"
  using assms(1,2)
proof (cases rule: apply_accessE)
  case (committed rcp a)
  then have a: "find (\<lambda>b. a_username b = str_of username) (t_accounts (db_of h)) = Some a" "a_email a = str_of email"
      "a_active a" "\<not> a_remote a" "\<not> a_service a"
    by (auto simp: target_spec_def)
  then have mem: "a \<in> set (t_accounts (db_of h))" "a_username a = str_of username"
    by (auto simp: find_Some_iff)
  have "(if a_pk b = a_pk a then x else b) = (if b = a then x else b)" if "b \<in> set (t_accounts (db_of h))" for b x
    using assms(3) mem(1) that by (auto simp: distinct_map inj_on_def)
  then show ?thesis
    using committed(3) a mem by (intro bexI [of _ a]) (auto simp: reset_spec_def disown_def)
qed auto


text \<open>
  A sealed run writes only the envelope.  When a recipient key is given, the only file that
  appears holds a prefix of the printed envelope, and the result has nothing but the target,
  the counts and the envelope; the setup link is only in the ciphertext.
\<close>

theorem sealed_run_writes_envelope:
  assumes "apply_access C e dr now md username email reason output (Some k) cx sealed_stdout h = (r, h')" "foreign e h"
  shows "h_fs h' = h_fs h \<or> (\<exists>fd. fresh_file fd [] h h')
    \<or> (\<exists>fd n rcp b removed url env. fresh_file fd (take n (print_json (ae_py e) True env @ [CHR 0x0A])) h h'
        \<and> seal C (ae_urls e) (ae_py e) (dr_key2 dr) (dr_nonce2 dr) rcp (make_artifact md reason now b removed url) = Inr env
        \<and> (\<forall>v. r = Inr v \<longrightarrow> v = access_result b removed sealed_stdout env \<and> length (print_json (ae_py e) True env) < n))"
  using assms(1,2)
proof (cases rule: apply_accessE)
  case (committed rcp a b removed url out fd n)
  then obtain rc where "rcp = Some rc" by (auto simp: recipient_for_def split: sum.splits)
  with committed show ?thesis
    by (intro disjI2) (rule exI [of _ fd], rule exI [of _ n], rule exI [of _ rc], rule exI [of _ b], rule exI [of _ removed],
        rule exI [of _ url], rule exI [of _ out], auto simp: output_of_def output_text_def)
qed auto

section \<open>Runs without faults\<close>

definition quiet :: "access_env \<Rightarrow> access_world host \<Rightarrow> bool" where
  "quiet e h \<longleftrightarrow> stmt_fault e = (\<lambda>_. None) \<and> commit_as e = CommitDone \<and> h_outcomes h = (\<lambda>_. Works)"

definition stepped :: "access_world host \<Rightarrow> access_world host" where
  "stepped h = h\<lparr>h_world := (h_world h)\<lparr>aw_steps := Suc (aw_steps (h_world h))\<rparr>\<rparr>"

lemma db_stepped [simp]: "db_of (stepped h) = db_of h"
  by (simp add: stepped_def db_of_def)

lemma quiet_stmts:
  assumes "stmt_fault e = (\<lambda>_. None)"
  shows "stmt e h = (Inr (), stepped h)" "query e q h = (q (db_of h), stepped h)" "update e f h = (Inr (), set_db (f (db_of h)) (stepped h))"
proof -
  show s: "stmt e h = (Inr (), stepped h)" for h using assms by (simp add: stmt_def stepped_def Let_def)
  show "query e q h = (q (db_of h), stepped h)" "update e f h = (Inr (), set_db (f (db_of h)) (stepped h))"
    by (simp_all add: query_def update_def sx_bind_def s)
qed

lemma target_runs:
  assumes "stmt_fault e = (\<lambda>_. None)" "target_spec e md username email (db_of h) a" "\<exists>p. serialize e a = Inr p"
  shows "\<exists>action prev h'. (if md = JStr ''bootstrap'' then bootstrap_target e username email else recover_target e username email) h
    = (Inr (a, action, prev), h')"
proof (cases "md = JStr ''bootstrap''")
  case True
  with assms(2) show ?thesis
    by (auto simp: bootstrap_target_def sx_bind_def quiet_stmts [OF assms(1)] target_spec_def list_ex_iff Let_def sx_return_def res_guard_def)
next
  case False
  with assms(2,3) show ?thesis
    by (auto simp: recover_target_def sx_bind_def quiet_stmts [OF assms(1)] target_spec_def sx_return_def sx_lift_def)
qed

lemma body_runs:
  assumes q: "stmt_fault e = (\<lambda>_. None)" and t: "target_spec e md username email (db_of h) a" and s: "\<exists>p. serialize e a = Inr p"
    and u: "reset_url e (a\<lparr>a_password := password_hash e (new_password dr)\<rparr>) = Inr url" "check_setup_url e url = Inr ()"
    and o: "\<And>removed. \<exists>out. output_of C e dr rcp
              (make_artifact md reason now (a\<lparr>a_password := password_hash e (new_password dr)\<rparr>) removed url) = Inr out"
  shows "\<exists>v h'. reset_body C e dr now md username email reason rcp h = (Inr v, h')"
proof -
  obtain action prev h1 where 1: "(if md = JStr ''bootstrap'' then bootstrap_target e username email else recover_target e username email) (stepped h)
      = (Inr (a, action, prev), h1)"
    using target_runs [OF q _ s, of md username email "stepped h"] t by auto
  obtain removed h2 where 2: "count_removed e (a_pk a) h1 = (Inr removed, h2)"
    by (simp add: count_removed_def sx_bind_def quiet_stmts [OF q] sx_return_def)
  obtain h3 where 3: "clear_access e (a\<lparr>a_password := password_hash e (new_password dr)\<rparr>) h2 = (Inr (), h3)"
    by (simp add: clear_access_def sx_bind_def quiet_stmts [OF q])
  obtain out where "output_of C e dr rcp (make_artifact md reason now (a\<lparr>a_password := password_hash e (new_password dr)\<rparr>) removed url) = Inr out"
    using o by blast
  with 1 2 3 u show ?thesis
    by (auto simp: reset_body_def sx_bind_def quiet_stmts [OF q] sx_lift_def sx_return_def Let_def)
qed

lemma access_runs:
  assumes q: "quiet e h" and c: "check_access e md username email reason = Inr ()"
    and rcp: "recipient_for C e dr md username email pub cx sealed_stdout = Inr rcp" and fd: "fst (reserve_output output h) = Inr fd"
    and f: "foreign e h" and t: "target_spec e md (str_of username) (str_of email) (db_of h) a" and s: "\<exists>p. serialize e a = Inr p"
    and u: "reset_url e (a\<lparr>a_password := password_hash e (new_password dr)\<rparr>) = Inr url" "check_setup_url e url = Inr ()"
    and o: "\<And>removed. \<exists>out. output_of C e dr rcp
              (make_artifact md reason now (a\<lparr>a_password := password_hash e (new_password dr)\<rparr>) removed url) = Inr out"
  shows "\<exists>v h'. apply_access C e dr now md username email reason output pub cx sealed_stdout h = (Inr v, h')"
proof -
  have sf: "stmt_fault e = (\<lambda>_. None)" and cm: "commit_as e = CommitDone" using q by (auto simp: quiet_def)
  obtain h1 where 1: "reserve_output output h = (Inr fd, h1)" using fd by (metis prod.collapse)
  note d1 = reserve_outputD [OF 1 f]
  have t1: "target_spec e md (str_of username) (str_of email) (db_of h1) a" using t d1 by simp
  obtain b removed ev out h2 where
    2: "reset_body C e dr now md (str_of username) (str_of email) reason rcp h1 = (Inr (b, removed, ev, out), h2)"
    using body_runs [OF sf t1 s u o] by (metis prod.collapse)
  have "h_outcomes h2 = h_outcomes h" using d1 same_files.keepsD [OF files_body 2] by simp
  then have "write_sync fd content h2 = (Inr (), set_data fd content (called h2))" for content
    using q by (simp add: quiet_def write_sync_def sx_bind_def io_def)
  then show ?thesis
    using c rcp 1 2 cm
    by (auto simp: apply_access_def sx_bind_def sx_lift_def or_access_def sx_catch_def durable_atomic_def post_event_def quiet_stmts [OF sf] sx_return_def)
qed

section \<open>Concrete runs\<close>

definition demo_account :: account where
  "demo_account = \<lparr>a_pk = 1, a_username = ''a'', a_email = ''b'', a_active = True, a_remote = False, a_service = False,
     a_super = True, a_staff = False, a_password = ''old''\<rparr>"

definition demo_env :: access_env where
  "demo_env = \<lparr>ae_py = plain_env, ae_urls = plain_urls, email_ok = (\<lambda>_. True), username_ok = (\<lambda>_. True), reset_timeout = 600,
     base_url = Inr (JStr ''https://h''), iexact = (=), new_user = (\<lambda>d u m. Inr demo_account), password_hash = (\<lambda>s. CHR ''h'' # s),
     serialize = (\<lambda>a. Inr JNull), reset_url = (\<lambda>a. Inr plain_link), stmt_fault = (\<lambda>n. None), commit_as = CommitDone\<rparr>"

definition demo_draws :: access_draws where
  "demo_draws = \<lparr>new_password = ''pw'', dr_key1 = [], dr_nonce1 = plain_nonce, dr_key2 = [], dr_nonce2 = plain_nonce\<rparr>"

definition demo_db :: "account list \<Rightarrow> accounts_db" where
  "demo_db as = \<lparr>t_accounts = as, t_totp = [(1, ''s''), (2, ''t'')], t_webauthn = [], t_tokens = [(2, ''u'')], t_issuers = []\<rparr>"

definition demo_host :: "account list \<Rightarrow> access_world host" where
  "demo_host as = \<lparr>h_fs = [([], \<lparr>n_kind = Dir, n_uid = 0, n_mode = 493\<rparr>)], h_cwd = [], h_umask = 63, h_outcomes = (\<lambda>_. Works), h_calls = 0,
     h_world = \<lparr>aw_db = demo_db as, aw_posted = [], aw_steps = 0\<rparr>\<rparr>"

lemma demo_foreign: "foreign demo_env (demo_host as)"
  by (simp add: foreign_def demo_env_def demo_host_def)

lemma demo_quiet: "quiet demo_env (demo_host as)"
  by (simp add: quiet_def demo_env_def demo_host_def)

lemma strip_letter: "c \<in> {CHR ''a'', CHR ''b'', CHR ''r''} \<Longrightarrow> py_strip [c] = [c] \<and> py_len [c] = 1 \<and> code_points [c] = [ord c]"
proof -
  have "char_of (97::nat) = CHR ''a''" "char_of (98::nat) = CHR ''b''" "char_of (114::nat) = CHR ''r''" by code_simp+
  moreover assume "c \<in> {CHR ''a'', CHR ''b'', CHR ''r''}"
  ultimately show ?thesis by (auto simp: py_strip_def py_len_def strip_points_def is_py_space_def utf8_encode_def)
qed

lemma demo_checked: "md \<in> {JStr ''bootstrap'', JStr ''recover''} \<Longrightarrow> check_access demo_env md (JStr ''a'') (JStr ''b'') (JStr ''r'') = Inr ()"
  using strip_letter [of "CHR ''a''"] strip_letter [of "CHR ''b''"] strip_letter [of "CHR ''r''"]
  by (simp add: check_access_def validate_request_def identity_ok_def reason_ok_def demo_env_def RESET_SECONDS_def)

lemma demo_reserved: "fst (reserve_output ''/x'' (demo_host as)) = Inr [''x'']"
  by (simp add: reserve_output_def sx_bind_def py_path_def slash_def is_absolute_def resolve_def resolve_parts_def path_parent_def demo_host_def
      open_excl_def io_ok_def io_def called_def new_place_def abs_path_def fchmod_def sx_return_def Let_def put_node_def)

lemma demo_url: "check_setup_url demo_env plain_link = Inr ()"
  by code_simp

definition demo_accounts :: "account list" where
  "demo_accounts = [demo_account, demo_account\<lparr>a_pk := 2, a_username := ''c''\<rparr>]"

lemma demo_db_of: "db_of (demo_host as) = demo_db as"
  by (simp add: db_of_def demo_host_def)

lemma demo_recovers: "\<exists>v h'. apply_access plain_crypto demo_env demo_draws 0 (JStr ''recover'') (JStr ''a'') (JStr ''b'') (JStr ''r'') ''/x''
    None None False (demo_host demo_accounts) = (Inr v, h')"
proof (rule access_runs [OF demo_quiet demo_checked _ demo_reserved demo_foreign, where a = demo_account and url = plain_link])
  show "recipient_for plain_crypto demo_env demo_draws (JStr ''recover'') (JStr ''a'') (JStr ''b'') None None False = Inr None"
    by (simp add: recipient_for_def)
  show "target_spec demo_env (JStr ''recover'') (str_of (JStr ''a'')) (str_of (JStr ''b'')) (db_of (demo_host demo_accounts)) demo_account"
    by (simp add: target_spec_def demo_db_of demo_db_def demo_accounts_def demo_account_def)
qed (simp_all add: demo_env_def output_of_def demo_url [unfolded demo_env_def])

lemma demo_seals: "\<exists>out. output_of plain_crypto demo_env demo_draws (Some plain_recipient)
    (make_artifact (JStr ''bootstrap'') (JStr ''r'') 0 (demo_account\<lparr>a_password := w\<rparr>) removed plain_link) = Inr out"
proof -
  have "list_all is_unescaped plain_link" "length plain_link \<le> 768" by code_simp+
  then obtain env where env: "rc_encrypt plain_crypto plain_env [] plain_nonce plain_recipient (setup_payload plain_link (JFloat (Fin 600)) 1) = Inr env"
    using plain_fits by fastforce
  have t: "target_digest (JStr ''a'') (JStr ''b'') = Inr (rc_target plain_recipient)"
    by (simp add: target_digest_def require_def plain_recipient_def)
  show ?thesis
    using env by (simp add: output_of_def demo_env_def demo_draws_def seal_def make_artifact_def access_target_def demo_account_def RESET_SECONDS_def
        t require_def plain_link_facts plain_recipient_def [THEN arg_cong, of rc_mode] plain_recipient_def [THEN arg_cong, of rc_origin])
qed

lemma demo_bootstraps: "\<exists>v h'. apply_access plain_crypto demo_env demo_draws 0 (JStr ''bootstrap'') (JStr ''a'') (JStr ''b'') (JStr ''r'') ''/x''
    (Some (JStr [])) (Some (JStr (replicate 64 (CHR ''a'')))) True (demo_host []) = (Inr v, h')"
proof (rule access_runs [OF demo_quiet demo_checked _ demo_reserved demo_foreign, where a = "demo_account\<lparr>a_super := True, a_staff := False\<rparr>" and url = plain_link])
  show "recipient_for plain_crypto demo_env demo_draws (JStr ''bootstrap'') (JStr ''a'') (JStr ''b'') (Some (JStr []))
      (Some (JStr (replicate 64 (CHR ''a'')))) True = Inr (Some plain_recipient)"
    by (simp add: recipient_for_def demo_env_def demo_draws_def plain_prepared)
  show "target_spec demo_env (JStr ''bootstrap'') (str_of (JStr ''a'')) (str_of (JStr ''b'')) (db_of (demo_host [])) (demo_account\<lparr>a_super := True, a_staff := False\<rparr>)"
    by (simp add: target_spec_def demo_db_of demo_db_def demo_env_def)
  have "demo_account\<lparr>a_super := True, a_staff := False\<rparr> = demo_account" by (simp add: demo_account_def)
  then show "\<exists>out. output_of plain_crypto demo_env demo_draws (Some plain_recipient) (make_artifact (JStr ''bootstrap'') (JStr ''r'') 0
      (demo_account\<lparr>a_super := True, a_staff := False, a_password := password_hash demo_env (new_password demo_draws)\<rparr>) removed plain_link) = Inr out" for removed
    using demo_seals by simp
qed (simp_all add: demo_env_def demo_url [unfolded demo_env_def])


theorem recovery_touches_one_account_witness:
  "\<exists>v h'. apply_access plain_crypto demo_env demo_draws 0 (JStr ''recover'') (JStr ''a'') (JStr ''b'') (JStr ''r'') ''/x'' None None False
      (demo_host demo_accounts) = (Inr v, h')
    \<and> (\<exists>a \<in> set demo_accounts. a_username a = ''a'' \<and> t_totp (db_of h') = filter (\<lambda>r. fst r \<noteq> a_pk a) [(1, ''s''), (2, ''t'')])"
proof -
  obtain v h' where run: "apply_access plain_crypto demo_env demo_draws 0 (JStr ''recover'') (JStr ''a'') (JStr ''b'') (JStr ''r'') ''/x'' None None False
      (demo_host demo_accounts) = (Inr v, h')" using demo_recovers by blast
  have "distinct (map a_pk (t_accounts (db_of (demo_host demo_accounts))))"
    by (simp add: demo_db_of demo_db_def demo_accounts_def demo_account_def)
  note recovery_touches_one_account [OF run demo_foreign this]
  then have "\<exists>a \<in> set demo_accounts. a_username a = ''a'' \<and> t_totp (db_of h') = filter (\<lambda>r. fst r \<noteq> a_pk a) [(1, ''s''), (2, ''t'')]"
    by (auto simp: demo_db_of demo_db_def)
  with run show ?thesis by blast
qed


theorem sealed_run_writes_envelope_witness:
  "\<exists>v h'. apply_access plain_crypto demo_env demo_draws 0 (JStr ''bootstrap'') (JStr ''a'') (JStr ''b'') (JStr ''r'') ''/x''
      (Some (JStr [])) (Some (JStr (replicate 64 (CHR ''a'')))) True (demo_host []) = (Inr v, h')
    \<and> (h_fs h' = h_fs (demo_host []) \<or> (\<exists>fd. fresh_file fd [] (demo_host []) h')
       \<or> (\<exists>fd n env. fresh_file fd (take n (print_json plain_env True env @ [CHR 0x0A])) (demo_host []) h'))"
proof -
  obtain v h' where run: "apply_access plain_crypto demo_env demo_draws 0 (JStr ''bootstrap'') (JStr ''a'') (JStr ''b'') (JStr ''r'') ''/x''
      (Some (JStr [])) (Some (JStr (replicate 64 (CHR ''a'')))) True (demo_host []) = (Inr v, h')" using demo_bootstraps by blast
  have "ae_py demo_env = plain_env" by (simp add: demo_env_def)
  with run sealed_run_writes_envelope [OF run demo_foreign] show ?thesis by metis
qed

end
