(* ===== verification/Host_Tools.thy ===== *)
theory Host_Tools
  imports Host_Files Digests
begin

text \<open>
  What the privileged host tools share: Python comparisons of decoded values, sets of keys,
  lines and text files, subprocesses that act on the rest of the machine, and the check that
  a path is owned by root along its whole ancestry.
\<close>

section \<open>Comparisons\<close>

fun num_of :: "json \<Rightarrow> rat option" where
  "num_of (JBool b) = Some (if b then 1 else 0)"
| "num_of (JInt i) = Some (of_int i)"
| "num_of (JFloat (Fin q)) = Some q"
| "num_of (JFloat NegZero) = Some 0"
| "num_of _ = None"

text \<open>\<open>v == w\<close>: objects compare without order, numbers across their types.\<close>

fun py_eq :: "json \<Rightarrow> json \<Rightarrow> bool"
  and py_eqs :: "json list \<Rightarrow> json list \<Rightarrow> bool"
  and py_eqm :: "(string \<times> json) list \<Rightarrow> (string \<times> json) list \<Rightarrow> bool" where
  "py_eq JNull w = (w = JNull)"
| "py_eq (JStr s) w = (w = JStr s)"
| "py_eq (JBool b) w = (num_of w = num_of (JBool b))"
| "py_eq (JInt i) w = (num_of w = num_of (JInt i))"
| "py_eq (JFloat f) w = (case num_of (JFloat f) of Some q \<Rightarrow> num_of w = Some q | None \<Rightarrow> w = JFloat f \<and> f \<noteq> NaN)"
| "py_eq (JArr vs) w = (case w of JArr ws \<Rightarrow> py_eqs vs ws | _ \<Rightarrow> False)"
| "py_eq (JObj ms) w = (case w of JObj ns \<Rightarrow> length ms = length ns \<and> py_eqm ms ns | _ \<Rightarrow> False)"
| "py_eqs [] ws = (ws = [])"
| "py_eqs (v # vs) ws = (case ws of [] \<Rightarrow> False | w # us \<Rightarrow> py_eq v w \<and> py_eqs vs us)"
| "py_eqm [] ns = True"
| "py_eqm ((k, v) # ms) ns = ((case dget ns k of None \<Rightarrow> False | Some w \<Rightarrow> py_eq v w) \<and> py_eqm ms ns)"

fun hashable :: "json \<Rightarrow> bool" where
  "hashable (JArr _) = False"
| "hashable (JObj _) = False"
| "hashable _ = True"

definition set_of :: "json \<Rightarrow> json set res" where
  \<comment> \<open>\<open>set(value)\<close>, up to equality of numbers; the code compares it with sets of texts\<close>
  "set_of v =
     (case v of
        JObj ms \<Rightarrow> Inr (JStr ` set (map fst ms))
      | JArr vs \<Rightarrow> if list_all hashable vs then Inr (set vs) else Inl TypeError
      | JStr s \<Rightarrow> Inr ((\<lambda>c. JStr (utf8_encode c)) ` set (code_points s))
      | _ \<Rightarrow> Inl TypeError)"

definition has_keys :: "json \<Rightarrow> string list \<Rightarrow> bool res" where
  "has_keys v ks = res_bind (set_of v) (\<lambda>s. Inr (s = JStr ` set ks))"

fun items_of :: "json \<Rightarrow> (string \<times> json) list res" where
  \<comment> \<open>\<open>value.items()\<close>\<close>
  "items_of (JObj ms) = Inr ms"
| "items_of _ = Inl AttributeError"

fun res_all :: "('a \<Rightarrow> bool res) \<Rightarrow> 'a list \<Rightarrow> bool res" where
  \<comment> \<open>\<open>all(...)\<close>, which stops at the first false element\<close>
  "res_all p [] = Inr True"
| "res_all p (x # xs) = res_bind (p x) (\<lambda>b. if b then res_all p xs else Inr False)"

definition res_and :: "bool res \<Rightarrow> bool res \<Rightarrow> bool res" where
  \<comment> \<open>\<open>a and b\<close>\<close>
  "res_and a b = res_bind a (\<lambda>x. if x then b else Inr False)"

definition full_match :: "(string \<Rightarrow> bool) \<Rightarrow> json \<Rightarrow> bool res" where
  \<comment> \<open>\<open>re.fullmatch(pattern, value)\<close>, which raises on anything but text\<close>
  "full_match p v = (case v of JStr s \<Rightarrow> Inr (p s) | _ \<Rightarrow> Inl TypeError)"

definition is_hex_n :: "nat \<Rightarrow> string \<Rightarrow> bool" where
  "is_hex_n n = fullmatch_n is_lower_hex n"

section \<open>Text files and lines\<close>

definition is_break :: "nat \<Rightarrow> bool" where
  "is_break n \<longleftrightarrow> (10 \<le> n \<and> n \<le> 13) \<or> (28 \<le> n \<and> n \<le> 30) \<or> n = 133 \<or> n = 8232 \<or> n = 8233"

fun split_lines :: "nat list \<Rightarrow> nat list \<Rightarrow> nat list list" where
  \<comment> \<open>the first argument is the current line, reversed\<close>
  "split_lines cur [] = (if cur = [] then [] else [rev cur])"
| "split_lines cur (c # cs) =
     (if c = 13 \<and> cs \<noteq> [] \<and> hd cs = 10 then rev cur # split_lines [] (tl cs)
      else if is_break c then rev cur # split_lines [] cs
      else split_lines (c # cur) cs)"

definition splitlines :: "string \<Rightarrow> string list" where
  "splitlines s = map (\<lambda>ps. concat (map utf8_encode ps)) (split_lines [] (code_points s))"

fun universal_newlines :: "string \<Rightarrow> string" where
  "universal_newlines [] = []"
| "universal_newlines (c # cs) =
     (if c = CHR 0x0D then CHR 0x0A # universal_newlines (if cs \<noteq> [] \<and> hd cs = CHR 0x0A then tl cs else cs)
      else c # universal_newlines cs)"

definition read_text :: "path \<Rightarrow> ('w host, string) sx" where
  "read_text p = sx_bind (read_bytes p) (\<lambda>b. sx_bind (sx_lift (utf8_decode False b)) (\<lambda>s. sx_return (universal_newlines s)))"

definition load_json :: "py_env \<Rightarrow> bytes \<Rightarrow> json res" where
  \<comment> \<open>\<open>json.loads(raw)\<close> on bytes\<close>
  "load_json e raw = loads_bytes (default_hooks e) e raw"

definition load_text :: "py_env \<Rightarrow> string \<Rightarrow> json res" where
  \<comment> \<open>\<open>json.loads(text)\<close>\<close>
  "load_text e s = loads (default_hooks e) (nest_limit e) s"

section \<open>Subprocesses\<close>

text \<open>
  A finished process has a return code and its output; a timeout or a missing program raises.
  Processes act on the rest of the machine; the files they change are changes of other
  programs.
\<close>

record finished =
  returncode :: int
  stdout :: string
  stderr :: string

type_synonym 'w exec = "string list \<Rightarrow> 'w \<Rightarrow> finished res \<times> 'w"

definition spawn :: "'w exec \<Rightarrow> string list \<Rightarrow> ('w host, finished) sx" where
  "spawn ex args h = (let (r, w) = ex args (h_world h) in (r, h\<lparr>h_world := w\<rparr>))"

lemma spawn_fs: "spawn ex args h = (r, h') \<Longrightarrow> h_fs h' = h_fs h \<and> h_umask h' = h_umask h \<and> h_cwd h' = h_cwd h"
  by (auto simp: spawn_def split: prod.splits)

lemma keeps_spawn: "grows.keeps (spawn ex args)"
  by (rule grows.keepsI) (simp add: fs_grows_def spawn_fs)

section \<open>Ownership\<close>

definition owned_by_root :: "'w host \<Rightarrow> path \<Rightarrow> bool res" where
  "owned_by_root h p = res_bind (stat_of h p) (\<lambda>nd. Inr (n_uid nd = 0 \<and> \<not> mode_has nd 18))"  \<comment> \<open>18 is \<open>0o022\<close>\<close>

definition look :: "('w host \<Rightarrow> 'a res) \<Rightarrow> ('w host, 'a) sx" where
  \<comment> \<open>a check that reads the state\<close>
  "look f h = (f h, h)"

lemma look_iff [sx_simps]: "look f h = (r, h') \<longleftrightarrow> f h = r \<and> h' = h"
  by (auto simp: look_def)

lemma keeps_look: "grows.keeps (look f)"
  by (simp add: grows.keeps_def look_def fs_grows_refl)

lemma keeps_read_text: "grows.keeps (read_text p)"
  unfolding read_text_def by (intro grows.keeps_bind keeps_read grows.keeps_intros)

end
