(* ===== verification/Install_Transport.thy ===== *)
theory Install_Transport
  imports Host_Tools
begin

text \<open>
  The relay of the private installer, \<open>experiments/server/private_install_transport.py\<close>: upload of
  the source in chunks, the one submission of the installer job, its observation, and the
  receipt that systemd's exit hook writes.  The environment, the user, the decompressor and
  the programs that are run are the fields of \<open>transport_env\<close>.
\<close>

record 'w transport_env =
  te_py :: py_env
  te_exec :: "'w exec"
  te_euid :: nat
  te_getenv :: "string \<Rightarrow> string option"
  te_gunzip :: "bytes \<Rightarrow> bytes res"  \<comment> \<open>at most two megabytes and one byte of the decompressed data\<close>

definition ROOT :: path where
  "ROOT = py_path ''/var/lib/azd-santa-qualification''"

definition ACTIVE :: path where
  "ACTIVE = path_join ROOT ''private-azd-install.json''"

definition FILES :: "string list" where
  "FILES = [''private_install.py'', ''private_install_transport.py'', ''bootstrap-host.sh'', ''prepare_source.py'',
    ''prepare_core_build.py'', ''prepare_operator_mfa.py'', ''operator_mfa.py'', ''prepare_operator_recovery.py'',
    ''operator_recovery.py'', ''sealed_setup.py'', ''prepare_request_limits.py'', ''santa_request_limits.py'',
    ''prepare_database_roles.py'', ''database_roles.py'', ''prepare_zentral_eval.py'', ''stage_runtime.py'',
    ''runtime_service.py'', ''santa_admission.py'', ''test_live_zentral.py'', ''zentral-source.lock.json'', ''dependency-images.lock.json'']"

definition need :: "bool \<Rightarrow> unit res" where
  "need b = res_guard b ValueError"

definition needs :: "bool res \<Rightarrow> unit res" where
  "needs r = res_bind r need"

definition item_is :: "json \<Rightarrow> string \<Rightarrow> json \<Rightarrow> bool res" where
  \<comment> \<open>\<open>v[k] == w\<close>\<close>
  "item_is v k w = res_bind (item_of v k) (\<lambda>x. Inr (py_eq x w))"

definition item_str :: "json \<Rightarrow> string \<Rightarrow> string res" where
  \<comment> \<open>an item that is used where only text is accepted\<close>
  "item_str v k = res_bind (item_of v k) (\<lambda>x. case x of JStr s \<Rightarrow> Inr s | _ \<Rightarrow> Inl TypeError)"

definition exclusive :: "path \<Rightarrow> bytes \<Rightarrow> nat \<Rightarrow> ('w host, unit) sx" where
  "exclusive p raw mode = sx_bind (write_new p raw mode) (\<lambda>_. sync_directory (path_parent p))"

definition secure :: "path \<Rightarrow> ('w host, unit) sx" where
  "secure p = look (\<lambda>h.
     res_bind (resolve h p) (\<lambda>q.
     res_bind (need (p = q)) (\<lambda>_.
     res_bind (res_map (\<lambda>i. needs (owned_by_root h i)) (p # path_parents p)) (\<lambda>_. Inr ()))))"

definition command :: "'w transport_env \<Rightarrow> string list \<Rightarrow> ('w host, string) sx" where
  "command e args =
     sx_bind (spawn (te_exec e) args) (\<lambda>r. sx_bind (sx_lift (need (returncode r = 0))) (\<lambda>_. sx_return (stdout r)))"

section \<open>Completion and receipt\<close>

definition completion_ok :: "json \<Rightarrow> json \<Rightarrow> unit res" where
  "completion_ok v active =
     res_bind (needs (res_and (has_keys v [''scope'', ''bundle_sha256'', ''outputs'', ''limitation''])
                     (res_and (item_is v ''scope'' (JStr ''private-azd-install-complete''))
                        (res_bind (item_of active ''bundle_sha256'') (item_is v ''bundle_sha256''))))) (\<lambda>_.
     res_bind (item_of active ''target'') (\<lambda>t.
     res_bind (items_of t) (\<lambda>its.
       needs (res_all (\<lambda>(k, w). res_bind (item_of v ''outputs'') (\<lambda>o'. item_is o' k w)) its))))"

definition completion :: "'w transport_env \<Rightarrow> path \<Rightarrow> json \<Rightarrow> ('w host, bytes \<times> json) sx" where
  "completion e directory active =
     (let p = path_join directory ''complete.json'' in
      sx_bind (secure p) (\<lambda>_.
      sx_bind (read_bytes p) (\<lambda>raw.
      sx_bind (sx_lift (load_json (te_py e) raw)) (\<lambda>v.
      sx_bind (sx_lift (completion_ok v active)) (\<lambda>_. sx_return (raw, v))))))"

definition proof_json :: "string \<Rightarrow> json \<Rightarrow> string \<Rightarrow> string \<Rightarrow> json" where
  "proof_json digest bundle completed invocation = JObj
     [(''scope'', JStr ''private-azd-install-terminal-success''), (''context_sha256'', JStr digest), (''bundle_sha256'', bundle),
      (''completion_sha256'', JStr completed), (''invocation'', JStr invocation), (''service_result'', JStr ''success''),
      (''exit_code'', JStr ''exited''), (''exit_status'', JStr ''0'')]"

definition record_terminal :: "'w transport_env \<Rightarrow> string \<Rightarrow> string \<Rightarrow> ('w host, unit) sx" where
  "record_terminal e context_path digest =
     (let invocation = (case te_getenv e ''INVOCATION_ID'' of None \<Rightarrow> [] | Some s \<Rightarrow> s); p = py_path context_path in
      sx_bind (sx_lift (need (te_euid e = 0 \<and> te_getenv e ''SERVICE_RESULT'' = Some ''success''
         \<and> te_getenv e ''EXIT_CODE'' = Some ''exited'' \<and> te_getenv e ''EXIT_STATUS'' = Some ''0''))) (\<lambda>_.
      sx_bind (sx_lift (need (is_hex_n 32 invocation))) (\<lambda>_.
      sx_bind (secure p) (\<lambda>_.
      sx_bind (read_bytes p) (\<lambda>raw.
      sx_bind (sx_lift (need (sha256_hex raw = digest))) (\<lambda>_.
      sx_bind (sx_lift (load_json (te_py e) raw)) (\<lambda>active.
      sx_bind (sx_lift (item_str active ''bundle_sha256'')) (\<lambda>bundle.
        let directory = path_join (path_join ROOT ''installers'') bundle in
      sx_bind (sx_lift (needs (res_and (Inr (p = path_join directory ''context.json''))
                                       (item_is active ''scope'' (JStr ''private-azd-install-v1''))))) (\<lambda>_.
      sx_bind (secure ACTIVE) (\<lambda>_.
      sx_bind (read_bytes ACTIVE) (\<lambda>current.
      sx_bind (sx_lift (need (current = raw))) (\<lambda>_.
      sx_bind (secure (path_join directory ''bundle.json'')) (\<lambda>_.
      sx_bind (read_bytes (path_join directory ''bundle.json'')) (\<lambda>b.
      sx_bind (sx_lift (need (sha256_hex b = bundle))) (\<lambda>_.
      sx_bind (completion e directory active) (\<lambda>(complete_raw, _).
        exclusive (path_join directory ''terminal-success.json'')
          (dumps (te_py e) (jsort (proof_json digest (JStr bundle) (sha256_hex complete_raw) invocation))) 384))))))))))))))))"

section \<open>Observation\<close>

definition unit_values :: "string \<Rightarrow> (string, string) dict" where
  \<comment> \<open>\<open>dict(line.split('=', 1) for line in text.splitlines() if '=' in line)\<close>\<close>
  "unit_values s =
     foldl (\<lambda>d l. case split_first (CHR ''='') l of None \<Rightarrow> d | Some (k, v) \<Rightarrow> dset k v d) [] (splitlines s)"

definition unit_name :: "string \<Rightarrow> string" where
  "unit_name bundle = ''azd-santa-install-'' @ take 16 bundle"

definition opt_json :: "string option \<Rightarrow> json" where
  "opt_json v = (case v of None \<Rightarrow> JNull | Some s \<Rightarrow> JStr s)"

definition observed :: "string \<Rightarrow> (string, string) dict \<Rightarrow> (string, json) dict" where
  "observed bundle vs =
     [(''scope'', JStr ''private-azd-install-observation''), (''bundle_sha256'', JStr bundle), (''unit'', JStr (unit_name bundle @ ''.service'')),
      (''state'', JStr (case dget vs ''ActiveState'' of None \<Rightarrow> ''unknown'' | Some s \<Rightarrow> s)),
      (''substate'', JStr (case dget vs ''SubState'' of None \<Rightarrow> ''unknown'' | Some s \<Rightarrow> s)),
      (''result'', opt_json (dget vs ''Result'')), (''invocation'', opt_json (dget vs ''InvocationID'')), (''completion'', JNull)]"

definition receipt_ok :: "json \<Rightarrow> bytes \<Rightarrow> string \<Rightarrow> bytes \<Rightarrow> unit res" where
  "receipt_ok pf context_raw bundle complete_raw =
     needs (res_and (has_keys pf [''scope'', ''context_sha256'', ''bundle_sha256'', ''completion_sha256'', ''invocation'', ''service_result'', ''exit_code'', ''exit_status''])
           (res_and (item_is pf ''scope'' (JStr ''private-azd-install-terminal-success''))
           (res_and (item_is pf ''context_sha256'' (JStr (sha256_hex context_raw)))
           (res_and (item_is pf ''bundle_sha256'' (JStr bundle))
           (res_and (item_is pf ''completion_sha256'' (JStr (sha256_hex complete_raw)))
           (res_and (res_bind (item_of pf ''invocation'') (full_match (is_hex_n 32)))
           (res_and (item_is pf ''service_result'' (JStr ''success''))
           (res_and (item_is pf ''exit_code'' (JStr ''exited'')) (item_is pf ''exit_status'' (JStr ''0''))))))))))"

definition read_json :: "'w transport_env \<Rightarrow> path \<Rightarrow> ('w host, json) sx" where
  "read_json e p = sx_bind (read_bytes p) (\<lambda>raw. sx_lift (load_json (te_py e) raw))"

definition completed_status :: "'w transport_env \<Rightarrow> string \<Rightarrow> json \<Rightarrow> (string, string) dict \<Rightarrow> ('w host, (string, json) dict) sx" where
  \<comment> \<open>the branch of \<open>status\<close> with a receipt\<close>
  "completed_status e bundle active vs =
     (let directory = path_join (path_join ROOT ''installers'') bundle; loaded = (dget vs ''LoadState'' = Some ''loaded'');
          proof_path = path_join directory ''terminal-success.json''; context_path = path_join directory ''context.json'' in
      sx_bind (sx_lift (need (loaded \<longrightarrow> dget vs ''Result'' = Some ''success'' \<and> dget vs ''ExecMainStatus'' = Some ''0''
                                \<and> dget vs ''ActiveState'' \<noteq> Some ''failed''))) (\<lambda>_.
      sx_bind (secure proof_path) (\<lambda>_.
      sx_bind (read_json e proof_path) (\<lambda>pf.
      sx_bind (secure context_path) (\<lambda>_.
      sx_bind (read_bytes context_path) (\<lambda>context_raw.
      sx_bind (read_bytes ACTIVE) (\<lambda>current.
      sx_bind (sx_lift (need (context_raw = current))) (\<lambda>_.
      sx_bind (completion e directory active) (\<lambda>(complete_raw, v).
      sx_bind (sx_lift (receipt_ok pf context_raw bundle complete_raw)) (\<lambda>_.
      sx_bind (sx_lift (item_of pf ''invocation'')) (\<lambda>invocation.
      sx_bind (sx_lift (need (loaded \<longrightarrow> opt_json (dget vs ''InvocationID'') = invocation))) (\<lambda>_.
      sx_bind (command e [''systemctl'', ''is-active'', ''azd-santa-runtime.service'']) (\<lambda>_.
        sx_return (dset ''completion'' v (dset ''invocation'' invocation
          (dset ''substate'' (JStr ''terminal-success'') (dset ''state'' (JStr ''completed'') (observed bundle vs))))))))))))))))))"

definition status :: "'w transport_env \<Rightarrow> string \<Rightarrow> ('w host, (string, json) dict) sx" where
  "status e bundle =
     sx_bind (look (\<lambda>h. need (path_exists h ACTIVE))) (\<lambda>_.
     sx_bind (secure ACTIVE) (\<lambda>_.
     sx_bind (read_json e ACTIVE) (\<lambda>active.
     sx_bind (sx_lift (needs (item_is active ''bundle_sha256'' (JStr bundle)))) (\<lambda>_.
     sx_bind (command e [''systemctl'', ''show'', unit_name bundle @ ''.service'',
         ''--property=LoadState,ActiveState,SubState,Result,ExecMainStatus,InvocationID'']) (\<lambda>out.
       let vs = unit_values out in
     sx_bind (sx_lift (need (dget vs ''LoadState'' \<in> {Some ''loaded'', Some ''not-found''}))) (\<lambda>_.
     sx_bind (look (\<lambda>h. Inr (path_exists h (path_join (path_join (path_join ROOT ''installers'') bundle) ''terminal-success.json'')))) (\<lambda>proved.
       if proved then completed_status e bundle active vs
       else sx_bind (sx_lift (need (dget vs ''LoadState'' = Some ''loaded''))) (\<lambda>_. sx_return (observed bundle vs)))))))))"

section \<open>Upload\<close>

definition is_chunk_char :: "char \<Rightarrow> bool" where
  "is_chunk_char c \<longleftrightarrow> is_alnum c \<or> c \<in> {CHR ''+'', CHR ''/'', CHR ''=''}"

definition chunk_path :: "path \<Rightarrow> int \<Rightarrow> path" where
  "chunk_path folder i = path_join folder (''chunk-'' @ show_int i)"

definition chunk_args :: "json \<Rightarrow> (int \<times> int \<times> string) res" where
  "chunk_args v =
     res_bind (item_of v ''index'') (\<lambda>i. res_bind (item_of v ''count'') (\<lambda>c. res_bind (item_of v ''data'') (\<lambda>d.
       case (i, c, d) of
         (JInt i', JInt c', JStr s) \<Rightarrow>
           res_bind (need (0 \<le> i' \<and> i' < c' \<and> c' \<le> 64 \<and> 0 < py_len s \<and> py_len s \<le> 24576 \<and> list_all is_chunk_char s)) (\<lambda>_. Inr (i', c', s))
       | _ \<Rightarrow> Inl ValueError)))"

definition receive_chunk :: "string \<Rightarrow> path \<Rightarrow> json \<Rightarrow> ('w host, (string, json) dict) sx" where
  "receive_chunk digest folder v =
     sx_bind (sx_lift (chunk_args v)) (\<lambda>(i, c, s).
       let p = chunk_path folder i in
     sx_bind (look (\<lambda>h. Inr (path_exists h p))) (\<lambda>there.
     sx_bind (if there then sx_bind (secure p) (\<lambda>_. sx_bind (read_text p) (\<lambda>old. sx_lift (need (old = s))))
              else exclusive p s 384) (\<lambda>_.
       sx_return [(''scope'', JStr ''private-azd-install-chunk''), (''bundle_sha256'', JStr digest), (''index'', JInt i), (''count'', JInt c)])))"

fun join_chunks :: "path \<Rightarrow> int list \<Rightarrow> ('w host, string) sx" where
  "join_chunks folder [] = sx_return []"
| "join_chunks folder (i # is) =
     sx_bind (read_text (chunk_path folder i)) (\<lambda>s. sx_bind (join_chunks folder is) (\<lambda>t. sx_return (s @ t)))"

definition b64_strict :: "string \<Rightarrow> bytes res" where
  "b64_strict s = (if isascii s then b64_decode False s else Inl ValueError)"

definition assemble :: "'w transport_env \<Rightarrow> string \<Rightarrow> string \<Rightarrow> path \<Rightarrow> json \<Rightarrow> ('w host, bytes \<times> (string \<times> json) list) sx" where
  \<comment> \<open>the source bundle and its files, from the chunks\<close>
  "assemble e digest archive folder v =
     sx_bind (sx_lift (res_bind (item_of v ''count'') (\<lambda>c. case c of
         JInt n \<Rightarrow> res_bind (need (1 \<le> n \<and> n \<le> 64)) (\<lambda>_. Inr n) | _ \<Rightarrow> Inl ValueError))) (\<lambda>n.
     sx_bind (join_chunks folder (map int [0..<nat n])) (\<lambda>joined.
     sx_bind (sx_lift (b64_strict joined)) (\<lambda>compressed.
     sx_bind (sx_lift (need (length compressed \<le> 1024 * 1024 \<and> sha256_hex compressed = archive))) (\<lambda>_.
     sx_bind (sx_lift (te_gunzip e compressed)) (\<lambda>raw.
     sx_bind (sx_lift (need (length raw \<le> 2 * 1024 * 1024 \<and> sha256_hex raw = digest))) (\<lambda>_.
     sx_bind (sx_lift (load_json (te_py e) raw)) (\<lambda>package.
     sx_bind (sx_lift (needs (res_and (has_keys package [''scope'', ''files''])
        (res_and (item_is package ''scope'' (JStr ''private-azd-source-v1'')) (res_bind (item_of package ''files'') (\<lambda>fs. has_keys fs FILES)))))) (\<lambda>_.
     sx_bind (sx_lift (res_bind (item_of package ''files'') items_of)) (\<lambda>its. sx_return (raw, its))))))))))"

definition put_file :: "path \<Rightarrow> string \<times> json \<Rightarrow> ('w host, unit) sx" where
  "put_file selected nm =
     (let (name, metadata) = nm; p = path_join selected name in
      sx_bind (sx_lift (needs (has_keys metadata [''sha256'', ''base64'']))) (\<lambda>_.
      sx_bind (sx_lift (res_bind (item_of metadata ''base64'') (\<lambda>b. case b of JStr s \<Rightarrow> b64_strict s | _ \<Rightarrow> Inl TypeError))) (\<lambda>body.
      sx_bind (sx_lift (needs (res_and (Inr (length body \<le> 256 * 1024)) (item_is metadata ''sha256'' (JStr (sha256_hex body)))))) (\<lambda>_.
      sx_bind (look (\<lambda>h. Inr (path_exists h p))) (\<lambda>there.
        if there then sx_bind (secure p) (\<lambda>_. sx_bind (read_bytes p) (\<lambda>old. sx_lift (need (old = body))))
        else exclusive p body 420)))))"  \<comment> \<open>420 is \<open>0o644\<close>\<close>

fun put_files :: "path \<Rightarrow> (string \<times> json) list \<Rightarrow> ('w host, unit) sx" where
  "put_files selected [] = sx_return ()"
| "put_files selected (nm # nms) = sx_bind (put_file selected nm) (\<lambda>_. put_files selected nms)"

definition install_bundle :: "path \<Rightarrow> bytes \<Rightarrow> (string \<times> json) list \<Rightarrow> ('w host, unit) sx" where
  "install_bundle selected raw its =
     sx_bind (mkdir (path_parent selected) 448 True) (\<lambda>_.  \<comment> \<open>448 is \<open>0o700\<close>\<close>
     sx_bind (secure (path_parent selected)) (\<lambda>_.
     sx_bind (look (\<lambda>h. Inr (path_exists h selected))) (\<lambda>there.
     sx_bind (if there then sx_return ()
              else sx_bind (mkdir selected 448 False) (\<lambda>_. exclusive (path_join selected ''bundle.json'') raw 384)) (\<lambda>_.
     sx_bind (secure selected) (\<lambda>_.
     sx_bind (read_bytes (path_join selected ''bundle.json'')) (\<lambda>old.
     sx_bind (sx_lift (need (old = raw))) (\<lambda>_. put_files selected its)))))))"

section \<open>Submission\<close>

definition DOCKER_CMD :: "string list" where
  "DOCKER_CMD = [''docker'', ''--host'', ''unix:///var/run/docker.sock'']"

definition fresh_host :: "'w transport_env \<Rightarrow> ('w host, unit) sx" where
  "fresh_host e =
     sx_bind (look (\<lambda>h. Inr (path_exists h (py_path ''/var/lib/docker/volumes'')))) (\<lambda>docker.
       if \<not> docker then sx_return ()
       else sx_bind (command e (DOCKER_CMD @ [''ps'', ''--all'', ''--quiet''])) (\<lambda>cs.
            sx_bind (sx_lift (need (py_strip cs = []))) (\<lambda>_.
            sx_bind (command e (DOCKER_CMD @ [''volume'', ''ls'', ''--quiet''])) (\<lambda>vs.
              sx_lift (need (py_strip vs = []))))))"

definition submit_args :: "path \<Rightarrow> string \<Rightarrow> bytes \<Rightarrow> string list" where
  "submit_args selected digest context_raw =
     (let cp = path_str (path_join selected ''context.json'');
          recorder = ''/usr/bin/python3 -I '' @ path_str (path_join selected ''private_install_transport.py'') @ '' --record-terminal ''
                     @ cp @ '' '' @ sha256_hex context_raw in
      [''systemd-run'', ''--no-block'', ''--unit='' @ unit_name digest, ''--property=Type=oneshot'', ''--property=RemainAfterExit=no'',
       ''--property=ExecStopPost='' @ recorder, ''--property=Restart=no'', ''--property=RuntimeMaxSec=6300'', ''--property=TimeoutStartSec=6300'',
       ''--property=UMask=0077'', ''/usr/bin/python3'', ''-I'', path_str (path_join selected ''private_install.py''),
       ''--context'', cp, ''--sha256'', sha256_hex context_raw])"

definition context_json :: "string \<Rightarrow> json \<Rightarrow> json" where
  "context_json digest target = JObj [(''scope'', JStr ''private-azd-install-v1''), (''bundle_sha256'', JStr digest), (''target'', target)]"

definition submit :: "'w transport_env \<Rightarrow> string \<Rightarrow> path \<Rightarrow> json \<Rightarrow> ('w host, (string, json) dict) sx" where
  "submit e digest selected v =
     sx_bind (fresh_host e) (\<lambda>_.
     sx_bind (sx_lift (item_of v ''target'')) (\<lambda>target.
       let context_raw = dumps (te_py e) (jsort (context_json digest target)) in
     sx_bind (exclusive (path_join selected ''context.json'') context_raw 384) (\<lambda>_.
     sx_bind (exclusive ACTIVE context_raw 384) (\<lambda>_.
     sx_bind (command e (submit_args selected digest context_raw)) (\<lambda>_. status e digest)))))"

section \<open>The command\<close>

definition ALLOWED :: "string list" where
  "ALLOWED = [''mode'', ''bundle_sha256'', ''archive_sha256'', ''index'', ''count'', ''data'', ''target'']"

definition not_installed :: "string \<Rightarrow> (string, json) dict" where
  "not_installed digest = [(''scope'', JStr ''private-azd-install-observation''), (''bundle_sha256'', JStr digest),
     (''state'', JStr ''not-installed''), (''substate'', JStr ''absent''), (''completion'', JNull)]"

definition hex_item :: "json \<Rightarrow> string \<Rightarrow> string res" where
  "hex_item v k = res_bind (item_str v k) (\<lambda>s. res_bind (need (is_sha256_hex s)) (\<lambda>_. Inr s))"

definition folder_at :: "path \<Rightarrow> ('w host, unit) sx" where
  "folder_at p = sx_bind (mkdir p 448 True) (\<lambda>_. secure p)"

definition check_active :: "'w transport_env \<Rightarrow> string \<Rightarrow> string \<Rightarrow> json \<Rightarrow> ('w host, (string, json) dict option) sx" where
  \<comment> \<open>the answer where the reservation decides it\<close>
  "check_active e digest md v =
     sx_bind (look (\<lambda>h. Inr (path_exists h ACTIVE))) (\<lambda>there.
       if there
       then sx_bind (secure ACTIVE) (\<lambda>_.
            sx_bind (read_json e ACTIVE) (\<lambda>old.
            sx_bind (sx_lift (needs (item_is old ''bundle_sha256'' (JStr digest)))) (\<lambda>_.
              if md = ''submit''
              then sx_bind (sx_lift (needs (res_bind (item_of old ''target'') (\<lambda>t. res_bind (item_of v ''target'') (\<lambda>u. Inr (py_eq t u)))))) (\<lambda>_.
                   sx_bind (status e digest) (\<lambda>r. sx_return (Some r)))
              else if md = ''observe'' then sx_bind (status e digest) (\<lambda>r. sx_return (Some r))
              else sx_return None)))
       else sx_bind (look (\<lambda>h. need (\<not> path_exists h (py_path ''/etc/systemd/system/azd-santa-runtime.service'')))) (\<lambda>_.
              sx_return (if md = ''observe'' then Some (not_installed digest) else None)))"

definition upload :: "'w transport_env \<Rightarrow> string \<Rightarrow> string \<Rightarrow> json \<Rightarrow> ('w host, (string, json) dict) sx" where
  \<comment> \<open>a chunk, or the submission of what the chunks hold\<close>
  "upload e digest md v =
     (let uploads = path_join ROOT ''install-uploads''; source_folder = path_join uploads digest in
      sx_bind (folder_at uploads) (\<lambda>_.
      sx_bind (folder_at source_folder) (\<lambda>_.
      sx_bind (sx_lift (hex_item v ''archive_sha256'')) (\<lambda>archive.
        let folder = path_join source_folder archive; selected = path_join (path_join ROOT ''installers'') digest in
      sx_bind (folder_at folder) (\<lambda>_.
        if md = ''chunk'' then receive_chunk digest folder v
        else sx_bind (assemble e digest archive folder v) (\<lambda>(raw, its).
             sx_bind (install_bundle selected raw its) (\<lambda>_. submit e digest selected v)))))))"

definition run_mode :: "json \<Rightarrow> string res" where
  "run_mode v = res_bind (item_of v ''mode'') (\<lambda>m. case m of
     JStr s \<Rightarrow> res_bind (need (s \<in> {''chunk'', ''submit'', ''observe''})) (\<lambda>_. Inr s) | _ \<Rightarrow> Inl ValueError)"

definition relay :: "'w transport_env \<Rightarrow> string \<Rightarrow> json \<Rightarrow> ('w host, (string, json) dict) sx" where
  "relay e digest v =
     sx_bind (sx_lift (run_mode v)) (\<lambda>md.
     sx_bind (check_active e digest md v) (\<lambda>decided.
       case decided of Some answer \<Rightarrow> sx_return answer | None \<Rightarrow> upload e digest md v))"

definition run_digest :: "'w transport_env \<Rightarrow> json \<Rightarrow> string res" where
  "run_digest e v =
     res_bind (needs (res_and (Inr (te_euid e = 0)) (res_bind (set_of v) (\<lambda>s. Inr (s \<subseteq> JStr ` set ALLOWED))))) (\<lambda>_. hex_item v ''bundle_sha256'')"

definition run_command :: "'w transport_env \<Rightarrow> json \<Rightarrow> ('w host, (string, json) dict) sx" where
  \<comment> \<open>\<open>run\<close>; the umask is set before the digest is read, which only matters to a call that fails there\<close>
  "run_command e v =
     sx_bind (sx_lift (run_digest e v)) (\<lambda>digest.
     sx_bind (\<lambda>h. (Inr (), h\<lparr>h_umask := 63\<rparr>)) (\<lambda>_.  \<comment> \<open>63 is \<open>0o077\<close>\<close>
     sx_bind (folder_at ROOT) (\<lambda>_. relay e digest v)))"

end
