(* ===== verification/Transport_Facts.thy ===== *)
theory Transport_Facts
  imports Install_Transport
begin

text \<open>
  The relay only adds files, submits the installer at most once over every history of calls,
  failures and other programs, records what it submitted, and reports a completed
  installation only on the receipt of the very job it reserved.
\<close>

section \<open>Paths that stay\<close>

lemma walk_grows: "walk n f d cs = Inr x \<Longrightarrow> (\<And>k nd. dget f k = Some nd \<Longrightarrow> dget f' k = Some nd) \<Longrightarrow> walk n f' d cs = Inr x"
proof (induction n f d cs arbitrary: x rule: walk.induct)
  case (2 n f d c cs)
  show ?case
  proof (cases "CHR 0x00 \<in> set c \<or> c = ''..''")
    case True
    then show ?thesis using 2 by (auto split: if_splits)
  next
    case False
    with 2(5) obtain nd where nd: "dget f (d @ [c]) = Some nd" by (auto split: option.splits)
    then have nd': "dget f' (d @ [c]) = Some nd" using 2(6) by blast
    show ?thesis
    proof (cases "n_kind nd")
      case (Link t)
      with 2(5) nd False obtain m where m: "n = Suc m" by (auto split: nat.splits)
      have "walk m f (if is_absolute (py_path t) then [] else d) (p_parts (py_path t) @ cs) = Inr x"
        using 2(5) nd Link m False by (simp add: Let_def del: walk.simps(1))
      then have "walk m f' (if is_absolute (py_path t) then [] else d) (p_parts (py_path t) @ cs) = Inr x"
        using 2(4) [OF _ _ nd Link m refl] False 2(6) by blast
      then show ?thesis using nd' Link m False by (simp add: Let_def)
    qed (use 2(2,3) nd nd' False 2(5,6) in auto)
  qed
qed simp

lemma resolve_grows: "resolve h p = Inr q \<Longrightarrow> is_absolute p \<Longrightarrow> fs_grows h h' \<Longrightarrow> resolve h' p = Inr q"
  unfolding resolve_def resolve_parts_def fs_grows_def by (auto simp: res_simps intro: walk_grows)

section \<open>Submissions\<close>

definition logged :: "'v exec \<Rightarrow> ('v \<times> string list list) exec" where
  \<comment> \<open>programs of the machine, with the list of what was run\<close>
  "logged ex args w = (let (r, x) = ex args (fst w) in (r, (x, snd w @ [args])))"

definition is_submit :: "string list \<Rightarrow> bool" where
  "is_submit args \<longleftrightarrow> args \<noteq> [] \<and> hd args = ''systemd-run''"

type_synonym 'v thost = "('v \<times> string list list) host"

definition submits :: "'v thost \<Rightarrow> nat" where
  "submits h = length (filter is_submit (snd (h_world h)))"

definition adds :: "'v thost \<Rightarrow> 'v thost \<Rightarrow> bool" where
  "adds h h' \<longleftrightarrow> fs_grows h h' \<and> submits h' = submits h"

interpretation adds: frame adds
  by unfold_locales (auto simp: adds_def fs_grows_refl intro: fs_grows_trans)

lemma adds_io: "io h = (r, h') \<Longrightarrow> adds h h'"
  by (auto simp: io_def adds_def fs_grows_def submits_def)

lemma world_keeps:
  assumes "\<And>h r h'. m h = (r, h') \<Longrightarrow> h_world h' = h_world h" "grows.keeps m"
  shows "adds.keeps m"
proof (rule adds.keepsI)
  fix h r h' assume m: "m h = (r, h')"
  then show "adds h h'" using assms(1) grows.keepsD [OF assms(2) m] by (simp add: adds_def submits_def)
qed

interpretation same_world: frame "\<lambda>h h' :: 'w host. h_world h' = h_world h"
  by unfold_locales auto

lemma world_io: "same_world.keeps io" "same_world.keeps io_ok"
  by (auto simp: same_world.keeps_def io_def io_ok_def sx_bind_def sx_return_def sx_raise_def split: outcome.splits)

lemma world_read: "same_world.keeps (read_bytes p)"
  unfolding read_bytes_def
  by (intro same_world.keeps_bind world_io) (auto simp: same_world.keeps_def split: sum.splits kind.splits)

lemma world_open: "same_world.keeps (open_excl p mode)"
  unfolding open_excl_def by (intro same_world.keeps_bind world_io) (auto simp: same_world.keeps_def split: sum.splits)

lemma world_write: "same_world.keeps (write_sync cs b)"
  unfolding write_sync_def by (intro same_world.keeps_bind world_io) (auto simp: same_world.keeps_def split: outcome.splits)

lemma world_mkdir: "same_world.keeps (mkdir p mode ok)"
  unfolding mkdir_def by (intro same_world.keeps_bind world_io) (auto simp: same_world.keeps_def split: sum.splits)

lemma world_sync: "same_world.keeps (sync_directory p)"
  unfolding sync_directory_def by (intro same_world.keeps_bind world_io) (auto simp: same_world.keeps_def)

lemma adds_read: "adds.keeps (read_bytes p)"
  by (rule world_keeps [OF same_world.keepsD [OF world_read] keeps_read])

lemma adds_mkdir: "adds.keeps (mkdir p mode ok)"
  by (rule world_keeps [OF same_world.keepsD [OF world_mkdir] keeps_mkdir])

lemma adds_write_new: "adds.keeps (write_new p b mode)"
proof (rule world_keeps [OF _ keeps_write_new])
  fix h r and h' :: "'v thost" assume "write_new p b mode h = (r, h')"
  then show "h_world h' = h_world h"
    by (rule same_world.keepsD [rotated]) (simp add: write_new_def same_world.keeps_bind world_open world_write)
qed

lemma adds_look: "adds.keeps (look f)"
  by (simp add: adds.keeps_def look_def adds.R_refl)

lemma adds_exclusive: "adds.keeps (exclusive p b mode)"
  unfolding exclusive_def
  by (intro adds.keeps_bind adds_write_new world_keeps [OF same_world.keepsD [OF world_sync] keeps_sync_directory])

lemma adds_secure: "adds.keeps (secure p)"
  unfolding secure_def by (rule adds_look)

lemma adds_read_text: "adds.keeps (read_text p)"
  unfolding read_text_def by (intro adds.keeps_intros adds_read)

lemma adds_read_json: "adds.keeps (read_json e p)"
  unfolding read_json_def by (intro adds.keeps_intros adds_read)

lemma adds_command:
  assumes "te_exec e = logged ex" "\<not> is_submit args"
  shows "adds.keeps (command e args)"
proof -
  have "adds.keeps (spawn (logged ex) args)"
    using assms(2) by (auto simp: adds.keeps_def spawn_def logged_def adds_def fs_grows_def submits_def split: prod.splits)
  then show ?thesis unfolding command_def assms(1) by (intro adds.keeps_intros)
qed

lemmas adds_intros = adds.keeps_intros adds_read adds_mkdir adds_look adds_exclusive adds_secure adds_read_text adds_read_json

lemma adds_completion: "adds.keeps (completion e d a)"
  unfolding completion_def Let_def by (intro adds_intros)

lemma adds_status:
  assumes "te_exec e = logged ex"
  shows "adds.keeps (status e bundle)"
  unfolding status_def completed_status_def Let_def
  by (intro adds_intros adds_command [OF assms])
     (auto simp: is_submit_def intro!: adds_intros adds_command [OF assms] adds_completion split: prod.splits)

lemma adds_put_file: "adds.keeps (put_file p nm)"
  unfolding put_file_def Let_def by (auto intro!: adds_intros split: prod.splits)

lemma adds_put_files: "adds.keeps (put_files p nms)"
  by (induction nms) (auto intro!: adds_intros adds_put_file)

lemma adds_join: "adds.keeps (join_chunks p is)"
  by (induction "is") (auto intro!: adds_intros)

lemma adds_assemble: "adds.keeps (assemble e digest archive folder v)"
  unfolding assemble_def by (intro adds_intros adds_join)

lemma adds_install: "adds.keeps (install_bundle p raw its)"
  unfolding install_bundle_def by (intro adds_intros adds_put_files) (auto intro!: adds_intros)

lemma adds_chunk: "adds.keeps (receive_chunk digest folder v)"
  unfolding receive_chunk_def Let_def by (auto intro!: adds_intros split: prod.splits)

lemma adds_fresh: "te_exec e = logged ex \<Longrightarrow> adds.keeps (fresh_host e)"
  unfolding fresh_host_def
  by (auto intro!: adds_intros adds_command simp: is_submit_def DOCKER_CMD_def)

lemma adds_folder: "adds.keeps (folder_at p)"
  unfolding folder_at_def by (intro adds_intros)

lemma adds_check: "te_exec e = logged ex \<Longrightarrow> adds.keeps (check_active e digest md v)"
  unfolding check_active_def by (auto intro!: adds_intros adds_status)

lemma adds_terminal: "adds.keeps (record_terminal e cp digest)"
  unfolding record_terminal_def Let_def by (auto intro!: adds_intros adds_completion split: prod.splits)

section \<open>The reservation\<close>

definition active_at :: "string list" where
  "active_at = [''var'', ''lib'', ''azd-santa-qualification'', ''private-azd-install.json'']"

lemma ROOT_parts: "ROOT = abs_path [''var'', ''lib'', ''azd-santa-qualification'']" "is_absolute ROOT" "ACTIVE = abs_path active_at" "path_parent ACTIVE = ROOT"
  by code_simp+

lemma secure_resolves: "secure p h = (Inr u, h') \<Longrightarrow> resolve h p = Inr p \<and> h' = h"
  by (auto simp: secure_def sx_simps res_simps need_def)

lemma active_place:
  assumes "resolve h ROOT = Inr ROOT" "new_place h ACTIVE = Inr cs"
  shows "cs = active_at"
proof -
  have "resolve_parts (h_fs h) (h_cwd h) ROOT = Inr (p_parts ROOT)"
    using assms(1) unfolding resolve_def abs_path_def res_bind_Inr_iff by (metis path.select_convs(2) sum.inject(2))
  with assms(2) have "cs = p_parts ROOT @ [last (p_parts ACTIVE)]"
    by (auto simp: new_place_def ROOT_parts(4) res_simps split: if_splits option.splits)
  then show ?thesis by (simp add: ROOT_parts(1,3) abs_path_def active_at_def)
qed

lemma exclusive_active:
  assumes "exclusive ACTIVE raw mode h = (Inr u, h')" "resolve h ROOT = Inr ROOT"
  shows "dget (h_fs h) active_at = None" "\<exists>nd. dget (h_fs h') active_at = Some nd \<and> n_kind nd = Reg raw" "submits h' = submits h"
proof -
  obtain h1 where w: "write_new ACTIVE raw mode h = (Inr (), h1)" and s: "sync_directory (path_parent ACTIVE) h1 = (Inr u, h')"
    using assms(1) by (auto simp: exclusive_def sx_simps)
  from w show "dget (h_fs h) active_at = None" "\<exists>nd. dget (h_fs h') active_at = Some nd \<and> n_kind nd = Reg raw"
  proof (atomize (full), cases rule: write_new_cases)
    case (2 cs n)
    have r: "resolve (called h) ROOT = Inr ROOT" using assms(2) by (simp add: resolve_def)
    have cs: "cs = active_at" by (rule active_place [OF r 2(1)])
    have "fs_grows h1 h'" using s keeps_sync_directory grows.keepsD by blast
    then show "dget (h_fs h) active_at = None \<and> (\<exists>nd. dget (h_fs h') active_at = Some nd \<and> n_kind nd = Reg raw)"
      using new_place_free [OF 2(1)] 2(2,3) cs by (auto simp: put_node_def fs_grows_def)
  qed simp
  show "submits h' = submits h" using adds.keepsD [OF adds_exclusive assms(1)] by (simp add: adds_def)
qed

definition submit_inv :: "'v thost \<Rightarrow> bool" where
  "submit_inv h \<longleftrightarrow> submits h \<le> 1 \<and> (submits h = 1 \<longrightarrow> dget (h_fs h) active_at \<noteq> None)"

lemma adds_inv: "adds h h' \<Longrightarrow> submit_inv h \<Longrightarrow> submit_inv h'"
  by (auto simp: adds_def submit_inv_def fs_grows_def)

lemma submits_command:
  assumes "te_exec e = logged ex" "command e args h = (r, h')"
  shows "h_fs h' = h_fs h" "submits h' = submits h + (if is_submit args then 1 else 0)"
  using assms
  by (auto simp: command_def sx_bind_def spawn_def logged_def submits_def sx_lift_def sx_return_def split: prod.splits sum.splits)

lemma is_submit_args: "is_submit (submit_args selected digest raw)"
  by (simp add: is_submit_def submit_args_def Let_def)

text \<open>
  \<open>reserved\<close>: the step made the reservation, with what it then submitted.  A program that \<open>ends\<close>
  so either fails with nothing but new files or has made the reservation; a \<open>soft\<close> one may
  also succeed without.
\<close>

definition reserved :: "('v \<times> string list list) transport_env \<Rightarrow> json \<Rightarrow> 'v thost \<Rightarrow> 'v thost \<Rightarrow> bool" where
  "reserved e v h h' \<longleftrightarrow> dget (h_fs h) active_at = None \<and> submits h' = submits h + 1 \<and> fs_grows h h'
     \<and> (\<exists>digest target nd. hex_item v ''bundle_sha256'' = Inr digest \<and> item_of v ''target'' = Inr target \<and> dget (h_fs h') active_at = Some nd
          \<and> n_kind nd = Reg (dumps (te_py e) (jsort (context_json digest target))))"

definition ends :: "('v \<times> string list list) transport_env \<Rightarrow> json \<Rightarrow> ('v thost, 'a) sx \<Rightarrow> bool" where
  "ends e v m \<longleftrightarrow> (\<forall>h r h'. resolve h ROOT = Inr ROOT \<longrightarrow> m h = (r, h') \<longrightarrow> (\<exists>x. r = Inl x) \<and> adds h h' \<or> reserved e v h h')"

definition soft :: "('v \<times> string list list) transport_env \<Rightarrow> json \<Rightarrow> ('v thost, 'a) sx \<Rightarrow> bool" where
  "soft e v m \<longleftrightarrow> (\<forall>h r h'. resolve h ROOT = Inr ROOT \<longrightarrow> m h = (r, h') \<longrightarrow> adds h h' \<or> reserved e v h h')"

lemma reserved_after: "adds h h1 \<Longrightarrow> reserved e v h1 h' \<Longrightarrow> reserved e v h h'"
  unfolding reserved_def adds_def fs_grows_def by (metis not_None_eq)

lemma reserved_then: "reserved e v h h1 \<Longrightarrow> adds h1 h' \<Longrightarrow> reserved e v h h'"
  unfolding reserved_def adds_def fs_grows_def by fastforce

lemma root_after: "adds h h1 \<Longrightarrow> resolve h ROOT = Inr ROOT \<Longrightarrow> resolve h1 ROOT = Inr ROOT"
  using resolve_grows [OF _ ROOT_parts(2)] by (auto simp: adds_def)

lemma bind_step:
  assumes "sx_bind m f h = (r, h')" "adds.keeps m"
  obtains x where "r = Inl x" "adds h h'" | x h1 where "adds h h1" "m h = (Inr x, h1)" "f x h1 = (r, h')"
proof -
  obtain r1 h1 where m: "m h = (r1, h1)" by fastforce
  then show ?thesis using assms adds.keepsD [OF assms(2) m] that by (cases r1) (auto simp: sx_bind_def)
qed

lemma ends_bind: "adds.keeps m \<Longrightarrow> (\<And>x. ends e v (f x)) \<Longrightarrow> ends e v (sx_bind m f)"
  unfolding ends_def
proof (intro allI impI)
  fix h r h' assume m: "adds.keeps m" and root: "resolve h ROOT = Inr ROOT" and run: "sx_bind m f h = (r, h')"
    and f: "\<And>x. \<forall>h r h'. resolve h ROOT = Inr ROOT \<longrightarrow> f x h = (r, h') \<longrightarrow> (\<exists>x. r = Inl x) \<and> adds h h' \<or> reserved e v h h'"
  from run m show "(\<exists>x. r = Inl x) \<and> adds h h' \<or> reserved e v h h'"
  proof (cases rule: bind_step)
    case (2 x h1)
    then show ?thesis using f [of x] root_after [OF 2(1) root] adds.R_trans [OF 2(1)] reserved_after [OF 2(1)] by blast
  qed blast
qed

lemma soft_bind: "adds.keeps m \<Longrightarrow> (\<And>x. soft e v (f x)) \<Longrightarrow> soft e v (sx_bind m f)"
  unfolding soft_def
proof (intro allI impI)
  fix h r h' assume m: "adds.keeps m" and root: "resolve h ROOT = Inr ROOT" and run: "sx_bind m f h = (r, h')"
    and f: "\<And>x. \<forall>h r h'. resolve h ROOT = Inr ROOT \<longrightarrow> f x h = (r, h') \<longrightarrow> adds h h' \<or> reserved e v h h'"
  from run m show "adds h h' \<or> reserved e v h h'"
  proof (cases rule: bind_step)
    case (2 x h1)
    then show ?thesis using f [of x] root_after [OF 2(1) root] adds.R_trans [OF 2(1)] reserved_after [OF 2(1)] by blast
  qed blast
qed

lemma ends_soft: "ends e v m \<Longrightarrow> soft e v m"
  by (auto simp: ends_def soft_def)

lemma keeps_soft: "adds.keeps m \<Longrightarrow> soft e v m"
  by (auto simp: soft_def dest: adds.keepsD)

lemma ends_reserve:
  assumes ex: "te_exec e = logged ex" and d: "hex_item v ''bundle_sha256'' = Inr digest" and t: "item_of v ''target'' = Inr target"
    and raw: "raw = dumps (te_py e) (jsort (context_json digest target))"
  shows "ends e v (sx_bind (exclusive ACTIVE raw 384) (\<lambda>_. sx_bind (command e (submit_args selected digest raw)) (\<lambda>_. status e digest)))"
  unfolding ends_def
proof (intro allI impI)
  fix h r h' assume root: "resolve h ROOT = Inr ROOT"
    and "sx_bind (exclusive ACTIVE raw 384) (\<lambda>_. sx_bind (command e (submit_args selected digest raw)) (\<lambda>_. status e digest)) h = (r, h')"
  then show "(\<exists>x. r = Inl x) \<and> adds h h' \<or> reserved e v h h'"
  proof (elim bind_step [OF _ adds_exclusive] disjI1 [OF conjI, OF exI])
    fix u h1 assume x: "exclusive ACTIVE raw 384 h = (Inr u, h1)" "adds h h1"
      and c: "sx_bind (command e (submit_args selected digest raw)) (\<lambda>_. status e digest) h1 = (r, h')"
    note act = exclusive_active [OF x(1) root]
    obtain r2 h2 where 2: "command e (submit_args selected digest raw) h1 = (r2, h2)" by fastforce
    note c2 = submits_command [OF ex 2]
    have "reserved e v h h2"
      using act c2 d t raw is_submit_args x(2) unfolding reserved_def adds_def fs_grows_def by auto
    moreover have "adds h2 h'"
      using c 2 adds.keepsD [OF adds_status [OF ex]] by (cases r2) (auto simp: sx_bind_def adds.R_refl)
    ultimately show ?thesis using reserved_then by blast
  qed
qed

lemma ends_lift: "(\<And>x. r = Inr x \<Longrightarrow> ends e v (f x)) \<Longrightarrow> ends e v (sx_bind (sx_lift r) f)"
  by (cases r) (auto simp: ends_def sx_bind_def sx_lift_def adds.R_refl)

lemma ends_submit:
  assumes "te_exec e = logged ex" "hex_item v ''bundle_sha256'' = Inr digest"
  shows "ends e v (submit e digest selected v)"
  unfolding submit_def Let_def
  by (rule ends_bind [OF adds_fresh [OF assms(1)]], rule ends_lift, rule ends_bind [OF adds_exclusive], rule ends_reserve [OF assms _ refl])

lemma ends_upload:
  assumes "te_exec e = logged ex" "hex_item v ''bundle_sha256'' = Inr digest" "md \<noteq> ''chunk''"
  shows "ends e v (upload e digest md v)"
  unfolding upload_def Let_def
  using assms(3) by (auto intro!: ends_bind ends_lift ends_submit [OF assms(1,2)] adds_folder adds_assemble adds_install split: prod.splits)

lemma adds_upload: "adds.keeps (upload e digest ''chunk'' v)"
  unfolding upload_def Let_def by (auto intro!: adds_intros adds_folder adds_chunk)

lemma soft_relay:
  assumes "te_exec e = logged ex" "hex_item v ''bundle_sha256'' = Inr digest"
  shows "soft e v (relay e digest v)"
proof -
  have up: "soft e v (upload e digest md v)" for md
    using ends_soft [OF ends_upload [OF assms]] keeps_soft [OF adds_upload] by (cases "md = ''chunk''") auto
  show ?thesis
    unfolding relay_def
    by (intro soft_bind adds_intros adds_check [OF assms(1)]) (auto intro!: up keeps_soft adds_intros split: option.splits)
qed

lemma run_digestD: "run_digest e v = Inr digest \<Longrightarrow> hex_item v ''bundle_sha256'' = Inr digest"
  by (simp add: run_digest_def res_simps)

lemma run_start:
  assumes "run_command e v h = (r, h')"
  obtains x where "r = Inl x" "adds h h'"
  | digest h1 where "run_digest e v = Inr digest" "adds h h1" "resolve h1 ROOT = Inr ROOT" "relay e digest v h1 = (r, h')"
proof (cases "run_digest e v")
  case (Inl x)
  with assms that(1) show ?thesis by (auto simp: run_command_def sx_bind_def sx_lift_def adds.R_refl)
next
  case (Inr digest)
  let ?h = "h\<lparr>h_umask := 63\<rparr>"
  have a: "adds h ?h" by (simp add: adds_def fs_grows_def submits_def)
  have "sx_bind (folder_at ROOT) (\<lambda>_. relay e digest v) ?h = (r, h')"
    using assms Inr by (simp add: run_command_def sx_bind_def sx_lift_def)
  from this adds_folder show ?thesis
  proof (cases rule: bind_step)
    case (1 x)
    then show ?thesis using that(1) adds.R_trans [OF a] by blast
  next
    case (2 u h1)
    then have "resolve h1 ROOT = Inr ROOT" by (auto simp: folder_at_def sx_simps dest: secure_resolves)
    then show ?thesis using that(2) [OF Inr adds.R_trans [OF a 2(1)]] 2(3) by blast
  qed
qed

lemma run_step:
  assumes "run_command e v h = (r, h')" "te_exec e = logged ex"
  shows "adds h h' \<or> reserved e v h h'"
  using assms(1)
proof (cases rule: run_start)
  case (2 digest h1)
  then have "adds h1 h' \<or> reserved e v h1 h'"
    using soft_relay [OF assms(2) run_digestD [OF 2(1)]] unfolding soft_def by blast
  then show ?thesis using adds.R_trans [OF 2(2)] reserved_after [OF 2(2)] by blast
qed simp

section \<open>Histories\<close>

text \<open>
  A history of the host: calls of the relay, of its exit hook, and anything other programs do
  that neither removes or changes files nor submits an installer.  Between calls the outcomes
  of future data calls, the working directory and the umask are arbitrary.
\<close>

inductive transport_step :: "'v thost \<Rightarrow> 'v thost \<Rightarrow> bool" where
  run: "run_command e v h = (r, h') \<Longrightarrow> te_exec e = logged ex \<Longrightarrow> transport_step h h'"
| terminal: "record_terminal e cp digest h = (r, h') \<Longrightarrow> te_exec e = logged ex \<Longrightarrow> transport_step h h'"
| other: "fs_grows h h' \<Longrightarrow> submits h' = submits h \<Longrightarrow> transport_step h h'"

lemma reserved_inv: "reserved e v h h' \<Longrightarrow> submit_inv h \<Longrightarrow> submit_inv h'"
  by (auto simp: reserved_def submit_inv_def)

lemma transport_step_inv:
  assumes "submit_inv h" "transport_step h h'"
  shows "submit_inv h'"
  using assms(2)
proof cases
  case (run e v r ex)
  then show ?thesis using run_step adds_inv reserved_inv assms(1) by blast
next
  case (terminal e cp digest r ex)
  then show ?thesis using adds.keepsD [OF adds_terminal] adds_inv assms(1) by blast
next
  case other
  then show ?thesis using adds_inv [of h h'] assms(1) by (simp add: adds_def)
qed

interpretation transport: invariant_steps transport_step submit_inv
  by unfold_locales (rule transport_step_inv)


text \<open>
  what is submitted is on record.  A submission where no reservation existed either fails
  without having run the installer, or has run it once, and the reservation file then holds
  the context that names the submitted bundle and the requested target.
\<close>

theorem submission_recorded:
  assumes "relay e digest v h = (r, h')" "te_exec e = logged ex" "hex_item v ''bundle_sha256'' = Inr digest"
    and "run_mode v = Inr ''submit''" "resolve h ROOT = Inr ROOT" "\<not> path_exists h ACTIVE"
  shows "(\<exists>x. r = Inl x) \<and> submits h' = submits h
     \<or> submits h' = submits h + 1 \<and> (\<exists>target nd. item_of v ''target'' = Inr target \<and> dget (h_fs h') active_at = Some nd
          \<and> n_kind nd = Reg (dumps (te_py e) (jsort (context_json digest target))))"
proof -
  let ?next = "\<lambda>decided. case decided of Some answer \<Rightarrow> sx_return answer | None \<Rightarrow> upload e digest ''submit'' v"
  have run: "sx_bind (check_active e digest ''submit'' v) ?next h = (r, h')"
    using assms(1,4) by (simp add: relay_def sx_bind_def sx_lift_def)
  obtain r1 h1 where 1: "check_active e digest ''submit'' v h = (r1, h1)" by fastforce
  then have "sx_bind (look (\<lambda>h. need (\<not> path_exists h (py_path ''/etc/systemd/system/azd-santa-runtime.service'')))) (\<lambda>_. sx_return None) h = (r1, h1)"
    using assms(6) by (simp add: check_active_def sx_bind_def look_def)
  then have h1: "h1 = h" and r1: "(\<exists>x. r1 = Inl x) \<or> r1 = Inr None"
    by (auto simp: sx_bind_def look_def sx_return_def split: sum.splits)
  show ?thesis
  proof (cases r1)
    case (Inl x)
    with 1 h1 run show ?thesis by (auto simp: sx_bind_def)
  next
    case (Inr d)
    with r1 1 h1 run have "upload e digest ''submit'' v h = (r, h')" by (auto simp: sx_bind_def)
    moreover have "ends e v (upload e digest ''submit'' v)" by (rule ends_upload [OF assms(2,3)]) simp
    ultimately have "(\<exists>x. r = Inl x) \<and> adds h h' \<or> reserved e v h h'" using assms(5) unfolding ends_def by blast
    then show ?thesis using assms(3) by (auto simp: reserved_def adds_def)
  qed
qed

section \<open>Observation\<close>

definition contents :: "'w host \<Rightarrow> path \<Rightarrow> bytes option" where
  "contents h p = (case stat_of h p of Inr nd \<Rightarrow> (case n_kind nd of Reg b \<Rightarrow> Some b | _ \<Rightarrow> None) | Inl _ \<Rightarrow> None)"

interpretation same_disk: frame "\<lambda>h h' :: 'w host. h_fs h' = h_fs h \<and> h_cwd h' = h_cwd h"
  by unfold_locales auto

definition contents_in :: "fs \<Rightarrow> string list \<Rightarrow> path \<Rightarrow> bytes option" where
  "contents_in f cwd p =
     (case res_bind (resolve_parts f cwd p) (\<lambda>cs. case dget f cs of None \<Rightarrow> Inl OSError | Some nd \<Rightarrow> Inr nd) of
        Inr nd \<Rightarrow> (case n_kind nd of Reg b \<Rightarrow> Some b | _ \<Rightarrow> None) | Inl _ \<Rightarrow> None)"

lemma contents_eq: "contents h p = contents_in (h_fs h) (h_cwd h) p"
  by (simp add: contents_def contents_in_def stat_of_def)

lemma read_contents: "read_bytes p h = (Inr b, h') \<Longrightarrow> contents h p = Some b \<and> h_fs h' = h_fs h \<and> h_cwd h' = h_cwd h"
proof -
  assume "read_bytes p h = (Inr b, h')"
  then obtain u h1 where 1: "io_ok h = (Inr u, h1)"
    and 2: "(case stat_of h1 p of Inl x \<Rightarrow> (Inl x, h1) | Inr nd \<Rightarrow> (case n_kind nd of Reg b \<Rightarrow> (Inr b, h1) | _ \<Rightarrow> (Inl OSError, h1))) = (Inr b, h')"
    unfolding read_bytes_def sx_bind_Inr_iff by blast
  from 2 have "contents h1 p = Some b" "h' = h1"
    by (cases "stat_of h1 p"; auto simp: contents_def split: kind.splits)+
  moreover have "h1 = called h" using io_ok_cases [OF 1] by simp
  ultimately show ?thesis by (auto simp: contents_def stat_of_def)
qed

lemma contents_same: "h_fs h' = h_fs h \<Longrightarrow> h_cwd h' = h_cwd h \<Longrightarrow> contents h' p = contents h p"
  by (simp add: contents_def stat_of_def)

lemma command_disk: "command e args h = (Inr out, h') \<Longrightarrow> h_fs h' = h_fs h \<and> h_cwd h' = h_cwd h"
  by (auto simp: command_def sx_simps dest: spawn_fs)

lemma completionD:
  assumes "completion e directory active h = (Inr (raw, v), h')"
  shows "contents h (path_join directory ''complete.json'') = Some raw" "load_json (te_py e) raw = Inr v" "completion_ok v active = Inr ()"
    "h_fs h' = h_fs h" "h_cwd h' = h_cwd h"
  using assms by (auto simp: completion_def Let_def sx_simps dest!: secure_resolves read_contents)

lemma read_jsonD: "read_json e p h = (Inr v, h') \<Longrightarrow> \<exists>raw. contents h p = Some raw \<and> load_json (te_py e) raw = Inr v \<and> h_fs h' = h_fs h \<and> h_cwd h' = h_cwd h"
  by (auto simp: read_json_def sx_simps dest!: read_contents)

lemma receipt_okD:
  assumes "receipt_ok pf context_raw bundle complete_raw = Inr ()"
  shows "item_of pf ''context_sha256'' = Inr (JStr (sha256_hex context_raw))" "item_of pf ''bundle_sha256'' = Inr (JStr bundle)"
    "item_of pf ''completion_sha256'' = Inr (JStr (sha256_hex complete_raw))" "item_of pf ''exit_status'' = Inr (JStr ''0'')"
proof -
  have str: "py_eq x (JStr s) \<longleftrightarrow> x = JStr s" for x s by (cases x) (auto split: option.splits)
  have conj: "res_and a b = Inr True \<longleftrightarrow> a = Inr True \<and> b = Inr True" for a b by (cases a) (auto simp: res_and_def)
  have "needs r = Inr () \<longleftrightarrow> r = Inr True" for r by (cases r) (auto simp: needs_def need_def res_simps)
  then show "item_of pf ''context_sha256'' = Inr (JStr (sha256_hex context_raw))" "item_of pf ''bundle_sha256'' = Inr (JStr bundle)"
    "item_of pf ''completion_sha256'' = Inr (JStr (sha256_hex complete_raw))" "item_of pf ''exit_status'' = Inr (JStr ''0'')"
    using assms by (simp_all add: receipt_ok_def conj item_is_def res_simps str)
qed

text \<open>Elimination of a step of a successful observation.\<close>

lemma bind_liftE: assumes "sx_bind (sx_lift r) f h = (Inr y, h')" obtains x where "r = Inr x" "f x h = (Inr y, h')"
  using assms by (auto simp: sx_simps)

lemma bind_lookE: assumes "sx_bind (look g) f h = (Inr y, h')" obtains x where "g h = Inr x" "f x h = (Inr y, h')"
  using assms by (auto simp: sx_simps)

lemma bind_secureE: assumes "sx_bind (secure p) f h = (Inr y, h')" obtains "f () h = (Inr y, h')"
  using assms by (auto simp: sx_bind_Inr_iff dest: secure_resolves)

lemma bind_readE:
  assumes "sx_bind (read_bytes p) f h = (Inr y, h')"
  obtains b h1 where "contents h p = Some b" "h_fs h1 = h_fs h" "h_cwd h1 = h_cwd h" "f b h1 = (Inr y, h')"
  using assms by (auto simp: sx_bind_Inr_iff dest: read_contents)

lemma bind_jsonE:
  assumes "sx_bind (read_json e p) f h = (Inr y, h')"
  obtains b v h1 where "contents h p = Some b" "load_json (te_py e) b = Inr v" "h_fs h1 = h_fs h" "h_cwd h1 = h_cwd h" "f v h1 = (Inr y, h')"
  using assms by (auto simp: sx_bind_Inr_iff dest!: read_jsonD)

lemma bind_commandE:
  assumes "sx_bind (command e args) f h = (Inr y, h')"
  obtains out h1 where "h_fs h1 = h_fs h" "h_cwd h1 = h_cwd h" "f out h1 = (Inr y, h')"
  using assms by (auto simp: sx_bind_Inr_iff dest: command_disk)

lemma bind_completionE:
  assumes "sx_bind (completion e directory active) (\<lambda>(raw, v). f raw v) h = (Inr y, h')"
  obtains raw v h1 where "contents h (path_join directory ''complete.json'') = Some raw" "load_json (te_py e) raw = Inr v"
    "completion_ok v active = Inr ()" "h_fs h1 = h_fs h" "h_cwd h1 = h_cwd h" "f raw v h1 = (Inr y, h')"
  using assms by (auto simp only: sx_bind_Inr_iff split_paired_Ex prod.case intro: completionD)

lemmas observe_elims = bind_liftE bind_lookE bind_secureE bind_readE bind_jsonE bind_commandE bind_completionE

lemma completed_statusD:
  assumes "completed_status e bundle active vs h = (Inr d, h')"
  defines "dir \<equiv> path_join (path_join ROOT ''installers'') bundle"
  obtains context_raw complete_raw pf_raw pf c where "contents h ACTIVE = Some context_raw" "contents h (path_join dir ''context.json'') = Some context_raw"
     "contents h (path_join dir ''complete.json'') = Some complete_raw" "load_json (te_py e) complete_raw = Inr c" "completion_ok c active = Inr ()"
     "contents h (path_join dir ''terminal-success.json'') = Some pf_raw" "load_json (te_py e) pf_raw = Inr pf"
     "receipt_ok pf context_raw bundle complete_raw = Inr ()" "dget d ''completion'' = Some c"
  using assms(1) unfolding completed_status_def Let_def dir_def [symmetric]
  apply (elim observe_elims)
  subgoal for u1 pf_raw pf h1 context_raw h2 current h3 u4 complete_raw c h4 u5 invocation u6 out h5
    by (rule that [of context_raw complete_raw c pf_raw pf]) (simp_all add: contents_eq sx_simps need_def res_simps)
  done

text \<open>
  Completion is reported on proof.  When the observation carries a completion, the disk
  holds the receipt of the reserved job: it was written for exactly the reservation, the
  bundle and the completion file that are there, and it states a clean exit.
\<close>

theorem completed_needs_receipt:
  assumes "status e bundle h = (Inr d, h')" "dget d ''completion'' = Some c" "c \<noteq> JNull"
  defines "dir \<equiv> path_join (path_join ROOT ''installers'') bundle"
  shows "\<exists>context_raw complete_raw pf_raw pf active. contents h ACTIVE = Some context_raw \<and> contents h (path_join dir ''context.json'') = Some context_raw
     \<and> load_json (te_py e) context_raw = Inr active
     \<and> contents h (path_join dir ''complete.json'') = Some complete_raw \<and> load_json (te_py e) complete_raw = Inr c \<and> completion_ok c active = Inr ()
     \<and> contents h (path_join dir ''terminal-success.json'') = Some pf_raw \<and> load_json (te_py e) pf_raw = Inr pf
     \<and> item_of pf ''context_sha256'' = Inr (JStr (sha256_hex context_raw)) \<and> item_of pf ''bundle_sha256'' = Inr (JStr bundle)
     \<and> item_of pf ''completion_sha256'' = Inr (JStr (sha256_hex complete_raw)) \<and> item_of pf ''exit_status'' = Inr (JStr ''0'')"
proof -
  obtain active vs h1 raw where h1: "h_fs h1 = h_fs h" "h_cwd h1 = h_cwd h"
      and a: "contents h ACTIVE = Some raw" "load_json (te_py e) raw = Inr active"
      and run: "completed_status e bundle active vs h1 = (Inr d, h') \<or> d = observed bundle vs"
    using assms(1) unfolding status_def Let_def
    apply (elim observe_elims)
    subgoal for u1 raw active h1 u3 out h2 u4 proved
      by (rule that [of h2 raw active "unit_values out"]) (auto simp: sx_simps split: if_splits)
    done
  have "d \<noteq> observed bundle vs" using assms(2,3) by (auto simp: observed_def)
  with run have "completed_status e bundle active vs h1 = (Inr d, h')" by blast
  then obtain context_raw complete_raw pf_raw pf c' where
    *: "contents h1 ACTIVE = Some context_raw" "contents h1 (path_join dir ''context.json'') = Some context_raw"
      "contents h1 (path_join dir ''complete.json'') = Some complete_raw" "load_json (te_py e) complete_raw = Inr c'" "completion_ok c' active = Inr ()"
      "contents h1 (path_join dir ''terminal-success.json'') = Some pf_raw" "load_json (te_py e) pf_raw = Inr pf"
      "receipt_ok pf context_raw bundle complete_raw = Inr ()" "dget d ''completion'' = Some c'"
    unfolding dir_def by (rule completed_statusD)
  note c = contents_same [OF h1]
  have "c' = c" using *(9) assms(2) by simp
  then show ?thesis
    using a * receipt_okD [OF *(8)] unfolding c by (intro exI conjI) (assumption | simp)+
qed

section \<open>A concrete host\<close>

definition demo_dir :: node where
  "demo_dir = \<lparr>n_kind = Dir, n_uid = 0, n_mode = 493\<rparr>"

definition demo_thost :: "unit thost" where
  "demo_thost = \<lparr>h_fs = [([], demo_dir), ([''var''], demo_dir), ([''var'', ''lib''], demo_dir),
       ([''var'', ''lib'', ''azd-santa-qualification''], demo_dir)],
     h_cwd = [], h_umask = 18, h_outcomes = (\<lambda>_. Works), h_calls = 0, h_world = ((), [])\<rparr>"

definition demo_exec :: "unit exec" where
  "demo_exec args w = (Inr \<lparr>returncode = 0, stdout = [], stderr = []\<rparr>, w)"

definition demo_tenv :: "(unit \<times> string list list) transport_env" where
  "demo_tenv = \<lparr>te_py = \<lparr>float_of = (\<lambda>_. Fin 0), float_repr = (\<lambda>_. []), nest_limit = 100, decode_wide = (\<lambda>_. Inl ValueError)\<rparr>,
     te_exec = logged demo_exec, te_euid = 0, te_getenv = (\<lambda>_. None), te_gunzip = (\<lambda>_. Inl OSError)\<rparr>"

definition demo_value :: "string \<Rightarrow> json" where
  "demo_value md = JObj [(''mode'', JStr md), (''bundle_sha256'', JStr (replicate 64 (CHR ''a''))), (''target'', JNull)]"

lemma demo_tenv_exec: "te_exec demo_tenv = logged demo_exec"
  by (simp add: demo_tenv_def)


theorem submission_recorded_witness:
  "\<exists>r h'. relay demo_tenv (replicate 64 (CHR ''a'')) (demo_value ''submit'') demo_thost = (r, h')
     \<and> ((\<exists>x. r = Inl x) \<and> submits h' = 0
        \<or> submits h' = 1 \<and> (\<exists>target nd. item_of (demo_value ''submit'') ''target'' = Inr target \<and> dget (h_fs h') active_at = Some nd))"
proof -
  let ?d = "replicate 64 (CHR ''a'')"
  obtain r h' where run: "relay demo_tenv ?d (demo_value ''submit'') demo_thost = (r, h')" by fastforce
  have d: "hex_item (demo_value ''submit'') ''bundle_sha256'' = Inr ?d" by code_simp
  have md: "run_mode (demo_value ''submit'') = Inr ''submit''" by code_simp
  have root: "resolve demo_thost ROOT = Inr ROOT" by code_simp
  have act: "\<not> path_exists demo_thost ACTIVE" by code_simp
  have 0: "submits demo_thost = 0" by (simp add: submits_def demo_thost_def)
  from submission_recorded [OF run demo_tenv_exec d md root act] run 0 show ?thesis by auto
qed

end
