(* ===== verification/Runtime_Bundle.thy ===== *)
theory Runtime_Bundle
  imports Host_Tools
begin

text \<open>
  The selection and binding half of \<open>experiments/server/runtime_service.py\<close>, with the Compose check
  it takes from \<open>test_live_zentral.py\<close>: paths under the private root, sentinels of initialised
  data, the bundle of one runtime, its manifest, and the systemd unit.  Running a helper's
  source is a parameter (\<open>helper_commit\<close>), as are the programs of the machine.
\<close>

text \<open>
  The controller's own process beside its files: whether the helper is loaded (the module
  global \<open>_HELPER\<close>), what it printed, and, as a history, every program it ran with the
  outcome.  \<open>ext\<close> is the rest of the machine, which the programs act on.
\<close>

type_synonym environ = "(string, string) dict"

record 'x ctl =
  helper_loaded :: bool
  printed :: "string list"
  issued :: "(string list \<times> finished res) list"
  ext :: 'x

type_synonym 'x chost = "'x ctl host"

record 'x runtime_env =
  re_py :: py_env
  re_exec :: "environ \<Rightarrow> nat \<Rightarrow> 'x exec"  \<comment> \<open>environment, time bound in seconds, arguments; a timeout is \<open>SubprocessError\<close>\<close>
  re_environ :: environ  \<comment> \<open>\<open>os.environ\<close>\<close>
  re_file :: string  \<comment> \<open>\<open>__file__\<close>\<close>
  helper_commit :: "bytes \<Rightarrow> bytes \<Rightarrow> string res"  \<comment> \<open>running the two helper sources, and the second one's \<open>COMMIT\<close>\<close>
  re_uuid :: "'x \<Rightarrow> string \<times> 'x"  \<comment> \<open>\<open>uuid.uuid4().hex\<close>\<close>
  re_token :: "'x \<Rightarrow> string \<times> 'x"  \<comment> \<open>\<open>secrets.token_hex(16)\<close>\<close>
  re_flock :: "path \<Rightarrow> 'x \<Rightarrow> bool \<times> 'x"
  re_unlock :: "path \<Rightarrow> 'x \<Rightarrow> 'x"
  re_http :: "string \<Rightarrow> 'x \<Rightarrow> int res \<times> 'x"  \<comment> \<open>the status of a response\<close>
  re_notify :: "string \<Rightarrow> bytes \<Rightarrow> 'x \<Rightarrow> unit res \<times> 'x"
  re_now :: "'x \<Rightarrow> rat"  \<comment> \<open>\<open>time.monotonic()\<close>\<close>
  re_sleep :: "nat \<Rightarrow> 'x \<Rightarrow> 'x"
  re_signal :: "'x \<Rightarrow> bool \<times> 'x"  \<comment> \<open>whether a stop signal arrived since the last look\<close>
  re_error :: "exn \<Rightarrow> string \<times> string"  \<comment> \<open>class name and text of an exception\<close>

definition outside :: "('x \<Rightarrow> 'a \<times> 'x) \<Rightarrow> ('x chost, 'a) sx" where
  "outside f h = (let (r, x) = f (ext (h_world h)) in (Inr r, h\<lparr>h_world := (h_world h)\<lparr>ext := x\<rparr>\<rparr>))"

definition run_tool :: "'x runtime_env \<Rightarrow> environ \<Rightarrow> nat \<Rightarrow> string list \<Rightarrow> ('x chost, finished) sx" where
  "run_tool e env limit args h =
     (let (r, x) = re_exec e env limit args (ext (h_world h)); w = h_world h
      in (r, h\<lparr>h_world := w\<lparr>ext := x, issued := issued w @ [(args, r)]\<rparr>\<rparr>))"

definition say :: "string \<Rightarrow> ('x chost, unit) sx" where
  "say s h = (Inr (), h\<lparr>h_world := (h_world h)\<lparr>printed := printed (h_world h) @ [s]\<rparr>\<rparr>)"

definition RUNTIME_ROOT :: path where
  "RUNTIME_ROOT = py_path ''/var/lib/azd-santa-qualification''"

definition COMMIT :: string where
  "COMMIT = ''88e67b3ce49033aab028029937a6e14f7c489073''"

definition UNIT :: path where
  "UNIT = py_path ''/etc/systemd/system/azd-santa-runtime.service''"

definition DOCKER :: "string list" where
  "DOCKER = [''docker'', ''--host'', ''unix:///var/run/docker.sock'']"

definition APPS :: "string list" where
  "APPS = [''web'', ''workers'', ''celery'']"

definition DEPENDENCIES :: "string list" where
  "DEPENDENCIES = [''db'', ''redis'', ''rabbitmq'', ''elastic'']"

definition POLICIES :: "(string \<times> string) list" where
  "POLICIES = [(''policy'', ''azd_santa_operator.py''), (''recovery'', ''azd_santa_operator_recovery.py''),
     (''sealed'', ''azd_santa_sealed_setup.py''), (''admission'', ''azd_santa_admission.py'')]"

definition HELPERS :: "string list" where
  "HELPERS = [''test_live_zentral.py'', ''prepare_zentral_eval.py'']"

definition VOLUMES :: "(string \<times> string list) list" where
  "VOLUMES = [(''db'', [''postgres_data:/var/lib/postgresql'']), (''redis'', [''redis_data:/data'']),
     (''rabbitmq'', [''rabbitmq_data:/var/lib/rabbitmq'']), (''elastic'', [''elasticsearch_data:/usr/share/elasticsearch/data''])]
     @ map (\<lambda>n. (n, [''./conf:/zentral-eval-conf:ro'', ''media_data:/var/zentral''])) APPS"

section \<open>Values\<close>

definition demand :: "bool \<Rightarrow> unit res" where
  "demand b = res_guard b ValueError"

definition demands :: "bool res \<Rightarrow> unit res" where
  "demands r = res_bind r demand"

definition get_or :: "json \<Rightarrow> string \<Rightarrow> json \<Rightarrow> json res" where
  \<comment> \<open>\<open>v.get(k, d)\<close>\<close>
  "get_or v k d = res_bind (get_of v k) (\<lambda>x. Inr (case x of None \<Rightarrow> d | Some w \<Rightarrow> w))"

fun iter_of :: "json \<Rightarrow> json list res" where
  \<comment> \<open>iteration over a value\<close>
  "iter_of (JArr vs) = Inr vs"
| "iter_of (JObj ms) = Inr (map (JStr \<circ> fst) ms)"
| "iter_of (JStr s) = Inr (map (\<lambda>c. JStr (utf8_encode c)) (code_points s))"
| "iter_of _ = Inl TypeError"

fun len_of :: "json \<Rightarrow> nat res" where
  "len_of (JArr vs) = Inr (length vs)"
| "len_of (JObj ms) = Inr (length ms)"
| "len_of (JStr s) = Inr (py_len s)"
| "len_of _ = Inl TypeError"

definition key_in :: "json \<Rightarrow> json \<Rightarrow> bool res" where
  \<comment> \<open>\<open>v in d\<close> for a dictionary \<open>d\<close>\<close>
  "key_in v d = (if \<not> hashable v then Inl TypeError
     else case d of JObj ms \<Rightarrow> Inr (\<exists>k \<in> set (map fst ms). v = JStr k) | _ \<Rightarrow> Inl TypeError)"

definition text_item :: "json \<Rightarrow> string \<Rightarrow> string res" where
  "text_item v k = res_bind (item_of v k) (\<lambda>x. case x of JStr s \<Rightarrow> Inr s | _ \<Rightarrow> Inl TypeError)"

definition services_of :: "json \<Rightarrow> (string \<times> json) list res" where
  "services_of data = res_bind (item_of data ''services'') items_of"

definition service_of :: "json \<Rightarrow> string \<Rightarrow> json res" where
  "service_of data name = res_bind (item_of data ''services'') (\<lambda>s. item_of s name)"

definition sorted_texts :: "json \<Rightarrow> string list res" where
  \<comment> \<open>\<open>sorted(v)\<close> of a list of texts\<close>
  "sorted_texts v = res_bind (iter_of v) (\<lambda>vs.
     res_bind (res_map (\<lambda>x. case x of JStr s \<Rightarrow> Inr s | _ \<Rightarrow> Inl TypeError) vs) (\<lambda>ss. Inr (sort ss)))"

definition is_sha_ref :: "string \<Rightarrow> bool" where
  \<comment> \<open>\<open>sha256:[a-f0-9]{64}\<close>\<close>
  "is_sha_ref s \<longleftrightarrow> startswith s ''sha256:'' \<and> is_sha256_hex (drop 7 s)"

definition is_pinned_ref :: "string \<Rightarrow> bool" where
  \<comment> \<open>\<open>[a-z0-9][a-z0-9./:_-]*@sha256:[a-f0-9]{64}\<close>; the class has no \<open>@\<close>\<close>
  "is_pinned_ref s =
     (case split_first (CHR ''@'') s of
        None \<Rightarrow> False
      | Some (a, b) \<Rightarrow> a \<noteq> [] \<and> (is_lower (hd a) \<or> is_digit (hd a))
          \<and> list_all (\<lambda>c. is_lower c \<or> is_digit c \<or> c \<in> set ''./:_-'') a \<and> is_sha_ref b)"

definition is_env_name :: "string \<Rightarrow> bool" where
  \<comment> \<open>\<open>\./[a-z][a-z0-9-]*\.env\<close>\<close>
  "is_env_name s \<longleftrightarrow> startswith s ''./'' \<and> length s \<ge> 7 \<and> drop (length s - 4) s = ''.env''
     \<and> is_lower (s ! 2) \<and> list_all (\<lambda>c. is_lower c \<or> is_digit c \<or> c = CHR ''-'') (take (length s - 6) (drop 2 s))"

definition private_write :: "py_env \<Rightarrow> path \<Rightarrow> json \<Rightarrow> ('w host, unit) sx" where
  "private_write e p v = write_new p (dumps e (jsort v)) 384"  \<comment> \<open>384 is \<open>0o600\<close>\<close>

section \<open>Checked paths\<close>

definition checked_parent :: "'w host \<Rightarrow> path \<Rightarrow> unit res" where
  "checked_parent h p = res_bind (stat_of h p) (\<lambda>nd. demand (n_kind nd = Dir \<and> n_uid nd = 0 \<and> \<not> mode_has nd 18))"

definition checked_path :: "path \<Rightarrow> bool \<Rightarrow> ('w host, path) sx" where
  "checked_path p private_file = look (\<lambda>h.
     res_bind (demand (is_absolute p)) (\<lambda>_.
     res_bind (resolve h p) (\<lambda>q.
     res_bind (demand (p = q \<and> is_relative_to p RUNTIME_ROOT)) (\<lambda>_.
     res_bind (res_map (checked_parent h)
        (RUNTIME_ROOT # map (\<lambda>n. p\<lparr>p_parts := take n (p_parts p)\<rparr>) (rev [length (p_parts RUNTIME_ROOT)..<length (p_parts p)]))) (\<lambda>_.
     res_bind (stat_of h p) (\<lambda>nd.
     res_bind (demand (regular nd \<and> n_uid nd = 0 \<and> \<not> mode_has nd 18)) (\<lambda>_.
     res_bind (demand (private_file \<longrightarrow> \<not> mode_has nd 63)) (\<lambda>_. Inr p))))))))"  \<comment> \<open>63 is \<open>0o077\<close>\<close>

definition absolute_path :: "'w host \<Rightarrow> path \<Rightarrow> path" where
  "absolute_path h p = (if is_absolute p then p else \<lparr>p_root = ''/'', p_parts = h_cwd h @ p_parts p\<rparr>)"

fun check_names :: "path \<Rightarrow> string list \<Rightarrow> ('w host, unit) sx" where
  "check_names p [] = sx_return ()"
| "check_names p (n # ns) = sx_bind (checked_path (with_name p n) False) (\<lambda>_. check_names p ns)"

definition trusted_sources :: "'x runtime_env \<Rightarrow> ('x chost, path) sx" where
  "trusted_sources e =
     sx_bind (look (\<lambda>h. Inr (absolute_path h (py_path (re_file e))))) (\<lambda>p.
     sx_bind (checked_path p False) (\<lambda>controller.
     sx_bind (check_names controller HELPERS) (\<lambda>_. sx_return controller)))"

definition compose_helper :: "'x runtime_env \<Rightarrow> ('x chost, unit) sx" where
  \<comment> \<open>the helper sources are read and run once, after their check\<close>
  "compose_helper e =
     sx_bind (trusted_sources e) (\<lambda>controller.
     sx_bind (look (\<lambda>h. Inr (helper_loaded (h_world h)))) (\<lambda>loaded.
       if loaded then sx_return ()
       else sx_bind (read_bytes (with_name controller ''prepare_zentral_eval.py'')) (\<lambda>b1.
            sx_bind (read_bytes (with_name controller ''test_live_zentral.py'')) (\<lambda>b2.
            sx_bind (sx_lift (helper_commit e b1 b2)) (\<lambda>c.
            sx_bind (sx_lift (demand (c = COMMIT))) (\<lambda>_ h.
              (Inr (), h\<lparr>h_world := (h_world h)\<lparr>helper_loaded := True\<rparr>\<rparr>)))))))"

section \<open>Initialised data\<close>

definition has_children :: "fs \<Rightarrow> string list \<Rightarrow> bool" where
  "has_children f cs \<longleftrightarrow> (\<exists>k \<in> set (map fst f). k \<noteq> [] \<and> butlast k = cs)"

definition state_path :: "path \<Rightarrow> string \<Rightarrow> bool \<Rightarrow> bool \<Rightarrow> ('w host, path) sx" where
  "state_path base relative directory nonempty = look (\<lambda>h.
     let p = path_join base relative in
     res_bind (resolve h p) (\<lambda>q.
     res_bind (demand (p = q \<and> is_relative_to p base)) (\<lambda>_.
     res_bind (demand (if directory then is_dir h p \<and> (nonempty \<longrightarrow> has_children (h_fs h) (p_parts p))
                       else is_file h p \<and> (nonempty \<longrightarrow> (case stat_of h p of Inr nd \<Rightarrow> st_size nd \<noteq> 0 | Inl _ \<Rightarrow> False)))) (\<lambda>_. Inr p))))"

fun state_paths :: "path \<Rightarrow> bool \<Rightarrow> bool \<Rightarrow> string list \<Rightarrow> ('w host, unit) sx" where
  "state_paths base directory nonempty [] = sx_return ()"
| "state_paths base directory nonempty (n # ns) =
     sx_bind (state_path base n directory nonempty) (\<lambda>_. state_paths base directory nonempty ns)"

definition is_major :: "string \<Rightarrow> bool" where
  \<comment> \<open>\<open>[1-9][0-9]*\<close>\<close>
  "is_major s \<longleftrightarrow> s \<noteq> [] \<and> is_digit (hd s) \<and> hd s \<noteq> CHR ''0'' \<and> list_all is_digit s"

definition check_postgres_data :: "path \<Rightarrow> (string, string) dict \<Rightarrow> json \<Rightarrow> ('w host, unit) sx" where
  "check_postgres_data base image_environment configured =
     (let or_empty = (\<lambda>v. case v of None \<Rightarrow> [] | Some s \<Rightarrow> s);
          major = or_empty (dget image_environment ''PG_MAJOR''); pgdata = or_empty (dget image_environment ''PGDATA'');
          vol = py_path ''/var/lib/postgresql''; selected = py_path pgdata in
      sx_bind (sx_lift (demand (is_major major))) (\<lambda>_.
      sx_bind (sx_lift (demands (res_all (\<lambda>(k, v). res_bind (get_or configured k (JStr v)) (\<lambda>w. Inr (py_eq w (JStr v))))
         [(''PG_MAJOR'', major), (''PGDATA'', pgdata)]))) (\<lambda>_.
      sx_bind (sx_lift (demand (is_relative_to selected vol \<and> ''..'' \<notin> set (p_parts selected)))) (\<lambda>_.
      sx_bind (state_path base (path_str \<lparr>p_root = [], p_parts = drop (length (p_parts vol)) (p_parts selected)\<rparr>) True False) (\<lambda>directory.
      sx_bind (state_path directory ''PG_VERSION'' False True) (\<lambda>version.
      sx_bind (look (\<lambda>h. res_bind (stat_of h version) (\<lambda>nd. demand (st_size nd \<le> 16)))) (\<lambda>_.
      sx_bind (read_text version) (\<lambda>t.
      sx_bind (sx_lift (demand (py_strip t = major))) (\<lambda>_.
      sx_bind (state_paths directory False True [''global/pg_control'', ''postgresql.conf'', ''pg_hba.conf'']) (\<lambda>_.
        state_paths directory True False [''base'', ''pg_wal'']))))))))))"

definition is_aof_name :: "string \<Rightarrow> bool" where
  \<comment> \<open>\<open>appendonly\.aof\.[0-9]+\.(?:base\.(?:rdb|aof)|incr\.aof)\<close>\<close>
  "is_aof_name s =
     (case split_on (CHR ''.'') s of
        [a, b, n, k, x] \<Rightarrow> a = ''appendonly'' \<and> b = ''aof'' \<and> isdecimal n
          \<and> ((k = ''base'' \<and> (x = ''rdb'' \<or> x = ''aof'')) \<or> (k = ''incr'' \<and> x = ''aof''))
      | _ \<Rightarrow> False)"

definition aof_line :: "string \<Rightarrow> (string \<times> string) option" where
  "aof_line s =
     (case split_on (CHR '' '') s of
        [a, name, b, n, c, k] \<Rightarrow>
          if a = ''file'' \<and> is_aof_name name \<and> b = ''seq'' \<and> isdecimal n \<and> c = ''type'' \<and> k \<in> {''b'', ''i'', ''h''}
          then Some (name, k) else None
      | _ \<Rightarrow> None)"

fun check_aof_lines :: "path \<Rightarrow> string list \<Rightarrow> ('w host, string list) sx" where
  \<comment> \<open>the kinds of the files that are in use\<close>
  "check_aof_lines directory [] = sx_return []"
| "check_aof_lines directory (l # ls) =
     (case aof_line l of
        None \<Rightarrow> sx_raise ValueError
      | Some (name, k) \<Rightarrow>
          if k = ''h'' then check_aof_lines directory ls
          else sx_bind (state_path directory name False (k = ''b'')) (\<lambda>_.
               sx_bind (check_aof_lines directory ls) (\<lambda>ks. sx_return (k # ks))))"

definition check_redis_data :: "path \<Rightarrow> ('w host, unit) sx" where
  "check_redis_data base =
     sx_bind (state_path base ''appendonlydir'' True False) (\<lambda>directory.
     sx_bind (state_path directory ''appendonly.aof.manifest'' False True) (\<lambda>manifest.
     sx_bind (look (\<lambda>h. res_bind (stat_of h manifest) (\<lambda>nd. demand (st_size nd \<le> 65536)))) (\<lambda>_.
     sx_bind (read_text manifest) (\<lambda>t.
       let lines = splitlines t in
     sx_bind (sx_lift (demand (lines \<noteq> [] \<and> length lines \<le> 100))) (\<lambda>_.
     sx_bind (check_aof_lines directory lines) (\<lambda>kinds.
       sx_lift (demand (length (filter (\<lambda>k. k = ''b'') kinds) = 1 \<and> ''i'' \<in> set kinds))))))))"

section \<open>The Compose file\<close>

definition REDIS_COMMAND :: "string list" where
  "REDIS_COMMAND = [''redis-server'', ''--appendonly'', ''yes'', ''--appendfsync'', ''always'',
     ''--aof-load-truncated'', ''no'', ''--maxmemory-policy'', ''noeviction'',
     ''--no-appendfsync-on-rewrite'', ''no'', ''--save'', []]"

definition has_part :: "string \<Rightarrow> string \<Rightarrow> bool" where
  \<comment> \<open>\<open>t in s\<close> for texts\<close>
  "has_part s t \<longleftrightarrow> (\<exists>n \<in> {0..<Suc (length s)}. startswith (drop n s) t)"

fun contains :: "json \<Rightarrow> string \<Rightarrow> bool res" where
  \<comment> \<open>\<open>t in v\<close>\<close>
  "contains (JArr vs) t = Inr (JStr t \<in> set vs)"
| "contains (JObj ms) t = Inr (t \<in> set (map fst ms))"
| "contains (JStr s) t = Inr (has_part s t)"
| "contains _ t = Inl TypeError"

definition strs :: "string list \<Rightarrow> json" where
  "strs ss = JArr (map JStr ss)"

definition get_is :: "json \<Rightarrow> string \<Rightarrow> json \<Rightarrow> json \<Rightarrow> bool res" where
  \<comment> \<open>\<open>v.get(k, d) == w\<close>\<close>
  "get_is v k d w = res_bind (get_or v k d) (\<lambda>x. Inr (py_eq x w))"

definition item_eq :: "json \<Rightarrow> string \<Rightarrow> json \<Rightarrow> bool res" where
  \<comment> \<open>\<open>v[k] == w\<close>\<close>
  "item_eq v k w = res_bind (item_of v k) (\<lambda>x. Inr (py_eq x w))"

definition res_not :: "bool res \<Rightarrow> bool res" where
  "res_not r = res_bind r (\<lambda>b. Inr (\<not> b))"

definition res_or :: "bool res \<Rightarrow> bool res \<Rightarrow> bool res" where
  \<comment> \<open>\<open>a or b\<close>\<close>
  "res_or a b = res_bind a (\<lambda>x. if x then Inr True else b)"

definition MOUNTS :: "string list" where
  "MOUNTS = [''postgres_data:/var/lib/postgresql'', ''rabbitmq_data:/var/lib/rabbitmq'', ''redis_data:/data'',
     ''elasticsearch_data:/usr/share/elasticsearch/data'', ''media_data:/var/zentral'', ''./conf:/zentral-eval-conf:ro'']"

definition FORBIDDEN :: "string list" where
  "FORBIDDEN = [''privileged'', ''network_mode'', ''build'', ''extends'', ''devices'', ''networks'', ''cap_add'']"

definition is_project :: "string \<Rightarrow> bool" where
  "is_project s \<longleftrightarrow> startswith s ''santa-zentral-eval-'' \<and> is_hex_n 12 (drop 19 s)"

definition is_mount :: "json \<Rightarrow> bool res" where
  "is_mount v = (if hashable v then Inr (v \<in> JStr ` set MOUNTS) else Inl TypeError)"

definition compose_service :: "string \<Rightarrow> json \<Rightarrow> unit res" where
  \<comment> \<open>one round of the loop over the services\<close>
  "compose_service name service =
     res_bind (demands (res_all (\<lambda>k. res_bind (get_or service k JNull) (\<lambda>v. Inr (\<not> truthy v))) FORBIDDEN)) (\<lambda>_.
     res_bind (get_or service ''volumes'' (JArr [])) (\<lambda>vols.
     res_bind (iter_of vols) (\<lambda>vs.
     res_bind (demands (res_all is_mount vs)) (\<lambda>_.
     res_bind (demands (get_is service ''ports'' (JArr []) (strs (if name = ''web'' then [''127.0.0.1:8000:8000''] else [])))) (\<lambda>_.
       demands (if name = ''redis'' then Inr True else res_not (contains vols ''redis_data:/data'')))))))"

definition compose_redis :: "json \<Rightarrow> json \<Rightarrow> unit res" where
  "compose_redis data redis =
     res_bind (get_or data ''volumes'' (JObj [])) (\<lambda>vols.
     res_bind (res_or (contains vols ''redis_data'') (res_bind (get_or redis ''volumes'' JNull) (\<lambda>v. Inr (truthy v)))) (\<lambda>persistent.
       if \<not> persistent then Inr ()
       else res_bind (demands (res_and (get_is redis ''volumes'' JNull (strs [''redis_data:/data'']))
                                       (get_is redis ''command'' JNull (strs REDIS_COMMAND)))) (\<lambda>_.
            demands (get_is vols ''redis_data'' JNull (JObj [])))))"

definition compose_ok :: "json \<Rightarrow> unit res" where
  \<comment> \<open>the checks of \<open>validate_compose\<close> on the decoded file\<close>
  "compose_ok data =
     res_bind (demands (res_bind (set_of data) (\<lambda>s. Inr (s \<subseteq> JStr ` {''name'', ''services'', ''volumes''})))) (\<lambda>_.
     res_bind (demands (res_bind (get_or data ''name'' (JStr [])) (full_match is_project))) (\<lambda>_.
     res_bind (demands (res_bind (get_or data ''services'' (JObj [])) (\<lambda>s. has_keys s (DEPENDENCIES @ APPS)))) (\<lambda>_.
     res_bind (services_of data) (\<lambda>its.
     res_bind (res_map (\<lambda>(name, service). compose_service name service) its) (\<lambda>_.
     res_bind (service_of data ''redis'') (\<lambda>redis.
     res_bind (compose_redis data redis) (\<lambda>_.
       demands (res_bind (service_of data ''web'') (\<lambda>w. res_bind (get_or w ''image'' (JStr [])) (full_match is_sha_ref))))))))))"

definition validate_compose :: "py_env \<Rightarrow> path \<Rightarrow> ('w host, path \<times> string) sx" where
  "validate_compose e p0 =
     sx_bind (look (\<lambda>h. resolve h p0)) (\<lambda>p.
     sx_bind (look (\<lambda>h. demand (is_file h p))) (\<lambda>_.
     sx_bind (read_bytes p) (\<lambda>raw.
     sx_bind (sx_lift (load_json e raw)) (\<lambda>data.
     sx_bind (sx_lift (compose_ok data)) (\<lambda>_. sx_return (p, sha256_hex raw))))))"

section \<open>The bundle of a runtime\<close>

definition bundle_volumes :: json where
  "bundle_volumes = JObj (map (\<lambda>n. (n, JObj []))
     [''postgres_data'', ''redis_data'', ''rabbitmq_data'', ''elasticsearch_data'', ''media_data''])"

definition image_of :: "json \<Rightarrow> string \<Rightarrow> json res" where
  "image_of data name = res_bind (service_of data name) (\<lambda>s. item_of s ''image'')"

definition app_images_ok :: "json \<Rightarrow> bool res" where
  \<comment> \<open>the set of the application images has one element, an image digest\<close>
  "app_images_ok data =
     res_bind (res_map (image_of data) APPS) (\<lambda>is.
       if \<not> list_all hashable is then Inl TypeError
       else if \<not> list_all (py_eq (hd is)) is then Inr False
       else full_match is_sha_ref (hd is))"

definition bundle_ok :: "json \<Rightarrow> unit res" where
  \<comment> \<open>the checks of \<open>bundle\<close> on the decoded file\<close>
  "bundle_ok data =
     res_bind (demands (res_and (item_eq data ''volumes'' bundle_volumes)
        (res_all (\<lambda>(name, expected). res_bind (service_of data name) (\<lambda>s. res_bind (get_or s ''volumes'' (JArr [])) (\<lambda>v.
           res_bind (sorted_texts v) (\<lambda>vs. Inr (vs = sort expected))))) VOLUMES))) (\<lambda>_.
     res_bind (demands (res_bind (service_of data ''rabbitmq'') (\<lambda>s. get_is s ''hostname'' JNull (JStr ''rabbitmq'')))) (\<lambda>_.
     res_bind (demands (res_bind (services_of data) (res_all (\<lambda>(_, s). get_is s ''restart'' JNull (JStr ''no''))))) (\<lambda>_.
     res_bind (demands (app_images_ok data)) (\<lambda>_.
       demands (res_all (\<lambda>name. res_bind (image_of data name) (full_match is_pinned_ref)) DEPENDENCIES)))))"

type_synonym hashes = "(string, string) dict"

fun env_files :: "path \<Rightarrow> json list \<Rightarrow> hashes \<Rightarrow> ('w host, hashes) sx" where
  "env_files p [] files = sx_return files"
| "env_files p (n # ns) files =
     sx_bind (sx_lift (demands (full_match is_env_name n))) (\<lambda>_.
       let name = (case n of JStr s \<Rightarrow> s | _ \<Rightarrow> []) in
     sx_bind (checked_path (path_join (path_parent p) (drop 2 name)) True) (\<lambda>f.
     sx_bind (read_bytes f) (\<lambda>raw. env_files p ns (dset (path_str f) (sha256_hex raw) files))))"

fun service_files :: "path \<Rightarrow> json list \<Rightarrow> hashes \<Rightarrow> ('w host, hashes) sx" where
  "service_files p [] files = sx_return files"
| "service_files p (s # ss) files =
     sx_bind (sx_lift (res_bind (get_or s ''env_file'' (JArr [])) iter_of)) (\<lambda>ns.
     sx_bind (env_files p ns files) (service_files p ss))"

definition bundle_of :: "'x runtime_env \<Rightarrow> path \<Rightarrow> ('x chost, path \<times> json \<times> hashes) sx" where
  "bundle_of e compose =
     sx_bind (compose_helper e) (\<lambda>_.
     sx_bind (checked_path compose True) (\<lambda>c.
     sx_bind (validate_compose (re_py e) c) (\<lambda>(p, digest).
     sx_bind (read_text p) (\<lambda>t.
     sx_bind (sx_lift (load_text (re_py e) t)) (\<lambda>data.
     sx_bind (sx_lift (bundle_ok data)) (\<lambda>_.
     sx_bind (checked_path (path_join (path_parent p) ''conf/base.json'') False) (\<lambda>config.
     sx_bind (read_bytes config) (\<lambda>raw.
     sx_bind (sx_lift (services_of data)) (\<lambda>its.
     sx_bind (service_files p (map snd its) (dset (path_str config) (sha256_hex raw) [(path_str p, digest)])) (\<lambda>files.
       sx_return (p, data, files)))))))))))"

section \<open>The manifest\<close>

definition texts :: "hashes \<Rightarrow> json" where
  "texts d = JObj (map (\<lambda>(k, v). (k, JStr v)) d)"

fun helper_hashes :: "path \<Rightarrow> string list \<Rightarrow> ('w host, hashes) sx" where
  "helper_hashes f [] = sx_return []"
| "helper_hashes f (n # ns) =
     sx_bind (read_bytes (with_name f n)) (\<lambda>raw.
     sx_bind (helper_hashes f ns) (\<lambda>d. sx_return ((n, sha256_hex raw) # d)))"

definition MANIFEST_KEYS :: "string list" where
  "MANIFEST_KEYS = [''scope'', ''compose'', ''project'', ''files'', ''policy_hashes'', ''source_commit'', ''controller_sha256'', ''helpers_sha256'']"

definition policies_ok :: "json \<Rightarrow> bool res" where
  "policies_ok v = res_and (has_keys v (map fst POLICIES))
     (res_bind (items_of v) (res_all (\<lambda>(_, x). full_match is_sha256_hex x)))"

definition manifest_json :: "path \<Rightarrow> json \<Rightarrow> hashes \<Rightarrow> hashes \<Rightarrow> string \<Rightarrow> hashes \<Rightarrow> json" where
  "manifest_json p project files policy_hashes controller helpers = JObj
     [(''scope'', JStr ''private-initialized-runtime-service-v1''), (''compose'', JStr (path_str p)), (''project'', project),
      (''files'', texts files), (''policy_hashes'', texts policy_hashes), (''source_commit'', JStr COMMIT),
      (''controller_sha256'', JStr controller), (''helpers_sha256'', texts helpers)]"

definition prepare :: "'x runtime_env \<Rightarrow> string \<Rightarrow> string \<Rightarrow> hashes \<Rightarrow> ('x chost, path) sx" where
  "prepare e compose destination policy_hashes =
     (let dst = py_path destination; target = path_join dst ''manifest.json'' in
      sx_bind (trusted_sources e) (\<lambda>_.
      sx_bind (sx_lift (demands (policies_ok (texts policy_hashes)))) (\<lambda>_.
      sx_bind (bundle_of e (py_path compose)) (\<lambda>(p, data, files).
      sx_bind (look (\<lambda>h. res_bind (demand (is_absolute dst)) (\<lambda>_. res_bind (resolve h (path_parent dst)) (\<lambda>q.
         demand (path_parent dst = q \<and> path_parent dst = path_parent p \<and> path_name dst = ''runtime-service''))))) (\<lambda>_.
      sx_bind (sx_lift (item_of data ''name'')) (\<lambda>project.
      sx_bind (read_bytes (py_path (re_file e))) (\<lambda>raw.
      sx_bind (helper_hashes (py_path (re_file e)) HELPERS) (\<lambda>helpers.
        let manifest = dumps (re_py e) (jsort (manifest_json p project files policy_hashes (sha256_hex raw) helpers)) in
      sx_bind (look (\<lambda>h. Inr (path_exists h dst \<or> is_symlink h dst))) (\<lambda>existing.
        if existing
        then sx_bind (checked_path target True) (\<lambda>t.
             sx_bind (read_bytes t) (\<lambda>old. if old \<noteq> manifest then sx_raise FileExistsError else sx_return t))
        else sx_bind (mkdir dst 448 False) (\<lambda>_.
             sx_bind (write_new target manifest 384) (\<lambda>_. sx_return target)))))))))))"

definition load_manifest :: "'x runtime_env \<Rightarrow> path \<Rightarrow> string \<Rightarrow> ('x chost, json \<times> json) sx" where
  "load_manifest e p0 expected =
     sx_bind (trusted_sources e) (\<lambda>_.
     sx_bind (checked_path p0 True) (\<lambda>p.
     sx_bind (read_bytes p) (\<lambda>raw.
     sx_bind (sx_lift (demand (is_sha256_hex expected \<and> sha256_hex raw = expected))) (\<lambda>_.
     sx_bind (sx_lift (load_json (re_py e) raw)) (\<lambda>manifest.
     sx_bind (sx_lift (demands (res_and (has_keys manifest MANIFEST_KEYS)
        (res_and (item_eq manifest ''scope'' (JStr ''private-initialized-runtime-service-v1''))
                 (item_eq manifest ''source_commit'' (JStr COMMIT)))))) (\<lambda>_.
     sx_bind (read_bytes (py_path (re_file e))) (\<lambda>own.
     sx_bind (sx_lift (demands (item_eq manifest ''controller_sha256'' (JStr (sha256_hex own))))) (\<lambda>_.
     sx_bind (helper_hashes (py_path (re_file e)) HELPERS) (\<lambda>helpers.
     sx_bind (sx_lift (demands (item_eq manifest ''helpers_sha256'' (texts helpers)))) (\<lambda>_.
     sx_bind (sx_lift (text_item manifest ''compose'')) (\<lambda>c.
     sx_bind (bundle_of e (py_path c)) (\<lambda>(compose, data, files).
     sx_bind (sx_lift (demands (res_and (item_eq manifest ''files'' (texts files))
        (res_and (res_bind (item_of data ''name'') (item_eq manifest ''project''))
                 (Inr (path_parent p = path_join (path_parent compose) ''runtime-service'')))))) (\<lambda>_.
     sx_bind (sx_lift (demands (res_bind (item_of manifest ''policy_hashes'') policies_ok))) (\<lambda>_.
       sx_return (manifest, data)))))))))))))))"

section \<open>The unit\<close>

definition unit_path_ok :: "string \<Rightarrow> bool" where
  "unit_path_ok v \<longleftrightarrow> startswith v ''/'' \<and> length v \<ge> 2 \<and> list_all (\<lambda>c. is_alnum c \<or> c \<in> set ''/_.-'') (tl v)
     \<and> is_relative_to (py_path v) RUNTIME_ROOT \<and> ''..'' \<notin> set (p_parts (py_path v))"

definition unit_lines :: "string \<Rightarrow> string \<Rightarrow> string \<Rightarrow> string list" where
  "unit_lines script manifest digest =
     [''[Unit]'', ''Description=Private Santa initialized runtime'', ''Requires=docker.service'', ''PartOf=docker.service'',
      ''After=docker.service network-online.target'', ''Wants=network-online.target'', ''StartLimitIntervalSec=600'',
      ''StartLimitBurst=3'', [], ''[Service]'', ''Type=notify'', ''NotifyAccess=main'',
      ''ExecStart=/usr/bin/python3 -I '' @ script @ '' run --manifest '' @ manifest @ '' --sha256 '' @ digest,
      ''Restart=on-failure'', ''RestartSec=30'', ''TimeoutStartSec=420'', ''TimeoutStopSec=360'', ''UMask=0077'',
      ''NoNewPrivileges=true'', ''PrivateTmp=true'', ''ProtectHome=true'', [], ''[Install]'', ''WantedBy=multi-user.target'']"

definition unit_text :: "path \<Rightarrow> path \<Rightarrow> string \<Rightarrow> string res" where
  "unit_text script manifest digest =
     res_bind (demand (unit_path_ok (path_str script))) (\<lambda>_.
     res_bind (demand (unit_path_ok (path_str manifest))) (\<lambda>_.
     res_bind (demand (is_sha256_hex digest)) (\<lambda>_.
       Inr (concat (map (\<lambda>l. l @ [CHR 0x0A]) (unit_lines (path_str script) (path_str manifest) digest))))))"

definition checked_run :: "'x runtime_env \<Rightarrow> nat \<Rightarrow> string list \<Rightarrow> ('x chost, unit) sx" where
  \<comment> \<open>\<open>subprocess.run(args, check=True, ...)\<close>\<close>
  "checked_run e limit args =
     sx_bind (run_tool e (re_environ e) limit args) (\<lambda>r. if returncode r = 0 then sx_return () else sx_raise SubprocessError)"

definition install_unit :: "'x runtime_env \<Rightarrow> path \<Rightarrow> string \<Rightarrow> bool \<Rightarrow> ('x chost, unit) sx" where
  "install_unit e manifest digest enable_now =
     sx_bind (trusted_sources e) (\<lambda>controller.
     sx_bind (load_manifest e manifest digest) (\<lambda>_.
     sx_bind (sx_lift (unit_text controller manifest digest)) (\<lambda>raw.
     sx_bind (look (\<lambda>h. demand (\<not> is_symlink h UNIT))) (\<lambda>_.
     sx_bind (look (\<lambda>h. Inr (path_exists h UNIT))) (\<lambda>existing.
     sx_bind (if existing
              then sx_bind (look (\<lambda>h. res_bind (stat_of h UNIT) (\<lambda>nd. demand (n_uid nd = 0 \<and> \<not> mode_has nd 18)))) (\<lambda>_.
                   sx_bind (read_bytes UNIT) (\<lambda>old. sx_lift (demand (old = raw))))
              else write_new UNIT raw 420) (\<lambda>_.  \<comment> \<open>420 is \<open>0o644\<close>\<close>
     sx_bind (checked_run e 30 [''systemctl'', ''daemon-reload'']) (\<lambda>_.
     sx_bind (if enable_now then checked_run e 450 [''systemctl'', ''enable'', ''--now'', path_name UNIT] else sx_return ()) (\<lambda>_.
       say ''SANTA_PRIVATE_RUNTIME_UNIT_INSTALLED''))))))))"

end
