(* ===== verification/Runtime_Service.thy ===== *)
theory Runtime_Service
  imports Runtime_Bundle
begin

text \<open>
  The supervisor of one initialised runtime, class \<open>Runtime\<close> of
  \<open>experiments/server/runtime_service.py\<close>: its fields are the record \<open>runtime\<close>, the state of every
  method is that record with the host, and each method is one definition.  The signal handler
  only sets \<open>stopping\<close>; a signal is noticed where the code next looks at the flag.
\<close>

section \<open>The object\<close>

record runtime =
  manifest_path :: path
  rt_digest :: string
  rt_binding :: json
  rt_data :: json
  project :: string
  environment :: environ
  rt_command :: "string list"
  evidence :: path
  ids :: "string list"
  cleanup_ids :: "string list"
  images :: "(string, json) dict"
  rendered :: "json option"
  stopping :: bool
  handling :: bool  \<comment> \<open>whether the signal handlers are installed\<close>
  phase :: string
  helpers :: "string list"  \<comment> \<open>a set; walked in the order of insertion\<close>

type_synonym 'x rt = "runtime \<times> 'x chost"

definition on_host :: "('x chost, 'a) sx \<Rightarrow> ('x rt, 'a) sx" where
  "on_host m s = (let (r, h) = m (snd s) in (r, (fst s, h)))"

definition self :: "(runtime \<Rightarrow> 'a) \<Rightarrow> ('x rt, 'a) sx" where
  "self f s = (Inr (f (fst s)), s)"

definition assign :: "(runtime \<Rightarrow> runtime) \<Rightarrow> ('x rt, unit) sx" where
  "assign f s = (Inr (), (f (fst s), snd s))"

definition sx_finally :: "('s, 'a) sx \<Rightarrow> ('s, unit) sx \<Rightarrow> ('s, 'a) sx" where
  \<comment> \<open>\<open>try: m; finally: f\<close>; a run that does not end never reaches \<open>f\<close>\<close>
  "sx_finally m f s = (case m s of
       (Inl Diverge, s1) \<Rightarrow> (Inl Diverge, s1)
     | (r, s1) \<Rightarrow> (case f s1 of (Inl x, s2) \<Rightarrow> (Inl x, s2) | (Inr _, s2) \<Rightarrow> (r, s2)))"

definition new_runtime :: "'x runtime_env \<Rightarrow> path \<Rightarrow> string \<Rightarrow> ('x chost, runtime) sx" where
  \<comment> \<open>\<open>__init__\<close>\<close>
  "new_runtime e manifest digest =
     sx_bind (load_manifest e manifest digest) (\<lambda>(b, data).
     sx_bind (sx_lift (text_item data ''name'')) (\<lambda>name.
     sx_bind (sx_lift (text_item b ''compose'')) (\<lambda>compose.
     sx_bind (outside (re_uuid e)) (\<lambda>u.
       let ev = path_join (path_parent manifest) (''attempt-'' @ u); config = path_join ev ''docker-config'' in
     sx_bind (mkdir ev 448 False) (\<lambda>_.
     sx_bind (mkdir config 448 False) (\<lambda>_.
       sx_return \<lparr>manifest_path = manifest, rt_digest = digest, rt_binding = b, rt_data = data, project = name,
         environment = dset ''DOCKER_CONFIG'' (path_str config)
           (filter (\<lambda>(k, _). \<not> startswith k ''DOCKER_'' \<and> \<not> startswith k ''COMPOSE_'') (re_environ e)),
         rt_command = DOCKER @ [''compose'', ''--project-name'', name, ''-f'', compose],
         evidence = ev, ids = [], cleanup_ids = [], images = [], rendered = None, stopping = False,
         handling = False, phase = ''prepared'', helpers = []\<rparr>))))))"

section \<open>Steps of a run\<close>

definition poll :: "'x runtime_env \<Rightarrow> ('x rt, unit) sx" where
  \<comment> \<open>a signal that arrived since the flag was last read runs its handler\<close>
  "poll e =
     sx_bind (self handling) (\<lambda>on.
       if on then sx_bind (on_host (outside (re_signal e))) (\<lambda>b. assign (\<lambda>r. r\<lparr>stopping := stopping r \<or> b\<rparr>))
       else sx_return ())"

definition ensure_running :: "'x runtime_env \<Rightarrow> ('x rt, unit) sx" where
  "ensure_running e = sx_bind (poll e) (\<lambda>_. sx_bind (self stopping) (\<lambda>b. if b then sx_raise Cancelled else sx_return ()))"

definition write_evidence :: "'x runtime_env \<Rightarrow> string \<Rightarrow> json \<Rightarrow> ('x rt, unit) sx" where
  "write_evidence e name v = sx_bind (self evidence) (\<lambda>ev. on_host (private_write (re_py e) (path_join ev name) v))"

definition diagnostic :: "'x runtime_env \<Rightarrow> string \<Rightarrow> json \<Rightarrow> ('x rt, unit) sx" where
  "diagnostic e label v =
     sx_bind (on_host (outside (re_uuid e))) (\<lambda>u. write_evidence e (label @ ''-'' @ u @ ''.json'') v)"

record call_options =
  o_timeout :: nat
  o_allowed_failure :: bool
  o_record :: bool
  o_allow_stopping :: bool

definition plain :: call_options where
  "plain = \<lparr>o_timeout = 30, o_allowed_failure = False, o_record = True, o_allow_stopping = False\<rparr>"

definition call :: "'x runtime_env \<Rightarrow> string \<Rightarrow> string list \<Rightarrow> call_options \<Rightarrow> ('x rt, finished) sx" where
  "call e label args opts =
     sx_bind (if o_allow_stopping opts then sx_return () else ensure_running e) (\<lambda>_.
     sx_bind (assign (\<lambda>r. r\<lparr>phase := label\<rparr>)) (\<lambda>_.
     sx_bind (self environment) (\<lambda>env.
     sx_bind (sx_catch (on_host (run_tool e env (o_timeout opts) args)) (\<lambda>x.
        if x = SubprocessError
        then Some (sx_bind (diagnostic e label (JObj [(''timeout'', JBool True)])) (\<lambda>_. sx_raise RuntimeError)) else None)) (\<lambda>result.
     sx_bind (if o_record opts \<or> returncode result \<noteq> 0
              then diagnostic e label (JObj [(''returncode'', JInt (returncode result)), (''stdout'', JStr (stdout result)), (''stderr'', JStr (stderr result))])
              else sx_return ()) (\<lambda>_.
     sx_bind (if returncode result \<noteq> 0 \<and> \<not> o_allowed_failure opts then sx_raise RuntimeError else sx_return ()) (\<lambda>_.
     sx_bind (if o_allow_stopping opts then sx_return () else ensure_running e) (\<lambda>_.
       sx_return result)))))))"

definition call_json :: "'x runtime_env \<Rightarrow> string \<Rightarrow> string list \<Rightarrow> call_options \<Rightarrow> ('x rt, json) sx" where
  \<comment> \<open>\<open>json.loads(self.call(...).stdout)\<close>\<close>
  "call_json e label args opts = sx_bind (call e label args opts) (\<lambda>r. sx_lift (load_text (re_py e) (stdout r)))"

section \<open>Inspection of the containers\<close>

fun all_of :: "bool res list \<Rightarrow> bool res" where
  \<comment> \<open>\<open>a and b and ...\<close>\<close>
  "all_of [] = Inr True"
| "all_of (r # rs) = res_and r (all_of rs)"

fun dig :: "json \<Rightarrow> string list \<Rightarrow> json res" where
  \<comment> \<open>\<open>v[a][b]...\<close>\<close>
  "dig v [] = Inr v"
| "dig v (k # ks) = res_bind (item_of v k) (\<lambda>w. dig w ks)"

fun first_of :: "json \<Rightarrow> json res" where
  \<comment> \<open>\<open>v[0]\<close>\<close>
  "first_of (JArr vs) = (case vs of [] \<Rightarrow> Inl IndexError | v # _ \<Rightarrow> Inr v)"
| "first_of (JObj ms) = Inl KeyError"
| "first_of (JStr s) = (case code_points s of [] \<Rightarrow> Inl IndexError | c # _ \<Rightarrow> Inr (JStr (utf8_encode c)))"
| "first_of _ = Inl TypeError"

definition or_else :: "json \<Rightarrow> json \<Rightarrow> json" where
  \<comment> \<open>\<open>v or w\<close>\<close>
  "or_else v w = (if truthy v then v else w)"

definition falsy_at :: "json \<Rightarrow> string \<Rightarrow> bool res" where
  \<comment> \<open>\<open>not v.get(k)\<close>\<close>
  "falsy_at v k = res_bind (get_or v k JNull) (\<lambda>x. Inr (\<not> truthy x))"

definition res_eq :: "json res \<Rightarrow> json res \<Rightarrow> bool res" where
  "res_eq a b = res_bind a (\<lambda>x. res_bind b (\<lambda>y. Inr (py_eq x y)))"

fun pair_of :: "json \<Rightarrow> (string \<times> string) res" where
  \<comment> \<open>the two parts of \<open>item.split('=', 1)\<close>\<close>
  "pair_of (JStr s) = (case split_first (CHR ''='') s of None \<Rightarrow> Inl ValueError | Some kv \<Rightarrow> Inr kv)"
| "pair_of _ = Inl AttributeError"

fun name_of :: "json \<Rightarrow> string res" where
  \<comment> \<open>\<open>item.split('=', 1)[0]\<close>\<close>
  "name_of (JStr s) = Inr (case split_first (CHR ''='') s of None \<Rightarrow> s | Some (k, _) \<Rightarrow> k)"
| "name_of _ = Inl AttributeError"

definition dict_of :: "(string \<times> 'v) list \<Rightarrow> (string, 'v) dict" where
  "dict_of kvs = foldl (\<lambda>d (k, v). dset k v d) [] kvs"

definition env_dict :: "json \<Rightarrow> environ res" where
  \<comment> \<open>\<open>dict(item.split('=', 1) for item in v)\<close>\<close>
  "env_dict v = res_bind (iter_of v) (\<lambda>vs. res_bind (res_map pair_of vs) (\<lambda>kvs. Inr (dict_of kvs)))"

fun py_str :: "py_env \<Rightarrow> json \<Rightarrow> string" where
  \<comment> \<open>\<open>str(v)\<close> of the scalars Compose renders into an environment\<close>
  "py_str e JNull = ''None''"
| "py_str e (JBool b) = (if b then ''True'' else ''False'')"
| "py_str e (JStr s) = s"
| "py_str e v = dumps e v"

definition same_set :: "json list \<Rightarrow> json list \<Rightarrow> bool" where
  \<comment> \<open>equality of two sets, up to \<open>==\<close>\<close>
  "same_set xs ys \<longleftrightarrow> list_all (\<lambda>x. list_ex (py_eq x) ys) xs \<and> list_all (\<lambda>y. list_ex (py_eq y) xs) ys"

definition row_owner :: "string \<Rightarrow> json \<Rightarrow> (string, string) dict \<Rightarrow> json \<Rightarrow> string res" where
  "row_owner proj data selected row =
     res_bind (item_of row ''Config'') (\<lambda>config.
     res_bind (get_or config ''Labels'' (JObj [])) (\<lambda>labels.
     res_bind (get_or labels ''com.docker.compose.service'' JNull) (\<lambda>name.
     res_bind (demands (all_of [get_is labels ''com.docker.compose.project'' JNull (JStr proj),
        res_bind (item_of data ''services'') (key_in name),
        Inr (name \<notin> JStr ` set (map fst selected))])) (\<lambda>_.
       case name of JStr s \<Rightarrow> Inr s | _ \<Rightarrow> Inl TypeError))))"

definition row_image :: "bool \<Rightarrow> json \<Rightarrow> string \<Rightarrow> json \<Rightarrow> unit res" where
  \<comment> \<open>image, restart policy, readiness and source revision\<close>
  "row_image running img name row =
     res_bind (demands (all_of [res_eq (item_of row ''Image'') (item_of img ''Id''),
        res_eq (dig row [''HostConfig'', ''RestartPolicy'', ''Name'']) (Inr (JStr ''no'')),
        if running then res_bind (dig row [''State'', ''Running'']) (\<lambda>v. Inr (truthy v)) else Inr True])) (\<lambda>_.
       demands (if name \<in> set APPS
         then res_bind (item_of img ''Config'') (\<lambda>c. res_bind (get_or c ''Labels'' (JObj [])) (\<lambda>l.
                get_is l ''org.opencontainers.image.revision'' JNull (JStr COMMIT)))
         else Inr True))"

definition row_boundary :: "json \<Rightarrow> json \<Rightarrow> json \<Rightarrow> unit res" where
  \<comment> \<open>command, entry point, user, privileges and node identity\<close>
  "row_boundary service img row =
     res_bind (item_of row ''Config'') (\<lambda>config.
     res_bind (item_of row ''HostConfig'') (\<lambda>host.
     res_bind (item_of img ''Config'') (\<lambda>ic.
     res_bind (demands (all_of
       [res_eq (get_or config ''Cmd'' JNull) (res_bind (get_or ic ''Cmd'' JNull) (get_or service ''command'')),
        res_eq (get_or config ''Entrypoint'' JNull) (get_or ic ''Entrypoint'' JNull),
        res_eq (res_bind (get_or config ''User'' JNull) (\<lambda>v. Inr (or_else v (JStr []))))
               (res_bind (get_or ic ''User'' JNull) (\<lambda>v. Inr (or_else v (JStr [])))),
        falsy_at host ''Privileged'', falsy_at host ''CapAdd'', falsy_at host ''PidMode'', falsy_at host ''Devices'',
        falsy_at host ''PublishAllPorts'',
        get_is host ''SecurityOpt'' JNull (strs [''no-new-privileges:true''])])) (\<lambda>_.
       demands (res_bind (contains service ''hostname'') (\<lambda>b.
         if b then res_eq (get_or config ''Hostname'' JNull) (item_of service ''hostname'') else Inr True))))))"

definition row_environment :: "py_env \<Rightarrow> json \<Rightarrow> string \<Rightarrow> json \<Rightarrow> json \<Rightarrow> unit res" where
  "row_environment e rend name img row =
     res_bind (item_of img ''Config'') (\<lambda>ic.
     res_bind (res_bind (get_or ic ''Env'' (JArr [])) env_dict) (\<lambda>base.
     res_bind (dig rend [''services'', name]) (\<lambda>rs.
     res_bind (res_bind (get_or rs ''environment'' (JObj [])) items_of) (\<lambda>its.
     res_bind (dig row [''Config'']) (\<lambda>config.
     res_bind (get_or config ''Env'' (JArr [])) (\<lambda>actual.
     res_bind (res_bind (iter_of actual) (res_map name_of)) (\<lambda>names.
     res_bind (demand (card (set names) = length names)) (\<lambda>_.
     res_bind (env_dict actual) (\<lambda>d.
       demand (set d = set (foldl (\<lambda>m (k, v). dset k (py_str e v) m) base its)))))))))))"

definition mount_tuple :: "string \<Rightarrow> string \<Rightarrow> string \<Rightarrow> bool \<Rightarrow> json" where
  "mount_tuple kind source target rw = JArr [JStr kind, JStr source, JStr target, JBool rw]"

definition expected_mount :: "string \<Rightarrow> path \<Rightarrow> json \<Rightarrow> json res" where
  "expected_mount proj compose volume =
     (case volume of
        JStr s \<Rightarrow>
          (case split_on (CHR '':'') s of
             source # target # _ \<Rightarrow>
               Inr (if source = ''./conf'' then mount_tuple ''bind'' (path_str (path_join (path_parent compose) ''conf'')) target False
                    else mount_tuple ''volume'' (proj @ ''_'' @ source) target True)
           | _ \<Rightarrow> Inl ValueError)
      | _ \<Rightarrow> Inl AttributeError)"

definition actual_mount :: "json \<Rightarrow> json res" where
  "actual_mount m =
     res_bind (item_of m ''Type'') (\<lambda>t.
     res_bind (if py_eq t (JStr ''bind'') then item_of m ''Source'' else get_or m ''Name'' JNull) (\<lambda>s.
     res_bind (item_of m ''Destination'') (\<lambda>d.
     res_bind (item_of m ''RW'') (\<lambda>rw.
       if list_all hashable [t, s, d, rw] then Inr (JArr [t, s, d, rw]) else Inl TypeError))))"

definition row_mounts :: "string \<Rightarrow> path \<Rightarrow> json \<Rightarrow> json \<Rightarrow> unit res" where
  "row_mounts proj compose service row =
     res_bind (res_bind (get_or service ''volumes'' (JArr [])) iter_of) (\<lambda>vs.
     res_bind (res_map (expected_mount proj compose) vs) (\<lambda>expected.
     res_bind (item_of row ''Mounts'') (\<lambda>mounts.
     res_bind (res_bind (iter_of mounts) (res_map actual_mount)) (\<lambda>actual.
     res_bind (len_of mounts) (\<lambda>n.
       demand (same_set actual expected \<and> n = card (set expected)))))))"

definition web_ports :: "string \<Rightarrow> (string \<times> json) list" where
  "web_ports name = (if name = ''web''
     then [(''8000/tcp'', JArr [JObj [(''HostIp'', JStr ''127.0.0.1''), (''HostPort'', JStr ''8000'')]])] else [])"

definition row_ports :: "string \<Rightarrow> string \<Rightarrow> json \<Rightarrow> json \<Rightarrow> unit res" where
  "row_ports proj name img row =
     (let ports = JObj (web_ports name); network = proj @ ''_default'' in
      res_bind (item_of row ''HostConfig'') (\<lambda>host.
      res_bind (demands (all_of
        [res_bind (get_or host ''PortBindings'' JNull) (\<lambda>v. Inr (py_eq (or_else v (JObj [])) ports)),
         get_is host ''NetworkMode'' JNull (JStr network),
         res_bind (dig row [''NetworkSettings'', ''Networks'']) (\<lambda>v. has_keys v [network])])) (\<lambda>_.
      res_bind (item_of row ''NetworkSettings'') (\<lambda>ns.
      res_bind (get_or ns ''Ports'' JNull) (\<lambda>ap.
      res_bind (items_of (or_else ap (JObj []))) (\<lambda>actual.
      res_bind (demand (list_all (\<lambda>(_, v). \<not> py_eq v (JArr [])) actual)) (\<lambda>_.
      res_bind (item_of img ''Config'') (\<lambda>ic.
      res_bind (get_or ic ''ExposedPorts'' JNull) (\<lambda>ep.
      res_bind (set_of (or_else ep (JObj []))) (\<lambda>exposed.
        let published = JObj (filter (\<lambda>(_, v). v \<noteq> JNull) actual);
            allowed = exposed \<union> (if name = ''web'' then {JStr ''8000/tcp''} else {}) in
      res_bind (demand (list_all (\<lambda>(p, v). v = JNull \<longrightarrow> JStr p \<in> allowed) actual)) (\<lambda>_.
      res_bind (dig row [''State'', ''Running'']) (\<lambda>up.
        demand (if truthy up then py_eq published ports
                else py_eq published (JObj []) \<or> py_eq published ports)))))))))))))"

definition row_ok :: "py_env \<Rightarrow> runtime \<Rightarrow> json \<Rightarrow> bool \<Rightarrow> string \<Rightarrow> json \<Rightarrow> json \<Rightarrow> string res" where
  \<comment> \<open>the checks of one container after its image is known, and its identity\<close>
  "row_ok e r rend running name img row =
     res_bind (service_of (rt_data r) name) (\<lambda>service.
     res_bind (text_item (rt_binding r) ''compose'') (\<lambda>compose.
     res_bind (row_image running img name row) (\<lambda>_.
     res_bind (row_boundary service img row) (\<lambda>_.
     res_bind (row_environment e rend name img row) (\<lambda>_.
     res_bind (row_mounts (project r) (py_path compose) service row) (\<lambda>_.
     res_bind (row_ports (project r) name img row) (\<lambda>_.
       text_item row ''Id'')))))))"

definition need_image :: "'x runtime_env \<Rightarrow> string \<Rightarrow> ('x rt, json) sx" where
  "need_image e ref =
     sx_bind (self images) (\<lambda>imgs.
       case dget imgs ref of
         Some v \<Rightarrow> sx_return v
       | None \<Rightarrow>
           sx_bind (call_json e ''image-inspection'' (DOCKER @ [''image'', ''inspect'', ref]) plain) (\<lambda>v.
           sx_bind (sx_lift (first_of v)) (\<lambda>img.
           sx_bind (assign (\<lambda>r. r\<lparr>images := dset ref img (images r)\<rparr>)) (\<lambda>_. sx_return img))))"

fun check_rows :: "'x runtime_env \<Rightarrow> json \<Rightarrow> bool \<Rightarrow> json list \<Rightarrow> (string, string) dict \<Rightarrow> ('x rt, (string, string) dict) sx" where
  "check_rows e rend running [] selected = sx_return selected"
| "check_rows e rend running (row # rows) selected =
     sx_bind (self id) (\<lambda>r.
     sx_bind (sx_lift (row_owner (project r) (rt_data r) selected row)) (\<lambda>name.
     sx_bind (sx_lift (res_bind (service_of (rt_data r) name) (\<lambda>s. text_item s ''image''))) (\<lambda>ref.
     sx_bind (need_image e ref) (\<lambda>img.
     sx_bind (sx_lift (row_ok (re_py e) r rend running name img row)) (\<lambda>cid.
       check_rows e rend running rows (dset name cid selected))))))"

definition rows_are :: "json \<Rightarrow> string list \<Rightarrow> json list res" where
  \<comment> \<open>as many rows as identities, and exactly these identities\<close>
  "rows_are v cids =
     res_bind (len_of v) (\<lambda>n.
     res_bind (demand (n = length cids)) (\<lambda>_.
     res_bind (iter_of v) (\<lambda>rows.
     res_bind (res_map (\<lambda>row. item_of row ''Id'') rows) (\<lambda>is.
     res_bind (if list_all hashable is then Inr () else Inl TypeError) (\<lambda>_.
     res_bind (demand (set is = JStr ` set cids)) (\<lambda>_. Inr rows))))))"

definition need_rendered :: "'x runtime_env \<Rightarrow> ('x rt, json) sx" where
  "need_rendered e =
     sx_bind (self rendered) (\<lambda>v. case v of Some w \<Rightarrow> sx_return w
       | None \<Rightarrow> sx_bind (self rt_command) (\<lambda>cmd.
           sx_bind (call_json e ''rendered-compose'' (cmd @ [''config'', ''--format'', ''json'']) plain) (\<lambda>w.
           sx_bind (assign (\<lambda>r. r\<lparr>rendered := Some w\<rparr>)) (\<lambda>_. sx_return w))))"

definition inspect :: "'x runtime_env \<Rightarrow> bool \<Rightarrow> bool \<Rightarrow> ('x rt, (string, string) dict) sx" where
  "inspect e running recorded =
     (let opts = plain\<lparr>o_record := recorded\<rparr> in
      sx_bind (self id) (\<lambda>r.
      sx_bind (if ids r \<noteq> [] then sx_return (ids r)
               else sx_bind (call e ''container-selection'' (DOCKER @ [''ps'', ''--all'', ''--quiet'', ''--no-trunc'',
                       ''--filter'', ''label=com.docker.compose.project='' @ project r,
                       ''--filter'', ''label=com.docker.compose.oneoff=False'']) opts) (\<lambda>f. sx_return (py_split_ws (stdout f)))) (\<lambda>cids.
      sx_bind (sx_lift (demand (length cids = 7 \<and> list_all is_sha256_hex cids))) (\<lambda>_.
      sx_bind (sx_lift (demand (ids r \<noteq> [] \<longrightarrow> set cids = set (ids r)))) (\<lambda>_.
      sx_bind (call_json e ''container-inspection'' (DOCKER @ ''inspect'' # cids) opts) (\<lambda>v.
      sx_bind (sx_lift (rows_are v cids)) (\<lambda>rows.
      sx_bind (need_rendered e) (\<lambda>rend.
      sx_bind (check_rows e rend running rows []) (\<lambda>selected.
      sx_bind (assign (\<lambda>r. r\<lparr>ids := map snd selected\<rparr>)) (\<lambda>_. sx_return selected))))))))))"

end
