(* ===== verification/Runtime_Supervisor.thy ===== *)
theory Runtime_Supervisor
  imports Runtime_Service
begin

text \<open>
  The operations of class \<open>Runtime\<close> in \<open>experiments/server/runtime_service.py\<close> that act on the
  containers: waiting, starting, one-off checks, the sentinels of the volumes, the generation
  anchor, start, reconciliation, stop and supervision, with the command line's dispatch.
\<close>

section \<open>Waiting\<close>

text \<open>
  A round of \<open>wait\<close> sleeps two seconds, so a wait of \<open>n\<close> seconds has at most \<open>n div 2 + 2\<close>
  rounds on a clock that advances by the time slept.
\<close>

definition now :: "'x runtime_env \<Rightarrow> ('x rt, rat) sx" where
  "now e = on_host (outside (\<lambda>x. (re_now e x, x)))"

definition sleep :: "'x runtime_env \<Rightarrow> nat \<Rightarrow> ('x rt, unit) sx" where
  "sleep e n = on_host (outside (\<lambda>x. ((), re_sleep e n x)))"

fun wait_loop :: "'x runtime_env \<Rightarrow> ('x rt, bool) sx \<Rightarrow> rat \<Rightarrow> nat \<Rightarrow> ('x rt, unit) sx" where
  "wait_loop e check deadline 0 = sx_raise Diverge"
| "wait_loop e check deadline (Suc n) =
     sx_bind (ensure_running e) (\<lambda>_.
     sx_bind check (\<lambda>ready.
     sx_bind (ensure_running e) (\<lambda>_.
       if ready then sx_return ()
       else sx_bind (now e) (\<lambda>t.
            if t \<ge> deadline then sx_raise RuntimeError
            else sx_bind (sleep e 2) (\<lambda>_. wait_loop e check deadline n)))))"

definition wait_rounds :: "nat \<Rightarrow> nat" where
  "wait_rounds seconds = seconds div 2 + 2"

definition wait :: "'x runtime_env \<Rightarrow> ('x rt, bool) sx \<Rightarrow> nat \<Rightarrow> ('x rt, unit) sx" where
  "wait e check seconds = sx_bind (now e) (\<lambda>t. wait_loop e check (t + of_nat seconds) (wait_rounds seconds))"

section \<open>Starting and one-off checks\<close>

definition reload :: "'x runtime_env \<Rightarrow> ('x rt, unit) sx" where
  \<comment> \<open>\<open>load_manifest(self.manifest_path, self.digest)\<close>, its value dropped\<close>
  "reload e = sx_bind (self id) (\<lambda>r. sx_bind (on_host (load_manifest e (manifest_path r) (rt_digest r))) (\<lambda>_. sx_return ()))"

definition named :: "(string, string) dict \<Rightarrow> string \<Rightarrow> string res" where
  \<comment> \<open>\<open>selected[name]\<close>\<close>
  "named selected name = (case dget selected name of None \<Rightarrow> Inl KeyError | Some c \<Rightarrow> Inr c)"

definition start_ids :: "'x runtime_env \<Rightarrow> string \<Rightarrow> string list \<Rightarrow> ('x rt, unit) sx" where
  "start_ids e label names =
     sx_bind (ensure_running e) (\<lambda>_.
     sx_bind (reload e) (\<lambda>_.
     sx_bind (inspect e False True) (\<lambda>selected.
     sx_bind (sx_lift (res_map (named selected) names)) (\<lambda>cids.
     sx_bind (call e label (DOCKER @ ''start'' # cids) (plain\<lparr>o_timeout := 120\<rparr>)) (\<lambda>_. sx_return ())))))"

definition helper_row :: "string \<Rightarrow> runtime \<Rightarrow> json \<Rightarrow> string res" where
  \<comment> \<open>the identity of the one container that is the named helper of this project\<close>
  "helper_row name r v =
     res_bind (len_of v) (\<lambda>n.
     res_bind (demand (n = 1)) (\<lambda>_.
     res_bind (first_of v) (\<lambda>row.
     res_bind (item_of row ''Config'') (\<lambda>config.
     res_bind (get_or config ''Labels'' (JObj [])) (\<lambda>labels.
     res_bind (demands (all_of [item_eq row ''Name'' (JStr (CHR ''/'' # name)),
        get_is labels ''com.docker.compose.project'' JNull (JStr (project r)),
        get_is labels ''com.docker.compose.service'' JNull (JStr ''web''),
        res_eq (item_of row ''Image'') (image_of (rt_data r) ''web'')])) (\<lambda>_.
       text_item row ''Id''))))))"

definition stop_helper :: "'x runtime_env \<Rightarrow> string \<Rightarrow> ('x rt, unit) sx" where
  "stop_helper e name =
     (let opts = plain\<lparr>o_allow_stopping := True\<rparr> in
      sx_bind (call e ''helper-inspection'' (DOCKER @ [''inspect'', name]) (opts\<lparr>o_allowed_failure := True\<rparr>)) (\<lambda>result.
      sx_bind (if returncode result = 0
               then sx_bind (self id) (\<lambda>r.
                    sx_bind (sx_lift (res_bind (load_text (re_py e) (stdout result)) (helper_row name r))) (\<lambda>cid.
                    sx_bind (call e ''helper-stop'' (DOCKER @ [''stop'', ''--time'', ''5'', cid]) (opts\<lparr>o_timeout := 15\<rparr>)) (\<lambda>_. sx_return ())))
               else sx_bind (call e ''helper-inventory'' (DOCKER @ [''ps'', ''--all'', ''--format'', ''{{.Names}}'']) opts) (\<lambda>f.
                    if name \<in> set (splitlines (stdout f)) then sx_raise RuntimeError else sx_return ())) (\<lambda>_.
        assign (\<lambda>r. r\<lparr>helpers := removeAll name (helpers r)\<rparr>))))"

fun stop_each :: "'x runtime_env \<Rightarrow> string list \<Rightarrow> ('x rt, unit) sx" where
  "stop_each e [] = sx_return ()"
| "stop_each e (n # ns) = sx_bind (stop_helper e n) (\<lambda>_. stop_each e ns)"

definition stop_helpers :: "'x runtime_env \<Rightarrow> ('x rt, unit) sx" where
  "stop_helpers e = sx_bind (self helpers) (stop_each e)"

definition oneoff :: "'x runtime_env \<Rightarrow> string \<Rightarrow> string list \<Rightarrow> nat \<Rightarrow> ('x rt, finished) sx" where
  "oneoff e label args limit =
     sx_bind (ensure_running e) (\<lambda>_.
     sx_bind (reload e) (\<lambda>_.
     sx_bind (inspect e False True) (\<lambda>_.
     sx_bind (on_host (outside (re_uuid e))) (\<lambda>u.
       let name = ''santa-runtime-check-'' @ u in
     sx_bind (assign (\<lambda>r. r\<lparr>helpers := List.insert name (helpers r)\<rparr>)) (\<lambda>_.
     sx_bind (self rt_command) (\<lambda>cmd.
       sx_finally (call e label (cmd @ [''run'', ''--rm'', ''--no-deps'', ''--name'', name, ''--entrypoint'', ''python'', ''web''] @ args)
                     (plain\<lparr>o_timeout := limit\<rparr>))
                  (stop_helpers e)))))))"

definition python :: "'x runtime_env \<Rightarrow> string \<Rightarrow> string \<Rightarrow> ('x rt, finished) sx" where
  "python e label code = oneoff e label [''server/manage.py'', ''shell'', ''--no-imports'', ''-c'', code] 60"

section \<open>Sentinels of the volumes\<close>

definition volume_ok :: "'w host \<Rightarrow> string \<Rightarrow> string \<Rightarrow> path \<Rightarrow> json \<Rightarrow> unit res" where
  "volume_ok h proj full_name expected volume =
     demands (all_of [get_is volume ''Name'' JNull (JStr full_name), get_is volume ''Driver'' JNull (JStr ''local''),
       falsy_at volume ''Options'',
       res_bind (get_or volume ''Labels'' (JObj [])) (\<lambda>l. get_is l ''com.docker.compose.project'' JNull (JStr proj)),
       get_is volume ''Mountpoint'' JNull (JStr (path_str expected)),
       res_bind (resolve h expected) (\<lambda>q. Inr (expected = q)), Inr (is_dir h expected)])"

fun check_volumes :: "'x runtime_env \<Rightarrow> path \<Rightarrow> json list \<Rightarrow> (string, path) dict \<Rightarrow> ('x rt, (string, path) dict) sx" where
  "check_volumes e docker_root [] volumes = sx_return volumes"
| "check_volumes e docker_root (n # ns) volumes =
     (case n of
        JStr name \<Rightarrow>
          sx_bind (self project) (\<lambda>proj.
            let full_name = proj @ ''_'' @ name;
                expected = path_join (path_join (path_join docker_root ''volumes'') full_name) ''_data'' in
          sx_bind (call_json e ''volume-inspection'' (DOCKER @ [''volume'', ''inspect'', full_name]) plain) (\<lambda>v.
          sx_bind (sx_lift (first_of v)) (\<lambda>volume.
          sx_bind (on_host (look (\<lambda>h. volume_ok h proj full_name expected volume))) (\<lambda>_.
            check_volumes e docker_root ns (dset name expected volumes)))))
      | _ \<Rightarrow> sx_raise TypeError)"

definition glob_nodes :: "'w host \<Rightarrow> path \<Rightarrow> string \<Rightarrow> string list" where
  \<comment> \<open>\<open>base.glob(sub + '/node-*.st')\<close>, relative to \<open>base\<close>\<close>
  "glob_nodes h base sub =
     (case resolve h (path_join base sub) of
        Inl _ \<Rightarrow> []
      | Inr d \<Rightarrow> map (\<lambda>k. sub @ ''/'' @ last k)
          (filter (\<lambda>k. k \<noteq> [] \<and> butlast k = p_parts d \<and> startswith (last k) ''node-'' \<and> length (last k) \<ge> 8
                     \<and> drop (length (last k) - 3) (last k) = ''.st'') (map fst (h_fs h))))"

definition lookup :: "('k, 'v) dict \<Rightarrow> 'k \<Rightarrow> 'v res" where
  "lookup d k = (case dget d k of None \<Rightarrow> Inl KeyError | Some v \<Rightarrow> Inr v)"

definition check_stores :: "(string, path) dict \<Rightarrow> environ \<Rightarrow> json \<Rightarrow> ('w host, unit) sx" where
  "check_stores volumes image_env configured =
     sx_bind (sx_lift (lookup volumes ''postgres_data'')) (\<lambda>pg.
     sx_bind (check_postgres_data pg image_env configured) (\<lambda>_.
     sx_bind (sx_lift (lookup volumes ''redis_data'')) (\<lambda>redis.
     sx_bind (check_redis_data redis) (\<lambda>_.
     sx_bind (sx_lift (lookup volumes ''rabbitmq_data'')) (\<lambda>rabbit.
     sx_bind (state_path rabbit ''.erlang.cookie'' False True) (\<lambda>_.
     sx_bind (state_path rabbit ''mnesia/rabbit@rabbitmq'' True True) (\<lambda>_.
     sx_bind (sx_lift (lookup volumes ''elasticsearch_data'')) (\<lambda>elastic.
     sx_bind (look (\<lambda>h. Inr (glob_nodes h elastic ''_state'' @ glob_nodes h elastic ''nodes/0/_state''))) (\<lambda>metadata.
     sx_bind (sx_lift (demand (1 \<le> length metadata \<and> length metadata \<le> 8))) (\<lambda>_.
       state_paths elastic False True metadata))))))))))"

definition backing_data :: "'x runtime_env \<Rightarrow> ('x rt, unit) sx" where
  "backing_data e =
     sx_bind (call e ''docker-root'' (DOCKER @ [''info'', ''--format'', ''{{.DockerRootDir}}'']) plain) (\<lambda>f.
       let docker_root = py_path (py_strip (stdout f)) in
     sx_bind (on_host (look (\<lambda>h. res_bind (demand (is_absolute docker_root)) (\<lambda>_.
        res_bind (resolve h docker_root) (\<lambda>q. demand (docker_root = q)))))) (\<lambda>_.
     sx_bind (self id) (\<lambda>r.
     sx_bind (sx_lift (res_bind (item_of (rt_data r) ''volumes'') iter_of)) (\<lambda>names.
     sx_bind (check_volumes e docker_root names []) (\<lambda>volumes.
     sx_bind (self id) (\<lambda>r.
     sx_bind (sx_lift (res_bind (image_of (rt_data r) ''db'') (\<lambda>ref. case ref of JStr s \<Rightarrow> lookup (images r) s | _ \<Rightarrow> Inl KeyError))) (\<lambda>db_image.
     sx_bind (sx_lift (res_bind (dig db_image [''Config'', ''Env'']) env_dict)) (\<lambda>image_env.
     sx_bind (sx_lift (case rendered r of None \<Rightarrow> Inl TypeError
        | Some w \<Rightarrow> res_bind (dig w [''services'', ''db'']) (\<lambda>s. get_or s ''environment'' (JObj [])))) (\<lambda>configured.
       on_host (check_stores volumes image_env configured))))))))))"

section \<open>The generation anchor\<close>

definition generation_ok :: "runtime \<Rightarrow> (string, string) dict \<Rightarrow> json \<Rightarrow> unit res" where
  "generation_ok r selected v =
     demands (all_of [has_keys v [''scope'', ''manifest_sha256'', ''project'', ''image_id'', ''generation'', ''container_ids''],
       item_eq v ''scope'' (JStr ''private-runtime-container-generation-v1''),
       item_eq v ''manifest_sha256'' (JStr (rt_digest r)), item_eq v ''project'' (JStr (project r)),
       res_eq (item_of v ''image_id'') (image_of (rt_data r) ''web''),
       res_bind (item_of v ''generation'') (full_match (is_hex_n 32)),
       res_bind (item_of v ''container_ids'') (\<lambda>c. has_keys c (APPS @ DEPENDENCIES)),
       res_bind (item_of v ''container_ids'') (\<lambda>c. res_bind (items_of c) (res_all (\<lambda>(_, x). full_match is_sha256_hex x))),
       res_bind (item_of v ''container_ids'') (\<lambda>c. res_bind (items_of c) (\<lambda>its. Inr (card (set (map snd its)) = 7))),
       item_eq v ''container_ids'' (texts selected)])"

definition generation_path :: "runtime \<Rightarrow> path" where
  "generation_path r = path_join (path_parent (manifest_path r)) ''container-generation.json''"

definition container_generation :: "'x runtime_env \<Rightarrow> (string, string) dict \<Rightarrow> ('x rt, json) sx" where
  "container_generation e selected =
     sx_bind (self id) (\<lambda>r.
     sx_bind (on_host (checked_path (generation_path r) True)) (\<lambda>p.
     sx_bind (on_host (read_bytes p)) (\<lambda>raw.
     sx_bind (sx_lift (load_json (re_py e) raw)) (\<lambda>v.
     sx_bind (sx_lift (generation_ok r selected v)) (\<lambda>_. sx_return v)))))"

definition open_append :: "path \<Rightarrow> ('w host, unit) sx" where
  \<comment> \<open>\<open>p.open('a')\<close>; a dangling link counts as an error\<close>
  "open_append p = sx_bind io_ok (\<lambda>_ h.
     (case stat_of h p of
        Inr nd \<Rightarrow> (if regular nd then Inr () else Inl OSError, h)
      | Inl _ \<Rightarrow> (case new_place h p of Inr cs \<Rightarrow> (Inr (), put_node cs (Reg []) 438 h) | Inl x \<Rightarrow> (Inl x, h))))"  \<comment> \<open>438 is \<open>0o666\<close>\<close>

definition with_lock :: "'x runtime_env \<Rightarrow> ('x rt, 'a) sx \<Rightarrow> ('x rt, 'a) sx" where
  \<comment> \<open>the exclusive lock on \<open>supervisor.lock\<close>, without waiting, until the file is closed\<close>
  "with_lock e m =
     sx_bind (self (\<lambda>r. path_join (path_parent (manifest_path r)) ''supervisor.lock'')) (\<lambda>p.
     sx_bind (on_host (open_append p)) (\<lambda>_.
     sx_bind (on_host (outside (re_flock e p))) (\<lambda>got.
       if got then sx_finally m (on_host (outside (\<lambda>x. ((), re_unlock e p x)))) else sx_raise OSError)))"

definition is_value :: "json \<Rightarrow> string \<Rightarrow> json \<Rightarrow> bool res" where
  \<comment> \<open>\<open>v.get(k) is w\<close> for a boolean \<open>w\<close>\<close>
  "is_value v k w = res_bind (get_or v k JNull) (\<lambda>x. Inr (x = w))"

definition text_starts :: "string \<Rightarrow> json \<Rightarrow> bool res" where
  "text_starts s v = (case v of JStr t \<Rightarrow> Inr (startswith t s) | _ \<Rightarrow> Inl AttributeError)"

definition fresh_state :: "string \<Rightarrow> json \<Rightarrow> unit res" where
  "fresh_state name state =
     res_bind (demands (all_of [is_value state ''Paused'' (JBool False), is_value state ''Restarting'' (JBool False),
        is_value state ''OOMKilled'' (JBool False)])) (\<lambda>_.
     if name \<in> set APPS
     then demands (all_of [get_is state ''Status'' JNull (JStr ''created''), is_value state ''Running'' (JBool False),
            get_is state ''Pid'' JNull (JInt 0), res_bind (get_or state ''StartedAt'' (JStr [])) (text_starts ''0001-'')])
     else demands (all_of [get_is state ''Status'' JNull (JStr ''running''), is_value state ''Running'' (JBool True),
            res_bind (get_or state ''Pid'' JNull) (\<lambda>v. Inr (case v of JInt i \<Rightarrow> i > 0 | _ \<Rightarrow> False)),
            res_not (falsy_at state ''StartedAt''), res_not (res_bind (item_of state ''StartedAt'') (text_starts ''0001-''))]))"

definition state_of :: "json list \<Rightarrow> string \<Rightarrow> json res" where
  \<comment> \<open>\<open>states[cid]\<close>; a later row replaces an earlier one\<close>
  "state_of rows cid =
     (case filter (\<lambda>row. item_of row ''Id'' = Inr (JStr cid)) rows of [] \<Rightarrow> Inl KeyError | rs \<Rightarrow> item_of (last rs) ''State'')"

definition bind_admission_fresh :: "'x runtime_env \<Rightarrow> ('x rt, path) sx" where
  "bind_admission_fresh e = with_lock e (
     sx_bind (self generation_path) (\<lambda>target.
     sx_bind (on_host (look (\<lambda>h. demand (\<not> path_exists h target \<and> \<not> is_symlink h target \<and> \<not> path_exists h UNIT \<and> \<not> is_symlink h UNIT)))) (\<lambda>_.
     sx_bind (inspect e False True) (\<lambda>selected.
     sx_bind (call_json e ''admission-fresh-generation'' (DOCKER @ ''inspect'' # map snd selected) plain) (\<lambda>v.
     sx_bind (sx_lift (res_bind (rows_are v (map snd selected)) (\<lambda>rows.
        res_bind (demand (length rows = 7)) (\<lambda>_.
        res_bind (res_map (\<lambda>row. item_of row ''State'') rows) (\<lambda>_.
        res_map (\<lambda>(name, cid). res_bind (state_of rows cid) (fresh_state name)) selected))))) (\<lambda>_.
     sx_bind (backing_data e) (\<lambda>_.
     sx_bind (reload e) (\<lambda>_.
     sx_bind (inspect e False True) (\<lambda>again.
     sx_bind (sx_lift (demand (set again = set selected))) (\<lambda>_.
     sx_bind (self id) (\<lambda>r.
     sx_bind (sx_lift (image_of (rt_data r) ''web'')) (\<lambda>img.
     sx_bind (on_host (outside (re_token e))) (\<lambda>token.
     sx_bind (on_host (private_write (re_py e) target (JObj
        [(''scope'', JStr ''private-runtime-container-generation-v1''), (''manifest_sha256'', JStr (rt_digest r)),
         (''project'', JStr (project r)), (''image_id'', img), (''generation'', JStr token), (''container_ids'', texts selected)]))) (\<lambda>_.
     sx_bind (on_host (sync_directory (path_parent target))) (\<lambda>_.
       sx_return target)))))))))))))))"

section \<open>Start\<close>

text \<open>
  The Python texts that run inside the application image.  In the literals a back quote
  stands for an apostrophe and a bar for a new line.
\<close>

definition source :: "string \<Rightarrow> string" where
  "source s = map (\<lambda>c. if c = CHR ''`'' then CHR 0x27 else if c = CHR ''|'' then CHR 0x0A else c) s"

definition assert_hash :: "string \<Rightarrow> string \<Rightarrow> string" where
  "assert_hash name digest = source (''assert hashlib.sha256(Path(`/zentral/server/'' @ name
     @ ''`).read_bytes()).hexdigest()==`'' @ digest @ ''`; '')"

definition schema_code :: "json \<Rightarrow> string res" where
  "schema_code b =
     res_bind (item_of b ''policy_hashes'') (\<lambda>ph.
     res_bind (res_map (\<lambda>(name, fl). res_bind (text_item ph name) (\<lambda>d. Inr (assert_hash fl d))) POLICIES) (\<lambda>as.
       Inr (''from pathlib import Path; import hashlib; '' @ concat as
         @ ''from django.db import connection; from django.db.migrations.executor import MigrationExecutor; e=MigrationExecutor(connection); assert not e.migration_plan(e.loader.graph.leaf_nodes()); ''
         @ source ''from zentral.core.stores.models import Store; assert Store.objects.count()==1; s=Store.objects.get(provisioning_uid=`elasticsearch`); assert s.backend==`ELASTICSEARCH` and s.admin_console'')))"

definition search_code :: string where
  "search_code = source (''import json,time,urllib.request; o=urllib.request.build_opener(urllib.request.ProxyHandler({})); deadline=time.monotonic()+45|while True:| try:|  r=json.load(o.open(`http://elastic:9200/_cluster/health`,timeout=3)); assert r[`status`] in (`yellow`,`green`); break| except Exception:|  if time.monotonic()>deadline: raise RuntimeError(`Search not ready`) from None|  time.sleep(2)'')"

definition check_code :: string where
  "check_code = ''from azd_santa_admission import check; check(require_empty=True)''"

definition database_ready :: "'x runtime_env \<Rightarrow> json \<Rightarrow> ('x rt, bool) sx" where
  "database_ready e database =
     sx_bind (self rt_command) (\<lambda>cmd.
     sx_bind (sx_lift (text_item database ''POSTGRES_USER'')) (\<lambda>user.
     sx_bind (sx_lift (text_item database ''POSTGRES_DB'')) (\<lambda>db.
     sx_bind (call e ''database'' (cmd @ [''exec'', ''-T'', ''db'', ''pg_isready'', ''-U'', user, ''-d'', db]) (plain\<lparr>o_allowed_failure := True\<rparr>)) (\<lambda>f.
       sx_return (returncode f = 0)))))"

fun positive :: "json \<Rightarrow> bool res" where
  \<comment> \<open>\<open>v > 0\<close>\<close>
  "positive (JInt i) = Inr (i > 0)"
| "positive (JBool b) = Inr b"
| "positive (JFloat f) = Inr (case f of Fin q \<Rightarrow> q > 0 | PosInf \<Rightarrow> True | _ \<Rightarrow> False)"
| "positive _ = Inl TypeError"

fun res_any :: "('a \<Rightarrow> bool res) \<Rightarrow> 'a list \<Rightarrow> bool res" where
  "res_any p [] = Inr False"
| "res_any p (x # xs) = res_or (p x) (res_any p xs)"

definition QUEUES :: "string list" where
  "QUEUES = [''store_events_Elasticsearch'', ''enrich_events'', ''process_events'']"

definition consumers_in :: "json \<Rightarrow> bool res" where
  "consumers_in v = res_all (\<lambda>name. res_bind (iter_of v) (res_any (\<lambda>q.
     res_and (item_eq q ''name'' (JStr name)) (res_bind (item_of q ''consumers'') positive)))) QUEUES"

definition consumers :: "'x runtime_env \<Rightarrow> ('x rt, bool) sx" where
  "consumers e =
     sx_bind (self rt_command) (\<lambda>cmd.
     sx_bind (call e ''queues'' (cmd @ [''exec'', ''-T'', ''rabbitmq'', ''rabbitmqctl'', ''list_queues'', ''name'', ''consumers'', ''--formatter'', ''json''])
                (plain\<lparr>o_allowed_failure := True\<rparr>)) (\<lambda>f.
       if returncode f \<noteq> 0 then sx_return False
       else sx_lift (res_bind (load_text (re_py e) (stdout f)) consumers_in)))"

definition http_ready :: "'x runtime_env \<Rightarrow> ('x rt, bool) sx" where
  "http_ready e =
     sx_bind (on_host (outside (re_http e ''http://127.0.0.1:8000/accounts/login/''))) (\<lambda>r.
       sx_return (case r of Inr status \<Rightarrow> status = 200 | Inl _ \<Rightarrow> False))"

definition stop_apps :: "'x runtime_env \<Rightarrow> (string, string) dict \<Rightarrow> ('x rt, unit) sx" where
  "stop_apps e selected =
     sx_bind (sx_lift (res_map (named selected) APPS)) (\<lambda>cids.
     sx_bind (call e ''close-admission'' (DOCKER @ [''stop'', ''--time'', ''30''] @ cids) (plain\<lparr>o_timeout := 100\<rparr>)) (\<lambda>_. sx_return ()))"

definition authorize :: "json \<Rightarrow> ('x rt, unit) sx" where
  \<comment> \<open>\<open>self.cleanup_ids = tuple(generation['container_ids'].values())\<close>\<close>
  "authorize generation =
     sx_bind (sx_lift (res_bind (item_of generation ''container_ids'') (\<lambda>c. res_bind (items_of c)
       (res_map (\<lambda>(_, v). case v of JStr s \<Rightarrow> Inr s | _ \<Rightarrow> Inl TypeError))))) (\<lambda>cids.
     assign (\<lambda>r. r\<lparr>cleanup_ids := cids\<rparr>))"

definition opened :: "'x runtime_env \<Rightarrow> ('x rt, unit) sx" where
  \<comment> \<open>\<open>start\<close> from the Compose check to the database\<close>
  "opened e =
     sx_bind (self rt_command) (\<lambda>cmd.
     sx_bind (call e ''compose-config'' (cmd @ [''config'', ''--quiet'']) plain) (\<lambda>_.
     sx_bind (backing_data e) (\<lambda>_.
     sx_bind (on_host (read_text (py_path ''/proc/sys/vm/max_map_count''))) (\<lambda>t.
     sx_bind (sx_lift (demand (py_strip t = ''1048576''))) (\<lambda>_.
     sx_bind (start_ids e ''dependencies'' DEPENDENCIES) (\<lambda>_.
     sx_bind (self rendered) (\<lambda>rend.
     sx_bind (sx_lift (case rend of None \<Rightarrow> Inl TypeError | Some w \<Rightarrow> dig w [''services'', ''db'', ''environment''])) (\<lambda>database.
       wait e (database_ready e database) 100))))))))"

definition start_stores :: "'x runtime_env \<Rightarrow> ('x rt, unit) sx" where
  \<comment> \<open>\<open>start\<close> up to the database: admission is closed before the stores are looked at\<close>
  "start_stores e =
     sx_bind (ensure_running e) (\<lambda>_.
     sx_bind (inspect e False True) (\<lambda>selected.
     sx_bind (container_generation e selected) (\<lambda>generation.
     sx_bind (authorize generation) (\<lambda>_.
     sx_bind (stop_apps e selected) (\<lambda>_.
       opened e)))))"

definition start_checks :: "'x runtime_env \<Rightarrow> ('x rt, unit) sx" where
  \<comment> \<open>the one-off checks of \<open>start\<close>\<close>
  "start_checks e =
     sx_bind (self rt_binding) (\<lambda>b.
     sx_bind (sx_lift (schema_code b)) (\<lambda>code.
     sx_bind (python e ''source-schema-store'' code) (\<lambda>_.
     sx_bind (oneoff e ''security-store'' [''server/manage.py'', ''operator_security_store'', ''check''] 60) (\<lambda>_.
     sx_bind (python e ''sync-admission'' check_code) (\<lambda>_.
     sx_bind (ensure_running e) (\<lambda>_.
     sx_bind (python e ''search'' search_code) (\<lambda>_. sx_return ())))))))"

definition admitted :: "'x runtime_env \<Rightarrow> ('x rt, unit) sx" where
  \<comment> \<open>\<open>start\<close> after its checks: workers, consumers, listener, readiness\<close>
  "admitted e =
     sx_bind (start_ids e ''workers'' [''workers'', ''celery'']) (\<lambda>_.
     sx_bind (wait e (consumers e) 100) (\<lambda>_.
     sx_bind (start_ids e ''listener'' [''web'']) (\<lambda>_.
     sx_bind (inspect e True True) (\<lambda>_.
     sx_bind (on_host (compose_helper e)) (\<lambda>_.
     sx_bind (wait e (http_ready e) 45) (\<lambda>_.
     sx_bind (ensure_running e) (\<lambda>_.
       on_host (say ''SANTA_PRIVATE_RUNTIME_READY''))))))))"

definition start :: "'x runtime_env \<Rightarrow> ('x rt, unit) sx" where
  "start e = sx_bind (start_stores e) (\<lambda>_. sx_bind (start_checks e) (\<lambda>_. admitted e))"

section \<open>Reconciliation, stop and supervision\<close>

definition py_bool :: "bool \<Rightarrow> string" where
  "py_bool b = (if b then ''True'' else ''False'')"

definition quiescent :: "json \<Rightarrow> string list \<Rightarrow> unit res" where
  "quiescent v cids =
     res_bind (rows_are v cids) (\<lambda>rows.
       demands (res_all (\<lambda>row. res_bind (item_of row ''State'') (\<lambda>state.
         all_of [is_value state ''Running'' (JBool False), is_value state ''Paused'' (JBool False),
                 is_value state ''Restarting'' (JBool False), get_is state ''Pid'' JNull (JInt 0)])) rows))"

definition reconcile_code :: "json \<Rightarrow> bool \<Rightarrow> string res" where
  "reconcile_code b initialize_missing =
     res_bind (item_of b ''policy_hashes'') (\<lambda>ph.
     res_bind (text_item ph ''admission'') (\<lambda>d.
       Inr (''from pathlib import Path; import hashlib; '' @ assert_hash ''azd_santa_admission.py'' d
         @ ''from azd_santa_admission import reconcile; reconcile(initialize_missing='' @ py_bool initialize_missing @ '')'')))"

definition reconcile_admission :: "'x runtime_env \<Rightarrow> bool \<Rightarrow> ('x rt, unit) sx" where
  "reconcile_admission e initialize_missing = with_lock e (
     sx_bind (inspect e False True) (\<lambda>selected.
     sx_bind (container_generation e selected) (\<lambda>generation.
     sx_bind (sx_lift (res_map (named selected) APPS)) (\<lambda>cids.
     sx_bind (call_json e ''admission-quiescence'' (DOCKER @ ''inspect'' # cids) plain) (\<lambda>v.
     sx_bind (sx_lift (quiescent v cids)) (\<lambda>_.
     sx_bind (reload e) (\<lambda>_.
     sx_bind (self rt_binding) (\<lambda>b.
     sx_bind (sx_lift (reconcile_code b initialize_missing)) (\<lambda>code.
     sx_bind (python e ''explicit-admission-reconcile'' code) (\<lambda>_.
     sx_bind (self rt_digest) (\<lambda>digest.
     sx_bind (sx_lift (item_of generation ''generation'')) (\<lambda>g.
       write_evidence e ''admission-reconciled.json'' (JObj
         [(''scope'', JStr ''explicit-quiesced-sync-admission''), (''app_ids'', strs cids),
          (''initialize_missing'', JBool initialize_missing), (''manifest_sha256'', JStr digest), (''generation'', g)])))))))))))))"

definition stop_authorized :: "'x runtime_env \<Rightarrow> ('x rt, unit) sx" where
  \<comment> \<open>the \<open>finally\<close> part of \<open>stop\<close>\<close>
  "stop_authorized e =
     (let opts = plain\<lparr>o_allow_stopping := True\<rparr> in
      sx_bind (self cleanup_ids) (\<lambda>authorized.
        if authorized = [] then sx_return ()
        else sx_bind (call e ''cleanup-selection'' (DOCKER @ [''ps'', ''--all'', ''--quiet'', ''--no-trunc'']) opts) (\<lambda>f.
               let selected = filter (\<lambda>cid. cid \<in> set (py_split_ws (stdout f))) authorized in
             if selected = [] then sx_return ()
             else sx_bind (call e ''stop'' (DOCKER @ [''stop'', ''--time'', ''30''] @ selected) (opts\<lparr>o_timeout := 100\<rparr>)) (\<lambda>_. sx_return ()))))"

definition stop :: "'x runtime_env \<Rightarrow> ('x rt, unit) sx" where
  "stop e = sx_finally (stop_helpers e) (stop_authorized e)"

definition notify_ready :: "'x runtime_env \<Rightarrow> ('x rt, unit) sx" where
  "notify_ready e =
     (case dget (re_environ e) ''NOTIFY_SOCKET'' of
        None \<Rightarrow> sx_return ()
      | Some a \<Rightarrow>
          if a = [] then sx_return ()
          else sx_bind (on_host (outside (re_notify e (if startswith a ''@'' then CHR 0x00 # tl a else a) ''READY=1''))) sx_lift)"

fun watch :: "'x runtime_env \<Rightarrow> nat \<Rightarrow> ('x rt, unit) sx" where
  \<comment> \<open>the loop runs until a signal: the number bounds the rounds that are looked at\<close>
  "watch e 0 = sx_raise Diverge"
| "watch e (Suc n) =
     sx_bind (poll e) (\<lambda>_.
     sx_bind (self stopping) (\<lambda>b.
       if b then sx_return ()
       else sx_bind (sleep e 5) (\<lambda>_.
            sx_bind (assign (\<lambda>r. r\<lparr>phase := ''binding-check''\<rparr>)) (\<lambda>_.
            sx_bind (reload e) (\<lambda>_.
            sx_bind (inspect e True False) (\<lambda>_. watch e n))))))"

definition supervised :: "'x runtime_env \<Rightarrow> nat \<Rightarrow> ('x rt, unit) sx" where
  \<comment> \<open>the \<open>try\<close> block of \<open>supervise\<close>\<close>
  "supervised e n =
     sx_bind (start e) (\<lambda>_.
     sx_bind (ensure_running e) (\<lambda>_.
     sx_bind (notify_ready e) (\<lambda>_. watch e n)))"

definition failure_json :: "'x runtime_env \<Rightarrow> string \<Rightarrow> exn \<Rightarrow> json" where
  "failure_json e ph x = JObj [(''phase'', JStr ph), (''error_type'', JStr (fst (re_error e x))), (''detail'', JStr (snd (re_error e x)))]"

definition on_failure :: "'x runtime_env \<Rightarrow> exn \<Rightarrow> ('x rt, unit) sx option" where
  \<comment> \<open>the \<open>except\<close> clauses of \<open>supervise\<close>\<close>
  "on_failure e x =
     (if x = Diverge then None
      else if x = Cancelled
      then Some (sx_bind (self phase) (\<lambda>ph. write_evidence e ''cancelled.json'' (JObj [(''phase'', JStr ph), (''cancelled'', JBool True)])))
      else Some (sx_bind (self phase) (\<lambda>ph.
                 sx_bind (write_evidence e ''failure.json'' (failure_json e ph x)) (\<lambda>_. sx_raise x))))"

definition supervise :: "'x runtime_env \<Rightarrow> nat \<Rightarrow> ('x rt, unit) sx" where
  "supervise e n = with_lock e (
     sx_bind (assign (\<lambda>r. r\<lparr>handling := True\<rparr>)) (\<lambda>_.
       sx_finally (sx_catch (supervised e n) (on_failure e)) (stop e)))"

section \<open>The command line\<close>

datatype operation =
    Prepare string string hashes
  | Unit string string
  | Install string string bool
  | Bind_Fresh string string
  | Reconcile string string bool
  | Run string string

definition with_runtime :: "'x runtime_env \<Rightarrow> string \<Rightarrow> string \<Rightarrow> ('x rt, 'a) sx \<Rightarrow> ('x chost, 'a) sx" where
  "with_runtime e manifest digest m =
     sx_bind (new_runtime e (py_path manifest) digest) (\<lambda>r h. let (v, s) = m (r, h) in (v, snd s))"

definition dispatch :: "'x runtime_env \<Rightarrow> bool \<Rightarrow> nat \<Rightarrow> nat \<Rightarrow> operation \<Rightarrow> ('x chost, unit) sx" where
  \<comment> \<open>\<open>main\<close> after the arguments are parsed\<close>
  "dispatch e linux euid n oper =
     (if \<not> linux \<or> euid \<noteq> 0 then sx_raise RuntimeError
      else (case oper of
        Prepare compose destination policy_hashes \<Rightarrow>
          sx_bind (prepare e compose destination policy_hashes) (\<lambda>p.
          sx_bind (read_bytes p) (\<lambda>raw. say (path_str p @ '' '' @ sha256_hex raw)))
      | Unit manifest digest \<Rightarrow>
          sx_bind (load_manifest e (py_path manifest) digest) (\<lambda>_.
          sx_bind (look (\<lambda>h. resolve h (py_path (re_file e)))) (\<lambda>script.
          sx_bind (sx_lift (unit_text script (py_path manifest) digest)) say))
      | Install manifest digest enable_now \<Rightarrow> install_unit e (py_path manifest) digest enable_now
      | Bind_Fresh manifest digest \<Rightarrow>
          sx_bind (with_runtime e manifest digest (bind_admission_fresh e)) (\<lambda>p. say (path_str p))
      | Reconcile manifest digest initialize_missing \<Rightarrow> with_runtime e manifest digest (reconcile_admission e initialize_missing)
      | Run manifest digest \<Rightarrow> with_runtime e manifest digest (supervise e n)))"

end
