(* ===== verification/Runtime_Frame.thy ===== *)
theory Runtime_Frame
  imports Runtime_Supervisor Json_Facts
begin

text \<open>
  What every operation of the runtime service has in common, proved once.  Checks on decoded
  values always give an answer (\<open>answers\<close>).  The locale \<open>runtime_laws\<close> takes a relation between
  states that the primitive calls respect (files, programs, the clock, the object's fields) and
  shows that each operation respects it; the theorems on the service choose the relation.
\<close>

section \<open>Checks give an answer\<close>

named_theorems ans_intros \<open>introduction rules for \<open>answers\<close>\<close>

definition answers :: "'a res \<Rightarrow> bool" where
  "answers r \<longleftrightarrow> r \<noteq> Inl Diverge"

definition env_answers :: "'x runtime_env \<Rightarrow> bool" where
  \<comment> \<open>code outside the repository returns or raises\<close>
  "env_answers e \<longleftrightarrow> (\<forall>raw. answers (decode_wide (re_py e) raw)) \<and> (\<forall>a b. answers (helper_commit e a b))
     \<and> (\<forall>env n args x. answers (fst (re_exec e env n args x))) \<and> (\<forall>a b x. answers (fst (re_notify e a b x)))"

lemma ans_Inr [ans_intros]: "answers (Inr x)"
  by (simp add: answers_def)

lemma ans_Inl [ans_intros]: "x \<noteq> Diverge \<Longrightarrow> answers (Inl x)"
  by (simp add: answers_def)

lemma ans_bind [ans_intros]: "answers m \<Longrightarrow> (\<And>x. answers (f x)) \<Longrightarrow> answers (res_bind m f)"
  by (auto simp: answers_def res_bind_Inl_iff)

lemma ans_if [ans_intros]: "answers a \<Longrightarrow> answers b \<Longrightarrow> answers (if c then a else b)"
  by simp

lemma ans_let [ans_intros]: "(\<And>x. answers (f x)) \<Longrightarrow> answers (Let v f)"
  by simp

lemma ans_pair [ans_intros]: "(\<And>a b. answers (f a b)) \<Longrightarrow> answers (case p of (a, b) \<Rightarrow> f a b)"
  by (cases p) simp

lemma ans_option [ans_intros]: "answers a \<Longrightarrow> (\<And>x. answers (f x)) \<Longrightarrow> answers (case v of None \<Rightarrow> a | Some x \<Rightarrow> f x)"
  by (cases v) simp_all

lemma ans_list [ans_intros]: "answers a \<Longrightarrow> (\<And>x xs. answers (f x xs)) \<Longrightarrow> answers (case v of [] \<Rightarrow> a | x # xs \<Rightarrow> f x xs)"
  by (cases v) simp_all

lemma ans_json [ans_intros]:
  assumes "answers a" "\<And>x. answers (b x)" "\<And>x. answers (c x)" "\<And>x. answers (d x)" "\<And>x. answers (s x)" "\<And>x. answers (l x)" "\<And>x. answers (o' x)"
  shows "answers (case v of JNull \<Rightarrow> a | JBool x \<Rightarrow> b x | JInt x \<Rightarrow> c x | JFloat x \<Rightarrow> d x | JStr x \<Rightarrow> s x | JArr x \<Rightarrow> l x | JObj x \<Rightarrow> o' x)"
  using assms by (cases v) simp_all

lemma ans_demand [ans_intros]: "answers (demand b)"
  by (simp add: answers_def demand_def res_guard_def)

lemma ans_demands [ans_intros]: "answers r \<Longrightarrow> answers (demands r)"
  unfolding demands_def by (intro ans_intros)

lemma ans_map [ans_intros]: "(\<And>x. answers (f x)) \<Longrightarrow> answers (res_map f xs)"
  by (induction xs) (auto intro!: ans_intros)

lemma ans_all [ans_intros]: "(\<And>x. answers (f x)) \<Longrightarrow> answers (res_all f xs)"
  by (induction xs) (auto intro!: ans_intros)

lemma ans_and [ans_intros]: "answers a \<Longrightarrow> answers b \<Longrightarrow> answers (res_and a b)"
  unfolding res_and_def by (intro ans_intros)

lemma ans_or [ans_intros]: "answers a \<Longrightarrow> answers b \<Longrightarrow> answers (res_or a b)"
  unfolding res_or_def by (intro ans_intros)

lemma ans_not [ans_intros]: "answers a \<Longrightarrow> answers (res_not a)"
  unfolding res_not_def by (intro ans_intros)

lemma ans_any [ans_intros]: "(\<And>x. answers (f x)) \<Longrightarrow> answers (res_any f xs)"
  by (induction xs) (auto intro!: ans_intros)

lemma ans_all_of [ans_intros]: "list_all answers rs \<Longrightarrow> answers (all_of rs)"
  by (induction rs) (auto intro!: ans_intros)

lemma ans_item [ans_intros]: "answers (item_of v k)"
  by (cases v) (auto intro!: ans_intros)

lemma ans_get [ans_intros]: "answers (get_of v k)"
  by (cases v) (auto intro!: ans_intros)

lemma ans_iter [ans_intros]: "answers (iter_of v)"
  by (cases v) (auto intro!: ans_intros)

lemma ans_len [ans_intros]: "answers (len_of v)"
  by (cases v) (auto intro!: ans_intros)

lemma ans_items [ans_intros]: "answers (items_of v)"
  by (cases v) (auto intro!: ans_intros)

lemma ans_contains [ans_intros]: "answers (contains v t)"
  by (cases v) (auto intro!: ans_intros)

lemma ans_first [ans_intros]: "answers (first_of v)"
  by (cases v) (auto intro!: ans_intros split: list.splits)

lemma ans_pair_of [ans_intros]: "answers (pair_of v)" "answers (name_of v)"
  by (cases v; auto intro!: ans_intros split: option.splits)+

lemma ans_positive [ans_intros]: "answers (positive v)"
  by (cases v) (auto intro!: ans_intros)

lemma ans_values [ans_intros]:
  "answers (get_or v k d)" "answers (key_in v w)" "answers (text_item v k)" "answers (set_of v)" "answers (full_match p v)"
  "answers (services_of v)" "answers (service_of v k)" "answers (sorted_texts v)" "answers (has_keys v ks)"
  unfolding get_or_def key_in_def text_item_def services_of_def service_of_def sorted_texts_def has_keys_def set_of_def full_match_def
  by (intro ans_intros; simp)+

lemma ans_values2 [ans_intros]:
  "answers (get_is v k d w)" "answers (item_eq v k w)" "answers (is_mount v)" "answers (image_of v k)" "answers (falsy_at v k)"
  "answers (is_value v k w)" "answers (text_starts s v)" "answers (env_dict v)" "answers (actual_mount v)" "answers (expected_mount s p v)"
  unfolding get_is_def item_eq_def is_mount_def image_of_def falsy_at_def is_value_def text_starts_def env_dict_def actual_mount_def expected_mount_def
  by (intro ans_intros; simp)+

lemma ans_eq [ans_intros]: "answers a \<Longrightarrow> answers b \<Longrightarrow> answers (res_eq a b)"
  unfolding res_eq_def by (intro ans_intros)

lemma ans_dig [ans_intros]: "answers (dig v ks)"
  by (induction ks arbitrary: v) (auto intro!: ans_intros)

lemma ans_walk [ans_intros]: "answers (walk n f dir cs)"
  by (induction n f dir cs rule: walk.induct) (auto intro!: ans_intros simp: Let_def split: option.splits kind.splits nat.splits)

lemma ans_files [ans_intros]:
  "answers (resolve h p)" "answers (stat_of h p)" "answers (lstat_of h p)" "answers (new_place h p)" "answers (owned_by_root h p)"
  unfolding resolve_def stat_of_def lstat_of_def new_place_def owned_by_root_def resolve_parts_def
  by (intro ans_intros; simp)+

lemma default_sane: "hooks_sane (default_hooks e)"
  by (simp add: hooks_sane_def default_hooks_def default_const_def)

lemma ans_load_text [ans_intros]: "answers (load_text e s)"
  unfolding load_text_def answers_def using loads_not_Diverge [OF default_sane] by blast

lemma ans_utf8 [ans_intros]: "answers (utf8_decode b s)"
  by (simp add: utf8_decode_def answers_def)

lemma ans_load_json: "(\<And>r. answers (decode_wide e r)) \<Longrightarrow> answers (load_json e raw)"
  unfolding load_json_def loads_bytes_def
  by (intro ans_intros) (auto simp: answers_def loads_not_Diverge [OF default_sane])

lemma ans_bundle [ans_intros]:
  "answers (compose_service n s)" "answers (compose_redis v r)" "answers (app_images_ok v)" "answers (policies_ok v)" "answers (unit_text a b c)"
  unfolding compose_service_def compose_redis_def app_images_ok_def policies_ok_def unit_text_def
  by (intro ans_intros; simp)+

lemma ans_compose [ans_intros]: "answers (compose_ok v)" "answers (bundle_ok v)"
  unfolding compose_ok_def bundle_ok_def by (intro ans_intros; simp)+

lemma ans_rows [ans_intros]:
  "answers (row_owner p v s r)" "answers (row_image b v n r)" "answers (row_boundary w v r)" "answers (row_environment pe v n i r)"
  "answers (row_mounts p c w r)" "answers (row_ports p n i r)" "answers (rows_are v cs)"
  unfolding row_owner_def row_image_def row_boundary_def row_environment_def row_mounts_def row_ports_def rows_are_def
  by (intro ans_intros; simp add: ans_intros)+

lemma ans_row [ans_intros]: "answers (row_ok pe r v b n i w)" "answers (helper_row n r v)" "answers (named s n)" "answers (lookup d k)"
    "answers (volume_ok h p f x v)" "answers (generation_ok r s v)" "answers (state_of rows c)" "answers (fresh_state n v)"
    "answers (quiescent v cs)" "answers (schema_code v)" "answers (reconcile_code v b)" "answers (consumers_in v)"
  unfolding row_ok_def helper_row_def named_def lookup_def volume_ok_def generation_ok_def state_of_def fresh_state_def
    quiescent_def schema_code_def reconcile_code_def consumers_in_def
  by (intro ans_intros; simp add: ans_intros)+

section \<open>Steps with an invariant, a relation and a class of exceptions\<close>

locale step_frame = frame R for R :: "'s \<Rightarrow> 's \<Rightarrow> bool" +
  fixes I :: "'s \<Rightarrow> bool" and E :: "exn \<Rightarrow> bool"
  assumes keep: "I s \<Longrightarrow> R s t \<Longrightarrow> I t" and E_exn: "x \<noteq> Diverge \<Longrightarrow> E x"
begin

definition good :: "('s, 'a) sx \<Rightarrow> bool" where
  "good m \<longleftrightarrow> (\<forall>s. I s \<longrightarrow> R s (snd (m s)) \<and> (\<forall>x. fst (m s) = Inl x \<longrightarrow> E x))"

lemma goodI: "(\<And>s r t. I s \<Longrightarrow> m s = (r, t) \<Longrightarrow> R s t \<and> (\<forall>x. r = Inl x \<longrightarrow> E x)) \<Longrightarrow> good m"
  unfolding good_def by (metis prod.collapse)

lemma goodD:
  assumes "good m" "I s" "m s = (r, t)"
  shows "R s t" "I t" "r = Inl x \<Longrightarrow> E x"
proof -
  from assms have "R s t \<and> (\<forall>x. r = Inl x \<longrightarrow> E x)" unfolding good_def by (metis fst_conv snd_conv)
  with assms(2) keep show "R s t" "I t" "r = Inl x \<Longrightarrow> E x" by blast+
qed

lemma good_return: "good (sx_return v)"
  by (simp add: good_def sx_return_def R_refl)

lemma good_raise: "x \<noteq> Diverge \<Longrightarrow> good (sx_raise x)"
  by (simp add: good_def sx_raise_def R_refl E_exn)

lemma answers_E: "answers r \<Longrightarrow> r = Inl x \<Longrightarrow> E x"
  using E_exn by (auto simp: answers_def)

lemma good_lift: "answers r \<Longrightarrow> good (sx_lift r)"
  by (auto simp: good_def sx_lift_def R_refl intro: answers_E)

lemma good_bind_when:
  assumes "good m" and "\<And>v s t. I s \<Longrightarrow> m s = (Inr v, t) \<Longrightarrow> good (f v)"
  shows "good (sx_bind m f)"
proof (rule goodI)
  fix s r t assume I: "I s" and step: "sx_bind m f s = (r, t)"
  obtain a s1 where m: "m s = (a, s1)" by fastforce
  note g = goodD [OF assms(1) I m]
  show "R s t \<and> (\<forall>x. r = Inl x \<longrightarrow> E x)"
  proof (cases a)
    case (Inl y)
    with m step g(1) show ?thesis using g(3) by (auto simp: sx_bind_def)
  next
    case (Inr v)
    with m step have f: "f v s1 = (r, t)" by (simp add: sx_bind_def)
    from Inr m have "good (f v)" using assms(2) [OF I] by simp
    from goodD [OF this g(2) f] R_trans [OF g(1)] show ?thesis by blast
  qed
qed

text \<open>The same from one state, for steps that are good only there.\<close>

definition good_at :: "'s \<Rightarrow> ('s, 'a) sx \<Rightarrow> bool" where
  "good_at s m \<longleftrightarrow> R s (snd (m s)) \<and> (\<forall>x. fst (m s) = Inl x \<longrightarrow> E x)"

lemma good_atI: "good m \<Longrightarrow> I s \<Longrightarrow> good_at s m"
  by (simp add: good_def good_at_def)

lemma good_atD:
  assumes "good_at s m" "I s" "m s = (r, t)"
  shows "R s t" "I t" "r = Inl x \<Longrightarrow> E x"
  using assms keep by (auto simp: good_at_def)

lemma at_then:
  assumes "good_at s m" "I s" and step: "\<And>v t. m s = (Inr v, t) \<Longrightarrow> R s t \<Longrightarrow> I t \<Longrightarrow> good_at t (f v)"
  shows "good_at s (sx_bind m f)"
proof -
  obtain a t where m: "m s = (a, t)" by fastforce
  note g = good_atD [OF assms(1, 2) m]
  show ?thesis
  proof (cases a)
    case (Inl x)
    with m g(1) show ?thesis using g(3) by (auto simp: good_at_def sx_bind_def)
  next
    case (Inr v)
    with m step [of v t] g(1, 2) show ?thesis by (auto simp: good_at_def sx_bind_def intro: R_trans)
  qed
qed

lemma at_bind:
  "good m \<Longrightarrow> I s \<Longrightarrow> (\<And>v t. m s = (Inr v, t) \<Longrightarrow> R s t \<Longrightarrow> I t \<Longrightarrow> good_at t (f v)) \<Longrightarrow> good_at s (sx_bind m f)"
  by (rule at_then [OF good_atI])

lemma good_bind: "good m \<Longrightarrow> (\<And>v. good (f v)) \<Longrightarrow> good (sx_bind m f)"
  by (rule good_bind_when)

lemma good_bind_lift: "answers r \<Longrightarrow> (\<And>v. r = Inr v \<Longrightarrow> good (f v)) \<Longrightarrow> good (sx_bind (sx_lift r) f)"
  by (rule good_bind_when [OF good_lift]) (auto simp: sx_lift_def)

lemma good_iff: "good m \<longleftrightarrow> (\<forall>s. I s \<longrightarrow> good_at s m)"
  by (simp add: good_def good_at_def)

lemma at_catch:
  assumes "good_at s m" and I: "I s" and "\<And>x k. h x = Some k \<Longrightarrow> good k"
  shows "good_at s (sx_catch m h)"
proof -
  obtain a s1 where m: "m s = (a, s1)" by fastforce
  note g = good_atD [OF assms(1) I m]
  show ?thesis
  proof (cases "\<exists>x k. a = Inl x \<and> h x = Some k")
    case True
    then obtain x k where k: "a = Inl x" "h x = Some k" by blast
    obtain r t where t: "k s1 = (r, t)" by fastforce
    from goodD [OF assms(3) [OF k(2)] g(2) t] R_trans [OF g(1)] m k t show ?thesis by (auto simp: sx_catch_def good_at_def)
  next
    case False
    with m have "sx_catch m h s = (a, s1)" by (auto simp: sx_catch_def split: sum.splits option.splits)
    with g(1) g(3) show ?thesis by (simp add: good_at_def)
  qed
qed

lemma at_finally:
  assumes "good_at s m" and I: "I s" and "good f"
  shows "good_at s (sx_finally m f)"
proof -
  obtain a s1 where m: "m s = (a, s1)" by fastforce
  note g = good_atD [OF assms(1) I m]
  show ?thesis
  proof (cases "a = Inl Diverge")
    case True
    with m g(1) g(3) show ?thesis by (simp add: sx_finally_def good_at_def)
  next
    case False
    obtain b s2 where f: "f s1 = (b, s2)" by fastforce
    note g2 = goodD [OF assms(3) g(2) f]
    from False m f have "snd (sx_finally m f s) = s2" "fst (sx_finally m f s) = a \<or> (\<exists>x. fst (sx_finally m f s) = Inl x \<and> b = Inl x)"
      by (auto simp: sx_finally_def split: sum.splits exn.splits)
    with g(1, 3) g2(1, 3) show ?thesis using R_trans [OF g(1) g2(1)] unfolding good_at_def by auto
  qed
qed

lemma good_catch: "good m \<Longrightarrow> (\<And>x k. h x = Some k \<Longrightarrow> good k) \<Longrightarrow> good (sx_catch m h)"
  unfolding good_iff [of "sx_catch m h"] by (blast intro: at_catch good_atI)

lemma good_finally: "good m \<Longrightarrow> good f \<Longrightarrow> good (sx_finally m f)"
  unfolding good_iff [of "sx_finally m f"] by (blast intro: at_finally good_atI)

lemma good_if: "good a \<Longrightarrow> good b \<Longrightarrow> good (if c then a else b)"
  by simp

lemma good_let: "(\<And>x. good (f x)) \<Longrightarrow> good (Let v f)"
  by simp

lemma good_pair: "(\<And>a b. good (f a b)) \<Longrightarrow> good (case p of (a, b) \<Rightarrow> f a b)"
  by (cases p) simp

lemma good_option: "good a \<Longrightarrow> (\<And>x. good (f x)) \<Longrightarrow> good (case v of None \<Rightarrow> a | Some x \<Rightarrow> f x)"
  by (cases v) simp_all

lemmas good_intros = good_return good_raise good_lift good_bind good_catch good_finally good_if good_let good_pair good_option

end

section \<open>Host steps inside the object\<close>

lemma on_host_bind: "on_host (sx_bind m f) = sx_bind (on_host m) (\<lambda>v. on_host (f v))"
  by (rule ext) (auto simp: on_host_def sx_bind_def Let_def split: prod.splits sum.splits)

lemma on_host_return: "on_host (sx_return v) = sx_return v"
  by (rule ext) (simp add: on_host_def sx_return_def)

lemma on_host_raise: "on_host (sx_raise x) = sx_raise x"
  by (rule ext) (simp add: on_host_def sx_raise_def)

lemma on_host_lift: "on_host (sx_lift r) = sx_lift r"
  by (rule ext) (simp add: on_host_def sx_lift_def)

lemma on_host_if: "on_host (if c then a else b) = (if c then on_host a else on_host b)"
  by simp

lemma on_host_let: "on_host (Let v f) = Let v (\<lambda>x. on_host (f x))"
  by simp

lemma on_host_pair: "on_host (case p of (a, b) \<Rightarrow> f a b) = (case p of (a, b) \<Rightarrow> on_host (f a b))"
  by (cases p) simp

lemma on_host_option: "on_host (case v of None \<Rightarrow> a | Some x \<Rightarrow> f x) = (case v of None \<Rightarrow> on_host a | Some x \<Rightarrow> on_host (f x))"
  by (cases v) simp_all

lemmas on_host_simps = on_host_bind on_host_return on_host_raise on_host_lift on_host_if on_host_let on_host_pair on_host_option

definition fixed_fields :: "runtime \<Rightarrow> string list \<times> string list \<times> path \<times> string \<times> json \<times> json \<times> string \<times> path" where
  \<comment> \<open>what only \<open>authorize\<close> and the constructor set\<close>
  "fixed_fields r = (rt_command r, cleanup_ids r, manifest_path r, rt_digest r, rt_binding r, rt_data r, project r, evidence r)"

definition load_helper :: "('x chost, unit) sx" where
  "load_helper h = (Inr (), h\<lparr>h_world := (h_world h)\<lparr>helper_loaded := True\<rparr>\<rparr>)"

section \<open>Every operation respects what the primitive calls respect\<close>

locale runtime_host = step_frame R I E
  for R :: "'x rt \<Rightarrow> 'x rt \<Rightarrow> bool" and I :: "'x rt \<Rightarrow> bool" and E :: "exn \<Rightarrow> bool" +
  fixes e :: "'x runtime_env"
  assumes read_law: "good (on_host (read_bytes p))"
    and write_law: "good (on_host (write_new p b m))"
    and mkdir_law: "good (on_host (mkdir p m ok))"
    and append_law: "good (on_host (open_append p))"
    and sync_law: "good (on_host (sync_directory p))"
    and say_law: "good (on_host (say t))"
    and helper_law: "good (on_host load_helper)"
    and uuid_law: "good (on_host (outside (re_uuid e)))"
    and token_law: "good (on_host (outside (re_token e)))"
    and signal_law: "good (on_host (outside (re_signal e)))"
    and http_law: "good (on_host (outside (re_http e u)))"
    and flock_law: "good (on_host (outside (re_flock e p)))"
    and unlock_law: "good (on_host (outside (\<lambda>x. ((), re_unlock e p x))))"
    and now_law: "good (now e)"
    and sleep_law: "good (sleep e n)"
    and notify_law: "good (notify_ready e)"
    and assign_law: "(\<And>r. fixed_fields (f r) = fixed_fields r \<and> (handling r \<longrightarrow> handling (f r))) \<Longrightarrow> good (assign f)"
    and answering: "\<not> E Diverge \<Longrightarrow> answers (helper_commit e a b)" "\<not> E Diverge \<Longrightarrow> answers (decode_wide (re_py e) raw)"
begin

lemma good_self: "(\<And>v. good (f v)) \<Longrightarrow> good (sx_bind (self g) f)"
  by (rule good_bind) (auto simp: good_def self_def R_refl)

lemma good_look: "(\<And>h. answers (f h)) \<Longrightarrow> good (on_host (look f))"
  by (auto simp: good_def on_host_def look_def R_refl intro: answers_E)

lemma lift_any: "(\<not> E Diverge \<Longrightarrow> answers r) \<Longrightarrow> good (sx_lift r)"
  by (cases "E Diverge") (metis (mono_tags, lifting) E_exn R_refl fst_conv good_def snd_conv sx_lift_def, rule good_lift)

lemma lift_commit: "good (sx_lift (helper_commit e a b))"
  by (rule lift_any) (rule answering)

lemma lift_json: "good (sx_lift (load_json (re_py e) raw))"
  by (rule lift_any) (auto intro: ans_load_json answering)

lemmas host_laws = read_law write_law mkdir_law append_law sync_law say_law uuid_law token_law signal_law http_law flock_law unlock_law
  good_look

lemmas ops = good_return good_raise good_lift good_if good_let good_pair good_option good_self host_laws

lemma good_read_text: "good (on_host (read_text p))"
  unfolding read_text_def on_host_simps by (intro ops good_bind ans_intros)

lemma good_checked: "good (on_host (checked_path p b))"
  unfolding checked_path_def checked_parent_def by (intro ops ans_intros; simp)

lemma good_check_names: "good (on_host (check_names p ns))"
  by (induction ns) (auto simp: on_host_simps intro!: good_bind good_return good_checked)

lemma good_trusted: "good (on_host (trusted_sources e))"
  unfolding trusted_sources_def on_host_simps by (intro good_bind ops good_checked good_check_names ans_intros)

lemma good_compose_helper: "good (on_host (compose_helper e))"
  unfolding compose_helper_def load_helper_def [abs_def, symmetric] on_host_simps
  by (intro lift_commit good_bind ops good_trusted helper_law ans_intros)

lemma good_state_path: "good (on_host (state_path b n d x))"
  unfolding state_path_def by (intro ops ans_intros)

lemma good_state_paths: "good (on_host (state_paths b d x ns))"
  by (induction ns) (auto simp: on_host_simps intro!: good_bind good_return good_state_path)

lemma good_postgres: "good (on_host (check_postgres_data b i c))"
  unfolding check_postgres_data_def Let_def on_host_simps
  by (intro good_bind ops good_state_path good_state_paths good_read_text ans_intros)

lemma good_aof_lines: "good (on_host (check_aof_lines d ls))"
proof (induction ls)
  case (Cons l ls)
  then show ?case
    by (auto simp: on_host_simps split: option.splits intro!: good_bind ops good_state_path)
qed (simp add: on_host_simps good_return)

lemma good_redis: "good (on_host (check_redis_data b))"
  unfolding check_redis_data_def Let_def on_host_simps
  by (intro good_bind ops good_state_path good_read_text good_aof_lines ans_intros)

lemma good_validate: "good (on_host (validate_compose (re_py e) p))"
  unfolding validate_compose_def on_host_simps by (intro lift_json good_bind ops ans_intros)

lemma good_env_files: "good (on_host (env_files p ns fs))"
  by (induction ns arbitrary: fs) (auto simp: on_host_simps Let_def intro!: good_bind ops good_checked ans_intros)

lemma good_service_files: "good (on_host (service_files p ss fs))"
  by (induction ss arbitrary: fs) (auto simp: on_host_simps intro!: good_bind ops good_env_files ans_intros)

lemma good_bundle: "good (on_host (bundle_of e p))"
  unfolding bundle_of_def on_host_simps
  by (intro good_bind ops good_compose_helper good_checked good_validate good_read_text good_service_files ans_intros)

lemma good_helper_hashes: "good (on_host (helper_hashes p ns))"
  by (induction ns) (auto simp: on_host_simps intro!: good_bind ops)

lemma good_load_manifest: "good (on_host (load_manifest e p d))"
  unfolding load_manifest_def on_host_simps
  by (intro lift_json good_bind ops good_trusted good_checked good_helper_hashes good_bundle ans_intros)

lemma good_poll: "good (poll e)"
  unfolding poll_def by (intro good_bind ops assign_law) (simp add: fixed_fields_def)

lemma good_running: "good (ensure_running e)"
  unfolding ensure_running_def by (intro good_bind ops good_poll) simp

lemma good_evidence: "good (write_evidence e n v)"
  unfolding write_evidence_def private_write_def by (intro ops)

lemma good_diagnostic: "good (diagnostic e l v)"
  unfolding diagnostic_def by (intro good_bind ops good_evidence)

lemma good_phase: "good (assign (\<lambda>r. r\<lparr>phase := l\<rparr>))"
  by (rule assign_law) (simp add: fixed_fields_def)

lemma good_lock: "good m \<Longrightarrow> good (with_lock e m)"
  unfolding with_lock_def by (intro good_self good_bind append_law flock_law good_if good_finally unlock_law good_raise) simp_all

lemma good_prepare: "good (on_host (prepare e c d hs))"
  unfolding prepare_def Let_def on_host_simps
  by (intro good_bind ops good_trusted good_bundle good_helper_hashes good_checked ans_intros; simp)

lemma good_new_runtime: "good (on_host (new_runtime e p d))"
  unfolding new_runtime_def Let_def on_host_simps
  by (intro good_bind ops good_load_manifest ans_intros)

lemma good_handling: "good (assign (\<lambda>r. r\<lparr>handling := True\<rparr>))"
  by (rule assign_law) (simp add: fixed_fields_def)

lemma good_reload: "good (reload e)"
  unfolding reload_def by (intro good_self good_bind good_load_manifest good_return)

end

text \<open>Programs: the relation may hold only for some commands.\<close>

locale runtime_base = runtime_host R I E e
  for R :: "'x rt \<Rightarrow> 'x rt \<Rightarrow> bool" and I :: "'x rt \<Rightarrow> bool" and E :: "exn \<Rightarrow> bool" and e :: "'x runtime_env" +
  fixes cmd :: "string list" and allowed :: "string list \<Rightarrow> bool"
  assumes cmd_of: "I s \<Longrightarrow> rt_command (fst s) = cmd"
    and tool_law: "allowed args \<Longrightarrow> good (on_host (run_tool e env n args))"
    and docker_allowed: "k \<noteq> ''start'' \<Longrightarrow> k \<noteq> ''stop'' \<Longrightarrow> k \<noteq> ''compose'' \<Longrightarrow> allowed (DOCKER @ k # args)"
    and compose_allowed: "k \<noteq> ''run'' \<Longrightarrow> allowed (cmd @ k # args)"
    and helper_allowed: "allowed (DOCKER @ [''stop'', ''--time'', ''5'', c])"
begin

lemma good_cmd: "good (f cmd) \<Longrightarrow> good (sx_bind (self rt_command) f)"
  by (rule good_bind_when) (auto simp: good_def self_def R_refl dest: cmd_of)

lemma good_call: "allowed args \<Longrightarrow> good (call e l args opts)"
  unfolding call_def
  by (intro good_bind ops good_running good_phase good_catch tool_law good_diagnostic)
     (auto split: if_splits intro!: good_bind good_diagnostic good_raise)

lemma good_call_json: "allowed args \<Longrightarrow> good (call_json e l args opts)"
  unfolding call_json_def by (intro good_bind good_call good_lift ans_intros)

lemma good_need_image: "good (need_image e ref)"
  unfolding need_image_def
  by (intro good_self good_option good_return good_bind good_call_json docker_allowed good_lift ans_intros assign_law)
     (simp_all add: fixed_fields_def)

lemma good_check_rows: "good (check_rows e v b rows sel)"
  by (induction rows arbitrary: sel) (auto intro!: good_return good_self good_bind good_lift good_need_image ans_intros)

lemma good_need_rendered: "good (need_rendered e)"
  unfolding need_rendered_def
  by (intro good_self good_option good_return good_cmd good_bind good_call_json compose_allowed assign_law)
     (simp_all add: fixed_fields_def)

lemma good_inspect: "good (inspect e b rec)"
  unfolding inspect_def Let_def
  by (intro good_self good_bind good_if good_return good_call good_call_json docker_allowed good_lift ans_intros
        good_need_rendered good_check_rows assign_law) (simp_all add: fixed_fields_def)

lemma good_start_ids:
  assumes "\<And>cids. length cids = length names \<Longrightarrow> allowed (DOCKER @ ''start'' # cids)"
  shows "good (start_ids e l names)"
  unfolding start_ids_def
  by (intro good_bind good_running good_reload good_inspect good_bind_lift good_call good_return assms ans_intros)
     (rule res_map_length)

lemma good_stop_helper: "good (stop_helper e n)"
  unfolding stop_helper_def Let_def
  by (intro good_bind good_call docker_allowed good_if good_self good_lift ans_intros helper_allowed good_return good_raise assign_law)
     (simp_all add: fixed_fields_def)

lemma good_stop_each: "good (stop_each e ns)"
  by (induction ns) (auto intro!: good_return good_bind good_stop_helper)

lemma good_stop_helpers: "good (stop_helpers e)"
  unfolding stop_helpers_def by (intro good_self good_stop_each)

lemma good_oneoff:
  assumes "\<And>n. allowed (cmd @ [''run'', ''--rm'', ''--no-deps'', ''--name'', n, ''--entrypoint'', ''python'', ''web''] @ args)"
  shows "good (oneoff e l args t)"
  unfolding oneoff_def Let_def
  by (intro good_bind good_running good_reload good_inspect uuid_law good_cmd good_finally good_call assms good_stop_helpers assign_law)
     (simp add: fixed_fields_def)

lemma good_volumes: "good (check_volumes e d ns vs)"
proof (induction ns arbitrary: vs)
  case (Cons n ns)
  then show ?case
    by (cases n) (auto simp: Let_def intro!: good_raise good_self good_bind good_call_json docker_allowed good_lift ans_intros good_look)
qed (simp add: good_return)

lemma good_stores: "good (on_host (check_stores vs i c))"
  unfolding check_stores_def on_host_simps
  by (intro good_bind ops good_postgres good_redis good_state_path good_state_paths ans_intros)

lemma good_backing: "good (backing_data e)"
  unfolding backing_data_def Let_def
  by (intro good_bind good_call docker_allowed good_look good_self good_lift good_volumes good_stores ans_intros; simp)

lemma good_generation: "good (container_generation e sel)"
  unfolding container_generation_def
  by (intro lift_json good_self good_bind good_checked read_law good_lift ans_intros good_return)

lemma good_bind_fresh: "good (bind_admission_fresh e)"
  unfolding bind_admission_fresh_def private_write_def
  by (intro good_lock good_self good_bind good_look good_inspect good_call_json docker_allowed good_lift good_backing good_reload
        token_law write_law sync_law good_return ans_intros; simp)

lemma good_database_ready: "good (database_ready e v)"
  unfolding database_ready_def by (intro good_cmd good_bind good_lift good_call compose_allowed good_return ans_intros; simp)

lemma good_consumers: "good (consumers e)"
  unfolding consumers_def by (intro good_cmd good_bind good_if good_lift good_call compose_allowed good_return ans_intros; simp)

lemma good_http_ready: "good (http_ready e)"
  unfolding http_ready_def by (intro good_bind http_law good_return)

lemma good_wait_loop: "E Diverge \<Longrightarrow> good check \<Longrightarrow> good (wait_loop e check d n)"
proof (induction n)
  case 0
  then show ?case by (simp add: good_def sx_raise_def R_refl)
next
  case (Suc n)
  then show ?case
    by (auto intro!: good_bind good_running good_if good_return now_law good_raise sleep_law)
qed

lemma good_wait: "E Diverge \<Longrightarrow> good check \<Longrightarrow> good (wait e check n)"
  unfolding wait_def by (intro good_bind now_law good_wait_loop)

end

text \<open>Where not ending is excluded, the waits have to be bounded by the clock.\<close>

locale runtime_laws = runtime_base R I E e cmd allowed
  for R :: "'x rt \<Rightarrow> 'x rt \<Rightarrow> bool" and I :: "'x rt \<Rightarrow> bool" and E :: "exn \<Rightarrow> bool"
    and e :: "'x runtime_env" and cmd :: "string list" and allowed :: "string list \<Rightarrow> bool" +
  assumes wait_law: "good check \<Longrightarrow> good (wait e check n)"
begin

lemma good_stop_apps:
  assumes "\<And>cids. allowed (DOCKER @ [''stop'', ''--time'', ''30''] @ cids)"
  shows "good (stop_apps e sel)"
  unfolding stop_apps_def by (intro good_bind good_lift ans_intros good_call assms good_return)

lemma good_opened:
  \<comment> \<open>\<open>start_stores\<close> after admission is closed\<close>
  assumes "\<And>cids. length cids = 4 \<Longrightarrow> allowed (DOCKER @ ''start'' # cids)"
  shows "good (opened e)"
  unfolding opened_def
  by (intro good_cmd good_bind good_call compose_allowed good_backing good_read_text good_lift good_start_ids good_self wait_law
        good_database_ready assms ans_intros) (simp_all add: DEPENDENCIES_def)

lemma good_checks:
  assumes "\<And>n args. allowed (cmd @ [''run'', ''--rm'', ''--no-deps'', ''--name'', n, ''--entrypoint'', ''python'', ''web''] @ args)"
  shows "good (start_checks e)"
  unfolding start_checks_def python_def
  by (intro good_self good_bind good_lift good_oneoff good_running good_return ans_intros assms)

lemma good_admitted:
  \<comment> \<open>\<open>start\<close> after its checks\<close>
  assumes "\<And>cids. allowed (DOCKER @ ''start'' # cids)"
  shows "good (admitted e)"
  unfolding admitted_def
  by (intro good_bind good_start_ids assms wait_law good_consumers good_inspect good_compose_helper good_http_ready good_running say_law)

lemma good_stop:
  assumes "\<And>cids. allowed (DOCKER @ [''stop'', ''--time'', ''30''] @ cids)"
  shows "good (stop e)"
  unfolding stop_def stop_authorized_def Let_def
  by (intro good_finally good_stop_helpers good_self good_if good_return good_bind good_call docker_allowed assms; simp)

lemma good_on_failure: "on_failure e x = Some k \<Longrightarrow> good k"
  unfolding on_failure_def
  by (auto split: if_splits intro!: good_self good_bind good_evidence good_raise)

lemma good_watch: "E Diverge \<Longrightarrow> good (watch e n)"
proof (induction n)
  case 0
  then show ?case by (simp add: good_def sx_raise_def R_refl)
next
  case (Suc n)
  then show ?case
    by (auto intro!: good_bind good_poll good_self good_return sleep_law good_phase good_reload good_inspect)
qed

lemma good_install:
  assumes "\<And>args. allowed (''systemctl'' # args)"
  shows "good (on_host (install_unit e p d b))"
  unfolding install_unit_def checked_run_def on_host_simps
  by (intro good_bind ops good_trusted good_load_manifest tool_law assms ans_intros; simp)

lemma good_start:
  assumes "\<And>v. good (authorize v)" and "\<And>args. allowed args"
  shows "good (start e)"
  unfolding start_def start_stores_def
  by (intro good_bind good_running good_inspect good_generation assms good_stop_apps good_opened good_checks good_admitted)

lemma good_supervise:
  assumes "\<And>v. good (authorize v)" and "\<And>args. allowed args" and "E Diverge"
  shows "good (supervise e n)"
  unfolding supervise_def supervised_def
  by (intro good_lock good_bind good_handling good_finally good_catch good_start assms good_running notify_law good_watch good_on_failure good_stop)

lemma good_reconcile:
  assumes "\<And>args. allowed args"
  shows "good (reconcile_admission e b)"
  unfolding reconcile_admission_def python_def
  by (intro good_lock good_bind good_inspect good_generation good_lift good_call_json docker_allowed good_reload good_self good_oneoff
        good_evidence ans_intros assms; simp)

end

end
