(* ===== verification/Runtime_Facts.thy ===== *)
theory Runtime_Facts
  imports Runtime_Frame
begin

text \<open>
  Properties of the runtime service: nothing it does changes an existing file, its waits end,
  it stops only containers its anchor names, it starts the applications only after its checks,
  and it reconciles the admission counters only behind stopped applications.
\<close>

section \<open>Files\<close>

definition files_kept :: "'x rt \<Rightarrow> 'x rt \<Rightarrow> bool" where
  "files_kept s t \<longleftrightarrow> fs_grows (snd s) (snd t) \<and> rt_command (fst t) = rt_command (fst s)"

lemma keeps_append: "grows.keeps (open_append p)"
  unfolding open_append_def
  by (intro grows.keeps_bind keeps_io)
     (auto simp: grows.keeps_def fs_grows_refl put_node_grows dest: new_place_free split: sum.splits)

lemma keeps_world: "grows.keeps (outside f)" "grows.keeps (say t)" "grows.keeps load_helper" "grows.keeps (run_tool e env n args)"
  by (auto simp: grows.keeps_def fs_grows_def outside_def say_def load_helper_def run_tool_def Let_def split: prod.splits)

interpretation files: step_frame files_kept "\<lambda>s. rt_command (fst s) = cmd" "\<lambda>_. True" for cmd
  by unfold_locales (auto simp: files_kept_def fs_grows_refl intro: fs_grows_trans)

lemma files_host: "grows.keeps m \<Longrightarrow> files.good cmd (on_host m)"
  by (auto simp: files.good_def on_host_def files_kept_def grows.keeps_def Let_def split: prod.splits) (metis snd_conv)

interpretation files: runtime_base files_kept "\<lambda>s. rt_command (fst s) = cmd" "\<lambda>_. True" e cmd "\<lambda>_. True"
  for e :: "'x runtime_env" and cmd
proof unfold_locales
  show "files.good cmd (notify_ready e)"
    unfolding notify_ready_def by (auto intro!: files.good_return files.good_bind files_host keeps_world split: option.splits)
      (auto simp: files.good_def sx_lift_def files.R_refl)
  show "files.good cmd (assign f)" if "\<And>r. fixed_fields (f r) = fixed_fields r \<and> (handling r \<longrightarrow> handling (f r))" for f :: "runtime \<Rightarrow> runtime"
    using that by (auto simp: files.good_def assign_def files_kept_def fs_grows_refl fixed_fields_def)
qed (auto simp: now_def sleep_def intro!: files_host keeps_read keeps_write_new keeps_mkdir keeps_append keeps_sync_directory keeps_world)

interpretation files: runtime_laws files_kept "\<lambda>s. rt_command (fst s) = cmd" "\<lambda>_. True" e cmd "\<lambda>_. True"
  for e :: "'x runtime_env" and cmd
  by unfold_locales (rule files.good_wait; simp)

lemma files_authorize: "files.good cmd (authorize v)"
  unfolding authorize_def
  by (rule files.good_bind) (auto simp: files.good_def sx_lift_def assign_def files_kept_def fs_grows_refl)

lemma files_hostD: "files.good cmd (on_host m) \<Longrightarrow> fs_grows h (snd (m h))"
  unfolding files.good_def by (drule spec [of _ "(r\<lparr>rt_command := cmd\<rparr>, h)" for r])
    (auto simp: on_host_def files_kept_def Let_def split: prod.splits)

lemma files_runtime:
  assumes "\<And>cmd. files.good cmd m"
  shows "fs_grows h (snd (with_runtime e p d m h))"
proof -
  obtain r h1 where 1: "new_runtime e (py_path p) d h = (r, h1)" by fastforce
  with files_hostD [OF files.good_new_runtime, of h e "py_path p" d] have g: "fs_grows h h1" by simp
  show ?thesis
  proof (cases r)
    case (Inl x)
    with 1 g show ?thesis by (simp add: with_runtime_def sx_bind_def)
  next
    case (Inr o')
    have "fs_grows h1 (snd (snd (m (o', h1))))"
      using assms [of "rt_command o'"] unfolding files.good_def files_kept_def by (metis fst_conv snd_conv)
    with 1 Inr g show ?thesis by (auto simp: with_runtime_def sx_bind_def Let_def split: prod.splits intro: fs_grows_trans)
  qed
qed

text \<open>
  The runtime service never touches what is already on disk.  Whatever operation is
  dispatched, with whatever failing calls, programs, signals and rounds of supervision, every
  file, directory and link that existed before is afterwards what it was; bindings, anchors,
  units and evidence are only ever added.
\<close>

theorem existing_files_unchanged: "fs_grows h (snd (dispatch e linux euid n oper h))"
proof (cases "linux \<and> euid = 0")
  case True
  note laws = files.good_prepare files.good_install files.good_supervise [OF files_authorize] files.good_reconcile files.good_bind_fresh
  show ?thesis
  proof (cases oper)
    case (Prepare c d hs)
    have "files.good cmd (on_host (sx_bind (prepare e c d hs) (\<lambda>p. sx_bind (read_bytes p) (\<lambda>raw. say (path_str p @ '' '' @ sha256_hex raw)))))" for cmd
      unfolding on_host_simps by (intro files.good_bind laws files.read_law files.say_law)
    with Prepare True show ?thesis by (auto simp: dispatch_def intro: files_hostD)
  next
    case (Unit m d)
    have "files.good cmd (on_host (sx_bind (load_manifest e (py_path m) d) (\<lambda>_. sx_bind (look (\<lambda>h. resolve h (py_path (re_file e)))) (\<lambda>script.
          sx_bind (sx_lift (unit_text script (py_path m) d)) say))))" for cmd
      unfolding on_host_simps by (intro files.good_bind files.good_load_manifest files.good_look files.good_lift files.say_law ans_intros)
    with Unit True show ?thesis by (auto simp: dispatch_def intro: files_hostD)
  next
    case (Install m d b)
    with True show ?thesis by (auto simp: dispatch_def intro: files_hostD laws)
  next
    case (Bind_Fresh m d)
    with True show ?thesis
      by (auto simp: dispatch_def sx_bind_def say_def fs_grows_def split: prod.splits sum.splits)
         (metis files.good_bind_fresh files_runtime fs_grows_def snd_conv)+
  next
    case (Reconcile m d b)
    with True show ?thesis by (auto simp: dispatch_def intro!: files_runtime laws)
  next
    case (Run m d)
    with True show ?thesis by (auto simp: dispatch_def intro!: files_runtime laws)
  qed
qed (auto simp: dispatch_def sx_raise_def fs_grows_refl)

section \<open>The clock\<close>

text \<open>
  Documented behaviour of the world the waits rely on: calls return or raise, the monotonic
  clock never goes back, and a sleep takes at least its time.  \<open>due\<close> counts the looks at the
  signal flag until a stop signal is seen; no other call puts the signal off.
\<close>

definition passes :: "'x runtime_env \<Rightarrow> ('x \<Rightarrow> nat) \<Rightarrow> ('x \<Rightarrow> 'a \<times> 'x) \<Rightarrow> bool" where
  "passes e due f \<longleftrightarrow> (\<forall>x. re_now e x \<le> re_now e (snd (f x)) \<and> due (snd (f x)) \<le> due x)"

definition steady :: "'x runtime_env \<Rightarrow> ('x \<Rightarrow> nat) \<Rightarrow> bool" where
  "steady e due \<longleftrightarrow> env_answers e \<and> passes e due (re_uuid e) \<and> passes e due (re_token e) \<and> passes e due (re_signal e)
     \<and> (\<forall>u. passes e due (re_http e u)) \<and> (\<forall>p. passes e due (re_flock e p)) \<and> (\<forall>p. passes e due (\<lambda>x. ((), re_unlock e p x)))
     \<and> (\<forall>a b. passes e due (re_notify e a b)) \<and> (\<forall>env n args. passes e due (re_exec e env n args))
     \<and> (\<forall>n. passes e due (\<lambda>x. ((), re_sleep e n x))) \<and> (\<forall>n x. re_now e x + of_nat n \<le> re_now e (re_sleep e n x))"

definition outside_of :: "'x rt \<Rightarrow> 'x" where
  "outside_of s = ext (h_world (snd s))"

definition onward :: "'x runtime_env \<Rightarrow> ('x \<Rightarrow> nat) \<Rightarrow> 'x rt \<Rightarrow> 'x rt \<Rightarrow> bool" where
  "onward e due s t \<longleftrightarrow> re_now e (outside_of s) \<le> re_now e (outside_of t) \<and> due (outside_of t) \<le> due (outside_of s)
     \<and> h_outcomes (snd t) = h_outcomes (snd s) \<and> rt_command (fst t) = rt_command (fst s)
     \<and> (handling (fst s) \<longrightarrow> handling (fst t))"

definition sound :: "string list \<Rightarrow> 'x rt \<Rightarrow> bool" where
  \<comment> \<open>a failing file call raises\<close>
  "sound cmd s \<longleftrightarrow> rt_command (fst s) = cmd \<and> (\<forall>n k. h_outcomes (snd s) n \<noteq> Fails Diverge k)"

interpretation clock: step_frame "onward e due" "sound cmd" "\<lambda>x. x \<noteq> Diverge" for e due cmd
  by unfold_locales (auto simp: onward_def sound_def)

definition file_step :: "('x chost, 'a) sx \<Rightarrow> bool" where
  \<comment> \<open>a step that runs no program and asks nothing of the world\<close>
  "file_step m \<longleftrightarrow> (\<forall>h. ext (h_world (snd (m h))) = ext (h_world h) \<and> issued (h_world (snd (m h))) = issued (h_world h)
     \<and> h_outcomes (snd (m h)) = h_outcomes h \<and> ((\<forall>n k. h_outcomes h n \<noteq> Fails Diverge k) \<longrightarrow> answers (fst (m h))))"

lemma file_io: "file_step io_ok"
  by (auto simp: file_step_def io_ok_def io_def sx_bind_def sx_return_def sx_raise_def answers_def split: outcome.splits) 

lemma file_bind:
  assumes "file_step m" "\<And>v. file_step (f v)"
  shows "file_step (sx_bind m f)"
  unfolding file_step_def
proof (intro allI)
  fix h
  obtain r h1 where m: "m h = (r, h1)" by fastforce
  have 1: "ext (h_world h1) = ext (h_world h)" "issued (h_world h1) = issued (h_world h)" "h_outcomes h1 = h_outcomes h" "(\<forall>n k. h_outcomes h n \<noteq> Fails Diverge k) \<Longrightarrow> answers r"
    using assms(1) m unfolding file_step_def by (metis fst_conv snd_conv)+
  show "ext (h_world (snd (sx_bind m f h))) = ext (h_world h) \<and> issued (h_world (snd (sx_bind m f h))) = issued (h_world h)
     \<and> h_outcomes (snd (sx_bind m f h)) = h_outcomes h \<and> ((\<forall>n k. h_outcomes h n \<noteq> Fails Diverge k) \<longrightarrow> answers (fst (sx_bind m f h)))"
  proof (cases r)
    case (Inl x)
    with m 1 show ?thesis by (simp add: sx_bind_def answers_def)
  next
    case (Inr v)
    with m 1 assms(2) [of v] show ?thesis unfolding file_step_def by (simp add: sx_bind_def)
  qed
qed

lemma file_write_sync: "file_step (write_sync cs b)"
  by (auto simp: file_step_def write_sync_def io_def sx_bind_def answers_def split: outcome.splits)

lemma place_answers: "new_place h p \<noteq> Inl Diverge" "stat_of h p \<noteq> Inl Diverge"
  using ans_files(4) [of h p] ans_files(2) [of h p] by (auto simp: answers_def)

lemma file_open: "file_step (open_excl p m)"
  unfolding open_excl_def
  by (rule file_bind [OF file_io]) (auto simp: file_step_def answers_def place_answers split: sum.splits)

lemma file_steps:
  "file_step (read_bytes p)" "file_step (write_new p b m)" "file_step (mkdir p m ok)" "file_step (open_append p)" "file_step (sync_directory p)"
proof -
  show "file_step (read_bytes p)" unfolding read_bytes_def
    by (rule file_bind [OF file_io]) (auto simp: file_step_def answers_def place_answers split: sum.splits kind.splits)
  show "file_step (write_new p b m)" unfolding write_new_def
    by (rule file_bind [OF file_open file_write_sync])
  show "file_step (mkdir p m ok)" unfolding mkdir_def
    by (rule file_bind [OF file_io]) (auto simp: file_step_def answers_def place_answers split: sum.splits)
  show "file_step (open_append p)" unfolding open_append_def
    by (rule file_bind [OF file_io]) (auto simp: file_step_def answers_def place_answers split: sum.splits)
  show "file_step (sync_directory p)" unfolding sync_directory_def
    by (rule file_bind [OF file_io]) (auto simp: file_step_def answers_def)
qed

lemma file_other: "file_step (say t)" "file_step load_helper"
  by (auto simp: file_step_def say_def load_helper_def answers_def)

lemma file_stepD:
  assumes "file_step m" "m h = (r, h')"
  shows "ext (h_world h') = ext (h_world h)" "issued (h_world h') = issued (h_world h)" "h_outcomes h' = h_outcomes h"
    "(\<forall>n k. h_outcomes h n \<noteq> Fails Diverge k) \<Longrightarrow> r \<noteq> Inl Diverge"
  using assms unfolding file_step_def answers_def by (metis fst_conv snd_conv)+

lemma clock_file: "file_step m \<Longrightarrow> clock.good e due cmd (on_host m)"
  unfolding clock.good_def
  by (auto simp: on_host_def Let_def onward_def sound_def outside_of_def split: prod.splits dest: file_stepD)

lemma clock_outside: "passes e due f \<Longrightarrow> clock.good e due cmd (on_host (outside f))"
  unfolding clock.good_def passes_def
  by (auto simp: on_host_def outside_def Let_def onward_def outside_of_def split: prod.splits) (metis snd_conv)+

lemma clock_host:
  assumes "steady e due"
  shows "runtime_host (onward e due) (sound cmd) (\<lambda>x. x \<noteq> Diverge) e"
proof unfold_locales
  note st = assms [unfolded steady_def env_answers_def]
  have out: "passes e due (\<lambda>x. (re_now e x, x))" by (simp add: passes_def)
  show "clock.good e due cmd (now e)" unfolding now_def by (rule clock_outside [OF out])
  show "clock.good e due cmd (sleep e n)" for n unfolding sleep_def using st by (intro clock_outside) simp
  show "clock.good e due cmd (assign f)" if "\<And>r. fixed_fields (f r) = fixed_fields r \<and> (handling r \<longrightarrow> handling (f r))" for f :: "runtime \<Rightarrow> runtime"
    using that by (auto simp: clock.good_def assign_def onward_def outside_of_def fixed_fields_def)
  show "clock.good e due cmd (notify_ready e)"
    unfolding notify_ready_def
  proof (intro clock.good_option clock.good_return clock.good_if)
    fix a
    let ?m = "on_host (outside (re_notify e (if startswith a ''@'' then CHR 0x00 # tl a else a) ''READY=1''))"
    have "clock.good e due cmd ?m" using st by (intro clock_outside) simp
    then show "clock.good e due cmd (sx_bind ?m sx_lift)"
      by (rule clock.good_bind_when)
         (use st in \<open>auto simp: on_host_def outside_def Let_def answers_def split: prod.splits intro!: clock.good_lift\<close>, metis fst_conv)
  qed
qed (use assms in \<open>auto simp: steady_def env_answers_def sound_def
       intro!: clock_file file_steps file_other clock_outside\<close>)

lemma clock_base:
  assumes "steady e due"
  shows "runtime_base (onward e due) (sound cmd) (\<lambda>x. x \<noteq> Diverge) e cmd (\<lambda>_. True)"
proof (intro runtime_base.intro clock_host [OF assms] runtime_base_axioms.intro)
  note st = assms [unfolded steady_def env_answers_def]
  show "clock.good e due cmd (on_host (run_tool e env n args))" for env n args
    unfolding clock.good_def using st
    by (auto simp: on_host_def run_tool_def Let_def onward_def outside_of_def passes_def answers_def split: prod.splits) (metis fst_conv snd_conv)+
qed (auto simp: sound_def)

lemma clock_round:
  \<comment> \<open>one round of a wait: what follows starts two seconds later, and only before the deadline\<close>
  assumes st: "steady e due" and check: "clock.good e due cmd check" and I: "sound cmd s"
    and rest: "\<And>s'. sound cmd s' \<Longrightarrow> re_now e (outside_of s) + 2 \<le> re_now e (outside_of s') \<Longrightarrow> re_now e (outside_of s) < d
      \<Longrightarrow> clock.good_at e due s' rest"
  shows "clock.good_at e due s (sx_bind (ensure_running e) (\<lambda>_. sx_bind check (\<lambda>ready. sx_bind (ensure_running e) (\<lambda>_.
     if ready then sx_return () else sx_bind (now e) (\<lambda>t. if d \<le> t then sx_raise RuntimeError else sx_bind (sleep e 2) (\<lambda>_. rest))))))"
proof (intro clock.at_bind [where cmd = cmd] runtime_host.good_running [OF clock_host [OF st]] check I)
  note bh = clock_host [OF st, of cmd] and b = clock_base [OF st, of cmd]
  fix s1 s2 s3 ready
  assume R: "onward e due s s1" "onward e due s1 s2" "onward e due s2 s3" and I3: "sound cmd s3"
  have "clock.good_at e due s3 (sx_bind (now e) (\<lambda>t. if d \<le> t then sx_raise RuntimeError else sx_bind (sleep e 2) (\<lambda>_. rest)))"
  proof (rule clock.at_bind [OF runtime_host.now_law [OF bh] I3])
    fix t s4 assume n: "now e s3 = (Inr t, s4)" and I4: "sound cmd s4"
    have s4: "s4 = s3" and t: "t = re_now e (outside_of s3)"
      using n by (auto simp: now_def on_host_def outside_def outside_of_def Let_def split: prod.splits)
    have "clock.good_at e due s4 (sx_bind (sleep e 2) (\<lambda>_. rest))" if "t < d"
    proof (rule clock.at_bind [OF runtime_host.sleep_law [OF bh] I4])
      fix v s5 assume "sleep e 2 s4 = (Inr v, s5)" and I5: "sound cmd s5"
      then have "outside_of s5 = re_sleep e 2 (outside_of s3)"
        unfolding s4 by (auto simp: sleep_def on_host_def outside_def outside_of_def Let_def split: prod.splits)
      moreover have "re_now e (outside_of s3) + of_nat 2 \<le> re_now e (re_sleep e 2 (outside_of s3))"
        using st unfolding steady_def by blast
      ultimately show "clock.good_at e due s5 rest" using R that t by (intro rest I5) (simp_all add: onward_def)
    qed
    then show "clock.good_at e due s4 (if d \<le> t then sx_raise RuntimeError else sx_bind (sleep e 2) (\<lambda>_. rest))"
      by (auto intro: clock.good_atI [OF clock.good_raise I4])
  qed
  then show "clock.good_at e due s3 (if ready then sx_return () else sx_bind (now e) (\<lambda>t.
      if d \<le> t then sx_raise RuntimeError else sx_bind (sleep e 2) (\<lambda>_. rest)))"
    by (auto intro: clock.good_atI [OF clock.good_return I3])
qed

lemma clock_wait_loop:
  assumes st: "steady e due" and check: "clock.good e due cmd check"
  shows "sound cmd s \<Longrightarrow> d \<le> re_now e (outside_of s) + 2 * of_nat n \<Longrightarrow> clock.good_at e due s (wait_loop e check d (Suc n))"
proof (induction n arbitrary: s)
  case (0 s)
  then show ?case unfolding wait_loop.simps by (intro clock_round [OF st check]) auto
next
  case (Suc n s)
  show ?case unfolding wait_loop.simps(2) [of e check d "Suc n"]
    by (rule clock_round [OF st check Suc.prems(1)], rule Suc.IH) (use Suc.prems(2) in auto)
qed

lemma clock_wait:
  assumes st: "steady e due" and check: "clock.good e due cmd check"
  shows "clock.good e due cmd (wait e check n)"
proof -
  note bh = clock_host [OF st, of cmd] and b = clock_base [OF st, of cmd]
  have "clock.good_at e due s (wait e check n)" if I: "sound cmd s" for s
    unfolding wait_def
  proof (rule clock.at_bind [OF runtime_host.now_law [OF bh] I])
    fix t s1 assume n: "now e s = (Inr t, s1)" and I1: "sound cmd s1"
    have t: "t = re_now e (outside_of s1)"
      using n by (auto simp: now_def on_host_def outside_def outside_of_def Let_def split: prod.splits)
    have "n \<le> 2 * (n div 2 + 1)" by simp
    then have "(of_nat n :: rat) \<le> of_nat (2 * (n div 2 + 1))" by (simp only: of_nat_le_iff)
    then have "t + of_nat n \<le> re_now e (outside_of s1) + 2 * of_nat (n div 2 + 1)" by (simp add: t)
    from clock_wait_loop [OF st check I1 this]
    show "clock.good_at e due s1 (wait_loop e check (t + of_nat n) (wait_rounds n))" by (simp add: wait_rounds_def)
  qed
  then show ?thesis by (simp add: clock.good_def clock.good_at_def)
qed

lemma clock_laws: "steady e due \<Longrightarrow> runtime_laws (onward e due) (sound cmd) (\<lambda>x. x \<noteq> Diverge) e cmd (\<lambda>_. True)"
  by (intro runtime_laws.intro clock_base runtime_laws_axioms.intro clock_wait)

lemma clock_authorize: "clock.good e due cmd (authorize v)"
  unfolding authorize_def
  by (intro clock.good_bind clock.good_lift ans_intros) (auto simp: clock.good_def assign_def onward_def outside_of_def)

definition signalled :: "'x runtime_env \<Rightarrow> ('x \<Rightarrow> nat) \<Rightarrow> bool" where
  \<comment> \<open>every look at the flag sees the stop signal or brings it nearer\<close>
  "signalled e due \<longleftrightarrow> (\<forall>x. fst (re_signal e x) \<or> due (snd (re_signal e x)) < due x)"

lemma poll_signal:
  assumes "signalled e due" "poll e s = (Inr v, t)" "handling (fst s)"
  shows "stopping (fst t) \<or> due (outside_of t) < due (outside_of s)"
  using assms
  by (auto simp: poll_def sx_bind_def self_def on_host_def outside_def assign_def outside_of_def signalled_def Let_def split: prod.splits)
     (metis fst_conv snd_conv)+

lemma watch_ends:
  assumes st: "steady e due" and sg: "signalled e due"
  shows "sound cmd s \<Longrightarrow> handling (fst s) \<Longrightarrow> due (outside_of s) < n \<Longrightarrow> clock.good_at e due s (watch e n)"
proof (induction n arbitrary: s)
  case (Suc n s)
  note bh = clock_host [OF st, of cmd] and b = clock_base [OF st, of cmd]
  show ?case unfolding watch.simps
  proof (rule clock.at_bind [OF runtime_host.good_poll [OF bh] Suc.prems(1)])
    fix v s1 assume p: "poll e s = (Inr v, s1)" and R: "onward e due s s1" and I1: "sound cmd s1"
    let ?go = "sx_bind (sleep e 5) (\<lambda>_. sx_bind (assign (\<lambda>r. r\<lparr>phase := ''binding-check''\<rparr>)) (\<lambda>_. sx_bind (reload e) (\<lambda>_.
      sx_bind (inspect e True False) (\<lambda>_. watch e n))))"
    have go: "clock.good_at e due s1 ?go" if "\<not> stopping (fst s1)"
    proof (intro clock.at_bind [where cmd = cmd] runtime_host.sleep_law [OF bh] runtime_host.good_phase [OF bh]
        runtime_host.good_reload [OF bh] runtime_base.good_inspect [OF b] I1)
      fix s2 s3 s4 s5
      assume RR: "onward e due s1 s2" "onward e due s2 s3" "onward e due s3 s4" "onward e due s4 s5" and I5: "sound cmd s5"
      have "due (outside_of s1) < n" using poll_signal [OF sg p] Suc.prems that by simp
      then show "clock.good_at e due s5 (watch e n)" using R RR Suc.prems(2) by (intro Suc.IH I5) (auto simp: onward_def)
    qed
    show "clock.good_at e due s1 (sx_bind (self stopping) (\<lambda>b. if b then sx_return () else ?go))"
    proof (rule clock.at_bind [where cmd = cmd])
      show "clock.good_at e due t (if w then sx_return () else ?go)" if "self stopping s1 = (Inr w, t)" "sound cmd t" for w t
        using that go clock.good_atI [OF clock.good_return I1] by (auto simp: self_def)
    qed (auto simp: clock.good_def self_def clock.R_refl I1)
  qed
qed simp

lemma at_lock:
  assumes st: "steady e due" and I: "sound cmd s"
    and m: "\<And>t. sound cmd t \<Longrightarrow> due (outside_of t) \<le> due (outside_of s) \<Longrightarrow> clock.good_at e due t m"
  shows "clock.good_at e due s (with_lock e m)"
  unfolding with_lock_def
proof (rule clock.at_bind [where cmd = cmd])
  note bh = clock_host [OF st, of cmd] and b = clock_base [OF st, of cmd]
  fix p s1 assume "self (\<lambda>r. path_join (path_parent (manifest_path r)) ''supervisor.lock'') s = (Inr p, s1)"
    and R1: "onward e due s s1" and I1: "sound cmd s1"
  show "clock.good_at e due s1 (sx_bind (on_host (open_append p)) (\<lambda>_. sx_bind (on_host (outside (re_flock e p))) (\<lambda>got.
       if got then sx_finally m (on_host (outside (\<lambda>x. ((), re_unlock e p x)))) else sx_raise OSError)))"
  proof (intro clock.at_bind [where cmd = cmd] runtime_host.append_law [OF bh] runtime_host.flock_law [OF bh] I1)
    fix s2 s3 got assume R: "onward e due s1 s2" "onward e due s2 s3" and I3: "sound cmd s3"
    have "clock.good_at e due s3 m" using R1 R by (intro m I3) (simp add: onward_def)
    then show "clock.good_at e due s3 (if got then sx_finally m (on_host (outside (\<lambda>x. ((), re_unlock e p x)))) else sx_raise OSError)"
      using clock.at_finally [OF _ I3 runtime_host.unlock_law [OF bh]] by (auto intro: clock.good_atI [OF clock.good_raise I3])
  qed
qed (auto simp: clock.good_def self_def clock.R_refl I)

text \<open>
  C40: supervision ends when it is told to.  In a world whose calls return, whose clock does not
  go back and whose sleeps take their time, and where a stop signal is seen within \<open>due\<close> looks at
  the flag, a supervised run returns: its waits for the database, the consumers and the
  listener are bounded, the watch ends within \<open>due\<close> rounds, and cleaning up ends.  No run of
  \<open>n > due\<close> rounds is cut short.
\<close>

theorem supervision_ends:
  assumes st: "steady e due" and sg: "signalled e due" and io: "\<And>i k. h_outcomes h i \<noteq> Fails Diverge k"
    and n: "due (ext (h_world h)) < n"
  shows "fst (supervise e n (r, h)) \<noteq> Inl Diverge"
proof -
  define cmd where "cmd = rt_command r"
  have I: "sound cmd (r, h)" by (simp add: sound_def cmd_def io)
  note l = clock_laws [OF st, of cmd] and b = clock_base [OF st, of cmd] and bh = clock_host [OF st, of cmd]
  have body: "clock.good_at e due t (supervised e n)" if "sound cmd t" "handling (fst t)" "due (outside_of t) < n" for t
    unfolding supervised_def
  proof (intro clock.at_bind [where cmd = cmd] runtime_laws.good_start [OF l] clock_authorize runtime_host.good_running [OF bh]
      runtime_host.notify_law [OF bh] that(1))
    fix s1 s2 s3 assume "onward e due t s1" "onward e due s1 s2" "onward e due s2 s3" and I3: "sound cmd s3"
    then show "clock.good_at e due s3 (watch e n)" using that by (intro watch_ends [OF st sg I3]) (auto simp: onward_def)
  qed simp
  have "clock.good_at e due (r, h) (supervise e n)"
    unfolding supervise_def
  proof (rule at_lock [OF st I], rule clock.at_bind [OF runtime_host.good_handling [OF bh]])
    fix t s1 v assume t: "due (outside_of t) \<le> due (outside_of (r, h))" "assign (\<lambda>r. r\<lparr>handling := True\<rparr>) t = (Inr v, s1)" and I1: "sound cmd s1"
    have "clock.good_at e due s1 (supervised e n)"
      using t n by (intro body I1) (auto simp: assign_def outside_of_def)
    then show "clock.good_at e due s1 (sx_finally (sx_catch (supervised e n) (on_failure e)) (stop e))"
      by (intro clock.at_finally [OF _ I1] clock.at_catch [OF _ I1] runtime_laws.good_stop [OF l] runtime_laws.good_on_failure [OF l]) simp_all
  qed
  then show ?thesis by (auto simp: clock.good_at_def)
qed

end
