(* ===== verification/Runtime_Traces.thy ===== *)
theory Runtime_Traces
  imports Runtime_Facts "HOL-Library.Sublist"
begin

text \<open>
  What the runtime service does to the machine, read off the history of the programs it ran:
  which containers it stops, when it starts the applications, and when it reconciles the
  admission counters.
\<close>

section \<open>Histories\<close>

abbreviation history :: "'x rt \<Rightarrow> (string list \<times> finished res) list" where
  "history s \<equiv> issued (h_world (snd s))"

definition traced :: "(string list \<Rightarrow> bool) \<Rightarrow> 'x rt \<Rightarrow> 'x rt \<Rightarrow> bool" where
  \<comment> \<open>only programs with these arguments were run; the object's fixed fields and existing files stay\<close>
  "traced P s t \<longleftrightarrow> (\<exists>tr. history t = history s @ tr \<and> list_all (\<lambda>(a, _). P a) tr)
     \<and> fixed_fields (fst t) = fixed_fields (fst s) \<and> fs_grows (snd s) (snd t)"

lemma traced_trans: "traced P s t \<Longrightarrow> traced P t u \<Longrightarrow> traced P s u"
  unfolding traced_def by (auto intro: fs_grows_trans)

interpretation trace: step_frame "traced P" "\<lambda>s. rt_command (fst s) = cmd" "\<lambda>_. True" for P cmd
proof unfold_locales
  show "traced P s s" for s :: "'a rt" by (simp add: traced_def fs_grows_refl)
  show "rt_command (fst t) = cmd" if "rt_command (fst s) = cmd" "traced P s t" for s t :: "'a rt"
    using that by (auto simp: traced_def fixed_fields_def)
qed (auto intro: traced_trans)

lemma trace_file: "file_step m \<Longrightarrow> grows.keeps m \<Longrightarrow> trace.good P cmd (on_host m)"
  unfolding trace.good_def
  by (auto simp: on_host_def Let_def traced_def split: prod.splits dest: file_stepD grows.keepsD)

lemma trace_outside: "trace.good P cmd (on_host (outside f))"
  unfolding trace.good_def
  by (auto simp: on_host_def outside_def Let_def traced_def fs_grows_def split: prod.splits)

lemma trace_host: "runtime_host (traced P) (\<lambda>s. rt_command (fst s) = cmd) (\<lambda>_. True) e"
proof unfold_locales
  show "trace.good P cmd (notify_ready e)"
    unfolding notify_ready_def by (auto intro!: trace.good_return trace.good_bind trace_outside split: option.splits)
      (auto simp: trace.good_def sx_lift_def trace.R_refl)
  show "trace.good P cmd (assign f)" if "\<And>r. fixed_fields (f r) = fixed_fields r \<and> (handling r \<longrightarrow> handling (f r))" for f :: "runtime \<Rightarrow> runtime"
    using that by (auto simp: trace.good_def assign_def traced_def fs_grows_refl)
qed (auto simp: now_def sleep_def intro!: trace_outside trace_file file_steps file_other
       keeps_read keeps_write_new keeps_mkdir keeps_append keeps_sync_directory keeps_world)

lemma trace_base:
  assumes "\<And>k args. k \<noteq> ''start'' \<Longrightarrow> k \<noteq> ''stop'' \<Longrightarrow> k \<noteq> ''compose'' \<Longrightarrow> P (DOCKER @ k # args)"
    and "\<And>k args. k \<noteq> ''run'' \<Longrightarrow> P (cmd @ k # args)" and "\<And>c. P (DOCKER @ [''stop'', ''--time'', ''5'', c])"
  shows "runtime_laws (traced P) (\<lambda>s. rt_command (fst s) = cmd) (\<lambda>_. True) e cmd P"
proof -
  have b: "runtime_base (traced P) (\<lambda>s. rt_command (fst s) = cmd) (\<lambda>_. True) e cmd P"
  proof (intro runtime_base.intro trace_host runtime_base_axioms.intro)
    show "trace.good P cmd (on_host (run_tool e env n args))" if "P args" for env n args
      unfolding trace.good_def using that
      by (auto simp: on_host_def run_tool_def Let_def traced_def fs_grows_def split: prod.splits)
  qed (auto intro: assms)
  show ?thesis by (intro runtime_laws.intro b runtime_laws_axioms.intro runtime_base.good_wait [OF b]) simp
qed

lemma any_laws: "runtime_laws (traced (\<lambda>_. True)) (\<lambda>s. rt_command (fst s) = cmd) (\<lambda>_. True) e cmd (\<lambda>_. True)"
  by (rule trace_base) simp_all

text \<open>Steps that run no program.\<close>

lemma no_entry: "list_all (\<lambda>(a, _). False) tr \<longleftrightarrow> tr = []"
  by (cases tr) auto

lemma silent:
  assumes "\<And>cmd. trace.good (\<lambda>_. False) cmd m" "m s = (r, t)"
  shows "history t = history s" "fixed_fields (fst t) = fixed_fields (fst s)" "fs_grows (snd s) (snd t)"
  using trace.goodD(1) [OF assms(1) [of "rt_command (fst s)"] _ assms(2)]
  by (auto simp: traced_def no_entry)

lemma grown:
  assumes "\<And>cmd. trace.good (\<lambda>_. True) cmd m" "m s = (r, t)"
  obtains tr where "history t = history s @ tr" "fixed_fields (fst t) = fixed_fields (fst s)" "fs_grows (snd s) (snd t)"
  using trace.goodD(1) [OF assms(1) [of "rt_command (fst s)"] _ assms(2)] by (auto simp: traced_def)

lemmas silent_steps = runtime_host.good_running [OF trace_host] runtime_host.good_diagnostic [OF trace_host] runtime_host.good_reload [OF trace_host]
  runtime_host.uuid_law [OF trace_host] runtime_host.good_phase [OF trace_host]

lemma fixed_simps:
  "fixed_fields a = fixed_fields b \<Longrightarrow> rt_command a = rt_command b" "fixed_fields a = fixed_fields b \<Longrightarrow> cleanup_ids a = cleanup_ids b"
  "fixed_fields a = fixed_fields b \<Longrightarrow> manifest_path a = manifest_path b" "fixed_fields a = fixed_fields b \<Longrightarrow> rt_binding a = rt_binding b"
  "fixed_fields a = fixed_fields b \<Longrightarrow> rt_digest a = rt_digest b" "fixed_fields a = fixed_fields b \<Longrightarrow> rt_data a = rt_data b"
  "fixed_fields a = fixed_fields b \<Longrightarrow> project a = project b"
  by (simp_all add: fixed_fields_def)

lemma run_tool_history:
  "on_host (run_tool e env n args) s = (r, t) \<Longrightarrow> history t = history s @ [(args, r)]"
  by (auto simp: on_host_def run_tool_def Let_def split: prod.splits)

text \<open>A call that returns ran exactly its one program, successfully unless a failure was allowed.\<close>

lemma call_history:
  assumes "call e l args opts s = (Inr f, t)"
  shows "history t = history s @ [(args, Inr f)]" "\<not> o_allowed_failure opts \<Longrightarrow> returncode f = 0"
proof -
  let ?q = "if o_allow_stopping opts then sx_return () else ensure_running e"
  let ?d = "\<lambda>g. if o_record opts \<or> returncode g \<noteq> 0
      then diagnostic e l (JObj [(''returncode'', JInt (returncode g)), (''stdout'', JStr (stdout g)), (''stderr'', JStr (stderr g))]) else sx_return ()"
  have q: "trace.good (\<lambda>_. False) cmd ?q" for cmd by (intro trace.good_if trace.good_return silent_steps)
  have d: "trace.good (\<lambda>_. False) cmd (?d g)" for g cmd by (intro trace.good_if trace.good_return silent_steps)
  from assms obtain s1 s2 s3 s4 s5 where
    1: "?q s = (Inr (), s1)" and 2: "assign (\<lambda>r. r\<lparr>phase := l\<rparr>) s1 = (Inr (), s2)"
    and 3: "sx_catch (on_host (run_tool e (environment (fst s2)) (o_timeout opts) args)) (\<lambda>x. if x = SubprocessError
        then Some (sx_bind (diagnostic e l (JObj [(''timeout'', JBool True)])) (\<lambda>_. sx_raise RuntimeError)) else None) s2 = (Inr f, s3)"
    and 4: "?d f s3 = (Inr (), s4)"
    and 5: "(if returncode f \<noteq> 0 \<and> \<not> o_allowed_failure opts then sx_raise RuntimeError else sx_return ()) s4 = (Inr (), s5)"
    and 6: "?q s5 = (Inr (), t)"
    by (auto simp: call_def sx_simps self_def)
  have ran: "on_host (run_tool e (environment (fst s2)) (o_timeout opts) args) s2 = (Inr f, s3)"
    using 3 by (auto simp: sx_catch_def sx_bind_def sx_raise_def split: prod.splits sum.splits option.splits if_splits)
  have "s5 = s4" and rc: "\<not> o_allowed_failure opts \<Longrightarrow> returncode f = 0"
    using 5 by (auto simp: sx_simps split: if_splits)
  then show "history t = history s @ [(args, Inr f)]"
    using silent(1) [OF q 1] silent(1) [OF silent_steps(5) 2] run_tool_history [OF ran] silent(1) [OF d 4] silent(1) [OF q 6] by simp
  from rc show "\<not> o_allowed_failure opts \<Longrightarrow> returncode f = 0" .
qed

lemma finally_Inr: "sx_finally m f s = (Inr v, t) \<Longrightarrow> \<exists>s1. m s = (Inr v, s1) \<and> f s1 = (Inr (), t)"
  by (auto simp: sx_finally_def split: prod.splits sum.splits exn.splits)

definition oneoff_args :: "string list \<Rightarrow> string \<Rightarrow> string list \<Rightarrow> string list" where
  "oneoff_args cmd name args = cmd @ [''run'', ''--rm'', ''--no-deps'', ''--name'', name, ''--entrypoint'', ''python'', ''web''] @ args"

definition passed :: "string list \<Rightarrow> string list \<Rightarrow> string list \<times> finished res \<Rightarrow> bool" where
  \<comment> \<open>a one-off run of these arguments in the application image that exited with code 0\<close>
  "passed cmd args en \<longleftrightarrow> (\<exists>name g. en = (oneoff_args cmd name args, Inr g) \<and> returncode g = 0)"

lemma any_inspect: "trace.good (\<lambda>_. True) cmd (inspect e b rec)"
  by (rule runtime_base.good_inspect [OF runtime_laws.axioms(1) [OF any_laws]])

lemma any_stop_helpers: "trace.good (\<lambda>_. True) cmd (stop_helpers e)"
  by (rule runtime_base.good_stop_helpers [OF runtime_laws.axioms(1) [OF any_laws]])

lemma oneoff_history:
  assumes "oneoff e l args n s = (Inr f, t)"
  obtains tr en where "history t = history s @ tr" "subseq [en] tr" "passed (rt_command (fst s)) args en"
    "fixed_fields (fst t) = fixed_fields (fst s)"
proof -
  from assms obtain s1 s2 sel s3 u s4 s5 s6 where
    1: "ensure_running e s = (Inr (), s1)" and 2: "reload e s1 = (Inr (), s2)" and 3: "inspect e False True s2 = (Inr sel, s3)"
    and 4: "on_host (outside (re_uuid e)) s3 = (Inr u, s4)"
    and 5: "s5 = (fst s4\<lparr>helpers := List.insert (''santa-runtime-check-'' @ u) (helpers (fst s4))\<rparr>, snd s4)"
    and 6: "call e l (oneoff_args (rt_command (fst s5)) (''santa-runtime-check-'' @ u) args) (plain\<lparr>o_timeout := n\<rparr>) s5 = (Inr f, s6)"
    and 7: "stop_helpers e s6 = (Inr (), t)"
    unfolding oneoff_args_def by (auto simp: oneoff_def sx_simps self_def assign_def Let_def dest!: finally_Inr)
  obtain a where a: "history s3 = history s2 @ a" "fixed_fields (fst s3) = fixed_fields (fst s2)" using grown [OF any_inspect 3] by metis
  obtain b where b: "history t = history s6 @ b" "fixed_fields (fst t) = fixed_fields (fst s6)" using grown [OF any_stop_helpers 7] by metis
  let ?en = "(oneoff_args (rt_command (fst s5)) (''santa-runtime-check-'' @ u) args, Inr f)"
  note c = call_history [OF 6]
  obtain c' where "fixed_fields (fst s6) = fixed_fields (fst s5)"
    using grown [OF runtime_base.good_call [OF runtime_laws.axioms(1) [OF any_laws]] 6] by (metis (no_types) TrueI)
  note f = this silent(2) [OF silent_steps(1) 1] silent(2) [OF silent_steps(3) 2] a(2) silent(2) [OF silent_steps(4) 4] b(2)
  have ff: "fixed_fields (fst s5) = fixed_fields (fst s)" using f 5 by (simp add: fixed_fields_def)
  have "history t = history s @ (a @ ?en # b)"
    using silent(1) [OF silent_steps(1) 1] silent(1) [OF silent_steps(3) 2] a(1) silent(1) [OF silent_steps(4) 4] c(1) b(1) 5 by simp
  moreover have "subseq [?en] (a @ ?en # b)" by (simp add: subseq_singleton_left)
  moreover have "passed (rt_command (fst s)) args ?en"
    using c(2) fixed_simps(1) [OF ff] by (auto simp: passed_def plain_def)
  moreover have "fixed_fields (fst t) = fixed_fields (fst s)" using f ff by simp
  ultimately show ?thesis by (rule that)
qed

section \<open>The applications start last\<close>

definition check_args :: "string \<Rightarrow> string list list" where
  \<comment> \<open>the four one-off checks of \<open>start\<close>, in their order\<close>
  "check_args code =
     [[''server/manage.py'', ''shell'', ''--no-imports'', ''-c'', code],
      [''server/manage.py'', ''operator_security_store'', ''check''],
      [''server/manage.py'', ''shell'', ''--no-imports'', ''-c'', check_code],
      [''server/manage.py'', ''shell'', ''--no-imports'', ''-c'', search_code]]"

definition starts_apps :: "string list \<Rightarrow> bool" where
  \<comment> \<open>\<open>docker start\<close> of anything but four containers, as many as there are dependencies\<close>
  "starts_apps args \<longleftrightarrow> take 4 args = DOCKER @ [''start''] \<and> length args \<noteq> 8"

lemma checks_history:
  assumes "start_checks e s = (Inr (), t)"
  obtains tr code es where "history t = history s @ tr" "schema_code (rt_binding (fst s)) = Inr code" "subseq es tr"
    "list_all2 (passed (rt_command (fst s))) (check_args code) es"
proof -
  from assms obtain code s1 s2 s3 s4 f1 f2 f3 f4 where code: "schema_code (rt_binding (fst s)) = Inr code"
    and 1: "oneoff e ''source-schema-store'' (check_args code ! 0) 60 s = (Inr f1, s1)"
    and 2: "oneoff e ''security-store'' (check_args code ! 1) 60 s1 = (Inr f2, s2)"
    and 3: "oneoff e ''sync-admission'' (check_args code ! 2) 60 s2 = (Inr f3, s3)"
    and r: "ensure_running e s3 = (Inr (), s4)"
    and 4: "oneoff e ''search'' (check_args code ! 3) 60 s4 = (Inr f4, t)"
    unfolding check_args_def by (auto simp: start_checks_def python_def sx_simps self_def)
  obtain t1 e1 where h1: "history s1 = history s @ t1" "subseq [e1] t1" "passed (rt_command (fst s)) (check_args code ! 0) e1"
    "fixed_fields (fst s1) = fixed_fields (fst s)" using 1 by (rule oneoff_history)
  obtain t2 e2 where h2: "history s2 = history s1 @ t2" "subseq [e2] t2" "passed (rt_command (fst s1)) (check_args code ! 1) e2"
    "fixed_fields (fst s2) = fixed_fields (fst s1)" using 2 by (rule oneoff_history)
  obtain t3 e3 where h3: "history s3 = history s2 @ t3" "subseq [e3] t3" "passed (rt_command (fst s2)) (check_args code ! 2) e3"
    "fixed_fields (fst s3) = fixed_fields (fst s2)" using 3 by (rule oneoff_history)
  note q = silent(1, 2) [OF silent_steps(1) r]
  obtain t4 e4 where h4: "history t = history s4 @ t4" "subseq [e4] t4" "passed (rt_command (fst s4)) (check_args code ! 3) e4"
    using 4 by (rule oneoff_history)
  have "history t = history s @ (t1 @ t2 @ t3 @ t4)" using h1(1) h2(1) h3(1) h4(1) q(1) by simp
  moreover have "subseq ([e1] @ [e2] @ [e3] @ [e4]) (t1 @ t2 @ t3 @ t4)"
    by (intro list_emb_append_mono h1(2) h2(2) h3(2) h4(2))
  moreover have "list_all2 (passed (rt_command (fst s))) (check_args code) [e1, e2, e3, e4]"
    using h1(3) h2(3) h3(3) h4(3) fixed_simps(1) [OF h1(4)] fixed_simps(1) [OF h2(4)] fixed_simps(1) [OF h3(4)] fixed_simps(1) [OF q(2)]
    by (simp add: check_args_def numeral_2_eq_2 numeral_3_eq_3)
  ultimately show ?thesis using that [OF _ code] by simp
qed

lemma quiet_laws:
  assumes "cmd = DOCKER @ ''compose'' # w"
  shows "runtime_laws (traced (\<lambda>a. \<not> starts_apps a)) (\<lambda>s. rt_command (fst s) = cmd) (\<lambda>_. True) e cmd (\<lambda>a. \<not> starts_apps a)"
  by (rule trace_base) (auto simp: starts_apps_def DOCKER_def assms numeral_eq_Suc)

definition noted :: "(string list \<Rightarrow> bool) \<Rightarrow> 'x rt \<Rightarrow> 'x rt \<Rightarrow> bool" where
  \<comment> \<open>like \<open>traced\<close>, with new authority allowed\<close>
  "noted P s t \<longleftrightarrow> (\<exists>tr. history t = history s @ tr \<and> list_all (\<lambda>(a, _). P a) tr)
     \<and> rt_command (fst t) = rt_command (fst s) \<and> rt_binding (fst t) = rt_binding (fst s)"

interpretation noting: step_frame "noted P" "\<lambda>s. rt_command (fst s) = cmd" "\<lambda>_. True" for P cmd
proof unfold_locales
  show "noted P s u" if "noted P s t" "noted P t u" for s t u :: "'a rt" using that by (auto simp: noted_def)
qed (auto simp: noted_def)

lemma note_good: "trace.good P cmd m \<Longrightarrow> noting.good P cmd m"
  unfolding trace.good_def noting.good_def by (auto simp: traced_def noted_def fixed_fields_def)

lemma note_authorize: "noting.good P cmd (authorize v)"
  unfolding authorize_def
  by (rule noting.good_bind) (auto simp: noting.good_def sx_lift_def assign_def noted_def)

lemma note_stores:
  assumes "cmd = DOCKER @ ''compose'' # w"
  shows "noting.good (\<lambda>a. \<not> starts_apps a) cmd (start_stores e)"
proof -
  note l = quiet_laws [OF assms] and b = runtime_laws.axioms(1) [OF quiet_laws [OF assms]]
  show ?thesis unfolding start_stores_def
    by (intro noting.good_bind note_authorize note_good runtime_host.good_running [OF trace_host] runtime_base.good_inspect [OF b]
          runtime_base.good_generation [OF b] runtime_laws.good_stop_apps [OF l] runtime_laws.good_opened [OF l])
       (simp_all add: starts_apps_def DOCKER_def)
qed

lemma quiet_checks:
  assumes "cmd = DOCKER @ ''compose'' # w"
  shows "noting.good (\<lambda>a. \<not> starts_apps a) cmd (start_checks e)"
  by (rule note_good, rule runtime_laws.good_checks [OF quiet_laws [OF assms]]) (simp add: starts_apps_def DOCKER_def assms)


section \<open>Reconciliation behind stopped applications\<close>

definition runs_oneoff :: "string list \<Rightarrow> string list \<Rightarrow> bool" where
  "runs_oneoff cmd args \<longleftrightarrow> take (Suc (length cmd)) args = cmd @ [''run'']"

lemma lock_history:
  assumes "with_lock e m s = (v, t)"
  obtains "history t = history s"
  | s1 v1 t1 where "m s1 = (v1, t1)" "history s1 = history s" "fixed_fields (fst s1) = fixed_fields (fst s)" "history t = history t1"
proof -
  let ?p = "path_join (path_parent (manifest_path (fst s))) ''supervisor.lock''"
  let ?u = "on_host (outside (\<lambda>x. ((), re_unlock e ?p x)))"
  note host = trace_host [of "\<lambda>_. False" _ e]
  note out = runtime_host.unlock_law [OF host]
  obtain a1 s1 where 1: "on_host (open_append ?p) s = (a1, s1)" by (cases "on_host (open_append ?p) s")
  note q1 = silent(1, 2) [OF runtime_host.append_law [OF host] 1]
  obtain a2 s2 where 2: "on_host (outside (re_flock e ?p)) s1 = (a2, s2)" by (cases "on_host (outside (re_flock e ?p)) s1")
  note q2 = silent(1, 2) [OF runtime_host.flock_law [OF host] 2]
  show ?thesis
  proof (cases "a1 = Inr () \<and> a2 = Inr True")
    case True
    obtain v1 t1 where m: "m s2 = (v1, t1)" by (cases "m s2")
    obtain b t2 where u: "?u t1 = (b, t2)" by (cases "?u t1")
    have "t = t1 \<or> t = t2"
      using assms True 1 2 m u by (auto simp: with_lock_def sx_bind_def self_def sx_finally_def split: sum.splits exn.splits if_splits)
    then have "history t = history t1" using silent(1) [OF out u] by auto
    with q1 q2 show ?thesis by (intro that(2) [OF m]) auto
  next
    case False
    have "t = s1 \<or> t = s2"
      using assms False 1 2 by (auto simp: with_lock_def sx_bind_def self_def sx_raise_def split: sum.splits if_splits)
    with q1 q2 show ?thesis by (intro that(1)) auto
  qed
qed

lemma calm_laws:
  assumes "cmd = DOCKER @ ''compose'' # w"
  shows "runtime_laws (traced (\<lambda>a. \<not> runs_oneoff cmd a)) (\<lambda>s. rt_command (fst s) = cmd) (\<lambda>_. True) e cmd (\<lambda>a. \<not> runs_oneoff cmd a)"
  by (rule trace_base) (auto simp: runs_oneoff_def DOCKER_def assms)

lemma traced_history: "traced P s t \<Longrightarrow> \<exists>tr. history t = history s @ tr \<and> list_all (\<lambda>(a, _). P a) tr"
  by (auto simp: traced_def)

lemma calm_go:
  \<comment> \<open>a run that leaves the relation does not leave it in a good first step\<close>
  assumes "sx_bind m f s = (v, t)" "trace.good P cmd m" "traced P s0 s" "rt_command (fst s) = cmd" "\<not> traced P s0 t"
  obtains u s1 where "m s = (Inr u, s1)" "traced P s0 s1" "f u s1 = (v, t)" "rt_command (fst s1) = cmd"
proof -
  obtain a s1 where m: "m s = (a, s1)" by (cases "m s")
  note g = trace.goodD(1, 2) [OF assms(2, 4) m]
  have t1: "traced P s0 s1" using traced_trans [OF assms(3) g(1)] .
  with assms(1, 5) m obtain u where "a = Inr u" by (cases a) (auto simp: sx_bind_def)
  with assms(1) m t1 g(2) show ?thesis by (intro that) (auto simp: sx_bind_def)
qed

lemma generation_checked:
  assumes "container_generation e sel s = (Inr v, t)"
  shows "generation_ok (fst s) sel v = Inr ()"
  using assms by (auto simp: container_generation_def sx_simps self_def)

lemma generation_ok_cong:
  "fixed_fields a = fixed_fields b \<Longrightarrow> generation_ok a sel v = generation_ok b sel v"
  by (simp add: generation_ok_def fixed_fields_def)

lemma demands_Inr: "demands r = Inr u \<longleftrightarrow> r = Inr True"
  by (cases r) (auto simp: demands_def demand_def res_guard_def)

lemma res_all_True: "res_all f xs = Inr True \<longleftrightarrow> (\<forall>x \<in> set xs. f x = Inr True)"
  by (induction xs) (auto simp: res_simps split: if_splits)

definition seen_stopped :: "json \<Rightarrow> bool" where
  \<comment> \<open>a container as \<open>docker inspect\<close> reports it at rest\<close>
  "seen_stopped row \<longleftrightarrow> (\<exists>ms st p. row = JObj ms \<and> dget ms ''State'' = Some (JObj st)
     \<and> dget st ''Running'' = Some (JBool False) \<and> dget st ''Paused'' = Some (JBool False) \<and> dget st ''Restarting'' = Some (JBool False)
     \<and> dget st ''Pid'' = Some p \<and> num_of p = Some 0)"

definition all_stopped :: "json \<Rightarrow> string list \<Rightarrow> bool" where
  \<comment> \<open>one report per container, of exactly these containers, each at rest\<close>
  "all_stopped v cids \<longleftrightarrow> (\<exists>rows. iter_of v = Inr rows \<and> length rows = length cids \<and> list_all seen_stopped rows
     \<and> (\<forall>c \<in> set cids. \<exists>row \<in> set rows. item_of row ''Id'' = Inr (JStr c)))"

lemma value_seen: "is_value st k (JBool b) = Inr True \<Longrightarrow> \<exists>ms. st = JObj ms \<and> dget ms k = Some (JBool b)"
  by (auto simp: is_value_def get_or_def res_simps get_of_Inr split: option.splits)

lemma pid_seen: "get_is st k JNull (JInt 0) = Inr True \<Longrightarrow> \<exists>ms p. st = JObj ms \<and> dget ms k = Some p \<and> num_of p = Some 0"
proof -
  assume a: "get_is st k JNull (JInt 0) = Inr True"
  then obtain ms where ms: "st = JObj ms" "py_eq (case dget ms k of None \<Rightarrow> JNull | Some w \<Rightarrow> w) (JInt 0)"
    by (auto simp: get_is_def get_or_def res_simps get_of_Inr)
  have "num_of v = Some 0" if "py_eq v (JInt 0)" for v using that by (cases v) (auto split: option.splits)
  with ms show ?thesis by (cases "dget ms k") auto
qed

lemma len_iter: "len_of v = Inr n \<Longrightarrow> iter_of v = Inr vs \<Longrightarrow> length vs = n"
  by (cases v) (auto simp: py_len_def)

lemma quiescent_stopped:
  assumes "quiescent v cids = Inr ()"
  shows "all_stopped v cids"
proof -
  obtain rows where r: "rows_are v cids = Inr rows"
    and st: "\<And>row. row \<in> set rows \<Longrightarrow> \<exists>state. item_of row ''State'' = Inr state \<and> all_of [is_value state ''Running'' (JBool False), is_value state ''Paused'' (JBool False),
                 is_value state ''Restarting'' (JBool False), get_is state ''Pid'' JNull (JInt 0)] = Inr True"
    using assms by (auto simp: quiescent_def res_simps demands_Inr res_all_True simp del: all_of.simps)
  obtain xs where x: "len_of v = Inr (length cids)" "iter_of v = Inr rows" "res_map (\<lambda>row. item_of row ''Id'') rows = Inr xs" "set xs = JStr ` set cids"
    using r by (auto simp: rows_are_def res_simps demand_def)
  have and_True: "res_and a b = Inr True \<longleftrightarrow> a = Inr True \<and> b = Inr True" for a b by (cases a) (auto simp: res_and_def)
  have "seen_stopped row" if mem: "row \<in> set rows" for row
  proof -
    obtain state where s: "item_of row ''State'' = Inr state" "is_value state ''Running'' (JBool False) = Inr True" "is_value state ''Paused'' (JBool False) = Inr True"
        "is_value state ''Restarting'' (JBool False) = Inr True" "get_is state ''Pid'' JNull (JInt 0) = Inr True"
      using st [OF mem] by (auto simp: and_True)
    obtain ms where "row = JObj ms" "dget ms ''State'' = Some state" using s(1) by (auto simp: item_of_Inr)
    then show ?thesis unfolding seen_stopped_def
      using value_seen [OF s(2)] value_seen [OF s(3)] value_seen [OF s(4)] pid_seen [OF s(5)] by auto
  qed
  moreover have "\<exists>row \<in> set rows. item_of row ''Id'' = Inr (JStr c)" if c: "c \<in> set cids" for c
  proof -
    have "JStr c \<in> set xs" using c x(4) by simp
    then obtain i where i: "i < length xs" "xs ! i = JStr c" by (auto simp: in_set_conv_nth)
    then have "i < length rows" using res_map_length [OF x(3)] by simp
    then show ?thesis using i res_map_nth [OF x(3)] by (metis nth_mem)
  qed
  ultimately show ?thesis using x(2) len_iter [OF x(1,2)] by (auto simp: all_stopped_def list_all_iff)
qed

lemma reconcile_history:
  \<comment> \<open>the body of \<open>reconcile_admission\<close> under the lock\<close>
  assumes cmd: "rt_command (fst s) = DOCKER @ ''compose'' # w"
    and run: "sx_bind (inspect e False True) (\<lambda>selected. sx_bind (container_generation e selected) (\<lambda>generation.
     sx_bind (sx_lift (res_map (named selected) APPS)) (\<lambda>cids. sx_bind (call_json e ''admission-quiescence'' (DOCKER @ ''inspect'' # cids) plain) (\<lambda>v.
     sx_bind (sx_lift (quiescent v cids)) (\<lambda>_. rest selected generation cids))))) s = (v, t)"
    and rest: "\<And>selected generation cids cmd. trace.good (\<lambda>_. True) cmd (rest selected generation cids)"
  shows "\<exists>tr. history t = history s @ tr \<and> (list_all (\<lambda>(a, _). \<not> runs_oneoff (rt_command (fst s)) a) tr
     \<or> (\<exists>pre post cids g val sel anchor. tr = pre @ (DOCKER @ ''inspect'' # cids, Inr g) # post
          \<and> list_all (\<lambda>(a, _). \<not> runs_oneoff (rt_command (fst s)) a) pre \<and> returncode g = 0
          \<and> load_text (re_py e) (stdout g) = Inr val \<and> all_stopped val cids
          \<and> res_map (named sel) APPS = Inr cids \<and> generation_ok (fst s) sel anchor = Inr ()))"
proof (cases "traced (\<lambda>a. \<not> runs_oneoff (rt_command (fst s)) a) s t")
  case True
  then show ?thesis using traced_history by blast
next
  case no: False
  note b = runtime_laws.axioms(1) [OF calm_laws [OF cmd]]
  obtain sel s1 where 1: "traced (\<lambda>a. \<not> runs_oneoff (rt_command (fst s)) a) s s1" "rt_command (fst s1) = rt_command (fst s)"
    and run1: "sx_bind (container_generation e sel) (\<lambda>generation. sx_bind (sx_lift (res_map (named sel) APPS)) (\<lambda>cids.
      sx_bind (call_json e ''admission-quiescence'' (DOCKER @ ''inspect'' # cids) plain) (\<lambda>v.
      sx_bind (sx_lift (quiescent v cids)) (\<lambda>_. rest sel generation cids)))) s1 = (v, t)"
    using calm_go [OF run runtime_base.good_inspect [OF b] trace.R_refl refl no] by blast
  obtain anchor s2 where 2: "container_generation e sel s1 = (Inr anchor, s2)" "traced (\<lambda>a. \<not> runs_oneoff (rt_command (fst s)) a) s s2"
      "rt_command (fst s2) = rt_command (fst s)"
    and run2: "sx_bind (sx_lift (res_map (named sel) APPS)) (\<lambda>cids. sx_bind (call_json e ''admission-quiescence'' (DOCKER @ ''inspect'' # cids) plain) (\<lambda>v.
      sx_bind (sx_lift (quiescent v cids)) (\<lambda>_. rest sel anchor cids))) s2 = (v, t)"
    using calm_go [OF run1 runtime_base.good_generation [OF b] 1 no] by blast
  have ok: "generation_ok (fst s) sel anchor = Inr ()"
    using generation_checked [OF 2(1)] 1(1) generation_ok_cong [of "fst s1" "fst s"] by (simp add: traced_def)
  obtain cids where 3: "res_map (named sel) APPS = Inr cids"
    and run3: "sx_bind (call_json e ''admission-quiescence'' (DOCKER @ ''inspect'' # cids) plain) (\<lambda>v.
      sx_bind (sx_lift (quiescent v cids)) (\<lambda>_. rest sel anchor cids)) s2 = (v, t)"
    using calm_go [OF run2 trace.good_lift [OF ans_map [OF ans_row(3)]] 2(2, 3) no] by (auto simp: sx_simps)
  have j: "trace.good (\<lambda>a. \<not> runs_oneoff (rt_command (fst s)) a) (rt_command (fst s))
      (call_json e ''admission-quiescence'' (DOCKER @ ''inspect'' # cids) plain)"
    by (intro runtime_base.good_call_json [OF b] runtime_base.docker_allowed [OF b]) simp_all
  obtain val s4 where 4: "call_json e ''admission-quiescence'' (DOCKER @ ''inspect'' # cids) plain s2 = (Inr val, s4)"
      "traced (\<lambda>a. \<not> runs_oneoff (rt_command (fst s)) a) s s4" "rt_command (fst s4) = rt_command (fst s)"
    and run4: "sx_bind (sx_lift (quiescent val cids)) (\<lambda>_. rest sel anchor cids) s4 = (v, t)"
    using calm_go [OF run3 j 2(2, 3) no] by blast
  then obtain g where g: "call e ''admission-quiescence'' (DOCKER @ ''inspect'' # cids) plain s2 = (Inr g, s4)"
    "load_text (re_py e) (stdout g) = Inr val" by (auto simp: call_json_def sx_simps)
  have 5: "quiescent val cids = Inr ()" and run5: "rest sel anchor cids s4 = (v, t)"
    using calm_go [OF run4 trace.good_lift [OF ans_row(9)] 4(2, 3) no] by (auto simp: sx_simps)
  obtain post where post: "history t = history s4 @ post" using grown [OF rest run5] by metis
  obtain pre where pre: "history s2 = history s @ pre" "list_all (\<lambda>(a, _). \<not> runs_oneoff (rt_command (fst s)) a) pre"
    using traced_history [OF 2(2)] by blast
  have "history t = history s @ (pre @ (DOCKER @ ''inspect'' # cids, Inr g) # post)" "returncode g = 0"
    using post pre call_history [OF g(1)] by (simp_all add: plain_def)
  then show ?thesis using pre(2) g(2) quiescent_stopped [OF 5] 3 ok by blast
qed


section \<open>Only anchored containers are stopped\<close>

definition stops :: "string list \<Rightarrow> bool" where
  "stops args \<longleftrightarrow> take 6 args = DOCKER @ [''stop'', ''--time'', ''30'']"

abbreviation confined :: "string set \<Rightarrow> string list \<Rightarrow> bool" where
  "confined C a \<equiv> (stops a \<longrightarrow> set (drop 6 a) \<subseteq> C)"

lemma confined_mono: "list_all (\<lambda>(a, _). confined A a) tr \<Longrightarrow> A \<subseteq> B \<Longrightarrow> list_all (\<lambda>(a, _). confined B a) tr"
  by (induction tr) auto

definition anchored :: "'x runtime_env \<Rightarrow> path \<Rightarrow> 'x chost \<Rightarrow> string \<Rightarrow> bool" where
  \<comment> \<open>the anchor on disk names this container\<close>
  "anchored e p h c \<longleftrightarrow> (\<exists>nd raw v its. dget (h_fs h) (p_parts p) = Some nd \<and> n_kind nd = Reg raw
     \<and> load_json (re_py e) raw = Inr v \<and> item_of v ''container_ids'' = Inr (JObj its) \<and> JStr c \<in> snd ` set its)"

definition may_stop :: "'x runtime_env \<Rightarrow> 'x rt \<Rightarrow> 'x rt \<Rightarrow> string set" where
  "may_stop e s t = set (cleanup_ids (fst s)) \<union> {c. anchored e (generation_path (fst s)) (snd t) c}"

definition stopsafe :: "'x runtime_env \<Rightarrow> 'x rt \<Rightarrow> 'x rt \<Rightarrow> bool" where
  "stopsafe e s t \<longleftrightarrow> manifest_path (fst t) = manifest_path (fst s) \<and> rt_command (fst t) = rt_command (fst s) \<and> fs_grows (snd s) (snd t)
     \<and> set (cleanup_ids (fst t)) \<subseteq> may_stop e s t
     \<and> (\<exists>tr. history t = history s @ tr \<and> list_all (\<lambda>(a, _). confined (may_stop e s t) a) tr)"

lemma anchored_grows: "fs_grows h h' \<Longrightarrow> anchored e p h c \<Longrightarrow> anchored e p h' c"
  unfolding anchored_def fs_grows_def by blast

lemma stopsafe_trans:
  assumes "stopsafe e s t" "stopsafe e t u"
  shows "stopsafe e s u"
proof -
  have g: "generation_path (fst t) = generation_path (fst s)" using assms(1) by (simp add: stopsafe_def generation_path_def)
  have 1: "may_stop e s t \<subseteq> may_stop e s u"
    using assms(2) by (auto simp: may_stop_def stopsafe_def intro: anchored_grows)
  have 2: "may_stop e t u \<subseteq> may_stop e s u"
    using assms(1) 1 unfolding may_stop_def [of e t] g by (auto simp: stopsafe_def may_stop_def)
  obtain tr tr' where "history t = history s @ tr" "list_all (\<lambda>(a, _). confined (may_stop e s t) a) tr"
    "history u = history t @ tr'" "list_all (\<lambda>(a, _). confined (may_stop e t u) a) tr'"
    using assms unfolding stopsafe_def by blast
  note tr = this
  have "list_all (\<lambda>(a, _). confined (may_stop e s u) a) (tr @ tr')"
    unfolding list_all_append by (intro conjI confined_mono [OF tr(2) 1] confined_mono [OF tr(4) 2])
  with tr have "\<exists>tr. history u = history s @ tr \<and> list_all (\<lambda>(a, _). confined (may_stop e s u) a) tr"
    by (intro exI [of _ "tr @ tr'"] conjI) simp_all
  moreover have "set (cleanup_ids (fst u)) \<subseteq> may_stop e s u" using assms(2) 2 by (auto simp: stopsafe_def)
  ultimately show ?thesis using assms unfolding stopsafe_def by (auto intro: fs_grows_trans)
qed

interpretation safely: step_frame "stopsafe e" "\<lambda>s. rt_command (fst s) = cmd" "\<lambda>_. True" for e cmd
proof unfold_locales
  show "stopsafe e s u" if "stopsafe e s t" "stopsafe e t u" for s t u :: "'a rt" using that by (rule stopsafe_trans)
qed (auto simp: stopsafe_def may_stop_def fs_grows_refl)

lemma safe_at:
  assumes "trace.good (confined (set (cleanup_ids (fst s)))) cmd m" "rt_command (fst s) = cmd"
  shows "safely.good_at e s m"
proof -
  obtain r t where m: "m s = (r, t)" by (cases "m s")
  have t: "traced (confined (set (cleanup_ids (fst s)))) s t" using trace.goodD(1) [OF assms m] .
  have "set (cleanup_ids (fst s)) \<subseteq> may_stop e s t" by (auto simp: may_stop_def)
  moreover from t obtain tr where "history t = history s @ tr" "list_all (\<lambda>(a, _). confined (set (cleanup_ids (fst s))) a) tr"
    using traced_history by blast
  ultimately have "\<exists>tr. history t = history s @ tr \<and> list_all (\<lambda>(a, _). confined (may_stop e s t) a) tr"
    using confined_mono by blast
  with t have "stopsafe e s t"
    unfolding stopsafe_def by (auto simp: traced_def may_stop_def dest: fixed_simps(1-3))
  with m show ?thesis by (simp add: safely.good_at_def)
qed

lemma safe_good: "(\<And>C. trace.good (confined C) cmd m) \<Longrightarrow> safely.good e cmd m"
  unfolding safely.good_iff by (blast intro: safe_at)

lemma safe_laws:
  assumes "cmd = DOCKER @ ''compose'' # w"
  shows "runtime_laws (traced (confined C)) (\<lambda>s. rt_command (fst s) = cmd) (\<lambda>_. True) e cmd (confined C)"
  by (rule trace_base) (auto simp: stops_def DOCKER_def assms numeral_eq_Suc)

lemma all_of_True: "all_of rs = Inr True \<longleftrightarrow> list_all (\<lambda>r. r = Inr True) rs"
  by (induction rs) (auto simp: res_and_def res_simps split: if_splits)

lemma py_eqm_dget: "py_eqm ms ns \<Longrightarrow> (k, v) \<in> set ms \<Longrightarrow> \<exists>w. dget ns k = Some w \<and> py_eq v w"
  by (induction ms) (auto split: option.splits)

lemma dget_texts: "dget (map (\<lambda>(k, v). (k, JStr v)) d) k = map_option JStr (dget d k)"
  by (induction d) auto

lemma generation_ids:
  assumes "generation_ok r sel v = Inr ()"
  obtains its where "item_of v ''container_ids'' = Inr (JObj its)"
    "\<And>name c. name \<in> set APPS \<Longrightarrow> dget sel name = Some c \<Longrightarrow> JStr c \<in> snd ` set its"
proof -
  note ok = assms [unfolded generation_ok_def demands_Inr all_of_True list.pred_inject]
  have k: "res_bind (item_of v ''container_ids'') (\<lambda>c. has_keys c (APPS @ DEPENDENCIES)) = Inr True"
    using ok by (elim conjE)
  have x: "res_bind (item_of v ''container_ids'') (\<lambda>c. res_bind (items_of c) (res_all (\<lambda>(_, x). full_match is_sha256_hex x))) = Inr True"
    using ok by (elim conjE)
  have q: "item_eq v ''container_ids'' (texts sel) = Inr True"
    using ok by (elim conjE)
  obtain cs where i: "item_of v ''container_ids'' = Inr cs" and keys: "has_keys cs (APPS @ DEPENDENCIES) = Inr True"
    using k unfolding res_bind_Inr_iff by (elim exE conjE)
  obtain its where cs: "items_of cs = Inr its" and hex: "res_all (\<lambda>(_, x). full_match is_sha256_hex x) its = Inr True"
    using x unfolding i res_bind.simps res_bind_Inr_iff by (elim exE conjE)
  have eq: "py_eq cs (texts sel)" using q unfolding item_eq_def i by simp
  have c: "cs = JObj its" using cs by (cases cs) auto
  have "JStr c \<in> snd ` set its" if "name \<in> set APPS" "dget sel name = Some c" for name c
  proof -
    have "JStr ` set (map fst its) = JStr ` set (APPS @ DEPENDENCIES)"
      using keys by (simp add: c has_keys_def set_of_def)
    moreover have "JStr name \<in> JStr ` set (APPS @ DEPENDENCIES)" using that(1) by simp
    ultimately have "JStr name \<in> JStr ` set (map fst its)" by metis
    then have "name \<in> set (map fst its)" by auto
    then obtain x where x: "(name, x) \<in> set its" by auto
    have "\<exists>w. dget (map (\<lambda>(k, v). (k, JStr v)) sel) name = Some w \<and> py_eq x w"
      using eq x by (intro py_eqm_dget) (auto simp: c texts_def)
    then have "py_eq x (JStr c)" using that(2) by (simp add: dget_texts)
    moreover obtain t where "x = JStr t" using hex x by (auto simp: res_all_True full_match_def split: json.splits)
    ultimately show ?thesis using x by force
  qed
  with i c show ?thesis using that by blast
qed

lemma checked_path_Inr:
  "checked_path p b h = (Inr q, h') \<Longrightarrow> q = p \<and> h' = h \<and> resolve h p = Inr p"
  by (auto simp: checked_path_def look_def res_simps demand_def)

lemma on_host_iff: "on_host m s = (r, t) \<longleftrightarrow> m (snd s) = (r, snd t) \<and> fst t = fst s"
  by (cases t) (auto simp: on_host_def Let_def split: prod.splits)

lemma read_bytes_Inr:
  assumes "read_bytes p h = (Inr raw, h')"
  shows "\<exists>nd. stat_of h' p = Inr nd \<and> n_kind nd = Reg raw" "h' = called h"
proof -
  from assms obtain h1 where 1: "io_ok h = (Inr (), h1)"
    and 2: "(case stat_of h1 p of Inl x \<Rightarrow> (Inl x, h1) | Inr nd \<Rightarrow> (case n_kind nd of Reg b \<Rightarrow> (Inr b, h1) | _ \<Rightarrow> (Inl OSError, h1))) = (Inr raw, h')"
    by (auto simp: read_bytes_def sx_bind_Inr_iff)
  from 2 have "h' = h1" by (auto split: sum.splits kind.splits)
  with 1 show "h' = called h" using io_ok_cases by blast
  from 2 show "\<exists>nd. stat_of h' p = Inr nd \<and> n_kind nd = Reg raw" by (auto split: sum.splits kind.splits)
qed

lemma generation_anchored:
  assumes "container_generation e sel s = (Inr v, t)" "item_of v ''container_ids'' = Inr (JObj its)" "JStr c \<in> snd ` set its"
  shows "anchored e (generation_path (fst s)) (snd t) c"
proof -
  let ?p = "generation_path (fst s)"
  from assms(1) obtain q s1 raw s2 where
    1: "checked_path ?p True (snd s) = (Inr q, snd s1)" and 2: "read_bytes q (snd s1) = (Inr raw, snd s2)" and 3: "load_json (re_py e) raw = Inr v"
    and t: "t = s2"
    by (auto simp: container_generation_def sx_simps self_def on_host_iff)
  note c = checked_path_Inr [OF 1]
  then have "resolve (snd s) ?p = Inr ?p" by simp
  then have place: "resolve_parts (h_fs (snd s)) (h_cwd (snd s)) ?p = Inr (p_parts ?p)"
    by (auto simp: resolve_def res_simps abs_path_def) (metis path.select_convs(2))
  from read_bytes_Inr [OF 2] c t obtain nd where "stat_of (snd t) ?p = Inr nd" "n_kind nd = Reg raw" "snd t = called (snd s)" by auto
  with place have "dget (h_fs (snd t)) (p_parts ?p) = Some nd" "n_kind nd = Reg raw"
    by (auto simp: stat_of_def res_simps split: option.splits)
  with 3 assms(2, 3) show ?thesis unfolding anchored_def by blast
qed

lemma safe_self: "(\<And>v. safely.good e cmd (f v)) \<Longrightarrow> safely.good e cmd (sx_bind (self g) f)"
  by (rule safely.good_bind) (auto simp: safely.good_def self_def safely.R_refl)

lemma safe_stop_apps:
  assumes cmd: "rt_command (fst s) = DOCKER @ ''compose'' # w"
    and ids: "\<And>name c. name \<in> set APPS \<Longrightarrow> dget sel name = Some c \<Longrightarrow> c \<in> set (cleanup_ids (fst s))"
  shows "safely.good_at e s (stop_apps e sel)"
proof (rule safe_at [OF _ cmd])
  note b = runtime_laws.axioms(1) [OF safe_laws [OF refl]]
  show "trace.good (confined (set (cleanup_ids (fst s)))) (DOCKER @ ''compose'' # w) (stop_apps e sel)"
    unfolding stop_apps_def
  proof (intro trace.good_bind_lift trace.good_bind runtime_base.good_call [OF b] trace.good_return ans_intros)
    fix cids assume m: "res_map (named sel) APPS = Inr cids"
    have "c \<in> set (cleanup_ids (fst s))" if c: "c \<in> set cids" for c
    proof -
      obtain i where i: "i < length APPS" "cids ! i = c" using c res_map_length [OF m] by (auto simp: in_set_conv_nth)
      then have "named sel (APPS ! i) = Inr c" using res_map_nth [OF m i(1)] by simp
      then show ?thesis using i(1) by (intro ids [of "APPS ! i"]) (auto simp: named_def split: option.splits)
    qed
    then show "confined (set (cleanup_ids (fst s))) (DOCKER @ [''stop'', ''--time'', ''30''] @ cids)"
      by (auto simp: DOCKER_def)
  qed
qed

lemma text_values:
  "res_map (\<lambda>(k :: string, v). case v of JStr t \<Rightarrow> Inr t | _ \<Rightarrow> Inl TypeError) its = Inr cids \<Longrightarrow> map snd its = map JStr cids"
  by (induction its arbitrary: cids) (auto simp: res_simps split: json.splits)

lemma safe_authorized:
  assumes gen: "container_generation e sel s = (Inr g, s1)" and cmd: "rt_command (fst s1) = cmd" "cmd = DOCKER @ ''compose'' # w"
    and path: "generation_path (fst s1) = generation_path (fst s)"
  shows "safely.good_at e s1 (sx_bind (authorize g) (\<lambda>_. sx_bind (stop_apps e sel) (\<lambda>_. opened e)))"
proof -
  obtain its where its: "item_of g ''container_ids'' = Inr (JObj its)"
    and named: "\<And>name c. name \<in> set APPS \<Longrightarrow> dget sel name = Some c \<Longrightarrow> JStr c \<in> snd ` set its"
    using generation_ids [OF generation_checked [OF gen]] by blast
  note anc = generation_anchored [OF gen its]
  have op: "safely.good e cmd (opened e)"
    by (rule safe_good, rule runtime_laws.good_opened [OF safe_laws [OF cmd(2)]]) (simp add: stops_def DOCKER_def)
  let ?t = "\<lambda>(k :: string, v). case v of JStr t \<Rightarrow> Inr t | _ \<Rightarrow> Inl TypeError"
  show ?thesis
  proof (cases "res_map ?t its")
    case (Inl x)
    then have "authorize g s1 = (Inl x, s1)" by (simp add: authorize_def its sx_bind_def sx_lift_def)
    then show ?thesis by (simp add: safely.good_at_def sx_bind_def safely.R_refl)
  next
    case (Inr cids)
    let ?s2 = "(fst s1\<lparr>cleanup_ids := cids\<rparr>, snd s1)"
    have a: "authorize g s1 = (Inr (), ?s2)" by (simp add: authorize_def its Inr sx_bind_def sx_lift_def assign_def)
    have mem: "c \<in> set cids \<longleftrightarrow> JStr c \<in> snd ` set its" for c
      using arg_cong [OF text_values [OF Inr], of set] by (auto simp: image_iff)
    have r: "stopsafe e s1 ?s2"
      using mem anc path by (auto simp: stopsafe_def may_stop_def fs_grows_refl)
    have "safely.good_at e ?s2 (sx_bind (stop_apps e sel) (\<lambda>_. opened e))"
    proof (rule safely.at_then [where cmd = cmd])
      show "safely.good_at e ?s2 (stop_apps e sel)" using cmd named mem by (intro safe_stop_apps [of _ w]) auto
    qed (use cmd op in \<open>auto intro: safely.good_atI\<close>)
    with a r show ?thesis by (auto simp: safely.good_at_def sx_bind_def intro: stopsafe_trans)
  qed
qed

lemma safe_start_stores:
  assumes cmd: "cmd = DOCKER @ ''compose'' # w"
  shows "safely.good e cmd (start_stores e)"
proof -
  note b = runtime_laws.axioms(1) [OF safe_laws [OF cmd]]
  have gen: "safely.good e cmd (container_generation e sel)" for sel by (rule safe_good, rule runtime_base.good_generation [OF b])
  have "safely.good_at e s (sx_bind (container_generation e sel) (\<lambda>g. sx_bind (authorize g) (\<lambda>_. sx_bind (stop_apps e sel) (\<lambda>_. opened e))))"
    if "rt_command (fst s) = cmd" for s sel
  proof (rule safely.at_bind [OF gen that])
    fix g s1 assume g: "container_generation e sel s = (Inr g, s1)" and r: "stopsafe e s s1" "rt_command (fst s1) = cmd"
    have "generation_path (fst s1) = generation_path (fst s)" using r(1) by (simp add: stopsafe_def generation_path_def)
    with g r(2) cmd show "safely.good_at e s1 (sx_bind (authorize g) (\<lambda>_. sx_bind (stop_apps e sel) (\<lambda>_. opened e)))"
      by (rule safe_authorized)
  qed
  then have tail: "safely.good e cmd (sx_bind (container_generation e sel) (\<lambda>g. sx_bind (authorize g) (\<lambda>_. sx_bind (stop_apps e sel) (\<lambda>_. opened e))))" for sel
    by (simp add: safely.good_iff)
  have "safely.good e cmd (ensure_running e)" "safely.good e cmd (inspect e False True)"
    by (rule safe_good, rule runtime_host.good_running [OF trace_host] runtime_base.good_inspect [OF b])+
  then show ?thesis unfolding start_stores_def by (intro safely.good_bind [OF _ safely.good_bind] tail)
qed

lemma safe_stop:
  assumes cmd: "cmd = DOCKER @ ''compose'' # w"
  shows "safely.good e cmd (stop e)"
  unfolding stop_def
proof (rule safely.good_finally)
  note b = runtime_laws.axioms(1) [OF safe_laws [OF cmd]]
  show "safely.good e cmd (stop_helpers e)" by (rule safe_good, rule runtime_base.good_stop_helpers [OF b])
  show "safely.good e cmd (stop_authorized e)"
    unfolding safely.good_iff
  proof (intro allI impI)
    fix s :: "'a rt" assume s: "rt_command (fst s) = cmd"
    let ?o = "plain\<lparr>o_allow_stopping := True\<rparr>"
    let ?m = "\<lambda>authorized. if authorized = [] then sx_return () else sx_bind (call e ''cleanup-selection'' (DOCKER @ [''ps'', ''--all'', ''--quiet'', ''--no-trunc'']) ?o) (\<lambda>f.
               let selected = filter (\<lambda>cid. cid \<in> set (py_split_ws (stdout f))) authorized in
             if selected = [] then sx_return ()
             else sx_bind (call e ''stop'' (DOCKER @ [''stop'', ''--time'', ''30''] @ selected) (?o\<lparr>o_timeout := 100\<rparr>)) (\<lambda>_. sx_return ()))"
    have "stop_authorized e s = ?m (cleanup_ids (fst s)) s"
      by (simp add: stop_authorized_def sx_bind_def self_def Let_def)
    moreover have "safely.good_at e s (?m (cleanup_ids (fst s)))"
    proof (rule safe_at [OF _ s])
      show "trace.good (confined (set (cleanup_ids (fst s)))) cmd (?m (cleanup_ids (fst s)))"
        unfolding Let_def
        by (intro trace.good_if trace.good_return trace.good_bind runtime_base.good_call [OF b] runtime_base.docker_allowed [OF b])
           (auto simp: DOCKER_def)
    qed
    ultimately show "safely.good_at e s (stop_authorized e)" by (simp add: safely.good_at_def)
  qed
qed

lemma safe_supervise:
  assumes cmd: "cmd = DOCKER @ ''compose'' # w"
  shows "safely.good e cmd (supervise e n)"
proof -
  note l = safe_laws [OF cmd] note b = runtime_laws.axioms(1) [OF l]
  have checks: "safely.good e cmd (start_checks e)"
    by (rule safe_good, rule runtime_laws.good_checks [OF l]) (simp add: stops_def DOCKER_def cmd)
  have adm: "safely.good e cmd (admitted e)"
    by (rule safe_good, rule runtime_laws.good_admitted [OF l]) (simp add: stops_def DOCKER_def)
  have fail: "safely.good e cmd k" if "on_failure e x = Some k" for x k
    using runtime_laws.good_on_failure [OF l that] by (rule safe_good)
  have prim: "safely.good e cmd (on_host (open_append p))" "safely.good e cmd (on_host (outside (re_flock e p)))"
    "safely.good e cmd (on_host (outside (\<lambda>x. ((), re_unlock e p x))))" for p
    by (rule safe_good, rule runtime_host.append_law [OF trace_host] runtime_host.flock_law [OF trace_host] runtime_host.unlock_law [OF trace_host])+
  have steps: "safely.good e cmd (assign (\<lambda>r. r\<lparr>handling := True\<rparr>))" "safely.good e cmd (ensure_running e)" "safely.good e cmd (notify_ready e)"
    by (rule safe_good, rule runtime_host.good_handling [OF trace_host] runtime_host.good_running [OF trace_host] runtime_host.notify_law [OF trace_host])+
  have "safely.good e cmd (watch e n)" by (rule safe_good, rule runtime_laws.good_watch [OF l]) simp
  then have "safely.good e cmd (supervised e n)"
    unfolding supervised_def start_def by (intro safely.good_bind safe_start_stores [OF cmd] checks adm steps)
  then have "safely.good e cmd (sx_catch (supervised e n) (on_failure e))" by (rule safely.good_catch) (rule fail)
  then show ?thesis
    unfolding supervise_def with_lock_def
    by (intro safe_self safely.good_bind safely.good_if safely.good_finally prim steps safe_stop [OF cmd] safely.good_raise) simp_all
qed


end
