(* ===== verification/Runtime_Props.thy ===== *)
theory Runtime_Props
  imports Runtime_Traces
begin

text \<open>
  The unit the runtime service installs, what a manifest binds, and concrete runs of the
  supervisor on a small host that show the properties of the service at work.
\<close>

section \<open>The unit\<close>

lemma split_on_plain: "d \<notin> set a \<Longrightarrow> split_on d a = [a]"
  by (induction a) auto

lemma split_on_app: "d \<notin> set a \<Longrightarrow> split_on d (a @ d # b) = a # split_on d b"
  by (induction a) auto

lemma split_on_lines: "\<forall>l \<in> set ls. d \<notin> set l \<Longrightarrow> split_on d (concat (map (\<lambda>l. l @ [d]) ls)) = ls @ [[]]"
  by (induction ls) (auto simp: split_on_app)

lemma unit_path_chars: "unit_path_ok v \<Longrightarrow> list_all (\<lambda>c. is_alnum c \<or> c \<in> set ''/_.-'') v"
  by (cases v) (auto simp: unit_path_ok_def)

lemma plain_path: "unit_path_ok v \<Longrightarrow> CHR '' '' \<notin> set v \<and> CHR 0x0A \<notin> set v"
  by (drule unit_path_chars) (auto simp: list_all_iff is_alnum_def is_digit_def is_upper_def is_lower_def in_range_def)

lemma plain_digest: "is_sha256_hex v \<Longrightarrow> CHR '' '' \<notin> set v \<and> CHR 0x0A \<notin> set v"
  by (auto simp: is_sha256_hex_def fullmatch_n_def list_all_iff is_lower_hex_def is_digit_def in_range_def)

text \<open>
  The installed unit runs one command with exactly the reviewed words.  Whatever script,
  manifest and digest are given, a unit text that is produced has the fixed lines and nothing
  else, and its command line splits at spaces into the interpreter, the script, the manifest
  and the digest: no path can add a line, a word or a directive.
\<close>

theorem unit_is_one_command:
  assumes "unit_text script manifest digest = Inr t"
  shows "split_on (CHR 0x0A) t = unit_lines (path_str script) (path_str manifest) digest @ [[]]
    \<and> split_on (CHR '' '') (unit_lines (path_str script) (path_str manifest) digest ! 12) =
      [''ExecStart=/usr/bin/python3'', ''-I'', path_str script, ''run'', ''--manifest'', path_str manifest, ''--sha256'', digest]"
proof -
  from assms have ok: "unit_path_ok (path_str script)" "unit_path_ok (path_str manifest)" "is_sha256_hex digest"
    and t: "t = concat (map (\<lambda>l. l @ [CHR 0x0A]) (unit_lines (path_str script) (path_str manifest) digest))"
    by (auto simp: unit_text_def res_simps demand_def)
  note p = plain_path [OF ok(1)] plain_path [OF ok(2)] plain_digest [OF ok(3)]
  have "split_on (CHR 0x0A) t = unit_lines (path_str script) (path_str manifest) digest @ [[]]"
    unfolding t by (rule split_on_lines) (use p in \<open>simp add: unit_lines_def\<close>)
  moreover
  have "unit_lines (path_str script) (path_str manifest) digest ! 12 =
      ''ExecStart=/usr/bin/python3'' @ CHR '' '' # ''-I'' @ CHR '' '' # path_str script @ CHR '' '' # ''run'' @ CHR '' '' #
      ''--manifest'' @ CHR '' '' # path_str manifest @ CHR '' '' # ''--sha256'' @ CHR '' '' # digest"
    by (simp add: unit_lines_def)
  then have "split_on (CHR '' '') (unit_lines (path_str script) (path_str manifest) digest ! 12) =
      [''ExecStart=/usr/bin/python3'', ''-I'', path_str script, ''run'', ''--manifest'', path_str manifest, ''--sha256'', digest]"
    by (simp only:) (use p in \<open>simp add: split_on_app split_on_plain del: append.simps\<close>)
  ultimately show ?thesis by blast
qed

text \<open>A script, a manifest and a digest that a unit is made of.\<close>

definition demo_script :: path where
  "demo_script = py_path ''/var/lib/azd-santa-qualification/runtime_service.py''"

definition demo_manifest :: path where
  "demo_manifest = py_path ''/var/lib/azd-santa-qualification/r/runtime-service/manifest.json''"

definition demo_digest :: string where
  "demo_digest = replicate 64 (CHR ''a'')"

lemma demo_unit:
  "unit_text demo_script demo_manifest demo_digest =
     Inr (concat (map (\<lambda>l. l @ [CHR 0x0A]) (unit_lines (path_str demo_script) (path_str demo_manifest) demo_digest)))"
proof -
  have "unit_path_ok (path_str demo_script)" "unit_path_ok (path_str demo_manifest)" "is_sha256_hex demo_digest" by code_simp+
  then show ?thesis by (simp add: unit_text_def demand_def)
qed

theorem unit_is_one_command_witness:
  "split_on (CHR '' '') (unit_lines (path_str demo_script) (path_str demo_manifest) demo_digest ! 12) =
     [''ExecStart=/usr/bin/python3'', ''-I'', path_str demo_script, ''run'', ''--manifest'', path_str demo_manifest, ''--sha256'', demo_digest]"
  using unit_is_one_command [OF demo_unit] by (rule conjunct2)

section \<open>Runs on a small host\<close>

text \<open>
  A world of a clock and a number of looks until the stop signal; every program exits with code
  0 and prints one container name.
\<close>

definition demo_env :: "(rat \<times> nat) runtime_env" where
  "demo_env = \<lparr>re_py = \<lparr>float_of = (\<lambda>_. Fin 0), float_repr = (\<lambda>_. ''0.0''), nest_limit = 100, decode_wide = (\<lambda>_. Inl UnicodeError)\<rparr>,
     re_exec = (\<lambda>_ _ _ x. (Inr \<lparr>returncode = 0, stdout = ''c1'', stderr = []\<rparr>, x)), re_environ = [], re_file = ''/v/runtime_service.py'',
     helper_commit = (\<lambda>_ _. Inr COMMIT), re_uuid = (\<lambda>x. (''u'', x)), re_token = (\<lambda>x. (''t'', x)), re_flock = (\<lambda>_ x. (True, x)),
     re_unlock = (\<lambda>_ x. x), re_http = (\<lambda>_ x. (Inl OSError, x)), re_notify = (\<lambda>_ _ x. (Inr (), x)), re_now = fst,
     re_sleep = (\<lambda>n x. (fst x + of_nat n, snd x)), re_signal = (\<lambda>x. (snd x = 0, (fst x, snd x - 1))), re_error = (\<lambda>_. ([], []))\<rparr>"

definition demo_dir :: node where
  "demo_dir = \<lparr>n_kind = Dir, n_uid = 0, n_mode = 448\<rparr>"

definition demo_host :: "nat \<Rightarrow> (rat \<times> nat) chost" where
  "demo_host looks = \<lparr>h_fs = [([], demo_dir), ([''v''], demo_dir), ([''v'', ''ev''], demo_dir),
       ([''v'', ''supervisor.lock''], \<lparr>n_kind = Reg [], n_uid = 0, n_mode = 384\<rparr>)], h_cwd = [], h_umask = 0,
     h_outcomes = (\<lambda>_. Works), h_calls = 0, h_world = \<lparr>helper_loaded = False, printed = [], issued = [], ext = (0, looks)\<rparr>\<rparr>"

definition demo_runtime :: runtime where
  "demo_runtime = \<lparr>manifest_path = py_path ''/v/manifest.json'', rt_digest = [], rt_binding = JNull, rt_data = JNull, project = ''p'',
     environment = [], rt_command = DOCKER @ [''compose''], evidence = py_path ''/v/ev'', ids = [], cleanup_ids = [''c1''], images = [],
     rendered = None, stopping = False, handling = False, phase = ''prepared'', helpers = []\<rparr>"

lemma demo_steady: "steady demo_env snd" "signalled demo_env snd"
  by (auto simp: steady_def signalled_def passes_def env_answers_def answers_def demo_env_def)

theorem supervision_ends_witness: "fst (supervise demo_env 3 (demo_runtime, demo_host 2)) \<noteq> Inl Diverge"
  by (rule supervision_ends [OF demo_steady]) (simp_all add: demo_host_def)

lemma demo_command: "rt_command demo_runtime = DOCKER @ ''compose'' # []"
  by (simp add: demo_runtime_def)

lemma split_run: "m s = (fst (m s), (fst (snd (m s)), snd (snd (m s))))"
  by simp

text \<open>A run that is told to stop at once, step by step.\<close>

definition at_work :: "runtime \<Rightarrow> string list \<Rightarrow> (string list \<times> finished res) list \<Rightarrow> (rat \<times> nat) rt \<Rightarrow> bool" where
  \<comment> \<open>the object up to its phase, the evidence written so far, the programs run so far\<close>
  "at_work r fs tr s \<longleftrightarrow> (fst s)\<lparr>phase := []\<rparr> = r\<lparr>phase := []\<rparr> \<and> h_outcomes (snd s) = (\<lambda>_. Works) \<and> history s = tr
     \<and> dget (h_fs (snd s)) [''v''] = Some demo_dir \<and> dget (h_fs (snd s)) [''v'', ''ev''] = Some demo_dir
     \<and> (\<forall>f. f \<notin> set fs \<longrightarrow> dget (h_fs (snd s)) [''v'', ''ev'', f] = None)"

lemma work_fields:
  assumes "at_work r fs tr s"
  shows "evidence (fst s) = evidence r" "cleanup_ids (fst s) = cleanup_ids r" "helpers (fst s) = helpers r"
proof -
  have eq: "(fst s)\<lparr>phase := []\<rparr> = r\<lparr>phase := []\<rparr>" using assms by (simp add: at_work_def)
  show "evidence (fst s) = evidence r" "cleanup_ids (fst s) = cleanup_ids r" "helpers (fst s) = helpers r"
    using arg_cong [OF eq, of evidence] arg_cong [OF eq, of cleanup_ids] arg_cong [OF eq, of helpers] by simp_all
qed

lemma work_write:
  assumes w: "at_work r fs tr s" and f: "f \<notin> set fs" "CHR 0x00 \<notin> set f" "f \<noteq> ''..''" and p: "p = \<lparr>p_root = ''/'', p_parts = [''v'', ''ev'', f]\<rparr>"
  shows "\<exists>t. on_host (write_new p b m) s = (Inr (), t) \<and> at_work r (f # fs) tr t"
proof -
  have place: "new_place (called (snd s)) p = Inr [''v'', ''ev'', f]"
    using w f by (simp add: at_work_def p new_place_def resolve_parts_def path_parent_def is_absolute_def demo_dir_def)
  show ?thesis
    using w place
    by (auto simp: at_work_def on_host_def write_new_def open_excl_def io_ok_def io_def sx_bind_def sx_return_def write_sync_def
          set_data_def put_node_def)
qed

abbreviation done_c1 :: finished where
  "done_c1 \<equiv> \<lparr>returncode = 0, stdout = ''c1'', stderr = []\<rparr>"

lemma work_call:
  assumes w: "at_work r fs tr s" and o: "o_allow_stopping opts" "o_record opts" and ev: "evidence r = py_path ''/v/ev''"
    and p: "path_join (py_path ''/v/ev'') (l @ ''-u.json'') = \<lparr>p_root = ''/'', p_parts = [''v'', ''ev'', f]\<rparr>"
    and f: "f \<notin> set fs" "CHR 0x00 \<notin> set f" "f \<noteq> ''..''"
  shows "\<exists>t. call demo_env l args opts s = (Inr done_c1, t) \<and> at_work r (f # fs) (tr @ [(args, Inr done_c1)]) t"
proof -
  let ?s = "(fst s\<lparr>phase := l\<rparr>, snd s\<lparr>h_world := (h_world (snd s))\<lparr>issued := tr @ [(args, Inr done_c1)]\<rparr>\<rparr>)"
  let ?v = "JObj [(''returncode'', JInt 0), (''stdout'', JStr ''c1''), (''stderr'', JStr [])]"
  have "at_work r fs (tr @ [(args, Inr done_c1)]) ?s" using w by (simp add: at_work_def)
  from work_write [OF this f refl] obtain t where
    t: "on_host (write_new \<lparr>p_root = ''/'', p_parts = [''v'', ''ev'', f]\<rparr> (dumps (re_py demo_env) (jsort ?v)) 384) ?s = (Inr (), t)"
      "at_work r (f # fs) (tr @ [(args, Inr done_c1)]) t" by blast
  have tool: "on_host (run_tool demo_env env n args) (fst s\<lparr>phase := l\<rparr>, snd s) = (Inr done_c1, ?s)" for env n
    using w by (simp add: on_host_def run_tool_def demo_env_def at_work_def)
  have uu: "on_host (outside (re_uuid demo_env)) ?s = (Inr ''u'', ?s)"
    by (simp add: on_host_def outside_def demo_env_def)
  have evs: "evidence (fst ?s) = py_path ''/v/ev''" using work_fields(1) [OF w] ev by simp
  have diag: "diagnostic demo_env l ?v ?s = (Inr (), t)"
    using t(1) uu evs p by (simp add: diagnostic_def write_evidence_def private_write_def sx_bind_def self_def del: jsort.simps dumps.simps)
  have "call demo_env l args opts s = (Inr done_c1, t)"
    using o tool diag by (simp add: call_def sx_bind_def sx_return_def assign_def self_def sx_catch_def del: jsort.simps dumps.simps)
  with t(2) show ?thesis by blast
qed


lemma demo_names:
  "path_join (py_path ''/v/ev'') (''cleanup-selection'' @ ''-u.json'') = \<lparr>p_root = ''/'', p_parts = [''v'', ''ev'', ''cleanup-selection-u.json'']\<rparr>"
  "path_join (py_path ''/v/ev'') (''stop'' @ ''-u.json'') = \<lparr>p_root = ''/'', p_parts = [''v'', ''ev'', ''stop-u.json'']\<rparr>"
  "path_join (py_path ''/v/ev'') ''cancelled.json'' = \<lparr>p_root = ''/'', p_parts = [''v'', ''ev'', ''cancelled.json'']\<rparr>"
  by code_simp+

lemma one_word: "py_split_ws ''c1'' = [''c1'']"
  by (simp add: py_split_ws_def is_py_space_def utf8_encode_def) code_simp

lemma work_stop:
  assumes w: "at_work r [''cancelled.json''] [] s" and r: "cleanup_ids r = [''c1'']" "helpers r = []" "evidence r = py_path ''/v/ev''"
  shows "\<exists>t. stop demo_env s = (Inr (), t) \<and> history t =
     [(DOCKER @ [''ps'', ''--all'', ''--quiet'', ''--no-trunc''], Inr done_c1), (DOCKER @ [''stop'', ''--time'', ''30''] @ [''c1''], Inr done_c1)]"
proof -
  let ?o = "plain\<lparr>o_allow_stopping := True\<rparr>"
  have h: "stop_helpers demo_env s = (Inr (), s)" using work_fields(3) [OF w] r by (simp add: stop_helpers_def sx_bind_def self_def sx_return_def)
  obtain t1 where 1: "call demo_env ''cleanup-selection'' (DOCKER @ [''ps'', ''--all'', ''--quiet'', ''--no-trunc'']) ?o s = (Inr done_c1, t1)"
    "at_work r [''cleanup-selection-u.json'', ''cancelled.json''] ([] @ [(DOCKER @ [''ps'', ''--all'', ''--quiet'', ''--no-trunc''], Inr done_c1)]) t1"
    by (rule exE [OF work_call [OF w _ _ r(3) demo_names(1), of ?o "DOCKER @ [''ps'', ''--all'', ''--quiet'', ''--no-trunc'']"]]) (simp_all add: plain_def)
  obtain t2 where 2: "call demo_env ''stop'' (DOCKER @ [''stop'', ''--time'', ''30''] @ [''c1'']) (?o\<lparr>o_timeout := 100\<rparr>) t1 = (Inr done_c1, t2)"
    "history t2 = ([] @ [(DOCKER @ [''ps'', ''--all'', ''--quiet'', ''--no-trunc''], Inr done_c1)]) @ [(DOCKER @ [''stop'', ''--time'', ''30''] @ [''c1''], Inr done_c1)]"
    by (rule exE [OF work_call [OF 1(2) _ _ r(3) demo_names(2), of "?o\<lparr>o_timeout := 100\<rparr>" "DOCKER @ [''stop'', ''--time'', ''30''] @ [''c1'']"]])
       (simp_all add: plain_def at_work_def)
  have "stop_authorized demo_env s = (Inr (), t2)"
    using 1(1) 2(1) work_fields(2) [OF w] r(1) one_word
    by (simp add: stop_authorized_def sx_bind_def self_def sx_return_def Let_def)
  with h 2(2) show ?thesis by (simp add: stop_def sx_finally_def)
qed


lemma demo_stop:
  "issued (h_world (snd (snd (supervise demo_env 1 (demo_runtime, demo_host 0))))) = [] @
     [(DOCKER @ [''ps'', ''--all'', ''--quiet'', ''--no-trunc''], Inr done_c1), (DOCKER @ [''stop'', ''--time'', ''30''] @ [''c1''], Inr done_c1)]"
proof -
  let ?r = "demo_runtime\<lparr>handling := True, stopping := True\<rparr>"
  have lock: "path_join (path_parent (manifest_path demo_runtime)) ''supervisor.lock'' = \<lparr>p_root = ''/'', p_parts = [''v'', ''supervisor.lock'']\<rparr>"
    by code_simp
  have opn: "on_host (open_append \<lparr>p_root = ''/'', p_parts = [''v'', ''supervisor.lock'']\<rparr>) (demo_runtime, demo_host 0) =
      (Inr (), (demo_runtime, called (demo_host 0)))"
    by (simp add: on_host_def open_append_def io_ok_def io_def sx_bind_def sx_return_def demo_host_def stat_of_def resolve_parts_def
        is_absolute_def demo_dir_def regular_def)
  have poll: "ensure_running demo_env (demo_runtime\<lparr>handling := True\<rparr>, called (demo_host 0)) = (Inl Cancelled, (?r, called (demo_host 0)))"
    by (simp add: ensure_running_def poll_def sx_bind_def self_def on_host_def outside_def demo_env_def demo_host_def assign_def called_def
        sx_raise_def demo_runtime_def)
  then have start: "supervised demo_env 1 (demo_runtime\<lparr>handling := True\<rparr>, called (demo_host 0)) = (Inl Cancelled, (?r, called (demo_host 0)))"
    by (simp add: supervised_def start_def start_stores_def sx_bind_def)
  have w: "at_work ?r [] [] (?r, called (demo_host 0))"
    by (simp add: at_work_def demo_host_def called_def)
  have "\<exists>t. on_host (private_write (re_py demo_env) \<lparr>p_root = ''/'', p_parts = [''v'', ''ev'', ''cancelled.json'']\<rparr>
      (JObj [(''phase'', JStr ''prepared''), (''cancelled'', JBool True)])) (?r, called (demo_host 0)) = (Inr (), t) \<and> at_work ?r [''cancelled.json''] [] t"
    unfolding private_write_def by (rule work_write [OF w]) simp_all
  then obtain t where t: "on_host (private_write (re_py demo_env) \<lparr>p_root = ''/'', p_parts = [''v'', ''ev'', ''cancelled.json'']\<rparr>
      (JObj [(''phase'', JStr ''prepared''), (''cancelled'', JBool True)])) (?r, called (demo_host 0)) = (Inr (), t)"
    "at_work ?r [''cancelled.json''] [] t" by blast
  have ev: "evidence ?r = py_path ''/v/ev''" and ph: "phase ?r = ''prepared''" by (simp_all add: demo_runtime_def)
  have "sx_catch (supervised demo_env 1) (on_failure demo_env) (demo_runtime\<lparr>handling := True\<rparr>, called (demo_host 0)) = (Inr (), t)"
    using start t(1) ev ph demo_names(3) by (simp add: sx_catch_def on_failure_def sx_bind_def self_def write_evidence_def)
  moreover obtain u where "stop demo_env t = (Inr (), u)" and u: "history u =
     [(DOCKER @ [''ps'', ''--all'', ''--quiet'', ''--no-trunc''], Inr done_c1), (DOCKER @ [''stop'', ''--time'', ''30''] @ [''c1''], Inr done_c1)]"
    using work_stop [OF t(2)] ev by (auto simp: demo_runtime_def)
  ultimately have "history (snd (supervise demo_env 1 (demo_runtime, demo_host 0))) = history u"
    using opn by (simp add: supervise_def with_lock_def sx_bind_def self_def lock outside_def on_host_def [of "outside _"] demo_env_def assign_def sx_finally_def)
  with u show ?thesis by simp
qed





section \<open>What a manifest binds\<close>

definition same_files :: "'w host \<Rightarrow> 'w host \<Rightarrow> bool" where
  "same_files h h' \<longleftrightarrow> h_fs h' = h_fs h \<and> h_cwd h' = h_cwd h"

interpretation reads: frame same_files
  by unfold_locales (auto simp: same_files_def)

definition holds :: "'w host \<Rightarrow> path \<Rightarrow> bytes \<Rightarrow> bool" where
  "holds h p b \<longleftrightarrow> (\<exists>nd. stat_of h p = Inr nd \<and> n_kind nd = Reg b)"

definition hash_ok :: "'w host \<Rightarrow> string \<times> string \<Rightarrow> bool" where
  \<comment> \<open>an entry of the recorded hashes: the text of a path and the digest of the file there\<close>
  "hash_ok h = (\<lambda>(name, d). \<exists>f b. name = path_str f \<and> holds h f b \<and> d = sha256_hex b)"

lemma holds_same: "same_files h h' \<Longrightarrow> holds h' p b \<longleftrightarrow> holds h p b"
  by (simp add: same_files_def holds_def stat_of_def)

lemma reads_look: "reads.keeps (look f)"
  by (simp add: reads.keeps_def look_def same_files_def)

lemma reads_read: "reads.keeps (read_bytes p)"
  unfolding read_bytes_def
  by (intro reads.keeps_bind)
     (auto simp: reads.keeps_def same_files_def io_ok_def io_def sx_bind_def sx_return_def sx_raise_def split: outcome.splits sum.splits kind.splits)

lemma read_holds: "read_bytes p h = (Inr b, h') \<Longrightarrow> holds h p b \<and> same_files h h'"
  using read_bytes_Inr [of p h b h'] holds_same [of h h' p b] by (auto simp: holds_def same_files_def)

lemma reads_checked: "reads.keeps (checked_path p b)"
  unfolding checked_path_def by (rule reads_look)

lemma reads_names: "reads.keeps (check_names p ns)"
  by (induction ns) (auto intro!: reads.keeps_intros reads_checked)

lemma reads_trusted: "reads.keeps (trusted_sources e)"
  unfolding trusted_sources_def by (intro reads.keeps_intros reads_look reads_checked reads_names)

lemma reads_load: "reads.keeps load_helper"
  by (simp add: reads.keeps_def load_helper_def same_files_def)

lemma reads_helper: "reads.keeps (compose_helper e)"
  unfolding compose_helper_def load_helper_def [abs_def, symmetric]
  by (intro reads.keeps_bind reads_trusted reads_look) (auto intro!: reads.keeps_intros reads_read reads_load)

lemma reads_hashes: "reads.keeps (helper_hashes p ns)"
  by (induction ns) (auto intro!: reads.keeps_intros reads_read)

lemma dset_all: "list_all Q d \<Longrightarrow> Q (k, v) \<Longrightarrow> list_all Q (dset k v d)"
  by (induction d) auto

lemma env_files_bound:
  "env_files p ns files h = (Inr out, h') \<Longrightarrow> list_all (hash_ok h0) files \<Longrightarrow> same_files h0 h
   \<Longrightarrow> list_all (hash_ok h0) out \<and> same_files h0 h'"
proof (induction ns arbitrary: files h)
  case (Cons n ns)
  from Cons.prems(1) obtain f h1 raw h2 where
    1: "checked_path (path_join (path_parent p) (drop 2 (case n of JStr s \<Rightarrow> s | _ \<Rightarrow> []))) True h = (Inr f, h1)"
    and 2: "read_bytes f h1 = (Inr raw, h2)" and 3: "env_files p ns (dset (path_str f) (sha256_hex raw) files) h2 = (Inr out, h')"
    by (auto simp: sx_simps Let_def)
  have s1: "same_files h0 h1" using Cons.prems(3) reads.keepsD [OF reads_checked 1] reads.R_trans by blast
  have "holds h0 f raw" "same_files h0 h2" using read_holds [OF 2] holds_same [OF s1] s1 reads.R_trans by blast+
  then show ?case using Cons.prems(2) by (intro Cons.IH [OF 3] dset_all) (auto simp: hash_ok_def)
qed (auto simp: sx_simps)

lemma service_files_bound:
  "service_files p ss files h = (Inr out, h') \<Longrightarrow> list_all (hash_ok h0) files \<Longrightarrow> same_files h0 h
   \<Longrightarrow> list_all (hash_ok h0) out \<and> same_files h0 h'"
proof (induction ss arbitrary: files h)
  case (Cons s ss)
  from Cons.prems(1) obtain ns files1 h1 where "env_files p ns files h = (Inr files1, h1)" "service_files p ss files1 h1 = (Inr out, h')"
    by (auto simp: sx_simps)
  with env_files_bound [OF _ Cons.prems(2, 3)] Cons.IH show ?case by blast
qed (auto simp: sx_simps)

lemma bundle_bound:
  assumes "bundle_of e c h = (Inr (p, data, files), h')"
  shows "list_all (hash_ok h) files"
proof -
  from assms obtain h1 c1 h2 q digest h3 t h4 config h5 raw h6 its where
    1: "compose_helper e h = (Inr (), h1)" and 2: "checked_path c True h1 = (Inr c1, h2)"
    and 3: "validate_compose (re_py e) c1 h2 = (Inr (q, digest), h3)" and 4: "read_text q h3 = (Inr t, h4)"
    and 5: "checked_path (path_join (path_parent q) ''conf/base.json'') False h4 = (Inr config, h5)"
    and 6: "read_bytes config h5 = (Inr raw, h6)"
    and 7: "service_files q (map snd (its :: (string \<times> json) list)) (dset (path_str config) (sha256_hex raw) [(path_str q, digest)]) h6 = (Inr files, h')"
    by (auto simp: bundle_of_def sx_simps simp del: dset.simps)
  have s2: "same_files h h2" using reads.keepsD [OF reads_helper 1] reads.keepsD [OF reads_checked 2] reads.R_trans by blast
  from 3 obtain r where r: "read_bytes q h2 = (Inr r, h3)" "digest = sha256_hex r" by (auto simp: validate_compose_def sx_simps)
  have s3: "same_files h h3" and q: "holds h q r" using read_holds [OF r(1)] holds_same [OF s2] s2 reads.R_trans by blast+
  have "reads.keeps (read_text q)" unfolding read_text_def by (intro reads.keeps_intros reads_read)
  then have s5: "same_files h h5" using s3 reads.keepsD 4 reads.keepsD [OF reads_checked 5] reads.R_trans by metis
  have s6: "same_files h h6" and cf: "holds h config raw" using read_holds [OF 6] holds_same [OF s5] s5 reads.R_trans by blast+
  show ?thesis using service_files_bound [OF 7 dset_all s6] q cf r(2) by (auto simp: hash_ok_def)
qed

lemma py_eq_text: "py_eq v (JStr t) \<Longrightarrow> v = JStr t"
  by (cases v) (auto split: option.splits)

lemma texts_items:
  assumes "py_eq v (texts d)"
  obtains its where "v = JObj its" "\<And>k w. (k, w) \<in> set its \<Longrightarrow> \<exists>t. dget d k = Some t \<and> w = JStr t"
proof (cases v)
  case (JObj its)
  have "\<exists>t. dget d k = Some t \<and> w = JStr t" if "(k, w) \<in> set its" for k w
  proof -
    have "\<exists>u. dget (map (\<lambda>(k, v). (k, JStr v)) d) k = Some u \<and> py_eq w u"
      using assms JObj that by (intro py_eqm_dget) (auto simp: texts_def)
    then show ?thesis using py_eq_text by (auto simp: dget_texts)
  qed
  with JObj show ?thesis by (rule that)
qed (use assms in \<open>auto simp: texts_def split: option.splits\<close>)

text \<open>
  An accepted manifest binds the files of the runtime.  Whenever loading a manifest
  succeeds, the file at its path has the selected digest and is the manifest returned, and
  every entry of its \<open>files\<close> is the text of a path together with the SHA-256 digest of what the
  file there holds at that moment: a Compose file, configuration or environment file that
  changed since the service was prepared is not accepted.
\<close>

theorem manifest_binds_files:
  "case fst (load_manifest e p d h) of
     Inl _ \<Rightarrow> True
   | Inr (m, _) \<Rightarrow> \<exists>raw its. holds h p raw \<and> sha256_hex raw = d \<and> load_json (re_py e) raw = Inr m
       \<and> item_of m ''files'' = Inr (JObj its)
       \<and> list_all (\<lambda>(name, v). \<exists>f b. name = path_str f \<and> holds h f b \<and> v = JStr (sha256_hex b)) its"
proof (cases "fst (load_manifest e p d h)")
  case (Inr res)
  obtain m data where res: "res = (m, data)" by (cases res)
  obtain h' where "load_manifest e p d h = (Inr (m, data), h')" using Inr res by (cases "load_manifest e p d h") auto
  then obtain h1 q h2 raw h3 own h4 hs h5 c compose files h6 where
    1: "\<exists>x. trusted_sources e h = (Inr x, h1)" and 2: "checked_path p True h1 = (Inr q, h2)" and 3: "read_bytes q h2 = (Inr raw, h3)"
    and sha: "sha256_hex raw = d" and m: "load_json (re_py e) raw = Inr m"
    and 4: "read_bytes (py_path (re_file e)) h3 = (Inr own, h4)" and 5: "helper_hashes (py_path (re_file e)) HELPERS h4 = (Inr hs, h5)"
    and 6: "bundle_of e (py_path c) h5 = (Inr (compose, data, files), h6)"
    and fl: "demands (res_and (item_eq m ''files'' (texts files)) (res_and (res_bind (item_of data ''name'') (item_eq m ''project''))
                 (Inr (path_parent q = path_join (path_parent compose) ''runtime-service'')))) = Inr ()"
    by (auto simp: load_manifest_def sx_simps demand_def res_simps)
  have q: "q = p" using checked_path_Inr [OF 2] by simp
  have s2: "same_files h h2" using 1 reads.keepsD [OF reads_trusted] reads.keepsD [OF reads_checked 2] reads.R_trans by metis
  have s3: "same_files h h3" and raw: "holds h p raw" using read_holds [OF 3] holds_same [OF s2] s2 reads.R_trans q by blast+
  have s5: "same_files h h5" using s3 reads.keepsD [OF reads_read 4] reads.keepsD [OF reads_hashes 5] reads.R_trans by blast
  have ok: "list_all (hash_ok h5) files" using 6 by (rule bundle_bound)
  obtain v where v: "item_of m ''files'' = Inr v" "py_eq v (texts files)"
    using fl by (auto simp: demands_Inr res_and_def item_eq_def res_simps split: if_splits)
  obtain its where its: "v = JObj its" "\<And>k w. (k, w) \<in> set its \<Longrightarrow> \<exists>t. dget files k = Some t \<and> w = JStr t"
    by (rule texts_items [OF v(2)]) (rule that)
  have "\<exists>f b. name = path_str f \<and> holds h f b \<and> w = JStr (sha256_hex b)" if mem: "(name, w) \<in> set its" for name w
  proof -
    obtain t where t: "dget files name = Some t" "w = JStr t" using its(2) [OF mem] by blast
    then have "hash_ok h5 (name, t)" using ok map_of_SomeD by (fastforce simp: list_all_iff)
    then show ?thesis using t(2) holds_same [OF s5] by (auto simp: hash_ok_def)
  qed
  then have "list_all (\<lambda>(name, v). \<exists>f b. name = path_str f \<and> holds h f b \<and> v = JStr (sha256_hex b)) its" by (auto simp: list_all_iff)
  with raw sha m v(1) its(1) Inr res show ?thesis by auto
qed simp

end
