(* ===== verification/Setup_Host.thy ===== *)
theory Setup_Host
  imports Runtime_Supervisor Sealed_Setup
begin

text \<open>
  The privileged host side of an operator setup, \<open>experiments/server/operator_setup_host.py\<close>: the request
  taken from the environment and everything it binds, the attestation of the virtual machine
  and of the running containers, the one creation of a setup under an exclusive directory, and
  the readback of its sealed artifact.  Docker, the metadata service and the environment are
  fields of \<open>setup_env\<close>.  The process-wide alarm of the script is not modelled: an interruption is
  a failing call of the file system or of a program.
\<close>

record 'x setup_env =
  se_py :: py_env
  se_exec :: "environ \<Rightarrow> nat \<Rightarrow> 'x exec"
  se_access :: "environ \<Rightarrow> string list \<Rightarrow> 'x \<Rightarrow> (int res \<times> bytes \<times> bytes) \<times> 'x"
    \<comment> \<open>a program with its output in two files: return code or exception, and what the files then hold\<close>
  se_metadata :: "string \<Rightarrow> 'x \<Rightarrow> bytes res \<times> 'x"  \<comment> \<open>the first 65537 bytes of the response\<close>
  se_environ :: environ
  se_euid :: nat

section \<open>Constants\<close>

definition SETUP_ROOT :: path where
  "SETUP_ROOT = py_path ''/var/lib/azd-santa-qualification''"

definition SETUP_MARKER :: string where
  "SETUP_MARKER = ''SANTA_SEALED_SETUP_JSON:''"

definition BINDINGS :: "string list" where
  "BINDINGS = sort [''TenantId'', ''SubscriptionId'', ''EnvironmentName'', ''ResourceGroup'', ''VmName'', ''VmId'',
     ''VmInstanceId'', ''ImageId'', ''ComposePath'', ''ComposeSha256'', ''SourceCommit'', ''AdmissionSha256'', ''RecoverySha256'',
     ''SealedSha256'', ''Origin'', ''RemoteProgramSha256'']"

definition is_guid :: "string \<Rightarrow> bool" where
  "is_guid s = (case split_on (CHR ''-'') s of
       [a, b, c, d, f] \<Rightarrow> is_hex_n 8 a \<and> is_hex_n 4 b \<and> is_hex_n 4 c \<and> is_hex_n 4 d \<and> is_hex_n 12 f
     | _ \<Rightarrow> False)"

definition REDIS_COMMAND :: "string list" where
  "REDIS_COMMAND = [''redis-server'', ''--appendonly'', ''yes'', ''--appendfsync'', ''always'', ''--aof-load-truncated'',
     ''no'', ''--maxmemory-policy'', ''noeviction'', ''--no-appendfsync-on-rewrite'', ''no'', ''--save'', []]"

definition SETUP_VOLUMES :: "string list" where
  "SETUP_VOLUMES = [''postgres_data'', ''redis_data'', ''rabbitmq_data'', ''elasticsearch_data'', ''media_data'']"

definition SETUP_SERVICES :: "string list" where
  "SETUP_SERVICES = [''web'', ''workers'', ''celery'', ''db'', ''redis'', ''rabbitmq'', ''elastic'']"

definition ENV_KEYS :: "(string \<times> string list) list" where
  "ENV_KEYS = [(''db.env'', [''POSTGRES_DB'', ''POSTGRES_USER'', ''POSTGRES_PASSWORD'']),
     (''rabbitmq.env'', [''RABBITMQ_DEFAULT_USER'', ''RABBITMQ_DEFAULT_PASS'']),
     (''runtime.env'', [''POSTGRES_USER'', ''POSTGRES_PASSWORD'', ''ZENTRAL_DJANGO_SECRET'', ''ZENTRAL_METRICS_TOKEN'',
        ''AZD_SANTA_SECURITY_STORE_ID'', ''ZENTRAL_QUEUE_URL''])]"

section \<open>Values\<close>

fun unique_items :: "(string, 'a) dict \<Rightarrow> (string \<times> 'a) list \<Rightarrow> (string, 'a) dict res" where
  "unique_items d [] = Inr d"
| "unique_items d ((k, v) # ps) = res_bind (demand (k \<notin> set (map fst d))) (\<lambda>_. unique_items (d @ [(k, v)]) ps)"

definition setup_unique :: "(string \<times> 'a) list \<Rightarrow> (string, 'a) dict res" where
  "setup_unique ps = unique_items [] ps"

definition setup_hooks :: "py_env \<Rightarrow> hooks" where
  "setup_hooks e = (default_hooks e)\<lparr>pairs_hook := (\<lambda>ps. res_bind (setup_unique ps) (\<lambda>d. Inr (JObj d)))\<rparr>"

definition setup_loads :: "py_env \<Rightarrow> string \<Rightarrow> json res" where
  \<comment> \<open>\<open>loads\<close> of a text\<close>
  "setup_loads e s = loads (setup_hooks e) (nest_limit e) s"

definition setup_loads_bytes :: "py_env \<Rightarrow> bytes \<Rightarrow> json res" where
  "setup_loads_bytes e raw = loads_bytes (setup_hooks e) e raw"

definition encoded :: "py_env \<Rightarrow> json \<Rightarrow> bytes res" where
  "encoded e v = (let s = print_json e False v in if valid_utf8 False s then Inr s else Inl UnicodeError)"

definition setup_target :: "string \<Rightarrow> string \<Rightarrow> string res" where
  "setup_target username email =
     (if valid_utf8 False username \<and> valid_utf8 False email then Inr (sha256_hex (packed_identity username email)) else Inl UnicodeError)"

definition b64_valid :: "json \<Rightarrow> bytes res" where
  \<comment> \<open>\<open>base64.b64decode(v, validate=True)\<close>\<close>
  "b64_valid v = (case v of JStr s \<Rightarrow> if isascii s then b64_decode False s else Inl ValueError | _ \<Rightarrow> Inl TypeError)"

definition keys_are :: "json \<Rightarrow> string list \<Rightarrow> bool res" where
  \<comment> \<open>\<open>list(v) == ks\<close>\<close>
  "keys_are v ks = res_bind (iter_of v) (\<lambda>vs. Inr (vs = map JStr ks))"

definition is_text :: "json \<Rightarrow> bool" where
  "is_text v = (case v of JStr _ \<Rightarrow> True | _ \<Rightarrow> False)"

section \<open>The request\<close>

definition hex_text :: "json \<Rightarrow> bool" where
  \<comment> \<open>\<open>type(v) is str and HEX.fullmatch(v)\<close>\<close>
  "hex_text v = (case v of JStr s \<Rightarrow> is_sha256_hex s | _ \<Rightarrow> False)"

definition REQUEST_KEYS :: "string list" where
  "REQUEST_KEYS = [''context'', ''context_sha256'', ''recipient_public_key'', ''username'', ''email'', ''reason'']"

definition CONTEXT_KEYS :: "string list" where
  "CONTEXT_KEYS = [''scope'', ''nonce'', ''binding'', ''mode'', ''target_sha256'', ''recipient_sha256'']"

definition context_checks :: "json \<Rightarrow> json \<Rightarrow> unit res" where
  "context_checks context binding =
     res_bind (demands (keys_are context CONTEXT_KEYS)) (\<lambda>_.
     res_bind (demands (res_and (keys_are binding BINDINGS)
        (res_bind (items_of binding) (\<lambda>its. Inr (list_all (\<lambda>(_, v). is_text v) its))))) (\<lambda>_.
     res_bind (demands (res_and (item_eq context ''scope'' (JStr ''azd-santa-setup-request-v1''))
        (res_bind (item_of context ''mode'') (\<lambda>m. Inr (m \<in> {JStr ''bootstrap'', JStr ''recover''}))))) (\<lambda>_.
       demands (res_all (\<lambda>k. res_bind (item_of context k) (\<lambda>v. Inr (hex_text v))) [''nonce'', ''target_sha256'', ''recipient_sha256'']))))"

definition digest_checks :: "py_env \<Rightarrow> json \<Rightarrow> json \<Rightarrow> unit res" where
  "digest_checks e request context =
     res_bind (item_of request ''context_sha256'') (\<lambda>d.
       demands (res_and (full_match is_sha256_hex d)
         (res_bind (encoded e context) (\<lambda>b. Inr (JStr (sha256_hex b) = d)))))"

definition plain_text :: "nat \<Rightarrow> json \<Rightarrow> bool" where
  "plain_text limit v = (case v of
       JStr s \<Rightarrow> 0 < py_len s \<and> py_len s \<le> limit \<and> is_stripped s \<and> list_all (\<lambda>c. 32 \<le> c) (code_points s)
     | _ \<Rightarrow> False)"

definition identity_checks :: "json \<Rightarrow> json \<Rightarrow> unit res" where
  "identity_checks request context =
     res_bind (res_map (\<lambda>(k, limit). res_bind (item_of request k) (\<lambda>v. demand (plain_text limit v)))
        [(''username'', 150), (''email'', 254), (''reason'', 256)]) (\<lambda>_.
     res_bind (text_item request ''username'') (\<lambda>username.
     res_bind (text_item request ''email'') (\<lambda>email.
     res_bind (setup_target username email) (\<lambda>t.
     res_bind (item_of context ''target_sha256'') (\<lambda>d. demand (JStr t = d))))))"

definition recipient_checks :: "json \<Rightarrow> json \<Rightarrow> unit res" where
  "recipient_checks request context =
     res_bind (item_of request ''recipient_public_key'') (\<lambda>p.
     res_bind (b64_valid p) (\<lambda>key.
       demands (res_and (Inr (length key \<le> 768 \<and> JStr (b64_encode False key) = p))
         (res_bind (item_of context ''recipient_sha256'') (\<lambda>d. Inr (JStr (sha256_hex key) = d))))))"

definition is_environment :: "string \<Rightarrow> bool" where
  \<comment> \<open>\<open>[a-z0-9-]{2,32}\<close>\<close>
  "is_environment = fullmatch_range (\<lambda>c. is_lower c \<or> is_digit c \<or> c = CHR ''-'') 2 32"

definition is_compose_path :: "string \<Rightarrow> bool" where
  \<comment> \<open>\<open>/(?:[A-Za-z0-9_-]+/)+[A-Za-z0-9_-]+\.json\<close>\<close>
  "is_compose_path s = (case split_on (CHR ''/'') s of
       [] \<Rightarrow> False
     | d # ps \<Rightarrow> d = [] \<and> 2 \<le> length ps \<and> list_all (\<lambda>p. p \<noteq> [] \<and> list_all is_urlsafe p) (butlast ps)
         \<and> (let f = last ps; n = length f - 5 in n > 0 \<and> drop n f = ''.json'' \<and> list_all is_urlsafe (take n f)))"

definition vm_id :: "string \<Rightarrow> string \<Rightarrow> string" where
  "vm_id subscription resource_group =
     ''/subscriptions/'' @ subscription @ ''/resourceGroups/'' @ resource_group @ ''/providers/Microsoft.Compute/virtualMachines/vm-santa-lab''"

definition text_all :: "(string \<Rightarrow> bool) \<Rightarrow> json \<Rightarrow> string list \<Rightarrow> unit res" where
  "text_all p b ks = demands (res_all (\<lambda>k. res_bind (item_of b k) (full_match p)) ks)"

definition binding_checks :: "json \<Rightarrow> unit res" where
  "binding_checks b =
     res_bind (text_all is_guid b [''TenantId'', ''SubscriptionId'', ''VmInstanceId'']) (\<lambda>_.
     res_bind (text_all is_sha256_hex b [''ComposeSha256'', ''AdmissionSha256'', ''RecoverySha256'', ''SealedSha256'', ''RemoteProgramSha256'']) (\<lambda>_.
     res_bind (text_all is_sha_ref b [''ImageId'']) (\<lambda>_.
     res_bind (text_all (is_hex_n 40) b [''SourceCommit'']) (\<lambda>_.
     res_bind (text_item b ''EnvironmentName'') (\<lambda>en. res_bind (text_item b ''ResourceGroup'') (\<lambda>rg.
     res_bind (text_item b ''SubscriptionId'') (\<lambda>sub. res_bind (text_item b ''ComposePath'') (\<lambda>cp.
     res_bind (text_item b ''Origin'') (\<lambda>org.
     res_bind (demands (res_and (Inr (is_environment en \<and> rg = ''rg-azd-santa-vm-'' @ en)) (item_eq b ''VmName'' (JStr ''vm-santa-lab'')))) (\<lambda>_.
     res_bind (demands (res_and (item_eq b ''VmId'' (JStr (vm_id sub rg))) (Inr (py_len cp \<le> 512)))) (\<lambda>_.
     res_bind (demand (is_compose_path cp)) (\<lambda>_.
       demand (isascii org \<and> py_len org \<le> 256 \<and> startswith org ''https://'')))))))))))))"

definition request_checks :: "py_env \<Rightarrow> json \<Rightarrow> unit res" where
  "request_checks e request =
     res_bind (demands (has_keys request REQUEST_KEYS)) (\<lambda>_.
     res_bind (item_of request ''context'') (\<lambda>context.
     res_bind (item_of context ''binding'') (\<lambda>binding.
     res_bind (context_checks context binding) (\<lambda>_.
     res_bind (digest_checks e request context) (\<lambda>_.
     res_bind (identity_checks request context) (\<lambda>_.
     res_bind (recipient_checks request context) (\<lambda>_. binding_checks binding)))))))"

definition request_from_environment :: "'x setup_env \<Rightarrow> (json \<times> bytes) res" where
  "request_from_environment e =
     (case dget (se_environ e) ''AZD_SANTA_SETUP_REQUEST_B64'' of
        None \<Rightarrow> Inl KeyError
      | Some value \<Rightarrow>
          res_bind (demand (py_len value \<le> 16384)) (\<lambda>_.
          res_bind (b64_valid (JStr value)) (\<lambda>raw.
          res_bind (demand (b64_encode False raw = value)) (\<lambda>_.
          res_bind (utf8_decode False raw) (\<lambda>t.
          res_bind (setup_loads (se_py e) t) (\<lambda>request.
          res_bind (request_checks (se_py e) request) (\<lambda>_. Inr (request, raw))))))))"

section \<open>The machine\<close>

definition lower_is :: "string \<Rightarrow> string \<Rightarrow> bool" where
  \<comment> \<open>\<open>s.lower() == t\<close> for an ASCII \<open>t\<close>: beside the ASCII letters only the Kelvin sign has an ASCII lower case\<close>
  "lower_is s t \<longleftrightarrow> map (\<lambda>c. if 65 \<le> c \<and> c \<le> 90 then c + 32 else if c = 8490 then 107 else c) (code_points s) = map ord t"

definition lower_item :: "json \<Rightarrow> string \<Rightarrow> string \<Rightarrow> bool res" where
  \<comment> \<open>\<open>v[k].lower() == t\<close>\<close>
  "lower_item v k t = res_bind (item_of v k) (\<lambda>x. case x of JStr s \<Rightarrow> Inr (lower_is s t) | _ \<Rightarrow> Inl AttributeError)"

definition METADATA_URL :: string where
  "METADATA_URL = ''http://169.254.169.254/metadata/instance/compute?api-version=2021-02-01''"

definition metadata_checks :: "json \<Rightarrow> json \<Rightarrow> unit res" where
  "metadata_checks value b =
     res_bind (text_item b ''SubscriptionId'') (\<lambda>sub. res_bind (text_item b ''VmInstanceId'') (\<lambda>inst.
     res_bind (text_item b ''VmId'') (\<lambda>vid. res_bind (text_item b ''VmName'') (\<lambda>name. res_bind (text_item b ''ResourceGroup'') (\<lambda>rg.
       demands (all_of [lower_item value ''subscriptionId'' sub, lower_item value ''vmId'' inst,
         lower_item value ''resourceId'' (py_lower_ascii vid), item_eq value ''name'' (JStr name), lower_item value ''resourceGroupName'' rg]))))))"

definition attest_metadata :: "'x setup_env \<Rightarrow> json \<Rightarrow> ('x chost, unit) sx" where
  "attest_metadata e b =
     sx_bind (outside (se_metadata e METADATA_URL)) (\<lambda>r.
     sx_bind (sx_lift r) (\<lambda>raw.
     sx_bind (sx_lift (demand (length raw \<le> 65536))) (\<lambda>_.
     sx_bind (sx_lift (setup_loads_bytes (se_py e) raw)) (\<lambda>value.
       sx_lift (metadata_checks value b)))))"

section \<open>Private files\<close>

definition is_link :: "node \<Rightarrow> bool" where
  "is_link nd = (case n_kind nd of Link _ \<Rightarrow> True | _ \<Rightarrow> False)"

definition private_step :: "'w host \<Rightarrow> path \<Rightarrow> bool \<Rightarrow> path \<Rightarrow> unit res" where
  "private_step h p directory current =
     res_bind (lstat_of h current) (\<lambda>nd.
     res_bind (demand (n_uid nd = 0 \<and> \<not> is_link nd \<and> \<not> mode_has nd 18)) (\<lambda>_.
       demand (current \<noteq> p \<or> directory \<longrightarrow> n_kind nd = Dir)))"

definition private_path :: "path \<Rightarrow> bool \<Rightarrow> nat \<Rightarrow> ('w host, path) sx" where
  "private_path p directory mode = look (\<lambda>h.
     res_bind (demand (is_absolute p \<and> is_relative_to p SETUP_ROOT)) (\<lambda>_.
     res_bind (res_map (\<lambda>n. private_step h p directory (SETUP_ROOT\<lparr>p_parts := take n (p_parts p)\<rparr>))
        [length (p_parts SETUP_ROOT)..<Suc (length (p_parts p))]) (\<lambda>_.
     res_bind (lstat_of h p) (\<lambda>nd.
     res_bind (demand (if directory then n_kind nd = Dir else regular nd)) (\<lambda>_.
     res_bind (demand (\<not> directory \<longrightarrow> n_mode nd = mode)) (\<lambda>_. Inr p))))))"

definition sync_dir :: "path \<Rightarrow> ('w host, unit) sx" where
  \<comment> \<open>\<open>sync_directory\<close>, which does not follow a link\<close>
  "sync_dir p = sx_bind io_ok (\<lambda>_. look (\<lambda>h. case lstat_of h p of
       Inr nd \<Rightarrow> if n_kind nd = Dir then Inr () else Inl OSError | Inl x \<Rightarrow> Inl x))"

definition setup_write :: "path \<Rightarrow> bytes \<Rightarrow> ('w host, unit) sx" where
  \<comment> \<open>\<open>write_new\<close>\<close>
  "setup_write p raw =
     sx_bind (open_excl p 384) (\<lambda>cs.
     sx_bind (fchmod cs 384) (\<lambda>_.
     sx_bind (look (\<lambda>h. demand (case dget (h_fs h) cs of Some nd \<Rightarrow> n_uid nd = 0 | None \<Rightarrow> False))) (\<lambda>_.
     sx_bind (write_sync cs raw) (\<lambda>_. sync_dir (path_parent p)))))"

section \<open>Containers\<close>

definition tool_environ :: "'x setup_env \<Rightarrow> environ" where
  "tool_environ e = filter (\<lambda>(k, _). \<not> startswith k ''DOCKER_'' \<and> \<not> startswith k ''COMPOSE_'') (se_environ e)"

definition docker :: "'x setup_env \<Rightarrow> nat \<Rightarrow> string list \<Rightarrow> ('x chost, bytes) sx" where
  "docker e limit arguments h =
     (let args = DOCKER @ arguments; w = h_world h; (r, x) = se_exec e (tool_environ e) limit args (ext w);
          h1 = h\<lparr>h_world := w\<lparr>ext := x, issued := issued w @ [(args, r)]\<rparr>\<rparr>
      in sx_bind (sx_lift r) (\<lambda>f.
           sx_bind (sx_lift (demand (returncode f = 0 \<and> length (stdout f) \<le> 262144 \<and> length (stderr f) \<le> 262144))) (\<lambda>_.
             sx_return (stdout f))) h1)"

definition docker_json :: "'x setup_env \<Rightarrow> string list \<Rightarrow> ('x chost, json) sx" where
  \<comment> \<open>\<open>loads(docker(arguments))[0]\<close>\<close>
  "docker_json e arguments =
     sx_bind (docker e 30 arguments) (\<lambda>raw. sx_lift (res_bind (setup_loads_bytes (se_py e) raw) first_of))"

definition member_of :: "string \<Rightarrow> json \<Rightarrow> bool res" where
  \<comment> \<open>\<open>k in v\<close>\<close>
  "member_of k v = (case v of
       JObj ms \<Rightarrow> Inr (k \<in> set (map fst ms))
     | JArr vs \<Rightarrow> Inr (JStr k \<in> set vs)
     | JStr s \<Rightarrow> Inr (\<exists>n \<le> length s. startswith (drop n s) k)
     | _ \<Rightarrow> Inl TypeError)"

definition given_items :: "(string \<times> json) list \<Rightarrow> json" where
  "given_items its = JObj (filter (\<lambda>(_, v). v \<noteq> JNull) its)"

definition WEB_PORTS :: json where
  "WEB_PORTS = JObj [(''8000/tcp'', JArr [JObj [(''HostIp'', JStr ''127.0.0.1''), (''HostPort'', JStr ''8000'')]])]"

definition actual_ports :: "json \<Rightarrow> string \<Rightarrow> json \<Rightarrow> unit res" where
  "actual_ports info service exposed =
     (let expected = (if service = ''web'' then WEB_PORTS else JObj []) in
      res_bind (item_of info ''HostConfig'') (\<lambda>hc.
      res_bind (demands (falsy_at hc ''PublishAllPorts'')) (\<lambda>_.
      res_bind (get_or hc ''PortBindings'' JNull) (\<lambda>pb.
      res_bind (res_bind (item_of info ''NetworkSettings'') (\<lambda>ns. get_or ns ''Ports'' JNull)) (\<lambda>ob.
      case (or_else pb (JObj []), or_else ob (JObj [])) of
        (JObj declared, JObj observed) \<Rightarrow>
          res_bind (demands (res_all (\<lambda>(k, v). if v = JNull then member_of k exposed else Inr True) (declared @ observed))) (\<lambda>_.
          res_bind (demand (py_eq (given_items declared) expected)) (\<lambda>_.
            demand (py_eq (given_items observed) expected)))
      | _ \<Rightarrow> Inl ValueError)))))"

section \<open>The runtime\<close>

definition env_file :: "path \<Rightarrow> string \<Rightarrow> string list \<Rightarrow> ('w host, environ) sx" where
  "env_file compose filename keys =
     sx_bind (private_path (path_join (path_parent compose) filename) False 384) (\<lambda>p.
     sx_bind (read_bytes p) (\<lambda>content.
       let raw = take 4097 content; pairs = map (split_first (CHR ''='')) (splitlines raw) in
     sx_bind (sx_lift (demand (length raw \<le> 4096 \<and> raw \<noteq> [] \<and> last raw = CHR 0x0A))) (\<lambda>_.
     sx_bind (sx_lift (if isascii raw then Inr () else Inl UnicodeError)) (\<lambda>_.
     sx_bind (sx_lift (demand (list_all (\<lambda>p. case p of Some (_, v) \<Rightarrow> v \<noteq> [] | None \<Rightarrow> False) pairs))) (\<lambda>_.
     sx_bind (sx_lift (setup_unique (map the pairs))) (\<lambda>d.
     sx_bind (sx_lift (demand (set (map fst d) = set keys))) (\<lambda>_. sx_return d)))))))"

fun env_files_of :: "path \<Rightarrow> (string \<times> string list) list \<Rightarrow> ('w host, (string, environ) dict) sx" where
  "env_files_of compose [] = sx_return []"
| "env_files_of compose ((filename, keys) # rest) =
     sx_bind (env_file compose filename keys) (\<lambda>d. sx_bind (env_files_of compose rest) (\<lambda>ds. sx_return ((filename, d) # ds)))"

definition env_item :: "(string, environ) dict \<Rightarrow> string \<Rightarrow> string \<Rightarrow> string res" where
  "env_item envs filename k = (case dget envs filename of None \<Rightarrow> Inl KeyError
     | Some d \<Rightarrow> (case dget d k of None \<Rightarrow> Inl KeyError | Some v \<Rightarrow> Inr v))"

definition env_checks :: "(string, environ) dict \<Rightarrow> unit res" where
  "env_checks envs =
     res_bind (env_item envs ''db.env'' ''POSTGRES_USER'') (\<lambda>owner. res_bind (env_item envs ''runtime.env'' ''POSTGRES_USER'') (\<lambda>user.
     res_bind (env_item envs ''db.env'' ''POSTGRES_PASSWORD'') (\<lambda>p. res_bind (env_item envs ''runtime.env'' ''POSTGRES_PASSWORD'') (\<lambda>q.
       demand (owner = ''zentral_owner'' \<and> user = ''zentral_runtime'' \<and> p \<noteq> q)))))"

definition config_checks :: "json \<Rightarrow> string res" where
  \<comment> \<open>the project\<close>
  "config_checks config =
     res_bind (item_of config ''name'') (\<lambda>prj.
     res_bind (demands (res_and (has_keys config [''name'', ''services'', ''volumes'']) (full_match is_project prj))) (\<lambda>_.
     res_bind (item_of config ''volumes'') (\<lambda>vols.
     res_bind (demands (res_and (has_keys vols SETUP_VOLUMES)
        (res_bind (items_of vols) (\<lambda>its. Inr (list_all (\<lambda>(_, v). py_eq v (JObj [])) its))))) (\<lambda>_.
     res_bind (item_of config ''services'') (\<lambda>svs.
     res_bind (demands (has_keys svs SETUP_SERVICES)) (\<lambda>_.
       case prj of JStr s \<Rightarrow> Inr s | _ \<Rightarrow> Inl TypeError))))))"

definition SETUP_ALLOWED :: "string list" where
  "SETUP_ALLOWED = [''image'', ''pull_policy'', ''restart'', ''mem_limit'', ''logging'', ''security_opt'', ''command'',
     ''env_file'', ''environment'', ''volumes'', ''depends_on'', ''ports'', ''hostname'']"

definition expected_mounts :: "string \<Rightarrow> json" where
  "expected_mounts service = (case dget [(''db'', ''postgres_data:/var/lib/postgresql''), (''redis'', ''redis_data:/data''),
       (''rabbitmq'', ''rabbitmq_data:/var/lib/rabbitmq''), (''elastic'', ''elasticsearch_data:/usr/share/elasticsearch/data'')] service of
     Some m \<Rightarrow> strs [m] | None \<Rightarrow> strs [''./conf:/zentral-eval-conf:ro'', ''media_data:/var/zentral''])"

definition env_name :: "string \<Rightarrow> string" where
  "env_name service = (if service = ''db'' then ''db.env'' else if service = ''rabbitmq'' then ''rabbitmq.env'' else ''runtime.env'')"

definition bare :: "string \<Rightarrow> bool" where
  "bare service \<longleftrightarrow> service \<in> {''redis'', ''elastic''}"

definition declared_image :: "json \<Rightarrow> string \<Rightarrow> json \<Rightarrow> string res" where
  "declared_image b service decl =
     res_bind (demands (res_and (res_bind (set_of decl) (\<lambda>s. Inr (s \<subseteq> JStr ` set SETUP_ALLOWED)))
        (get_is decl ''ports'' (JArr []) (strs (if service = ''web'' then [''127.0.0.1:8000:8000''] else []))))) (\<lambda>_.
     res_bind (demands (get_is decl ''volumes'' JNull (expected_mounts service))) (\<lambda>_.
     res_bind (demands (get_is decl ''env_file'' (JArr []) (strs (if bare service then [] else [''./'' @ env_name service])))) (\<lambda>_.
     res_bind (item_of decl ''image'') (\<lambda>img.
     res_bind (demands (if service \<in> set APPS then item_eq b ''ImageId'' img else full_match is_pinned_ref img)) (\<lambda>_.
       case img of JStr s \<Rightarrow> Inr s | _ \<Rightarrow> Inl TypeError)))))"

definition sensitive :: "string list" where
  "sensitive = concat (map snd ENV_KEYS)"

definition sensitive_env :: "json \<Rightarrow> environ res" where
  "sensitive_env v =
     res_bind (iter_of v) (\<lambda>its.
     res_bind (res_map name_of its) (\<lambda>names.
     res_bind (res_map pair_of (map fst (filter (\<lambda>(_, n). n \<in> set sensitive) (zip its names)))) setup_unique))"

definition labels_of :: "json \<Rightarrow> json res" where
  "labels_of info = res_bind (item_of info ''Config'') (\<lambda>c. get_or c ''Labels'' (JObj []))"

definition container_checks :: "string \<Rightarrow> (string, environ) dict \<Rightarrow> string \<Rightarrow> string \<Rightarrow> json \<Rightarrow> unit res" where
  "container_checks prj envs service img info =
     res_bind (labels_of info) (\<lambda>labels.
     res_bind (demands (all_of
        [res_bind (dig info [''State'', ''Running'']) (\<lambda>v. Inr (v = JBool True)),
         get_is labels ''com.docker.compose.project'' JNull (JStr prj), get_is labels ''com.docker.compose.service'' JNull (JStr service),
         res_bind (dig info [''Config'', ''Image'']) (\<lambda>v. Inr (py_eq v (JStr img)))])) (\<lambda>_.
     res_bind (res_bind (dig info [''Config'', ''Env'']) sensitive_env) (\<lambda>env.
       if bare service then demand (env = [])
       else case dget envs (env_name service) of None \<Rightarrow> Inl KeyError | Some d \<Rightarrow> demand (set env = set d))))"

definition DESTINATIONS :: "(string \<times> string) list" where
  "DESTINATIONS = [(''/var/lib/postgresql'', ''postgres_data''), (''/data'', ''redis_data''), (''/var/lib/rabbitmq'', ''rabbitmq_data''),
     (''/usr/share/elasticsearch/data'', ''elasticsearch_data''), (''/var/zentral'', ''media_data'')]"

definition mount_checks :: "path \<Rightarrow> string \<Rightarrow> json \<Rightarrow> unit res" where
  "mount_checks conf prj mount =
     res_bind (item_of mount ''Destination'') (\<lambda>d.
       if d = JStr ''/zentral-eval-conf''
       then demands (all_of [item_eq mount ''Type'' (JStr ''bind''), item_eq mount ''Source'' (JStr (path_str conf)),
              res_bind (item_of mount ''RW'') (\<lambda>v. Inr (v = JBool False))])
       else demands (res_and (item_eq mount ''Type'' (JStr ''volume''))
              (if \<not> hashable d then Inl TypeError
               else case d of
                 JStr s \<Rightarrow> (case dget DESTINATIONS s of None \<Rightarrow> Inr False | Some n \<Rightarrow> item_eq mount ''Name'' (JStr (prj @ ''_'' @ n)))
               | _ \<Rightarrow> Inr False)))"

definition isolation_checks :: "json \<Rightarrow> path \<Rightarrow> string \<Rightarrow> string \<Rightarrow> json \<Rightarrow> json \<Rightarrow> json \<Rightarrow> string res" where
  \<comment> \<open>the network\<close>
  "isolation_checks b conf prj service decl info image_info =
     res_bind (demands (res_eq (item_of info ''Image'') (item_of image_info ''Id''))) (\<lambda>_.
     res_bind (demands (all_of
        [res_bind (dig info [''HostConfig'', ''Privileged'']) (\<lambda>v. Inr (\<not> truthy v)),
         res_bind (item_of info ''HostConfig'') (\<lambda>hc. falsy_at hc ''CapAdd''),
         res_bind (dig info [''NetworkSettings'', ''Networks'']) (\<lambda>v. has_keys v [prj @ ''_default''])])) (\<lambda>_.
     res_bind (res_bind (item_of image_info ''Config'') (\<lambda>c. get_or c ''ExposedPorts'' JNull)) (\<lambda>ex.
     res_bind (actual_ports info service (or_else ex (JObj []))) (\<lambda>_.
     res_bind (dig info [''NetworkSettings'', ''Networks'', prj @ ''_default'', ''NetworkID'']) (\<lambda>network.
     res_bind (demands (full_match is_sha256_hex network)) (\<lambda>_.
     res_bind (item_of info ''Mounts'') (\<lambda>mounts.
     res_bind (len_of mounts) (\<lambda>n. res_bind (res_bind (get_or decl ''volumes'' (JArr [])) len_of) (\<lambda>m.
     res_bind (demand (n = m)) (\<lambda>_.
     res_bind (iter_of mounts) (\<lambda>ms.
     res_bind (res_map (mount_checks conf prj) ms) (\<lambda>_.
     res_bind (labels_of info) (\<lambda>labels.
     res_bind (if service \<in> set APPS
               then res_bind (demands (res_and (res_eq (item_of info ''Image'') (item_of b ''ImageId''))
                      (res_bind (item_of b ''SourceCommit'') (get_is labels ''org.opencontainers.image.revision'' JNull)))) (\<lambda>_.
                    demands (res_bind (dig image_info [''Config'', ''Labels'']) (\<lambda>l. get_is l ''io.azd-santa.variant'' JNull (JStr ''core-experiment''))))
               else Inr ()) (\<lambda>_.
       case network of JStr s \<Rightarrow> Inr s | _ \<Rightarrow> Inl TypeError))))))))))))))"

definition attest_service :: "'x setup_env \<Rightarrow> json \<Rightarrow> path \<Rightarrow> path \<Rightarrow> string \<Rightarrow> (string, environ) dict \<Rightarrow> string \<Rightarrow> json
    \<Rightarrow> ('x chost, string \<times> string) sx" where
  \<comment> \<open>the container and its network\<close>
  "attest_service e b compose conf prj envs service decl =
     sx_bind (sx_lift (declared_image b service decl)) (\<lambda>img.
     sx_bind (docker e 30 [''compose'', ''--project-name'', prj, ''-f'', path_str compose, ''ps'', ''--quiet'', service]) (\<lambda>out.
     sx_bind (sx_lift (res_bind (utf8_decode False out) (\<lambda>t. Inr (py_strip t)))) (\<lambda>cid.
     sx_bind (sx_lift (demand (is_sha256_hex cid))) (\<lambda>_.
     sx_bind (docker_json e [''inspect'', cid]) (\<lambda>info.
     sx_bind (sx_lift (container_checks prj envs service img info)) (\<lambda>_.
     sx_bind (docker_json e [''image'', ''inspect'', img]) (\<lambda>image_info.
     sx_bind (sx_lift (isolation_checks b conf prj service decl info image_info)) (\<lambda>network.
       sx_return (cid, network)))))))))"

fun attest_services :: "'x setup_env \<Rightarrow> json \<Rightarrow> path \<Rightarrow> path \<Rightarrow> string \<Rightarrow> (string, environ) dict \<Rightarrow> (string \<times> json) list
    \<Rightarrow> ('x chost, (string \<times> string \<times> string) list) sx" where
  "attest_services e b compose conf prj envs [] = sx_return []"
| "attest_services e b compose conf prj envs ((service, decl) # rest) =
     sx_bind (attest_service e b compose conf prj envs service decl) (\<lambda>(cid, network).
     sx_bind (attest_services e b compose conf prj envs rest) (\<lambda>out. sx_return ((service, cid, network) # out)))"

definition PROBE :: string where
  \<comment> \<open>what is run inside the web container\<close>
  "PROBE = source (''import base64,hashlib,json,os|from pathlib import Path|from django.conf import settings|from urllib.parse import urlsplit|''
     @ ''from base.deployment import version|from zentral.conf import api_base_url|import azd_santa_operator_recovery as recovery|''
     @ ''import azd_santa_sealed_setup as sealed|import azd_santa_operator as policy|import azd_santa_admission as admission|''
     @ ''p=json.loads(base64.b64decode(os.environ[`AZD_SANTA_SETUP_REQUEST_B64`]))|b=p[`context`][`binding`]|''
     @ ''assert not settings.DEBUG and version.strip()==b[`SourceCommit`]|''
     @ ''assert settings.DATABASES[`default`][`HOST`]==`db` and settings.DATABASES[`default`][`NAME`]==`zentral`|''
     @ ''cache=urlsplit(settings.CACHES[`azd_santa_security`][`LOCATION`])|''
     @ ''assert cache.hostname==`redis` and cache.path==`/2` and cache.scheme in (`redis`,`rediss`)|''
     @ ''assert hashlib.sha256(Path(recovery.__file__).read_bytes()).hexdigest()==b[`RecoverySha256`]|''
     @ ''assert hashlib.sha256(Path(sealed.__file__).read_bytes()).hexdigest()==b[`SealedSha256`]|''
     @ ''assert hashlib.sha256(Path(admission.__file__).read_bytes()).hexdigest()==b[`AdmissionSha256`]|''
     @ ''admission.check()|assert sealed.origin(api_base_url())==sealed.origin(b[`Origin`])|''
     @ ''recovery.validate_request(p[`context`][`mode`],p[`username`],p[`email`],p[`reason`])|''
     @ ''sealed.prepare_recipient(p[`recipient_public_key`],p[`context_sha256`],p[`context`][`mode`],p[`username`],p[`email`],api_base_url())|''
     @ ''policy.check_security_store()|print(`SANTA_SETUP_HOST_ATTESTED`)|'')"

definition probe_container :: "'x setup_env \<Rightarrow> json \<Rightarrow> string \<Rightarrow> ('x chost, unit) sx" where
  "probe_container e request web =
     sx_bind (sx_lift (encoded (se_py e) request)) (\<lambda>b.
     sx_bind (docker e 60 [''exec'', ''--env'', ''AZD_SANTA_SETUP_REQUEST_B64='' @ b64_encode False b, web,
         ''python'', ''server/manage.py'', ''shell'', ''--no-imports'', ''-c'', PROBE]) (\<lambda>out.
       sx_lift (res_bind (utf8_decode False out) (\<lambda>t.
         demand (length (filter (\<lambda>l. l = ''SANTA_SETUP_HOST_ATTESTED'') (splitlines t)) = 1)))))"

definition redis_checks :: "json \<Rightarrow> string list \<Rightarrow> unit res" where
  "redis_checks config networks =
     demands (res_and (Inr (length (remdups networks) = 1))
       (res_and (res_bind (dig config [''services'', ''redis'', ''command'']) (\<lambda>v. Inr (py_eq v (strs REDIS_COMMAND))))
         (res_bind (dig config [''services'', ''redis'', ''volumes'']) (\<lambda>v. Inr (py_eq v (strs [''redis_data:/data'']))))))"

definition attest_runtime :: "'x setup_env \<Rightarrow> json \<Rightarrow> ('x chost, (string, string) dict) sx" where
  \<comment> \<open>the container of each service\<close>
  "attest_runtime e request =
     sx_bind (sx_lift (dig request [''context'', ''binding''])) (\<lambda>b.
     sx_bind (sx_lift (text_item b ''ComposePath'')) (\<lambda>cp.
     sx_bind (private_path (py_path cp) False 384) (\<lambda>compose.
     sx_bind (read_bytes compose) (\<lambda>raw.
     sx_bind (sx_lift (demands (res_and (Inr (length raw \<le> 65536)) (item_eq b ''ComposeSha256'' (JStr (sha256_hex raw)))))) (\<lambda>_.
     sx_bind (sx_lift (setup_loads_bytes (se_py e) raw)) (\<lambda>config.
     sx_bind (sx_lift (config_checks config)) (\<lambda>prj.
     sx_bind (env_files_of compose ENV_KEYS) (\<lambda>envs.
     sx_bind (sx_lift (env_checks envs)) (\<lambda>_.
       let conf = path_join (path_parent compose) ''conf'' in
     sx_bind (private_path conf True 384) (\<lambda>_.
     sx_bind (private_path (path_join conf ''base.json'') False 420) (\<lambda>_.
     sx_bind (sx_lift (services_of config)) (\<lambda>its.
     sx_bind (attest_services e b compose conf prj envs its) (\<lambda>rows.
     sx_bind (sx_lift (redis_checks config (map (snd \<circ> snd) rows))) (\<lambda>_.
       let services = map (\<lambda>(service, cid, _). (service, cid)) rows in
     sx_bind (sx_lift (case dget services ''web'' of None \<Rightarrow> Inl TypeError | Some w \<Rightarrow> Inr w)) (\<lambda>web.
     sx_bind (probe_container e request web) (\<lambda>_. sx_return services))))))))))))))))"

section \<open>The sealed artifact\<close>

definition ENVELOPE_KEYS :: "string list" where
  "ENVELOPE_KEYS = [''scope'', ''version'', ''algorithm'', ''mode'', ''kid_sha256'', ''context_sha256'', ''target_sha256'',
     ''wrapped_key_base64'', ''nonce_base64'', ''ciphertext_base64'']"

definition b64_field :: "json \<Rightarrow> string \<Rightarrow> nat \<Rightarrow> nat \<Rightarrow> unit res" where
  "b64_field v k low high =
     res_bind (item_of v k) (\<lambda>x. res_bind (b64_valid x) (\<lambda>d.
       demand (low \<le> length d \<and> length d \<le> high \<and> JStr (b64_encode False d) = x)))"

definition envelope_checks :: "json \<Rightarrow> json \<Rightarrow> unit res" where
  "envelope_checks v request =
     res_bind (demands (has_keys v ENVELOPE_KEYS)) (\<lambda>_.
     res_bind (item_of request ''context'') (\<lambda>c.
     res_bind (demands (all_of
        [item_eq v ''scope'' (JStr ''azd-santa-sealed-setup''), res_bind (item_of v ''version'') (\<lambda>x. Inr (x = JInt 1)),
         item_eq v ''algorithm'' (JStr ''RSA-OAEP-256+A256GCM''), res_eq (item_of v ''mode'') (item_of c ''mode''),
         res_eq (item_of v ''context_sha256'') (item_of request ''context_sha256''),
         res_eq (item_of v ''kid_sha256'') (item_of c ''recipient_sha256''), res_eq (item_of v ''target_sha256'') (item_of c ''target_sha256'')])) (\<lambda>_.
     res_bind (b64_field v ''wrapped_key_base64'' 384 384) (\<lambda>_.
     res_bind (b64_field v ''nonce_base64'' 12 12) (\<lambda>_.
       b64_field v ''ciphertext_base64'' 17 1600)))))"

definition envelope_text :: "py_env \<Rightarrow> string \<Rightarrow> json \<Rightarrow> bytes res" where
  \<comment> \<open>\<open>envelope\<close> of a text\<close>
  "envelope_text e t request =
     res_bind (demand (py_len t \<le> 2600)) (\<lambda>_.
     res_bind (setup_loads e t) (\<lambda>v. res_bind (envelope_checks v request) (\<lambda>_. encoded e v)))"

definition envelope_bytes :: "py_env \<Rightarrow> bytes \<Rightarrow> json \<Rightarrow> bytes res" where
  "envelope_bytes e raw request =
     res_bind (demand (length raw \<le> 2600)) (\<lambda>_.
     res_bind (setup_loads_bytes e raw) (\<lambda>v. res_bind (envelope_checks v request) (\<lambda>_. encoded e v)))"

definition is_byte_space :: "char \<Rightarrow> bool" where
  "is_byte_space c \<longleftrightarrow> ord c = 32 \<or> 9 \<le> ord c \<and> ord c \<le> 13"

definition bytes_strip :: "bytes \<Rightarrow> bytes" where
  "bytes_strip b = rev (dropWhile is_byte_space (rev (dropWhile is_byte_space b)))"

definition READER :: string where
  "READER = source ''import os,stat,sys|p=sys.argv[1]|fd=os.open(p,os.O_RDONLY'' @ ''|os.O_NOFOLLOW)''
     @ source (''|with os.fdopen(fd,`rb`) as f:| s=os.fstat(f.fileno()); assert stat.S_ISREG(s.st_mode) and stat.S_IMODE(s.st_mode)==0o600 ''
         @ ''and s.st_uid==os.getuid() and s.st_size<=2601| sys.stdout.buffer.write(f.read(2602))|'')"

definition read_artifact :: "'x setup_env \<Rightarrow> string \<Rightarrow> string \<Rightarrow> json \<Rightarrow> ('x chost, bytes) sx" where
  "read_artifact e web artifact request =
     sx_bind (docker e 30 [''exec'', web, ''python'', ''-c'', READER, artifact]) (\<lambda>out.
       sx_lift (envelope_bytes (se_py e) (bytes_strip out) request))"

section \<open>The operation\<close>

definition run_access :: "'x setup_env \<Rightarrow> string list \<Rightarrow> string list \<Rightarrow> string list \<Rightarrow> ('x chost, int) sx" where
  \<comment> \<open>\<open>subprocess.run\<close> with its output in two open files\<close>
  "run_access e args out err h =
     (let w = h_world h; ((r, a, b), x) = se_access e (tool_environ e) args (ext w);
          entry = (case r of Inl y \<Rightarrow> Inl y | Inr n \<Rightarrow> Inr \<lparr>returncode = n, stdout = a, stderr = b\<rparr>)
      in (r, set_data err b (set_data out a (h\<lparr>h_world := w\<lparr>ext := x, issued := issued w @ [(args, entry)]\<rparr>\<rparr>))))"

definition access_args :: "json \<Rightarrow> string \<Rightarrow> string \<Rightarrow> string list res" where
  "access_args request web artifact =
     res_bind (res_bind (item_of request ''context'') (\<lambda>c. text_item c ''mode'')) (\<lambda>md.
     res_bind (text_item request ''username'') (\<lambda>username. res_bind (text_item request ''email'') (\<lambda>email.
     res_bind (text_item request ''reason'') (\<lambda>reason. res_bind (text_item request ''recipient_public_key'') (\<lambda>key.
     res_bind (text_item request ''context_sha256'') (\<lambda>ctx.
       Inr (DOCKER @ [''exec'', web, ''python'', ''server/manage.py'', ''operator_access'', md,
         ''--username='' @ username, ''--email='' @ email, ''--reason='' @ reason,
         ''--output'', artifact, ''--recipient-public-key'', key, ''--context-sha256'', ctx, ''--sealed-stdout''])))))))"

definition marked_record :: "string \<Rightarrow> string res" where
  "marked_record t =
     (case filter (\<lambda>l. startswith l SETUP_MARKER) (splitlines t) of
        [l] \<Rightarrow> Inr (drop (length SETUP_MARKER) l)
      | _ \<Rightarrow> Inl ValueError)"

definition run_recorded :: "'x setup_env \<Rightarrow> path \<Rightarrow> string list \<Rightarrow> ('x chost, int) sx" where
  \<comment> \<open>the command with its reserved output files\<close>
  "run_recorded e folder args =
     sx_bind (open_excl (path_join folder ''command.stdout'') 384) (\<lambda>out.
     sx_bind (open_excl (path_join folder ''command.stderr'') 384) (\<lambda>err.
     sx_bind (run_access e args out err) (\<lambda>code.
     sx_bind io_ok (\<lambda>_. sx_bind io_ok (\<lambda>_. sx_return code)))))"

definition create_setup :: "'x setup_env \<Rightarrow> json \<Rightarrow> bytes \<Rightarrow> string \<Rightarrow> path \<Rightarrow> path \<Rightarrow> string \<Rightarrow> ('x chost, bytes) sx" where
  "create_setup e request raw web store folder artifact =
     sx_bind (mkdir folder 448 False) (\<lambda>_.
     sx_bind (sync_dir store) (\<lambda>_.
     sx_bind (setup_write (path_join folder ''request.json'') raw) (\<lambda>_.
     sx_bind (sx_lift (encoded (se_py e) (JObj [(''state'', JStr ''mutation-may-have-started''), (''container'', JStr web)]))) (\<lambda>attempt.
     sx_bind (setup_write (path_join folder ''attempt.json'') attempt) (\<lambda>_.
     sx_bind (sx_lift (access_args request web artifact)) (\<lambda>args.
     sx_bind (run_recorded e folder args) (\<lambda>code.
     sx_bind (sx_lift (encoded (se_py e) (JObj [(''returncode'', JInt code)]))) (\<lambda>ended.
     sx_bind (setup_write (path_join folder ''exit.json'') ended) (\<lambda>_.
     sx_bind (sx_lift (demand (code = 0))) (\<lambda>_.
     sx_bind (read_bytes (path_join folder ''command.stdout'')) (\<lambda>content.
       let output = take 16385 content in
     sx_bind (sx_lift (demand (length output \<le> 16384))) (\<lambda>_.
     sx_bind (sx_lift (res_bind (utf8_decode False output) marked_record)) (\<lambda>t.
     sx_bind (sx_lift (envelope_text (se_py e) t request)) (\<lambda>sealed.
     sx_bind (read_artifact e web artifact request) (\<lambda>again.
     sx_bind (sx_lift (demand (again = sealed))) (\<lambda>_.
     sx_bind (setup_write (path_join folder ''sealed.json'') sealed) (\<lambda>_. sx_return sealed)))))))))))))))))"

definition read_setup :: "'x setup_env \<Rightarrow> json \<Rightarrow> bytes \<Rightarrow> string \<Rightarrow> path \<Rightarrow> string \<Rightarrow> ('x chost, bytes) sx" where
  "read_setup e request raw web folder artifact =
     sx_bind (private_path folder True 384) (\<lambda>_.
     sx_bind (private_path (path_join folder ''request.json'') False 384) (\<lambda>p.
     sx_bind (read_bytes p) (\<lambda>old.
     sx_bind (sx_lift (demand (old = raw))) (\<lambda>_.
     sx_bind (private_path (path_join folder ''attempt.json'') False 384) (\<lambda>q.
     sx_bind (look (\<lambda>h. demand (is_file h q))) (\<lambda>_.
     sx_bind (read_artifact e web artifact request) (\<lambda>sealed.
     sx_bind (look (\<lambda>h. Inr (path_exists h (path_join folder ''sealed.json'')))) (\<lambda>there.
     sx_bind (if there
              then sx_bind (private_path (path_join folder ''sealed.json'') False 384) (\<lambda>p.
                   sx_bind (read_bytes p) (\<lambda>kept. sx_lift (demand (kept = sealed))))
              else sx_return ()) (\<lambda>_. sx_return sealed)))))))))"

definition setup_store :: path where
  "setup_store = path_join SETUP_ROOT ''operator-setup''"

definition open_store :: "('w host, unit) sx" where
  "open_store =
     sx_bind (look (\<lambda>h. Inr (path_exists h setup_store))) (\<lambda>there.
     sx_bind (if there then sx_return ()
              else sx_catch (sx_bind (mkdir setup_store 448 False) (\<lambda>_. sync_dir SETUP_ROOT))
                     (\<lambda>x. if x = FileExistsError then Some (sx_return ()) else None)) (\<lambda>_.
     sx_bind (private_path setup_store True 384) (\<lambda>_. sx_return ())))"

definition artifact_path :: "string \<Rightarrow> string" where
  "artifact_path ctx = ''/var/zentral/azd-operator-setup-'' @ ctx @ ''.json''"

definition setup_operation :: "'x setup_env \<Rightarrow> json \<Rightarrow> bytes \<Rightarrow> ('x chost, unit) sx" where
  \<comment> \<open>\<open>run\<close> from the operation on\<close>
  "setup_operation e request raw =
     sx_bind (sx_lift (case dget (se_environ e) ''AZD_SANTA_SETUP_OPERATION'' of None \<Rightarrow> Inl KeyError | Some s \<Rightarrow> Inr s)) (\<lambda>operation.
     sx_bind (sx_lift (demand (operation \<in> {''create'', ''readback''}))) (\<lambda>_.
     sx_bind (sx_lift (dig request [''context'', ''binding''])) (\<lambda>b.
     sx_bind (attest_metadata e b) (\<lambda>_.
     sx_bind (attest_runtime e request) (\<lambda>services.
     sx_bind (sx_lift (case dget services ''web'' of None \<Rightarrow> Inl KeyError | Some w \<Rightarrow> Inr w)) (\<lambda>web.
     sx_bind open_store (\<lambda>_.
     sx_bind (sx_lift (text_item request ''context_sha256'')) (\<lambda>ctx.
       let folder = path_join setup_store ctx; artifact = artifact_path ctx in
     sx_bind (if operation = ''create'' then create_setup e request raw web setup_store folder artifact
              else read_setup e request raw web folder artifact) (\<lambda>sealed.
     sx_bind (sx_lift (if isascii sealed then Inr () else Inl UnicodeError)) (\<lambda>_.
       say (SETUP_MARKER @ sealed)))))))))))"

definition run_setup :: "'x setup_env \<Rightarrow> ('x chost, unit) sx" where
  \<comment> \<open>\<open>run\<close>\<close>
  "run_setup e =
     sx_bind (sx_lift (demand (se_euid e = 0))) (\<lambda>_.
     sx_bind (\<lambda>h. (Inr (), h\<lparr>h_umask := 63\<rparr>)) (\<lambda>_.
     sx_bind (sx_lift (request_from_environment e)) (\<lambda>(request, raw). setup_operation e request raw)))"

definition setup_main :: "'x setup_env \<Rightarrow> string list \<Rightarrow> ('x chost, unit) sx" where
  \<comment> \<open>the script with its arguments; every \<open>Exception\<close> becomes one \<open>SystemExit\<close>\<close>
  "setup_main e argv =
     sx_catch
       (if argv = [''--validate-request'']
        then sx_bind (sx_lift (request_from_environment e)) (\<lambda>(request, _).
             sx_bind (sx_lift (text_item request ''context_sha256'')) (\<lambda>ctx. say (''SANTA_SETUP_REQUEST_VALID:'' @ ctx)))
        else sx_bind (sx_lift (demand (argv = []))) (\<lambda>_. run_setup e))
       (\<lambda>x. if x \<in> {SystemExit, Diverge} then None else Some (sx_raise SystemExit))"

end
