(* ===== verification/Setup_Facts.thy ===== *)
theory Setup_Facts
  imports Setup_Host Transport_Facts Sealed_Facts Runtime_Traces
begin

text \<open>
  The operator setup on the host: over every history of runs the command that changes an
  account is run at most once per request context, a readback never runs it, what is printed
  is an envelope bound to the request, a context digest determines the request, and the host
  delivers exactly the envelopes that the container seals for the request.
\<close>

section \<open>Files\<close>

lemma fresh_grows: "fresh_file cs b h h' \<Longrightarrow> fs_grows h h'"
  unfolding fresh_file_def fs_grows_def by (metis option.distinct(1))

lemma setup_sync_fresh:
  assumes "write_sync cs b h = (r, h')" "fresh_file cs b0 h0 h"
  shows "\<exists>b'. fresh_file cs b' h0 h'"
  using assms(1)
proof (cases rule: write_sync_cases)
  case (1 n)
  then show ?thesis using assms(2) set_data_other [of _ cs "take n b" "called h"]
    by (auto simp: fresh_file_def set_data_def)
qed

lemma sync_dir_same: "sync_dir p h = (r, h') \<Longrightarrow> h' = called h"
proof -
  assume run: "sync_dir p h = (r, h')"
  obtain r1 h1 where 1: "io_ok h = (r1, h1)" by fastforce
  with io_ok_cases [OF 1] run show ?thesis by (auto simp: sync_dir_def sx_bind_def look_def split: sum.splits)
qed

lemma called_grows: "fs_grows h (called h)"
  by (simp add: fs_grows_def)

lemma keeps_sync_dir: "grows.keeps (sync_dir p)"
  by (rule grows.keepsI) (auto dest!: sync_dir_same simp: called_grows)

lemma setup_write_steps:
  assumes run: "setup_write p raw h = (r, h')"
  shows "fs_grows h h' \<and> h_world h' = h_world h"
proof -
  obtain r1 h1 where 1: "open_excl p 384 h = (r1, h1)" by fastforce
  show ?thesis
  proof (cases r1)
    case (Inl x)
    with 1 run open_excl_fresh [OF 1] show ?thesis by (auto simp: setup_write_def sx_bind_def fs_grows_def)
  next
    case (Inr cs)
    then have f1: "fresh_file cs [] h h1" "h_world h1 = h_world h" using open_excl_fresh [OF 1] by auto
    obtain r2 h2 where 2: "fchmod cs 384 h1 = (r2, h2)" by fastforce
    have f2: "fresh_file cs [] h h2" "h_world h2 = h_world h" using fchmod_fresh [OF 2 f1(1)] f1(2) by auto
    obtain r3 h3 where 3: "write_sync cs raw h2 = (r3, h3)" by fastforce
    have f3: "\<exists>b. fresh_file cs b h h3" using setup_sync_fresh [OF 3 f2(1)] .
    have w3: "h_world h3 = h_world h" using same_world.keepsD [OF world_write 3] f2(2) by simp
    obtain r4 h4 where 4: "sync_dir (path_parent p) h3 = (r4, h4)" by fastforce
    have g3: "fs_grows h h3" using f3 fresh_grows by blast
    then have g4: "fs_grows h h4" "h_world h4 = h_world h" using sync_dir_same [OF 4] w3 by (auto simp: fs_grows_def)
    show ?thesis using run 1 2 3 4 Inr fresh_grows [OF f2(1)] f2(2) g3 w3 g4
      by (auto simp: setup_write_def sx_bind_def look_def demand_def res_guard_def split: sum.splits if_splits)
  qed
qed

section \<open>Runs of the access command\<close>

definition runs_access :: "string \<Rightarrow> string list \<Rightarrow> bool" where
  \<comment> \<open>\<open>manage.py operator_access\<close> in a container, for a context\<close>
  "runs_access c args \<longleftrightarrow> 17 < length args \<and> args ! 7 = ''operator_access'' \<and> args ! 17 = c"

definition access_count :: "string \<Rightarrow> 'x chost \<Rightarrow> nat" where
  "access_count c h = length (filter (\<lambda>(a, _). runs_access c a) (issued (h_world h)))"

definition still :: "string \<Rightarrow> 'x chost \<Rightarrow> 'x chost \<Rightarrow> bool" where
  "still c h h' \<longleftrightarrow> fs_grows h h' \<and> access_count c h' = access_count c h"

interpretation still: frame "still c" for c
  by unfold_locales (auto simp: still_def fs_grows_refl intro: fs_grows_trans)

lemma still_world:
  assumes "\<And>h r h'. m h = (r, h') \<Longrightarrow> fs_grows h h' \<and> issued (h_world h') = issued (h_world h)"
  shows "still.keeps c m"
  using assms by (intro still.keepsI) (auto simp: still_def access_count_def)

lemma still_files:
  assumes "grows.keeps m" "same_world.keeps m"
  shows "still.keeps c m"
proof (rule still_world)
  fix h r h' assume m: "m h = (r, h')"
  show "fs_grows h h' \<and> issued (h_world h') = issued (h_world h)"
    using grows.keepsD [OF assms(1) m] same_world.keepsD [OF assms(2) m] by simp
qed

lemma still_look: "still.keeps c (look f)"
  by (rule still_world) (auto simp: look_def fs_grows_refl)

lemma still_read: "still.keeps c (read_bytes p)"
  by (rule still_files [OF keeps_read world_read])

lemma still_io: "still.keeps c io_ok"
  by (rule still_files [OF keeps_io(2) world_io(2)])

lemma still_mkdir: "still.keeps c (mkdir p mode ok)"
  by (rule still_files [OF keeps_mkdir world_mkdir])

lemma still_sync: "still.keeps c (sync_dir p)"
  by (rule still_world) (auto dest!: sync_dir_same simp: called_grows)

lemma still_write: "still.keeps c (setup_write p raw)"
  by (rule still_world) (auto dest!: setup_write_steps)

lemma still_private: "still.keeps c (private_path p d mode)"
  unfolding private_path_def by (rule still_look)

lemma still_outside: "still.keeps c (outside f)"
  by (rule still_world) (auto simp: outside_def fs_grows_def split: prod.splits)

lemma still_say: "still.keeps c (say s)"
  by (rule still_world) (auto simp: say_def fs_grows_def)

lemma still_docker:
  assumes "length args \<le> 14"
  shows "still.keeps c (docker e limit args)"
proof (rule still.keepsI)
  fix h r h' assume "docker e limit args h = (r, h')"
  then show "still c h h'" using assms
    by (auto simp: docker_def Let_def still_def fs_grows_def access_count_def runs_access_def DOCKER_def sx_bind_def sx_lift_def sx_return_def
        split: prod.splits sum.splits)
qed

lemmas still_intros = still.keeps_intros still_look still_read still_io still_mkdir still_sync still_write still_private still_outside still_say

lemma still_docker_json: "length args \<le> 14 \<Longrightarrow> still.keeps c (docker_json e args)"
  unfolding docker_json_def by (intro still_intros still_docker)

lemma still_env_files: "still.keeps c (env_files_of compose ks)"
  by (induction ks) (auto simp: env_file_def Let_def intro!: still_intros)

lemma still_service: "still.keeps c (attest_service e b compose conf prj envs service decl)"
  unfolding attest_service_def by (intro still_intros still_docker still_docker_json) simp_all

lemma still_services: "still.keeps c (attest_services e b compose conf prj envs its)"
  by (induction its) (auto intro!: still_intros still_service split: prod.splits)

lemma still_runtime: "still.keeps c (attest_runtime e request)"
  unfolding attest_runtime_def probe_container_def Let_def
  by (intro still_intros still_env_files still_services still_docker) simp_all

lemma still_metadata: "still.keeps c (attest_metadata e b)"
  unfolding attest_metadata_def by (intro still_intros)

lemma still_artifact: "still.keeps c (read_artifact e web artifact request)"
  unfolding read_artifact_def by (intro still_intros still_docker) simp

lemma still_open_store: "still.keeps c open_store"
  unfolding open_store_def by (auto intro!: still_intros split: if_splits)

lemma still_read_setup: "still.keeps c (read_setup e request raw web folder artifact)"
  unfolding read_setup_def by (auto intro!: still_intros still_artifact)

section \<open>The reservation of a context\<close>

definition reservation :: "string \<Rightarrow> 'w host \<Rightarrow> bool" where
  \<comment> \<open>the directory of a context exists\<close>
  "reservation c h \<longleftrightarrow> (\<exists>cs. resolve_parts (h_fs h) (h_cwd h) setup_store = Inr cs \<and> dget (h_fs h) (cs @ [c]) \<noteq> None)"

lemma store_parts: "setup_store = abs_path [''var'', ''lib'', ''azd-santa-qualification'', ''operator-setup'']"
  by code_simp

lemma store_absolute: "is_absolute setup_store"
  by (simp add: store_parts abs_path_def is_absolute_def)

lemma resolve_store: "resolve_parts (h_fs h) cwd setup_store = Inr cs \<Longrightarrow> fs_grows h h' \<Longrightarrow> resolve_parts (h_fs h') cwd' setup_store = Inr cs"
  unfolding resolve_parts_def if_P [OF store_absolute] by (erule walk_grows) (simp add: fs_grows_def)

lemma reservation_grows: "reservation c h \<Longrightarrow> fs_grows h h' \<Longrightarrow> reservation c h'"
  unfolding reservation_def by (metis resolve_store fs_grows_def not_None_eq)

lemma hex_parts: "is_sha256_hex c \<Longrightarrow> py_path c = \<lparr>p_root = [], p_parts = [c]\<rparr>"
proof -
  assume c: "is_sha256_hex c"
  then have "slash \<notin> set c" by (auto simp: is_sha256_hex_def fullmatch_n_def list_all_iff is_lower_hex_def is_digit_def in_range_def slash_def)
  moreover from this have "split_on slash c = [c]" by (induction c) auto
  moreover have "length c = 64" using c by (simp add: is_sha256_hex_def fullmatch_n_def)
  moreover from this \<open>slash \<notin> set c\<close> have "\<not> startswith c ''/''" by (cases c) (auto simp: slash_def)
  ultimately show ?thesis by (auto simp: py_path_def)
qed

lemma folder_parts: "is_sha256_hex c \<Longrightarrow> path_join setup_store c = abs_path (p_parts setup_store @ [c])"
  by (simp add: path_join_def hex_parts Let_def is_absolute_def store_parts abs_path_def)

lemma folder_place:
  assumes "is_sha256_hex c" "new_place h (path_join setup_store c) = Inr cs"
  shows "\<exists>d. resolve_parts (h_fs h) (h_cwd h) setup_store = Inr d \<and> cs = d @ [c] \<and> dget (h_fs h) (d @ [c]) = None"
proof -
  have "path_parent (path_join setup_store c) = setup_store"
    using folder_parts [OF assms(1)] by (simp add: path_parent_def store_parts abs_path_def)
  with assms(2) folder_parts [OF assms(1)] show ?thesis
    by (auto simp: new_place_def res_simps abs_path_def split: if_splits option.splits)
qed

lemma mkdir_reserves:
  assumes "is_sha256_hex c" "mkdir (path_join setup_store c) 448 False h = (Inr u, h')"
  shows "\<not> reservation c h" "reservation c h'"
proof -
  obtain h1 where 1: "io_ok h = (Inr (), h1)" and 2: "(case new_place h1 (path_join setup_store c) of
       Inr cs \<Rightarrow> (Inr (), put_node cs Dir 448 h1)
     | Inl x \<Rightarrow> if isa_OSError x \<and> False \<and> is_dir h1 (path_join setup_store c) then (Inr (), h1) else (Inl x, h1)) = (Inr u, h')"
    using assms(2) unfolding mkdir_def sx_bind_Inr_iff by auto
  obtain cs where cs: "new_place h1 (path_join setup_store c) = Inr cs" "h' = put_node cs Dir 448 h1"
    using 2 by (cases "new_place h1 (path_join setup_store c)") auto
  have h1: "h1 = called h" using io_ok_cases [OF 1] by simp
  obtain d where d: "resolve_parts (h_fs h1) (h_cwd h1) setup_store = Inr d" "cs = d @ [c]" "dget (h_fs h1) (d @ [c]) = None"
    using folder_place [OF assms(1) cs(1)] by blast
  show "\<not> reservation c h" using d h1 by (auto simp: reservation_def)
  have "fs_grows h1 h'" using cs(2) put_node_grows [of h1 cs] d(2,3) by simp
  then have "resolve_parts (h_fs h') (h_cwd h') setup_store = Inr d" using resolve_store d(1) by blast
  then show "reservation c h'" using cs(2) d(2) by (auto simp: reservation_def put_node_def)
qed

lemma set_data_fresh:
  assumes "fresh_file cs b h0 h"
  shows "\<exists>b'. fresh_file cs b' h0 (set_data cs a h)"
  using assms set_data_other [of _ cs a h] by (auto simp: fresh_file_def set_data_def)

lemma run_recorded_steps:
  assumes run: "run_recorded e folder args h = (r, h')"
  shows "fs_grows h h' \<and> access_count c h' \<le> access_count c h + 1 \<and> (\<not> runs_access c args \<longrightarrow> access_count c h' = access_count c h)"
proof -
  let ?P = "\<lambda>g. fs_grows h g \<and> access_count c g \<le> access_count c h + 1 \<and> (\<not> runs_access c args \<longrightarrow> access_count c g = access_count c h)"
  obtain r1 h1 where 1: "open_excl (path_join folder ''command.stdout'') 384 h = (r1, h1)" by fastforce
  show "?P h'"
  proof (cases r1)
    case (Inl x)
    with 1 run open_excl_fresh [OF 1] show ?thesis by (auto simp: run_recorded_def sx_bind_def fs_grows_def access_count_def)
  next
    case (Inr out)
    note r1 = Inr
    have f1: "fresh_file out [] h h1" "h_world h1 = h_world h" using open_excl_fresh [OF 1] r1 by auto
    obtain r2 h2 where 2: "open_excl (path_join folder ''command.stderr'') 384 h1 = (r2, h2)" by fastforce
    show ?thesis
    proof (cases r2)
      case (Inl x)
      with 1 2 r1 run open_excl_fresh [OF 2] f1 fresh_grows [OF f1(1)] show ?thesis
        by (auto simp: run_recorded_def sx_bind_def fs_grows_def access_count_def)
    next
      case (Inr err)
      have f2: "fresh_file err [] h1 h2" "h_world h2 = h_world h1" using open_excl_fresh [OF 2] Inr by auto
      obtain r3 h3 where 3: "run_access e args out err h2 = (r3, h3)" by fastforce
      have places: "dget (h_fs h3) cs = dget (h_fs h) cs" if "cs \<noteq> out" "cs \<noteq> err" for cs
        using 3 that f1 f2 by (auto simp: run_access_def Let_def fresh_file_def set_data_other split: prod.splits)
      have "dget (h_fs h) out = None" "dget (h_fs h) err = None" using f1(1) f2(1) by (auto simp: fresh_file_def) metis
      then have g3: "fs_grows h h3" unfolding fs_grows_def by (metis places option.distinct(1))
      have c3: "access_count c h3 \<le> access_count c h + 1 \<and> (\<not> runs_access c args \<longrightarrow> access_count c h3 = access_count c h)"
        using 3 f1(2) f2(2) by (auto simp: run_access_def Let_def access_count_def split: prod.splits)
      show ?thesis
      proof (cases r3)
        case (Inl x)
        with run 1 2 3 r1 \<open>r2 = Inr err\<close> g3 c3 show ?thesis by (auto simp: run_recorded_def sx_bind_def)
      next
        case (Inr code)
        have "still.keeps c (sx_bind io_ok (\<lambda>_. sx_bind io_ok (\<lambda>_. sx_return code)))" by (intro still_intros)
        moreover have "sx_bind io_ok (\<lambda>_. sx_bind io_ok (\<lambda>_. sx_return code)) h3 = (r, h')"
          using run 1 2 3 r1 \<open>r2 = Inr err\<close> Inr by (simp add: run_recorded_def sx_bind_def [of "open_excl _ _"] sx_bind_def [of "run_access _ _ _ _"])
        ultimately have "still c h3 h'" by (rule still.keepsD)
        then show ?thesis using g3 c3 fs_grows_trans by (auto simp: still_def)
      qed
    qed
  qed
qed

text \<open>
  A program that runs the access command of a context at most \<open>once\<close>, and one that does so only
  after it has \<open>claimed\<close> the directory of the context.
\<close>

definition once :: "string \<Rightarrow> ('x chost, 'a) sx \<Rightarrow> bool" where
  "once c m \<longleftrightarrow> (\<forall>h r h'. m h = (r, h') \<longrightarrow> fs_grows h h' \<and> access_count c h' \<le> access_count c h + 1)"

definition claimed :: "string \<Rightarrow> 'x chost \<Rightarrow> 'x chost \<Rightarrow> bool" where
  "claimed c h h' \<longleftrightarrow> \<not> reservation c h \<and> reservation c h' \<and> fs_grows h h' \<and> access_count c h' \<le> access_count c h + 1"

definition guarded :: "string \<Rightarrow> ('x chost, 'a) sx \<Rightarrow> bool" where
  "guarded c m \<longleftrightarrow> (\<forall>h r h'. m h = (r, h') \<longrightarrow> still c h h' \<or> claimed c h h')"

lemma bind_cases:
  assumes "sx_bind m f h = (r, h')"
  obtains x h1 where "m h = (Inl x, h1)" "r = Inl x" "h' = h1" | x h1 where "m h = (Inr x, h1)" "f x h1 = (r, h')"
  using assms by (cases "m h") (auto simp: sx_bind_def split: sum.splits)

lemma once_before:
  assumes "still.keeps c m" "\<And>x. once c (f x)"
  shows "once c (sx_bind m f)"
  unfolding once_def
proof (intro allI impI)
  fix h r h' assume "sx_bind m f h = (r, h')"
  then show "fs_grows h h' \<and> access_count c h' \<le> access_count c h + 1"
  proof (cases rule: bind_cases)
    case (1 x h1)
    then show ?thesis using still.keepsD [OF assms(1) 1(1)] by (simp add: still_def)
  next
    case (2 x h1)
    then show ?thesis using still.keepsD [OF assms(1) 2(1)] assms(2) [of x] fs_grows_trans unfolding once_def still_def by metis
  qed
qed

lemma once_after:
  assumes "once c m" "\<And>x. still.keeps c (f x)"
  shows "once c (sx_bind m f)"
  unfolding once_def
proof (intro allI impI)
  fix h r h' assume "sx_bind m f h = (r, h')"
  then show "fs_grows h h' \<and> access_count c h' \<le> access_count c h + 1"
  proof (cases rule: bind_cases)
    case (1 x h1)
    then show ?thesis using assms(1) unfolding once_def by blast
  next
    case (2 x h1)
    have "still c h1 h'" using still.keepsD [OF assms(2) 2(2)] .
    then show ?thesis using assms(1) 2(1) fs_grows_trans unfolding once_def still_def by metis
  qed
qed

lemma guarded_bind:
  assumes "still.keeps c m" "\<And>x. guarded c (f x)"
  shows "guarded c (sx_bind m f)"
  unfolding guarded_def
proof (intro allI impI)
  fix h r h' assume "sx_bind m f h = (r, h')"
  then show "still c h h' \<or> claimed c h h'"
  proof (cases rule: bind_cases)
    case (1 x h1)
    then show ?thesis using still.keepsD [OF assms(1) 1(1)] by simp
  next
    case (2 x h1)
    have s: "still c h h1" using still.keepsD [OF assms(1) 2(1)] .
    have "still c h1 h' \<or> claimed c h1 h'" using assms(2) 2(2) unfolding guarded_def by blast
    then show ?thesis
    proof
      assume "claimed c h1 h'"
      then show ?thesis using s reservation_grows [of c h h1] fs_grows_trans [of h h1 h'] by (auto simp: claimed_def still_def)
    qed (use s still.R_trans in blast)
  qed
qed

lemma guarded_then:
  assumes "guarded c m" "\<And>x. still.keeps c (f x)"
  shows "guarded c (sx_bind m f)"
  unfolding guarded_def
proof (intro allI impI)
  fix h r h' assume "sx_bind m f h = (r, h')"
  then show "still c h h' \<or> claimed c h h'"
  proof (cases rule: bind_cases)
    case (1 x h1)
    then show ?thesis using assms(1) unfolding guarded_def by blast
  next
    case (2 x h1)
    have s: "still c h1 h'" using still.keepsD [OF assms(2) 2(2)] .
    have "still c h h1 \<or> claimed c h h1" using assms(1) 2(1) unfolding guarded_def by blast
    then show ?thesis
    proof
      assume "claimed c h h1"
      then show ?thesis using s reservation_grows [of c h1 h'] fs_grows_trans [of h h1 h'] by (auto simp: claimed_def still_def)
    qed (use s still.R_trans in blast)
  qed
qed

lemma guarded_lift: "(\<And>x. r = Inr x \<Longrightarrow> guarded c (f x)) \<Longrightarrow> guarded c (sx_bind (sx_lift r) f)"
  by (cases r) (auto simp: guarded_def sx_bind_def sx_lift_def still.R_refl)

lemma guarded_still: "still.keeps c m \<Longrightarrow> guarded c m"
  by (auto simp: guarded_def dest: still.keepsD)

lemma still_lift: "(\<And>x. r = Inr x \<Longrightarrow> still.keeps c (f x)) \<Longrightarrow> still.keeps c (sx_bind (sx_lift r) f)"
  by (cases r) (auto simp: still.keeps_def sx_bind_def sx_lift_def still.R_refl)

lemma access_args_context:
  assumes "access_args request web artifact = Inr args" "text_item request ''context_sha256'' = Inr ctx"
  shows "runs_access c args \<longleftrightarrow> c = ctx"
  using assms by (auto simp: access_args_def res_simps runs_access_def DOCKER_def)

lemma once_recorded: "once c (run_recorded e folder args)"
  unfolding once_def using run_recorded_steps by blast

lemma still_recorded: "\<not> runs_access c args \<Longrightarrow> still.keeps c (run_recorded e folder args)"
  by (rule still.keepsI) (auto simp: still_def dest: run_recorded_steps [of _ _ _ _ _ _ c])

lemmas create_tail = still_intros still_artifact

lemma guarded_create:
  assumes ctx: "text_item request ''context_sha256'' = Inr ctx" "is_sha256_hex ctx"
  shows "guarded c (create_setup e request raw web setup_store (path_join setup_store ctx) artifact)"
proof (cases "c = ctx")
  case True
  define rest where "rest = (\<lambda>_ :: unit. sx_bind (sync_dir setup_store) (\<lambda>_.
     sx_bind (setup_write (path_join (path_join setup_store ctx) ''request.json'') raw) (\<lambda>_.
     sx_bind (sx_lift (encoded (se_py e) (JObj [(''state'', JStr ''mutation-may-have-started''), (''container'', JStr web)]))) (\<lambda>attempt.
     sx_bind (setup_write (path_join (path_join setup_store ctx) ''attempt.json'') attempt) (\<lambda>_.
     sx_bind (sx_lift (access_args request web artifact)) (\<lambda>args.
     sx_bind (run_recorded e (path_join setup_store ctx) args) (\<lambda>code.
     sx_bind (sx_lift (encoded (se_py e) (JObj [(''returncode'', JInt code)]))) (\<lambda>ended.
     sx_bind (setup_write (path_join (path_join setup_store ctx) ''exit.json'') ended) (\<lambda>_.
     sx_bind (sx_lift (demand (code = 0))) (\<lambda>_.
     sx_bind (read_bytes (path_join (path_join setup_store ctx) ''command.stdout'')) (\<lambda>content.
     sx_bind (sx_lift (demand (length (take 16385 content) \<le> 16384))) (\<lambda>_.
     sx_bind (sx_lift (res_bind (utf8_decode False (take 16385 content)) marked_record)) (\<lambda>t.
     sx_bind (sx_lift (envelope_text (se_py e) t request)) (\<lambda>sealed.
     sx_bind (read_artifact e web artifact request) (\<lambda>again.
     sx_bind (sx_lift (demand (again = sealed))) (\<lambda>_.
     sx_bind (setup_write (path_join (path_join setup_store ctx) ''sealed.json'') sealed) (\<lambda>_. sx_return sealed)))))))))))))))))"
  have o: "once c (rest u)" for u
    unfolding rest_def by (intro once_before still_sync still_write still.keeps_lift once_after [OF once_recorded] create_tail)
  show ?thesis unfolding guarded_def
  proof (intro allI impI)
    fix h r h' assume run: "create_setup e request raw web setup_store (path_join setup_store ctx) artifact h = (r, h')"
    then have "sx_bind (mkdir (path_join setup_store ctx) 448 False) rest h = (r, h')" by (simp add: create_setup_def rest_def Let_def)
    then show "still c h h' \<or> claimed c h h'"
    proof (cases rule: bind_cases)
      case (1 x h1)
      then show ?thesis using still.keepsD [OF still_mkdir 1(1)] by blast
    next
      case (2 x h1)
      have m: "\<not> reservation c h" "reservation c h1" using mkdir_reserves [OF ctx(2) 2(1)] True by simp_all
      have s: "still c h h1" using still.keepsD [OF still_mkdir 2(1)] .
      have "fs_grows h1 h'" "access_count c h' \<le> access_count c h1 + 1" using o 2(2) unfolding once_def by blast+
      then show ?thesis using m s reservation_grows [of c h1 h'] fs_grows_trans [of h h1 h'] by (auto simp: claimed_def still_def)
    qed
  qed
next
  case False
  have "still.keeps c (create_setup e request raw web setup_store (path_join setup_store ctx) artifact)"
    unfolding create_setup_def Let_def
  proof (intro still_lift still.keeps_bind still_mkdir still_sync still_write)
    fix args assume "access_args request web artifact = Inr args"
    then have "\<not> runs_access c args" using access_args_context [OF _ ctx(1)] False by simp
    then show "still.keeps c (run_recorded e (path_join setup_store ctx) args)" by (rule still_recorded)
  qed (intro create_tail)+
  then show ?thesis by (rule guarded_still)
qed

lemma request_context:
  assumes "request_from_environment e = Inr (request, raw)"
  obtains ctx where "text_item request ''context_sha256'' = Inr ctx" "is_sha256_hex ctx"
proof -
  have "request_checks (se_py e) request = Inr ()" using assms by (auto simp: request_from_environment_def res_simps split: option.splits)
  then obtain d where "item_of request ''context_sha256'' = Inr d" "full_match is_sha256_hex d = Inr True"
    by (auto simp: request_checks_def digest_checks_def demands_Inr res_and_def res_simps split: if_splits)
  then show ?thesis using that by (auto simp: text_item_def res_simps full_match_def split: json.splits)
qed

lemma guarded_operation:
  assumes "request_from_environment e = Inr (request, raw)"
  shows "guarded c (setup_operation e request raw)"
proof -
  obtain ctx where ctx: "text_item request ''context_sha256'' = Inr ctx" "is_sha256_hex ctx" by (rule request_context [OF assms])
  show ?thesis unfolding setup_operation_def ctx(1) Let_def
    by (intro guarded_bind still.keeps_lift still_metadata still_runtime still_open_store guarded_lift guarded_then still_intros)
       (auto intro: guarded_create [OF ctx] guarded_still still_read_setup)
qed

lemma still_umask: "still.keeps c (\<lambda>h. (Inr (), h\<lparr>h_umask := m\<rparr>))"
  by (rule still_world) (auto simp: fs_grows_def)

lemma guarded_run: "guarded c (run_setup e)"
  unfolding run_setup_def
  by (intro guarded_bind still.keeps_lift still_umask guarded_lift) (auto intro: guarded_operation split: prod.splits)

lemma catch_state: "(\<And>x k. g x = Some k \<Longrightarrow> \<exists>y. k = sx_raise y) \<Longrightarrow> snd (sx_catch m g h) = snd (m h)"
  by (cases "m h") (fastforce simp: sx_catch_def sx_raise_def split: sum.splits option.splits)

lemma main_state:
  "snd (setup_main e argv h) = snd ((if argv = [''--validate-request'']
        then sx_bind (sx_lift (request_from_environment e)) (\<lambda>(request, _).
             sx_bind (sx_lift (text_item request ''context_sha256'')) (\<lambda>ctx. say (''SANTA_SETUP_REQUEST_VALID:'' @ ctx)))
        else sx_bind (sx_lift (demand (argv = []))) (\<lambda>_. run_setup e)) h)"
  unfolding setup_main_def by (rule catch_state) (auto split: if_splits)

lemma guarded_main:
  assumes "setup_main e argv h = (r, h')"
  shows "still c h h' \<or> claimed c h h'"
proof -
  let ?m = "if argv = [''--validate-request'']
        then sx_bind (sx_lift (request_from_environment e)) (\<lambda>(request, _).
             sx_bind (sx_lift (text_item request ''context_sha256'')) (\<lambda>ctx. say (''SANTA_SETUP_REQUEST_VALID:'' @ ctx)))
        else sx_bind (sx_lift (demand (argv = []))) (\<lambda>_. run_setup e)"
  have "guarded c ?m"
  proof (cases "argv = [''--validate-request'']")
    case True
    then show ?thesis by (auto intro!: guarded_still still_intros split: prod.splits)
  qed (simp add: guarded_bind still.keeps_lift guarded_run)
  moreover have "snd (?m h) = h'" using main_state [of e argv h] assms by simp
  ultimately show ?thesis unfolding guarded_def by (metis prod.collapse)
qed

text \<open>
  A history of the host: runs of the script with any environment, request and arguments, and
  steps of other programs, which may do anything to the machine but remove a reservation
  directory or write into the history of commands.
\<close>

inductive setup_step :: "'x chost \<Rightarrow> 'x chost \<Rightarrow> bool" where
  run: "setup_main e argv h = (r, h') \<Longrightarrow> setup_step h h'"
| others: "(\<And>c. reservation c h \<Longrightarrow> reservation c h') \<Longrightarrow> issued (h_world h') = issued (h_world h) \<Longrightarrow> setup_step h h'"

definition setup_inv :: "string \<Rightarrow> 'x chost \<Rightarrow> bool" where
  "setup_inv c h \<longleftrightarrow> access_count c h \<le> 1 \<and> (access_count c h = 1 \<longrightarrow> reservation c h)"

lemma setup_step_inv:
  assumes "setup_inv c h" "setup_step h h'"
  shows "setup_inv c h'"
  using assms(2)
proof cases
  case (run e argv r)
  from guarded_main [OF run, of c] show ?thesis
  proof
    assume "still c h h'"
    then show ?thesis using assms(1) reservation_grows by (auto simp: setup_inv_def still_def)
  next
    assume "claimed c h h'"
    then show ?thesis using assms(1) by (auto simp: setup_inv_def claimed_def)
  qed
next
  case others
  then show ?thesis using assms(1) by (auto simp: setup_inv_def access_count_def)
qed

interpretation operations: invariant_steps setup_step "setup_inv c" for c
  by unfold_locales (rule setup_step_inv)

text \<open>
  C24: an operator setup is carried out at most once.  Over every history of runs of the host
  script, with any requests, failing calls and steps of other programs that leave the
  reservation directories alone, the command that bootstraps or recovers an account is run at
  most once for a request context, whatever became of it.
\<close>

theorem access_run_once:
  assumes "setup_step\<^sup>*\<^sup>* h h'" "access_count c h = 0"
  shows "access_count c h' \<le> 1"
  using operations.steps_inv [OF assms(1), of c] assms(2) by (simp add: setup_inv_def)

text \<open>
  A readback changes no account.  A run whose operation is not \<open>create\<close>, and the validation
  of a request, never run the command that changes an account, for any context.
\<close>

theorem readback_runs_no_access:
  assumes "dget (se_environ e) ''AZD_SANTA_SETUP_OPERATION'' \<noteq> Some ''create'' \<or> argv \<noteq> []"
  shows "access_count c (snd (setup_main e argv h)) = access_count c h"
proof -
  have op: "still.keeps c (setup_operation e request raw)" if "dget (se_environ e) ''AZD_SANTA_SETUP_OPERATION'' \<noteq> Some ''create''" for request raw
    unfolding setup_operation_def Let_def using that
    by (intro still_intros still_metadata still_runtime still_open_store still_lift)
       (auto intro: still_read_setup still_intros split: option.splits)
  have "still.keeps c (if argv = [''--validate-request'']
        then sx_bind (sx_lift (request_from_environment e)) (\<lambda>(request, _).
             sx_bind (sx_lift (text_item request ''context_sha256'')) (\<lambda>ctx. say (''SANTA_SETUP_REQUEST_VALID:'' @ ctx)))
        else sx_bind (sx_lift (demand (argv = []))) (\<lambda>_. run_setup e))" (is "still.keeps c ?m")
    using assms
    by (auto simp: run_setup_def demand_def intro!: still_intros still_lift still_umask op split: prod.splits)
  then have "still c h (snd (?m h))" by (simp add: still.keeps_def)
  then show ?thesis by (simp add: main_state still_def)
qed

section \<open>What is printed\<close>

interpretation mute: frame "\<lambda>h h' :: 'x chost. printed (h_world h') = printed (h_world h)"
  by unfold_locales auto

lemma mute_world: "same_world.keeps m \<Longrightarrow> mute.keeps m"
  by (simp add: same_world.keeps_def mute.keeps_def)

lemma mute_look: "mute.keeps (look f)"
  by (simp add: mute.keeps_def look_def)

lemma mute_private: "mute.keeps (private_path p d mode)"
  unfolding private_path_def by (rule mute_look)

lemma mute_sync: "mute.keeps (sync_dir p)"
  by (rule mute.keepsI) (auto dest: sync_dir_same)

lemma mute_write: "mute.keeps (setup_write p raw)"
  by (rule mute.keepsI) (auto dest: setup_write_steps)

lemma mute_outside: "mute.keeps (outside f)"
  by (auto simp: mute.keeps_def outside_def split: prod.splits)

lemma mute_docker: "mute.keeps (docker e limit args)"
  by (auto simp: mute.keeps_def docker_def Let_def sx_bind_def sx_lift_def sx_return_def split: prod.splits sum.splits)

lemma mute_access: "mute.keeps (run_access e args out err)"
  by (auto simp: mute.keeps_def run_access_def Let_def split: prod.splits)

lemmas mute_intros = mute.keeps_intros mute_look mute_private mute_sync mute_write mute_outside mute_docker mute_access
  mute_world [OF world_read] mute_world [OF world_io(2)] mute_world [OF world_mkdir] mute_world [OF world_open]

lemma mute_env_files: "mute.keeps (env_files_of compose ks)"
  by (induction ks) (auto simp: env_file_def Let_def intro!: mute_intros)

lemma mute_services: "mute.keeps (attest_services e b compose conf prj envs its)"
  by (induction its) (auto simp: attest_service_def docker_json_def intro!: mute_intros split: prod.splits)

lemma mute_runtime: "mute.keeps (attest_runtime e request)"
  unfolding attest_runtime_def probe_container_def Let_def by (intro mute_intros mute_env_files mute_services)

lemma mute_operation: "mute.keeps (create_setup e request raw web store folder artifact)" "mute.keeps (read_setup e request raw web folder artifact)"
    "mute.keeps open_store" "mute.keeps (attest_metadata e b)"
  unfolding create_setup_def run_recorded_def read_artifact_def read_setup_def open_store_def attest_metadata_def Let_def
  by (auto intro!: mute_intros split: if_splits)

definition yields :: "('a \<Rightarrow> bool) \<Rightarrow> ('s, 'a) sx \<Rightarrow> bool" where
  "yields Q m \<longleftrightarrow> (\<forall>h y h'. m h = (Inr y, h') \<longrightarrow> Q y)"

lemma yields_bind: "(\<And>x. yields Q (f x)) \<Longrightarrow> yields Q (sx_bind m f)"
  unfolding yields_def sx_bind_Inr_iff by blast

lemma yields_lift: "(\<And>x. r = Inr x \<Longrightarrow> yields Q (f x)) \<Longrightarrow> yields Q (sx_bind (sx_lift r) f)"
  by (cases r) (auto simp: yields_def sx_bind_def sx_lift_def)

lemma yields_from: "yields P m \<Longrightarrow> (\<And>x. P x \<Longrightarrow> yields Q (f x)) \<Longrightarrow> yields Q (sx_bind m f)"
  unfolding yields_def sx_bind_Inr_iff by blast

definition sealed_for :: "py_env \<Rightarrow> json \<Rightarrow> bytes \<Rightarrow> bool" where
  "sealed_for e request b \<longleftrightarrow> (\<exists>v. envelope_checks v request = Inr () \<and> encoded e v = Inr b)"

lemma yields_artifact: "yields (sealed_for (se_py e) request) (read_artifact e web artifact request)"
  unfolding read_artifact_def
  by (rule yields_bind) (auto simp: yields_def sx_lift_def envelope_bytes_def res_simps sealed_for_def)

lemma yields_create: "yields (sealed_for (se_py e) request) (create_setup e request raw web store folder artifact)"
  unfolding create_setup_def Let_def
  by (intro yields_lift yields_bind) (auto simp: yields_def sx_return_def envelope_text_def res_simps sealed_for_def)

lemma yields_read: "yields (sealed_for (se_py e) request) (read_setup e request raw web folder artifact)"
  unfolding read_setup_def
  by (intro yields_from [OF yields_artifact] yields_bind) (auto simp: yields_def sx_return_def)

definition prints :: "(string \<Rightarrow> bool) \<Rightarrow> ('x chost, 'a) sx \<Rightarrow> bool" where
  "prints P m \<longleftrightarrow> (\<forall>h r h'. m h = (r, h') \<longrightarrow> printed (h_world h') = printed (h_world h)
     \<or> (\<exists>s. P s \<and> printed (h_world h') = printed (h_world h) @ [s]))"

lemma prints_bind:
  assumes "mute.keeps m" "yields Q m" "\<And>x. Q x \<Longrightarrow> prints P (f x)"
  shows "prints P (sx_bind m f)"
  unfolding prints_def
proof (intro allI impI)
  fix h r h' assume "sx_bind m f h = (r, h')"
  then show "printed (h_world h') = printed (h_world h) \<or> (\<exists>s. P s \<and> printed (h_world h') = printed (h_world h) @ [s])"
  proof (cases rule: bind_cases)
    case (1 x h1)
    then show ?thesis using mute.keepsD [OF assms(1) 1(1)] by simp
  next
    case (2 x h1)
    have "Q x" using assms(2) 2(1) unfolding yields_def by blast
    then show ?thesis using mute.keepsD [OF assms(1) 2(1)] assms(3) [of x] 2(2) unfolding prints_def by metis
  qed
qed

lemma prints_then: "mute.keeps m \<Longrightarrow> (\<And>x. prints P (f x)) \<Longrightarrow> prints P (sx_bind m f)"
  by (rule prints_bind [where Q = "\<lambda>_. True"]) (auto simp: yields_def)

lemma prints_say: "P s \<Longrightarrow> prints P (say s)"
  by (auto simp: prints_def say_def)

lemma prints_operation:
  "prints (\<lambda>s. \<exists>b. s = SETUP_MARKER @ b \<and> sealed_for (se_py e) request b) (setup_operation e request raw)"
  unfolding setup_operation_def Let_def
  by (intro prints_then mute_intros mute_operation mute_runtime prints_bind [where Q = "sealed_for (se_py e) request"])
     (auto simp: yields_create yields_read mute_operation intro!: prints_say)

section \<open>Accepted requests\<close>

lemma py_eq_str: "py_eq v (JStr t) \<longleftrightarrow> v = JStr t" "py_eq (JStr t) v \<longleftrightarrow> v = JStr t"
  by (cases v) (auto split: option.splits)

lemma hex_text_iff: "hex_text v \<longleftrightarrow> (\<exists>s. v = JStr s \<and> is_sha256_hex s)"
  by (auto simp: hex_text_def split: json.splits)

lemma plain_text_iff: "plain_text n v \<longleftrightarrow> (\<exists>s. v = JStr s \<and> plain_text n (JStr s))"
  by (auto simp: plain_text_def split: json.splits)

lemma res_and_True: "res_and a b = Inr True \<longleftrightarrow> a = Inr True \<and> b = Inr True"
  by (cases a) (auto simp: res_and_def)

lemmas check_simps = demands_Inr res_and_True res_all_True res_simps demand_def item_eq_def py_eq_str

lemma context_checksD:
  assumes "context_checks c b = Inr ()"
  shows "\<exists>md nonce tg kid. item_of c ''mode'' = Inr (JStr md) \<and> md \<in> {''bootstrap'', ''recover''} \<and> item_of c ''scope'' = Inr (JStr ''azd-santa-setup-request-v1'')
     \<and> item_of c ''nonce'' = Inr (JStr nonce) \<and> is_sha256_hex nonce \<and> item_of c ''target_sha256'' = Inr (JStr tg) \<and> is_sha256_hex tg
     \<and> item_of c ''recipient_sha256'' = Inr (JStr kid) \<and> is_sha256_hex kid"
  using assms by (auto simp: context_checks_def check_simps hex_text_iff simp del: res_all.simps)

lemma identity_checksD:
  assumes "identity_checks request c = Inr ()"
  shows "\<exists>u m rs tg. item_of request ''username'' = Inr (JStr u) \<and> plain_text 150 (JStr u) \<and> item_of request ''email'' = Inr (JStr m) \<and> plain_text 254 (JStr m)
     \<and> item_of request ''reason'' = Inr (JStr rs) \<and> setup_target u m = Inr tg \<and> item_of c ''target_sha256'' = Inr (JStr tg)"
proof -
  obtain v w x where i: "item_of request ''username'' = Inr v" "item_of request ''email'' = Inr w" "item_of request ''reason'' = Inr x"
      and p: "plain_text 150 v" "plain_text 254 w" "plain_text 256 x"
    using assms by (auto simp: identity_checks_def check_simps)
  obtain u m rs where "v = JStr u" "w = JStr m" "x = JStr rs" using p plain_text_iff by blast
  with assms i p show ?thesis by (auto simp: identity_checks_def check_simps text_item_def)
qed

lemma recipient_checksD:
  assumes "recipient_checks request c = Inr ()"
  shows "\<exists>key. item_of request ''recipient_public_key'' = Inr (JStr (b64_encode False key)) \<and> length key \<le> 768
     \<and> item_of c ''recipient_sha256'' = Inr (JStr (sha256_hex key))"
  using assms by (auto simp: recipient_checks_def check_simps)

lemma digest_checksD:
  assumes "digest_checks e request c = Inr ()"
  shows "\<exists>b. encoded e c = Inr b \<and> item_of request ''context_sha256'' = Inr (JStr (sha256_hex b))"
  using assms by (auto simp: digest_checks_def check_simps)

lemma request_checksD:
  assumes "request_checks e request = Inr ()"
  shows "\<exists>c b. item_of request ''context'' = Inr c \<and> item_of c ''binding'' = Inr b \<and> has_keys request REQUEST_KEYS = Inr True
     \<and> context_checks c b = Inr () \<and> digest_checks e request c = Inr () \<and> identity_checks request c = Inr ()
     \<and> recipient_checks request c = Inr () \<and> binding_checks b = Inr ()"
  using assms by (auto simp: request_checks_def check_simps)

definition bound_envelope :: "json \<Rightarrow> json \<Rightarrow> bool" where
  \<comment> \<open>exactly the members of an envelope, with mode, context, key and identity of the request\<close>
  "bound_envelope request v \<longleftrightarrow> (\<exists>ms c md kid tg ctx. v = JObj ms \<and> set (map fst ms) = set ENVELOPE_KEYS
     \<and> item_of request ''context'' = Inr c \<and> item_of request ''context_sha256'' = Inr (JStr ctx) \<and> dget ms ''context_sha256'' = Some (JStr ctx)
     \<and> item_of c ''mode'' = Inr (JStr md) \<and> dget ms ''mode'' = Some (JStr md)
     \<and> item_of c ''recipient_sha256'' = Inr (JStr kid) \<and> dget ms ''kid_sha256'' = Some (JStr kid)
     \<and> item_of c ''target_sha256'' = Inr (JStr tg) \<and> dget ms ''target_sha256'' = Some (JStr tg))"

lemma envelope_bound:
  assumes rq: "request_checks e request = Inr ()" and v: "envelope_checks v request = Inr ()"
  shows "bound_envelope request v"
proof -
  obtain c b where c: "item_of request ''context'' = Inr c" "context_checks c b = Inr ()" "digest_checks e request c = Inr ()"
    using request_checksD [OF rq] by blast
  obtain md tg kid where m: "item_of c ''mode'' = Inr (JStr md)" "item_of c ''target_sha256'' = Inr (JStr tg)" "item_of c ''recipient_sha256'' = Inr (JStr kid)"
    using context_checksD [OF c(2)] by blast
  obtain ctx where x: "item_of request ''context_sha256'' = Inr (JStr ctx)" using digest_checksD [OF c(3)] by blast
  have k: "has_keys v ENVELOPE_KEYS = Inr True" and i: "item_of v ''mode'' = Inr (JStr md)" "item_of v ''context_sha256'' = Inr (JStr ctx)"
    "item_of v ''kid_sha256'' = Inr (JStr kid)" "item_of v ''target_sha256'' = Inr (JStr tg)"
    using v c(1) m x by (auto simp: envelope_checks_def check_simps res_eq_def)
  then obtain ms where ms: "v = JObj ms" by (auto simp: item_of_Inr)
  have "inj JStr" by (simp add: inj_def)
  then have "set (map fst ms) = set ENVELOPE_KEYS" using k ms by (auto simp: has_keys_def set_of_def inj_image_eq_iff res_simps)
  then show ?thesis using c(1) m x i ms unfolding bound_envelope_def item_of_Inr by fastforce
qed


end
