(* ===== verification/Setup_Binding.thy ===== *)
theory Setup_Binding
  imports Setup_Facts Sync_Paging
begin

text \<open>
  What a setup request binds, and how the host script and the code in the container fit
  together: the two compute the same identity digest, a context digest determines everything
  of a request but its reason, and the envelope that is sealed for a request is the envelope
  that the host accepts and delivers, byte for byte.
\<close>

section \<open>Text\<close>

lemma code_points_length: "length s \<le> 4 * length (code_points s)"
proof (induction s rule: length_induct)
  case (1 s)
  then have IH: "length t \<le> 4 * length (code_points t)" if "length t < length s" for t using that by blast
  show ?case
  proof (cases s)
    case (Cons c cs)
    note s = Cons
    show ?thesis
    proof (cases "ord c < 192 \<or> cs = []")
      case True
      then show ?thesis using IH [of cs] s by (auto simp: Let_def)
    next
      case False
      then obtain c1 r where cs: "cs = c1 # r" by (cases cs) auto
      show ?thesis
      proof (cases "ord c < 224 \<or> r = []")
        case True
        then show ?thesis using IH [of r] s cs False by (auto simp: Let_def)
      next
        case f2: False
        then obtain c2 r2 where r: "r = c2 # r2" by (cases r) auto
        then show ?thesis using IH [of r2] IH [of "tl r2"] s cs False f2 by (cases "ord c < 240"; cases r2) (auto simp: Let_def)
      qed
    qed
  qed simp
qed

lemma print_same: "jplain v \<Longrightarrow> print_json e False v = print_json e True v"
proof (induction v)
  case (JObj ms)
  have q: "quote False k = quote True k" if "isascii k" for k
  proof -
    have "list_all is_ascii k" using that by (simp add: isascii_def)
    then have "concat (map (escape_point False) (map ord k)) = concat (map (escape_point True) (map ord k))"
      by (induction k) (auto simp: escape_point_def is_ascii_def)
    then show ?thesis using that by (simp add: quote_def isascii_def code_points_ascii del: map_map)
  qed
  have "map (\<lambda>(k, v). quote False k @ CHR '':'' # print_json e False v) ms = map (\<lambda>(k, v). quote True k @ CHR '':'' # print_json e True v) ms"
    using JObj q by (auto simp: list_all_iff)
  then show ?case by (simp del: map_eq_conv)
next
  case (JArr vs)
  then have "map (print_json e False) vs = map (print_json e True) vs" by (auto simp: list_all_iff)
  then show ?case by (simp del: map_eq_conv)
next
  case (JStr s)
  then have "list_all is_ascii s" by (simp add: isascii_def)
  then have "concat (map (escape_point False) (map ord s)) = concat (map (escape_point True) (map ord s))"
    by (induction s) (auto simp: escape_point_def is_ascii_def)
  then show ?case using JStr by (simp add: quote_def isascii_def code_points_ascii del: map_map)
qed auto

lemma target_agrees:
  assumes "plain_text 150 (JStr username)" "plain_text 254 (JStr email)"
  shows "setup_target username email = target_digest (JStr username) (JStr email)"
proof (cases "valid_utf8 False username \<and> valid_utf8 False email")
  case True
  then have "length username \<le> 4 * 150" "length email \<le> 4 * 254"
    using code_points_length [of username] code_points_length [of email] assms by (auto simp: plain_text_def py_len_def)
  with True show ?thesis by (simp add: setup_target_def target_digest_def require_def)
qed (auto simp: setup_target_def target_digest_def)


section \<open>A context determines its request\<close>

lemma unique_items_Inr: "distinct (map fst (d @ ps)) \<Longrightarrow> unique_items d ps = Inr (d @ ps)"
proof (induction d ps rule: unique_items.induct)
  case (2 d k v ps)
  then show ?case by (auto simp: demand_def)
qed simp

lemma setup_dict_hooks: "dict_hooks (setup_hooks e)"
  by (simp add: dict_hooks_def setup_hooks_def setup_unique_def unique_items_Inr)

lemma print_inject:
  assumes "jplain v" "jplain w" "print_json e a v = print_json e a w"
  shows "v = w"
proof -
  define n where "n = max (jdepth v) (jdepth w)"
  have "loads (setup_hooks e) n (print_json e a v) = Inr v" "loads (setup_hooks e) n (print_json e a w) = Inr w"
    by (rule loads_print [OF setup_dict_hooks assms(1)], simp add: n_def) (rule loads_print [OF setup_dict_hooks assms(2)], simp add: n_def)
  then show ?thesis unfolding assms(3) by (metis sum.inject(2))
qed

lemma ascii_join: "isascii [d] \<Longrightarrow> list_all isascii ps \<Longrightarrow> isascii (join_on d ps)"
  by (induction d ps rule: join_on.induct) (auto simp: isascii_def)

lemma ascii_split: "isascii [d] \<Longrightarrow> list_all isascii (split_on d s) \<Longrightarrow> isascii s"
  using ascii_join [of d "split_on d s"] by simp

lemma ascii_hex: "is_hex_n n s \<Longrightarrow> isascii s"
  by (auto simp: is_hex_n_def fullmatch_n_def isascii_def list_all_iff is_lower_hex_def is_digit_def in_range_def is_ascii_def)

lemma ascii_sha: "is_sha256_hex s \<Longrightarrow> isascii s"
  by (auto simp: is_sha256_hex_def fullmatch_n_def isascii_def list_all_iff is_lower_hex_def is_digit_def in_range_def is_ascii_def)

lemma ascii_guid: "is_guid s \<Longrightarrow> isascii s"
proof (rule ascii_split [of "CHR ''-''"])
  assume "is_guid s"
  then show "list_all isascii (split_on (CHR ''-'') s)" by (auto simp: is_guid_def ascii_hex split: list.splits)
qed (simp add: isascii_def is_ascii_def)

lemma ascii_urlsafe: "list_all is_urlsafe s \<Longrightarrow> isascii s"
  by (auto simp: isascii_def list_all_iff is_urlsafe_def is_alnum_def is_upper_def is_lower_def is_digit_def in_range_def is_ascii_def)

lemma ascii_app: "isascii (a @ b) \<longleftrightarrow> isascii a \<and> isascii b"
  by (simp add: isascii_def)

lemma ascii_ref: "is_sha_ref s \<Longrightarrow> isascii s"
proof -
  assume s: "is_sha_ref s"
  then have "s = ''sha256:'' @ drop 7 s" by (auto simp: is_sha_ref_def startswith_iff)
  moreover have "isascii (drop 7 s)" using s by (simp add: is_sha_ref_def ascii_sha)
  moreover have "isascii ''sha256:''" by (simp add: isascii_def is_ascii_def)
  ultimately show ?thesis by (metis ascii_app)
qed

lemma ascii_compose:
  assumes "is_compose_path s"
  shows "isascii s"
proof (rule ascii_split [of "CHR ''/''"])
  obtain ps where ps: "split_on (CHR ''/'') s = [] # ps" "2 \<le> length ps" "list_all (list_all is_urlsafe) (butlast ps)"
      "drop (length (last ps) - 5) (last ps) = ''.json''" "list_all is_urlsafe (take (length (last ps) - 5) (last ps))"
    using assms by (auto simp: is_compose_path_def Let_def list_all_iff split: list.splits)
  have "isascii (take (length (last ps) - 5) (last ps) @ drop (length (last ps) - 5) (last ps))"
    unfolding ascii_app ps(4) using ascii_urlsafe [OF ps(5)] by (simp add: isascii_def is_ascii_def)
  then have "isascii (last ps)" by simp
  moreover have "list_all isascii (butlast ps)" using ps(3) ascii_urlsafe by (auto simp: list_all_iff)
  moreover have "ps = butlast ps @ [last ps]" using ps(2) by (metis append_butlast_last_id list.size(3) not_numeral_le_zero)
  ultimately have "list_all isascii ps" by (metis list_all_append list.pred_inject)
  then show "list_all isascii (split_on (CHR ''/'') s)" using ps(1) by (simp add: isascii_def)
qed (simp add: isascii_def is_ascii_def)

lemma full_match_True: "full_match p v = Inr True \<longleftrightarrow> (\<exists>s. v = JStr s \<and> p s)"
  by (auto simp: full_match_def split: json.splits)

lemma text_allD: "text_all p b ks = Inr () \<Longrightarrow> k \<in> set ks \<Longrightarrow> \<exists>s. item_of b k = Inr (JStr s) \<and> p s"
  by (auto simp: text_all_def demands_Inr res_all_True res_simps full_match_True)

lemma binding_groups: "list_all (\<lambda>k. k \<in> set [''TenantId'', ''SubscriptionId'', ''VmInstanceId''] \<or>
      k \<in> set [''ComposeSha256'', ''AdmissionSha256'', ''RecoverySha256'', ''SealedSha256'', ''RemoteProgramSha256'']
      \<or> k \<in> set [''ImageId''] \<or> k \<in> set [''SourceCommit''] \<or> k = ''EnvironmentName'' \<or> k = ''ResourceGroup'' \<or> k = ''ComposePath'' \<or> k = ''Origin''
      \<or> k = ''VmName'' \<or> k = ''VmId'') BINDINGS"
  by code_simp

lemma ascii_environment: "is_environment s \<Longrightarrow> isascii s"
  by (auto simp: is_environment_def fullmatch_range_def isascii_def list_all_iff is_lower_def is_digit_def in_range_def is_ascii_def)

lemma binding_ascii:
  assumes "binding_checks b = Inr ()" "k \<in> set BINDINGS"
  shows "\<exists>s. item_of b k = Inr (JStr s) \<and> isascii s"
proof -
  obtain en rg sub cp org where g: "text_all is_guid b [''TenantId'', ''SubscriptionId'', ''VmInstanceId''] = Inr ()"
    "text_all is_sha256_hex b [''ComposeSha256'', ''AdmissionSha256'', ''RecoverySha256'', ''SealedSha256'', ''RemoteProgramSha256''] = Inr ()"
    "text_all is_sha_ref b [''ImageId''] = Inr ()" "text_all (is_hex_n 40) b [''SourceCommit''] = Inr ()"
    and t: "text_item b ''EnvironmentName'' = Inr en" "text_item b ''ResourceGroup'' = Inr rg" "text_item b ''SubscriptionId'' = Inr sub"
      "text_item b ''ComposePath'' = Inr cp" "text_item b ''Origin'' = Inr org"
    and c: "is_environment en" "rg = ''rg-azd-santa-vm-'' @ en" "item_of b ''VmName'' = Inr (JStr ''vm-santa-lab'')"
      "item_of b ''VmId'' = Inr (JStr (vm_id sub rg))" "is_compose_path cp" "isascii org"
    using assms(1) by (auto simp: binding_checks_def check_simps)
  have item: "item_of b n = Inr (JStr s)" if "text_item b n = Inr s" for n s
    using that by (auto simp: text_item_def res_simps json_case_Inr)
  have sub: "isascii sub" using text_allD [OF g(1), of "''SubscriptionId''"] item [OF t(3)] ascii_guid by auto
  have rg: "isascii rg" using c(1,2) ascii_environment by (simp add: ascii_app) (simp add: isascii_def is_ascii_def)
  have vm: "isascii (vm_id sub rg)" unfolding vm_id_def ascii_app using sub rg by (simp add: isascii_def is_ascii_def)
  have name: "isascii ''vm-santa-lab''" by (simp add: isascii_def is_ascii_def)
  have "k \<in> set [''TenantId'', ''SubscriptionId'', ''VmInstanceId''] \<or>
      k \<in> set [''ComposeSha256'', ''AdmissionSha256'', ''RecoverySha256'', ''SealedSha256'', ''RemoteProgramSha256'']
      \<or> k \<in> set [''ImageId''] \<or> k \<in> set [''SourceCommit''] \<or> k = ''EnvironmentName'' \<or> k = ''ResourceGroup'' \<or> k = ''ComposePath'' \<or> k = ''Origin''
      \<or> k = ''VmName'' \<or> k = ''VmId''"
    by (rule bspec [OF binding_groups [unfolded list_all_iff] assms(2)])
  then show ?thesis
  proof (elim disjE)
    show "k \<in> set [''TenantId'', ''SubscriptionId'', ''VmInstanceId''] \<Longrightarrow> ?thesis" using text_allD [OF g(1)] ascii_guid by blast
    show "k \<in> set [''ComposeSha256'', ''AdmissionSha256'', ''RecoverySha256'', ''SealedSha256'', ''RemoteProgramSha256''] \<Longrightarrow> ?thesis"
      using text_allD [OF g(2)] ascii_sha by blast
    show "k \<in> set [''ImageId''] \<Longrightarrow> ?thesis" using text_allD [OF g(3)] ascii_ref by blast
    show "k \<in> set [''SourceCommit''] \<Longrightarrow> ?thesis" using text_allD [OF g(4)] ascii_hex by blast
  qed (use item [OF t(1)] item [OF t(2)] item [OF t(4)] item [OF t(5)] c(3,4,6) rg vm name ascii_environment [OF c(1)] ascii_compose [OF c(5)] in \<open>simp only:, blast\<close>)+
qed

lemma keys_are_obj: "keys_are (JObj ms) ks = Inr True \<longleftrightarrow> map fst ms = ks"
proof -
  have "map (JStr \<circ> fst) ms = map JStr ks \<longleftrightarrow> map fst ms = ks" by (induction ms arbitrary: ks) (auto simp: map_eq_Cons_conv)
  then show ?thesis by (simp add: keys_are_def)
qed

lemma plain_object:
  assumes "keys_are (JObj ms) ks = Inr True" "distinct ks" "list_all isascii ks"
    and "\<And>k v. k \<in> set ks \<Longrightarrow> item_of (JObj ms) k = Inr v \<Longrightarrow> jplain v"
  shows "jplain (JObj ms)"
proof -
  have ks: "map fst ms = ks" using assms(1) by (simp add: keys_are_obj)
  have "isascii k \<and> jplain v" if "(k, v) \<in> set ms" for k v
  proof -
    have "k \<in> set ks" using that ks by force
    moreover have "item_of (JObj ms) k = Inr v" using that assms(2) ks by simp
    ultimately show ?thesis using assms(3,4) by (auto simp: list_all_iff)
  qed
  then show ?thesis using assms(2) ks by (auto simp: list_all_iff)
qed

lemma context_plain:
  assumes "context_checks c b = Inr ()" "item_of c ''binding'' = Inr b" "binding_checks b = Inr ()"
  shows "jplain c"
proof -
  obtain bs where b: "b = JObj bs" "keys_are b BINDINGS = Inr True"
    using assms(1) binding_ascii [OF assms(3), of "''VmId''"] by (auto simp: context_checks_def check_simps item_of_Inr BINDINGS_def)
  have "distinct BINDINGS \<and> list_all isascii BINDINGS" by code_simp
  moreover have "jplain v" if "k \<in> set BINDINGS" "item_of b k = Inr v" for k v
    using binding_ascii [OF assms(3) that(1)] that(2) by auto
  ultimately have "jplain b" using b plain_object [of bs BINDINGS] by metis
  obtain cs where c: "c = JObj cs" "keys_are c CONTEXT_KEYS = Inr True"
    using assms(1,2) by (auto simp: context_checks_def check_simps item_of_Inr)
  obtain md nonce tg kid where i: "item_of c ''mode'' = Inr (JStr md)" "md \<in> {''bootstrap'', ''recover''}" "item_of c ''scope'' = Inr (JStr ''azd-santa-setup-request-v1'')"
     "item_of c ''nonce'' = Inr (JStr nonce)" "is_sha256_hex nonce" "item_of c ''target_sha256'' = Inr (JStr tg)" "is_sha256_hex tg"
     "item_of c ''recipient_sha256'' = Inr (JStr kid)" "is_sha256_hex kid"
    using context_checksD [OF assms(1)] by blast
  have lit: "isascii md" "isascii ''azd-santa-setup-request-v1''" using i(2) by (auto simp: isascii_def is_ascii_def)
  have "distinct CONTEXT_KEYS \<and> list_all isascii CONTEXT_KEYS" by code_simp
  moreover have "jplain v" if "k \<in> set CONTEXT_KEYS" "item_of c k = Inr v" for k v
    using that(1) unfolding CONTEXT_KEYS_def list.set insert_iff empty_iff
    by (elim disjE) (use that(2) i lit ascii_sha assms(2) \<open>jplain b\<close> in \<open>simp_all only: jplain.simps sum.inject\<close>, auto)
  ultimately show ?thesis unfolding c(1) using c by (intro plain_object [of cs CONTEXT_KEYS]) auto
qed

definition hashed :: "py_env \<Rightarrow> json \<Rightarrow> nat \<Rightarrow> bytes \<Rightarrow> bool" where
  \<comment> \<open>the three byte strings whose digests a request carries\<close>
  "hashed e r i b \<longleftrightarrow> i = 0 \<and> (\<exists>c. item_of r ''context'' = Inr c \<and> encoded e c = Inr b)
     \<or> i = 1 \<and> (\<exists>u m. item_of r ''username'' = Inr (JStr u) \<and> item_of r ''email'' = Inr (JStr m) \<and> b = packed_identity u m)
     \<or> i = 2 \<and> item_of r ''recipient_public_key'' = Inr (JStr (b64_encode False b))"

text \<open>
  C25: a context digest determines the request.  Two accepted requests with the same context
  digest agree on the context with all its bindings, on the recipient key, the username and
  the email; only the reason may differ.  This rests on SHA-256 alone: none of the three
  digests of the two requests is a collision.
\<close>

theorem context_determines_request:
  assumes "request_checks e r1 = Inr ()" "request_checks e r2 = Inr ()" "item_of r1 ''context_sha256'' = item_of r2 ''context_sha256''"
    and no_collision: "\<And>i a b. hashed e r1 i a \<Longrightarrow> hashed e r2 i b \<Longrightarrow> sha256_hex a = sha256_hex b \<Longrightarrow> a = b"
    and "k \<in> {''context'', ''recipient_public_key'', ''username'', ''email''}"
  shows "item_of r1 k = item_of r2 k"
proof -
  obtain c1 b1 where 1: "item_of r1 ''context'' = Inr c1" "item_of c1 ''binding'' = Inr b1" "context_checks c1 b1 = Inr ()"
      "digest_checks e r1 c1 = Inr ()" "identity_checks r1 c1 = Inr ()" "recipient_checks r1 c1 = Inr ()" "binding_checks b1 = Inr ()"
    using request_checksD [OF assms(1)] by blast
  obtain c2 b2 where 2: "item_of r2 ''context'' = Inr c2" "item_of c2 ''binding'' = Inr b2" "context_checks c2 b2 = Inr ()"
      "digest_checks e r2 c2 = Inr ()" "identity_checks r2 c2 = Inr ()" "recipient_checks r2 c2 = Inr ()" "binding_checks b2 = Inr ()"
    using request_checksD [OF assms(2)] by blast
  obtain x y where x: "encoded e c1 = Inr x" "encoded e c2 = Inr y" "sha256_hex x = sha256_hex y"
    using digest_checksD [OF 1(4)] digest_checksD [OF 2(4)] assms(3) by auto
  have "x = y" by (rule no_collision [of 0 x y]) (use 1(1) 2(1) x in \<open>auto simp: hashed_def\<close>)
  then have c: "c1 = c2"
    using x(1,2) print_inject [OF context_plain [OF 1(3,2,7)] context_plain [OF 2(3,2,7)], of e False] by (auto simp: encoded_def Let_def split: if_splits)
  obtain u m tg where u: "item_of r1 ''username'' = Inr (JStr u)" "plain_text 150 (JStr u)" "item_of r1 ''email'' = Inr (JStr m)" "plain_text 254 (JStr m)"
      "setup_target u m = Inr tg" "item_of c1 ''target_sha256'' = Inr (JStr tg)" using identity_checksD [OF 1(5)] by blast
  obtain u' m' tg' where u': "item_of r2 ''username'' = Inr (JStr u')" "plain_text 150 (JStr u')" "item_of r2 ''email'' = Inr (JStr m')" "plain_text 254 (JStr m')"
      "setup_target u' m' = Inr tg'" "item_of c2 ''target_sha256'' = Inr (JStr tg')" using identity_checksD [OF 2(5)] by blast
  have "sha256_hex (packed_identity u m) = sha256_hex (packed_identity u' m')"
    using u(5,6) u'(5,6) c by (auto simp: setup_target_def split: if_splits)
  then have packed: "packed_identity u m = packed_identity u' m'"
    by (rule no_collision [of 1, rotated 2]) (use u u' in \<open>auto simp: hashed_def\<close>)
  have "length t \<le> 2048" if "plain_text n (JStr t)" "n \<le> 254" for n t
    using that code_points_length [of t] by (auto simp: plain_text_def py_len_def)
  then have "length u \<le> 2048" "length m \<le> 2048" "length u' \<le> 2048" "length m' \<le> 2048" using u(2,4) u'(2,4) by (force)+
  then have um: "u = u'" "m = m'" using packed_identity_inject packed by blast+
  obtain p q where p: "item_of r1 ''recipient_public_key'' = Inr (JStr (b64_encode False p))" "item_of c1 ''recipient_sha256'' = Inr (JStr (sha256_hex p))"
      "item_of r2 ''recipient_public_key'' = Inr (JStr (b64_encode False q))" "item_of c2 ''recipient_sha256'' = Inr (JStr (sha256_hex q))"
    using recipient_checksD [OF 1(6)] recipient_checksD [OF 2(6)] by blast
  have "p = q" by (rule no_collision [of 2 p q]) (use p c in \<open>auto simp: hashed_def\<close>)
  then show ?thesis using assms(5) 1(1) 2(1) c u(1,3) u'(1,3) um p(1,3) by auto
qed

section \<open>From the container to the host\<close>

lemma prepared_kid:
  assumes "prepare_recipient C ue e key nonce (JStr (b64_encode False p)) ctx md username email org = Inr r"
  shows "rc_kid r = sha256_hex p"
  using assms
  by (auto simp: prepare_recipient_def load_recipient_key_def Let_def res_simps split: json.splits sum.splits if_splits)

lemma envelope_plain:
  assumes "rc_mode r \<in> {''bootstrap'', ''recover''}" "is_sha256_hex (rc_kid r)" "is_sha256_hex (rc_context r)" "is_sha256_hex (rc_target r)"
  shows "jplain (envelope r w n ct)" "jdepth (envelope r w n ct) = 1" "has_keys (envelope r w n ct) ENVELOPE_KEYS = Inr True"
proof -
  have "isascii (rc_mode r)" using assms(1) by (auto simp: isascii_def is_ascii_def)
  moreover have "isascii SCOPE" "isascii ALGORITHM" by (simp_all add: SCOPE_def ALGORITHM_def isascii_def is_ascii_def)
  moreover have "distinct ENVELOPE_KEYS \<and> list_all isascii ENVELOPE_KEYS" by code_simp
  moreover have "int_ok 1" by code_simp
  ultimately show "jplain (envelope r w n ct)"
    using assms(2-4) ascii_sha b64_encode_ascii by (simp add: envelope_def ENVELOPE_KEYS_def)
  show "jdepth (envelope r w n ct) = 1" by (simp add: envelope_def)
  show "has_keys (envelope r w n ct) ENVELOPE_KEYS = Inr True" by (simp add: envelope_def ENVELOPE_KEYS_def has_keys_def set_of_def)
qed

lemma envelope_length_ge: "4 * ((length w + 2) div 3) + 4 * ((length ct + 2) div 3) \<le> length (print_json e True (envelope r w n ct))"
proof -
  have b64: "length (quote True (b64_encode False bs)) = 4 * ((length bs + 2) div 3) + 2" for bs
    using length_quote [OF unescaped_b64] by (simp add: length_b64_encode)
  show ?thesis unfolding envelope_def by (simp add: length_join_on b64)
qed

lemma envelope_accepted:
  assumes r: "rc_mode r \<in> {''bootstrap'', ''recover''}" "is_sha256_hex (rc_kid r)" "is_sha256_hex (rc_context r)" "is_sha256_hex (rc_target r)"
    and request: "item_of request ''context'' = Inr c" "item_of c ''mode'' = Inr (JStr (rc_mode r))" "item_of request ''context_sha256'' = Inr (JStr (rc_context r))"
      "item_of c ''recipient_sha256'' = Inr (JStr (rc_kid r))" "item_of c ''target_sha256'' = Inr (JStr (rc_target r))"
    and sizes: "length w = 384" "length n = 12" "17 \<le> length ct" "length ct \<le> 1600"
  shows "envelope_checks (envelope r w n ct) request = Inr ()"
proof -
  have k: "has_keys (envelope r w n ct) ENVELOPE_KEYS = Inr True" by (rule envelope_plain(3) [OF r])
  have f: "b64_field v k' lo hi = Inr ()" if "item_of v k' = Inr (JStr (b64_encode False d))" "lo \<le> length d" "length d \<le> hi" for v k' d lo hi
    using that b64_encode_ascii [of False d] by (simp add: b64_field_def b64_valid_def demand_def)
  let ?v = "envelope r w n ct"
  have i: "item_of ?v ''scope'' = Inr (JStr SCOPE)" "item_of ?v ''version'' = Inr (JInt 1)" "item_of ?v ''algorithm'' = Inr (JStr ALGORITHM)"
    "item_of ?v ''mode'' = Inr (JStr (rc_mode r))" "item_of ?v ''kid_sha256'' = Inr (JStr (rc_kid r))" "item_of ?v ''context_sha256'' = Inr (JStr (rc_context r))"
    "item_of ?v ''target_sha256'' = Inr (JStr (rc_target r))" "item_of ?v ''wrapped_key_base64'' = Inr (JStr (b64_encode False w))"
    "item_of ?v ''nonce_base64'' = Inr (JStr (b64_encode False n))" "item_of ?v ''ciphertext_base64'' = Inr (JStr (b64_encode False ct))"
    by (simp_all add: envelope_def)
  have "b64_field ?v ''wrapped_key_base64'' 384 384 = Inr ()" "b64_field ?v ''nonce_base64'' 12 12 = Inr ()" "b64_field ?v ''ciphertext_base64'' 17 1600 = Inr ()"
    using f [OF i(8), of 384 384] f [OF i(9), of 12 12] f [OF i(10), of 17 1600] sizes by simp_all
  then show ?thesis
    unfolding envelope_checks_def k request(1)
    by (simp add: i request demands_def demand_def res_eq_def item_eq_def res_and_def SCOPE_def ALGORITHM_def)
qed

lemma strip_braces: "bytes_strip (CHR ''{'' # s @ [CHR ''}'', CHR 0x0A]) = CHR ''{'' # s @ [CHR ''}'']"
  by (simp add: bytes_strip_def is_byte_space_def)

lemma strip_print: "bytes_strip (print_json e a (JObj ms) @ [CHR 0x0A]) = print_json e a (JObj ms)"
  unfolding print_json.simps(7) using strip_braces by simp

text \<open>
  C26: what the container seals is what the host delivers.  When the host accepts a request
  and the code in the container prepares a recipient from its fields and seals a setup link
  for it, with a cryptographic library of the documented sizes, then the host accepts the
  envelope both as the printed line and as the contents of the artifact file, and its
  canonical form is the very text that was printed: the comparison of the two succeeds and
  the operator receives the bytes that were sealed.
\<close>

theorem sealed_envelope_delivered:
  assumes rq: "request_checks e request = Inr ()"
    and fields: "item_of request ''context'' = Inr c" "item_of c ''mode'' = Inr md" "item_of request ''context_sha256'' = Inr ctx"
      "item_of request ''recipient_public_key'' = Inr pub" "item_of request ''username'' = Inr username" "item_of request ''email'' = Inr email"
    and prep: "prepare_recipient C ue e key0 nonce0 pub ctx md username email org = Inr r"
    and enc: "rc_encrypt C e key nonce r (setup_payload url expiry pk) = Inr v"
    and lib: "crypto_sizes C" "length nonce = 12" and nest: "1 \<le> nest_limit e"
  shows "envelope_text e (print_json e True v) request = Inr (print_json e True v)
    \<and> envelope_bytes e (bytes_strip (print_json e True v @ [CHR 0x0A])) request = Inr (print_json e True v)"
proof -
  note p = prepared [OF prep] and r = prepared(3-6) [OF prep]
  obtain c' b where c': "item_of request ''context'' = Inr c'" "identity_checks request c' = Inr ()" "recipient_checks request c' = Inr ()"
    using request_checksD [OF rq] by blast
  then have chk: "identity_checks request c = Inr ()" "recipient_checks request c = Inr ()" using fields(1) by simp_all
  obtain u m where u: "username = JStr u" "plain_text 150 (JStr u)" "email = JStr m" "plain_text 254 (JStr m)" "item_of c ''target_sha256'' = Inr (JStr (rc_target r))"
    using identity_checksD [OF chk(1)] fields(5,6) p(7) target_agrees by fastforce
  obtain q where q: "pub = JStr (b64_encode False q)" "item_of c ''recipient_sha256'' = Inr (JStr (sha256_hex q))"
    using recipient_checksD [OF chk(2)] fields(4) by auto
  have kid: "rc_kid r = sha256_hex q" by (rule prepared_kid [OF prep [unfolded q(1)]])
  let ?w = "oaep_encrypt C (rc_key r) key" and ?p = "print_json e False (setup_payload url expiry pk)"
  let ?ct = "aesgcm_encrypt C key nonce ?p (aad_text (rc_mode r) (rc_kid r) (rc_context r) (rc_target r))"
  have v: "v = envelope r ?w nonce ?ct" and short: "length (print_json e True v) \<le> 2600"
    using enc unfolding rc_encrypt_def aad_ascii [OF r] by (auto simp: Let_def res_simps MAX_ENVELOPE_BYTES_def simp del: print_json.simps)
  have w: "length ?w = 384" and ct: "length ?ct = length ?p + 16" using lib(1) p(9) by (simp_all add: crypto_sizes_def)
  have "512 + 4 * ((length ?ct + 2) div 3) \<le> 2600" using envelope_length_ge [of ?w ?ct e r nonce] short v w by simp
  then have "length ?ct \<le> 1600" by linarith
  moreover have "17 \<le> length ?ct" using ct by (simp add: setup_payload_def)
  ultimately have ok: "envelope_checks v request = Inr ()"
    unfolding v using fields p(1,2) u(5) q(2) kid w lib(2) by (intro envelope_accepted [OF r]) simp_all
  have plain: "jplain v" "jdepth v = 1" unfolding v using envelope_plain [OF r] by blast+
  have chars: "list_all plain_char (print_json e True v)" by (rule print_plain [OF plain(1)])
  then have asc: "list_all is_ascii (print_json e True v)" by (auto simp: list_all_iff plain_char_def is_ascii_def)
  have ld: "setup_loads e (print_json e True v) = Inr v"
    unfolding setup_loads_def using plain nest by (intro loads_print setup_dict_hooks) simp_all
  have en: "encoded e v = Inr (print_json e True v)"
    using valid_utf8_ascii [OF asc] by (simp add: encoded_def print_same [OF plain(1)])
  have lb: "setup_loads_bytes e (print_json e True v) = Inr v"
    using ld unfolding setup_loads_bytes_def setup_loads_def loads_bytes_def
    by (simp add: plain_not_wide [OF chars] plain_not_bom [OF chars] utf8_decode_ascii [OF asc] del: print_json.simps)
  have "bytes_strip (print_json e True v @ [CHR 0x0A]) = print_json e True v"
    unfolding v envelope_def by (rule strip_print)
  then show ?thesis
    using short ok ld lb en py_len_ascii [of "print_json e True v"] asc
    by (simp add: envelope_text_def envelope_bytes_def demand_def isascii_def del: print_json.simps)
qed

end
