(* ===== verification/Setup_Props.thy ===== *)
theory Setup_Props
  imports Setup_Binding
begin

text \<open>
  A concrete operator setup: a request that the host accepts and the recipient that the code in
  the container prepares from it, as instances of the guarantees of the setup.
\<close>

section \<open>A request\<close>

definition demo_binding :: json where
  "demo_binding = (let hex = replicate 64 (CHR ''a''); guid = ''00000000-0000-0000-0000-000000000000'' in JObj
     [(''AdmissionSha256'', JStr hex), (''ComposePath'', JStr ''/var/lib/azd-santa-qualification/r/compose.json''), (''ComposeSha256'', JStr hex),
      (''EnvironmentName'', JStr ''lab''), (''ImageId'', JStr (''sha256:'' @ hex)), (''Origin'', JStr ''https://h''), (''RecoverySha256'', JStr hex),
      (''RemoteProgramSha256'', JStr hex), (''ResourceGroup'', JStr ''rg-azd-santa-vm-lab''), (''SealedSha256'', JStr hex),
      (''SourceCommit'', JStr (replicate 40 (CHR ''b''))), (''SubscriptionId'', JStr guid), (''TenantId'', JStr guid),
      (''VmId'', JStr (vm_id guid ''rg-azd-santa-vm-lab'')), (''VmInstanceId'', JStr guid), (''VmName'', JStr ''vm-santa-lab'')])"

definition demo_context :: json where
  "demo_context = JObj [(''scope'', JStr ''azd-santa-setup-request-v1''), (''nonce'', JStr (replicate 64 (CHR ''a''))), (''binding'', demo_binding),
     (''mode'', JStr ''bootstrap''), (''target_sha256'', JStr (sha256_hex (packed_identity ''a'' ''b''))), (''recipient_sha256'', JStr (sha256_hex []))]"

definition demo_digest :: string where
  "demo_digest = sha256_hex (print_json plain_env False demo_context)"

definition demo_request :: "string \<Rightarrow> json" where
  "demo_request reason = JObj [(''context'', demo_context), (''context_sha256'', JStr demo_digest), (''recipient_public_key'', JStr []),
     (''username'', JStr ''a''), (''email'', JStr ''b''), (''reason'', JStr reason)]"

lemma demo_binding_ok: "binding_checks demo_binding = Inr ()"
  by code_simp

lemma demo_items: "item_of demo_context ''binding'' = Inr demo_binding" "item_of demo_context ''scope'' = Inr (JStr ''azd-santa-setup-request-v1'')"
    "item_of demo_context ''mode'' = Inr (JStr ''bootstrap'')" "item_of demo_context ''nonce'' = Inr (JStr (replicate 64 (CHR ''a'')))"
    "item_of demo_context ''target_sha256'' = Inr (JStr (sha256_hex (packed_identity ''a'' ''b'')))"
    "item_of demo_context ''recipient_sha256'' = Inr (JStr (sha256_hex []))"
  by (simp_all add: demo_context_def)

lemma demo_keys: "keys_are demo_context CONTEXT_KEYS = Inr True" "keys_are demo_binding BINDINGS = Inr True"
    "\<exists>its. items_of demo_binding = Inr its \<and> list_all (\<lambda>(_, v). is_text v) its"
proof -
  show "keys_are demo_context CONTEXT_KEYS = Inr True" by (simp add: keys_are_def demo_context_def CONTEXT_KEYS_def)
  show "keys_are demo_binding BINDINGS = Inr True" by code_simp
qed (simp add: demo_binding_def Let_def is_text_def)

lemma demo_context_ok: "context_checks demo_context demo_binding = Inr ()"
  using demo_keys plain_context(1) sha256_hex_shape
  by (auto simp: context_checks_def demo_items check_simps hex_text_def)

lemma demo_encoded: "encoded plain_env demo_context = Inr (print_json plain_env False demo_context)"
proof -
  have plain: "jplain demo_context" by (rule context_plain [OF demo_context_ok demo_items(1) demo_binding_ok])
  then have "list_all is_ascii (print_json plain_env False demo_context)"
    using print_plain [OF plain, of plain_env] unfolding print_same [OF plain] by (auto simp: list_all_iff plain_char_def is_ascii_def)
  then show ?thesis by (simp add: encoded_def valid_utf8_ascii del: print_json.simps)
qed

lemma demo_request_items: "item_of (demo_request r) ''context'' = Inr demo_context" "item_of (demo_request r) ''context_sha256'' = Inr (JStr demo_digest)"
    "item_of (demo_request r) ''recipient_public_key'' = Inr (JStr [])" "item_of (demo_request r) ''username'' = Inr (JStr ''a'')"
    "item_of (demo_request r) ''email'' = Inr (JStr ''b'')" "item_of (demo_request r) ''reason'' = Inr (JStr r)"
    "has_keys (demo_request r) REQUEST_KEYS = Inr True"
  by (simp_all add: demo_request_def has_keys_def set_of_def REQUEST_KEYS_def)

lemma demo_texts: "plain_text 150 (JStr ''a'')" "plain_text 254 (JStr ''b'')" "plain_text 256 (JStr ''x'')" "plain_text 256 (JStr ''y'')"
  by (simp_all add: plain_text_def py_len_def is_stripped_def strip_points_def is_py_space_def)

lemma demo_accepted:
  assumes "plain_text 256 (JStr r)"
  shows "request_checks plain_env (demo_request r) = Inr ()"
proof -
  have "digest_checks plain_env (demo_request r) demo_context = Inr ()"
    by (simp add: digest_checks_def demo_request_items demo_encoded check_simps full_match_def demo_digest_def sha256_hex_shape del: print_json.simps)
  moreover have "identity_checks (demo_request r) demo_context = Inr ()"
    using assms demo_texts by (simp add: identity_checks_def demo_request_items demo_items demand_def text_item_def setup_target_def)
  moreover have "recipient_checks (demo_request r) demo_context = Inr ()"
    by (simp add: recipient_checks_def demo_request_items demo_items check_simps b64_valid_def isascii_def)
  ultimately show ?thesis
    by (simp add: request_checks_def demo_request_items demo_items demo_context_ok demo_binding_ok check_simps)
qed


theorem context_determines_request_witness: "item_of (demo_request ''x'') ''username'' = item_of (demo_request ''y'') ''username''"
proof (rule context_determines_request [OF demo_accepted [OF demo_texts(3)] demo_accepted [OF demo_texts(4)]])
  fix i a b assume "hashed plain_env (demo_request ''x'') i a" "hashed plain_env (demo_request ''y'') i b"
  moreover have "d = []" if "[] = b64_encode False d" for d using b64_encode_nonempty [of d False] that by force
  ultimately show "a = b" by (auto simp: hashed_def demo_request_items demo_encoded)
qed (simp_all add: demo_request_items)

theorem sealed_envelope_delivered_witness:
  "\<exists>v. rc_encrypt plain_crypto plain_env [] plain_nonce (plain_recipient\<lparr>rc_context := demo_digest\<rparr>) (setup_payload plain_link (JFloat (Fin 1)) 1) = Inr v
     \<and> envelope_text plain_env (print_json plain_env True v) (demo_request ''x'') = Inr (print_json plain_env True v)"
proof -
  have hex: "is_sha256_hex demo_digest" by (simp add: demo_digest_def sha256_hex_shape)
  have "list_all is_unescaped plain_link" "length plain_link \<le> 768" by code_simp+
  then obtain v where v: "rc_encrypt plain_crypto plain_env [] plain_nonce (plain_recipient\<lparr>rc_context := demo_digest\<rparr>) (setup_payload plain_link (JFloat (Fin 1)) 1) = Inr v"
    using plain_fits_for [OF hex hex hex hex hex] by fastforce
  have "1 \<le> nest_limit plain_env" by (simp add: plain_env_def)
  then show ?thesis
    using sealed_envelope_delivered [OF demo_accepted [OF demo_texts(3)] demo_request_items(1) demo_items(3) demo_request_items(2-5)
        plain_prepared_for [OF hex] v plain_sizes plain_small(1)] v by blast
qed

section \<open>A host\<close>

definition demo_setup_env :: "unit setup_env" where
  "demo_setup_env = \<lparr>se_py = plain_env, se_exec = (\<lambda>_ _ _ x. (Inl OSError, x)), se_access = (\<lambda>_ _ x. ((Inl OSError, [], []), x)),
     se_metadata = (\<lambda>_ x. (Inl OSError, x)), se_environ = [(''AZD_SANTA_SETUP_OPERATION'', ''readback'')], se_euid = 0\<rparr>"

definition demo_chost :: "unit chost" where
  "demo_chost = \<lparr>h_fs = [], h_cwd = [], h_umask = 18, h_outcomes = (\<lambda>_. Works), h_calls = 0,
     h_world = \<lparr>helper_loaded = False, printed = [], issued = [], ext = ()\<rparr>\<rparr>"

theorem access_run_once_witness:
  "access_count demo_digest demo_chost = 0 \<and> access_count demo_digest (snd (setup_main demo_setup_env [] demo_chost)) \<le> 1"
proof -
  have 0: "access_count demo_digest demo_chost = 0" by (simp add: access_count_def demo_chost_def)
  have "setup_step\<^sup>*\<^sup>* demo_chost (snd (setup_main demo_setup_env [] demo_chost))"
    by (rule r_into_rtranclp) (rule setup_step.run [OF prod.collapse [symmetric]])
  from access_run_once [OF this 0] 0 show ?thesis by simp
qed

theorem readback_runs_no_access_witness: "access_count demo_digest (snd (setup_main demo_setup_env [] demo_chost)) = access_count demo_digest demo_chost"
  by (rule readback_runs_no_access) (simp add: demo_setup_env_def)

end
