(* ===== verification/Installation_Readback.thy ===== *)
theory Installation_Readback
  imports Setup_Host
begin

text \<open>
  The final readback of an installation, \<open>experiments/server/installation_readback.py\<close>: with the
  attestation of the setup host it verifies the running containers, asks the web container and
  the broker whether the runtime is ready, and prints the receipt of the installation.  The
  process-wide alarm is not modelled.
\<close>

definition INSTALL_MARKER :: string where
  "INSTALL_MARKER = ''SANTA_INSTALLATION_JSON:''"

definition READY :: "string list" where
  "READY = [''database_authority'', ''migrations'', ''store'', ''security_store'', ''sync_admission'', ''event_consumers'', ''search'']"

definition INSTALL_PROBE :: string where
  "INSTALL_PROBE = source (''|import json,urllib.request|from django.db import connection|from django.db.migrations.executor import MigrationExecutor|''
     @ ''from zentral.core.stores.models import Store|from azd_santa_database_roles import check_runtime|check_runtime()|''
     @ ''executor=MigrationExecutor(connection)|assert not executor.migration_plan(executor.loader.graph.leaf_nodes())|''
     @ ''assert Store.objects.count()==1|store=Store.objects.get(provisioning_uid=`elasticsearch`)|''
     @ ''assert store.backend==`ELASTICSEARCH` and store.admin_console|assert store.backend_kwargs.get(`hosts`)==[`http://elastic:9200`]|''
     @ ''queue=(`store_events_`+store.name).replace(` `,`_`)|class NoRedirect(urllib.request.HTTPRedirectHandler):|''
     @ '' def redirect_request(self,*args,**kwargs): return None|opener=urllib.request.build_opener(urllib.request.ProxyHandler({}),NoRedirect())|''
     @ ''with opener.open(`http://elastic:9200/_cluster/health?wait_for_status=yellow&timeout=5s`,timeout=8) as r:| data=r.read(65537)|''
     @ ''assert len(data)<=65536|health=json.loads(data)|''
     @ ''assert health[`timed_out`] is False and health[`status`] in (`yellow`,`green`) and type(health[`number_of_nodes`]) is int and health[`number_of_nodes`]==1|''
     @ ''print(`SANTA_INSTALL_READY:`+json.dumps({`queue`:queue,`database_authority`:True,`migrations`:True,`store`:True,`search`:True}))|'')"

definition READY_MARKER :: string where
  "READY_MARKER = ''SANTA_INSTALL_READY:''"

definition is_deployment :: "string \<Rightarrow> string \<Rightarrow> string \<Rightarrow> bool" where
  \<comment> \<open>the pattern of a deployment identifier in a subscription, optionally in the resource group\<close>
  "is_deployment sub rg s =
     (let prefix = ''/subscriptions/'' @ sub @ ''/''; in_group = ''resourceGroups/'' @ rg @ ''/''; kind = ''providers/Microsoft.Resources/deployments/'';
          t = drop (length prefix) s; u = (if startswith t in_group then drop (length in_group) t else t)
      in startswith s prefix \<and> startswith u kind
         \<and> fullmatch_range (\<lambda>c. is_alnum c \<or> c \<in> set ''_.()-'') 1 64 (drop (length kind) u))"

definition is_queue :: "string \<Rightarrow> bool" where
  \<comment> \<open>\<open>[A-Za-z0-9_.-]{1,128}\<close>\<close>
  "is_queue = fullmatch_range (\<lambda>c. is_alnum c \<or> c \<in> set ''_.-'') 1 128"

definition ready_record :: "string \<Rightarrow> string res" where
  "ready_record t =
     (case filter (\<lambda>l. startswith l READY_MARKER) (splitlines t) of
        [l] \<Rightarrow> Inr (drop (length READY_MARKER) l)
      | _ \<Rightarrow> Inl ValueError)"

definition projection_queue :: "json \<Rightarrow> string res" where
  "projection_queue v =
     res_bind (demands (res_and (has_keys v [''queue'', ''database_authority'', ''migrations'', ''store'', ''search''])
        (res_and (res_all (\<lambda>k. res_bind (item_of v k) (\<lambda>x. Inr (x = JBool True))) [''database_authority'', ''migrations'', ''store'', ''search''])
          (res_bind (item_of v ''queue'') (full_match is_queue))))) (\<lambda>_. text_item v ''queue'')"

definition queue_row :: "(string \<times> int) list \<Rightarrow> json \<Rightarrow> (string \<times> int) list res" where
  "queue_row names row = (case row of
       JObj ms \<Rightarrow>
         res_bind (demands (has_keys row [''name'', ''consumers''])) (\<lambda>_.
         (case (dget ms ''name'', dget ms ''consumers'') of
            (Some (JStr n), Some (JInt c)) \<Rightarrow> res_bind (demand (c \<ge> 0 \<and> n \<notin> set (map fst names))) (\<lambda>_. Inr (names @ [(n, c)]))
          | _ \<Rightarrow> Inl ValueError))
     | _ \<Rightarrow> Inl ValueError)"

fun queue_rows :: "(string \<times> int) list \<Rightarrow> json list \<Rightarrow> (string \<times> int) list res" where
  "queue_rows names [] = Inr names"
| "queue_rows names (r # rs) = res_bind (queue_row names r) (\<lambda>ns. queue_rows ns rs)"

definition queue_checks :: "string \<Rightarrow> json \<Rightarrow> unit res" where
  "queue_checks queue v = (case v of
       JArr rows \<Rightarrow> res_bind (demand (length rows \<le> 1024)) (\<lambda>_. res_bind (queue_rows [] rows) (\<lambda>names.
         demand (list_all (\<lambda>n. case dget names n of Some c \<Rightarrow> c > 0 | None \<Rightarrow> False) [queue, ''enrich_events'', ''process_events''])))
     | _ \<Rightarrow> Inl ValueError)"

definition HIDDEN :: "string list" where
  "HIDDEN = [''SourceCommit'', ''AdmissionSha256'', ''RecoverySha256'', ''SealedSha256'', ''RemoteProgramSha256'']"

definition install_result :: "json \<Rightarrow> (string \<times> json) list \<Rightarrow> string \<Rightarrow> string \<Rightarrow> string \<Rightarrow> json" where
  \<comment> \<open>the context digest and the bindings of the request\<close>
  "install_result ctx binding deployment attestor producer = JObj
     [(''scope'', JStr ''azd-santa-installation-readback''), (''context_sha256'', ctx), (''attestor_sha256'', JStr attestor),
      (''producer_sha256'', JStr producer), (''readiness'', JObj (map (\<lambda>k. (k, JBool True)) (sort READY))),
      (''installation'', JObj [(''schemaVersion'', JInt 1), (''scope'', JStr ''azd-santa-backend-installation''), (''state'', JStr ''installed''),
         (''deploymentId'', JStr deployment), (''outputs'', JObj (filter (\<lambda>(k, _). k \<notin> set HIDDEN) binding))])]"

definition service_ids :: "(string, string) dict \<Rightarrow> (string \<times> string) res" where
  \<comment> \<open>the containers of the application and of the broker\<close>
  "service_ids services =
     res_bind (demand (set (map fst services) = set SETUP_SERVICES \<and> list_all (\<lambda>(_, v). is_sha256_hex v) services)) (\<lambda>_.
       case (dget services ''web'', dget services ''rabbitmq'') of (Some w, Some r) \<Rightarrow> Inr (w, r) | _ \<Rightarrow> Inl KeyError)"

definition verify_ready :: "'x setup_env \<Rightarrow> string \<Rightarrow> string \<Rightarrow> ('x chost, unit) sx" where
  "verify_ready e web broker =
     sx_bind (docker e 35 [''exec'', web, ''python'', ''server/manage.py'', ''shell'', ''--no-imports'', ''-c'', INSTALL_PROBE]) (\<lambda>raw.
     sx_bind (sx_lift (res_bind (utf8_decode False raw) ready_record)) (\<lambda>t.
     sx_bind (sx_lift (res_bind (setup_loads (se_py e) t) projection_queue)) (\<lambda>queue.
     sx_bind (docker e 20 [''exec'', broker, ''rabbitmqctl'', ''list_queues'', ''name'', ''consumers'', ''--formatter'', ''json'']) (\<lambda>listed.
       sx_lift (res_bind (setup_loads_bytes (se_py e) listed) (queue_checks queue))))))"

definition produce_installation :: "'x setup_env \<Rightarrow> string \<Rightarrow> string \<Rightarrow> string \<Rightarrow> ('x chost, json) sx" where
  "produce_installation e deployment attestor producer =
     sx_bind (sx_lift (demand (se_euid e = 0))) (\<lambda>_.
     sx_bind (sx_lift (request_from_environment e)) (\<lambda>(request, _).
     sx_bind (sx_lift (dig request [''context'', ''binding''])) (\<lambda>b.
     sx_bind (sx_lift (text_item b ''SubscriptionId'')) (\<lambda>sub.
     sx_bind (sx_lift (text_item b ''ResourceGroup'')) (\<lambda>rg.
     sx_bind (sx_lift (demand (is_deployment sub rg deployment))) (\<lambda>_.
     sx_bind (sx_lift (demand (is_sha256_hex attestor \<and> is_sha256_hex producer))) (\<lambda>_.
     sx_bind (attest_metadata e b) (\<lambda>_.
     sx_bind (attest_runtime e request) (\<lambda>services.
     sx_bind (sx_lift (service_ids services)) (\<lambda>(web, broker).
     sx_bind (verify_ready e web broker) (\<lambda>_.
     sx_bind (sx_lift (items_of b)) (\<lambda>its.
     sx_bind (sx_lift (item_of request ''context_sha256'')) (\<lambda>ctx.
       let result = install_result ctx its deployment attestor producer in
     sx_bind (sx_lift (encoded (se_py e) result)) (\<lambda>raw.
     sx_bind (sx_lift (demand (length raw \<le> 3200))) (\<lambda>_.
     sx_bind (sx_lift (if isascii raw then Inr () else Inl UnicodeError)) (\<lambda>_.
     sx_bind (say (INSTALL_MARKER @ raw)) (\<lambda>_. sx_return result)))))))))))))))))"

end
