(* ===== verification/Readback_Facts.thy ===== *)
theory Readback_Facts
  imports Installation_Readback Setup_Facts
begin

text \<open>
  The readback of an installation only looks: it changes no file, runs no program that
  starts, stops or creates a container, and prints nothing but the receipt of the request.
\<close>

definition observing :: "string list \<Rightarrow> bool" where
  \<comment> \<open>listing, inspecting, and running a command inside an existing container\<close>
  "observing args \<longleftrightarrow> (\<exists>rest. args = DOCKER @ rest \<and>
     ((\<exists>prj file service. rest = [''compose'', ''--project-name'', prj, ''-f'', file, ''ps'', ''--quiet'', service])
      \<or> (\<exists>cid. rest = [''inspect'', cid]) \<or> (\<exists>img. rest = [''image'', ''inspect'', img]) \<or> (\<exists>more. rest = ''exec'' # more)))"

definition only_observed :: "'x chost \<Rightarrow> 'x chost \<Rightarrow> bool" where
  "only_observed h h' \<longleftrightarrow> h_fs h' = h_fs h \<and> (\<exists>es. issued (h_world h') = issued (h_world h) @ es \<and> list_all (observing \<circ> fst) es)"

interpretation looks: frame only_observed
  by unfold_locales (auto simp: only_observed_def)

lemma looks_look: "looks.keeps (look f)"
  by (simp add: looks.keeps_def look_def only_observed_def)

lemma looks_private: "looks.keeps (private_path p d mode)"
  unfolding private_path_def by (rule looks_look)

lemma looks_outside: "looks.keeps (outside f)"
  by (auto simp: looks.keeps_def outside_def only_observed_def split: prod.splits)

lemma looks_say: "looks.keeps (say s)"
  by (simp add: looks.keeps_def say_def only_observed_def)

lemma looks_docker: "observing (DOCKER @ args) \<Longrightarrow> looks.keeps (docker e limit args)"
  by (auto simp: looks.keeps_def only_observed_def docker_def Let_def sx_bind_def sx_lift_def sx_return_def split: prod.splits sum.splits)

lemma looks_read: "looks.keeps (read_bytes p)"
proof -
  have "looks.keeps (io_ok :: ('a chost, unit) sx)" by (rule looks.keepsI) (auto dest!: io_ok_cases simp: only_observed_def)
  then show ?thesis
    unfolding read_bytes_def by (intro looks.keeps_bind) (auto simp: looks.keeps_def only_observed_def split: sum.splits kind.splits)
qed

lemmas looks_intros = looks.keeps_intros looks_look looks_private looks_outside looks_say looks_read looks_docker

lemma looks_env_files: "looks.keeps (env_files_of compose ks)"
  by (induction ks) (auto simp: env_file_def Let_def intro!: looks_intros)

lemma looks_services: "looks.keeps (attest_services e b compose conf prj envs its)"
  by (induction its) (auto simp: attest_service_def docker_json_def observing_def intro!: looks_intros split: prod.splits)

lemma looks_runtime: "looks.keeps (attest_runtime e request)"
  unfolding attest_runtime_def probe_container_def Let_def
  by (intro looks_intros looks_env_files looks_services) (simp_all add: observing_def)

lemma looks_metadata: "looks.keeps (attest_metadata e b)"
  unfolding attest_metadata_def by (intro looks_intros)

lemma looks_ready: "looks.keeps (verify_ready e web broker)"
  unfolding verify_ready_def by (intro looks_intros) (simp_all add: observing_def)

lemma mute_ready: "mute.keeps (verify_ready e web broker)"
  unfolding verify_ready_def by (intro mute_intros)

definition receipt_text :: "'x setup_env \<Rightarrow> string \<Rightarrow> string \<Rightarrow> string \<Rightarrow> string \<Rightarrow> bool" where
  \<comment> \<open>a line with the receipt of the request of this run\<close>
  "receipt_text e deployment attestor producer s \<longleftrightarrow> (\<exists>request raw b its ctx t. request_from_environment e = Inr (request, raw)
     \<and> dig request [''context'', ''binding''] = Inr b \<and> items_of b = Inr its \<and> item_of request ''context_sha256'' = Inr ctx
     \<and> encoded (se_py e) (install_result ctx its deployment attestor producer) = Inr t \<and> length t \<le> 3200 \<and> s = INSTALL_MARKER @ t)"

lemma prints_lift: "(\<And>x. r = Inr x \<Longrightarrow> prints P (f x)) \<Longrightarrow> prints P (sx_bind (sx_lift r) f)"
  by (rule prints_bind [OF mute.keeps_lift, where Q = "\<lambda>x. r = Inr x"]) (auto simp: yields_def sx_lift_def)

lemma prints_receipt: "prints (receipt_text e deployment attestor producer) (produce_installation e deployment attestor producer)"
proof -
  have last: "prints P (sx_bind (say s) (\<lambda>_. sx_return v))" if "P s" for P s and v :: json
    using that by (auto simp: prints_def sx_bind_def say_def sx_return_def)
  show ?thesis unfolding produce_installation_def Let_def
    by (intro prints_lift prints_then [OF mute_operation(4)] prints_then [OF mute_runtime] prints_then [OF mute_ready] | simp only: split_paired_all prod.case)+
       (rule last, unfold receipt_text_def, auto simp: demand_def res_guard_Inr_iff)
qed


end
