(* ===== verification/Eval_Prepare.thy ===== *)
theory Eval_Prepare
  imports Runtime_Service
begin

text \<open>
  The generator of a private runtime, \<open>experiments/server/prepare_zentral_eval.py\<close>: the checks
  of its inputs, the application configuration it derives, the secrets, the Compose file and
  the files of a new destination.  The random tokens are a parameter.
\<close>

record 'x eval_env =
  ev_py :: py_env
  ev_urlsafe :: "nat \<Rightarrow> 'x \<Rightarrow> string \<times> 'x"  \<comment> \<open>\<open>secrets.token_urlsafe\<close>\<close>
  ev_hex :: "nat \<Rightarrow> 'x \<Rightarrow> string \<times> 'x"  \<comment> \<open>\<open>secrets.token_hex\<close>\<close>

definition SOURCE_URL :: string where
  "SOURCE_URL = ''https://github.com/zentralopensource/zentral/tree/'' @ COMMIT"

definition SOURCE_HASHES :: "(string \<times> string) list" where
  "SOURCE_HASHES =
     [(''Dockerfile'', ''dd06e76e0b325684c0c07734cfb1b951218678fb454b8af18e719f309c2e94e1''),
      (''LICENSE'', ''00f43b4775da6dcbe63d20b3b2c36e616f35af5595d02c590278e75d9d86793c''),
      (''conf/start/zentral/base.json'', ''ffd5c071c63d15ca5c529d522855345de814e8473f493eb973d2487aa7c44c2a'')]"

definition LOCK_NAMES :: "string list" where
  "LOCK_NAMES = [''postgres'', ''redis'', ''rabbitmq'', ''elasticsearch'']"

definition OPTIONAL_APPS :: "string list" where
  "OPTIONAL_APPS = [''zentral.contrib.jamf'', ''zentral.contrib.munki'', ''zentral.contrib.osquery'', ''zentral.contrib.turbo'']"

definition json_text :: "py_env \<Rightarrow> json \<Rightarrow> string" where
  "json_text e v = pretty e 0 (jsort v) @ [CHR 0x0A]"

section \<open>Inputs\<close>

definition app_profile_of :: "string \<Rightarrow> string option \<Rightarrow> string res" where
  "app_profile_of variant given =
     res_bind (demand (variant \<in> {''upstream-evaluation'', ''core-experiment''})) (\<lambda>_.
       let p = (case given of None \<Rightarrow> if variant = ''core-experiment'' then ''santa'' else ''upstream'' | Some s \<Rightarrow> s) in
       res_bind (demand (p \<in> {''upstream'', ''santa''})) (\<lambda>_. Inr p))"

definition check_lock :: "json \<Rightarrow> unit res" where
  "check_lock lock = (case lock of
       JObj ms \<Rightarrow> res_bind (demand (set (map fst ms) = set LOCK_NAMES)) (\<lambda>_.
         demand (list_all (\<lambda>(_, v). case v of JStr s \<Rightarrow> is_pinned_ref s | _ \<Rightarrow> False) ms))
     | _ \<Rightarrow> Inl ValueError)"

definition check_source :: "path \<Rightarrow> string \<times> string \<Rightarrow> ('w host, unit) sx" where
  \<comment> \<open>a path that cannot be followed to its end fails here or when it is read, in both cases with an exception\<close>
  "check_source base = (\<lambda>(name, expected).
     let p = path_join base name in
     sx_bind (look (\<lambda>h. demand (\<not> is_symlink h p))) (\<lambda>_.
     sx_bind (look (\<lambda>h. res_bind (resolve h p) (\<lambda>q. demand (is_relative_to q base)))) (\<lambda>_.
     sx_bind (read_bytes p) (\<lambda>raw. sx_lift (demand (sha256_hex raw = expected))))))"

fun check_sources :: "path \<Rightarrow> (string \<times> string) list \<Rightarrow> ('w host, unit) sx" where
  "check_sources base [] = sx_return ()"
| "check_sources base (f # fs) = sx_bind (check_source base f) (\<lambda>_. check_sources base fs)"

section \<open>The application configuration\<close>

fun set_at :: "string list \<Rightarrow> json \<Rightarrow> json \<Rightarrow> json res" where
  \<comment> \<open>\<open>v[a][b]... = x\<close>\<close>
  "set_at [] x v = Inr x"
| "set_at (k # ks) x v = (case v of
       JObj ms \<Rightarrow> if ks = [] then Inr (JObj (dset k x ms))
         else res_bind (item_of v k) (\<lambda>w. res_bind (set_at ks x w) (\<lambda>u. Inr (JObj (dset k u ms))))
     | _ \<Rightarrow> Inl TypeError)"

definition drop_apps :: "json \<Rightarrow> json res" where
  "drop_apps config =
     res_bind (item_of config ''apps'') (\<lambda>apps. case apps of
       JObj ms \<Rightarrow> set_at [''apps''] (JObj (filter (\<lambda>(k, _). k \<notin> set OPTIONAL_APPS) ms)) config
     | JArr _ \<Rightarrow> Inl TypeError
     | _ \<Rightarrow> Inl AttributeError)"

definition django_settings :: "bool \<Rightarrow> (string \<times> json) list" where
  "django_settings split_roles =
     [(''DEBUG'', JBool False), (''STATIC_WHITENOISE'', JBool True), (''ALLOWED_HOSTS'', strs [''localhost'', ''127.0.0.1'']),
      (''SECRET_KEY'', JStr ''{{ env:ZENTRAL_DJANGO_SECRET }}''), (''POSTGRES_HOST'', JStr ''db''), (''POSTGRES_NAME'', JStr ''zentral''),
      (''POSTGRES_USER'', JStr (if split_roles then ''{{ env:POSTGRES_USER }}'' else ''zentral'')),
      (''POSTGRES_PASSWORD'', JStr ''{{ env:POSTGRES_PASSWORD }}''), (''CELERY_BROKER_URL'', JStr ''{{ env:ZENTRAL_QUEUE_URL }}'')]"

definition update_django :: "bool \<Rightarrow> json \<Rightarrow> json res" where
  "update_django split_roles config =
     res_bind (item_of config ''django'') (\<lambda>d. case d of
       JObj ms \<Rightarrow> set_at [''django''] (JObj (foldl (\<lambda>a (k, v). dset k v a) ms (django_settings split_roles))) config
     | _ \<Rightarrow> Inl AttributeError)"

definition derive_config :: "bool \<Rightarrow> string \<Rightarrow> json \<Rightarrow> json res" where
  "derive_config split_roles profile c0 =
     res_bind (if profile = ''santa'' then drop_apps c0 else Inr c0) (\<lambda>c1.
     res_bind (set_at [''api''] (JObj [(''fqdn'', JStr ''localhost:8000''), (''metrics_bearer_token'', JStr ''{{ env:ZENTRAL_METRICS_TOKEN }}'')]) c1) (\<lambda>c2.
     res_bind (set_at [''extra_links''] (JArr []) c2) (\<lambda>c3.
     res_bind (update_django split_roles c3) (\<lambda>c4.
     res_bind (set_at [''queues''] (JObj [(''backend'', JStr ''zentral.core.queues.backends.kombu''), (''backend_url'', JStr ''{{ env:ZENTRAL_QUEUE_URL }}'')]) c4) (\<lambda>c5.
     res_bind (set_at [''notifier''] (JObj [(''url'', JStr ''redis://redis:6379/15'')]) c5) (\<lambda>c6.
       set_at [''apps'', ''zentral.core.stores'', ''provisioning'', ''stores'', ''elasticsearch'', ''elasticsearch_kwargs'', ''hosts'']
         (strs [''http://elastic:9200'']) c6))))))"

section \<open>Secrets\<close>

record secrets =
  rabbit_password :: string
  owner_password :: string
  runtime_password :: string
  django_secret :: string
  metrics_token :: string
  store_id :: string

definition draw_secrets :: "'x eval_env \<Rightarrow> bool \<Rightarrow> ('x chost, secrets) sx" where
  "draw_secrets e split_roles =
     sx_bind (outside (ev_urlsafe e 36)) (\<lambda>r.
     sx_bind (outside (ev_urlsafe e 48)) (\<lambda>o1.
     sx_bind (if split_roles then outside (ev_urlsafe e 48) else sx_return o1) (\<lambda>p.
     sx_bind (outside (ev_urlsafe e 64)) (\<lambda>d.
     sx_bind (outside (ev_urlsafe e 48)) (\<lambda>m.
     sx_bind (outside (ev_hex e 32)) (\<lambda>s.
       sx_return \<lparr>rabbit_password = r, owner_password = o1, runtime_password = p, django_secret = d, metrics_token = m, store_id = s\<rparr>))))))"

definition database_env :: "bool \<Rightarrow> secrets \<Rightarrow> environ" where
  "database_env split_roles s = [(''POSTGRES_DB'', ''zentral''), (''POSTGRES_USER'', if split_roles then ''zentral_owner'' else ''zentral''),
     (''POSTGRES_PASSWORD'', owner_password s)]"

definition broker_env :: "secrets \<Rightarrow> environ" where
  "broker_env s = [(''RABBITMQ_DEFAULT_USER'', ''zentral''), (''RABBITMQ_DEFAULT_PASS'', rabbit_password s)]"

definition queue_url :: "secrets \<Rightarrow> string" where
  "queue_url s = ''amqp://zentral:'' @ rabbit_password s @ ''@rabbitmq:5672//''"

definition service_env :: "bool \<Rightarrow> secrets \<Rightarrow> environ" where
  "service_env split_roles s =
     [(''POSTGRES_PASSWORD'', runtime_password s), (''ZENTRAL_DJANGO_SECRET'', django_secret s), (''ZENTRAL_METRICS_TOKEN'', metrics_token s),
      (''AZD_SANTA_SECURITY_STORE_ID'', store_id s), (''ZENTRAL_QUEUE_URL'', queue_url s)]
     @ (if split_roles then [(''POSTGRES_USER'', ''zentral_runtime'')] else [])"

definition migration_env :: "secrets \<Rightarrow> environ" where
  "migration_env s = dset ''POSTGRES_PASSWORD'' (owner_password s) (dset ''POSTGRES_USER'' ''zentral_owner'' (service_env True s))"

definition env_text :: "environ \<Rightarrow> string" where
  "env_text d = concat (map (\<lambda>(k, v). k @ ''='' @ v @ [CHR 0x0A]) d)"

section \<open>The Compose file\<close>

definition eval_service :: "string \<Rightarrow> string \<Rightarrow> string \<Rightarrow> (string \<times> json) list" where
  "eval_service img ref memory =
     [(''image'', JStr ref), (''pull_policy'', JStr (if ref = img then ''never'' else ''missing'')), (''restart'', JStr ''no''),
      (''mem_limit'', JStr memory),
      (''logging'', JObj [(''driver'', JStr ''json-file''), (''options'', JObj [(''max-size'', JStr ''10m''), (''max-file'', JStr ''3'')])]),
      (''security_opt'', strs [''no-new-privileges:true''])]"

definition app_service :: "string \<Rightarrow> string list \<Rightarrow> string \<Rightarrow> (string \<times> json) list \<Rightarrow> json" where
  "app_service img command memory ports =
     JObj (eval_service img img memory @
       [(''command'', strs command), (''env_file'', strs [''./runtime.env'']),
        (''environment'', JObj [(''ZENTRAL_CONF_DIR'', JStr ''/zentral-eval-conf'')]),
        (''volumes'', strs [''./conf:/zentral-eval-conf:ro'', ''media_data:/var/zentral'']),
        (''depends_on'', strs [''db'', ''redis'', ''rabbitmq'', ''elastic''])] @ ports)"

definition eval_services :: "string \<Rightarrow> (string \<Rightarrow> string) \<Rightarrow> (string \<times> json) list" where
  \<comment> \<open>the second argument is the lock\<close>
  "eval_services img ref =
     [(''db'', JObj (eval_service img (ref ''postgres'') ''384m'' @
        [(''env_file'', strs [''./db.env'']), (''volumes'', strs [''postgres_data:/var/lib/postgresql''])])),
      (''redis'', JObj (eval_service img (ref ''redis'') ''128m'' @
        [(''command'', strs REDIS_COMMAND), (''volumes'', strs [''redis_data:/data''])])),
      (''rabbitmq'', JObj (eval_service img (ref ''rabbitmq'') ''320m'' @
        [(''hostname'', JStr ''rabbitmq''), (''env_file'', strs [''./rabbitmq.env'']), (''volumes'', strs [''rabbitmq_data:/var/lib/rabbitmq''])])),
      (''elastic'', JObj (eval_service img (ref ''elasticsearch'') ''896m'' @
        [(''environment'', JObj [(''ES_JAVA_OPTS'', JStr ''-Xms256m -Xmx256m''), (''discovery.type'', JStr ''single-node''), (''xpack.security.enabled'', JStr ''false'')]),
         (''volumes'', strs [''elasticsearch_data:/usr/share/elasticsearch/data''])])),
      (''web'', app_service img [''gunicorn'', ''--bind'', ''0.0.0.0:8000'', ''--workers'', ''1'', ''--threads'', ''2''] ''512m''
        [(''ports'', strs [''127.0.0.1:8000:8000''])]),
      (''workers'', app_service img [''runworkers''] ''640m'' []),
      (''celery'', app_service img [''celery'', ''--concurrency'', ''1''] ''384m'' [])]"

definition eval_compose :: "string \<Rightarrow> (string \<Rightarrow> string) \<Rightarrow> string \<Rightarrow> json" where
  "eval_compose img ref token =
     JObj [(''name'', JStr (''santa-zentral-eval-'' @ token)), (''services'', JObj (eval_services img ref)),
       (''volumes'', JObj (map (\<lambda>n. (n, JObj [])) [''postgres_data'', ''redis_data'', ''rabbitmq_data'', ''elasticsearch_data'', ''media_data'']))]"

section \<open>Files\<close>

definition chmod :: "path \<Rightarrow> nat \<Rightarrow> ('w host, unit) sx" where
  \<comment> \<open>\<open>p.chmod(mode)\<close>, which follows links\<close>
  "chmod p mode = sx_bind io_ok (\<lambda>_ h.
     case resolve_parts (h_fs h) (h_cwd h) p of
       Inl x \<Rightarrow> (Inl x, h)
     | Inr cs \<Rightarrow> (case dget (h_fs h) cs of
         None \<Rightarrow> (Inl OSError, h)
       | Some nd \<Rightarrow> (Inr (), h\<lparr>h_fs := dset cs (nd\<lparr>n_mode := mode\<rparr>) (h_fs h)\<rparr>)))"

fun write_envs :: "path \<Rightarrow> (string \<times> environ) list \<Rightarrow> ('w host, unit) sx" where
  "write_envs d [] = sx_return ()"
| "write_envs d ((n, v) # fs) = sx_bind (write_new (path_join d n) (env_text v) 384) (\<lambda>_. write_envs d fs)"

definition provenance :: "string \<Rightarrow> json \<Rightarrow> string \<Rightarrow> string \<Rightarrow> json" where
  "provenance img lock variant profile = JObj
     [(''scope'', JStr ''synthetic-loopback-evaluation-only''), (''upstream_commit'', JStr COMMIT), (''upstream_source'', JStr SOURCE_URL),
      (''checked_source_files'', JObj (map (\<lambda>(k, v). (k, JStr v)) SOURCE_HASHES)), (''local_image_id'', JStr img), (''dependency_images'', lock),
      (''declared_image_variant'', JStr variant), (''app_profile'', JStr profile),
      (''database_roles'', JStr (if variant = ''core-experiment'' then ''fresh-only separated initialization/runtime; live qualification pending''
         else ''upstream-evaluation shared role; unmodified entrypoint'')),
      (''secret_environment_files'', JObj [(''db'', JStr ''db.env''), (''rabbitmq'', JStr ''rabbitmq.env''), (''web'', JStr ''runtime.env''),
         (''workers'', JStr ''runtime.env''), (''celery'', JStr ''runtime.env'')]),
      (''security_store'', JObj [(''persistence'', JStr ''AOF always; no truncated load; no eviction''),
         (''initialization'', JStr ''not initialized; explicit privileged fresh/migrate command required''),
         (''restore_authority'', JStr ''not reconciled; marker is not an external rollback anchor'')]),
      (''limitations'', strs [''Image variant is a caller declaration, not production license clearance'',
         ''Caller must verify full source archive and build binding'',
         ''Memory caps are test constraints, not proven sizing'',
         ''Database role/runtime grants and explicit initialization require separate live qualification'',
         ''No real device enrollment, public TLS or device authentication''])]"

definition eval_notice :: "string \<Rightarrow> string" where
  "eval_notice variant = concat (map (\<lambda>l. l @ [CHR 0x0A])
     [''Private synthetic Zentral evaluation only. Source: '' @ SOURCE_URL,
      if variant = ''core-experiment'' then ''Core derivation claimed; verify actual image contents and dependency licenses.''
      else ''The standard upstream image includes ee/ under its evaluation license.'',
      ''Do not publish this image or treat it as a core-only production package.'',
      ''No real devices, public ingress or production credentials.'',
      ''HTTP is loopback-only; generated payload HTTPS URLs are not qualified.'',
      ''Keep upstream license and notices; consult upstream terms before further use.''])"

definition lock_ref :: "json \<Rightarrow> string \<Rightarrow> string" where
  \<comment> \<open>\<open>lock[k]\<close> of a checked lock\<close>
  "lock_ref lock k = (case text_item lock k of Inr s \<Rightarrow> s | Inl _ \<Rightarrow> [])"

definition eval_files :: "'x eval_env \<Rightarrow> path \<Rightarrow> path \<Rightarrow> json \<Rightarrow> json \<Rightarrow> secrets \<Rightarrow> string \<Rightarrow> json \<Rightarrow> string \<Rightarrow> string \<Rightarrow> ('x chost, unit) sx" where
  "eval_files e src d config compose s img lock variant profile =
     (let split_roles = (variant = ''core-experiment'') in
      sx_bind (mkdir d 448 False) (\<lambda>_.
      sx_bind (mkdir (path_join d ''conf'') 493 False) (\<lambda>_.
      sx_bind (chmod (path_join d ''conf'') 493) (\<lambda>_.
      sx_bind (write_new (path_join d ''conf/base.json'') (json_text (ev_py e) config) 420) (\<lambda>_.
      sx_bind (chmod (path_join d ''conf/base.json'') 420) (\<lambda>_.
      sx_bind (write_envs d [(''db.env'', database_env split_roles s), (''rabbitmq.env'', broker_env s), (''runtime.env'', service_env split_roles s)]) (\<lambda>_.
      sx_bind (if split_roles then write_new (path_join d ''migration.env'') (env_text (migration_env s)) 384 else sx_return ()) (\<lambda>_.
      sx_bind (write_new (path_join d ''compose.json'') (json_text (ev_py e) compose) 384) (\<lambda>_.
      sx_bind (read_text (path_join src ''LICENSE'')) (\<lambda>license.
      sx_bind (write_new (path_join d ''LICENSE.upstream'') license 384) (\<lambda>_.
      sx_bind (write_new (path_join d ''provenance.json'') (json_text (ev_py e) (provenance img lock variant profile)) 384) (\<lambda>_.
        write_new (path_join d ''EVALUATION-ONLY.txt'') (eval_notice variant) 384))))))))))))"

definition eval_prepare :: "'x eval_env \<Rightarrow> path \<Rightarrow> string \<Rightarrow> json \<Rightarrow> path \<Rightarrow> string \<Rightarrow> string option \<Rightarrow> ('x chost, unit) sx" where
  "eval_prepare e src0 img lock dest variant given =
     sx_bind (sx_lift (app_profile_of variant given)) (\<lambda>profile.
     sx_bind (look (\<lambda>h. resolve h src0)) (\<lambda>src.
     sx_bind (look (\<lambda>h. demand (is_dir h src \<and> is_sha_ref img))) (\<lambda>_.
     sx_bind (sx_lift (check_lock lock)) (\<lambda>_.
     sx_bind (check_sources src SOURCE_HASHES) (\<lambda>_.
     sx_bind (read_text (path_join src ''conf/start/zentral/base.json'')) (\<lambda>t.
     sx_bind (sx_lift (load_text (ev_py e) t)) (\<lambda>c0.
     sx_bind (sx_lift (derive_config (variant = ''core-experiment'') profile c0)) (\<lambda>config.
     sx_bind (draw_secrets e (variant = ''core-experiment'')) (\<lambda>s.
     sx_bind (outside (ev_hex e 6)) (\<lambda>token.
     sx_bind (look (\<lambda>h. Inr (absolute_path h dest))) (\<lambda>d.
       eval_files e src d config (eval_compose img (lock_ref lock) token) s img lock variant profile)))))))))))"

definition eval_main :: "'x eval_env \<Rightarrow> string \<Rightarrow> string \<Rightarrow> string \<Rightarrow> string \<Rightarrow> string \<Rightarrow> string option \<Rightarrow> ('x chost, unit) sx" where
  \<comment> \<open>\<open>main\<close> after its arguments are parsed\<close>
  "eval_main e src img lock_path dest variant given =
     sx_bind (read_text (py_path lock_path)) (\<lambda>t.
     sx_bind (sx_lift (load_text (ev_py e) t)) (\<lambda>lock.
     sx_bind (eval_prepare e (py_path src) img lock (py_path dest) variant given) (\<lambda>_.
       say ''Prepared private synthetic evaluation; no service started.'')))"

end
