(* ===== verification/Json_Layout.thy ===== *)
theory Json_Layout
  imports Json_Roundtrip Host_Files
begin

text \<open>
  Reading back a document whatever its layout.  The relation \<open>layout v s\<close> holds of every text
  \<open>s\<close> of a value \<open>v\<close> that differs only in the white space around separators and in the escapes
  of its strings.  The decoder returns \<open>v\<close> for every such text, and the texts of
  \<open>json.dumps\<close> with and without an indentation are such texts.
\<close>

definition blank :: "string \<Rightarrow> bool" where
  "blank w \<longleftrightarrow> list_all is_json_ws w"

inductive layout :: "json \<Rightarrow> string \<Rightarrow> bool"
  and elems :: "json list \<Rightarrow> string \<Rightarrow> bool"
  and members :: "(string \<times> json) list \<Rightarrow> string \<Rightarrow> bool" where
  null: "layout JNull ''null''"
| bool: "layout (JBool b) (if b then ''true'' else ''false'')"
| int: "int_ok i \<Longrightarrow> layout (JInt i) (show_int i)"
| str: "isascii s \<Longrightarrow> layout (JStr s) (quote a s)"
| arr0: "blank w \<Longrightarrow> layout (JArr []) (CHR ''['' # w @ [CHR '']''])"
| arr: "elems vs s \<Longrightarrow> layout (JArr vs) (CHR ''['' # s @ [CHR '']''])"
| obj0: "blank w \<Longrightarrow> layout (JObj []) (CHR ''{'' # w @ [CHR ''}''])"
| obj: "members ms s \<Longrightarrow> distinct (map fst ms) \<Longrightarrow> layout (JObj ms) (CHR ''{'' # s @ [CHR ''}''])"
| last: "blank w \<Longrightarrow> layout v s \<Longrightarrow> blank w' \<Longrightarrow> elems [v] (w @ s @ w')"
| more: "blank w \<Longrightarrow> layout v s \<Longrightarrow> blank w' \<Longrightarrow> elems vs t \<Longrightarrow> elems (v # vs) (w @ s @ w' @ CHR '','' # t)"
| mlast: "blank w \<Longrightarrow> isascii k \<Longrightarrow> blank w1 \<Longrightarrow> blank w2 \<Longrightarrow> layout v s \<Longrightarrow> blank w'
    \<Longrightarrow> members [(k, v)] (w @ quote a k @ w1 @ CHR '':'' # w2 @ s @ w')"
| mmore: "blank w \<Longrightarrow> isascii k \<Longrightarrow> blank w1 \<Longrightarrow> blank w2 \<Longrightarrow> layout v s \<Longrightarrow> blank w' \<Longrightarrow> members ms t
    \<Longrightarrow> members ((k, v) # ms) (w @ quote a k @ w1 @ CHR '':'' # w2 @ s @ w' @ CHR '','' # t)"

lemma skip_blank: "blank w \<Longrightarrow> skip_ws (w @ s) = skip_ws s"
  by (induction w) (auto simp: blank_def)

lemma num_stop_blank: "blank w \<Longrightarrow> num_stop s \<Longrightarrow> num_stop (w @ s)"
  by (cases w) (auto simp: blank_def num_stop_def is_json_ws_def is_digit_def in_range_def)

text \<open>The first character of a text of a value is neither white space nor a closing bracket.\<close>

definition opens :: "string \<Rightarrow> bool" where
  "opens s \<longleftrightarrow> (\<exists>c cs. s = c # cs \<and> \<not> is_json_ws c \<and> c \<noteq> CHR '']'' \<and> c \<noteq> CHR ''}'')"

lemma opens_app: "opens s \<Longrightarrow> opens (s @ t)"
  by (auto simp: opens_def)

lemma opens_skip: "opens s \<Longrightarrow> skip_ws (s @ t) = s @ t"
  by (auto simp: opens_def)

lemma layout_opens:
  assumes "layout v s"
  shows "opens s"
  using assms
proof (cases v s rule: layout.cases)
  case (int i)
  then show ?thesis using print_first [of "JInt i" undefined True] by (auto simp: opens_def)
qed (auto simp: opens_def is_json_ws_def quote_def)

lemma skip_value: "layout v s \<Longrightarrow> blank w \<Longrightarrow> skip_ws (w @ s @ t) = s @ t"
  by (simp add: skip_blank opens_skip layout_opens)

lemma elems_opens: "elems vs s \<Longrightarrow> opens (skip_ws (s @ t))"
  by (erule elems.cases) (use skip_value layout_opens opens_app in auto)

lemma quote_head: "\<exists>t. quote a k @ X = CHR 0x22 # t"
  by (simp add: quote_def)

lemma skip_quote: "blank w \<Longrightarrow> skip_ws (w @ quote a k @ t) = quote a k @ t"
  by (simp add: skip_blank quote_def)

lemma members_opens: "members ms s \<Longrightarrow> \<exists>cs. skip_ws (s @ t) = CHR 0x22 # cs"
  by (erule members.cases) (use skip_quote quote_head in auto)

section \<open>The decoder reads every layout\<close>

lemma reads_quote: "isascii k \<Longrightarrow> \<exists>t. quote a k @ X = CHR 0x22 # t \<and> parse_str t = Inr (k, X)"
  using parse_quote [of k a X] quote_head [of a k X] by blast

lemma depth_arr: "jdepth (JArr vs) \<le> Suc d \<Longrightarrow> v \<in> set vs \<Longrightarrow> jdepth v \<le> d"
  using jdepth_elem [of v vs] by simp

lemma depth_obj: "jdepth (JObj ms) \<le> Suc d \<Longrightarrow> (k, v) \<in> set ms \<Longrightarrow> jdepth v \<le> d"
  using jdepth_member [of k v ms] by fastforce

lemma read_elem:
  assumes "parse_value h m d (s @ w' @ c # r) = Inr (v, w' @ c # r)" "blank w'" "\<not> is_json_ws c" "layout v s" "blank w"
  shows "parse_elems h (Suc m) d (skip_ws (w @ s @ w' @ c # r)) =
    (if c = CHR '']'' then Inr ([v], r)
     else if c = CHR '','' then res_bind (parse_elems h m d (skip_ws r)) (\<lambda>(vs, r2). Inr (v # vs, r2)) else Inl ValueError)"
  using assms skip_value [OF assms(4,5)] skip_blank [OF assms(2)] by simp

lemma read_member:
  assumes "parse_value h m d (s @ w' @ c # r) = Inr (v, w' @ c # r)" "blank w'" "\<not> is_json_ws c" "layout v s"
    and "blank w" "blank w1" "blank w2" "isascii k"
  shows "parse_members h (Suc m) d (skip_ws (w @ quote a k @ w1 @ CHR '':'' # w2 @ s @ w' @ c # r)) =
    (if c = CHR ''}'' then Inr ([(k, v)], r)
     else if c = CHR '','' then res_bind (parse_members h m d (skip_ws r)) (\<lambda>(ms, r2). Inr ((k, v) # ms, r2)) else Inl ValueError)"
proof -
  obtain t where t: "quote a k @ w1 @ CHR '':'' # w2 @ s @ w' @ c # r = CHR 0x22 # t"
      "parse_str t = Inr (k, w1 @ CHR '':'' # w2 @ s @ w' @ c # r)"
    using reads_quote [OF assms(8)] by blast
  have "skip_ws (w @ quote a k @ w1 @ CHR '':'' # w2 @ s @ w' @ c # r) = CHR 0x22 # t"
    by (subst skip_quote [OF assms(5)]) (rule t(1))
  then show ?thesis using t(2) assms(1-4) by (simp add: skip_blank [OF assms(6)] skip_blank [OF assms(2)] skip_value [OF assms(4,7)])
qed

lemma layout_reads:
  assumes h: "dict_hooks h"
  shows "layout v s \<Longrightarrow> \<forall>d n r. jdepth v \<le> d \<longrightarrow> num_stop r \<longrightarrow> 2 * length (s @ r) < n \<longrightarrow> parse_value h n d (s @ r) = Inr (v, r)"
    and "elems vs t \<Longrightarrow> \<forall>d n r. (\<forall>v \<in> set vs. jdepth v \<le> d) \<longrightarrow> 2 * length (t @ CHR '']'' # r) + 1 < n
      \<longrightarrow> parse_elems h n d (skip_ws (t @ CHR '']'' # r)) = Inr (vs, r)"
    and "members ms u \<Longrightarrow> \<forall>d n r. (\<forall>(k, v) \<in> set ms. jdepth v \<le> d) \<longrightarrow> 2 * length (u @ CHR ''}'' # r) + 1 < n
      \<longrightarrow> parse_members h n d (skip_ws (u @ CHR ''}'' # r)) = Inr (ms, r)"
proof (induction rule: layout_elems_members.inducts)
  case null
  then show ?case using parse_literal(1) by simp
next
  case (bool b)
  then show ?case using parse_literal(2,3) by (cases b) simp_all
next
  case (int i)
  then show ?case using reads_backD [OF parse_value_print [OF h, of "JInt i" _ undefined True]] by simp
next
  case (str s a)
  then show ?case using reads_backD [OF parse_value_print [OF h, of "JStr s" _ undefined a]] by simp
next
  case (arr0 w)
  show ?case
  proof (intro allI impI)
    fix d n r assume d: "jdepth (JArr []) \<le> d" and n: "2 * length ((CHR ''['' # w @ [CHR '']'']) @ r) < n"
    obtain d' where "d = Suc d'" using d by (cases d) auto
    moreover obtain m where "n = Suc m" using n by (cases n) auto
    ultimately show "parse_value h n d ((CHR ''['' # w @ [CHR '']'']) @ r) = Inr (JArr [], r)" using arr0 by (simp add: skip_blank)
  qed
next
  case (arr vs s)
  show ?case
  proof (intro allI impI)
    fix d n r assume d: "jdepth (JArr vs) \<le> d" and n: "2 * length ((CHR ''['' # s @ [CHR '']'']) @ r) < n"
    obtain d' where d': "d = Suc d'" using d by (cases d) auto
    obtain m where m: "n = Suc m" using n by (cases n) auto
    have "parse_elems h m d' (skip_ws (s @ CHR '']'' # r)) = Inr (vs, r)"
      using arr.IH [rule_format, of d' r m] depth_arr [OF d [unfolded d']] n m by simp
    moreover obtain c cs where "skip_ws (s @ CHR '']'' # r) = c # cs" "c \<noteq> CHR '']''"
      using elems_opens [OF arr.hyps, of "CHR '']'' # r"] unfolding opens_def by blast
    ultimately show "parse_value h n d ((CHR ''['' # s @ [CHR '']'']) @ r) = Inr (JArr vs, r)" using d' m by simp
  qed
next
  case (obj0 w)
  show ?case
  proof (intro allI impI)
    fix d n r assume d: "jdepth (JObj []) \<le> d" and n: "2 * length ((CHR ''{'' # w @ [CHR ''}'']) @ r) < n"
    obtain d' where "d = Suc d'" using d by (cases d) auto
    moreover obtain m where "n = Suc m" using n by (cases n) auto
    moreover have "pairs_hook h [] = Inr (JObj [])" using h by (simp add: dict_hooks_def)
    ultimately show "parse_value h n d ((CHR ''{'' # w @ [CHR ''}'']) @ r) = Inr (JObj [], r)" using obj0 by (simp add: skip_blank)
  qed
next
  case (obj ms s)
  show ?case
  proof (intro allI impI)
    fix d n r assume d: "jdepth (JObj ms) \<le> d" and n: "2 * length ((CHR ''{'' # s @ [CHR ''}'']) @ r) < n"
    obtain d' where d': "d = Suc d'" using d by (cases d) auto
    obtain m where m: "n = Suc m" using n by (cases n) auto
    have "parse_members h m d' (skip_ws (s @ CHR ''}'' # r)) = Inr (ms, r)"
      using obj.IH [rule_format, of d' r m] depth_obj [OF d [unfolded d']] n m by auto
    moreover obtain cs where "skip_ws (s @ CHR ''}'' # r) = CHR 0x22 # cs" using members_opens [OF obj.hyps(1)] by blast
    moreover have "pairs_hook h ms = Inr (JObj ms)" using h obj.hyps(2) by (simp add: dict_hooks_def)
    ultimately show "parse_value h n d ((CHR ''{'' # s @ [CHR ''}'']) @ r) = Inr (JObj ms, r)" using d' m by simp
  qed
next
  case (last w v s w')
  show ?case
  proof (intro allI impI)
    fix d n r assume d: "\<forall>v \<in> set [v]. jdepth v \<le> d" and n: "2 * length ((w @ s @ w') @ CHR '']'' # r) + 1 < n"
    obtain m where m: "n = Suc m" using n by (cases n) auto
    have "parse_value h m d (s @ w' @ CHR '']'' # r) = Inr (v, w' @ CHR '']'' # r)"
      using last.IH [rule_format, of d "w' @ CHR '']'' # r" m] d n m num_stop_blank [OF last.hyps(3)] by simp
    then show "parse_elems h n d (skip_ws ((w @ s @ w') @ CHR '']'' # r)) = Inr ([v], r)"
      using read_elem [OF _ last.hyps(3) _ last.hyps(2,1)] m by simp
  qed
next
  case (more w v s w' vs t)
  show ?case
  proof (intro allI impI)
    fix d n r assume d: "\<forall>v \<in> set (v # vs). jdepth v \<le> d" and n: "2 * length ((w @ s @ w' @ CHR '','' # t) @ CHR '']'' # r) + 1 < n"
    obtain m where m: "n = Suc m" using n by (cases n) auto
    have "parse_value h m d (s @ w' @ CHR '','' # t @ CHR '']'' # r) = Inr (v, w' @ CHR '','' # t @ CHR '']'' # r)"
      using more.IH(1) [rule_format, of d "w' @ CHR '','' # t @ CHR '']'' # r" m] d n m num_stop_blank [OF more.hyps(3)] by simp
    moreover have "parse_elems h m d (skip_ws (t @ CHR '']'' # r)) = Inr (vs, r)" using more.IH(2) [rule_format, of d r m] d n m by simp
    ultimately show "parse_elems h n d (skip_ws ((w @ s @ w' @ CHR '','' # t) @ CHR '']'' # r)) = Inr (v # vs, r)"
      using read_elem [OF _ more.hyps(3) _ more.hyps(2,1)] m by simp
  qed
next
  case (mlast w k w1 w2 v s w' a)
  show ?case
  proof (intro allI impI)
    fix d n r assume d: "\<forall>(k, v) \<in> set [(k, v)]. jdepth v \<le> d"
      and n: "2 * length ((w @ quote a k @ w1 @ CHR '':'' # w2 @ s @ w') @ CHR ''}'' # r) + 1 < n"
    obtain m where m: "n = Suc m" using n by (cases n) auto
    have "parse_value h m d (s @ w' @ CHR ''}'' # r) = Inr (v, w' @ CHR ''}'' # r)"
      using mlast.IH [rule_format, of d "w' @ CHR ''}'' # r" m] d n m num_stop_blank [OF mlast.hyps(6)] by simp
    then show "parse_members h n d (skip_ws ((w @ quote a k @ w1 @ CHR '':'' # w2 @ s @ w') @ CHR ''}'' # r)) = Inr ([(k, v)], r)"
      using read_member [OF _ mlast.hyps(6) _ mlast.hyps(5,1,3,4,2)] m by simp
  qed
next
  case (mmore w k w1 w2 v s w' ms t a)
  show ?case
  proof (intro allI impI)
    fix d n r assume d: "\<forall>(k, v) \<in> set ((k, v) # ms). jdepth v \<le> d"
      and n: "2 * length ((w @ quote a k @ w1 @ CHR '':'' # w2 @ s @ w' @ CHR '','' # t) @ CHR ''}'' # r) + 1 < n"
    obtain m where m: "n = Suc m" using n by (cases n) auto
    have "parse_value h m d (s @ w' @ CHR '','' # t @ CHR ''}'' # r) = Inr (v, w' @ CHR '','' # t @ CHR ''}'' # r)"
      using mmore.IH(1) [rule_format, of d "w' @ CHR '','' # t @ CHR ''}'' # r" m] d n m num_stop_blank [OF mmore.hyps(6)] by simp
    moreover have "parse_members h m d (skip_ws (t @ CHR ''}'' # r)) = Inr (ms, r)" using mmore.IH(2) [rule_format, of d r m] d n m by auto
    ultimately show "parse_members h n d (skip_ws ((w @ quote a k @ w1 @ CHR '':'' # w2 @ s @ w' @ CHR '','' # t) @ CHR ''}'' # r)) = Inr ((k, v) # ms, r)"
      using read_member [OF _ mmore.hyps(6) _ mmore.hyps(5,1,3,4,2)] m by simp
  qed
qed

lemma loads_layout:
  assumes "dict_hooks h" "layout v s" "jdepth v \<le> limit" "blank w" "blank w'"
  shows "loads h limit (w @ s @ w') = Inr v"
proof -
  have o: "opens s" by (rule layout_opens [OF assms(2)])
  have "num_stop w'" using num_stop_blank [OF assms(5), of "[]"] by simp
  then have p: "parse_value h (parse_fuel (w @ s @ w')) limit (s @ w') = Inr (v, w')"
    by (intro layout_reads(1) [OF assms(1,2), rule_format] assms(3)) (simp_all add: parse_fuel_def)
  have "\<not> startswith (w @ s @ w') bom"
  proof (cases w)
    case Nil
    have "is_ascii (hd s)" using assms(2)
    proof (cases v s rule: layout.cases)
      case (int i)
      then show ?thesis using print_ascii [of "JInt i" undefined True] show_int_hd [of i] by auto
    qed (auto simp: is_ascii_def quote_def)
    with o Nil show ?thesis by (auto simp: opens_def bom_def is_ascii_def)
  qed (use assms(4) in \<open>auto simp: bom_def blank_def is_json_ws_def\<close>)
  moreover have "skip_ws w' = []" using assms(5) by (simp add: blank_def list_all_iff)
  ultimately show ?thesis using p skip_value [OF assms(2,4)] by (simp add: loads_def)
qed

section \<open>The encoder's layouts\<close>

lemma blank_simps [simp]: "blank []" "blank (CHR 0x0A # w) = blank w" "blank (replicate n (CHR '' '') @ w) = blank w" "blank (CHR '' '' # w) = blank w"
    "blank (replicate n (CHR '' ''))"
  by (auto simp: blank_def is_json_ws_def list_all_iff)

lemma elems_join:
  assumes "\<And>v. v \<in> set vs \<Longrightarrow> layout v (f v)" "vs \<noteq> []" "blank w" "blank w'"
  shows "elems vs (join_on (CHR '','') (map (\<lambda>v. w @ f v) vs) @ w')"
  using assms
proof (induction vs rule: induct_list012)
  case (2 v)
  then show ?case using last [of w v "f v" w'] by simp
next
  case (3 v u vs)
  then have "elems (u # vs) (join_on (CHR '','') (map (\<lambda>v. w @ f v) (u # vs)) @ w')" by simp
  then show ?case using more [of w v "f v" "[]"] 3 by simp
qed simp

lemma members_join:
  assumes "\<And>k v. (k, v) \<in> set ms \<Longrightarrow> isascii k \<and> layout v (f v)" "ms \<noteq> []" "blank w" "blank w2" "blank w'"
  shows "members ms (join_on (CHR '','') (map (\<lambda>(k, v). w @ quote a k @ CHR '':'' # w2 @ f v) ms) @ w')"
  using assms
proof (induction ms rule: induct_list012)
  case (2 m)
  then show ?case using mlast [of w "fst m" "[]" w2 "snd m" "f (snd m)" w' a] by (cases m) simp
next
  case (3 m u ms)
  have "members (u # ms) (join_on (CHR '','') (map (\<lambda>(k, v). w @ quote a k @ CHR '':'' # w2 @ f v) (u # ms)) @ w')"
    by (rule 3(2)) (use 3(3-) in auto)
  moreover obtain k v where m: "m = (k, v)" by (cases m)
  moreover have "isascii k" "layout v (f v)" using 3(3) [of k v] m by auto
  ultimately show ?case using mmore [of w k "[]" w2 v "f v" "[]" "u # ms" _ a] 3(5-) by simp
qed simp

lemma pretty_layout: "jplain v \<Longrightarrow> layout v (pretty e n v)"
proof (induction v arbitrary: n)
  case (JArr vs)
  let ?w = "CHR 0x0A # replicate (n + 2) (CHR '' '')"
  show ?case
  proof (cases "vs = []")
    case False
    have "elems vs (join_on (CHR '','') (map (\<lambda>v. ?w @ pretty e (n + 2) v) vs) @ CHR 0x0A # replicate n (CHR '' ''))"
      using JArr False by (intro elems_join) (auto simp: list_all_iff)
    from arr [OF this] False show ?thesis by simp
  qed (use arr0 [of "[]"] in simp)
next
  case (JObj ms)
  let ?w = "CHR 0x0A # replicate (n + 2) (CHR '' '')"
  show ?case
  proof (cases "ms = []")
    case False
    have "members ms (join_on (CHR '','') (map (\<lambda>(k, v). ?w @ quote True k @ CHR '':'' # '' '' @ pretty e (n + 2) v) ms) @ CHR 0x0A # replicate n (CHR '' ''))"
      using JObj False by (intro members_join) (fastforce simp: list_all_iff)+
    from obj [OF this] JObj.prems False show ?thesis by simp
  qed (use obj0 [of "[]"] in simp)
next
  case (JBool b)
  show ?case using bool [of b] by simp
qed (auto intro: layout_elems_members.intros)

end
