(* ===== verification/New_Places.thy ===== *)
theory New_Places
  imports Transport_Facts Setup_Host
begin

text \<open>
  Where a call that creates a file or a directory puts it: the path then resolves to the new
  place, and the place was free before.
\<close>

lemma walk_snoc:
  "walk n f d cs = Inr x \<Longrightarrow> CHR 0x00 \<notin> set c \<Longrightarrow> c \<noteq> ''..'' \<Longrightarrow> dget f (x @ [c]) = Some nd \<Longrightarrow> \<not> is_link nd
    \<Longrightarrow> walk n f d (cs @ [c]) = Inr (x @ [c])"
proof (induction n f d cs arbitrary: x rule: walk.induct)
  case (1 n f d)
  then show ?case by (auto simp: is_link_def split: kind.splits)
next
  case (2 n f d b cs)
  show ?case
  proof (cases "CHR 0x00 \<in> set b \<or> b = ''..''")
    case True
    then show ?thesis using 2 by (auto split: if_splits)
  next
    case False
    with 2(5) obtain bd where bd: "dget f (d @ [b]) = Some bd" by (auto split: option.splits)
    show ?thesis
    proof (cases "n_kind bd")
      case (Link t)
      with 2(5) False bd obtain m where m: "n = Suc m" by (cases n) auto
      have "walk m f (if is_absolute (py_path t) then [] else d) ((p_parts (py_path t) @ cs) @ [c]) = Inr (x @ [c])"
        by (rule 2(4) [OF _ _ bd Link m refl _ 2(6-9)]) (use False 2(5) bd Link m in \<open>auto simp: Let_def\<close>)
      then show ?thesis using False bd Link m by (simp add: Let_def)
    qed (use 2 False bd in auto)
  qed
qed

lemma created_resolves:
  assumes "new_place h p = Inr cs" "dget f cs = Some nd" "\<not> is_link nd"
    and "\<And>k nd. dget (h_fs h) k = Some nd \<Longrightarrow> dget f k = Some nd"
  shows "resolve_parts f (h_cwd h) p = Inr cs"
proof -
  obtain ds where ds: "resolve_parts (h_fs h) (h_cwd h) (path_parent p) = Inr ds" "cs = ds @ [last (p_parts p)]" "p_parts p \<noteq> []"
      "CHR 0x00 \<notin> set (last (p_parts p))" "last (p_parts p) \<noteq> ''..''"
    using assms(1) by (auto simp: new_place_def res_simps split: if_splits option.splits)
  have "walk max_links f (if is_absolute p then [] else h_cwd h) (butlast (p_parts p)) = Inr ds"
    using ds(1) assms(4) by (auto simp: resolve_parts_def path_parent_def is_absolute_def intro: walk_grows)
  then have "walk max_links f (if is_absolute p then [] else h_cwd h) (butlast (p_parts p) @ [last (p_parts p)]) = Inr cs"
    using walk_snoc ds assms(2,3) by blast
  then show ?thesis using ds(3) by (simp add: resolve_parts_def)
qed

lemma mkdir_created:
  assumes "mkdir p m False h = (Inr (), h1)"
  shows "\<exists>cs. resolve_parts (h_fs h1) (h_cwd h1) p = Inr cs \<and> dget (h_fs h) cs = None"
proof -
  obtain r h0 where 0: "io_ok h = (r, h0)" by fastforce
  then have c: "h0 = called h" using io_ok_cases by blast
  have "\<exists>u. r = Inr u" using assms 0 by (cases r) (auto simp: mkdir_def sx_bind_def)
  then have "(case new_place h0 p of Inr cs \<Rightarrow> (Inr (), put_node cs Dir m h0) | Inl x \<Rightarrow> (Inl x, h0)) = (Inr (), h1)"
    using assms 0 by (auto simp: mkdir_def sx_bind_def split: sum.splits)
  then obtain cs where cs: "new_place h0 p = Inr cs" "h1 = put_node cs Dir m h0" by (auto split: sum.splits)
  have "resolve_parts (h_fs h1) (h_cwd h0) p = Inr cs"
    by (rule created_resolves [OF cs(1)]) (use new_place_free [OF cs(1)] cs(2) in \<open>auto simp: put_node_def is_link_def\<close>)
  then show ?thesis using new_place_free [OF cs(1)] c cs(2) by (auto simp: put_node_def)
qed

lemma write_created:
  assumes "write_new p b m h = (Inr (), h1)"
  shows "\<exists>cs. resolve_parts (h_fs h1) (h_cwd h1) p = Inr cs \<and> dget (h_fs h) cs = None"
  using assms
proof (cases rule: write_new_cases)
  case (2 cs n)
  have "resolve_parts (h_fs h1) (h_cwd (called h)) p = Inr cs"
    by (rule created_resolves [OF 2(1)]) (use new_place_free [OF 2(1)] 2(3) in \<open>auto simp: put_node_def is_link_def\<close>)
  then show ?thesis using new_place_free [OF 2(1)] 2(3) by (auto simp: put_node_def)
qed simp

end
