(* ===== verification/Eval_Facts.thy ===== *)
theory Eval_Facts
  imports Eval_Prepare Setup_Binding Json_Layout New_Places
begin

text \<open>
  What the generated runtime is good for: the Compose file it writes is accepted by each of the
  three programs that check it later, the live-test validator, the runtime service and the
  operator setup host, although each states its rules on its own.  Generating never touches a
  file that was there before.
\<close>

section \<open>Reading back the generated documents\<close>

definition tame :: "char \<Rightarrow> bool" where
  "tame c \<longleftrightarrow> 0 < ord c \<and> ord c < 128"

lemma tame_marks: "tame (CHR '','')" "tame (CHR ''['')" "tame (CHR '']'')" "tame (CHR ''{'')" "tame (CHR ''}'')" "tame (CHR '':'')" "tame (CHR '' '')"
    "tame (CHR 0x0A)"
  by (simp_all add: tame_def)

lemma tame_plain: "list_all plain_char s \<Longrightarrow> list_all tame s"
  by (auto simp: list_all_iff plain_char_def tame_def)

lemma tame_join: "tame d \<Longrightarrow> list_all (list_all tame) ss \<Longrightarrow> list_all tame (join_on d ss)"
  by (induction d ss rule: join_on.induct) auto

lemma tame_quote: "isascii s \<Longrightarrow> list_all tame (quote True s)"
  using print_plain [of "JStr s" undefined] tame_plain by simp

lemma tame_blank: "list_all tame (replicate n (CHR '' ''))"
  by (simp add: list_all_iff tame_def)

lemma tame_pretty: "jplain v \<Longrightarrow> list_all tame (pretty e n v)"
proof (induction v arbitrary: n)
  case (JArr vs)
  then have "list_all (list_all tame) (map (\<lambda>v. CHR 0x0A # replicate (n + 2) (CHR '' '') @ pretty e (n + 2) v) vs)"
    using tame_blank by (auto simp: list_all_iff tame_marks)
  then show ?case using tame_join [of "CHR '',''"] tame_blank by (simp add: tame_marks)
next
  case (JObj ms)
  then have "list_all (list_all tame) (map (\<lambda>(k, v). CHR 0x0A # replicate (n + 2) (CHR '' '') @ quote True k @ '': '' @ pretty e (n + 2) v) ms)"
    using tame_blank tame_quote by (fastforce simp: list_all_iff tame_marks)
  then show ?case using tame_join [of "CHR '',''"] tame_blank by (simp add: tame_marks)
next
  case (JInt i)
  then show ?case using print_plain [of "JInt i" undefined] tame_plain by simp
qed (auto simp: tame_def tame_quote)

lemma tame_text: "list_all tame s \<Longrightarrow> s \<noteq> [] \<Longrightarrow> \<not> is_wide s \<and> \<not> startswith s bom \<and> isascii s"
  by (cases s; cases "tl s") (auto simp: is_wide_def bom_def tame_def isascii_def is_ascii_def list_all_iff startswith_iff)

lemma json_text_loads:
  assumes "dict_hooks h" "jplain v" "jdepth v \<le> nest_limit e"
  shows "loads_bytes h e (json_text e v) = Inr (jsort v)"
proof -
  have p: "jplain (jsort v)" and d: "jdepth (jsort v) \<le> nest_limit e" using assms jplain_jsort jdepth_jsort [of v] by auto
  have "loads h (nest_limit e) ([] @ pretty e 0 (jsort v) @ [CHR 0x0A]) = Inr (jsort v)"
    by (rule loads_layout [OF assms(1) pretty_layout [OF p] d]) simp_all
  moreover have "list_all tame (json_text e v)" using tame_pretty [OF p] by (simp add: json_text_def tame_def)
  ultimately show ?thesis using tame_text [of "json_text e v"]
    by (simp add: loads_bytes_def utf8_decode_ascii isascii_def json_text_def)
qed

section \<open>The Compose file\<close>

lemma ref_differs:
  assumes "is_sha_ref i" "is_pinned_ref r"
  shows "r \<noteq> i"
proof
  assume eq: "r = i"
  obtain s where s: "i = ''sha256:'' @ s" "is_sha256_hex s" using assms(1) by (auto simp: is_sha_ref_def startswith_iff)
  have "CHR ''@'' \<notin> set s" using s(2) by (auto simp: is_sha256_hex_def fullmatch_n_def list_all_iff is_lower_hex_def is_digit_def in_range_def)
  then have "CHR ''@'' \<notin> set i" using s(1) by simp
  moreover obtain a b where "split_first (CHR ''@'') i = Some (a, b)" using assms(2) eq by (auto simp: is_pinned_ref_def split: option.splits)
  ultimately show False using split_first_Some [of "CHR ''@''" i a b] by auto
qed

lemma ascii_pinned: "is_pinned_ref r \<Longrightarrow> isascii r"
proof -
  assume r: "is_pinned_ref r"
  then obtain a b where ab: "split_first (CHR ''@'') r = Some (a, b)" "list_all (\<lambda>c. is_lower c \<or> is_digit c \<or> c \<in> set ''./:_-'') a" "is_sha_ref b"
    by (auto simp: is_pinned_ref_def split: option.splits)
  have "isascii a" using ab(2) by (auto simp: isascii_def list_all_iff is_ascii_def is_lower_def is_digit_def in_range_def)
  moreover have "r = a @ CHR ''@'' # b" using split_first_Some [OF ab(1)] by simp
  ultimately show ?thesis using ascii_ref [OF ab(3)] by (simp add: isascii_def is_ascii_def)
qed

definition pinned :: "string \<Rightarrow> (string \<Rightarrow> string) \<Rightarrow> string \<Rightarrow> bool" where
  \<comment> \<open>an image digest, a lock of pinned references and a token of six bytes\<close>
  "pinned img ref token \<longleftrightarrow> is_sha_ref img \<and> list_all (\<lambda>k. is_pinned_ref (ref k)) LOCK_NAMES \<and> is_hex_n 12 token"

lemma pinnedD:
  assumes "pinned img ref token"
  shows "is_sha_ref img" "ref ''postgres'' \<noteq> img" "ref ''redis'' \<noteq> img" "ref ''rabbitmq'' \<noteq> img" "ref ''elasticsearch'' \<noteq> img"
    "is_pinned_ref (ref ''postgres'')" "is_pinned_ref (ref ''redis'')" "is_pinned_ref (ref ''rabbitmq'')" "is_pinned_ref (ref ''elasticsearch'')"
    "is_project (''santa-zentral-eval-'' @ token)" "is_hex_n 12 token"
  using assms ref_differs by (auto simp: pinned_def LOCK_NAMES_def is_project_def)

lemma has_keys_obj: "has_keys (JObj ms) ks = Inr (set (map fst ms) \<subseteq> set ks \<and> set ks \<subseteq> set (map fst ms))"
proof -
  have "inj JStr" by (simp add: inj_def)
  then show ?thesis by (auto simp: has_keys_def set_of_def inj_image_eq_iff)
qed

lemma set_of_obj: "set_of (JObj ms) = Inr (JStr ` set (map fst ms))"
  by (simp add: set_of_def)

lemmas eval_defs = eval_compose_def eval_services_def app_service_def eval_service_def strs_def Runtime_Bundle.REDIS_COMMAND_def

lemmas check_defs = sort_key_def demands_def demand_def get_or_def full_match_def services_of_def service_of_def get_is_def item_eq_def
  res_not_def res_or_def res_and_def strs_def DEPENDENCIES_def APPS_def has_keys_obj set_of_obj

lemma generated_valid: "pinned img ref token \<Longrightarrow> compose_ok (jsort (eval_compose img ref token)) = Inr ()"
  using pinnedD [of img ref token] unfolding eval_defs
  by (simp add: check_defs compose_ok_def compose_service_def FORBIDDEN_def is_mount_def MOUNTS_def compose_redis_def Runtime_Bundle.REDIS_COMMAND_def)

lemma generated_bundle: "pinned img ref token \<Longrightarrow> bundle_ok (jsort (eval_compose img ref token)) = Inr ()"
  using pinnedD [of img ref token] unfolding eval_defs
  by (simp add: check_defs bundle_ok_def app_images_ok_def image_of_def bundle_volumes_def VOLUMES_def sorted_texts_def)

lemma generated_config:
  "pinned img ref token \<Longrightarrow> config_checks (jsort (eval_compose img ref token)) = Inr (''santa-zentral-eval-'' @ token)"
  using pinnedD [of img ref token] unfolding eval_defs
  by (simp add: check_defs config_checks_def SETUP_VOLUMES_def SETUP_SERVICES_def)

lemma generated_declared:
  "pinned img ref token \<Longrightarrow> item_of b ''ImageId'' = Inr (JStr img)
    \<Longrightarrow> res_bind (services_of (jsort (eval_compose img ref token))) (res_map (\<lambda>(service, decl). declared_image b service decl))
      = Inr [img, ref ''postgres'', ref ''elasticsearch'', ref ''rabbitmq'', ref ''redis'', img, img]"
  using pinnedD [of img ref token] unfolding eval_defs
  by (simp add: check_defs declared_image_def SETUP_ALLOWED_def expected_mounts_def env_name_def bare_def)

lemma generated_redis:
  "pinned img ref token \<Longrightarrow> set networks = {n} \<Longrightarrow> redis_checks (jsort (eval_compose img ref token)) networks = Inr ()"
proof -
  assume a: "pinned img ref token" "set networks = {n}"
  have "length (remdups networks) = 1" using a(2) by (simp add: length_remdups_card_conv)
  then show ?thesis using pinnedD [OF a(1)] unfolding eval_defs
    by (simp add: check_defs redis_checks_def Setup_Host.REDIS_COMMAND_def)
qed

lemma generated_plain: "pinned img ref token \<Longrightarrow> jplain (eval_compose img ref token) \<and> jdepth (eval_compose img ref token) \<le> 5"
  using pinnedD [of img ref token] ascii_ref ascii_pinned ascii_hex unfolding eval_defs
  by (simp add: isascii_def is_ascii_def)

text \<open>
  C31: what is generated is what is accepted.  For every image digest, lock of pinned references
  and project token, the text of the generated Compose file decodes, with and without the
  strict hook, to a configuration that the validator of the live tests, the bundle check of
  the runtime service and the attestation of the setup host all accept: the host finds the
  project, the declared image of every service, and the durable settings of Redis.
\<close>

theorem generated_compose_accepted:
  assumes "pinned img ref token" "5 \<le> nest_limit e" "item_of b ''ImageId'' = Inr (JStr img)" "set networks = {n}"
  shows "\<exists>config. load_json e (json_text e (eval_compose img ref token)) = Inr config
    \<and> setup_loads_bytes e (json_text e (eval_compose img ref token)) = Inr config
    \<and> compose_ok config = Inr () \<and> bundle_ok config = Inr ()
    \<and> config_checks config = Inr (''santa-zentral-eval-'' @ token) \<and> redis_checks config networks = Inr ()
    \<and> res_bind (services_of config) (res_map (\<lambda>(service, decl). declared_image b service decl))
        = Inr [img, ref ''postgres'', ref ''elasticsearch'', ref ''rabbitmq'', ref ''redis'', img, img]"
proof -
  let ?v = "eval_compose img ref token"
  have p: "jplain ?v" and d: "jdepth ?v \<le> nest_limit e" using generated_plain [OF assms(1)] assms(2) by auto
  have "load_json e (json_text e ?v) = Inr (jsort ?v)" unfolding load_json_def by (rule json_text_loads [OF default_dict_hooks p d])
  moreover have "setup_loads_bytes e (json_text e ?v) = Inr (jsort ?v)" unfolding setup_loads_bytes_def by (rule json_text_loads [OF setup_dict_hooks p d])
  ultimately show ?thesis
    using generated_valid [OF assms(1)] generated_bundle [OF assms(1)] generated_config [OF assms(1)] generated_declared [OF assms(1,3)] generated_redis [OF assms(1,4)]
    by auto
qed

section \<open>Existing files\<close>

lemma chmod_created:
  assumes "resolve_parts (h_fs h1) (h_cwd h1) p = Inr cs" "dget (h_fs h) cs = None" "fs_grows h h1"
  shows "fs_grows h (snd (chmod p m h1))"
proof -
  obtain r h2 where 2: "io_ok h1 = (r, h2)" by fastforce
  then have "h2 = called h1" using io_ok_cases by blast
  with 2 assms show ?thesis
    by (cases r) (auto simp: chmod_def sx_bind_def fs_grows_def split: option.splits)
qed

lemma then_chmod:
  assumes m: "grows.keeps m" and created: "\<And>h h1. m h = (Inr (), h1) \<Longrightarrow> \<exists>cs. resolve_parts (h_fs h1) (h_cwd h1) p = Inr cs \<and> dget (h_fs h) cs = None"
    and f: "grows.keeps f"
  shows "grows.keeps (sx_bind m (\<lambda>_. sx_bind (chmod p k) (\<lambda>_. f)))"
proof (rule grows.keepsI)
  fix h r h' assume run: "sx_bind m (\<lambda>_. sx_bind (chmod p k) (\<lambda>_. f)) h = (r, h')"
  obtain r1 h1 where 1: "m h = (r1, h1)" by fastforce
  have g: "fs_grows h h1" using m 1 by (metis grows.keeps_def snd_conv)
  show "fs_grows h h'"
  proof (cases r1)
    case (Inl x)
    with run 1 g show ?thesis by (simp add: sx_bind_def)
  next
    case (Inr u)
    obtain r2 h2 where 2: "chmod p k h1 = (r2, h2)" by fastforce
    have "fs_grows h h2" using chmod_created [of h1 p _ h k] created [of h h1] g 1 2 Inr by (metis old.unit.exhaust snd_conv)
    moreover have "fs_grows h2 h'" if "r2 = Inr v" for v
      using run 1 2 Inr that grows.keepsD [OF f] by (auto simp: sx_bind_def)
    ultimately show ?thesis using run 1 2 Inr fs_grows_trans by (cases r2) (auto simp: sx_bind_def)
  qed
qed

lemma keeps_outside: "grows.keeps (outside f)"
  by (auto simp: grows.keeps_def outside_def fs_grows_def Let_def split: prod.splits)

lemma keeps_check_sources: "grows.keeps (check_sources base fs)"
  by (induction fs) (auto simp: check_source_def Let_def split: prod.splits
    intro!: grows.keeps_bind grows.keeps_return grows.keeps_lift keeps_look keeps_read)

lemma keeps_write_envs: "grows.keeps (write_envs d fs)"
  by (induction fs) (auto intro!: grows.keeps_bind grows.keeps_return keeps_write_new)

lemma keeps_eval_files: "grows.keeps (eval_files e src d config compose s img lock variant profile)"
  unfolding eval_files_def Let_def
  by (intro grows.keeps_bind [OF keeps_mkdir] then_chmod [OF keeps_mkdir mkdir_created] then_chmod [OF keeps_write_new write_created]
       grows.keeps_bind [OF keeps_write_envs] grows.keeps_bind [OF keeps_write_new] grows.keeps_bind [OF keeps_read_text] keeps_write_new)
     (auto intro!: grows.keeps_bind grows.keeps_return keeps_write_new keeps_read_text)

lemma keeps_draw: "grows.keeps (draw_secrets e b)"
  unfolding draw_secrets_def by (auto intro!: grows.keeps_bind grows.keeps_return keeps_outside)

text \<open>
  Generating changes nothing that exists.  Whatever the inputs and whichever call fails,
  every file, directory and link that existed before is the same afterwards, its mode
  included: the two mode changes only reach what the run itself has created.
\<close>

theorem generation_keeps_files: "fs_grows h (snd (eval_prepare e src img lock dest variant prof h))"
proof -
  have "grows.keeps (eval_prepare e src img lock dest variant prof)"
    unfolding eval_prepare_def
    by (intro grows.keeps_bind grows.keeps_lift keeps_look keeps_check_sources keeps_read_text keeps_draw keeps_outside keeps_eval_files)
  then show ?thesis by (simp add: grows.keeps_def)
qed

section \<open>Witnesses\<close>

definition demo_img :: string where
  "demo_img = ''sha256:'' @ replicate 64 (CHR ''a'')"

definition demo_ref :: "string \<Rightarrow> string" where
  "demo_ref k = k @ ''@sha256:'' @ replicate 64 (CHR ''b'')"

lemma demo_pinned: "pinned demo_img demo_ref (replicate 12 (CHR ''0''))"
  by code_simp

theorem generated_compose_accepted_witness:
  "\<exists>config. load_json \<lparr>float_of = \<lambda>_. Fin 0, float_repr = \<lambda>_. ''0'', nest_limit = 100, decode_wide = Inr\<rparr>
      (json_text \<lparr>float_of = \<lambda>_. Fin 0, float_repr = \<lambda>_. ''0'', nest_limit = 100, decode_wide = Inr\<rparr>
        (eval_compose demo_img demo_ref (replicate 12 (CHR ''0'')))) = Inr config
    \<and> compose_ok config = Inr () \<and> bundle_ok config = Inr ()"
  using generated_compose_accepted [OF demo_pinned, of "\<lparr>float_of = \<lambda>_. Fin 0, float_repr = \<lambda>_. ''0'', nest_limit = 100, decode_wide = Inr\<rparr>"
      "JObj [(''ImageId'', JStr demo_img)]" "[''n'']" "''n''"]
  by auto

end
