(* ===== verification/Database_Roles.thy ===== *)
theory Database_Roles
  imports Runtime_Service
begin

text \<open>
  The separation of the database owner from the runtime role,
  \<open>experiments/server/database_roles.py\<close>: the environment file of the runtime, the checks of the
  restricted role, the one initialisation of a fresh database with its two receipts, and the
  management command.  PostgreSQL, Django's migrations and the store model are parameters that
  answer statements and commands; every one that is run is recorded as an event.
\<close>

datatype sqlval = VBool bool | VText string | VInt int | VNull

type_synonym row = "sqlval list option"  \<comment> \<open>\<open>fetchone()\<close>\<close>

datatype sqlarg = Param sqlval | Ident string | Lit string

datatype stmt = Stmt string "sqlarg list"  \<comment> \<open>the text with its placeholders, and what they stand for\<close>

datatype session = Owner | Probe  \<comment> \<open>the connection of Django, and the independent one\<close>

datatype event =
    Ran session stmt "row res"
  | Migrated | Provisioned | Connected | Closed | Began | Committed | RolledBack

record 'x dbworld =
  events :: "event list"
  said :: "string list"
  rest :: 'x

type_synonym 'x dhost = "'x dbworld host"

record 'x db_env =
  de_py :: py_env
  de_settings :: environ  \<comment> \<open>\<open>connection.settings_dict\<close>\<close>
  de_sql :: "session \<Rightarrow> stmt \<Rightarrow> 'x \<Rightarrow> row res \<times> 'x"
  de_migrate :: "'x \<Rightarrow> unit res \<times> 'x"
  de_provision :: "'x \<Rightarrow> unit res \<times> 'x"
  de_connect :: "string \<Rightarrow> string \<Rightarrow> string \<Rightarrow> string \<Rightarrow> string \<Rightarrow> 'x \<Rightarrow> unit res \<times> 'x"  \<comment> \<open>host, port, database, user, password\<close>
  de_begin :: "'x \<Rightarrow> unit res \<times> 'x"
  de_commit :: "'x \<Rightarrow> unit res \<times> 'x"
  de_rollback :: "'x \<Rightarrow> 'x"
  de_pending :: "'x \<Rightarrow> bool res \<times> 'x"  \<comment> \<open>whether the migration plan is not empty\<close>
  de_stores :: "'x \<Rightarrow> nat res \<times> 'x"
  de_elastic :: "'x \<Rightarrow> bool res \<times> 'x"  \<comment> \<open>the filtered query for the one expected store\<close>

definition DB_BOOTSTRAP :: string where "DB_BOOTSTRAP = ''zentral_owner''"

definition DB_RUNTIME :: string where "DB_RUNTIME = ''zentral_runtime''"

definition DB_NAME :: string where "DB_NAME = ''zentral''"

definition DB_ENV_KEYS :: "string list" where
  "DB_ENV_KEYS = [''POSTGRES_USER'', ''POSTGRES_PASSWORD'', ''ZENTRAL_DJANGO_SECRET'',
     ''ZENTRAL_METRICS_TOKEN'', ''AZD_SANTA_SECURITY_STORE_ID'', ''ZENTRAL_QUEUE_URL'']"

section \<open>Calls\<close>

definition happens :: "event \<Rightarrow> ('x dhost, unit) sx" where
  "happens v h = (Inr (), h\<lparr>h_world := (h_world h)\<lparr>events := events (h_world h) @ [v]\<rparr>\<rparr>)"

definition db_call :: "('x \<Rightarrow> 'a res \<times> 'x) \<Rightarrow> ('x dhost, 'a) sx" where
  "db_call f h = (let (r, x) = f (rest (h_world h)) in (r, h\<lparr>h_world := (h_world h)\<lparr>rest := x\<rparr>\<rparr>))"

definition db_query :: "'x db_env \<Rightarrow> session \<Rightarrow> stmt \<Rightarrow> ('x dhost, row) sx" where
  \<comment> \<open>\<open>cursor.execute(...)\<close> and \<open>cursor.fetchone()\<close>\<close>
  "db_query e s q h =
     (let w = h_world h; (r, x) = de_sql e s q (rest w)
      in (r, h\<lparr>h_world := w\<lparr>rest := x, events := events w @ [Ran s q r]\<rparr>\<rparr>))"

definition db_execute :: "'x db_env \<Rightarrow> session \<Rightarrow> stmt \<Rightarrow> ('x dhost, unit) sx" where
  "db_execute e s q = sx_bind (db_query e s q) (\<lambda>_. sx_return ())"

definition sql_true :: "sqlval \<Rightarrow> bool" where
  "sql_true v = (case v of VBool b \<Rightarrow> b | VText s \<Rightarrow> s \<noteq> [] | VInt i \<Rightarrow> i \<noteq> 0 | VNull \<Rightarrow> False)"

fun num_sql :: "sqlval \<Rightarrow> int option" where
  "num_sql (VBool b) = Some (if b then 1 else 0)"
| "num_sql (VInt i) = Some i"
| "num_sql _ = None"

definition sql_eq :: "sqlval \<Rightarrow> sqlval \<Rightarrow> bool" where
  \<comment> \<open>\<open>a == b\<close>\<close>
  "sql_eq a b \<longleftrightarrow> a = b \<or> num_sql a \<noteq> None \<and> num_sql a = num_sql b"

definition row_is :: "sqlval list \<Rightarrow> row \<Rightarrow> bool" where
  "row_is vs r = (case r of None \<Rightarrow> False | Some ws \<Rightarrow> list_all2 sql_eq ws vs)"

definition first_col :: "row \<Rightarrow> sqlval res" where
  \<comment> \<open>\<open>cursor.fetchone()[0]\<close>\<close>
  "first_col r = (case r of None \<Rightarrow> Inl TypeError | Some [] \<Rightarrow> Inl IndexError | Some (v # _) \<Rightarrow> Inr v)"

section \<open>The runtime environment\<close>

fun env_lines :: "environ \<Rightarrow> string list \<Rightarrow> environ res" where
  "env_lines d [] = Inr d"
| "env_lines d (l # ls) =
     (case split_first (CHR ''='') l of
        None \<Rightarrow> Inl ValueError
      | Some (k, v) \<Rightarrow> res_bind (demand (k \<notin> set (map fst d))) (\<lambda>_. env_lines (d @ [(k, v)]) ls))"

definition runtime_checks :: "environ \<Rightarrow> unit res" where
  "runtime_checks d =
     demand (set (map fst d) = set DB_ENV_KEYS \<and> dget d ''POSTGRES_USER'' = Some DB_RUNTIME
       \<and> (case dget d ''POSTGRES_PASSWORD'' of Some s \<Rightarrow> fullmatch_n is_urlsafe 64 s | None \<Rightarrow> False))"

definition runtime_file :: "path \<Rightarrow> ('w host, environ) sx" where
  "runtime_file p =
     sx_bind (sx_lift (demand (is_absolute p))) (\<lambda>_.
     sx_bind (look (\<lambda>h. res_bind (resolve h p) (\<lambda>q. demand (p = q)))) (\<lambda>_.
     sx_bind (look (\<lambda>h. res_bind (stat_of h p) (\<lambda>nd. demand (regular nd \<and> n_uid nd = 0 \<and> \<not> mode_has nd 63)))) (\<lambda>_.
     sx_bind (read_text p) (\<lambda>t.
     sx_bind (sx_lift (env_lines [] (splitlines t))) (\<lambda>d.
     sx_bind (sx_lift (runtime_checks d)) (\<lambda>_. sx_return d))))))"

section \<open>The restricted role\<close>

definition PERMANENT_SCHEMAS :: string where
  "PERMANENT_SCHEMAS = ''n.oid <> pg_my_temp_schema() AND NOT pg_is_other_temp_schema(n.oid) AND n.nspname NOT IN (SELECT `pg_toast_temp_` || substr(t.nspname,9) FROM pg_namespace t WHERE t.oid=pg_my_temp_schema())''"

definition ME :: string where
  "ME = ''(SELECT oid FROM pg_roles WHERE rolname=current_user)''"

text \<open>
  The statements, with single spaces for the line breaks of the source and a backquote for
  the quote of a literal.
\<close>

datatype expectation = Is "sqlval list" | Falsy

definition ROLE_CHECKS :: "(string \<times> expectation) list" where
  "ROLE_CHECKS =
    [(''SELECT current_user, session_user, current_database()'', Is [VText DB_RUNTIME, VText DB_RUNTIME, VText DB_NAME]),
     (''SELECT rolsuper, rolcreatedb, rolcreaterole, rolreplication, rolbypassrls, rolinherit FROM pg_roles WHERE rolname = current_user'',
        Is (replicate 6 (VBool False))),
     (''SELECT EXISTS (SELECT 1 FROM pg_auth_members m JOIN pg_roles r ON r.oid=m.member WHERE r.rolname=current_user)'', Falsy),
     (''SELECT has_database_privilege(current_user,current_database(),`CREATE`), has_database_privilege(current_user,current_database(),`TEMPORARY`), has_schema_privilege(current_user,`public`,`CREATE`), has_schema_privilege(current_user,`public`,`USAGE`)'',
        Is [VBool False, VBool True, VBool False, VBool True]),
     (''SELECT datdba='' @ ME @ '' FROM pg_database WHERE datname=current_database()'', Falsy),
     (''SELECT EXISTS (SELECT 1 FROM pg_namespace n WHERE '' @ PERMANENT_SCHEMAS @ '' AND (n.nspowner='' @ ME @ '' OR has_schema_privilege(current_user,n.oid,`CREATE`)))'', Falsy),
     (''SELECT EXISTS (SELECT 1 FROM pg_class c JOIN pg_namespace n ON n.oid=c.relnamespace WHERE '' @ PERMANENT_SCHEMAS @ '' AND c.relowner='' @ ME @ '')'', Falsy),
     (''SELECT has_table_privilege(current_user,`public.django_migrations`,`SELECT`), has_table_privilege(current_user,`public.django_migrations`,`INSERT,UPDATE,DELETE,TRUNCATE,TRIGGER,REFERENCES`)'',
        Is [VBool True, VBool False]),
     (''SELECT EXISTS (SELECT 1 FROM pg_proc p JOIN pg_namespace n ON n.oid=p.pronamespace WHERE '' @ PERMANENT_SCHEMAS @ '' AND ((p.prosecdef AND n.nspname NOT IN (`pg_catalog`,`information_schema`)) OR p.proowner='' @ ME @ ''))'', Falsy)]"

definition expected :: "expectation \<Rightarrow> row \<Rightarrow> unit res" where
  "expected x r = (case x of
       Is vs \<Rightarrow> demand (row_is vs r)
     | Falsy \<Rightarrow> res_bind (first_col r) (\<lambda>v. demand (\<not> sql_true v)))"

fun run_checks :: "'x db_env \<Rightarrow> session \<Rightarrow> (string \<times> expectation) list \<Rightarrow> ('x dhost, unit) sx" where
  "run_checks e s [] = sx_return ()"
| "run_checks e s ((q, x) # cs) =
     sx_bind (db_query e s (Stmt q [])) (\<lambda>r. sx_bind (sx_lift (expected x r)) (\<lambda>_. run_checks e s cs))"

definition check_role :: "'x db_env \<Rightarrow> session \<Rightarrow> ('x dhost, unit) sx" where
  "check_role e s = run_checks e s ROLE_CHECKS"

definition setting :: "'x db_env \<Rightarrow> string \<Rightarrow> string res" where
  "setting e k = (case dget (de_settings e) k of None \<Rightarrow> Inl KeyError | Some v \<Rightarrow> Inr v)"

definition db_store_ready :: "'x db_env \<Rightarrow> ('x dhost, unit) sx" where
  "db_store_ready e =
     sx_bind (db_call (de_stores e)) (\<lambda>n.
     sx_bind (if n = 1 then db_call (de_elastic e) else sx_return False) (\<lambda>b. sx_lift (demand b)))"

definition check_runtime :: "'x db_env \<Rightarrow> ('x dhost, unit) sx" where
  "check_runtime e =
     sx_bind (sx_lift (res_bind (setting e ''USER'') (\<lambda>u. if u = DB_RUNTIME then res_bind (setting e ''NAME'') (\<lambda>n. demand (n = DB_NAME)) else Inl ValueError))) (\<lambda>_.
     sx_bind (check_role e Owner) (\<lambda>_.
     sx_bind (db_call (de_pending e)) (\<lambda>b.
     sx_bind (sx_lift (demand (\<not> b))) (\<lambda>_. db_store_ready e))))"

section \<open>The initialisation\<close>

definition LOCK_ARGS :: "sqlarg list" where
  "LOCK_ARGS = [Param (VInt 1396788820), Param (VInt 1094992433)]"

definition LOCK :: stmt where
  "LOCK = Stmt ''SELECT pg_try_advisory_lock(%s,%s)'' LOCK_ARGS"

definition UNLOCK :: stmt where
  "UNLOCK = Stmt ''SELECT pg_advisory_unlock(%s,%s)'' LOCK_ARGS"

definition falsy_query :: "'x db_env \<Rightarrow> stmt \<Rightarrow> ('x dhost, unit) sx" where
  "falsy_query e q = sx_bind (db_query e Owner q) (\<lambda>r. sx_lift (expected Falsy r))"

definition own_session :: "'x db_env \<Rightarrow> ('x dhost, sqlval) sx" where
  \<comment> \<open>the process of the connection\<close>
  "own_session e =
     sx_bind (db_query e Owner (Stmt ''SELECT current_user, session_user, current_database(), pg_backend_pid()'' [])) (\<lambda>r.
     sx_lift (case r of None \<Rightarrow> Inl TypeError
       | Some vs \<Rightarrow> res_bind (demand (row_is [VText DB_BOOTSTRAP, VText DB_BOOTSTRAP, VText DB_NAME] (Some (take 3 vs)))) (\<lambda>_.
           if length vs < 4 then Inl IndexError else Inr (vs ! 3))))"

definition fresh_checks :: "'x db_env \<Rightarrow> ('x dhost, unit) sx" where
  "fresh_checks e =
     sx_bind (falsy_query e (Stmt ''SELECT EXISTS(SELECT 1 FROM pg_roles WHERE rolname=%s)'' [Param (VText DB_RUNTIME)])) (\<lambda>_.
     sx_bind (falsy_query e (Stmt ''SELECT EXISTS(SELECT 1 FROM pg_class c JOIN pg_namespace n ON n.oid=c.relnamespace WHERE n.nspname !~ `^pg_` AND n.nspname <> `information_schema`)'' [])) (\<lambda>_.
     sx_bind (db_query e Owner (Stmt ''SELECT pg_get_userbyid(datdba) FROM pg_database WHERE datname=current_database()'' [])) (\<lambda>r.
     sx_bind (sx_lift (res_bind (first_col r) (\<lambda>v. demand (v = VText DB_BOOTSTRAP)))) (\<lambda>_.
       db_execute e Owner (Stmt ''SET search_path TO public, pg_catalog, pg_temp'' [])))))"

definition command_call :: "event \<Rightarrow> ('x \<Rightarrow> unit res \<times> 'x) \<Rightarrow> ('x dhost, unit) sx" where
  \<comment> \<open>a call that is recorded before it runs\<close>
  "command_call v f = sx_bind (happens v) (\<lambda>_. db_call f)"

definition CREATE_ROLE :: string where
  "CREATE_ROLE = ''CREATE ROLE {} LOGIN NOINHERIT NOSUPERUSER NOCREATEDB NOCREATEROLE NOREPLICATION NOBYPASSRLS PASSWORD {}''"

definition grants :: "string \<Rightarrow> stmt list" where
  "grants password =
    [Stmt CREATE_ROLE [Ident DB_RUNTIME, Lit password],
     Stmt ''REVOKE ALL ON DATABASE {} FROM PUBLIC'' [Ident DB_NAME],
     Stmt ''GRANT CONNECT, TEMPORARY ON DATABASE {} TO {}'' [Ident DB_NAME, Ident DB_RUNTIME],
     Stmt ''REVOKE CREATE ON SCHEMA public FROM PUBLIC'' [],
     Stmt ''GRANT USAGE ON SCHEMA public TO {}'' [Ident DB_RUNTIME],
     Stmt ''GRANT SELECT, INSERT, UPDATE, DELETE ON ALL TABLES IN SCHEMA public TO {}'' [Ident DB_RUNTIME],
     Stmt ''REVOKE INSERT, UPDATE, DELETE ON TABLE public.django_migrations FROM {}'' [Ident DB_RUNTIME],
     Stmt ''GRANT USAGE, SELECT ON ALL SEQUENCES IN SCHEMA public TO {}'' [Ident DB_RUNTIME],
     Stmt ''ALTER DEFAULT PRIVILEGES FOR ROLE {} IN SCHEMA public GRANT SELECT, INSERT, UPDATE, DELETE ON TABLES TO {}'' [Ident DB_BOOTSTRAP, Ident DB_RUNTIME],
     Stmt ''ALTER DEFAULT PRIVILEGES FOR ROLE {} IN SCHEMA public GRANT USAGE, SELECT ON SEQUENCES TO {}'' [Ident DB_BOOTSTRAP, Ident DB_RUNTIME],
     Stmt ''ALTER ROLE {} SET search_path TO pg_catalog, public, pg_temp'' [Ident DB_RUNTIME]]"

fun run_all :: "'x db_env \<Rightarrow> stmt list \<Rightarrow> ('x dhost, unit) sx" where
  "run_all e [] = sx_return ()"
| "run_all e (q # qs) = sx_bind (db_execute e Owner q) (\<lambda>_. run_all e qs)"

definition grant_body :: "'x db_env \<Rightarrow> string \<Rightarrow> sqlval \<Rightarrow> ('x dhost, unit) sx" where
  "grant_body e password backend =
     sx_bind (db_query e Owner (Stmt ''SELECT pg_backend_pid()'' [])) (\<lambda>r.
     sx_bind (sx_lift (res_bind (first_col r) (\<lambda>v. demand (sql_eq v backend)))) (\<lambda>_.
     sx_bind (falsy_query e (Stmt ''SELECT EXISTS(SELECT 1 FROM pg_class c JOIN pg_namespace n ON n.oid=c.relnamespace WHERE n.nspname=`public` AND c.relowner<>(SELECT oid FROM pg_roles WHERE rolname=current_user))'' [])) (\<lambda>_.
     sx_bind (falsy_query e (Stmt ''SELECT EXISTS(SELECT 1 FROM pg_proc p JOIN pg_namespace n ON n.oid=p.pronamespace WHERE n.nspname=`public` AND p.prosecdef)'' [])) (\<lambda>_.
       run_all e (grants password)))))"

definition db_atomic :: "'x db_env \<Rightarrow> ('x dhost, unit) sx \<Rightarrow> ('x dhost, unit) sx" where
  \<comment> \<open>\<open>transaction.atomic()\<close> around a block\<close>
  "db_atomic e m =
     sx_bind (command_call Began (de_begin e)) (\<lambda>_ h.
       case m h of
         (Inr u, h1) \<Rightarrow> sx_bind (db_call (de_commit e)) (\<lambda>_. happens Committed) h1
       | (Inl x, h1) \<Rightarrow> sx_bind (db_call (\<lambda>y. (Inr (), de_rollback e y))) (\<lambda>_. sx_bind (happens RolledBack) (\<lambda>_. sx_raise x)) h1)"

definition probe_role :: "'x db_env \<Rightarrow> string \<Rightarrow> ('x dhost, unit) sx" where
  "probe_role e password =
     sx_bind (sx_lift (setting e ''HOST'')) (\<lambda>host.
       let port = (case dget (de_settings e) ''PORT'' of None \<Rightarrow> ''5432'' | Some p \<Rightarrow> if p = [] then ''5432'' else p) in
     sx_bind (db_call (de_connect e host port DB_NAME DB_RUNTIME password)) (\<lambda>_.
     sx_bind (happens Connected) (\<lambda>_. sx_finally (check_role e Probe) (happens Closed))))"

definition RECEIPT :: json where
  "RECEIPT = JObj [(''scope'', JStr ''fresh-database-initialization''), (''state'', JStr ''outcome-requires-inspection'')]"

definition COMPLETION :: json where
  "COMPLETION = JObj [(''scope'', JStr ''fresh-database-initialization''), (''state'', JStr ''runtime-role-checked''),
     (''temporary_tables'', JStr ''required by pinned inventory cleanup; permanent schema creation denied'')]"

definition locked_body :: "'x db_env \<Rightarrow> string \<Rightarrow> path \<Rightarrow> sqlval \<Rightarrow> ('x dhost, unit) sx" where
  \<comment> \<open>what runs under the advisory lock\<close>
  "locked_body e password completion backend =
     sx_bind (fresh_checks e) (\<lambda>_.
     sx_bind (command_call Migrated (de_migrate e)) (\<lambda>_.
     sx_bind (command_call Provisioned (de_provision e)) (\<lambda>_.
     sx_bind (db_store_ready e) (\<lambda>_.
     sx_bind (db_atomic e (grant_body e password backend)) (\<lambda>_.
     sx_bind (probe_role e password) (\<lambda>_. write_new completion (dumps (de_py e) COMPLETION) 384))))))"

definition init_database :: "'x db_env \<Rightarrow> string \<Rightarrow> path \<Rightarrow> ('x dhost, unit) sx" where
  \<comment> \<open>from the reserved receipt on; the lock is given back only when it was taken\<close>
  "init_database e password completion =
     sx_bind (own_session e) (\<lambda>backend.
     sx_bind (db_query e Owner LOCK) (\<lambda>r.
     sx_bind (sx_lift (first_col r)) (\<lambda>locked.
       if sql_true locked then sx_finally (locked_body e password completion backend) (db_execute e Owner UNLOCK)
       else sx_raise ValueError)))"

definition settings_checks :: "'x db_env \<Rightarrow> environ \<Rightarrow> string res" where
  \<comment> \<open>the password of the runtime role\<close>
  "settings_checks e runtime =
     res_bind (setting e ''USER'') (\<lambda>u. if u \<noteq> DB_BOOTSTRAP then Inl ValueError else
     res_bind (setting e ''NAME'') (\<lambda>n. if n \<noteq> DB_NAME then Inl ValueError else
     res_bind (setting e ''HOST'') (\<lambda>t. if t \<noteq> ''db'' then Inl ValueError else
       (case dget runtime ''POSTGRES_PASSWORD'' of None \<Rightarrow> Inl KeyError
        | Some p \<Rightarrow> res_bind (setting e ''PASSWORD'') (\<lambda>q. res_bind (demand (p \<noteq> q)) (\<lambda>_. Inr p))))))"

definition completion_path :: "path \<Rightarrow> path" where
  "completion_path p = py_path (path_str p @ ''.complete'')"

definition initialize :: "'x db_env \<Rightarrow> path \<Rightarrow> path \<Rightarrow> ('x dhost, unit) sx" where
  "initialize e env_path p =
     sx_bind (runtime_file env_path) (\<lambda>runtime.
     sx_bind (sx_lift (settings_checks e runtime)) (\<lambda>password.
     sx_bind (look (\<lambda>h. res_bind (demand (is_absolute p)) (\<lambda>_. res_bind (resolve h (path_parent p)) (\<lambda>q. demand (path_parent p = q))))) (\<lambda>_.
       let completion = completion_path p in
     sx_bind (look (\<lambda>h. demand (\<not> path_exists h completion \<and> \<not> is_symlink h completion))) (\<lambda>_.
     sx_bind (write_new p (dumps (de_py e) RECEIPT) 384) (\<lambda>_.
       init_database e password completion)))))"

section \<open>The command\<close>

definition given_text :: "string option \<Rightarrow> bool" where
  "given_text v = (case v of None \<Rightarrow> False | Some s \<Rightarrow> s \<noteq> [])"

definition operator_database :: "'x db_env \<Rightarrow> string \<Rightarrow> string option \<Rightarrow> string option \<Rightarrow> ('x dhost, unit) sx" where
  \<comment> \<open>\<open>Command.handle\<close> with its mode and two options\<close>
  "operator_database e mode env_file receipt =
     sx_bind (sx_catch
       (if mode = ''check''
        then sx_bind (sx_lift (demand (\<not> given_text env_file \<and> \<not> given_text receipt))) (\<lambda>_. check_runtime e)
        else (case (env_file, receipt) of
            (Some f, Some r) \<Rightarrow> sx_bind (sx_lift (demand (f \<noteq> [] \<and> r \<noteq> []))) (\<lambda>_. initialize e (py_path f) (py_path r))
          | _ \<Rightarrow> sx_raise ValueError))
       (\<lambda>x. if x \<in> {SystemExit, Diverge} then None
            else Some (sx_raise (CommandError ''Database boundary failed; inspect private state before deliberate retry. No credentials exported.'')))) (\<lambda>_ h.
       (Inr (), h\<lparr>h_world := (h_world h)\<lparr>said := said (h_world h) @ [''Database authority check completed; no cloud grant or endpoint proof.'']\<rparr>\<rparr>))"

end
