(* ===== verification/Env_Lines.thy ===== *)
theory Env_Lines
  imports Eval_Prepare Database_Roles Setup_Host
begin

text \<open>
  The environment files: the text the generator writes is taken apart into the same names and
  values by each of its readers, line by line.
\<close>

definition line_char :: "char \<Rightarrow> bool" where
  "line_char c \<longleftrightarrow> 32 \<le> ord c \<and> ord c < 127"

definition plain_env :: "environ \<Rightarrow> bool" where
  \<comment> \<open>names without an equals sign, and no control characters\<close>
  "plain_env d \<longleftrightarrow> distinct (map fst d) \<and> list_all (\<lambda>(k, v). list_all line_char k \<and> list_all line_char v \<and> CHR ''='' \<notin> set k) d"

lemma split_first_here: "d \<notin> set a \<Longrightarrow> split_first d (a @ d # b) = Some (a, b)"
  by (induction a) auto

lemma line_ascii: "list_all line_char s \<Longrightarrow> list_all is_ascii s"
  by (auto simp: list_all_iff line_char_def is_ascii_def)

lemma split_lines_line:
  "list_all line_char s \<Longrightarrow> split_lines cur (map ord s @ 10 # t) = (rev cur @ map ord s) # split_lines [] t"
proof (induction s arbitrary: cur)
  case Nil
  then show ?case by (simp add: is_break_def)
next
  case (Cons c s)
  then have "\<not> is_break (ord c)" "ord c \<noteq> 13" by (auto simp: is_break_def line_char_def)
  with Cons show ?case by simp
qed

lemma encode_line: "list_all line_char s \<Longrightarrow> concat (map utf8_encode (map ord s)) = s"
  by (rule concat_encode_ascii) (rule line_ascii)

lemma env_text_ascii: "plain_env d \<Longrightarrow> list_all is_ascii (env_text d)"
  by (induction d) (auto simp: plain_env_def env_text_def line_ascii is_ascii_def)

lemma splitlines_env: "plain_env d \<Longrightarrow> splitlines (env_text d) = map (\<lambda>(k, v). k @ CHR ''='' # v) d"
proof -
  assume d: "plain_env d"
  have "map (\<lambda>ps. concat (map utf8_encode ps)) (split_lines [] (map ord (env_text d))) = map (\<lambda>(k, v). k @ CHR ''='' # v) d"
    using d
  proof (induction d)
    case (Cons kv d)
    obtain k v where kv: "kv = (k, v)" by (cases kv)
    let ?l = "k @ CHR ''='' # v"
    have l: "list_all line_char ?l" using Cons.prems kv by (auto simp: plain_env_def line_char_def)
    have "map ord (env_text (kv # d)) = map ord ?l @ 10 # map ord (env_text d)" by (simp add: env_text_def kv)
    then have "split_lines [] (map ord (env_text (kv # d))) = map ord ?l # split_lines [] (map ord (env_text d))"
      using split_lines_line [OF l, of "[]"] by simp
    then show ?case using Cons encode_line [OF l] kv by (simp add: plain_env_def)
  qed (simp add: env_text_def)
  then show ?thesis using env_text_ascii [OF d] by (simp add: splitlines_def code_points_ascii)
qed

lemma newlines_env: "plain_env d \<Longrightarrow> universal_newlines (env_text d) = env_text d"
proof -
  have "CHR 0x0D \<notin> set s \<Longrightarrow> universal_newlines s = s" for s by (induction s) auto
  moreover assume "plain_env d"
  then have "CHR 0x0D \<notin> set (env_text d)" by (induction d) (auto simp: plain_env_def env_text_def list_all_iff line_char_def)
  ultimately show ?thesis by blast
qed

lemma env_lines_from: "distinct (map fst (acc @ d)) \<Longrightarrow> list_all (\<lambda>(k, v). CHR ''='' \<notin> set k) d
    \<Longrightarrow> env_lines acc (map (\<lambda>(k, v). k @ CHR ''='' # v) d) = Inr (acc @ d)"
  by (induction d arbitrary: acc) (auto simp: split_first_here demand_def)

lemma env_lines_env: "plain_env d \<Longrightarrow> env_lines [] (splitlines (env_text d)) = Inr d"
  using env_lines_from [of "[]" d] by (auto simp: splitlines_env plain_env_def list_all_iff)

lemma env_pairs: "plain_env d \<Longrightarrow> map (split_first (CHR ''='')) (splitlines (env_text d)) = map Some d"
  by (auto simp: splitlines_env plain_env_def list_all_iff split_first_here)

end
