(* ===== verification/Database_Facts.thy ===== *)
theory Database_Facts
  imports Env_Lines New_Places
begin

text \<open>
  The initialisation of the database happens at most once per receipt, its completion is
  recorded only after the restricted role has passed every check over a connection of its
  own, and the advisory lock is given back whatever happens.
\<close>

section \<open>Frames\<close>

lemma query_result: "db_query e s q h = (r, h') \<Longrightarrow> events (h_world h') = events (h_world h) @ [Ran s q r] \<and> h_fs h' = h_fs h \<and> h_cwd h' = h_cwd h"
  by (auto simp: db_query_def Let_def split: prod.splits)

lemma world_only:
  "h_fs (snd (db_query e s q h)) = h_fs h" "h_cwd (snd (db_query e s q h)) = h_cwd h"
  "h_fs (snd (happens v h)) = h_fs h" "h_cwd (snd (happens v h)) = h_cwd h"
  "h_fs (snd (db_call f h)) = h_fs h" "h_cwd (snd (db_call f h)) = h_cwd h"
  "events (h_world (snd (happens v h))) = events (h_world h) @ [v]"
  "events (h_world (snd (db_call f h))) = events (h_world h)"
  "events (h_world (snd (db_query e s q h))) = events (h_world h) @ [Ran s q (fst (db_query e s q h))]"
  by (auto simp: db_query_def happens_def db_call_def Let_def split: prod.splits)

definition talk :: "'x dhost \<Rightarrow> 'x dhost \<Rightarrow> bool" where
  \<comment> \<open>the disk is the same and the history is continued\<close>
  "talk h h' \<longleftrightarrow> h_fs h' = h_fs h \<and> h_cwd h' = h_cwd h \<and> (\<exists>es. events (h_world h') = events (h_world h) @ es)"

interpretation talks: frame talk
  by unfold_locales (auto simp: talk_def)

lemma disk_calls: "talks.keeps (db_query e s q)" "talks.keeps (happens v)" "talks.keeps (db_call f)"
  by (simp_all add: talks.keeps_def talk_def world_only)

lemma disk_execute: "talks.keeps (db_execute e s q)"
  unfolding db_execute_def by (intro talks.keeps_bind disk_calls talks.keeps_return)

lemma disk_checks: "talks.keeps (run_checks e s cs)"
  by (induction cs) (auto intro!: talks.keeps_bind disk_calls talks.keeps_return talks.keeps_lift)

lemma disk_run_all: "talks.keeps (run_all e qs)"
  by (induction qs) (auto intro!: talks.keeps_bind disk_execute talks.keeps_return)

lemmas disk_base = talks.keeps_bind talks.keeps_return talks.keeps_lift talks.keeps_raise disk_calls disk_execute disk_checks disk_run_all

lemma disk_parts: "talks.keeps (own_session e)" "talks.keeps (falsy_query e q)" "talks.keeps (fresh_checks e)"
    "talks.keeps (command_call v f)" "talks.keeps (db_store_ready e)" "talks.keeps (grant_body e pw b)" "talks.keeps (check_role e s)"
  unfolding own_session_def falsy_query_def fresh_checks_def command_call_def db_store_ready_def grant_body_def check_role_def
  by (auto intro!: disk_base)

context frame
begin

lemma keeps_either:
  assumes "keeps m" "\<And>u. keeps (f u)" "\<And>x. keeps (g x)"
  shows "keeps (\<lambda>s. case m s of (Inr u, s1) \<Rightarrow> f u s1 | (Inl x, s1) \<Rightarrow> g x s1)"
proof (rule keepsI)
  fix s r s' assume run: "(case m s of (Inr u, s1) \<Rightarrow> f u s1 | (Inl x, s1) \<Rightarrow> g x s1) = (r, s')"
  obtain r1 s1 where 1: "m s = (r1, s1)" by fastforce
  show "R s s'" using run 1 keepsD [OF assms(1) 1] keepsD [OF assms(2)] keepsD [OF assms(3)] R_trans by (cases r1) auto
qed

lemma keeps_finally:
  assumes "keeps m" "keeps f"
  shows "keeps (sx_finally m f)"
proof (rule keepsI)
  fix s r s' assume run: "sx_finally m f s = (r, s')"
  obtain r1 s1 where 1: "m s = (r1, s1)" by fastforce
  obtain r2 s2 where 2: "f s1 = (r2, s2)" by fastforce
  have "s' = s1 \<or> s' = s2" using run 1 2 by (auto simp: sx_finally_def split: sum.splits exn.splits)
  then show "R s s'" using keepsD [OF assms(1) 1] keepsD [OF assms(2) 2] R_trans by blast
qed

end

lemma disk_atomic: "talks.keeps m \<Longrightarrow> talks.keeps (db_atomic e m)"
  unfolding db_atomic_def by (intro disk_base disk_parts talks.keeps_either)

lemma disk_probe: "talks.keeps (probe_role e pw)"
  unfolding probe_role_def Let_def by (intro disk_base talks.keeps_finally disk_parts)

section \<open>One initialisation per receipt\<close>

definition is_create :: "event \<Rightarrow> bool" where
  "is_create v = (case v of Ran _ (Stmt q _) _ \<Rightarrow> q = CREATE_ROLE | _ \<Rightarrow> False)"

definition created :: "'x dhost \<Rightarrow> nat" where
  \<comment> \<open>how often the role was asked for\<close>
  "created h = length (filter is_create (events (h_world h)))"

definition idly :: "'x dhost \<Rightarrow> 'x dhost \<Rightarrow> bool" where
  "idly h h' \<longleftrightarrow> created h' = created h"

interpretation idle: frame idly
  by unfold_locales (auto simp: idly_def)

lemma idle_world: "same_world.keeps m \<Longrightarrow> idle.keeps m"
  by (simp add: same_world.keeps_def idle.keeps_def idly_def created_def)

lemma idle_look: "idle.keeps (look f)"
  by (rule idle_world) (simp add: same_world.keeps_def look_def)

lemma idle_write: "idle.keeps (write_new p b m)"
  by (rule idle_world [OF same_world.keepsI]) (erule write_new_cases, auto)

lemma idle_query: "q \<noteq> CREATE_ROLE \<Longrightarrow> idle.keeps (db_query e s (Stmt q as))"
  by (simp add: idle.keeps_def idly_def created_def world_only is_create_def)

lemma idle_happens: "\<not> is_create v \<Longrightarrow> idle.keeps (happens v)"
  by (simp add: idle.keeps_def idly_def created_def world_only)

lemma idle_call: "idle.keeps (db_call f)"
  by (simp add: idle.keeps_def idly_def created_def world_only)

lemmas idle_base = idle.keeps_bind idle.keeps_return idle.keeps_lift idle.keeps_raise idle_look idle_write idle_call idle_world [OF world_read]

lemma idle_execute: "q \<noteq> CREATE_ROLE \<Longrightarrow> idle.keeps (db_execute e s (Stmt q as))"
  unfolding db_execute_def by (intro idle_base idle_query)

lemma idle_checks: "CREATE_ROLE \<notin> fst ` set cs \<Longrightarrow> idle.keeps (run_checks e s cs)"
  by (induction cs) (auto intro!: idle_base idle_query)

lemma other_texts: "CREATE_ROLE \<notin> fst ` set ROLE_CHECKS"
  by (simp add: CREATE_ROLE_def ROLE_CHECKS_def)

lemma idle_parts: "idle.keeps (own_session e)" "idle.keeps (fresh_checks e)" "idle.keeps (db_store_ready e)" "idle.keeps (check_role e s)"
    "idle.keeps (runtime_file f)"
  unfolding own_session_def fresh_checks_def db_store_ready_def check_role_def falsy_query_def runtime_file_def read_text_def
  by (auto intro!: idle_base idle_query idle_execute idle_checks [OF other_texts] simp: CREATE_ROLE_def)

lemma idle_command: "\<not> is_create v \<Longrightarrow> idle.keeps (command_call v f)"
  unfolding command_call_def by (intro idle_base idle_happens)

lemma idle_probe: "idle.keeps (probe_role e pw)"
  unfolding probe_role_def Let_def by (intro idle_base idle_happens idle.keeps_finally idle_parts) (simp_all add: is_create_def)

definition asks_once :: "('x dhost, 'a) sx \<Rightarrow> bool" where
  "asks_once m \<longleftrightarrow> (\<forall>h. created (snd (m h)) \<le> Suc (created h))"

lemma asksI: "(\<And>h r h'. m h = (r, h') \<Longrightarrow> created h' \<le> Suc (created h)) \<Longrightarrow> asks_once m"
  by (metis asks_once_def prod.collapse)

lemma asksD: "asks_once m \<Longrightarrow> m h = (r, h') \<Longrightarrow> created h' \<le> Suc (created h)"
  by (metis asks_once_def snd_conv)

lemma idleD: "idle.keeps m \<Longrightarrow> m h = (r, h') \<Longrightarrow> created h' = created h"
  by (metis idle.keepsD idly_def)

lemma asks_idle: "idle.keeps m \<Longrightarrow> asks_once m"
  by (rule asksI) (simp add: idleD)

lemma asks_after: "idle.keeps m \<Longrightarrow> (\<And>v. asks_once (f v)) \<Longrightarrow> asks_once (sx_bind m f)"
proof (rule asksI)
  fix h r h' assume a: "idle.keeps m" "\<And>v. asks_once (f v)" "sx_bind m f h = (r, h')"
  obtain r1 h1 where 1: "m h = (r1, h1)" by fastforce
  show "created h' \<le> Suc (created h)"
    using a(3) 1 idleD [OF a(1) 1] asksD [OF a(2), of _ h1 r h'] by (cases r1) (auto simp: sx_bind_def)
qed

lemma asks_before: "asks_once m \<Longrightarrow> (\<And>v. idle.keeps (f v)) \<Longrightarrow> asks_once (sx_bind m f)"
proof (rule asksI)
  fix h r h' assume a: "asks_once m" "\<And>v. idle.keeps (f v)" "sx_bind m f h = (r, h')"
  obtain r1 h1 where 1: "m h = (r1, h1)" by fastforce
  show "created h' \<le> Suc (created h)"
    using a(3) 1 asksD [OF a(1) 1] idleD [OF a(2)] by (cases r1) (auto simp: sx_bind_def)
qed

lemma asks_query: "asks_once (db_execute e s q)"
  unfolding db_execute_def by (rule asks_before [OF asksI idle.keeps_return]) (auto simp: created_def dest!: query_result)

lemma asks_grants: "asks_once (run_all e (grants pw))"
proof -
  have "idle.keeps (run_all e qs)" if "\<forall>q as. Stmt q as \<in> set qs \<longrightarrow> q \<noteq> CREATE_ROLE" for qs
    using that
  proof (induction qs)
    case (Cons q qs)
    then show ?case by (cases q) (auto intro!: idle_base idle_execute)
  qed (simp add: idle_base)
  moreover have "\<forall>q as. Stmt q as \<in> set (tl (grants pw)) \<longrightarrow> q \<noteq> CREATE_ROLE" by (auto simp: grants_def CREATE_ROLE_def)
  ultimately have "idle.keeps (run_all e (tl (grants pw)))" by blast
  then have "asks_once (sx_bind (db_execute e Owner (hd (grants pw))) (\<lambda>_. run_all e (tl (grants pw))))"
    by (intro asks_before asks_query)
  then show ?thesis by (simp add: grants_def)
qed

lemma asks_grant_body: "asks_once (grant_body e pw b)"
  unfolding grant_body_def falsy_query_def
  by (intro asks_after asks_grants idle_base idle_query) (simp_all add: CREATE_ROLE_def)

lemma asks_atomic:
  assumes "asks_once m"
  shows "asks_once (db_atomic e m)"
  unfolding db_atomic_def
proof (rule asks_after [OF idle_command asksI])
  fix h r h'
  assume run: "(case m h of
         (Inr u, h1) \<Rightarrow> sx_bind (db_call (de_commit e)) (\<lambda>_. happens Committed) h1
       | (Inl x, h1) \<Rightarrow> sx_bind (db_call (\<lambda>y. (Inr (), de_rollback e y))) (\<lambda>_. sx_bind (happens RolledBack) (\<lambda>_. sx_raise x)) h1) = (r, h')"
  obtain r1 h1 where 1: "m h = (r1, h1)" by fastforce
  have a: "idle.keeps (sx_bind (db_call (de_commit e)) (\<lambda>_. happens Committed))" by (intro idle_base idle_happens) (simp add: is_create_def)
  have b: "idle.keeps (sx_bind (db_call (\<lambda>y. (Inr (), de_rollback e y))) (\<lambda>_. sx_bind (happens RolledBack) (\<lambda>_. sx_raise x :: ('a dhost, unit) sx)))" for x
    by (intro idle_base idle_happens) (simp add: is_create_def)
  show "created h' \<le> Suc (created h)" using run 1 asksD [OF assms 1] idleD [OF a] idleD [OF b] by (cases r1) auto
qed (simp add: is_create_def)

lemma asks_finally:
  assumes "asks_once m" "idle.keeps f"
  shows "asks_once (sx_finally m f)"
proof (rule asksI)
  fix h r h' assume run: "sx_finally m f h = (r, h')"
  obtain r1 h1 where 1: "m h = (r1, h1)" by fastforce
  obtain r2 h2 where 2: "f h1 = (r2, h2)" by fastforce
  have "h' = h1 \<or> h' = h2" using run 1 2 by (auto simp: sx_finally_def split: sum.splits exn.splits)
  then show "created h' \<le> Suc (created h)" using asksD [OF assms(1) 1] idleD [OF assms(2) 2] by auto
qed

lemma asks_init: "asks_once (init_database e pw c)"
proof -
  have "asks_once (locked_body e pw c b)" for b
    unfolding locked_body_def
    by (intro asks_after [OF idle_parts(2)] asks_after [OF idle_command] asks_after [OF idle_parts(3)] asks_before [OF asks_atomic [OF asks_grant_body]]
        idle_base idle_probe) (simp_all add: is_create_def)
  then show ?thesis unfolding init_database_def LOCK_def UNLOCK_def
    by (intro asks_after [OF idle_parts(1)] asks_after [OF idle_query] asks_after [OF idle.keeps_lift])
       (auto intro!: asks_finally asks_idle [OF idle.keeps_raise] idle_execute simp: CREATE_ROLE_def)
qed

section \<open>The receipt\<close>

definition receipt_at :: "path \<Rightarrow> 'w host \<Rightarrow> bool" where
  \<comment> \<open>something stands where an absolute path leads\<close>
  "receipt_at p h \<longleftrightarrow> is_absolute p \<and> (\<exists>ds. resolve_parts (h_fs h) (h_cwd h) (path_parent p) = Inr ds \<and> dget (h_fs h) (ds @ [last (p_parts p)]) \<noteq> None)"

lemma receipt_grows: "receipt_at p h \<Longrightarrow> fs_grows h h' \<Longrightarrow> receipt_at p h'"
  unfolding receipt_at_def resolve_parts_def fs_grows_def is_absolute_def path_parent_def
  using walk_grows [of max_links "h_fs h" "[]" "butlast (p_parts p)" _ "h_fs h'"] by fastforce

lemma receipt_blocks: "receipt_at p h \<Longrightarrow> new_place h p \<noteq> Inr cs"
  by (auto simp: receipt_at_def new_place_def res_simps split: if_splits option.splits)

lemma receipt_written:
  assumes "write_new p b m h = (Inr (), h1)" "is_absolute p"
  shows "receipt_at p h1 \<and> \<not> receipt_at p h"
  using assms(1)
proof (cases rule: write_new_cases)
  case (2 cs n)
  then obtain ds where ds: "resolve_parts (h_fs h) (h_cwd h) (path_parent p) = Inr ds" "cs = ds @ [last (p_parts p)]"
    by (auto simp: new_place_def res_simps split: if_splits option.splits)
  have "receipt_at p (called h) = receipt_at p h" by (simp add: receipt_at_def)
  then have "\<not> receipt_at p h" using receipt_blocks [of p "called h" cs] 2(1) by blast
  moreover have "resolve_parts (h_fs h1) (h_cwd h1) (path_parent p) = Inr ds"
    using ds(1) new_place_free [OF 2(1)] 2(3) assms(2)
    by (auto simp: resolve_parts_def is_absolute_def path_parent_def put_node_def intro!: walk_grows [where f = "h_fs h"])
  ultimately show ?thesis using ds(2) 2(3) assms(2) by (auto simp: receipt_at_def put_node_def)
qed simp

lemma disk_grows: "talks.keeps m \<Longrightarrow> grows.keeps m"
  by (simp add: talks.keeps_def grows.keeps_def fs_grows_def talk_def)

lemma grows_init: "grows.keeps (init_database e pw c)"
proof -
  have "grows.keeps (locked_body e pw c b)" for b
    unfolding locked_body_def by (intro grows.keeps_bind keeps_write_new disk_grows disk_parts disk_atomic disk_probe)
  then show ?thesis unfolding init_database_def
    by (intro grows.keeps_bind grows.keeps_lift disk_grows [OF disk_parts(1)] disk_grows [OF disk_calls(1)])
       (auto intro!: grows.keeps_finally grows.keeps_raise disk_grows [OF disk_execute])
qed

definition init_inv :: "path \<Rightarrow> 'x dhost \<Rightarrow> bool" where
  "init_inv p h \<longleftrightarrow> created h \<le> 1 \<and> (created h = 1 \<longrightarrow> receipt_at p h)"

lemma inv_idle: "init_inv p h \<Longrightarrow> created h' = created h \<Longrightarrow> fs_grows h h' \<Longrightarrow> init_inv p h'"
  by (auto simp: init_inv_def intro: receipt_grows)

interpretation stays: frame "\<lambda>h h'. init_inv p h \<longrightarrow> init_inv p h'" for p
  by unfold_locales auto

lemma stays_idle: "idle.keeps m \<Longrightarrow> grows.keeps m \<Longrightarrow> stays.keeps p m"
  by (rule stays.keepsI) (auto intro: inv_idle idleD grows.keepsD)

lemma stays_reserved:
  assumes "is_absolute p"
  shows "stays.keeps p (sx_bind (write_new p b 384) (\<lambda>_. init_database e pw c))"
proof (rule stays.keepsI, rule impI)
  fix h r h' assume run: "sx_bind (write_new p b 384) (\<lambda>_. init_database e pw c) h = (r, h')" and inv: "init_inv p h"
  obtain r1 h1 where 1: "write_new p b 384 h = (r1, h1)" by fastforce
  have g: "created h1 = created h" "fs_grows h h1" using idleD [OF idle_write 1] grows.keepsD [OF keeps_write_new 1] by auto
  show "init_inv p h'"
  proof (cases r1)
    case (Inl x)
    with 1 run inv_idle [OF inv g] show ?thesis by (simp add: sx_bind_def)
  next
    case (Inr u)
    then have m: "init_database e pw c h1 = (r, h')" using 1 run by (simp add: sx_bind_def)
    have w: "receipt_at p h1" "\<not> receipt_at p h" using receipt_written [of p b 384 h h1] 1 Inr assms by auto
    then have "created h1 = 0" using inv g(1) by (auto simp: init_inv_def)
    then have "created h' \<le> 1" using asksD [OF asks_init m] by simp
    moreover have "receipt_at p h'" using receipt_grows [OF w(1) grows.keepsD [OF grows_init m]] .
    ultimately show ?thesis by (simp add: init_inv_def)
  qed
qed

lemma stays_initialize: "stays.keeps p (initialize e f p)"
proof (cases "is_absolute p")
  case True
  have "stays.keeps p (runtime_file f)"
    by (rule stays_idle [OF idle_parts(5)]) (auto simp: runtime_file_def intro!: grows.keeps_bind grows.keeps_lift keeps_look keeps_read_text grows.keeps_return)
  moreover have "stays.keeps p (look g)" for g :: "'a dhost \<Rightarrow> unit res" by (rule stays_idle [OF idle_look keeps_look])
  ultimately show ?thesis unfolding initialize_def Let_def
    by (intro stays.keeps_bind [OF _ stays.keeps_bind [OF stays.keeps_lift stays.keeps_bind [OF _ stays.keeps_bind]]] stays_reserved [OF True])
next
  case False
  then have refuse: "sx_bind (look (\<lambda>h. res_bind (demand (is_absolute p)) (\<lambda>_. res_bind (resolve h (path_parent p)) (\<lambda>q. demand (path_parent p = q))))) k
      = (\<lambda>h. (Inl ValueError, h))" for k :: "unit \<Rightarrow> ('a dhost, unit) sx"
    by (auto simp: sx_bind_def look_def demand_def res_guard_def fun_eq_iff)
  have "stays.keeps p (runtime_file f)"
    by (rule stays_idle [OF idle_parts(5)]) (auto simp: runtime_file_def intro!: grows.keeps_bind grows.keeps_lift keeps_look keeps_read_text grows.keeps_return)
  then show ?thesis unfolding initialize_def Let_def refuse
    by (intro stays.keeps_bind [OF _ stays.keeps_bind [OF stays.keeps_lift]]) (simp_all add: stays.keeps_def)
qed

lemma stays_command:
  assumes "receipt \<noteq> Some r \<longrightarrow> receipt = None" "py_path r = p"
  shows "stays.keeps p (operator_database e mode f receipt)"
proof -
  have cr: "stays.keeps q (check_runtime e)" for q unfolding check_runtime_def
    by (intro stays_idle idle_base idle_parts disk_grows disk_base disk_parts)
  have "stays.keeps p (if mode = ''check''
        then sx_bind (sx_lift (demand (\<not> given_text f \<and> \<not> given_text receipt))) (\<lambda>_. check_runtime e)
        else (case (f, receipt) of
            (Some f, Some r) \<Rightarrow> sx_bind (sx_lift (demand (f \<noteq> [] \<and> r \<noteq> []))) (\<lambda>_. initialize e (py_path f) (py_path r))
          | _ \<Rightarrow> sx_raise ValueError))"
    using assms by (auto intro!: stays.keeps_bind stays.keeps_lift stays.keeps_raise cr stays_initialize split: option.splits)
  moreover have "stays.keeps p (\<lambda>h. (Inr (), h\<lparr>h_world := (h_world h)\<lparr>said := said (h_world h) @ [t]\<rparr>\<rparr>))" for t
    by (rule stays.keepsI) (auto simp: init_inv_def created_def receipt_at_def)
  ultimately show ?thesis unfolding operator_database_def
    by (intro stays.keeps_bind stays.keeps_catch) (auto split: if_splits intro: stays.keeps_raise)
qed

text \<open>
  A history of the machine: runs of the management command with one receipt path, in any mode,
  with any environment, settings and database behind it, and steps of other programs that
  remove no file and do not act as the command.
\<close>

inductive db_step :: "string \<Rightarrow> 'x dhost \<Rightarrow> 'x dhost \<Rightarrow> bool" for r :: string where
  command: "receipt = Some r \<or> receipt = None \<Longrightarrow> db_step r h (snd (operator_database e mode f receipt h))"
| other: "fs_grows h h' \<Longrightarrow> events (h_world h') = events (h_world h) \<Longrightarrow> db_step r h h'"

lemma db_step_inv: "init_inv (py_path r) h \<Longrightarrow> db_step r h h' \<Longrightarrow> init_inv (py_path r) h'"
proof (erule db_step.cases)
  fix receipt e mode f h0
  assume a: "init_inv (py_path r) h" "h = h0" "h' = snd (operator_database e mode f receipt h0)" "receipt = Some r \<or> receipt = None"
  have "stays.keeps (py_path r) (operator_database e mode f receipt)" by (rule stays_command [of _ r]) (use a(4) in auto)
  with a show ?thesis by (auto simp: stays.keeps_def)
next
  fix h0 h1 :: "'a dhost" assume "init_inv (py_path r) h" "h = h0" "h' = h1" "fs_grows h0 h1" "events (h_world h1) = events (h_world h0)"
  then show ?thesis using inv_idle [of "py_path r" h h'] by (simp add: created_def)
qed

interpretation initialisations: invariant_steps "db_step r" "init_inv (py_path r)" for r
  by unfold_locales (rule db_step_inv)

text \<open>
  C29: a database is initialised at most once per receipt.  Over every such history the runtime
  role is created at most once, whatever failed, was interrupted or answered wrongly.
\<close>

theorem database_initialised_once:
  assumes "(db_step r)\<^sup>*\<^sup>* h h'" "created h = 0"
  shows "created h' \<le> 1"
  using initialisations.steps_inv [OF assms(1)] assms(2) by (simp add: init_inv_def)

section \<open>The completion\<close>

definition checked_rows :: "session \<Rightarrow> (string \<times> expectation) list \<Rightarrow> row list \<Rightarrow> event list" where
  "checked_rows s cs rows = map2 (\<lambda>(q, _) r. Ran s (Stmt q []) (Inr r)) cs rows"

definition as_expected :: "(string \<times> expectation) list \<Rightarrow> row list \<Rightarrow> bool" where
  "as_expected cs rows \<longleftrightarrow> list_all2 (\<lambda>(_, x) r. expected x r = Inr ()) cs rows"

definition role_checked :: "event list \<Rightarrow> bool" where
  \<comment> \<open>after a commit, the nine checks ran over the independent connection and each answer was the expected one\<close>
  "role_checked es \<longleftrightarrow> (\<exists>as rows bs. es = as @ checked_rows Probe ROLE_CHECKS rows @ bs \<and> Committed \<in> set as \<and> as_expected ROLE_CHECKS rows)"

lemma role_checked_more: "role_checked es \<Longrightarrow> role_checked (as @ es @ bs)"
  unfolding role_checked_def by (elim exE conjE) (metis append.assoc in_set_conv_decomp)

lemma run_checks_Inr:
  "run_checks e s cs h = (Inr (), h') \<Longrightarrow> \<exists>rows. events (h_world h') = events (h_world h) @ checked_rows s cs rows \<and> as_expected cs rows"
proof (induction e s cs arbitrary: h rule: run_checks.induct)
  case (1 e s)
  then show ?case by (auto simp: sx_simps checked_rows_def as_expected_def)
next
  case (2 e s q x cs)
  then obtain r h1 where 1: "db_query e s (Stmt q []) h = (Inr r, h1)" and x: "expected x r = Inr ()" and c: "run_checks e s cs h1 = (Inr (), h')"
    by (auto simp: sx_simps)
  from 2(1) [OF c] obtain rows where "events (h_world h') = events (h_world h1) @ checked_rows s cs rows" "as_expected cs rows" by blast
  then show ?case using query_result [OF 1] x by (intro exI [of _ "r # rows"]) (auto simp: checked_rows_def as_expected_def)
qed

lemma probe_Inr:
  assumes "probe_role e pw h = (Inr (), h')"
  shows "\<exists>rows. events (h_world h') = events (h_world h) @ [Connected] @ checked_rows Probe ROLE_CHECKS rows @ [Closed] \<and> as_expected ROLE_CHECKS rows"
proof -
  obtain host port h1 h2 h3 where 1: "db_call (de_connect e host port DB_NAME DB_RUNTIME pw) h = (Inr (), h1)" and 2: "happens Connected h1 = (Inr (), h2)"
      and 3: "sx_finally (check_role e Probe) (happens Closed) h2 = (Inr (), h')"
    using assms unfolding probe_role_def Let_def by (auto simp: sx_bind_Inr_iff sx_lift_iff)
  obtain h4 where 4: "check_role e Probe h2 = (Inr (), h4)" "happens Closed h4 = (Inr (), h')"
    using 3 by (auto simp: sx_finally_def split: prod.splits sum.splits exn.splits)
  show ?thesis using run_checks_Inr [OF 4(1) [unfolded check_role_def]] world_only(8) [of _ h] world_only(7) [of Connected h1] world_only(7) [of Closed h4] 1 2 4(2)
    by (metis append.assoc snd_conv)
qed

lemma atomic_Inr:
  assumes "db_atomic e m h = (Inr (), h')" "talks.keeps m"
  shows "\<exists>es. events (h_world h') = events (h_world h) @ es @ [Committed]"
proof -
  obtain h1 where 1: "command_call Began (de_begin e) h = (Inr (), h1)" and c: "(case m h1 of
         (Inr u, h1) \<Rightarrow> sx_bind (db_call (de_commit e)) (\<lambda>_. happens Committed) h1
       | (Inl x, h1) \<Rightarrow> sx_bind (db_call (\<lambda>y. (Inr (), de_rollback e y))) (\<lambda>_. sx_bind (happens RolledBack) (\<lambda>_. sx_raise x)) h1) = (Inr (), h')"
    using assms(1) unfolding db_atomic_def sx_bind_Inr_iff by auto
  obtain r2 h2 where 2: "m h1 = (r2, h2)" by fastforce
  have "\<exists>h3. db_call (de_commit e) h2 = (Inr (), h3) \<and> happens Committed h3 = (Inr (), h')"
    using c 2 by (cases r2) (auto simp: sx_bind_Inr_iff sx_raise_iff)
  then obtain h3 where 3: "db_call (de_commit e) h2 = (Inr (), h3)" "happens Committed h3 = (Inr (), h')" by blast
  have "talk h h1" "talk h1 h2" "talk h2 h3" using talks.keepsD [OF disk_parts(4) 1] talks.keepsD [OF assms(2) 2] talks.keepsD [OF disk_calls(3) 3(1)] .
  then show ?thesis using 3(2) world_only(7) [of Committed h3] by (auto simp: talk_def)
qed

definition guards :: "('x dhost, 'a) sx \<Rightarrow> bool" where
  "guards m \<longleftrightarrow> (\<forall>h. \<exists>es. events (h_world (snd (m h))) = events (h_world h) @ es \<and> (h_fs (snd (m h)) = h_fs h \<or> role_checked es))"

lemma guardsD: "guards m \<Longrightarrow> m h = (r, h') \<Longrightarrow> \<exists>es. events (h_world h') = events (h_world h) @ es \<and> (h_fs h' = h_fs h \<or> role_checked es)"
  by (metis guards_def snd_conv)

lemma guardsI: "(\<And>h r h'. m h = (r, h') \<Longrightarrow> \<exists>es. events (h_world h') = events (h_world h) @ es \<and> (h_fs h' = h_fs h \<or> role_checked es)) \<Longrightarrow> guards m"
  by (metis guards_def prod.collapse)

lemma guards_talk: "talks.keeps m \<Longrightarrow> guards m"
  by (rule guardsI) (auto dest!: talks.keepsD simp: talk_def)

lemma guards_bind:
  assumes "talks.keeps m" "\<And>v. guards (f v)"
  shows "guards (sx_bind m f)"
proof (rule guardsI)
  fix h r h' assume run: "sx_bind m f h = (r, h')"
  obtain r1 h1 where 1: "m h = (r1, h1)" by fastforce
  obtain es where es: "events (h_world h1) = events (h_world h) @ es" "h_fs h1 = h_fs h" using talks.keepsD [OF assms(1) 1] by (auto simp: talk_def)
  show "\<exists>es. events (h_world h') = events (h_world h) @ es \<and> (h_fs h' = h_fs h \<or> role_checked es)"
  proof (cases r1)
    case (Inl x)
    with run 1 es show ?thesis by (auto simp: sx_bind_def)
  next
    case (Inr v)
    with run 1 obtain es' where "events (h_world h') = events (h_world h1) @ es'" "h_fs h' = h_fs h1 \<or> role_checked es'"
      using guardsD [OF assms(2), of v h1] by (auto simp: sx_bind_def)
    then show ?thesis using es role_checked_more [of es' es "[]"] by (intro exI [of _ "es @ es'"]) auto
  qed
qed

lemma guards_finally:
  assumes "guards m" "talks.keeps f"
  shows "guards (sx_finally m f)"
proof (rule guardsI)
  fix h r h' assume run: "sx_finally m f h = (r, h')"
  obtain r1 h1 where 1: "m h = (r1, h1)" by fastforce
  obtain r2 h2 where 2: "f h1 = (r2, h2)" by fastforce
  obtain es where es: "events (h_world h1) = events (h_world h) @ es" "h_fs h1 = h_fs h \<or> role_checked es" using guardsD [OF assms(1) 1] by blast
  obtain es' where es': "events (h_world h2) = events (h_world h1) @ es'" "h_fs h2 = h_fs h1" using talks.keepsD [OF assms(2) 2] by (auto simp: talk_def)
  have "h' = h1 \<or> h' = h2" using run 1 2 by (auto simp: sx_finally_def split: sum.splits exn.splits)
  then show "\<exists>es. events (h_world h') = events (h_world h) @ es \<and> (h_fs h' = h_fs h \<or> role_checked es)"
    using es es' role_checked_more [of es "[]" es'] by auto
qed

lemma guards_completion: "guards (sx_bind (db_atomic e (grant_body e pw b)) (\<lambda>_. sx_bind (probe_role e pw) (\<lambda>_. write_new c t 384)))"
proof (rule guardsI)
  fix h r h' assume run: "sx_bind (db_atomic e (grant_body e pw b)) (\<lambda>_. sx_bind (probe_role e pw) (\<lambda>_. write_new c t 384)) h = (r, h')"
  obtain r1 h1 where 1: "db_atomic e (grant_body e pw b) h = (r1, h1)" by fastforce
  obtain r2 h2 where 2: "probe_role e pw h1 = (r2, h2)" by fastforce
  have t: "talk h h1" "talk h1 h2" using talks.keepsD [OF disk_atomic [OF disk_parts(6)] 1] talks.keepsD [OF disk_probe 2] .
  show "\<exists>es. events (h_world h') = events (h_world h) @ es \<and> (h_fs h' = h_fs h \<or> role_checked es)"
  proof (cases "(\<exists>u. r1 = Inr u) \<and> (\<exists>u. r2 = Inr u)")
    case False
    then have "h' = h1 \<or> h' = h2" using run 1 2 by (cases r1; cases r2) (auto simp: sx_bind_def)
    then show ?thesis using t by (auto simp: talk_def)
  next
    case True
    then have w: "write_new c t 384 h2 = (r, h')" using run 1 2 by (auto simp: sx_bind_def)
    obtain es where es: "events (h_world h1) = events (h_world h) @ es @ [Committed]" using atomic_Inr [OF _ disk_parts(6)] 1 True by fastforce
    obtain rows where rows: "events (h_world h2) = events (h_world h1) @ [Connected] @ checked_rows Probe ROLE_CHECKS rows @ [Closed]" "as_expected ROLE_CHECKS rows"
      using probe_Inr 2 True by fastforce
    have "events (h_world h') = events (h_world h2)" using w by (rule write_new_cases) auto
    moreover have "role_checked (es @ [Committed] @ [Connected] @ checked_rows Probe ROLE_CHECKS rows @ [Closed])"
      unfolding role_checked_def by (rule exI [of _ "es @ [Committed, Connected]"], rule exI [of _ rows], rule exI [of _ "[Closed]"]) (simp add: rows(2))
    ultimately show ?thesis using es rows(1) by auto
  qed
qed

lemma guards_init: "guards (init_database e pw c)"
proof -
  have "guards (locked_body e pw c b)" for b
    unfolding locked_body_def by (intro guards_bind [OF disk_parts(3)] guards_bind [OF disk_parts(4)] guards_bind [OF disk_parts(5)] guards_completion)
  then show ?thesis unfolding init_database_def
    by (intro guards_bind [OF disk_parts(1)] guards_bind [OF disk_calls(1)] guards_bind [OF talks.keeps_lift])
       (auto intro!: guards_finally guards_talk [OF talks.keeps_raise] disk_execute)
qed

lemma talk_read: "talks.keeps (runtime_file f)"
proof -
  have "talks.keeps (io_ok :: ('a dhost, unit) sx)" by (rule talks.keepsI) (auto dest!: io_ok_cases simp: talk_def)
  then have "talks.keeps (read_bytes p :: ('a dhost, bytes) sx)" for p
    unfolding read_bytes_def by (intro talks.keeps_bind) (auto simp: talks.keeps_def talk_def split: sum.splits kind.splits)
  moreover have "talks.keeps (look g :: ('a dhost, unit) sx)" for g by (auto simp: talks.keeps_def talk_def look_def)
  ultimately show ?thesis unfolding runtime_file_def read_text_def by (intro disk_base)
qed

definition new_files :: "'w host \<Rightarrow> 'w host \<Rightarrow> string list set" where
  "new_files h h' = {cs. dget (h_fs h) cs = None \<and> dget (h_fs h') cs \<noteq> None}"

lemma new_place_same:
  assumes "h_fs h' = h_fs h" "h_cwd h' = h_cwd h"
  shows "new_place h' p = new_place h p"
  unfolding new_place_def assms by (rule refl)


section \<open>Witnesses\<close>

definition demo_db :: "unit db_env" where
  "demo_db = \<lparr>de_py = \<lparr>float_of = \<lambda>_. Fin 0, float_repr = \<lambda>_. ''0'', nest_limit = 100, decode_wide = Inr\<rparr>,
     de_settings = [(''USER'', DB_BOOTSTRAP), (''NAME'', DB_NAME), (''HOST'', ''db''), (''PASSWORD'', ''owner'')],
     de_sql = \<lambda>s q x. (Inr (case q of Stmt t _ \<Rightarrow>
        if t = ''SELECT pg_backend_pid()'' then Some [VInt 7]
        else if t = ''SELECT current_user, session_user, current_database(), pg_backend_pid()'' then Some [VText DB_BOOTSTRAP, VText DB_BOOTSTRAP, VText DB_NAME, VInt 7]
        else if q = LOCK then Some [VBool True]
        else if t = ''SELECT pg_get_userbyid(datdba) FROM pg_database WHERE datname=current_database()'' then Some [VText DB_BOOTSTRAP]
        else (case map_of ROLE_CHECKS t of Some (Is vs) \<Rightarrow> Some vs | _ \<Rightarrow> Some [VBool False])), x),
     de_migrate = \<lambda>x. (Inr (), x), de_provision = \<lambda>x. (Inr (), x), de_connect = \<lambda>_ _ _ _ _ x. (Inr (), x),
     de_begin = \<lambda>x. (Inr (), x), de_commit = \<lambda>x. (Inr (), x), de_rollback = \<lambda>x. x,
     de_pending = \<lambda>x. (Inr False, x), de_stores = \<lambda>x. (Inr 1, x), de_elastic = \<lambda>x. (Inr True, x)\<rparr>"

definition demo_env :: environ where
  "demo_env = [(''POSTGRES_USER'', DB_RUNTIME), (''POSTGRES_PASSWORD'', replicate 64 (CHR ''p'')), (''ZENTRAL_DJANGO_SECRET'', ''s''),
     (''ZENTRAL_METRICS_TOKEN'', ''m''), (''AZD_SANTA_SECURITY_STORE_ID'', ''i''), (''ZENTRAL_QUEUE_URL'', ''q'')]"

definition demo_db_host :: "unit dhost" where
  "demo_db_host = \<lparr>h_fs = [([], \<lparr>n_kind = Dir, n_uid = 0, n_mode = 493\<rparr>), ([''e''], \<lparr>n_kind = Reg (env_text demo_env), n_uid = 0, n_mode = 384\<rparr>)],
     h_cwd = [], h_umask = 63, h_outcomes = \<lambda>_. Works, h_calls = 0, h_world = \<lparr>events = [], said = [], rest = ()\<rparr>\<rparr>"

theorem database_initialised_once_witness:
  "created (snd (operator_database demo_db ''initialize'' (Some ''/e'') (Some ''/r'')
      (snd (operator_database demo_db ''initialize'' (Some ''/e'') (Some ''/r'') demo_db_host)))) \<le> 1"
proof -
  have "db_step ''/r'' h (snd (operator_database demo_db ''initialize'' (Some ''/e'') (Some ''/r'') h))" for h
    by (rule db_step.command) simp
  then have "(db_step ''/r'')\<^sup>*\<^sup>* demo_db_host (snd (operator_database demo_db ''initialize'' (Some ''/e'') (Some ''/r'')
      (snd (operator_database demo_db ''initialize'' (Some ''/e'') (Some ''/r'') demo_db_host))))"
    by (meson r_into_rtranclp rtranclp.rtrancl_into_rtrancl)
  from database_initialised_once [OF this] show ?thesis by (simp add: created_def demo_db_host_def)
qed

end
