(* ===== verification/Stage_Runtime.thy ===== *)
theory Stage_Runtime
  imports Eval_Prepare Runtime_Supervisor
begin

text \<open>
  The staging of one fresh runtime, \<open>experiments/server/stage_runtime.py\<close>: the checks of the
  destination and of the image, the generated files, the numbered evidence of every program
  that is run, the empty namespace, the stores of the runtime and their readiness, the one
  initialisation of the database with the handling of its failure, and the receipt.  The
  programs of the machine also act on the file system, as the initialisation does when it
  writes its completion into the evidence directory.
\<close>

record 'x stage_env =
  sg_eval :: "'x eval_env"
  sg_exec :: "environ \<Rightarrow> nat \<Rightarrow> string list \<Rightarrow> 'x \<times> fs \<Rightarrow> finished res \<times> 'x \<times> fs"
    \<comment> \<open>environment, time bound in seconds, arguments; a timeout is \<open>SubprocessError\<close>\<close>
  sg_partial :: "'x \<Rightarrow> (string \<times> string) \<times> 'x"  \<comment> \<open>what a program that timed out had written, as text\<close>
  sg_environ :: environ
  sg_platform :: string
  sg_euid :: nat
  sg_file :: string  \<comment> \<open>\<open>__file__\<close>\<close>
  sg_uuid :: "'x \<Rightarrow> string \<times> 'x"
  sg_now :: "'x \<Rightarrow> rat"  \<comment> \<open>\<open>time.monotonic()\<close>\<close>
  sg_sleep :: "nat \<Rightarrow> 'x \<Rightarrow> 'x"

abbreviation sg_py :: "'x stage_env \<Rightarrow> py_env" where
  "sg_py e \<equiv> ev_py (sg_eval e)"

definition ENTRYPOINT_SHA256 :: string where
  "ENTRYPOINT_SHA256 = ''2789954887836f03fdc24bf42f0d12eb95109920f66911884200a95c3579a8f6''"

section \<open>Private paths\<close>

definition private_directory :: "path \<Rightarrow> ('w host, unit) sx" where
  "private_directory p = look (\<lambda>h.
     res_bind (demand (is_absolute p)) (\<lambda>_.
     res_bind (resolve h p) (\<lambda>q.
     res_bind (demand (p = q)) (\<lambda>_.
     res_bind (res_map (checked_parent h) (p # path_parents p)) (\<lambda>_. Inr ())))))"

definition private_file :: "path \<Rightarrow> ('w host, path) sx" where
  "private_file p =
     sx_bind (private_directory (path_parent p)) (\<lambda>_. look (\<lambda>h.
       res_bind (stat_of h p) (\<lambda>nd.
       res_bind (resolve h p) (\<lambda>q.
       res_bind (demand (p = q \<and> regular nd \<and> n_uid nd = 0 \<and> \<not> mode_has nd 63)) (\<lambda>_. Inr p)))))"

definition require_host :: "'x stage_env \<Rightarrow> unit res" where
  "require_host e = demand (sg_platform e = ''linux'' \<and> sg_euid e = 0)"

fun unix_lines :: "bytes \<Rightarrow> bytes" where
  \<comment> \<open>\<open>raw.replace(b'\r\n', b'\n')\<close>\<close>
  "unix_lines [] = []"
| "unix_lines (c # cs) = (if c = CHR 0x0D \<and> cs \<noteq> [] \<and> hd cs = CHR 0x0A then unix_lines cs else c # unix_lines cs)"

section \<open>Programs with evidence\<close>

definition launch :: "'x stage_env \<Rightarrow> environ \<Rightarrow> nat \<Rightarrow> string list \<Rightarrow> ('x chost, finished) sx" where
  \<comment> \<open>\<open>subprocess.run\<close>\<close>
  "launch e env limit args h =
     (let w = h_world h; (r, x, f) = sg_exec e env limit args (ext w, h_fs h)
      in (r, h\<lparr>h_fs := f, h_world := w\<lparr>ext := x, issued := issued w @ [(args, r)]\<rparr>\<rparr>))"

record staging =
  sequence :: nat
  destination :: path
  step_environ :: environ

type_synonym 'x staged = "staging \<times> 'x chost"

definition on_disk :: "('x chost, 'a) sx \<Rightarrow> ('x staged, 'a) sx" where
  "on_disk m s = (let (r, h) = m (snd s) in (r, (fst s, h)))"

definition step_name :: "nat \<Rightarrow> string \<Rightarrow> string" where
  "step_name n label = replicate (3 - length (show_nat n)) (CHR ''0'') @ show_nat n @ ''-'' @ label @ ''.json''"

definition next_output :: "string \<Rightarrow> ('x staged, path) sx" where
  "next_output label s =
     (let c = (fst s)\<lparr>sequence := Suc (sequence (fst s))\<rparr>
      in (Inr (path_join (destination c) (step_name (sequence c) label)), (c, snd s)))"

definition stage_run :: "'x stage_env \<Rightarrow> string \<Rightarrow> string list \<Rightarrow> nat \<Rightarrow> bool \<Rightarrow> ('x staged, finished) sx" where
  "stage_run e label args limit allowed_failure =
     sx_bind (next_output label) (\<lambda>output.
     sx_bind (\<lambda>s. (Inr (step_environ (fst s)), s)) (\<lambda>env.
     sx_bind (sx_catch (on_disk (launch e env limit args)) (\<lambda>x.
        if x = SubprocessError
        then Some (sx_bind (on_disk (outside (sg_partial e))) (\<lambda>(out, err).
               sx_bind (on_disk (private_write (sg_py e) output (JObj [(''timeout'', JBool True), (''stdout'', JStr out), (''stderr'', JStr err)]))) (\<lambda>_.
                 sx_raise RuntimeError)))
        else None)) (\<lambda>result.
     sx_bind (on_disk (private_write (sg_py e) output
        (JObj [(''returncode'', JInt (returncode result)), (''stdout'', JStr (stdout result)), (''stderr'', JStr (stderr result))]))) (\<lambda>_.
     sx_bind (if returncode result \<noteq> 0 \<and> \<not> allowed_failure then sx_raise RuntimeError else sx_return ()) (\<lambda>_.
       sx_return result)))))"

text \<open>
  A round of \<open>stage_wait\<close> that is not the last sleeps two seconds; \<open>wait_rounds\<close> bounds the rounds as
  it does for the runtime service.
\<close>

fun stage_wait_loop :: "'x stage_env \<Rightarrow> string \<Rightarrow> string list \<Rightarrow> string option \<Rightarrow> rat \<Rightarrow> nat \<Rightarrow> ('x staged, unit) sx" where
  "stage_wait_loop e label args expects deadline 0 = sx_raise Diverge"
| "stage_wait_loop e label args expects deadline (Suc n) =
     sx_bind (stage_run e label args 30 True) (\<lambda>result.
       if returncode result = 0 \<and> (case expects of None \<Rightarrow> True | Some t \<Rightarrow> py_strip (stdout result) = t) then sx_return ()
       else sx_bind (on_disk (outside (\<lambda>x. (sg_now e x, x)))) (\<lambda>t.
            if t \<ge> deadline then sx_raise TimeoutError
            else sx_bind (on_disk (outside (\<lambda>x. ((), sg_sleep e 2 x)))) (\<lambda>_.
              stage_wait_loop e label args expects deadline n)))"

definition stage_wait :: "'x stage_env \<Rightarrow> string \<Rightarrow> string list \<Rightarrow> string option \<Rightarrow> ('x staged, unit) sx" where
  "stage_wait e label args expects =
     sx_bind (on_disk (outside (\<lambda>x. (sg_now e x, x)))) (\<lambda>t.
       stage_wait_loop e label args expects (t + 120) (wait_rounds 120))"

section \<open>The fresh destination\<close>

definition image_checks :: "string \<Rightarrow> json \<Rightarrow> unit res" where
  "image_checks image_id found =
     res_bind (len_of found) (\<lambda>n.
     res_bind (demand (n = 1)) (\<lambda>_.
     res_bind (first_of found) (\<lambda>row.
     res_bind (demands (item_eq row ''Id'' (JStr image_id))) (\<lambda>_.
     res_bind (item_of row ''Config'') (\<lambda>config.
     res_bind (get_or config ''Labels'' (JObj [])) (\<lambda>labels.
       demands (res_and (get_is labels ''org.opencontainers.image.revision'' JNull (JStr COMMIT))
         (get_is labels ''io.azd-santa.variant'' JNull (JStr ''core-experiment'')))))))))"

definition inherited :: "'x stage_env \<Rightarrow> environ" where
  "inherited e = filter (\<lambda>(k, _). \<not> startswith k ''DOCKER_'' \<and> \<not> startswith k ''COMPOSE_'') (sg_environ e)"

definition stage_fresh :: "'x stage_env \<Rightarrow> path \<Rightarrow> path \<Rightarrow> path \<Rightarrow> string \<Rightarrow> ('x chost, path) sx" where
  \<comment> \<open>up to the configuration directory of docker; the absolute destination\<close>
  "stage_fresh e src lock_path dest image_id =
     sx_bind (sx_lift (require_host e)) (\<lambda>_.
     sx_bind (look (\<lambda>h. Inr (absolute_path h dest))) (\<lambda>d.
     sx_bind (look (\<lambda>h. res_guard (\<not> path_exists h d \<and> \<not> is_symlink h d) FileExistsError)) (\<lambda>_.
     sx_bind (look (\<lambda>h. res_bind (resolve h (path_parent d)) (\<lambda>q. demand (path_parent d = q \<and> is_sha_ref image_id)))) (\<lambda>_.
     sx_bind (private_directory (path_parent d)) (\<lambda>_.
     sx_bind (launch e (inherited e) 30 (DOCKER @ [''image'', ''inspect'', image_id])) (\<lambda>inspected.
     sx_bind (sx_lift (demand (returncode inspected = 0))) (\<lambda>_.
     sx_bind (sx_lift (res_bind (load_text (sg_py e) (stdout inspected)) (image_checks image_id))) (\<lambda>_.
     sx_bind (read_text lock_path) (\<lambda>t.
     sx_bind (sx_lift (load_text (sg_py e) t)) (\<lambda>lock.
     sx_bind (eval_prepare (sg_eval e) src image_id lock d ''core-experiment'' None) (\<lambda>_.
     sx_bind (mkdir (path_join d ''docker-config'') 448 False) (\<lambda>_. sx_return d))))))))))))"

section \<open>What was generated\<close>

record stage_plan =
  sp_image :: string
  sp_compose :: path
  sp_configured :: json
  sp_project :: string
  sp_db :: environ
  sp_module :: string

definition stage_command :: "stage_plan \<Rightarrow> string list" where
  "stage_command c = DOCKER @ [''compose'', ''--project-name'', sp_project c, ''-f'', path_str (sp_compose c)]"

definition env_values :: "string \<Rightarrow> environ res" where
  \<comment> \<open>\<open>dict(line.split('=', 1) for line in text.splitlines())\<close>\<close>
  "env_values t = res_bind (res_map (\<lambda>l. case split_first (CHR ''='') l of None \<Rightarrow> Inl ValueError | Some kv \<Rightarrow> Inr kv) (splitlines t)) (\<lambda>kvs.
     Inr (foldl (\<lambda>d (k, v). dset k v d) [] kvs))"

definition read_env :: "path \<Rightarrow> string \<Rightarrow> ('w host, environ) sx" where
  "read_env d filename =
     sx_bind (private_file (path_join d filename)) (\<lambda>p. sx_bind (read_text p) (\<lambda>t. sx_lift (env_values t)))"

definition value_at :: "environ \<Rightarrow> string \<Rightarrow> string res" where
  "value_at d k = (case dget d k of None \<Rightarrow> Inl KeyError | Some v \<Rightarrow> Inr v)"

definition credentials_ok :: "environ \<Rightarrow> environ \<Rightarrow> environ \<Rightarrow> unit res" where
  "credentials_ok db app owner =
     res_bind (value_at db ''POSTGRES_USER'') (\<lambda>u. res_bind (demand (u = ''zentral_owner'')) (\<lambda>_.
     res_bind (value_at app ''POSTGRES_USER'') (\<lambda>v. res_bind (demand (v = ''zentral_runtime'')) (\<lambda>_.
     res_bind (value_at db ''POSTGRES_PASSWORD'') (\<lambda>p. res_bind (value_at app ''POSTGRES_PASSWORD'') (\<lambda>q.
     res_bind (demand (p \<noteq> q)) (\<lambda>_.
       demand (set owner = set (dset ''POSTGRES_PASSWORD'' p (dset ''POSTGRES_USER'' u app))))))))))"

definition stage_plan_of :: "'x stage_env \<Rightarrow> path \<Rightarrow> string \<Rightarrow> ('x chost, stage_plan) sx" where
  "stage_plan_of e d image_id =
     sx_bind (private_file (path_join d ''compose.json'')) (\<lambda>compose.
     sx_bind (read_text compose) (\<lambda>t.
     sx_bind (sx_lift (load_text (sg_py e) t)) (\<lambda>configured.
     sx_bind (sx_lift (item_of configured ''name'')) (\<lambda>name.
     sx_bind (sx_lift (demands (full_match is_project name))) (\<lambda>_.
     sx_bind (sx_lift (text_item configured ''name'')) (\<lambda>prj.
     sx_bind (read_env d ''db.env'') (\<lambda>db.
     sx_bind (read_env d ''runtime.env'') (\<lambda>app.
     sx_bind (read_env d ''migration.env'') (\<lambda>owner.
     sx_bind (sx_lift (credentials_ok db app owner)) (\<lambda>_.
     sx_bind (read_bytes (with_name (py_path (sg_file e)) ''database_roles.py'')) (\<lambda>raw.
       sx_return \<lparr>sp_image = image_id, sp_compose = compose, sp_configured = configured, sp_project = prj,
         sp_db = db, sp_module = sha256_hex (unix_lines raw)\<rparr>)))))))))))"

section \<open>The namespace\<close>

definition taken :: "string \<Rightarrow> string list \<Rightarrow> string list \<Rightarrow> json \<Rightarrow> bool res" where
  \<comment> \<open>whether the network or a volume of the project exists\<close>
  "taken prj volumes networks configured =
     (if prj @ ''_default'' \<in> set networks then Inr True
      else res_bind (item_of configured ''volumes'') (\<lambda>vs. res_bind (iter_of vs) (\<lambda>names.
        res_not (res_all (\<lambda>v. case v of JStr n \<Rightarrow> Inr (prj @ ''_'' @ n \<notin> set volumes) | _ \<Rightarrow> Inl TypeError) names))))"

definition stage_namespace :: "'x stage_env \<Rightarrow> stage_plan \<Rightarrow> ('x staged, unit) sx" where
  "stage_namespace e c =
     sx_bind (stage_run e ''namespace'' (DOCKER @ [''ps'', ''--all'', ''--quiet'', ''--filter'', ''label=com.docker.compose.project='' @ sp_project c]) 60 False) (\<lambda>r.
     sx_bind (sx_lift (demand (py_strip (stdout r) = []))) (\<lambda>_.
     sx_bind (stage_run e ''volume-inventory'' (DOCKER @ [''volume'', ''ls'', ''--format'', ''{{.Name}}'']) 60 False) (\<lambda>vs.
     sx_bind (stage_run e ''network-inventory'' (DOCKER @ [''network'', ''ls'', ''--format'', ''{{.Name}}'']) 60 False) (\<lambda>ns.
       sx_lift (demands (res_not (taken (sp_project c) (splitlines (stdout vs)) (splitlines (stdout ns)) (sp_configured c))))))))"

definition image_probe :: "string \<Rightarrow> string" where
  "image_probe module_hash = source (''from pathlib import Path; import hashlib; assert not Path(`/zentral/ee`).exists(); ''
     @ ''assert hashlib.sha256(Path(`/zentral/server/azd_santa_database_roles.py`).read_bytes()).hexdigest()==`'' @ module_hash @ ''`; ''
     @ ''assert hashlib.sha256(Path(`/zentral/docker-entrypoint.py`).read_bytes()).hexdigest()==`'' @ ENTRYPOINT_SHA256 @ ''`; ''
     @ ''assert Path(`/zentral/docker-entrypoint.py`).stat().st_mode & 0o777 == 0o755'')"

definition stage_image :: "'x stage_env \<Rightarrow> stage_plan \<Rightarrow> ('x staged, unit) sx" where
  "stage_image e c =
     sx_bind (stage_run e ''compose-run-capabilities'' (stage_command c @ [''run'', ''--help'']) 60 False) (\<lambda>r.
     sx_bind (sx_lift (demand (has_part (stdout r) ''--env-from-file''))) (\<lambda>_.
     sx_bind (stage_run e ''image-body'' (DOCKER @ [''run'', ''--rm'', ''--network'', ''none'', ''--pull'', ''never'', ''--entrypoint'', ''python'',
        sp_image c, ''-I'', ''-c'', image_probe (sp_module c)]) 60 False) (\<lambda>_.
     sx_bind (stage_run e ''compose-config'' (stage_command c @ [''config'', ''--quiet'']) 60 False) (\<lambda>_. sx_return ()))))"

section \<open>The stores\<close>

definition one_off :: "stage_plan \<Rightarrow> string list \<Rightarrow> string list" where
  \<comment> \<open>a one-off container of the application\<close>
  "one_off c args = stage_command c @ [''run'', ''--rm'', ''--no-deps'', ''--pull'', ''never'', ''--entrypoint'', ''python'', ''web''] @ args"

definition SEARCH :: string where
  "SEARCH = source (''import json,urllib.request; o=urllib.request.build_opener(urllib.request.ProxyHandler({})); ''
     @ ''r=json.load(o.open(`http://elastic:9200/_cluster/health?wait_for_status=yellow&timeout=5s`,timeout=8)); ''
     @ ''assert not r[`timed_out`] and r[`status`] in (`yellow`,`green`)'')"

definition stage_stores :: "'x stage_env \<Rightarrow> stage_plan \<Rightarrow> ('x staged, unit) sx" where
  "stage_stores e c =
     sx_bind (stage_run e ''dependencies'' (stage_command c @ [''up'', ''--detach'', ''--no-recreate'', ''--pull'', ''never'', ''db'', ''redis'', ''rabbitmq'', ''elastic'']) 120 False) (\<lambda>_.
     sx_bind (sx_lift (value_at (sp_db c) ''POSTGRES_USER'')) (\<lambda>user.
     sx_bind (sx_lift (value_at (sp_db c) ''POSTGRES_DB'')) (\<lambda>db.
     sx_bind (stage_wait e ''database'' (stage_command c @ [''exec'', ''-T'', ''db'', ''pg_isready'', ''-U'', user, ''-d'', db]) None) (\<lambda>_.
     sx_bind (stage_wait e ''broker'' (stage_command c @ [''exec'', ''-T'', ''rabbitmq'', ''rabbitmq-diagnostics'', ''-q'', ''check_running'']) None) (\<lambda>_.
     sx_bind (stage_wait e ''redis'' (stage_command c @ [''exec'', ''-T'', ''redis'', ''redis-cli'', ''PING'']) (Some ''PONG'')) (\<lambda>_.
       stage_wait e ''search'' (one_off c [''-c'', SEARCH]) None))))))"

section \<open>The initialisation\<close>

definition stage_binding :: "'x stage_env \<Rightarrow> path \<Rightarrow> stage_plan \<Rightarrow> ('x chost, json \<times> string) sx" where
  \<comment> \<open>with the digest of the Compose file\<close>
  "stage_binding e d c =
     sx_bind (read_bytes (sp_compose c)) (\<lambda>raw.
     sx_bind (read_bytes (path_join d ''db.env'')) (\<lambda>db.
     sx_bind (read_bytes (path_join d ''runtime.env'')) (\<lambda>app.
     sx_bind (read_bytes (path_join d ''migration.env'')) (\<lambda>owner.
       sx_return (JObj [(''scope'', JStr ''fresh-private-database-initialization''), (''image'', JStr (sp_image c)), (''project'', JStr (sp_project c)),
         (''compose_sha256'', JStr (sha256_hex raw)), (''module_sha256'', JStr (sp_module c)),
         (''environment_sha256'', JObj [(''db.env'', JStr (sha256_hex db)), (''runtime.env'', JStr (sha256_hex app)), (''migration.env'', JStr (sha256_hex owner))]),
         (''state'', JStr ''outcome-unconfirmed; never repeat initialization automatically'')], sha256_hex raw)))))"

definition initialize_args :: "stage_plan \<Rightarrow> path \<Rightarrow> path \<Rightarrow> string \<Rightarrow> string list" where
  "initialize_args c d ev name = stage_command c @ [''run'', ''--rm'', ''--no-deps'', ''--pull'', ''never'', ''--name'', name,
     ''--user'', ''0'', ''--env-from-file'', path_str (path_join d ''migration.env''),
     ''--volume'', path_str (path_join d ''runtime.env'') @ '':/run/azd-runtime.env:ro'',
     ''--volume'', path_str ev @ '':/run/azd-db-init:rw'', ''--entrypoint'', ''python'',
     ''web'', ''server/manage.py'', ''operator_database'', ''initialize'',
     ''--runtime-env-file'', ''/run/azd-runtime.env'', ''--receipt'', ''/run/azd-db-init/attempt.json'']"

definition initializer_id :: "stage_plan \<Rightarrow> string \<Rightarrow> json \<Rightarrow> string res" where
  \<comment> \<open>the container of the failed initialisation, when it is the one that was started\<close>
  "initializer_id c name rows =
     res_bind (len_of rows) (\<lambda>n.
     res_bind (res_guard (n = 1) RuntimeError) (\<lambda>_.
     res_bind (first_of rows) (\<lambda>row.
     res_bind (all_of [item_eq row ''Name'' (JStr (CHR ''/'' # name)), item_eq row ''Image'' (JStr (sp_image c)),
        res_bind (item_of row ''Id'') (full_match is_sha256_hex),
        res_bind (dig row [''Config'', ''Labels'']) (\<lambda>l. all_of [get_is l ''com.docker.compose.project'' JNull (JStr (sp_project c)),
          get_is l ''com.docker.compose.service'' JNull (JStr ''web''), get_is l ''com.docker.compose.oneoff'' JNull (JStr ''True'')])]) (\<lambda>ok.
     res_bind (res_guard ok RuntimeError) (\<lambda>_. text_item row ''Id'')))))"

definition initializer_failed :: "'x stage_env \<Rightarrow> stage_plan \<Rightarrow> string \<Rightarrow> ('x staged, unit) sx" where
  \<comment> \<open>what the handler does before the exception is raised again\<close>
  "initializer_failed e c name =
     sx_bind (stage_run e ''initializer-inspection'' (DOCKER @ [''inspect'', name]) 60 True) (\<lambda>inspected.
       if returncode inspected = 0
       then sx_bind (sx_lift (res_bind (load_text (sg_py e) (stdout inspected)) (initializer_id c name))) (\<lambda>cid.
            sx_bind (stage_run e ''initializer-stop'' (DOCKER @ [''stop'', ''--time'', ''5'', cid]) 20 False) (\<lambda>_. sx_return ()))
       else sx_bind (stage_run e ''initializer-inventory'' (DOCKER @ [''ps'', ''--all'', ''--format'', ''{{.Names}}'']) 60 False) (\<lambda>r.
            if name \<in> set (splitlines (stdout r)) then sx_raise RuntimeError else sx_return ()))"

definition completion_ok :: "json \<Rightarrow> unit res" where
  "completion_ok v =
     res_bind (res_and (get_is v ''scope'' JNull (JStr ''fresh-database-initialization'')) (get_is v ''state'' JNull (JStr ''runtime-role-checked''))) (\<lambda>ok.
       res_guard ok RuntimeError)"

definition stage_initialize :: "'x stage_env \<Rightarrow> path \<Rightarrow> stage_plan \<Rightarrow> ('x staged, string) sx" where
  \<comment> \<open>the digest of the Compose file that was bound\<close>
  "stage_initialize e d c =
     (let ev = path_join d ''database-initialization'' in
      sx_bind (on_disk (mkdir ev 448 False)) (\<lambda>_.
      sx_bind (on_disk (stage_binding e d c)) (\<lambda>(binding, digest).
      sx_bind (on_disk (private_write (sg_py e) (path_join ev ''binding.json'') binding)) (\<lambda>_.
      sx_bind (on_disk (outside (sg_uuid e))) (\<lambda>u.
        let name = ''santa-db-initialize-'' @ u in
      sx_bind (sx_catch (sx_bind (stage_run e ''initialize'' (initialize_args c d ev name) 600 False) (\<lambda>_. sx_return ())) (\<lambda>x.
         if x \<in> {SystemExit, Diverge} then None
         else Some (sx_bind (initializer_failed e c name) (\<lambda>_. sx_raise x)))) (\<lambda>_.
      sx_bind (on_disk (private_file (path_join ev ''attempt.json.complete''))) (\<lambda>p.
      sx_bind (on_disk (read_text p)) (\<lambda>t.
      sx_bind (sx_lift (res_bind (load_text (sg_py e) t) completion_ok)) (\<lambda>_.
        sx_return digest)))))))))"

section \<open>Staging\<close>

definition manage :: "stage_plan \<Rightarrow> string list \<Rightarrow> string list" where
  "manage c args = one_off c (''server/manage.py'' # args)"

definition stage_jobs :: "'x stage_env \<Rightarrow> stage_plan \<Rightarrow> ('x staged, unit) sx" where
  "stage_jobs e c =
     sx_bind (stage_run e ''runtime-authority'' (manage c [''operator_database'', ''check'']) 60 False) (\<lambda>_.
     sx_bind (stage_run e ''django-check'' (manage c [''check'']) 60 False) (\<lambda>_.
     sx_bind (stage_run e ''store-import-check'' (manage c [''shell'', ''--no-imports'', ''-c'',
        source ''import importlib; importlib.import_module(`zentral.core.stores.provisioning`)'']) 60 False) (\<lambda>_. sx_return ())))"

definition stage_result :: "string \<Rightarrow> string \<Rightarrow> json" where
  "stage_result image_id digest = JObj
     [(''scope'', JStr ''private-synthetic-database-staging-only''), (''image_id'', JStr image_id), (''upstream_commit'', JStr COMMIT),
      (''compose_sha256'', JStr digest), (''database_initialization'', JStr ''runtime-role-checked''), (''listener_started'', JBool False),
      (''limitation'', JStr ''No security-store admission, live role harness, operator/browser or sync acceptance'')]"

definition stage_body :: "'x stage_env \<Rightarrow> path \<Rightarrow> stage_plan \<Rightarrow> ('x staged, json) sx" where
  "stage_body e d c =
     sx_bind (stage_namespace e c) (\<lambda>_.
     sx_bind (stage_image e c) (\<lambda>_.
     sx_bind (stage_stores e c) (\<lambda>_.
     sx_bind (stage_initialize e d c) (\<lambda>digest.
     sx_bind (stage_jobs e c) (\<lambda>_.
       let result = stage_result (sp_image c) digest in
     sx_bind (on_disk (private_write (sg_py e) (path_join d ''stage-receipt.json'') result)) (\<lambda>_.
     sx_bind (on_disk (say (dumps (sg_py e) result))) (\<lambda>_.
     sx_bind (on_disk (say ''SANTA_REAL_DJANGO_CHECK_PASSED'')) (\<lambda>_. sx_return result))))))))"

definition stage :: "'x stage_env \<Rightarrow> path \<Rightarrow> path \<Rightarrow> path \<Rightarrow> string \<Rightarrow> ('x chost, json) sx" where
  "stage e src lock_path dest image_id =
     sx_bind (stage_fresh e src lock_path dest image_id) (\<lambda>d.
     sx_bind (stage_plan_of e d image_id) (\<lambda>c h.
       let env = dset ''DOCKER_CONFIG'' (path_str (path_join d ''docker-config'')) (inherited e);
           (r, s) = stage_body e d c (\<lparr>sequence = 0, destination = d, step_environ = env\<rparr>, h)
       in (r, snd s)))"

definition stage_main :: "'x stage_env \<Rightarrow> string \<Rightarrow> string \<Rightarrow> string \<Rightarrow> string \<Rightarrow> ('x chost, unit) sx" where
  \<comment> \<open>the script after its arguments are parsed\<close>
  "stage_main e src lock_path dest image_id =
     sx_catch (sx_bind (stage e (py_path src) (py_path lock_path) (py_path dest) image_id) (\<lambda>_. sx_return ()))
       (\<lambda>x. if x \<in> {SystemExit, Diverge} then None else Some (sx_raise SystemExit))"

end
