(* ===== verification/Stage_Facts.thy ===== *)
theory Stage_Facts
  imports Stage_Runtime Eval_Facts Runtime_Facts
begin

text \<open>
  What staging does to the machine.  Every program it runs is one of a closed list, so that
  only the stores are started, the owner's credentials reach the initialisation alone, and the
  initialisation is run at most once per destination, over every history.  Its receipt is
  only written after every check has passed, and its waits end.
\<close>

section \<open>Frames\<close>

definition ran :: "(string list \<Rightarrow> bool) \<Rightarrow> bool \<Rightarrow> 'x chost \<Rightarrow> 'x chost \<Rightarrow> bool" where
  \<comment> \<open>the programs that were run satisfy \<open>P\<close>; with \<open>g\<close>, no file was changed or removed\<close>
  "ran P g h h' \<longleftrightarrow> (\<exists>es. issued (h_world h') = issued (h_world h) @ es \<and> list_all (P \<circ> fst) es) \<and> (g \<longrightarrow> fs_grows h h')"

interpretation ran: frame "ran P g" for P g
  by unfold_locales (fastforce simp: ran_def intro: fs_grows_refl fs_grows_trans)+

definition programs_add :: "'x stage_env \<Rightarrow> bool" where
  \<comment> \<open>the programs that are run change no existing file\<close>
  "programs_add e \<longleftrightarrow> (\<forall>env n args x f cs nd. dget f cs = Some nd \<longrightarrow> dget (snd (snd (sg_exec e env n args (x, f)))) cs = Some nd)"

lemma launch_result:
  assumes "launch e env limit args h = (r, h')"
  shows "issued (h_world h') = issued (h_world h) @ [(args, r)]" "programs_add e \<Longrightarrow> fs_grows h h'"
proof -
  obtain r1 x f where 1: "sg_exec e env limit args (ext (h_world h), h_fs h) = (r1, x, f)" by (metis prod.collapse)
  then show "issued (h_world h') = issued (h_world h) @ [(args, r)]" using assms by (auto simp: launch_def Let_def)
  have "h_fs h' = f" using assms 1 by (auto simp: launch_def Let_def)
  moreover assume "programs_add e"
  then have "dget (h_fs h) cs = Some nd \<longrightarrow> dget f cs = Some nd" for cs nd
    using 1 unfolding programs_add_def by (metis snd_conv)
  ultimately show "fs_grows h h'" by (simp add: fs_grows_def)
qed

lemma ran_launch: "P args \<Longrightarrow> (g \<Longrightarrow> programs_add e) \<Longrightarrow> ran.keeps P g (launch e env limit args)"
  by (rule ran.keepsI) (auto simp: ran_def launch_result)

lemma ran_file: "grows.keeps m \<Longrightarrow> same_world.keeps m \<Longrightarrow> ran.keeps P g m"
  by (auto simp: ran.keeps_def ran_def grows.keeps_def same_world.keeps_def)

lemma ran_look: "ran.keeps P g (look f)"
  by (rule ran_file [OF keeps_look]) (simp add: same_world.keeps_def look_def)

lemma ran_outside: "ran.keeps P g (outside f)"
  by (auto simp: ran.keeps_def ran_def outside_def fs_grows_def split: prod.splits)

lemma ran_say: "ran.keeps P g (say t)"
  by (auto simp: ran.keeps_def ran_def say_def fs_grows_def)

lemma world_write_new: "same_world.keeps (write_new p b m)"
  unfolding write_new_def by (intro same_world.keeps_bind world_open world_write)

lemma ran_write: "ran.keeps P g (private_write py p v)"
  unfolding private_write_def by (rule ran_file [OF keeps_write_new world_write_new])

lemma ran_mkdir: "ran.keeps P g (mkdir p m ok)"
  by (rule ran_file [OF keeps_mkdir world_mkdir])

lemma ran_read: "ran.keeps P g (read_bytes p)"
  by (rule ran_file [OF keeps_read world_read])

lemma ran_read_text: "ran.keeps P g (read_text p)"
  unfolding read_text_def by (intro ran.keeps_intros ran_read)

lemma ran_private: "ran.keeps P g (private_directory p)" "ran.keeps P g (private_file p)"
  unfolding private_directory_def private_file_def by (intro ran.keeps_intros ran_look)+

lemmas ran_base = ran.keeps_bind ran.keeps_return ran.keeps_raise ran.keeps_lift ran_look ran_outside ran_say ran_write ran_mkdir
  ran_read ran_read_text ran_private

lemma ran_read_env: "ran.keeps P g (read_env d n)"
  unfolding read_env_def by (intro ran_base)

lemma ran_plan: "ran.keeps P g (stage_plan_of e d img)"
  unfolding stage_plan_of_def by (intro ran_base ran_read_env)

lemma ran_binding: "ran.keeps P g (stage_binding e d c)"
  unfolding stage_binding_def by (intro ran_base)

interpretation unissued: frame "\<lambda>h h' :: 'x chost. issued (h_world h') = issued (h_world h)"
  by unfold_locales auto

lemma unissued_world: "same_world.keeps m \<Longrightarrow> unissued.keeps m"
  by (simp add: unissued.keeps_def same_world.keeps_def)

lemma unissued_outside: "unissued.keeps (outside f)"
  by (auto simp: unissued.keeps_def outside_def split: prod.splits)

lemma unissued_look: "unissued.keeps (look f)"
  by (simp add: unissued.keeps_def look_def)

lemma unissued_chmod: "unissued.keeps (chmod p m)"
  unfolding chmod_def
  by (intro unissued.keeps_bind unissued_world [OF world_io(2)]) (auto simp: unissued.keeps_def split: sum.splits option.splits)

lemmas unissued_base = unissued.keeps_bind unissued.keeps_return unissued.keeps_lift unissued_look unissued_outside unissued_chmod
  unissued_world [OF world_read] unissued_world [OF world_mkdir] unissued_world [OF world_write_new]

lemma unissued_check_sources: "unissued.keeps (check_sources base fs)"
  by (induction fs) (auto simp: check_source_def Let_def split: prod.splits intro!: unissued_base)

lemma unissued_write_envs: "unissued.keeps (write_envs d fs)"
  by (induction fs) (auto intro!: unissued_base)

lemma unissued_prepare: "unissued.keeps (eval_prepare e src img lock dest variant prof)"
  unfolding eval_prepare_def draw_secrets_def eval_files_def read_text_def Let_def
  by (intro unissued_base unissued_check_sources unissued_write_envs) (auto intro!: unissued_base)

lemma ran_prepare: "ran.keeps P g (eval_prepare e src img lock dest variant prof)"
proof (rule ran.keepsI)
  fix h r h' assume run: "eval_prepare e src img lock dest variant prof h = (r, h')"
  have "issued (h_world h') = issued (h_world h)" by (rule unissued.keepsD [OF unissued_prepare run])
  then show "ran P g h h'"
    using generation_keeps_files [of h e src img lock dest variant prof] run by (simp add: ran_def)
qed

lemma ran_fresh: "P (DOCKER @ [''image'', ''inspect'', img]) \<Longrightarrow> (g \<Longrightarrow> programs_add e) \<Longrightarrow> ran.keeps P g (stage_fresh e src lock dest img)"
  unfolding stage_fresh_def by (intro ran_base ran_launch ran_prepare)

section \<open>Steps with evidence\<close>

interpretation staged: frame "\<lambda>s s' :: 'x staged. ran P g (snd s) (snd s')" for P g
  by unfold_locales (blast intro: ran.R_refl ran.R_trans)+

lemma staged_disk: "ran.keeps P g m \<Longrightarrow> staged.keeps P g (on_disk m)"
  by (rule staged.keepsI) (auto simp: on_disk_def dest: ran.keepsD split: prod.splits)

lemma staged_next: "staged.keeps P g (next_output label)"
  by (simp add: staged.keeps_def next_output_def Let_def ran.R_refl)

lemma staged_environ: "staged.keeps P g (\<lambda>s. (Inr (step_environ (fst s)), s))"
  by (simp add: staged.keeps_def ran.R_refl)

lemma staged_run: "P args \<Longrightarrow> (g \<Longrightarrow> programs_add e) \<Longrightarrow> staged.keeps P g (stage_run e label args limit allowed)"
  unfolding stage_run_def
  by (intro staged.keeps_bind staged.keeps_catch staged_next staged_environ staged_disk ran_launch ran_write)
     (auto split: if_splits prod.splits intro!: staged.keeps_bind staged.keeps_raise staged.keeps_return staged_disk ran_write ran_outside)

lemma staged_wait_loop:
  "P args \<Longrightarrow> (g \<Longrightarrow> programs_add e) \<Longrightarrow> staged.keeps P g (stage_wait_loop e label args expects deadline n)"
  by (induction n) (auto intro!: staged.keeps_bind staged.keeps_raise staged.keeps_return staged_run staged_disk ran_outside)

lemma staged_wait: "P args \<Longrightarrow> (g \<Longrightarrow> programs_add e) \<Longrightarrow> staged.keeps P g (stage_wait e label args expects)"
  unfolding stage_wait_def by (intro staged.keeps_bind staged_disk ran_outside staged_wait_loop)

lemmas staged_base = staged.keeps_bind staged.keeps_return staged.keeps_raise staged.keeps_lift staged_run staged_wait
  staged_disk [OF ran_write] staged_disk [OF ran_mkdir] staged_disk [OF ran_outside] staged_disk [OF ran_binding] staged_disk [OF ran_say]
  staged_disk [OF ran_private(2)] staged_disk [OF ran_read_text]

section \<open>The programs of a staging\<close>

text \<open>
  The closed list.  Beside looking, staging runs the image once without a network, starts the
  four stores, runs commands inside them, runs one-off containers of the application, which
  have no published port and the environment of the runtime, stops the container of a failed
  initialisation, and runs the initialisation itself, the one command with the owner's
  environment.
\<close>

definition is_initialisation :: "path \<Rightarrow> string list \<Rightarrow> bool" where
  "is_initialisation d args \<longleftrightarrow>
     (\<exists>c name. args = initialize_args c d (path_join d ''database-initialization'') name)"

definition looking :: "string list \<Rightarrow> bool" where
  "looking rest \<longleftrightarrow> take 1 rest = [''ps''] \<or> take 2 rest \<in> {[''volume'', ''ls''], [''network'', ''ls''], [''image'', ''inspect'']} \<or> take 1 rest = [''inspect'']"

definition compose_task :: "string list \<Rightarrow> bool" where
  "compose_task rest \<longleftrightarrow> rest = [''run'', ''--help''] \<or> rest = [''config'', ''--quiet'']
     \<or> rest = [''up'', ''--detach'', ''--no-recreate'', ''--pull'', ''never'', ''db'', ''redis'', ''rabbitmq'', ''elastic'']
     \<or> (\<exists>store more. rest = [''exec'', ''-T'', store] @ more \<and> store \<in> {''db'', ''redis'', ''rabbitmq''})
     \<or> (\<exists>more. rest = [''run'', ''--rm'', ''--no-deps'', ''--pull'', ''never'', ''--entrypoint'', ''python'', ''web''] @ more)"

definition staging_task :: "path \<Rightarrow> string \<Rightarrow> string list \<Rightarrow> bool" where
  "staging_task d img args \<longleftrightarrow> is_initialisation d args \<or> (\<exists>rest. args = DOCKER @ rest \<and> (looking rest
     \<or> (\<exists>more. rest = [''run'', ''--rm'', ''--network'', ''none'', ''--pull'', ''never'', ''--entrypoint'', ''python'', img] @ more)
     \<or> (\<exists>cid. rest = [''stop'', ''--time'', ''5'', cid])
     \<or> (\<exists>prj file more. rest = [''compose'', ''--project-name'', prj, ''-f'', file] @ more \<and> compose_task more)))"

lemmas task_defs = staging_task_def looking_def compose_task_def stage_command_def one_off_def manage_def

lemma plain_task:
  assumes "staging_task d img args" "last (butlast args) \<noteq> ''--receipt''"
  shows "\<not> is_initialisation d args"
  using assms(2) by (auto simp: is_initialisation_def initialize_args_def butlast_append)

definition calm :: "path \<Rightarrow> string \<Rightarrow> string list \<Rightarrow> bool" where
  "calm d img args \<longleftrightarrow> staging_task d img args \<and> \<not> is_initialisation d args"

lemma calmI: "staging_task d img args \<Longrightarrow> last (butlast args) \<noteq> ''--receipt'' \<Longrightarrow> calm d img args"
  using plain_task by (simp add: calm_def)

lemma calm_looks:
  "calm d img (DOCKER @ [''image'', ''inspect'', i])" "calm d img (DOCKER @ [''inspect'', i])" "calm d img (DOCKER @ [''stop'', ''--time'', ''5'', i])"
  "calm d img (DOCKER @ [''ps'', ''--all'', ''--quiet'', ''--filter'', i])" "calm d img (DOCKER @ [''volume'', ''ls'', ''--format'', i])"
  "calm d img (DOCKER @ [''network'', ''ls'', ''--format'', i])" "calm d img (DOCKER @ [''ps'', ''--all'', ''--format'', i])"
  "calm d img (DOCKER @ [''run'', ''--rm'', ''--network'', ''none'', ''--pull'', ''never'', ''--entrypoint'', ''python'', img, ''-I'', ''-c'', i])"
  by (intro calmI; simp add: task_defs butlast_append)+

lemma calm_compose:
  "calm d img (stage_command c @ [''run'', ''--help''])" "calm d img (stage_command c @ [''config'', ''--quiet''])"
  "calm d img (stage_command c @ [''up'', ''--detach'', ''--no-recreate'', ''--pull'', ''never'', ''db'', ''redis'', ''rabbitmq'', ''elastic''])"
  "calm d img (stage_command c @ [''exec'', ''-T'', ''db'', ''pg_isready'', ''-U'', u, ''-d'', n])"
  "calm d img (stage_command c @ [''exec'', ''-T'', ''rabbitmq'', ''rabbitmq-diagnostics'', ''-q'', ''check_running''])"
  "calm d img (stage_command c @ [''exec'', ''-T'', ''redis'', ''redis-cli'', ''PING''])"
  "calm d img (one_off c [''-c'', t])" "calm d img (manage c [''operator_database'', ''check''])" "calm d img (manage c [''check''])"
  "calm d img (manage c [''shell'', ''--no-imports'', ''-c'', t])"
  by (intro calmI; simp add: task_defs butlast_append)+

lemma task_initialise: "staging_task d img (initialize_args c d (path_join d ''database-initialization'') name)"
  by (auto simp: staging_task_def is_initialisation_def)

section \<open>At most one initialisation\<close>

text \<open>
  A count over the state that an operation leaves alone or raises by at most one.
\<close>

locale meter =
  fixes f :: "'s \<Rightarrow> nat"
begin

definition rests :: "('s, 'a) sx \<Rightarrow> bool" where
  "rests m \<longleftrightarrow> (\<forall>s. f (snd (m s)) = f s)"

definition once :: "('s, 'a) sx \<Rightarrow> bool" where
  "once m \<longleftrightarrow> (\<forall>s. f (snd (m s)) \<le> Suc (f s))"

lemma meter_rests: "rests m \<Longrightarrow> once m"
  by (simp add: once_def rests_def)

lemma meter_after:
  assumes "rests m" "\<And>v. once (k v)"
  shows "once (sx_bind m k)"
  unfolding once_def
proof
  fix s
  obtain r s1 where 1: "m s = (r, s1)" by fastforce
  then have "f s1 = f s" using assms(1) by (metis rests_def snd_conv)
  with 1 assms(2) show "f (snd (sx_bind m k s)) \<le> Suc (f s)" by (cases r) (auto simp: sx_bind_def once_def, metis)
qed

lemma meter_before:
  assumes "once m" "\<And>v. rests (k v)"
  shows "once (sx_bind m k)"
  unfolding once_def
proof
  fix s
  obtain r s1 where 1: "m s = (r, s1)" by fastforce
  then have "f s1 \<le> Suc (f s)" using assms(1) by (metis once_def snd_conv)
  with 1 assms(2) show "f (snd (sx_bind m k s)) \<le> Suc (f s)" by (cases r) (auto simp: sx_bind_def rests_def)
qed

lemma meter_catch:
  assumes "once m" "\<And>x k. h x = Some k \<Longrightarrow> rests k"
  shows "once (sx_catch m h)"
  unfolding once_def
proof
  fix s
  obtain r s1 where 1: "m s = (r, s1)" by fastforce
  then have "f s1 \<le> Suc (f s)" using assms(1) by (metis once_def snd_conv)
  with 1 show "f (snd (sx_catch m h s)) \<le> Suc (f s)"
    using assms(2) by (cases r) (auto simp: sx_catch_def rests_def split: option.splits)
qed

end


definition initialisations_run :: "path \<Rightarrow> 'x chost \<Rightarrow> nat" where
  "initialisations_run d h = length (filter (is_initialisation d \<circ> fst) (issued (h_world h)))"

interpretation inits: meter "\<lambda>s :: 'x staged. initialisations_run d (snd s)" for d .

lemma calm_count: "ran (calm d img) g h h' \<Longrightarrow> initialisations_run d h' = initialisations_run d h"
  by (auto simp: ran_def initialisations_run_def list_all_iff calm_def filter_empty_conv)

lemma calm_rests: "staged.keeps (calm d img) False m \<Longrightarrow> inits.rests d m"
  unfolding inits.rests_def by (metis calm_count prod.collapse staged.keepsD)

lemma task_of_calm:
  assumes "staged.keeps (calm d img) g m"
  shows "staged.keeps (staging_task d img) g m"
proof (rule staged.keepsI)
  fix s r s' assume "m s = (r, s')"
  then have "ran (calm d img) g (snd s) (snd s')" by (rule staged.keepsD [OF assms])
  then show "ran (staging_task d img) g (snd s) (snd s')" by (auto simp: ran_def calm_def list_all_iff)
qed

lemma calm_parts:
  assumes "g \<Longrightarrow> programs_add e"
  shows "staged.keeps (calm d (sp_image c)) g (stage_namespace e c)" "staged.keeps (calm d (sp_image c)) g (stage_image e c)"
    "staged.keeps (calm d (sp_image c)) g (stage_stores e c)" "staged.keeps (calm d (sp_image c)) g (stage_jobs e c)"
    "staged.keeps (calm d (sp_image c)) g (initializer_failed e c name)"
  unfolding stage_namespace_def stage_image_def stage_stores_def stage_jobs_def initializer_failed_def
  by (auto intro!: staged_base calm_looks calm_compose assms)

lemma once_run: "inits.once d (stage_run e label args limit allowed)"
proof -
  have "inits.once d (on_disk (launch e env limit args))" for env
    unfolding inits.once_def by (auto simp: on_disk_def initialisations_run_def launch_result(1) split: prod.splits)
  then show ?thesis unfolding stage_run_def
    by (intro inits.meter_after [OF calm_rests [OF staged_next]] inits.meter_after [OF calm_rests [OF staged_environ]]
          inits.meter_before [OF inits.meter_catch] calm_rests [where img = "[]"])
       (auto split: if_splits prod.splits intro!: staged_base)
qed

lemma task_initialize:
  assumes "g \<Longrightarrow> programs_add e"
  shows "staged.keeps (staging_task d (sp_image c)) g (stage_initialize e d c)"
  unfolding stage_initialize_def Let_def
  by (auto intro!: staged_base staged.keeps_catch task_initialise task_of_calm [OF calm_parts(5)] assms split: if_splits)

lemma once_initialize: "inits.once d (stage_initialize e d c)"
proof -
  have calm: "staged.keeps (calm d (sp_image c)) False (initializer_failed e c n)" for n by (rule calm_parts(5)) simp
  have ran: "inits.once d (sx_bind (stage_run e l a t b) (\<lambda>_. sx_return ()))" for l a t b
    by (intro inits.meter_before once_run calm_rests [where img = "[]"] staged_base)
  have tail: "inits.once d (sx_bind (sx_catch (sx_bind (stage_run e l a t b) (\<lambda>_. sx_return ())) H) K)"
    if "\<And>x k. H x = Some k \<Longrightarrow> inits.rests d k" "\<And>v. inits.rests d (K v)"
    for l a t b and H :: "exn \<Rightarrow> ('a staged, unit) sx option" and K :: "unit \<Rightarrow> ('a staged, string) sx"
    by (intro inits.meter_before [OF inits.meter_catch] ran that)
  show ?thesis unfolding stage_initialize_def Let_def
    by (rule tail | rule inits.meter_after | rule calm_rests [where img = "sp_image c"] | rule staged_base calm | simp only: split_paired_all prod.case)+
       (auto intro!: calm_rests [where img = "sp_image c"] staged_base calm split: if_splits)
qed

lemma body_parts:
  assumes "g \<Longrightarrow> programs_add e"
  shows "staged.keeps (staging_task d (sp_image c)) g (stage_body e d c)" "inits.once d (stage_body e d c)"
proof -
  show "staged.keeps (staging_task d (sp_image c)) g (stage_body e d c)"
    unfolding stage_body_def Let_def
    by (intro staged_base task_of_calm [OF calm_parts(1)] task_of_calm [OF calm_parts(2)] task_of_calm [OF calm_parts(3)]
          task_of_calm [OF calm_parts(4)] task_initialize assms)
  have r: "inits.rests d (stage_namespace e c)" "inits.rests d (stage_image e c)" "inits.rests d (stage_stores e c)"
    by (rule calm_rests [where img = "sp_image c"], rule calm_parts, simp)+
  show "inits.once d (stage_body e d c)"
    unfolding stage_body_def Let_def
    by (intro inits.meter_after [OF r(1)] inits.meter_after [OF r(2)] inits.meter_after [OF r(3)] inits.meter_before [OF once_initialize]
          calm_rests [where img = "sp_image c"] staged_base calm_parts(4)) simp
qed

section \<open>The destination\<close>

lemma plan_image: "stage_plan_of e d img h = (Inr c, h') \<Longrightarrow> sp_image c = img"
  by (auto simp: stage_plan_of_def sx_simps)

lemma mkdir_exists: "mkdir p m False h = (Inr (), h1) \<Longrightarrow> path_exists h1 p"
proof -
  assume run: "mkdir p m False h = (Inr (), h1)"
  obtain r h0 where 0: "io_ok h = (r, h0)" by fastforce
  have "\<exists>u. r = Inr u" using run 0 by (cases r) (auto simp: mkdir_def sx_bind_def)
  then obtain cs where cs: "new_place h0 p = Inr cs" "h1 = put_node cs Dir m h0"
    using run 0 by (auto simp: mkdir_def sx_bind_def split: sum.splits if_splits)
  have "resolve_parts (h_fs h1) (h_cwd h0) p = Inr cs"
    by (rule created_resolves [OF cs(1)]) (use new_place_free [OF cs(1)] cs(2) in \<open>auto simp: put_node_def is_link_def\<close>)
  then show ?thesis using cs(2) by (simp add: path_exists_def stat_of_def put_node_def)
qed

lemma exists_grows:
  assumes "path_exists h p" "is_absolute p" "fs_grows h h'"
  shows "path_exists h' p"
proof -
  obtain cs nd where c: "resolve_parts (h_fs h) (h_cwd h) p = Inr cs" "dget (h_fs h) cs = Some nd"
    using assms(1) by (auto simp: path_exists_def stat_of_def res_simps split: sum.splits option.splits)
  then have "resolve_parts (h_fs h') (h_cwd h') p = Inr cs" "dget (h_fs h') cs = Some nd"
    using assms(2,3) by (auto simp: resolve_parts_def fs_grows_def intro: walk_grows)
  then show ?thesis by (simp add: path_exists_def stat_of_def)
qed

lemma bind_grows: "sx_bind m k h = (Inr y, h') \<Longrightarrow> (\<And>v. grows.keeps (k v)) \<Longrightarrow> \<exists>v h1. m h = (Inr v, h1) \<and> fs_grows h1 h'"
  by (auto simp: sx_bind_Inr_iff dest: grows.keepsD)

lemma files_exist:
  assumes "eval_files e src d config compose s img lock variant profile h = (Inr (), h')" "is_absolute d"
  shows "path_exists h' d"
proof -
  have "\<exists>v h1. mkdir d 448 False h = (Inr v, h1) \<and> fs_grows h1 h'"
    by (rule bind_grows [OF assms(1) [unfolded eval_files_def Let_def]])
       (intro then_chmod [OF keeps_mkdir mkdir_created] then_chmod [OF keeps_write_new write_created]
         grows.keeps_bind [OF keeps_write_envs] grows.keeps_bind [OF keeps_write_new] grows.keeps_bind [OF keeps_read_text] keeps_write_new,
        auto intro!: grows.keeps_bind grows.keeps_return keeps_write_new keeps_read_text)
  then show ?thesis using mkdir_exists exists_grows assms(2) by (metis old.unit.exhaust)
qed

lemma prepare_exists:
  assumes "eval_prepare e src img lock d variant prof h = (Inr (), h')" "is_absolute d"
  shows "path_exists h' d"
proof -
  obtain src' config s lock' profile compose h1 where "eval_files e src' d config compose s img lock' variant profile h1 = (Inr (), h')"
    using assms unfolding eval_prepare_def by (auto simp: sx_simps look_def absolute_path_def)
  then show ?thesis using assms(2) by (rule files_exist)
qed

lemma absolute_absolute: "is_absolute (absolute_path h p)"
  by (simp add: absolute_path_def is_absolute_def)

lemma fresh_dest:
  assumes "stage_fresh e src lock dest img h = (Inr d, h')"
  shows "d = absolute_path h dest" "\<not> path_exists h d" "path_exists h' d"
proof -
  obtain lck h1 h2 where d: "d = absolute_path h dest" "\<not> path_exists h d"
      and p: "eval_prepare (sg_eval e) src img lck d ''core-experiment'' None h1 = (Inr (), h2)"
      and m: "mkdir (path_join d ''docker-config'') 448 False h2 = (Inr (), h')"
    using assms unfolding stage_fresh_def by (auto simp: sx_simps res_simps look_def)
  show "d = absolute_path h dest" "\<not> path_exists h d" by fact+
  have a: "is_absolute d" unfolding d(1) by (rule absolute_absolute)
  show "path_exists h' d" by (rule exists_grows [OF prepare_exists [OF p a] a grows.keepsD [OF keeps_mkdir m]])
qed

lemma stage_cases:
  assumes "stage e src lock dest img h = (r, h')"
  obtains x where "r = Inl x" "stage_fresh e src lock dest img h = (Inl x, h')"
  | d h1 x where "r = Inl x" "stage_fresh e src lock dest img h = (Inr d, h1)" "stage_plan_of e d img h1 = (Inl x, h')"
  | d h1 c h2 s s' where "stage_fresh e src lock dest img h = (Inr d, h1)" "stage_plan_of e d img h1 = (Inr c, h2)"
      "stage_body e d c (s, h2) = (r, s', h')" "sp_image c = img"
proof -
  obtain r1 h1 where 1: "stage_fresh e src lock dest img h = (r1, h1)" by fastforce
  show ?thesis
  proof (cases r1)
    case (Inl x)
    with 1 assms show ?thesis by (intro that(1)) (auto simp: stage_def sx_bind_def)
  next
    case (Inr d)
    obtain r2 h2 where 2: "stage_plan_of e d img h1 = (r2, h2)" by fastforce
    show ?thesis
    proof (cases r2)
      case (Inl x)
      with 1 2 Inr assms show ?thesis by (intro that(2)) (auto simp: stage_def sx_bind_def)
    next
      case (Inr c)
      with 1 2 \<open>r1 = Inr d\<close> assms obtain s s' where "stage_body e d c (s, h2) = (r, s', h')"
        by (auto simp: stage_def sx_bind_def Let_def split: prod.splits)
      with 1 2 \<open>r1 = Inr d\<close> Inr plan_image [of e d img h1 c h2] show ?thesis by (intro that(3)) auto
    qed
  qed
qed


section \<open>Histories\<close>

definition staged_inv :: "path \<Rightarrow> 'x chost \<Rightarrow> bool" where
  "staged_inv d h \<longleftrightarrow> initialisations_run d h \<le> 1 \<and> (initialisations_run d h = 1 \<longrightarrow> path_exists h d)"

lemma staged_inv_calm:
  assumes "staged_inv d h" "is_absolute d" "ran (calm d img) True h h'"
  shows "staged_inv d h'"
  using assms calm_count [OF assms(3)] exists_grows [of h d h'] by (auto simp: staged_inv_def ran_def)

lemma stage_inv:
  assumes "staged_inv d h" "is_absolute d" "programs_add e" "stage e src lock d img h = (r, h')"
  shows "staged_inv d h'"
proof -
  have fresh: "ran.keeps (calm d img) True (stage_fresh e src lock d img)" using assms(3) by (intro ran_fresh calm_looks(1))
  have dest: "absolute_path h d = d" using assms(2) by (simp add: absolute_path_def)
  from assms(4) show ?thesis
  proof (cases rule: stage_cases)
    case (1 x)
    then show ?thesis using staged_inv_calm [OF assms(1,2) ran.keepsD [OF fresh]] by blast
  next
    case (2 d' h1 x)
    then have d': "d' = d" using fresh_dest(1) dest by metis
    have "staged_inv d h1" using 2 staged_inv_calm [OF assms(1,2) ran.keepsD [OF fresh]] by blast
    then show ?thesis using 2 d' staged_inv_calm [OF _ assms(2) ran.keepsD [OF ran_plan]] by blast
  next
    case (3 d' h1 c h2 s s')
    then have d': "d' = d" using fresh_dest(1) dest by metis
    have none: "initialisations_run d h = 0"
      using fresh_dest(2) [OF 3(1)] d' assms(1) by (auto simp: staged_inv_def)
    have f: "ran (calm d img) True h h1" "ran (calm d img) True h1 h2" using 3(1,2) d' ran.keepsD [OF fresh] ran.keepsD [OF ran_plan] by blast+
    then have h2: "initialisations_run d h2 = 0" using calm_count none by metis
    have g: "fs_grows h1 h2" using f(2) by (simp add: ran_def)
    have "ran (staging_task d img) True h2 h'" using staged.keepsD [OF body_parts(1) 3(3)] 3(4) d' assms(3) by simp
    then have "fs_grows h1 h'" using g fs_grows_trans by (auto simp: ran_def)
    then have "path_exists h' d" using exists_grows [OF fresh_dest(3) [OF 3(1)]] d' assms(2) by blast
    moreover have "initialisations_run d h' \<le> Suc (initialisations_run d h2)"
      using body_parts(2) [of False e d' c] 3(3) d' unfolding inits.once_def by (metis snd_conv)
    ultimately show ?thesis using h2 by (simp add: staged_inv_def)
  qed
qed

text \<open>
  A history of the machine: runs of the script with one absolute destination and any source,
  lock, image and environment, whose programs change no existing file, and steps of other
  programs that do not either and do not act as the script.
\<close>

inductive stage_step :: "string \<Rightarrow> 'x chost \<Rightarrow> 'x chost \<Rightarrow> bool" for dest :: string where
  script: "programs_add e \<Longrightarrow> stage_step dest h (snd (stage_main e src lock dest img h))"
| other: "fs_grows h h' \<Longrightarrow> issued (h_world h') = issued (h_world h) \<Longrightarrow> stage_step dest h h'"

lemma main_stage: "\<exists>r. stage e (py_path src) (py_path lock) (py_path dest) img h = (r, snd (stage_main e src lock dest img h))"
  by (auto simp: stage_main_def sx_catch_def sx_bind_def sx_return_def sx_raise_def split: sum.splits prod.splits if_splits)

lemma stage_step_inv:
  assumes "is_absolute (py_path dest)" "staged_inv (py_path dest) h" "stage_step dest h h'"
  shows "staged_inv (py_path dest) h'"
  using assms(3)
proof cases
  case (script e src lock img)
  then show ?thesis using main_stage [of e src lock dest img h] stage_inv [OF assms(2,1)] by metis
next
  case other
  then have "ran (calm (py_path dest) []) True h h'" by (simp add: ran_def)
  then show ?thesis by (rule staged_inv_calm [OF assms(2,1)])
qed

interpretation stagings: invariant_steps "stage_step dest" "\<lambda>h. is_absolute (py_path dest) \<and> staged_inv (py_path dest) h" for dest
  by unfold_locales (blast intro: stage_step_inv)

text \<open>
  C34: a destination is staged at most once.  Over every such history the initialisation of its
  database is run at most once, whatever failed or was interrupted before.
\<close>

theorem staging_initialises_once:
  assumes "(stage_step dest)\<^sup>*\<^sup>* h h'" "is_absolute (py_path dest)" "initialisations_run (py_path dest) h = 0"
  shows "initialisations_run (py_path dest) h' \<le> 1"
  using stagings.steps_inv [OF assms(1)] assms(2,3) by (simp add: staged_inv_def)

section \<open>The receipt\<close>

lemma disk_Inr: "on_disk m s = (r, s') \<longleftrightarrow> m (snd s) = (r, snd s') \<and> fst s' = fst s"
  by (cases s') (auto simp: on_disk_def split: prod.splits)

lemma disk_issued:
  assumes "on_disk m s = (r, s')" "ran.keeps (\<lambda>_. False) False m"
  shows "issued (h_world (snd s')) = issued (h_world (snd s))"
proof -
  have "ran (\<lambda>_. False) False (snd s) (snd s')" using assms unfolding disk_Inr by (blast intro: ran.keepsD)
  then obtain es where "issued (h_world (snd s')) = issued (h_world (snd s)) @ es" "list_all ((\<lambda>_. False) \<circ> fst) es" by (auto simp: ran_def)
  then show ?thesis by (cases es) auto
qed

lemma launch_or_raise:
  assumes "sx_catch (on_disk (launch e env limit args)) (\<lambda>x. if x = SubprocessError
        then Some (sx_bind (on_disk (outside f)) (\<lambda>(out, err). sx_bind (on_disk (w out err)) (\<lambda>_. sx_raise RuntimeError)))
        else None) s = (Inr v, s')"
  shows "issued (h_world (snd s')) = issued (h_world (snd s)) @ [(args, Inr v)]"
proof -
  obtain r1 h1 where 1: "launch e env limit args (snd s) = (r1, h1)" by fastforce
  have "r1 = Inr v \<and> snd s' = h1"
    using assms 1 by (cases r1) (auto simp: sx_catch_def on_disk_def sx_bind_def sx_raise_def split: prod.splits sum.splits if_splits)
  then show ?thesis using launch_result(1) [OF 1] by simp
qed

lemma run_Inr:
  assumes "stage_run e label args limit allowed s = (Inr v, s')"
  shows "issued (h_world (snd s')) = issued (h_world (snd s)) @ [(args, Inr v)]" "\<not> allowed \<Longrightarrow> returncode v = 0"
proof -
  obtain p s1 s2 s3 where 1: "next_output label s = (Inr p, s1)" "snd s1 = snd s"
      and 2: "sx_catch (on_disk (launch e (step_environ (fst s1)) limit args)) (\<lambda>x.
        if x = SubprocessError
        then Some (sx_bind (on_disk (outside (sg_partial e))) (\<lambda>(out, err).
               sx_bind (on_disk (private_write (sg_py e) p (JObj [(''timeout'', JBool True), (''stdout'', JStr out), (''stderr'', JStr err)]))) (\<lambda>_.
                 sx_raise RuntimeError)))
        else None) s1 = (Inr v, s2)"
      and 3: "on_disk (private_write (sg_py e) p
        (JObj [(''returncode'', JInt (returncode v)), (''stdout'', JStr (stdout v)), (''stderr'', JStr (stderr v))])) s2 = (Inr (), s3)"
      and 4: "(if returncode v \<noteq> 0 \<and> \<not> allowed then sx_raise RuntimeError else sx_return ()) s3 = (Inr (), s')"
    using assms unfolding stage_run_def by (auto simp: sx_bind_Inr_iff sx_return_iff next_output_def Let_def)
  have "issued (h_world (snd s3)) = issued (h_world (snd s2))"
    using same_world.keepsD [OF world_write_new] 3 unfolding private_write_def disk_Inr by metis
  then show "issued (h_world (snd s')) = issued (h_world (snd s)) @ [(args, Inr v)]"
    using launch_or_raise [OF 2] 1(2) 4 by (auto simp: sx_raise_def sx_return_def split: if_splits)
  show "\<not> allowed \<Longrightarrow> returncode v = 0" using 4 by (auto simp: sx_raise_def split: if_splits)
qed

text \<open>A part of the history in which each of the commands exited with code 0, in their order.\<close>

definition passed :: "string list list \<Rightarrow> (string list \<times> finished res) list \<Rightarrow> bool" where
  "passed cmds es \<longleftrightarrow> list_all2 (\<lambda>a (b, r). a = b \<and> (\<exists>v. r = Inr v \<and> returncode v = 0)) cmds es"

lemma run_passed:
  "stage_run e label args limit False s = (Inr v, s') \<Longrightarrow>
     issued (h_world (snd s')) = issued (h_world (snd s)) @ [(args, Inr v)] \<and> returncode v = 0"
  using run_Inr by blast

definition final_jobs :: "stage_plan \<Rightarrow> string list list" where
  "final_jobs c = [manage c [''operator_database'', ''check''], manage c [''check''], manage c [''shell'', ''--no-imports'', ''-c'',
     source ''import importlib; importlib.import_module(`zentral.core.stores.provisioning`)'']]"

lemma jobs_Inr:
  assumes "stage_jobs e c s = (Inr (), s')"
  shows "\<exists>es. issued (h_world (snd s')) = issued (h_world (snd s)) @ es \<and> passed (final_jobs c) es"
proof -
  obtain v1 s1 v2 s2 v3 where 1: "stage_run e ''runtime-authority'' (final_jobs c ! 0) 60 False s = (Inr v1, s1)"
      and 2: "stage_run e ''django-check'' (final_jobs c ! 1) 60 False s1 = (Inr v2, s2)"
      and 3: "stage_run e ''store-import-check'' (final_jobs c ! 2) 60 False s2 = (Inr v3, s')"
    using assms unfolding stage_jobs_def final_jobs_def by (auto simp: sx_bind_Inr_iff sx_return_iff)
  have "final_jobs c = [final_jobs c ! 0, final_jobs c ! 1, final_jobs c ! 2]" by (simp add: final_jobs_def)
  moreover have "passed [final_jobs c ! 0, final_jobs c ! 1, final_jobs c ! 2]
      [(final_jobs c ! 0, Inr v1), (final_jobs c ! 1, Inr v2), (final_jobs c ! 2, Inr v3)]"
    using run_passed [OF 1] run_passed [OF 2] run_passed [OF 3] by (simp add: passed_def)
  ultimately show ?thesis using run_passed [OF 1] run_passed [OF 2] run_passed [OF 3]
    by (intro exI [of _ "[(final_jobs c ! 0, Inr v1), (final_jobs c ! 1, Inr v2), (final_jobs c ! 2, Inr v3)]"]) simp
qed

lemma catch_reraised:
  assumes "sx_catch m (\<lambda>x. if x \<in> X then None else Some (sx_bind (k x) (\<lambda>_. sx_raise x))) s = (Inr v, s')"
  shows "m s = (Inr v, s')"
  using assms by (auto simp: sx_catch_def sx_bind_def sx_raise_def split: prod.splits sum.splits if_splits)

lemma initialize_Inr:
  assumes "stage_initialize e d c s = (Inr digest, s')"
  shows "\<exists>name v. issued (h_world (snd s')) = issued (h_world (snd s)) @ [(initialize_args c d (path_join d ''database-initialization'') name, Inr v)]
     \<and> returncode v = 0"
proof -
  let ?ev = "path_join d ''database-initialization''"
  obtain s1 b s2 s3 u s4 where 1: "on_disk (mkdir ?ev 448 False) s = (Inr (), s1)" and 2: "on_disk (stage_binding e d c) s1 = (Inr (b, digest), s2)"
      and 3: "on_disk (private_write (sg_py e) (path_join ?ev ''binding.json'') b) s2 = (Inr (), s3)"
      and 4: "on_disk (outside (sg_uuid e)) s3 = (Inr u, s4)"
      and rest: "\<exists>s5 p s6 t. sx_catch (sx_bind (stage_run e ''initialize'' (initialize_args c d ?ev (''santa-db-initialize-'' @ u)) 600 False) (\<lambda>_. sx_return ()))
          (\<lambda>x. if x \<in> {SystemExit, Diverge} then None else Some (sx_bind (initializer_failed e c (''santa-db-initialize-'' @ u)) (\<lambda>_. sx_raise x))) s4 = (Inr (), s5)
        \<and> on_disk (private_file (path_join ?ev ''attempt.json.complete'')) s5 = (Inr p, s6) \<and> on_disk (read_text p) s6 = (Inr t, s')"
    using assms unfolding stage_initialize_def Let_def by (auto simp: sx_bind_Inr_iff sx_return_iff sx_lift_iff)
  then obtain s5 p s6 t where 5: "sx_catch (sx_bind (stage_run e ''initialize'' (initialize_args c d ?ev (''santa-db-initialize-'' @ u)) 600 False) (\<lambda>_. sx_return ()))
          (\<lambda>x. if x \<in> {SystemExit, Diverge} then None else Some (sx_bind (initializer_failed e c (''santa-db-initialize-'' @ u)) (\<lambda>_. sx_raise x))) s4 = (Inr (), s5)"
      and 6: "on_disk (private_file (path_join ?ev ''attempt.json.complete'')) s5 = (Inr p, s6)" and 7: "on_disk (read_text p) s6 = (Inr t, s')" by blast
  obtain v where v: "stage_run e ''initialize'' (initialize_args c d ?ev (''santa-db-initialize-'' @ u)) 600 False s4 = (Inr v, s5)"
    using catch_reraised [OF 5] by (auto simp: sx_bind_Inr_iff sx_return_iff)
  show ?thesis
    using run_passed [OF v] disk_issued [OF 1 ran_mkdir] disk_issued [OF 2 ran_binding] disk_issued [OF 3 ran_write] disk_issued [OF 4 ran_outside] disk_issued [OF 6 ran_private(2)] disk_issued [OF 7 ran_read_text]
    by (intro exI [of _ "''santa-db-initialize-'' @ u"] exI [of _ v]) simp
qed

text \<open>
  The receipt of a staging is earned.  When a staging returns, the programs it ran end with
  the initialisation and the three checks under the restricted role, each with exit code 0 and
  in this order, and what it returns and prints binds the image it was given.
\<close>

theorem staging_receipt_earned:
  assumes "stage e src lock dest img h = (Inr v, h')"
  shows "\<exists>c name digest pre es. v = stage_result img digest
     \<and> issued (h_world h') = issued (h_world h) @ pre @ es
     \<and> passed (initialize_args c (absolute_path h dest) (path_join (absolute_path h dest) ''database-initialization'') name # final_jobs c) es"
  using assms
proof (cases rule: stage_cases)
  case (3 d h1 c h2 s s')
  then have d: "d = absolute_path h dest" using fresh_dest(1) by blast
  obtain s1 s2 s3 s4 s5 s6 s7 digest where b: "stage_namespace e c (s, h2) = (Inr (), s1)" "stage_image e c s1 = (Inr (), s2)" "stage_stores e c s2 = (Inr (), s3)"
      and i: "stage_initialize e d c s3 = (Inr digest, s4)" and j: "stage_jobs e c s4 = (Inr (), s5)"
      and w: "on_disk (private_write (sg_py e) (path_join d ''stage-receipt.json'') (stage_result (sp_image c) digest)) s5 = (Inr (), s6)"
      and p: "on_disk (say (dumps (sg_py e) (stage_result (sp_image c) digest))) s6 = (Inr (), s7)"
      "on_disk (say ''SANTA_REAL_DJANGO_CHECK_PASSED'') s7 = (Inr (), s', h')" and v: "v = stage_result (sp_image c) digest"
    using 3(3) unfolding stage_body_def Let_def by (auto simp: sx_bind_Inr_iff sx_return_iff)
  have r: "ran (calm d img) False h h1" "ran (calm d img) False h1 h2" "ran (calm d img) False h2 (snd s1)" "ran (calm d img) False (snd s1) (snd s2)"
      "ran (calm d img) False (snd s2) (snd s3)"
    using ran.keepsD [OF ran_fresh 3(1), of "calm d img" False] calm_looks(1) [of d img img] ran.keepsD [OF ran_plan 3(2)] staged.keepsD [OF calm_parts(1) b(1)]
      staged.keepsD [OF calm_parts(2) b(2)] staged.keepsD [OF calm_parts(3) b(3)] 3(4) by simp_all
  then obtain pre where pre: "issued (h_world (snd s3)) = issued (h_world h) @ pre" unfolding ran_def by (metis append.assoc)
  obtain name f where init: "issued (h_world (snd s4)) = issued (h_world (snd s3)) @ [(initialize_args c d (path_join d ''database-initialization'') name, Inr f)]"
      "returncode f = 0" using initialize_Inr [OF i] by blast
  obtain es where es: "issued (h_world (snd s5)) = issued (h_world (snd s4)) @ es" "passed (final_jobs c) es" using jobs_Inr [OF j] by blast
  have "issued (h_world h') = issued (h_world (snd s5))"
    using disk_issued [OF w ran_write] disk_issued [OF p(1) ran_say] disk_issued [OF p(2) ran_say] by simp
  then have "issued (h_world h') = issued (h_world h) @ pre @ (initialize_args c d (path_join d ''database-initialization'') name, Inr f) # es"
    using pre init(1) es(1) by simp
  moreover have "passed (initialize_args c d (path_join d ''database-initialization'') name # final_jobs c)
      ((initialize_args c d (path_join d ''database-initialization'') name, Inr f) # es)"
    using es(2) init(2) by (simp add: passed_def)
  ultimately show ?thesis using v 3(4) d by blast
qed simp_all

section \<open>The waits end\<close>

text \<open>
  Documented behaviour of the machine: a program ends or is stopped at its time bound, the
  monotonic clock never goes back, and a sleep takes at least its time.
\<close>

definition stage_clock :: "'x stage_env \<Rightarrow> bool" where
  "stage_clock e \<longleftrightarrow>
     (\<forall>env n args x f. fst (sg_exec e env n args (x, f)) \<noteq> Inl Diverge \<and> sg_now e x \<le> sg_now e (fst (snd (sg_exec e env n args (x, f)))))
     \<and> (\<forall>x. sg_now e x \<le> sg_now e (snd (sg_partial e x))) \<and> (\<forall>n x. sg_now e x + of_nat n \<le> sg_now e (sg_sleep e n x))"

definition clock_of :: "'x stage_env \<Rightarrow> 'x staged \<Rightarrow> rat" where
  "clock_of e s = sg_now e (ext (h_world (snd s)))"

definition calls_end :: "'x staged \<Rightarrow> bool" where
  \<comment> \<open>a failing file call raises\<close>
  "calls_end s \<longleftrightarrow> (\<forall>n k. h_outcomes (snd s) n \<noteq> Fails Diverge k)"

definition ticks :: "'x stage_env \<Rightarrow> ('x staged, 'a) sx \<Rightarrow> bool" where
  "ticks e m \<longleftrightarrow> (\<forall>s. calls_end s \<longrightarrow> fst (m s) \<noteq> Inl Diverge \<and> calls_end (snd (m s)) \<and> clock_of e s \<le> clock_of e (snd (m s)))"

lemma ticksD: "ticks e m \<Longrightarrow> m s = (r, s') \<Longrightarrow> calls_end s \<Longrightarrow> r \<noteq> Inl Diverge \<and> calls_end s' \<and> clock_of e s \<le> clock_of e s'"
  unfolding ticks_def by (metis fst_conv snd_conv)

lemma ticksI: "(\<And>s r s'. m s = (r, s') \<Longrightarrow> calls_end s \<Longrightarrow> r \<noteq> Inl Diverge \<and> calls_end s' \<and> clock_of e s \<le> clock_of e s') \<Longrightarrow> ticks e m"
  unfolding ticks_def by (metis prod.collapse)

lemma ticks_bind: "ticks e m \<Longrightarrow> (\<And>v. ticks e (k v)) \<Longrightarrow> ticks e (sx_bind m k)"
proof (rule ticksI)
  fix s r s' assume a: "ticks e m" "\<And>v. ticks e (k v)" "sx_bind m k s = (r, s')" "calls_end s"
  obtain r1 s1 where 1: "m s = (r1, s1)" by (metis prod.collapse)
  show "r \<noteq> Inl Diverge \<and> calls_end s' \<and> clock_of e s \<le> clock_of e s'"
    using a(3) 1 ticksD [OF a(1) 1 a(4)] ticksD [OF a(2), of _ s1 r s'] by (cases r1) (auto simp: sx_bind_def intro: order_trans)
qed

lemma ticks_catch: "ticks e m \<Longrightarrow> (\<And>x k. h x = Some k \<Longrightarrow> ticks e k) \<Longrightarrow> ticks e (sx_catch m h)"
proof (rule ticksI)
  fix s r s' assume a: "ticks e m" "\<And>x k. h x = Some k \<Longrightarrow> ticks e k" "sx_catch m h s = (r, s')" "calls_end s"
  obtain r1 s1 where 1: "m s = (r1, s1)" by (metis prod.collapse)
  show "r \<noteq> Inl Diverge \<and> calls_end s' \<and> clock_of e s \<le> clock_of e s'"
    using a(3) 1 ticksD [OF a(1) 1 a(4)] ticksD [OF a(2), of _ _ s1 r s']
    by (cases r1) (auto simp: sx_catch_def intro: order_trans split: option.splits)
qed

lemma ticks_plain: "ticks e (sx_return v)" "x \<noteq> Diverge \<Longrightarrow> ticks e (sx_raise x)" "ticks e (next_output l)" "ticks e (\<lambda>s. (Inr (step_environ (fst s)), s))"
  by (auto simp: ticks_def sx_return_def sx_raise_def next_output_def Let_def calls_end_def clock_of_def)

lemma ticks_outside: "(\<And>x. sg_now e x \<le> sg_now e (snd (f x))) \<Longrightarrow> ticks e (on_disk (outside f))"
  by (auto simp: ticks_def on_disk_def outside_def Let_def calls_end_def clock_of_def split: prod.splits) (metis snd_conv)

lemma ticks_file:
  assumes "file_step m"
  shows "ticks e (on_disk m)"
proof (rule ticksI)
  fix s r s' assume "on_disk m s = (r, s')" "calls_end s"
  then have m: "m (snd s) = (r, snd s')" and c: "\<forall>n k. h_outcomes (snd s) n \<noteq> Fails Diverge k" by (simp_all add: disk_Inr calls_end_def)
  have "answers (fst (m (snd s)))" using assms c unfolding file_step_def by blast
  then show "r \<noteq> Inl Diverge \<and> calls_end s' \<and> clock_of e s \<le> clock_of e s'"
    using m file_stepD(1,3) [OF assms m] c by (auto simp: calls_end_def clock_of_def answers_def)
qed

lemma ticks_launch: "stage_clock e \<Longrightarrow> ticks e (on_disk (launch e env limit args))"
  unfolding stage_clock_def
  by (auto simp: ticks_def on_disk_def launch_def Let_def calls_end_def clock_of_def split: prod.splits) (metis fst_conv snd_conv)+

lemma ticks_run: "stage_clock e \<Longrightarrow> ticks e (stage_run e label args limit allowed)"
  unfolding stage_run_def private_write_def
  by (intro ticks_bind ticks_catch ticks_plain ticks_launch ticks_file file_steps)
     (auto split: if_splits prod.splits intro!: ticks_bind ticks_plain ticks_outside ticks_file [OF file_steps(2)] simp: stage_clock_def)

definition slept :: "'x stage_env \<Rightarrow> 'x staged \<Rightarrow> 'x staged" where
  "slept e s = (fst s, (snd s)\<lparr>h_world := (h_world (snd s))\<lparr>ext := sg_sleep e 2 (ext (h_world (snd s)))\<rparr>\<rparr>)"

lemma wait_round:
  assumes "stage_run e label args 30 True s = (r, s1)" "r \<noteq> Inl Diverge"
    and "fst (stage_wait_loop e label args expects deadline (Suc n) s) = Inl Diverge"
  shows "clock_of e s1 < deadline" "fst (stage_wait_loop e label args expects deadline n (slept e s1)) = Inl Diverge"
proof -
  have "\<exists>v. r = Inr v" using assms by (cases r) (auto simp: sx_bind_def)
  then have *: "fst (sx_bind (on_disk (outside (\<lambda>x. (sg_now e x, x)))) (\<lambda>t.
            if t \<ge> deadline then sx_raise TimeoutError
            else sx_bind (on_disk (outside (\<lambda>x. ((), sg_sleep e 2 x)))) (\<lambda>_. stage_wait_loop e label args expects deadline n)) s1) = Inl Diverge"
    using assms(1,3) by (auto simp: sx_bind_def [of "stage_run _ _ _ _ _"] sx_return_def split: if_splits)
  then show "clock_of e s1 < deadline"
    by (auto simp: sx_bind_def on_disk_def outside_def Let_def clock_of_def sx_raise_def split: if_splits)
  with * show "fst (stage_wait_loop e label args expects deadline n (slept e s1)) = Inl Diverge"
    by (simp add: sx_bind_def on_disk_def outside_def Let_def clock_of_def slept_def del: stage_wait_loop.simps)
qed

lemma wait_loop_ends:
  assumes "stage_clock e"
  shows "calls_end s \<Longrightarrow> deadline \<le> clock_of e s + 2 * of_nat n \<Longrightarrow> fst (stage_wait_loop e label args expects deadline (Suc n) s) \<noteq> Inl Diverge"
proof (induction n arbitrary: s)
  case 0
  obtain r1 s1 where 1: "stage_run e label args 30 True s = (r1, s1)" by (metis prod.collapse)
  note t = ticksD [OF ticks_run [OF assms] 1 0(1)]
  show ?case using wait_round(1) [OF 1] t 0(2) by fastforce
next
  case (Suc n)
  obtain r1 s1 where 1: "stage_run e label args 30 True s = (r1, s1)" by (metis prod.collapse)
  note t = ticksD [OF ticks_run [OF assms] 1 Suc(2)]
  have "sg_now e x + of_nat 2 \<le> sg_now e (sg_sleep e 2 x)" for x using assms unfolding stage_clock_def by blast
  then have "clock_of e s1 + of_nat 2 \<le> clock_of e (slept e s1)" by (simp add: clock_of_def slept_def)
  then have "deadline \<le> clock_of e (slept e s1) + 2 * of_nat n" using t Suc(3) by simp
  moreover have "calls_end (slept e s1)" using t by (simp add: calls_end_def slept_def)
  ultimately have "fst (stage_wait_loop e label args expects deadline (Suc n) (slept e s1)) \<noteq> Inl Diverge" by (rule Suc(1) [rotated])
  then show ?case using wait_round(2) [OF 1] t by blast
qed

text \<open>The fuel of a wait is enough: on such a machine no wait of a staging runs out of rounds.\<close>

theorem stage_wait_ends:
  assumes "stage_clock e" "calls_end s"
  shows "fst (stage_wait e label args expects s) \<noteq> Inl Diverge"
proof -
  have "calls_end s \<Longrightarrow> fst (stage_wait_loop e label args expects (clock_of e s + 120) (Suc 61) s) \<noteq> Inl Diverge"
    by (rule wait_loop_ends [OF assms(1)]) simp_all
  then show ?thesis using assms(2)
    by (simp add: stage_wait_def wait_rounds_def sx_bind_def on_disk_def outside_def Let_def clock_of_def del: stage_wait_loop.simps)
qed

section \<open>Witnesses\<close>

definition demo_stage_env :: "unit stage_env" where
  \<comment> \<open>a machine without docker\<close>
  "demo_stage_env = \<lparr>sg_eval = \<lparr>ev_py = \<lparr>float_of = \<lambda>_. Fin 0, float_repr = \<lambda>_. ''0'', nest_limit = 100, decode_wide = Inr\<rparr>,
       ev_urlsafe = \<lambda>n x. (replicate n (CHR ''a''), x), ev_hex = \<lambda>n x. (replicate n (CHR ''0''), x)\<rparr>,
     sg_exec = \<lambda>env n args (x, f). (Inr \<lparr>returncode = 1, stdout = [], stderr = []\<rparr>, x, f), sg_partial = \<lambda>x. (([], []), x),
     sg_environ = [], sg_platform = ''linux'', sg_euid = 0, sg_file = ''/opt/stage_runtime.py'', sg_uuid = \<lambda>x. (''u'', x),
     sg_now = \<lambda>x. 0, sg_sleep = \<lambda>n x. x\<rparr>"

definition demo_stage_host :: "unit chost" where
  "demo_stage_host = \<lparr>h_fs = [([], \<lparr>n_kind = Dir, n_uid = 0, n_mode = 493\<rparr>), ([''srv''], \<lparr>n_kind = Dir, n_uid = 0, n_mode = 448\<rparr>)],
     h_cwd = [], h_umask = 63, h_outcomes = \<lambda>_. Works, h_calls = 0,
     h_world = \<lparr>helper_loaded = False, printed = [], issued = [], ext = ()\<rparr>\<rparr>"

lemma demo_adds: "programs_add demo_stage_env"
  by (simp add: programs_add_def demo_stage_env_def)

definition demo_staging :: "unit chost \<Rightarrow> unit chost" where
  "demo_staging h = snd (stage_main demo_stage_env ''/src'' ''/lock'' ''/srv/new'' demo_img h)"

lemma demo_step: "stage_step ''/srv/new'' h (demo_staging h)"
  unfolding demo_staging_def by (rule stage_step.script [OF demo_adds])

theorem staging_initialises_once_witness:
  "is_absolute (py_path ''/srv/new'') \<and> initialisations_run (py_path ''/srv/new'') demo_stage_host = 0
   \<and> initialisations_run (py_path ''/srv/new'') (demo_staging (demo_staging demo_stage_host)) \<le> 1"
proof (intro conjI)
  show a: "is_absolute (py_path ''/srv/new'')" by code_simp
  show b: "initialisations_run (py_path ''/srv/new'') demo_stage_host = 0" by (simp add: initialisations_run_def demo_stage_host_def)
  have "(stage_step ''/srv/new'')\<^sup>*\<^sup>* demo_stage_host (demo_staging demo_stage_host)" using demo_step by (rule r_into_rtranclp)
  then have "(stage_step ''/srv/new'')\<^sup>*\<^sup>* demo_stage_host (demo_staging (demo_staging demo_stage_host))"
    using demo_step by (rule rtranclp.rtrancl_into_rtrancl)
  then show "initialisations_run (py_path ''/srv/new'') (demo_staging (demo_staging demo_stage_host)) \<le> 1"
    by (rule staging_initialises_once [OF _ a b])
qed

end
