(* ===== verification/Private_Install.thy ===== *)
theory Private_Install
  imports Stage_Runtime Setup_Host
begin

text \<open>
  The one-shot installer of a fresh virtual machine, \<open>experiments/server/private_install.py\<close>: the
  verified context and bundle, the identity of the machine, the exclusive evidence directory, the
  prerequisites, the image, the staging, and the activation of the runtime service.  The modules of
  the bundle that stage and run the runtime are the models of those files.  The modules that fetch
  the upstream source and derive the build file are run from the bytes that the bundle holds; what
  they do is a parameter, as are the programs of the machine and the metadata service.
\<close>

record 'x install_env =
  in_stage :: "'x stage_env"
  in_runtime :: "'x runtime_env"
  in_exec :: "environ \<Rightarrow> nat \<Rightarrow> path option \<Rightarrow> string list \<Rightarrow> 'x \<times> fs \<Rightarrow> finished res \<times> 'x \<times> fs"
    \<comment> \<open>environment, time bound, working directory, arguments\<close>
  in_metadata :: "string \<Rightarrow> 'x \<Rightarrow> bytes res \<times> 'x"  \<comment> \<open>the first 65537 bytes of the response\<close>
  in_machine :: string  \<comment> \<open>\<open>platform.machine()\<close>\<close>
  in_commit :: "bytes \<Rightarrow> string res"  \<comment> \<open>\<open>COMMIT\<close> of a loaded module\<close>
  in_acquire :: "bytes \<Rightarrow> path \<Rightarrow> 'x \<times> fs \<Rightarrow> json res \<times> 'x \<times> fs"  \<comment> \<open>\<open>prepare\<close> of a loaded module\<close>
  in_derive :: "bytes \<Rightarrow> path \<Rightarrow> path \<Rightarrow> 'x \<times> fs \<Rightarrow> unit res \<times> 'x \<times> fs"  \<comment> \<open>\<open>derive_core_dockerfile\<close> of a loaded module\<close>

abbreviation in_py :: "'x install_env \<Rightarrow> py_env" where
  "in_py e \<equiv> sg_py (in_stage e)"

definition COMPOSE_VERSION :: string where
  "COMPOSE_VERSION = ''2.40.3+ds1-0ubuntu1~24.04.1''"

definition DOCKER_VERSION :: string where
  "DOCKER_VERSION = ''29.1.3-0ubuntu3~24.04.2''"

definition COMPOSE_SHA :: string where
  "COMPOSE_SHA = ''d87a11e944c990dc9f2186115b1136c1cbffffc870845caff0cbdcce0780f41d''"

definition COMPOSE_PLUGIN :: path where
  "COMPOSE_PLUGIN = py_path ''/usr/libexec/docker/cli-plugins/docker-compose''"

definition OVERRIDING_PLUGINS :: "string list" where
  "OVERRIDING_PLUGINS = [''/usr/local/lib/docker/cli-plugins/docker-compose'', ''/usr/local/libexec/docker/cli-plugins/docker-compose'',
     ''/usr/lib/docker/cli-plugins/docker-compose'', ''/root/.docker/cli-plugins/docker-compose'']"

section \<open>The target\<close>

definition TARGET_KEYS :: "string list" where
  "TARGET_KEYS = [''TenantId'', ''SubscriptionId'', ''EnvironmentName'', ''ResourceGroup'', ''VmName'', ''VmId'', ''VmInstanceId'']"

definition validate_target :: "json \<Rightarrow> unit res" where
  "validate_target t =
     res_bind (demands (has_keys t TARGET_KEYS)) (\<lambda>_.
     res_bind (text_all is_guid t [''TenantId'', ''SubscriptionId'', ''VmInstanceId'']) (\<lambda>_.
     res_bind (text_all is_environment t [''EnvironmentName'']) (\<lambda>_.
     res_bind (text_item t ''EnvironmentName'') (\<lambda>en.
     res_bind (demands (res_and (item_eq t ''ResourceGroup'' (JStr (''rg-azd-santa-vm-'' @ en))) (item_eq t ''VmName'' (JStr ''vm-santa-lab'')))) (\<lambda>_.
     res_bind (text_item t ''SubscriptionId'') (\<lambda>sub.
       demands (item_eq t ''VmId'' (JStr (vm_id sub (''rg-azd-santa-vm-'' @ en))))))))))"

fun tag_of :: "json list \<Rightarrow> string \<Rightarrow> json \<Rightarrow> json res" where
  \<comment> \<open>the entry of the dictionary of tags; the last argument is what the earlier items give\<close>
  "tag_of [] k d = Inr d"
| "tag_of (v # vs) k d =
     res_bind (item_of v ''name'') (\<lambda>n. res_bind (item_of v ''value'') (\<lambda>w.
       if hashable n then tag_of vs k (if n = JStr k then w else d) else Inl TypeError))"

definition guest_checks :: "json \<Rightarrow> json \<Rightarrow> unit res" where
  "guest_checks metadata t =
     res_bind (text_item t ''SubscriptionId'') (\<lambda>sub. res_bind (text_item t ''VmId'') (\<lambda>vid.
     res_bind (text_item t ''VmInstanceId'') (\<lambda>inst. res_bind (item_of t ''EnvironmentName'') (\<lambda>en.
     res_bind (demands (all_of [lower_item metadata ''subscriptionId'' sub, lower_item metadata ''resourceId'' (py_lower_ascii vid),
        lower_item metadata ''vmId'' inst])) (\<lambda>_.
     res_bind (item_of metadata ''tagsList'') (\<lambda>l. res_bind (iter_of l) (\<lambda>items.
     res_bind (tag_of items ''azd-solution'' JNull) (\<lambda>a.
     res_bind (tag_of items ''purpose'' JNull) (\<lambda>p.
     res_bind (tag_of items ''azd-env-name'' JNull) (\<lambda>n.
       demand (a = JStr ''azd-santa'' \<and> p = JStr ''synthetic-vm-lab'' \<and> n = en)))))))))))"

section \<open>The bundle\<close>

definition is_bundle_name :: "string \<Rightarrow> bool" where
  \<comment> \<open>one of the two locks, or \<open>[a-zA-Z0-9_-]+\.(?:py|sh|json)\<close>\<close>
  "is_bundle_name s \<longleftrightarrow> s \<in> {''zentral-source.lock.json'', ''dependency-images.lock.json''}
     \<or> (case split_first (CHR ''.'') s of None \<Rightarrow> False
        | Some (a, b) \<Rightarrow> a \<noteq> [] \<and> list_all is_urlsafe a \<and> b \<in> {''py'', ''sh'', ''json''})"

definition check_bundle_file :: "path \<Rightarrow> string \<times> json \<Rightarrow> ('w host, unit) sx" where
  "check_bundle_file bundle = (\<lambda>(name, metadata).
     let selected = path_join bundle name in
     sx_bind (sx_lift (demand (is_bundle_name name))) (\<lambda>_.
     sx_bind (look (\<lambda>h. res_bind (lstat_of h selected) (\<lambda>nd. res_bind (resolve h selected) (\<lambda>q.
        demand (selected = q \<and> n_uid nd = 0 \<and> \<not> mode_has nd 18))))) (\<lambda>_.
     sx_bind (read_bytes selected) (\<lambda>raw.
       sx_lift (demands (item_eq metadata ''sha256'' (JStr (sha256_hex raw))))))))"

fun check_bundle_files :: "path \<Rightarrow> (string \<times> json) list \<Rightarrow> ('w host, unit) sx" where
  "check_bundle_files bundle [] = sx_return ()"
| "check_bundle_files bundle (f # fs) = sx_bind (check_bundle_file bundle f) (\<lambda>_. check_bundle_files bundle fs)"

definition verified :: "py_env \<Rightarrow> path \<Rightarrow> string \<Rightarrow> ('w host, json \<times> path) sx" where
  "verified e p digest =
     sx_bind (look (\<lambda>h. res_bind (demand (is_absolute p)) (\<lambda>_. res_bind (resolve h p) (\<lambda>q. demand (p = q \<and> is_relative_to p SETUP_ROOT))))) (\<lambda>_.
     sx_bind (read_bytes p) (\<lambda>raw.
     sx_bind (sx_lift (demand (sha256_hex raw = digest))) (\<lambda>_.
     sx_bind (sx_lift (load_json e raw)) (\<lambda>context.
       let bundle = path_parent p in
     sx_bind (sx_lift (demands (res_and (item_eq context ''scope'' (JStr ''private-azd-install-v1''))
        (item_eq context ''bundle_sha256'' (JStr (path_name bundle)))))) (\<lambda>_.
     sx_bind (read_bytes (path_join bundle ''bundle.json'')) (\<lambda>manifest.
     sx_bind (sx_lift (demands (item_eq context ''bundle_sha256'' (JStr (sha256_hex manifest))))) (\<lambda>_.
     sx_bind (sx_lift (res_bind (load_json e manifest) (\<lambda>v. res_bind (item_of v ''files'') items_of))) (\<lambda>files.
     sx_bind (check_bundle_files bundle files) (\<lambda>_. sx_return (context, bundle))))))))))"

definition load_module :: "path \<Rightarrow> string \<Rightarrow> ('w host, bytes) sx" where
  \<comment> \<open>\<open>load\<close>: the source that is run\<close>
  "load_module bundle name = read_bytes (path_join bundle (name @ ''.py''))"

section \<open>Programs with evidence\<close>

definition act :: "('x \<times> fs \<Rightarrow> 'a res \<times> 'x \<times> fs) \<Rightarrow> ('x chost, 'a) sx" where
  \<comment> \<open>code of the bundle that acts on the machine\<close>
  "act f h = (let w = h_world h; (r, x, fs) = f (ext w, h_fs h) in (r, h\<lparr>h_fs := fs, h_world := w\<lparr>ext := x\<rparr>\<rparr>))"

definition in_launch :: "'x install_env \<Rightarrow> environ \<Rightarrow> nat \<Rightarrow> path option \<Rightarrow> string list \<Rightarrow> ('x chost, finished) sx" where
  "in_launch e env limit cwd args h =
     (let (r, h1) = act (in_exec e env limit cwd args) h; w = h_world h1
      in (r, h1\<lparr>h_world := w\<lparr>issued := issued w @ [(args, r)]\<rparr>\<rparr>))"

definition install_run :: "'x install_env \<Rightarrow> string \<Rightarrow> string list \<Rightarrow> nat \<Rightarrow> path option \<Rightarrow> ('x staged, string) sx" where
  \<comment> \<open>the evidence directory is the \<open>destination\<close> of the state\<close>
  "install_run e label args limit cwd =
     sx_bind (next_output label) (\<lambda>output.
     sx_bind (\<lambda>s. (Inr (step_environ (fst s)), s)) (\<lambda>env.
     sx_bind (on_disk (in_launch e env limit cwd args)) (\<lambda>result.
     sx_bind (on_disk (private_write (in_py e) output
        (JObj [(''returncode'', JInt (returncode result)), (''stdout'', JStr (stdout result)), (''stderr'', JStr (stderr result))]))) (\<lambda>_.
     sx_bind (sx_lift (demand (returncode result = 0))) (\<lambda>_. sx_return (stdout result))))))"

section \<open>Prerequisites\<close>

definition reject_plugin_overrides :: "('w host, unit) sx" where
  "reject_plugin_overrides =
     sx_bind (look (\<lambda>h. demand (list_all (\<lambda>v. \<not> path_exists h (py_path v) \<and> \<not> is_symlink h (py_path v)) OVERRIDING_PLUGINS))) (\<lambda>_.
     sx_bind (look (\<lambda>h. Inr (path_exists h COMPOSE_PLUGIN \<or> is_symlink h COMPOSE_PLUGIN))) (\<lambda>present.
       if present
       then sx_bind (look (\<lambda>h. res_bind (resolve h COMPOSE_PLUGIN) (\<lambda>q. demand (COMPOSE_PLUGIN = q \<and> is_file h COMPOSE_PLUGIN)))) (\<lambda>_.
            sx_bind (read_bytes COMPOSE_PLUGIN) (\<lambda>raw. sx_lift (demand (sha256_hex raw = COMPOSE_SHA))))
       else sx_return ()))"

definition plugin_ok :: "json \<Rightarrow> unit res" where
  "plugin_ok plugins =
     res_bind (iter_of plugins) (\<lambda>entries.
     res_bind (res_map (\<lambda>v. res_bind (item_of v ''Name'') (\<lambda>n. Inr (n, v))) entries) (\<lambda>named.
       (case filter (\<lambda>(n, _). n = JStr ''compose'') named of
          [(_, v)] \<Rightarrow> demands (item_eq v ''Path'' (JStr (path_str COMPOSE_PLUGIN)))
        | _ \<Rightarrow> Inl ValueError)))"

primrec landing :: "nat \<Rightarrow> fs \<Rightarrow> string list \<Rightarrow> string list \<Rightarrow> string list res" where
  \<comment> \<open>where a call that creates a missing file puts it; links are followed to the end\<close>
  "landing 0 f dir cs = Inl OSError"
| "landing (Suc n) f dir cs =
     (if cs = [] \<or> last cs = ''..'' then Inl OSError
      else res_bind (walk n f dir (butlast cs)) (\<lambda>d.
        (case dget f (d @ [last cs]) of
           None \<Rightarrow> (case dget f d of Some nd \<Rightarrow> if n_kind nd = Dir then Inr (d @ [last cs]) else Inl OSError | None \<Rightarrow> Inl OSError)
         | Some nd \<Rightarrow> (case n_kind nd of
             Link t \<Rightarrow> landing n f (if is_absolute (py_path t) then [] else d) (p_parts (py_path t))
           | _ \<Rightarrow> Inl OSError))))"

definition write_text :: "path \<Rightarrow> string \<Rightarrow> ('w host, unit) sx" where
  \<comment> \<open>\<open>p.write_text(t)\<close>\<close>
  "write_text p t =
     sx_bind (sx_bind io_ok (\<lambda>_ h. case resolve_parts (h_fs h) (h_cwd h) p of
         Inr cs \<Rightarrow> (case dget (h_fs h) cs of
             Some nd \<Rightarrow> if regular nd then (Inr cs, set_data cs [] h) else (Inl OSError, h)
           | None \<Rightarrow> (Inl OSError, h))
       | Inl _ \<Rightarrow> (case landing max_links (h_fs h) (if is_absolute p then [] else h_cwd h) (p_parts p) of
             Inl x \<Rightarrow> (Inl x, h)
           | Inr cs \<Rightarrow> (Inr cs, put_node cs (Reg []) 438 h)))) (\<lambda>cs.
       write_sync cs t)"

definition SYSCTL :: path where
  "SYSCTL = py_path ''/etc/sysctl.d/90-azd-santa-qualification.conf''"

definition SYSCTL_TEXT :: string where
  "SYSCTL_TEXT = ''vm.max_map_count=1048576'' @ [CHR 0x0A]"

definition keep_sysctl :: "('w host, unit) sx" where
  "keep_sysctl =
     sx_bind (look (\<lambda>h. Inr (path_exists h SYSCTL))) (\<lambda>there.
       if there then sx_bind (read_text SYSCTL) (\<lambda>t. sx_lift (demand (t = SYSCTL_TEXT))) else write_text SYSCTL SYSCTL_TEXT)"

definition install_prerequisites :: "'x install_env \<Rightarrow> path \<Rightarrow> ('x staged, unit) sx" where
  "install_prerequisites e bundle =
     sx_bind (on_disk reject_plugin_overrides) (\<lambda>_.
     sx_bind (install_run e ''docker-prerequisites'' [''/bin/bash'', path_str (path_join bundle ''bootstrap-host.sh'')] 1000 None) (\<lambda>_.
     sx_bind (on_disk (read_bytes COMPOSE_PLUGIN)) (\<lambda>raw.
     sx_bind (sx_lift (demand (sha256_hex raw = COMPOSE_SHA))) (\<lambda>_.
     sx_bind (on_disk reject_plugin_overrides) (\<lambda>_.
     sx_bind (install_run e ''compose-package'' [''dpkg-query'', ''-W'', ''-f=${Version}'', ''docker-compose-v2''] 120 None) (\<lambda>cv.
     sx_bind (sx_lift (demand (py_strip cv = COMPOSE_VERSION))) (\<lambda>_.
     sx_bind (install_run e ''docker-package'' [''dpkg-query'', ''-W'', ''-f=${Version}'', ''docker.io''] 120 None) (\<lambda>dv.
     sx_bind (sx_lift (demand (py_strip dv = DOCKER_VERSION))) (\<lambda>_.
     sx_bind (install_run e ''plugin-supplier'' [''docker'', ''info'', ''--format'', ''{{json .ClientInfo.Plugins}}''] 120 None) (\<lambda>t.
     sx_bind (sx_lift (res_bind (load_text (in_py e) t) plugin_ok)) (\<lambda>_.
     sx_bind (install_run e ''compose-capability'' [''docker'', ''compose'', ''run'', ''--help''] 120 None) (\<lambda>_.
     sx_bind (install_run e ''kernel'' [''sysctl'', ''-w'', ''vm.max_map_count=1048576''] 120 None) (\<lambda>_.
       on_disk keep_sysctl)))))))))))))"

section \<open>The image\<close>

fun install_pulls :: "'x install_env \<Rightarrow> (string \<times> json) list \<Rightarrow> ('x staged, unit) sx" where
  "install_pulls e [] = sx_return ()"
| "install_pulls e ((name, ref) # rest) =
     sx_bind (sx_lift (demands (full_match is_pinned_ref ref))) (\<lambda>_.
     sx_bind (sx_lift (case ref of JStr s \<Rightarrow> Inr s | _ \<Rightarrow> Inl TypeError)) (\<lambda>s.
     sx_bind (install_run e (''pull-'' @ name) (DOCKER @ [''pull'', s]) 360 None) (\<lambda>_. install_pulls e rest)))"

definition build_args :: "string \<Rightarrow> string \<Rightarrow> string list" where
  "build_args commit tag = DOCKER @ [''build'', ''--file'', ''Dockerfile.core'', ''--memory'', ''2500m'', ''--memory-swap'', ''2500m'',
     ''--build-arg'', ''APP_ENV=core'', ''--build-arg'', ''APP_VERSION='' @ commit,
     ''--label'', ''org.opencontainers.image.revision='' @ commit, ''--label'', ''io.azd-santa.variant=core-experiment'', ''--tag'', tag, ''.'']"

definition install_image :: "'x install_env \<Rightarrow> path \<Rightarrow> string \<Rightarrow> ('x staged, path \<times> string) sx" where
  \<comment> \<open>the source tree and the image\<close>
  "install_image e bundle bundle_sha =
     sx_bind (on_disk (load_module bundle ''prepare_source'')) (\<lambda>m.
     sx_bind (on_disk (act (in_acquire e m (path_join bundle ''upstream'')))) (\<lambda>receipt.
     sx_bind (sx_lift (text_item receipt ''source'')) (\<lambda>s.
       let src = py_path s; tag = ''azd-santa-private:'' @ bundle_sha in
     sx_bind (on_disk (load_module bundle ''prepare_core_build'')) (\<lambda>c.
     sx_bind (on_disk (act (in_derive e c src (path_join src ''Dockerfile.core'')))) (\<lambda>_.
     sx_bind (sx_lift (in_commit e m)) (\<lambda>commit.
     sx_bind (install_run e ''core-build'' (build_args commit tag) 2400 (Some src)) (\<lambda>_.
     sx_bind (install_run e ''built-image-id'' (DOCKER @ [''image'', ''inspect'', ''--format'', ''{{.Id}}'', tag]) 120 None) (\<lambda>t.
     sx_bind (sx_lift (demand (is_sha_ref (py_strip t)))) (\<lambda>_.
     sx_bind (on_disk (read_text (path_join bundle ''dependency-images.lock.json''))) (\<lambda>l.
     sx_bind (sx_lift (load_text (in_py e) l)) (\<lambda>locks.
     sx_bind (sx_lift (demands (has_keys locks LOCK_NAMES))) (\<lambda>_.
     sx_bind (sx_lift (items_of locks)) (\<lambda>its.
     sx_bind (install_pulls e its) (\<lambda>_. sx_return (src, py_strip t)))))))))))))))"

section \<open>Staging and activation\<close>

definition staging_env :: "'x install_env \<Rightarrow> path \<Rightarrow> 'x stage_env" where
  "staging_env e bundle = (in_stage e)\<lparr>sg_file := path_str (path_join bundle ''stage_runtime.py'')\<rparr>"

definition service_runtime :: "'x install_env \<Rightarrow> path \<Rightarrow> 'x runtime_env" where
  "service_runtime e bundle = (in_runtime e)\<lparr>re_file := path_str (path_join bundle ''runtime_service.py'')\<rparr>"

definition POLICY_FILES :: "(string \<times> string) list" where
  "POLICY_FILES = [(''policy'', ''operator_mfa.py''), (''recovery'', ''operator_recovery.py''), (''sealed'', ''sealed_setup.py''), (''admission'', ''santa_admission.py'')]"

fun policy_hashes_of :: "path \<Rightarrow> (string \<times> string) list \<Rightarrow> ('w host, hashes) sx" where
  "policy_hashes_of bundle [] = sx_return []"
| "policy_hashes_of bundle ((name, file) # rest) =
     sx_bind (read_bytes (path_join bundle file)) (\<lambda>raw.
     sx_bind (policy_hashes_of bundle rest) (\<lambda>ds. sx_return ((name, sha256_hex (unix_lines raw)) # ds)))"

definition fresh_module :: "('x chost, unit) sx" where
  \<comment> \<open>the module global \<open>_HELPER\<close> of a freshly run \<open>runtime_service\<close>\<close>
  "fresh_module h = (Inr (), h\<lparr>h_world := (h_world h)\<lparr>helper_loaded := False\<rparr>\<rparr>)"

definition activate_runtime :: "'x install_env \<Rightarrow> path \<Rightarrow> path \<Rightarrow> path \<Rightarrow> ('x chost, unit) sx" where
  "activate_runtime e bundle compose work =
     (let rt = service_runtime e bundle in
      sx_bind (load_module bundle ''test_live_zentral'') (\<lambda>_.
      sx_bind (load_module bundle ''runtime_service'') (\<lambda>_.
      sx_bind fresh_module (\<lambda>_.
      sx_bind (policy_hashes_of bundle POLICY_FILES) (\<lambda>policies.
      sx_bind (prepare rt (path_str compose) (path_str (path_join work ''runtime-service'')) policies) (\<lambda>manifest.
      sx_bind (read_bytes manifest) (\<lambda>raw.
        let digest = sha256_hex raw in
      sx_bind (with_runtime rt (path_str manifest) digest (bind_admission_fresh rt)) (\<lambda>_.
        install_unit rt manifest digest True))))))))"

definition install_runtime :: "'x install_env \<Rightarrow> path \<Rightarrow> path \<Rightarrow> path \<Rightarrow> string \<Rightarrow> ('x staged, path) sx" where
  \<comment> \<open>the Compose file\<close>
  "install_runtime e bundle work src img =
     sx_bind (on_disk (load_module bundle ''prepare_zentral_eval'')) (\<lambda>_.
     sx_bind (on_disk (load_module bundle ''prepare_database_roles'')) (\<lambda>_.
     sx_bind (on_disk (load_module bundle ''stage_runtime'')) (\<lambda>_.
     sx_bind (on_disk (stage (staging_env e bundle) src (path_join bundle ''dependency-images.lock.json'') work img)) (\<lambda>_.
       let compose = path_join work ''compose.json'' in
     sx_bind (on_disk (read_text compose)) (\<lambda>t.
     sx_bind (sx_lift (res_bind (load_text (in_py e) t) (\<lambda>v. text_item v ''name''))) (\<lambda>name.
       let command = DOCKER @ [''compose'', ''--project-name'', name, ''-f'', path_str compose] in
     sx_bind (install_run e ''fresh-security-store'' (command @ [''run'', ''--rm'', ''--no-deps'', ''--pull'', ''never'', ''--entrypoint'', ''python'',
        ''web'', ''server/manage.py'', ''operator_security_store'', ''fresh'']) 120 None) (\<lambda>_.
     sx_bind (install_run e ''create-app-containers'' (command @ [''create'', ''--no-build'', ''--no-recreate'', ''--pull'', ''never'', ''web'', ''workers'', ''celery'']) 120 None) (\<lambda>_.
     sx_bind (on_disk (activate_runtime e bundle compose work)) (\<lambda>_.
     sx_bind (install_run e ''runtime-active'' [''systemctl'', ''is-active'', ''azd-santa-runtime.service''] 120 None) (\<lambda>_.
       sx_return compose))))))))))"

definition install_complete :: "json \<Rightarrow> (string \<times> json) list \<Rightarrow> string \<Rightarrow> path \<Rightarrow> string \<Rightarrow> json" where
  "install_complete bundle_sha target img compose digest = JObj
     [(''scope'', JStr ''private-azd-install-complete''), (''bundle_sha256'', bundle_sha),
      (''outputs'', JObj (dset ''Origin'' (JStr ''https://localhost:8000'') (dset ''ComposeSha256'' (JStr digest)
         (dset ''ComposePath'' (JStr (path_str compose)) (dset ''ImageId'' (JStr img) target))))),
      (''limitation'', JStr ''Unit ready; client finalizer must verify initialized runtime before operator binding'')]"

definition install_failed :: "nat \<Rightarrow> json" where
  "install_failed step = JObj [(''scope'', JStr ''private-azd-install-failed''), (''step'', JInt (int step)),
     (''action'', JStr ''Inspect retained private evidence and same unit; initialization is never replayed'')]"

definition install_steps :: "'x install_env \<Rightarrow> json \<Rightarrow> path \<Rightarrow> path \<Rightarrow> ('x staged, unit) sx" where
  "install_steps e context bundle work =
     sx_bind (install_prerequisites e bundle) (\<lambda>_.
     sx_bind (sx_lift (text_item context ''bundle_sha256'')) (\<lambda>sha.
     sx_bind (install_image e bundle sha) (\<lambda>(src, img).
     sx_bind (install_runtime e bundle work src img) (\<lambda>compose.
     sx_bind (sx_lift (res_bind (item_of context ''target'') items_of)) (\<lambda>target.
     sx_bind (on_disk (read_bytes compose)) (\<lambda>raw.
       on_disk (private_write (in_py e) (path_join bundle ''complete.json'') (install_complete (JStr sha) target img compose (sha256_hex raw)))))))))"

section \<open>The installer\<close>

definition set_umask :: "nat \<Rightarrow> ('w host, unit) sx" where
  "set_umask m h = (Inr (), h\<lparr>h_umask := m\<rparr>)"

definition attest_guest :: "'x install_env \<Rightarrow> json \<Rightarrow> ('x chost, unit) sx" where
  "attest_guest e target =
     sx_bind (outside (in_metadata e METADATA_URL)) (\<lambda>r.
     sx_bind (sx_lift r) (\<lambda>raw.
     sx_bind (sx_lift (demand (length raw \<le> 65536))) (\<lambda>_.
     sx_bind (sx_lift (load_json (in_py e) raw)) (\<lambda>metadata. sx_lift (guest_checks metadata target)))))"

definition admit_install :: "'x install_env \<Rightarrow> path \<Rightarrow> string \<Rightarrow> ('x chost, json \<times> path \<times> path) sx" where
  \<comment> \<open>everything before the evidence directory: the context, the bundle and the directory of the runtime\<close>
  "admit_install e context_path digest =
     sx_bind (sx_lift (demand (sg_euid (in_stage e) = 0 \<and> in_machine e = ''x86_64''))) (\<lambda>_.
     sx_bind (set_umask 63) (\<lambda>_.
     sx_bind (verified (in_py e) context_path digest) (\<lambda>(context, bundle).
     sx_bind (sx_lift (item_of context ''target'')) (\<lambda>target.
     sx_bind (sx_lift (validate_target target)) (\<lambda>_.
     sx_bind (attest_guest e target) (\<lambda>_.
     sx_bind (sx_lift (text_item target ''EnvironmentName'')) (\<lambda>en.
       let work = path_join SETUP_ROOT (''private-runtime-'' @ en) in
     sx_bind (look (\<lambda>h. demand (\<not> path_exists h work \<and> \<not> path_exists h UNIT))) (\<lambda>_.
       sx_return (context, bundle, work)))))))))"

definition install_environ :: "'x install_env \<Rightarrow> path \<Rightarrow> environ" where
  "install_environ e docker_config = dset ''DOCKER_CONFIG'' (path_str docker_config) (dset ''SANTA_DOCKER_PACKAGE_VERSION'' DOCKER_VERSION
     (dset ''SANTA_COMPOSE_PACKAGE_VERSION'' COMPOSE_VERSION (dset ''DOCKER_BUILDKIT'' ''0'' (inherited (in_stage e)))))"

definition guarded_steps :: "'x install_env \<Rightarrow> json \<Rightarrow> path \<Rightarrow> path \<Rightarrow> ('x staged, unit) sx" where
  \<comment> \<open>\<open>try\<close> with its \<open>except BaseException\<close>\<close>
  "guarded_steps e context bundle work =
     sx_catch (install_steps e context bundle work) (\<lambda>x. if x = Diverge then None
       else Some (sx_bind (\<lambda>s. (Inr (sequence (fst s)), s)) (\<lambda>n.
         sx_bind (on_disk (private_write (in_py e) (path_join bundle ''failed.json'') (install_failed n))) (\<lambda>_. sx_raise x))))"

definition install :: "'x install_env \<Rightarrow> path \<Rightarrow> string \<Rightarrow> ('x chost, unit) sx" where
  "install e context_path digest =
     sx_bind (admit_install e context_path digest) (\<lambda>(context, bundle, work).
       let evidence = path_join bundle ''install-evidence''; docker_config = path_join evidence ''docker-config'' in
     sx_bind (mkdir evidence 448 False) (\<lambda>_.
     sx_bind (mkdir docker_config 448 False) (\<lambda>_ h.
       let (r, s) = guarded_steps e context bundle work
             (\<lparr>sequence = 0, destination = evidence, step_environ = install_environ e docker_config\<rparr>, h)
       in (r, snd s))))"

definition install_main :: "'x install_env \<Rightarrow> string \<Rightarrow> string \<Rightarrow> ('x chost, unit) sx" where
  \<comment> \<open>the script after its arguments are parsed\<close>
  "install_main e context digest =
     sx_catch (install e (py_path context) digest) (\<lambda>x. if x = Diverge then None else Some (sx_raise SystemExit))"

end
