(* ===== verification/Install_Facts.thy ===== *)
theory Install_Facts
  imports Private_Install New_Places Readback_Facts
begin

text \<open>
  When the installer acts at all: only for a context with the selected digest, on the machine the
  context names, with a free evidence directory, no earlier runtime and no unit.
\<close>

lemma walk_missing:
  "walk n f d cs = Inr x \<Longrightarrow> c \<noteq> ''..'' \<Longrightarrow> dget f (x @ [c]) = None \<Longrightarrow> \<exists>e. walk n f d (cs @ [c]) = Inl e"
proof (induction n f d cs arbitrary: x rule: walk.induct)
  case (2 n f d b cs)
  show ?case
  proof (cases "CHR 0x00 \<in> set b \<or> b = ''..''")
    case True
    then show ?thesis using 2 by (auto split: if_splits)
  next
    case False
    with 2(5) obtain bd where bd: "dget f (d @ [b]) = Some bd" by (auto split: option.splits)
    show ?thesis
    proof (cases "n_kind bd")
      case (Link t)
      with 2(5) False bd obtain m where m: "n = Suc m" by (cases n) auto
      have "\<exists>e. walk m f (if is_absolute (py_path t) then [] else d) ((p_parts (py_path t) @ cs) @ [c]) = Inl e"
        by (rule 2(4) [OF _ _ bd Link m refl _ 2(6-7)]) (use False 2(5) bd Link m in \<open>auto simp: Let_def\<close>)
      then show ?thesis using False bd Link m by (simp add: Let_def)
    qed (use 2 False bd in auto)
  qed
qed auto

lemma place_missing:
  assumes "new_place h p = Inr cs"
  shows "\<not> path_exists h p"
proof -
  obtain ds where ds: "resolve_parts (h_fs h) (h_cwd h) (path_parent p) = Inr ds" "p_parts p \<noteq> []" "last (p_parts p) \<noteq> ''..''"
      "dget (h_fs h) (ds @ [last (p_parts p)]) = None"
    using assms by (auto simp: new_place_def res_simps split: if_splits option.splits)
  have "\<exists>e. walk max_links (h_fs h) (if is_absolute p then [] else h_cwd h) (butlast (p_parts p) @ [last (p_parts p)]) = Inl e"
    by (rule walk_missing [OF _ ds(3,4)]) (use ds(1) in \<open>simp add: resolve_parts_def path_parent_def is_absolute_def\<close>)
  then show ?thesis using ds(2) by (auto simp: path_exists_def stat_of_def resolve_parts_def)
qed

lemma mkdir_was_free: "mkdir p m False h = (Inr (), h1) \<Longrightarrow> \<not> path_exists h p"
proof -
  assume run: "mkdir p m False h = (Inr (), h1)"
  obtain r h0 where 0: "io_ok h = (r, h0)" by fastforce
  then have c: "h0 = called h" using io_ok_cases by blast
  obtain cs where "new_place h0 p = Inr cs" using run 0 by (cases r) (auto simp: mkdir_def sx_bind_def split: sum.splits if_splits)
  then have "\<not> path_exists h0 p" by (rule place_missing)
  then show ?thesis by (simp add: c path_exists_def stat_of_def)
qed

lemma mkdir_failed: "mkdir p m False h = (Inl x, h1) \<Longrightarrow> h1 = called h"
proof -
  assume run: "mkdir p m False h = (Inl x, h1)"
  obtain r h0 where 0: "io_ok h = (r, h0)" by fastforce
  then show ?thesis using run io_ok_cases [OF 0] by (cases r) (auto simp: mkdir_def sx_bind_def split: sum.splits)
qed

section \<open>Admission of an installation\<close>

definition holds :: "'w host \<Rightarrow> path \<Rightarrow> bytes \<Rightarrow> bool" where
  "holds h p b \<longleftrightarrow> (\<exists>nd. stat_of h p = Inr nd \<and> n_kind nd = Reg b)"

definition admitted_install :: "'x install_env \<Rightarrow> path \<Rightarrow> string \<Rightarrow> 'x chost \<Rightarrow> bool" where
  \<comment> \<open>the context has the digest, names a valid target, the metadata service confirms it, and nothing was installed\<close>
  "admitted_install e p digest h \<longleftrightarrow> sg_euid (in_stage e) = 0 \<and> in_machine e = ''x86_64''
     \<and> (\<exists>raw context target en x answer metadata. holds h p raw \<and> sha256_hex raw = digest \<and> load_json (in_py e) raw = Inr context
         \<and> item_eq context ''scope'' (JStr ''private-azd-install-v1'') = Inr True \<and> item_of context ''target'' = Inr target
         \<and> validate_target target = Inr () \<and> fst (in_metadata e METADATA_URL x) = Inr answer \<and> load_json (in_py e) answer = Inr metadata
         \<and> guest_checks metadata target = Inr () \<and> text_item target ''EnvironmentName'' = Inr en
         \<and> \<not> path_exists h (path_join SETUP_ROOT (''private-runtime-'' @ en)) \<and> \<not> path_exists h UNIT)
     \<and> (\<exists>manifest v files. holds h (path_join (path_parent p) ''bundle.json'') manifest \<and> sha256_hex manifest = path_name (path_parent p)
         \<and> load_json (in_py e) manifest = Inr v \<and> item_of v ''files'' = Inr (JObj files)
         \<and> list_all (\<lambda>(name, metadata). \<exists>b. holds h (path_join (path_parent p) name) b \<and> item_eq metadata ''sha256'' (JStr (sha256_hex b)) = Inr True) files)"

text \<open>Steps that leave the files and the history of programs alone.\<close>

definition idles :: "'x chost \<Rightarrow> 'x chost \<Rightarrow> bool" where
  "idles h h' \<longleftrightarrow> h_fs h' = h_fs h \<and> h_cwd h' = h_cwd h \<and> issued (h_world h') = issued (h_world h)"

interpretation idles: frame idles
  by unfold_locales (auto simp: idles_def)

lemma idles_look: "idles.keeps (look f)"
  by (simp add: idles.keeps_def look_def idles_def)

lemma idles_outside: "idles.keeps (outside f)"
  by (auto simp: idles.keeps_def outside_def idles_def split: prod.splits)

lemma idles_umask: "idles.keeps (set_umask m)"
  by (simp add: idles.keeps_def set_umask_def idles_def)

lemma idles_read: "idles.keeps (read_bytes p)"
proof (rule idles.keepsI)
  fix h h' :: "'a chost" and r assume run: "read_bytes p h = (r, h')"
  obtain r0 h0 where 0: "io_ok h = (r0, h0)" by fastforce
  then show "idles h h'" using run io_ok_cases [OF 0]
    by (cases r0) (auto simp: read_bytes_def sx_bind_def idles_def split: sum.splits kind.splits)
qed

lemmas idles_base = idles.keeps_bind idles.keeps_return idles.keeps_lift idles_look idles_outside idles_umask idles_read

lemma idles_files: "idles.keeps (check_bundle_files bundle fs)"
  by (induction fs) (auto simp: check_bundle_file_def Let_def split: prod.splits intro!: idles_base)

lemma idles_verified: "idles.keeps (verified py p digest)"
  unfolding verified_def Let_def by (intro idles_base idles_files)

lemma idles_guest: "idles.keeps (attest_guest e target)"
  unfolding attest_guest_def by (intro idles_base)

lemma idles_admit: "idles.keeps (admit_install e p digest)"
  unfolding admit_install_def Let_def
  by (intro idles_base idles_verified idles_guest | simp only: split_paired_all prod.case)+


lemma holds_idles: "idles h h1 \<Longrightarrow> holds h1 p b \<longleftrightarrow> holds h p b" "idles h h1 \<Longrightarrow> path_exists h1 p \<longleftrightarrow> path_exists h p"
  by (simp_all add: holds_def idles_def stat_of_def path_exists_def)

lemma read_Inr:
  fixes h h1 :: "'x chost"
  assumes "read_bytes p h = (Inr b, h1)"
  shows "holds h p b" "idles h h1"
proof -
  show "idles h h1" by (rule idles.keepsD [OF idles_read assms])
  obtain r0 h0 where 0: "io_ok h = (r0, h0)" by fastforce
  then show "holds h p b" using assms io_ok_cases [OF 0]
    by (cases r0) (auto simp: read_bytes_def sx_bind_def holds_def stat_of_def split: sum.splits kind.splits)
qed

lemma demands_True: "demands r = Inr () \<longleftrightarrow> r = Inr True"
  by (cases r) (auto simp: demands_def demand_def res_guard_def)

lemma files_Inr:
  fixes h h1 :: "'x chost"
  shows "check_bundle_files bundle fs h = (Inr (), h1) \<Longrightarrow>
    list_all (\<lambda>(name, metadata). \<exists>b. holds h (path_join bundle name) b \<and> item_eq metadata ''sha256'' (JStr (sha256_hex b)) = Inr True) fs"
proof (induction fs arbitrary: h)
  case (Cons f fs)
  obtain name metadata where f: "f = (name, metadata)" by fastforce
  from Cons(2) f obtain b h2 where 1: "read_bytes (path_join bundle name) h = (Inr b, h2)" "demands (item_eq metadata ''sha256'' (JStr (sha256_hex b))) = Inr ()"
      and 2: "check_bundle_files bundle fs h2 = (Inr (), h1)"
    by (auto simp: check_bundle_file_def Let_def sx_simps)
  note r = read_Inr [OF 1(1)]
  from Cons(1) [OF 2] show ?case using r 1(2) by (simp add: f demands_True holds_idles [OF r(2)]) blast
qed simp

lemma items_obj: "items_of v = Inr ms \<longleftrightarrow> v = JObj ms"
  by (cases v) auto

lemma py_eq_JStr: "py_eq v (JStr a) \<longleftrightarrow> v = JStr a"
proof (cases v)
  case (JFloat f)
  then show ?thesis by (cases f) auto
qed auto

lemma verified_Inr:
  fixes h h1 :: "'x chost"
  assumes "verified py p digest h = (Inr (context, bundle), h1)"
  shows "\<exists>raw. bundle = path_parent p \<and> holds h p raw \<and> sha256_hex raw = digest \<and> load_json py raw = Inr context
     \<and> item_eq context ''scope'' (JStr ''private-azd-install-v1'') = Inr True"
    and "\<exists>manifest v files. holds h (path_join (path_parent p) ''bundle.json'') manifest \<and> sha256_hex manifest = path_name (path_parent p)
     \<and> load_json py manifest = Inr v \<and> item_of v ''files'' = Inr (JObj files)
     \<and> list_all (\<lambda>(name, metadata). \<exists>b. holds h (path_join (path_parent p) name) b \<and> item_eq metadata ''sha256'' (JStr (sha256_hex b)) = Inr True) files"
proof -
  obtain raw h2 manifest h3 v ms files where b: "bundle = path_parent p" and 1: "read_bytes p h = (Inr raw, h2)" "sha256_hex raw = digest" "load_json py raw = Inr context"
      and 2: "demands (res_and (item_eq context ''scope'' (JStr ''private-azd-install-v1'')) (item_eq context ''bundle_sha256'' (JStr (path_name (path_parent p))))) = Inr ()"
      and 3: "read_bytes (path_join (path_parent p) ''bundle.json'') h2 = (Inr manifest, h3)" "demands (item_eq context ''bundle_sha256'' (JStr (sha256_hex manifest))) = Inr ()"
      and 4: "load_json py manifest = Inr v" "item_of v ''files'' = Inr ms" "items_of ms = Inr files"
      and 5: "check_bundle_files (path_parent p) files h3 = (Inr (), h1)"
    using assms unfolding verified_def Let_def by (auto simp: sx_simps res_simps demand_def)
  have c: "item_eq context ''scope'' (JStr ''private-azd-install-v1'') = Inr True" "item_eq context ''bundle_sha256'' (JStr (path_name (path_parent p))) = Inr True"
    using 2 by (auto simp: demands_True res_and_def res_simps split: if_splits)
  show "\<exists>raw. bundle = path_parent p \<and> holds h p raw \<and> sha256_hex raw = digest \<and> load_json py raw = Inr context
     \<and> item_eq context ''scope'' (JStr ''private-azd-install-v1'') = Inr True"
    using b 1 c(1) read_Inr(1) [OF 1(1)] by blast
  have i: "idles h h2" "idles h2 h3" by (rule read_Inr(2) [OF 1(1)], rule read_Inr(2) [OF 3(1)])
  have "sha256_hex manifest = path_name (path_parent p)"
    using c(2) 3(2) by (auto simp: demands_True item_eq_def res_simps py_eq_JStr)
  then show "\<exists>manifest v files. holds h (path_join (path_parent p) ''bundle.json'') manifest \<and> sha256_hex manifest = path_name (path_parent p)
     \<and> load_json py manifest = Inr v \<and> item_of v ''files'' = Inr (JObj files)
     \<and> list_all (\<lambda>(name, metadata). \<exists>b. holds h (path_join (path_parent p) name) b \<and> item_eq metadata ''sha256'' (JStr (sha256_hex b)) = Inr True) files"
    using 4 files_Inr [OF 5] read_Inr(1) [OF 3(1)] by (auto simp: items_obj holds_idles [OF i(1)] holds_idles [OF i(2)])
qed


lemma guest_Inr:
  assumes "attest_guest e target h = (Inr (), h1)"
  shows "\<exists>x answer metadata. fst (in_metadata e METADATA_URL x) = Inr answer \<and> load_json (in_py e) answer = Inr metadata \<and> guest_checks metadata target = Inr ()"
proof -
  obtain r h2 where 1: "outside (in_metadata e METADATA_URL) h = (Inr r, h2)" and 2: "\<exists>answer metadata. r = Inr answer \<and> load_json (in_py e) answer = Inr metadata \<and> guest_checks metadata target = Inr ()"
    using assms unfolding attest_guest_def by (auto simp: sx_simps)
  from 1 have "r = fst (in_metadata e METADATA_URL (ext (h_world h)))" by (auto simp: outside_def split: prod.splits)
  with 2 show ?thesis by metis
qed

lemma admit_Inr:
  assumes "admit_install e p digest h = (Inr (context, bundle, work), h1)"
  shows "admitted_install e p digest h" "bundle = path_parent p"
proof -
  obtain h2 h3 target h4 en where root: "sg_euid (in_stage e) = 0" "in_machine e = ''x86_64''" and u: "set_umask 63 h = (Inr (), h2)"
      and v: "verified (in_py e) p digest h2 = (Inr (context, bundle), h3)" and t: "item_of context ''target'' = Inr target" "validate_target target = Inr ()"
      and g: "attest_guest e target h3 = (Inr (), h4)" and en: "text_item target ''EnvironmentName'' = Inr en"
      and free: "\<not> path_exists h4 (path_join SETUP_ROOT (''private-runtime-'' @ en))" "\<not> path_exists h4 UNIT"
    using assms unfolding admit_install_def Let_def by (auto simp: sx_simps demand_def res_simps)
  have i: "idles h h2" "idles h2 h3" "idles h3 h4"
    by (rule idles.keepsD [OF idles_umask u], rule idles.keepsD [OF idles_verified v], rule idles.keepsD [OF idles_guest g])
  have m: "holds h2 q b \<longleftrightarrow> holds h q b" "path_exists h4 q \<longleftrightarrow> path_exists h q" for q b
    using holds_idles i by blast+
  show "bundle = path_parent p" using verified_Inr(1) [OF v] by blast
  show "admitted_install e p digest h"
    unfolding admitted_install_def using root t en free verified_Inr [OF v] guest_Inr [OF g] unfolding m by blast
qed

text \<open>
  C35: the installer acts only where it is meant to, and once.  A run leaves every file and the
  history of programs as they were, or: it runs as root on the expected architecture, the context
  file has the selected digest and names a valid target, the metadata service has confirmed that
  this is the machine, every file of the bundle has the digest of the bundle's manifest, there is
  no earlier runtime and no unit, and no earlier run has reserved the bundle.
\<close>

theorem install_only_admitted:
  "idles h (snd (install e p digest h))
   \<or> admitted_install e p digest h \<and> \<not> path_exists h (path_join (path_parent p) ''install-evidence'')"
proof -
  obtain r1 h1 where 1: "admit_install e p digest h = (r1, h1)" by fastforce
  have i: "idles h h1" by (rule idles.keepsD [OF idles_admit 1])
  show ?thesis
  proof (cases r1)
    case (Inl x)
    with 1 i show ?thesis by (simp add: install_def sx_bind_def)
  next
    case (Inr v)
    obtain ctx bnd work where v: "v = (ctx, bnd, work)" by (metis prod.collapse)
    note a = admit_Inr [OF 1 [unfolded Inr v]]
    obtain r2 h2 where 2: "mkdir (path_join bnd ''install-evidence'') 448 False h1 = (r2, h2)" by fastforce
    show ?thesis
    proof (cases r2)
      case (Inl x)
      then have "h2 = called h1" using mkdir_failed 2 by blast
      then have "idles h h2" using i by (simp add: idles_def)
      then show ?thesis using 1 2 Inl \<open>r1 = Inr v\<close> v by (simp add: install_def sx_bind_def Let_def)
    next
      case (Inr u)
      then have "\<not> path_exists h1 (path_join bnd ''install-evidence'')" using mkdir_was_free 2 by (metis old.unit.exhaust)
      then show ?thesis using a holds_idles(2) [OF i] by simp
    qed
  qed
qed

end
