(* ===== verification/Image_Transition.thy ===== *)
theory Image_Transition
  imports Eval_Prepare
begin

text \<open>
  The synthetic fixture of the live tests (\<open>validate_fixture\<close> and \<open>load_fixture\<close> of
  \<open>experiments/server/test_live_zentral.py\<close>), the image-only transition of a runtime
  (\<open>transition\<close> of \<open>upgrade_core_runtime.py\<close>) and the selection of a runtime to resume
  (\<open>resume_runtime.py\<close>).
\<close>

section \<open>Fixtures\<close>

definition RULE_COUNT :: nat where
  "RULE_COUNT = 6"

definition is_fixture_name :: "string \<Rightarrow> bool" where
  \<comment> \<open>\<open>azd-synthetic-[0-9a-f]{24}\<close>\<close>
  "is_fixture_name s \<longleftrightarrow> startswith s ''azd-synthetic-'' \<and> is_hex_n 24 (drop 14 s)"

definition is_fixture_uuid :: "string \<Rightarrow> bool" where
  \<comment> \<open>\<open>UUID_PATTERN\<close>\<close>
  "is_fixture_uuid s \<longleftrightarrow> startswith s ''00000000-0000-4000-8000-'' \<and> is_hex_n 12 (drop 24 s)"

definition positive_id :: "json \<Rightarrow> string \<Rightarrow> bool res" where
  \<comment> \<open>\<open>type(v.get(k)) is int and v[k] > 0\<close>\<close>
  "positive_id v k = res_bind (get_or v k JNull) (\<lambda>x. Inr (case x of JInt i \<Rightarrow> i > 0 | _ \<Rightarrow> False))"

definition is_object :: "json \<Rightarrow> bool" where
  "is_object v = (case v of JObj _ \<Rightarrow> True | _ \<Rightarrow> False)"

definition fixture_device :: "string \<Rightarrow> nat \<Rightarrow> json \<Rightarrow> unit res" where
  "fixture_device name index device =
     res_bind (demands (all_of [Inr (is_object device), res_bind (get_or device ''uuid'' (JStr [])) (full_match is_fixture_uuid),
        get_is device ''serial'' JNull (JStr (name @ ''-'' @ show_nat index)),
        res_bind (get_or device ''secret'' (JStr [])) (full_match (fullmatch_n is_alnum 64))])) (\<lambda>_.
     res_bind (demands (positive_id device ''enrollment_id'')) (\<lambda>_. demands (positive_id device ''secret_id'')))"

fun fixture_devices :: "string \<Rightarrow> nat \<Rightarrow> json list \<Rightarrow> unit res" where
  "fixture_devices name index [] = Inr ()"
| "fixture_devices name index (d # ds) = res_bind (fixture_device name index d) (\<lambda>_. fixture_devices name (Suc index) ds)"

definition fixture_identifiers :: "string \<Rightarrow> string list" where
  "fixture_identifiers name = map (\<lambda>i. sha256_hex (name @ '':'' @ show_nat i)) [0..<RULE_COUNT]"

definition validate_fixture :: "json \<Rightarrow> string \<Rightarrow> unit res" where
  "validate_fixture data compose_hash =
     res_bind (demands (all_of [Inr (is_object data), get_is data ''scope'' JNull (JStr ''synthetic-loopback-only''),
        get_is data ''commit'' JNull (JStr COMMIT), get_is data ''compose_sha256'' JNull (JStr compose_hash)])) (\<lambda>_.
     res_bind (demands (res_bind (get_or data ''name'' (JStr [])) (full_match is_fixture_name))) (\<lambda>_.
     res_bind (text_item data ''name'') (\<lambda>name.
     res_bind (get_or data ''devices'' (JArr [])) (\<lambda>l.
     res_bind (len_of l) (\<lambda>n.
     res_bind (demand (n = 2)) (\<lambda>_.
     res_bind (iter_of l) (\<lambda>devices.
     res_bind (fixture_devices name 0 devices) (\<lambda>_.
     res_bind (res_map (\<lambda>d. item_of d ''uuid'') devices) (\<lambda>us.
     res_bind (demand (distinct us)) (\<lambda>_.
     res_bind (res_map (\<lambda>d. item_of d ''secret'') devices) (\<lambda>ss.
     res_bind (demand (distinct ss)) (\<lambda>_.
     res_bind (demands (get_is data ''identifiers'' JNull (strs (fixture_identifiers name)))) (\<lambda>_.
     res_bind (demands (positive_id data ''configuration_id'')) (\<lambda>_.
       demands (positive_id data ''meta_business_unit_id'')))))))))))))))"

definition load_fixture :: "py_env \<Rightarrow> path \<Rightarrow> string \<Rightarrow> ('w host, json) sx" where
  "load_fixture e p compose_hash =
     sx_bind (look (\<lambda>h. lstat_of h p)) (\<lambda>info.
     sx_bind (sx_lift (demand (regular info))) (\<lambda>_.
     sx_bind (sx_lift (demand (st_size info \<le> 65536))) (\<lambda>_.
     sx_bind (sx_lift (demand (n_mode info = 384))) (\<lambda>_.
     sx_bind (read_text p) (\<lambda>t.
     sx_bind (sx_lift (load_text e t)) (\<lambda>data.
     sx_bind (sx_lift (validate_fixture data compose_hash)) (\<lambda>_. sx_return data)))))))"

section \<open>The transition\<close>

fun set_images :: "json \<Rightarrow> string \<Rightarrow> string list \<Rightarrow> json \<Rightarrow> json res" where
  \<comment> \<open>the first argument is the prior image of the application\<close>
  "set_images prior img [] v = Inr v"
| "set_images prior img (name # names) v =
     res_bind (image_of v name) (\<lambda>x.
     res_bind (demand (py_eq x prior)) (\<lambda>_.
     res_bind (set_at [''services'', name, ''image''] (JStr img) v) (set_images prior img names)))"

definition is_label :: "string \<Rightarrow> bool" where
  \<comment> \<open>\<open>[a-z0-9-]{2,24}\<close>\<close>
  "is_label = fullmatch_range (\<lambda>c. is_lower c \<or> is_digit c \<or> c = CHR ''-'') 2 24"

definition write_pretty :: "py_env \<Rightarrow> path \<Rightarrow> json \<Rightarrow> ('w host, unit) sx" where
  \<comment> \<open>\<open>write_private\<close>\<close>
  "write_pretty e p v = write_new p (pretty e 0 (jsort v)) 384"

definition transition_receipt :: "string \<Rightarrow> string \<Rightarrow> json \<Rightarrow> string \<Rightarrow> json \<Rightarrow> string \<Rightarrow> json" where
  "transition_receipt old_hash new_hash prior img prj boot_id = JObj
     [(''scope'', JStr ''private-synthetic-image-only-transition''), (''old_compose_sha256'', JStr old_hash), (''new_compose_sha256'', JStr new_hash),
      (''old_image'', prior), (''new_image'', JStr img), (''project'', prj), (''fixture_identity_preserved'', JBool True),
      (''boot_id'', JStr boot_id), (''status'', JStr ''prepared; runtime and persistence not yet verified'')]"

definition receipt_name :: "string \<Rightarrow> string" where
  "receipt_name label = (if label = ''stores'' then ''image-transition.json'' else ''image-transition-'' @ label @ ''.json'')"

definition transition :: "py_env \<Rightarrow> path \<Rightarrow> path \<Rightarrow> string \<Rightarrow> string \<Rightarrow> string \<Rightarrow> ('w host, path \<times> path) sx" where
  "transition e old fixture_path img boot_id label =
     sx_bind (sx_lift (demand (is_label label))) (\<lambda>_.
     sx_bind (validate_compose e old) (\<lambda>(old_path, old_hash).
     sx_bind (load_fixture e fixture_path old_hash) (\<lambda>fixture.
     sx_bind (sx_lift (demand (is_sha_ref img))) (\<lambda>_.
     sx_bind (read_text old_path) (\<lambda>t.
     sx_bind (sx_lift (load_text e t)) (\<lambda>original.
     sx_bind (sx_lift (image_of original ''web'')) (\<lambda>prior.
     sx_bind (sx_lift (set_images prior img APPS original)) (\<lambda>updated.
     sx_bind (sx_lift (demand (\<not> py_eq updated original))) (\<lambda>_.
       let target = with_name old_path (''compose-'' @ label @ ''.json'');
           target_fixture = with_name old_path (''synthetic-fixture-'' @ label @ ''.json'');
           receipt = with_name old_path (receipt_name label) in
     sx_bind (look (\<lambda>h. res_guard (list_all (\<lambda>p. \<not> path_exists h p \<and> \<not> is_symlink h p) [target, target_fixture, receipt]) FileExistsError)) (\<lambda>_.
     sx_bind (write_pretty e target updated) (\<lambda>_.
     sx_bind (validate_compose e target) (\<lambda>(_, new_hash).
     sx_bind (sx_lift (set_at [''compose_sha256''] (JStr new_hash) fixture)) (\<lambda>updated_fixture.
     sx_bind (write_pretty e target_fixture updated_fixture) (\<lambda>_.
     sx_bind (sx_lift (item_of original ''name'')) (\<lambda>prj.
     sx_bind (write_pretty e receipt (transition_receipt old_hash new_hash prior img prj boot_id)) (\<lambda>_.
       sx_return (target, target_fixture)))))))))))))))))"

section \<open>Resuming\<close>

definition validate_selection :: "py_env \<Rightarrow> path \<Rightarrow> path \<Rightarrow> string \<Rightarrow> ('w host, path \<times> string) sx" where
  "validate_selection e compose0 fixture0 expected_image =
     sx_bind (sx_lift (demand (is_sha_ref expected_image))) (\<lambda>_.
     sx_bind (validate_compose e compose0) (\<lambda>(compose, digest).
     sx_bind (look (\<lambda>h. resolve h fixture0)) (\<lambda>fixture.
     sx_bind (sx_lift (demand (path_parent fixture = path_parent compose))) (\<lambda>_.
     sx_bind (load_fixture e fixture digest) (\<lambda>_.
     sx_bind (read_text compose) (\<lambda>t.
     sx_bind (sx_lift (load_text e t)) (\<lambda>data.
     sx_bind (sx_lift (demands (res_all (\<lambda>name. res_bind (image_of data name) (\<lambda>x. Inr (py_eq x (JStr expected_image)))) APPS))) (\<lambda>_.
       sx_return (compose, digest)))))))))"

definition RESUME_ROOT :: path where
  "RESUME_ROOT = py_path ''/var/lib/azd-santa-qualification/runtime-fixed''"

definition resume_main :: "py_env \<Rightarrow> string \<Rightarrow> string \<Rightarrow> string \<Rightarrow> bool \<Rightarrow> ('x chost, unit) sx" where
  \<comment> \<open>the script after its arguments are parsed\<close>
  "resume_main e compose0 fixture0 img project_name =
     sx_bind (validate_selection e (py_path compose0) (py_path fixture0) img) (\<lambda>(compose, digest).
     sx_bind (sx_lift (demand (path_parent compose = RESUME_ROOT))) (\<lambda>_.
       if project_name
       then sx_bind (read_text compose) (\<lambda>t.
            sx_bind (sx_lift (res_bind (load_text e t) (\<lambda>v. text_item v ''name''))) say)
       else say (''SANTA_EXPLICIT_RUNTIME_BINDING_OK '' @ digest)))"

end
