(* ===== verification/Transition_Facts.thy ===== *)
theory Transition_Facts
  imports Image_Transition Eval_Facts
begin

text \<open>
  An image transition adds three files and changes nothing else on disk, and in the configuration
  it writes only the images of the three application services differ from the old one.
\<close>

lemma item_obj: "item_of (JObj ms) k = (case dget ms k of None \<Rightarrow> Inl KeyError | Some v \<Rightarrow> Inr v)"
  by (simp split: option.splits)

lemma set_at_item:
  assumes "set_at (k # ks) x v = Inr w"
  shows "j \<noteq> k \<Longrightarrow> item_of w j = item_of v j" "ks = [] \<Longrightarrow> item_of w k = Inr x"
    "ks \<noteq> [] \<Longrightarrow> \<exists>u u'. item_of v k = Inr u \<and> set_at ks x u = Inr u' \<and> item_of w k = Inr u'"
  using assms by (auto simp: res_simps split: json.splits if_splits option.splits)

definition member_at :: "json \<Rightarrow> string \<Rightarrow> string \<Rightarrow> json res" where
  \<comment> \<open>\<open>v['services'][n][k]\<close>\<close>
  "member_at v n k = res_bind (service_of v n) (\<lambda>s. item_of s k)"

definition images_only :: "string set \<Rightarrow> json \<Rightarrow> json \<Rightarrow> bool" where
  \<comment> \<open>every member of every service but the images of these services is the same, and every other member of the document\<close>
  "images_only N v w \<longleftrightarrow> (\<forall>k. k \<noteq> ''services'' \<longrightarrow> item_of w k = item_of v k)
     \<and> (\<forall>n. n \<notin> N \<longrightarrow> service_of w n = service_of v n) \<and> (\<forall>n k. k \<noteq> ''image'' \<longrightarrow> member_at w n k = member_at v n k)"

lemma images_only_refl: "images_only N v v"
  by (simp add: images_only_def)

lemma images_only_trans: "images_only N u v \<Longrightarrow> images_only N v w \<Longrightarrow> images_only N u w"
  by (simp add: images_only_def)

lemma images_only_mono: "images_only N v w \<Longrightarrow> N \<subseteq> M \<Longrightarrow> images_only M v w"
  by (auto simp: images_only_def)

lemma set_image:
  assumes "set_at [''services'', n, ''image''] x v = Inr w"
  shows "images_only {n} v w" "image_of w n = Inr x" "m \<noteq> n \<Longrightarrow> image_of w m = image_of v m"
proof -
  obtain ss ss' where 1: "item_of v ''services'' = Inr ss" "set_at [n, ''image''] x ss = Inr ss'" "item_of w ''services'' = Inr ss'"
    using set_at_item(3) [OF assms] by auto
  obtain s s' where 2: "item_of ss n = Inr s" "set_at [''image''] x s = Inr s'" "item_of ss' n = Inr s'"
    using set_at_item(3) [OF 1(2)] by auto
  have other: "service_of w m = service_of v m" if "m \<noteq> n" for m
    using that 1 set_at_item(1) [OF 1(2)] by (simp add: service_of_def)
  have mine: "service_of v n = Inr s" "service_of w n = Inr s'" using 1 2 by (simp_all add: service_of_def)
  have "member_at w m k = member_at v m k" if "k \<noteq> ''image''" for m k
    using that mine other set_at_item(1) [OF 2(2)] by (cases "m = n") (simp_all add: member_at_def)
  then show "images_only {n} v w" using set_at_item(1) [OF assms] other by (simp add: images_only_def)
  show "image_of w n = Inr x" using mine set_at_item(2) [OF 2(2)] by (simp add: image_of_def)
  show "image_of w m = image_of v m" if "m \<noteq> n" using other [OF that] by (simp add: image_of_def)
qed

lemma set_images_only:
  "distinct names \<Longrightarrow> set_images prior img names v = Inr w \<Longrightarrow>
     images_only (set names) v w \<and> (\<forall>n \<in> set names. image_of w n = Inr (JStr img)) \<and> (\<forall>n. n \<notin> set names \<longrightarrow> image_of w n = image_of v n)"
proof (induction names arbitrary: v)
  case (Cons n names)
  from Cons(3) obtain u where u: "set_at [''services'', n, ''image''] (JStr img) v = Inr u" "set_images prior img names u = Inr w"
    by (auto simp: res_simps)
  have ih: "images_only (set names) u w" "\<forall>m \<in> set names. image_of w m = Inr (JStr img)" "\<forall>m. m \<notin> set names \<longrightarrow> image_of w m = image_of u m"
    using Cons(1) [OF _ u(2)] Cons(2) by auto
  have "images_only (set (n # names)) v u" "images_only (set (n # names)) u w"
    by (rule images_only_mono [OF set_image(1) [OF u(1)]], simp, rule images_only_mono [OF ih(1)], auto)
  then have "images_only (set (n # names)) v w" by (rule images_only_trans)
  moreover have "image_of w n = Inr (JStr img)" using ih(3) Cons(2) set_image(2) [OF u(1)] by auto
  ultimately show ?case using ih set_image(3) [OF u(1)] by auto
qed (simp add: images_only_refl)

section \<open>What a transition writes\<close>

lemma keeps_compose: "grows.keeps (validate_compose e p)"
  unfolding validate_compose_def by (intro grows.keeps_bind grows.keeps_lift grows.keeps_return keeps_look keeps_read)

lemma keeps_fixture: "grows.keeps (load_fixture e p d)"
  unfolding load_fixture_def by (intro grows.keeps_bind grows.keeps_lift grows.keeps_return keeps_look keeps_read_text)

lemma keeps_transition: "grows.keeps (transition e old fx img boot label)"
  unfolding transition_def write_pretty_def Let_def
  by (intro grows.keeps_bind grows.keeps_lift grows.keeps_return keeps_look keeps_read_text keeps_compose keeps_fixture keeps_write_new
      | simp only: split_paired_all prod.case)+

text \<open>
  A transition keeps every existing file.  When it returns, the old configuration passed the
  validator, what it wrote is a configuration in which only the images of the application
  services differ, each of them the selected image, and the file with it passed the validator.
\<close>

theorem transition_images_only:
  fixes h :: "'w host"
  shows "fs_grows h (snd (transition e old fx img boot label h))
   \<and> (case fst (transition e old fx img boot label h) of Inl _ \<Rightarrow> True
      | Inr (target, target_fixture) \<Rightarrow>
          \<exists>original updated prior new_path new_hash (h1 :: 'w host) h2 h3. images_only (set APPS) original updated
            \<and> (\<forall>n \<in> set APPS. image_of updated n = Inr (JStr img)) \<and> image_of original ''web'' = Inr prior
            \<and> write_pretty e target updated h1 = (Inr (), h2) \<and> validate_compose e target h2 = (Inr (new_path, new_hash), h3))"
proof -
  have "fs_grows h (snd (transition e old fx img boot label h))" by (rule grows.keepsD [OF keeps_transition prod.collapse [symmetric]])
  moreover have "\<exists>original updated prior new_path new_hash (h1 :: 'w host) h2 h3. images_only (set APPS) original updated
            \<and> (\<forall>n \<in> set APPS. image_of updated n = Inr (JStr img)) \<and> image_of original ''web'' = Inr prior
            \<and> write_pretty e target updated h1 = (Inr (), h2) \<and> validate_compose e target h2 = (Inr (new_path, new_hash), h3)"
    if run: "transition e old fx img boot label h = (Inr (target, tf), h')" for target tf h'
  proof -
    obtain original prior updated new_path new_hash and h1 h2 h3 :: "'w host" where 1: "set_images prior img APPS original = Inr updated" "image_of original ''web'' = Inr prior"
        "write_pretty e target updated h1 = (Inr (), h2)" "validate_compose e target h2 = (Inr (new_path, new_hash), h3)"
      using run unfolding transition_def Let_def by (auto simp: sx_bind_Inr_iff sx_lift_iff sx_return_iff)
    have "distinct APPS" by (simp add: APPS_def)
    from set_images_only [OF this 1(1)] 1(2-4) show ?thesis by blast
  qed
  ultimately show ?thesis by (auto split: sum.splits prod.splits) (metis prod.collapse)
qed

end
