(* ===== verification/Spec2Isabelle.thy ===== *)
theory Spec2Isabelle
  imports Sync_Decode Durable_Roundtrip Request_Limits_Facts Admission_Props
    Operator_Facts Sealed_Facts Recovery_Facts Transport_Facts Runtime_Props Setup_Props Readback_Facts Eval_Facts Database_Facts
    Stage_Facts Install_Facts Transition_Facts
begin

text \<open>
  Verification of azd-santa: the synchronisation spike under \<open>tools/sync_spike\<close> and the server
  experiments under \<open>experiments/server\<close>.  The repository prepares a self-hosted synchronisation
  server for Santa, a macOS execution control agent, on one virtual machine.  Python code of the
  repository runs in three places: a loopback model of the protocol with a durable state; modules
  that are put into the containers of an upstream web application (request limits, sync
  admission, operator policy, recovery, sealed setup, database roles); and privileged scripts on
  the host (generator, staging, installer with its relay, runtime service, operator setup,
  readback).

  \<^bold>\<open>Vocabulary.\<close>  \<open>Prelude\<close> has exceptions as values (\<open>exn\<close>, results \<open>exn + 'a\<close>), steps that
  thread a state and keep it when they raise (\<open>('s, 'a) sx\<close>), ordered dictionaries, and the two
  contracts nearly every component uses: the locale \<open>frame\<close> (a preorder that every step of an
  operation respects, closed under sequencing and exception handling) and the locale
  \<open>invariant_steps\<close> (a step relation with an invariant, lifted to runs).  Each component
  interprets them on its own state.  \<open>Py_Text\<close>, \<open>Py_Numerals\<close>, \<open>Py_Url\<close>, \<open>Py_Objects\<close> and
  \<open>Ip_Address\<close> model what the code uses of Python's text, integers, URLs, dictionaries and the
  \<open>ipaddress\<close> module; a \<open>str\<close> is the list of bytes of its UTF-8 encoding.  \<open>Digests\<close> has SHA-256,
  HMAC and base64 on 32-bit words and bytes, with the base64 round trip.  \<open>Json\<close> has the decoder
  and the encoder; \<open>Json_Facts\<close> shows that decoding consumes text and never runs out of fuel,
  \<open>Json_Roundtrip\<close> that decoding gives back what the compact encoder printed, and \<open>Json_Layout\<close>
  the same for every layout of a document, the indented one included.

  \<^bold>\<open>Sync model\<close> (\<open>tools/sync_spike/model.py\<close>).  \<open>Sync_Model\<close> holds the body decoder, snapshots, class
  \<open>Model\<close> (record \<open>model\<close>, one definition per stage, cursors) and the HTTP handler.  \<open>Sync_Decode\<close>
  shows what decoded bodies obey, \<open>Sync_Safety\<close> which part of the state a request may touch and
  the invariants of every run, \<open>Sync_Paging\<close> the integrity of cursors and that a well-behaved
  client receives exactly the published rules and is then acknowledged.

  \<^bold>\<open>Durable state\<close> (\<open>durable.py\<close>, \<open>vm_probe.py\<close>).  \<open>Durable_State\<close> models the SQLite state with its
  transactions, any statement of which may fail.  \<open>Durable_Facts\<close> shows that the state only moves
  forward across failures and restarts and that an acknowledged postflight is on disk;
  \<open>Durable_Roundtrip\<close> that a published snapshot reads back.

  \<^bold>\<open>Request limits\<close> (\<open>santa_request_limits.py\<close>): \<open>Request_Limits\<close>, \<open>Request_Limits_Facts\<close>.  The
  bounded nesting scan protects the decoder, what is decoded is within the limits, and no
  exception but a rejection with its status escapes.

  \<^bold>\<open>Sync admission and security store\<close> (\<open>santa_admission.py\<close>, \<open>operator_mfa.py\<close>).  \<open>Redis_Store\<close>
  states the commands of the Lua scripts as the locale \<open>redis_laws\<close>, interpreted on an in-memory
  store with expiry.  \<open>Admission\<close> and \<open>Security_Store\<close> are the scripts and their callers;
  \<open>Admission_Facts\<close>, \<open>Admission_Props\<close> and \<open>Security_Facts\<close> show, for any interleaving of workers
  and any failing call, mutual exclusion, rate limits, permits, one-time claims and budgets.

  \<^bold>\<open>Operator policy, recovery, sealed setup\<close> (\<open>operator_mfa.py\<close>, \<open>operator_recovery.py\<close>,
  \<open>sealed_setup.py\<close>): \<open>Operator_Mfa\<close> with \<open>Operator_Facts\<close>, \<open>Operator_Recovery\<close> with
  \<open>Recovery_Facts\<close>, \<open>Sealed_Setup\<close> with \<open>Sealed_Facts\<close>.  An operator needs a fresh proof;
  a reset refines an all-or-nothing specification and reports the phase it reached, whichever
  statement, commit or write fails; an envelope fits its bound.  Django, the one-time code
  library and the cryptographic library are parameters.

  \<^bold>\<open>The host.\<close>  \<open>Host_Files\<close> has paths, a file system with links, owners and modes, and calls that
  may fail, a failing write leaving any prefix; \<open>Host_Tools\<close> the comparisons, text files and
  subprocesses the privileged scripts share; \<open>New_Places\<close> where created files are.  The state of
  a script is the host with a history of the programs it ran and what it printed (\<open>chost\<close>).

  \<^bold>\<open>Generator, staging and installer.\<close>  \<open>Eval_Prepare\<close> (\<open>prepare_zentral_eval.py\<close>) generates the files
  of a runtime; \<open>Eval_Facts\<close> shows that the Compose file is accepted by each of the three programs
  that check it later.  \<open>Stage_Runtime\<close> (\<open>stage_runtime.py\<close>) stages a runtime; \<open>Stage_Facts\<close> shows
  that it runs only programs of a closed list, initialises a destination at most once over every
  history, and returns only after its checks.  \<open>Private_Install\<close> (\<open>private_install.py\<close>) composes
  generator, staging and runtime service; \<open>Install_Facts\<close> shows when it acts at all.
  \<open>Install_Transport\<close> (\<open>private_install_transport.py\<close>) relays the installer; \<open>Transport_Facts\<close> shows
  that it is submitted at most once.  \<open>Image_Transition\<close> (\<open>upgrade_core_runtime.py\<close>,
  \<open>resume_runtime.py\<close>, the fixtures of \<open>test_live_zentral.py\<close>) with \<open>Transition_Facts\<close>.

  \<^bold>\<open>Database roles\<close> (\<open>database_roles.py\<close>): \<open>Database_Roles\<close> with \<open>Env_Lines\<close> and \<open>Database_Facts\<close>.
  PostgreSQL and the migrations answer statements; the role is created at most once per receipt
  and completion is recorded only after the nine checks of the restricted role.

  \<^bold>\<open>Runtime service\<close> (\<open>runtime_service.py\<close>).  \<open>Runtime_Bundle\<close> has the selection, the manifest and the
  unit, \<open>Runtime_Service\<close> and \<open>Runtime_Supervisor\<close> class \<open>Runtime\<close> (record \<open>runtime\<close>), start, stop,
  reconciliation and supervision.  \<open>Runtime_Frame\<close> proves once, in the locales \<open>step_frame\<close>,
  \<open>runtime_host\<close>, \<open>runtime_base\<close> and \<open>runtime_laws\<close>, what every operation has in common; \<open>Runtime_Facts\<close>,
  \<open>Runtime_Traces\<close> and \<open>Runtime_Props\<close> interpret them for files, clock and history: nothing existing
  is changed, supervision ends, only anchored containers are stopped, applications start only
  after the checks, and admission is reconciled only behind stopped applications.

  \<^bold>\<open>Operator setup and readback\<close> (\<open>operator_setup_host.py\<close>, \<open>installation_readback.py\<close>).  \<open>Setup_Host\<close>
  and \<open>Installation_Readback\<close> are the scripts; \<open>Setup_Binding\<close>, \<open>Setup_Facts\<close>, \<open>Setup_Props\<close> and
  \<open>Readback_Facts\<close> show that an account is changed at most once per request context, that host
  and container compute the same digests and exchange exactly the sealed envelope, and that a
  readback only observes.

  \<^bold>\<open>Bounds and fuel.\<close>  \<open>Diverge\<close> is the result of a recursion without fuel.  The JSON decoder gets
  \<open>parse_fuel\<close>, twice the length of the text and two more, which always suffices because every step consumes
  text; its nesting bound \<open>nest_limit\<close> is the interpreter's and a parameter.  A path follows at most
  \<open>max_links\<close> = 40 links, as the kernel does.  A wait of \<open>n\<close> seconds has \<open>wait_rounds n\<close> = \<open>n div 2 + 2\<close>
  rounds, enough on a clock that never goes back because a round sleeps two seconds; the watch of
  the supervisor has the number of rounds until the stop signal.  These are proved for the runtime
  service and for staging.

  \<^bold>\<open>Parameters.\<close>  The programs of the machine (docker, systemd, dpkg, sysctl), the metadata service,
  Redis, PostgreSQL, Django, gzip, the cryptographic library, random tokens, clocks and signals are
  arguments of the definitions.  What a theorem needs of them is a named hypothesis about
  documented behaviour: \<open>redis_laws\<close>, \<open>steady\<close>, \<open>stage_clock\<close>, \<open>programs_add\<close>.

  \<^bold>\<open>Not modelled.\<close>  The preparation of the upstream build (\<open>prepare_core_build.py\<close>, \<open>prepare_source.py\<close>,
  \<open>prepare_operator_mfa.py\<close>, \<open>prepare_operator_recovery.py\<close>, \<open>prepare_request_limits.py\<close>,
  \<open>prepare_database_roles.py\<close>, \<open>prepare_https_proxy.py\<close>) patches the sources of another project,
  which are not in the repository, so that its meaning cannot be stated here; in the installer the
  two modules it runs are parameters.  Qualification runs and live tests drive a running system
  and have no state of their own.  PowerShell, shell, Bicep and profile templates are not Python.
  Within modelled files the argument parsers, the alarm signals of two scripts and the handlers
  that refuse redirects are left out; an interruption is a failing call instead.
\<close>

end
